(* ===== verification/Prelude.thy ===== *)
theory Prelude
  imports Main "HOL-Library.AList"
begin

section \<open>Shared vocabulary of the development\<close>

text \<open>
  What every component uses: Go maps as association lists, Go's two-valued returns as a sum,
  the lens that lets an operation on one store run on the state of the whole server, and the
  collections of simplification rules the component proofs draw on.

  A Go map is a list of key/value pairs. Lookup is \<open>map_of\<close>, assignment is
  \<open>AList.update\<close> (which keeps the position of a key that is present and appends a new
  one), and \<open>delete\<close> is \<open>AList.delete\<close>. A \<open>range\<close> loop visits the pairs in the order of the
  list. Go leaves that order open; the theorems quantify over every list, so nothing is
  assumed of it.
\<close>

named_theorems gomap_simps \<open>lookup after an update, a deletion or a loop over a Go map\<close>
named_theorems handler_defs \<open>definitions that make up the HTTP handlers\<close>
named_theorems store_defs \<open>definitions of the in-memory store operations\<close>

type_synonym ('k, 'v) gomap = "('k \<times> 'v) list"

abbreviation gm_get :: "('k, 'v) gomap \<Rightarrow> 'k \<Rightarrow> 'v option" where
  "gm_get \<equiv> map_of"

abbreviation gm_put :: "'k \<Rightarrow> 'v \<Rightarrow> ('k, 'v) gomap \<Rightarrow> ('k, 'v) gomap" where
  "gm_put \<equiv> AList.update"

abbreviation gm_del :: "'k \<Rightarrow> ('k, 'v) gomap \<Rightarrow> ('k, 'v) gomap" where
  "gm_del \<equiv> AList.delete"

text \<open>The loop \<open>for k, v := range m { m[k] = f(k, v) }\<close>.\<close>

definition gm_map :: "('k \<Rightarrow> 'v \<Rightarrow> 'v) \<Rightarrow> ('k, 'v) gomap \<Rightarrow> ('k, 'v) gomap" where
  "gm_map f m = map (\<lambda>(k, v). (k, f k v)) m"

text \<open>The loop \<open>for k, v := range m { if !keep(k, v) { delete(m, k) } }\<close>.\<close>

definition gm_filter :: "('k \<Rightarrow> 'v \<Rightarrow> bool) \<Rightarrow> ('k, 'v) gomap \<Rightarrow> ('k, 'v) gomap" where
  "gm_filter keep m = filter (\<lambda>(k, v). keep k v) m"

abbreviation gm_wf :: "('k, 'v) gomap \<Rightarrow> bool" where
  "gm_wf m \<equiv> distinct (map fst m)"

lemma gm_get_put [simp, gomap_simps]: "gm_get (gm_put k v m) = (gm_get m)(k \<mapsto> v)"
  by (simp add: update_conv')

lemma gm_get_del [simp, gomap_simps]: "gm_get (gm_del k m) = (gm_get m)(k := None)"
  by (simp add: delete_conv')

lemma gm_get_map [simp, gomap_simps]: "gm_get (gm_map f m) k = map_option (f k) (gm_get m k)"
  by (induction m) (auto simp: gm_map_def)

lemma gm_get_filter:
  assumes "gm_wf m"
  shows "gm_get (gm_filter keep m) k =
    (case gm_get m k of None \<Rightarrow> None | Some v \<Rightarrow> if keep k v then Some v else None)"
  using assms
proof (induction m)
  case Nil
  show ?case by (simp add: gm_filter_def)
next
  case (Cons p m)
  obtain k' v' where p: "p = (k', v')" by (cases p)
  have none: "k' = k \<Longrightarrow> gm_get m k = None"
    using Cons.prems by (auto simp: p map_of_eq_None_iff)
  show ?case
    using Cons none by (cases "gm_get m k") (auto simp: p gm_filter_def)
qed

lemma map_fst_gm_map [simp]: "map fst (gm_map f m) = map fst m"
  by (induction m) (auto simp: gm_map_def)

lemma gm_wf_put [simp]: "gm_wf m \<Longrightarrow> gm_wf (gm_put k v m)"
  by (rule distinct_update)

lemma gm_wf_filter [simp]: "gm_wf m \<Longrightarrow> gm_wf (gm_filter keep m)"
  unfolding gm_filter_def by (rule distinct_map_filter)

lemma gm_wf_get: "gm_wf m \<Longrightarrow> (k, v) \<in> set m \<Longrightarrow> gm_get m k = Some v"
  by (rule map_of_is_SomeI)

lemma gm_getD: "gm_get m k = Some v \<Longrightarrow> (k, v) \<in> set m"
  by (rule map_of_SomeD)

text \<open>
  A call returns a value or an error (\<open>Inl\<close>). An operation of one store, a function on its
  own state \<open>'s\<close>, runs on the server's state \<open>'w\<close> through a getter and a setter.
\<close>

definition zoom ::
  "('w \<Rightarrow> 's) \<Rightarrow> ('s \<Rightarrow> 'w \<Rightarrow> 'w) \<Rightarrow> ('s \<Rightarrow> 'r \<times> 's) \<Rightarrow> 'w \<Rightarrow> 'r \<times> 'w" where
  "zoom get put op w = (let (r, s) = op (get w) in (r, put s w))"

lemma fst_zoom [simp]: "fst (zoom get put op w) = fst (op (get w))"
  by (simp add: zoom_def split: prod.split)

lemma snd_zoom [simp]: "snd (zoom get put op w) = put (snd (op (get w))) w"
  by (simp add: zoom_def split: prod.split)

lemma zoom_eq: "zoom get put op w = (fst (op (get w)), put (snd (op (get w))) w)"
  by (simp add: zoom_def split: prod.split)

subsection \<open>Lists\<close>

lemma find_Some_set: "find P xs = Some x \<Longrightarrow> x \<in> set xs \<and> P x"
  by (auto simp: find_Some_iff)

lemma remdups_filter_append:
  "x \<notin> set xs \<Longrightarrow> filter P (xs @ [x]) = filter P xs @ (if P x then [x] else [])"
  by simp

end
