(* ===== verification/GoStd.thy ===== *)
theory GoStd
  imports Prelude "HOL-Library.Word"
begin

declare map_of_eq_Some_iff [simp del] Some_eq_map_of_iff [simp del]

section \<open>The parts of Go and of its standard library the server uses\<close>

text \<open>
  Integers and durations are 64 bits wide and wrap around; \<open>sint\<close> reads them. An instant
  (\<open>time.Time\<close>, always UTC in this program) is an integer number of nanoseconds since 1970,
  so comparing instants is comparing integers. Strings are byte sequences, as in Go.
\<close>

type_synonym goint = "64 word"
type_synonym duration = "64 word"
type_synonym time = int
type_synonym uuid = "128 word"

abbreviation uuid_nil :: uuid where
  "uuid_nil \<equiv> 0"

subsection \<open>Time\<close>

definition second :: duration where
  "second = 1000000000"

definition minute :: duration where
  "minute = 60 * second"

definition hour :: duration where
  "hour = 60 * minute"

text \<open>The zero \<open>time.Time\<close> is midnight of 1 January of year 1.\<close>

definition zero_time :: time where
  "zero_time = - 62135596800 * 1000000000"

definition is_zero_time :: "time \<Rightarrow> bool" where
  "is_zero_time t \<longleftrightarrow> t = zero_time"

definition time_add :: "time \<Rightarrow> duration \<Rightarrow> time" where
  "time_add t d = t + sint d"

text \<open>\<open>Time.Sub\<close> saturates at the ends of the duration range.\<close>

definition max_duration :: int where
  "max_duration = 9223372036854775807"

definition min_duration :: int where
  "min_duration = - 9223372036854775808"

definition time_sub :: "time \<Rightarrow> time \<Rightarrow> int" where
  "time_sub t u = max min_duration (min max_duration (t - u))"

definition time_before :: "time \<Rightarrow> time \<Rightarrow> bool" where
  "time_before t u \<longleftrightarrow> t < u"

definition time_after :: "time \<Rightarrow> time \<Rightarrow> bool" where
  "time_after t u \<longleftrightarrow> u < t"

definition unix_seconds :: "time \<Rightarrow> int" where
  "unix_seconds t = t div 1000000000"

text \<open>\<open>time.Duration(n) * time.Second\<close> multiplies at 64 bits.\<close>

definition seconds_to_duration :: "goint \<Rightarrow> duration" where
  "seconds_to_duration n = n * second"

text \<open>\<open>int(d.Seconds())\<close>: whole seconds, towards zero.\<close>

definition duration_seconds :: "duration \<Rightarrow> int" where
  "duration_seconds d = sgn (sint d) * (\<bar>sint d\<bar> div 1000000000)"

lemmas time_defs = time_before_def time_after_def time_add_def time_sub_def
  max_duration_def min_duration_def is_zero_time_def zero_time_def

lemma sint_second [simp]: "sint second = 1000000000"
  by (simp add: second_def)

lemma sint_minute [simp]: "sint minute = 60000000000"
  by (simp add: minute_def second_def)

lemma sint_hour [simp]: "sint hour = 3600000000000"
  by (simp add: hour_def minute_def second_def)

lemma sint_bounds: "min_duration \<le> sint (d :: duration) \<and> sint d \<le> max_duration"
  using sint_ge [of d] sint_lt [of d] by (simp add: min_duration_def max_duration_def)

subsection \<open>Strings\<close>

text \<open>\<open>strconv.Itoa\<close> of a count and of any integer.\<close>

fun itoa :: "nat \<Rightarrow> string" where
  "itoa n = (if n < 10 then [char_of (48 + n)] else itoa (n div 10) @ [char_of (48 + n mod 10)])"

declare itoa.simps [simp del]

definition int_text :: "int \<Rightarrow> string" where
  "int_text i = (if i < 0 then CHR ''-'' # itoa (nat (- i)) else itoa (nat i))"

definition has_prefix :: "string \<Rightarrow> string \<Rightarrow> bool" where
  "has_prefix s p \<longleftrightarrow> take (length p) s = p"

definition has_suffix :: "string \<Rightarrow> string \<Rightarrow> bool" where
  "has_suffix s p \<longleftrightarrow> has_prefix (rev s) (rev p)"

fun contains_str :: "string \<Rightarrow> string \<Rightarrow> bool" where
  "contains_str [] p = (p = [])"
| "contains_str (c # s) p = (has_prefix (c # s) p \<or> contains_str s p)"

fun join :: "string list \<Rightarrow> string \<Rightarrow> string" where
  "join [] sep = []"
| "join [x] sep = x"
| "join (x # y # xs) sep = x @ sep @ join (y # xs) sep"

text \<open>
  \<open>unicode.IsSpace\<close> on UTF-8: \<open>space_len s\<close> is the number of bytes of the white-space
  character at the head of \<open>s\<close>, 0 when there is none. White space is the six ASCII ones,
  U+0085, U+00A0, U+1680, U+2000 to U+200A, U+2028, U+2029, U+202F, U+205F and U+3000.
\<close>

definition ascii_space :: "char \<Rightarrow> bool" where
  "ascii_space c \<longleftrightarrow>
    c \<in> {CHR 0x09, CHR 0x0A, CHR 0x0B, CHR 0x0C, CHR 0x0D, CHR 0x20}"

definition space2 :: "char \<Rightarrow> string \<Rightarrow> bool" where
  "space2 c t \<longleftrightarrow> c = CHR 0xC2 \<and> (t = [CHR 0x85] \<or> t = [CHR 0xA0])"

definition space3 :: "char \<Rightarrow> string \<Rightarrow> bool" where
  "space3 c t \<longleftrightarrow>
    (c = CHR 0xE1 \<and> t = [CHR 0x9A, CHR 0x80]) \<or>
    (c = CHR 0xE2 \<and>
      t \<in> {[CHR 0x80, CHR 0x80], [CHR 0x80, CHR 0x81], [CHR 0x80, CHR 0x82],
          [CHR 0x80, CHR 0x83], [CHR 0x80, CHR 0x84], [CHR 0x80, CHR 0x85],
          [CHR 0x80, CHR 0x86], [CHR 0x80, CHR 0x87], [CHR 0x80, CHR 0x88],
          [CHR 0x80, CHR 0x89], [CHR 0x80, CHR 0x8A], [CHR 0x80, CHR 0xA8],
          [CHR 0x80, CHR 0xA9], [CHR 0x80, CHR 0xAF], [CHR 0x81, CHR 0x9F]}) \<or>
    (c = CHR 0xE3 \<and> t = [CHR 0x80, CHR 0x80])"

fun space_len :: "string \<Rightarrow> nat" where
  "space_len [] = 0"
| "space_len (c # s) =
    (if ascii_space c then 1
     else if space2 c (take 1 s) then 2
     else if space3 c (take 2 s) then 3
     else 0)"

lemma space2_length: "space2 c t \<Longrightarrow> length t = 1"
  by (auto simp: space2_def)

lemma space3_length: "space3 c t \<Longrightarrow> length t = 2"
  by (auto simp: space3_def)

lemma space_len_le: "space_len s \<le> length s"
proof (cases s)
  case (Cons c t)
  then show ?thesis
    using space2_length [of c "take 1 t"] space3_length [of c "take 2 t"] by auto
qed simp

lemma take_full_length: "length (take n (take j t)) = n \<Longrightarrow> take n (take j t) = take n t"
  by (auto simp: min_def split: if_splits)

lemma space_len_take:
  assumes "space_len s = 0"
  shows "space_len (take k s) = 0"
proof (cases s)
  case (Cons c t)
  show ?thesis
  proof (cases k)
    case (Suc j)
    have "space2 c (take 1 (take j t)) \<Longrightarrow> space2 c (take 1 t)"
      using space2_length [of c "take 1 (take j t)"] take_full_length [of 1 j t] by metis
    moreover have "space3 c (take 2 (take j t)) \<Longrightarrow> space3 c (take 2 t)"
      using space3_length [of c "take 2 (take j t)"] take_full_length [of 2 j t] by metis
    ultimately show ?thesis
      using assms Cons Suc by (auto simp: space_len.simps(2) simp del: take_take split: if_splits)
  qed simp
qed simp

declare space_len.simps(2) [simp del]

lemmas space_len_eval = space_len.simps(2) ascii_space_def space2_def space3_def

text \<open>\<open>strings.TrimSpace\<close> and \<open>strings.Fields\<close>.\<close>

function trim_left :: "string \<Rightarrow> string" where
  "trim_left s = (if space_len s = 0 then s else trim_left (drop (space_len s) s))"
  by pat_completeness auto
termination
proof (relation "measure length")
  fix s :: string
  assume "space_len s \<noteq> 0"
  then show "(drop (space_len s) s, s) \<in> measure length"
    using space_len_le [of s] by auto
qed simp

declare trim_left.simps [simp del]

text \<open>\<open>space_len_back\<close>: the white-space character at the end, given the reversed bytes.\<close>

definition space_len_back :: "string \<Rightarrow> nat" where
  "space_len_back r =
    (if space_len (rev (take 1 r)) = 1 then 1
     else if space_len (rev (take 2 r)) = 2 then 2
     else if space_len (rev (take 3 r)) = 3 then 3 else 0)"

lemma space_len_back_le: "space_len_back r \<le> length r"
  using space_len_le [of "rev (take 1 r)"] space_len_le [of "rev (take 2 r)"]
    space_len_le [of "rev (take 3 r)"]
  by (auto simp: space_len_back_def)

function trim_back :: "string \<Rightarrow> string" where
  "trim_back r = (if space_len_back r = 0 then r else trim_back (drop (space_len_back r) r))"
  by pat_completeness auto
termination
proof (relation "measure length")
  fix r :: string
  assume "space_len_back r \<noteq> 0"
  then show "(drop (space_len_back r) r, r) \<in> measure length"
    using space_len_back_le [of r] by auto
qed simp

declare trim_back.simps [simp del]

definition trim_space :: "string \<Rightarrow> string" where
  "trim_space s = rev (trim_back (rev (trim_left s)))"

lemma trim_left_done: "space_len (trim_left s) = 0"
  by (induction s rule: trim_left.induct) (subst trim_left.simps, simp)

lemma trim_left_id: "space_len s = 0 \<Longrightarrow> trim_left s = s"
  by (simp add: trim_left.simps)

lemma trim_back_done: "space_len_back (trim_back r) = 0"
  by (induction r rule: trim_back.induct) (subst trim_back.simps, simp)

lemma trim_back_id: "space_len_back r = 0 \<Longrightarrow> trim_back r = r"
  by (simp add: trim_back.simps)

lemma trim_back_drop: "\<exists>k. trim_back r = drop k r"
proof (induction r rule: trim_back.induct)
  case (1 r)
  show ?case
  proof (cases "space_len_back r = 0")
    case True
    then have "trim_back r = drop 0 r" by (simp add: trim_back_id)
    then show ?thesis ..
  next
    case False
    with 1 obtain k where "trim_back (drop (space_len_back r) r) = drop k (drop (space_len_back r) r)"
      by blast
    with False have "trim_back r = drop (k + space_len_back r) r"
      by (subst trim_back.simps) simp
    then show ?thesis ..
  qed
qed

lemma trim_space_idem [simp]: "trim_space (trim_space s) = trim_space s"
proof -
  let ?l = "trim_left s"
  obtain k where k: "trim_back (rev ?l) = drop k (rev ?l)"
    using trim_back_drop by blast
  then have pre: "trim_space s = take (length ?l - k) ?l"
    by (simp add: trim_space_def rev_drop)
  have "space_len (trim_space s) = 0"
    unfolding pre by (rule space_len_take) (rule trim_left_done)
  then have "trim_left (trim_space s) = trim_space s"
    by (rule trim_left_id)
  then have "trim_space (trim_space s) = rev (trim_back (rev (trim_space s)))"
    by (simp add: trim_space_def)
  also have "rev (trim_space s) = trim_back (rev ?l)"
    by (simp add: trim_space_def)
  also have "trim_back (trim_back (rev ?l)) = trim_back (rev ?l)"
    by (rule trim_back_id) (rule trim_back_done)
  finally show ?thesis by (simp add: trim_space_def)
qed

lemma trim_space_Nil [simp]: "trim_space [] = []"
  by (simp add: trim_space_def trim_left.simps trim_back.simps space_len_back_def)

end
