(* ===== verification/GoText.thy ===== *)
theory GoText
  imports GoStd
begin

section \<open>Text: fields, case folding, UTF-8, base64url, URL values\<close>

text \<open>
  The string functions of the standard library that carry scopes, names, passwords and
  tokens: \<open>strings.Fields\<close> and its round trip with \<open>strings.Join\<close>, \<open>strings.EqualFold\<close>,
  the length of \<open>[]rune(s)\<close>, \<open>base64.RawURLEncoding\<close> with a decoder that inverts it, and
  \<open>url.Values.Get\<close>.
\<close>

subsection \<open>Fields\<close>

function fields_from :: "string \<Rightarrow> string \<Rightarrow> string list" where
  "fields_from cur s =
    (if s = [] then (if cur = [] then [] else [cur])
     else if space_len s = 0 then fields_from (cur @ [hd s]) (tl s)
     else (if cur = [] then [] else [cur]) @ fields_from [] (drop (space_len s) s))"
  by pat_completeness auto
termination
proof (relation "measure (length \<circ> snd)")
  fix cur s :: string
  assume "s \<noteq> []" "space_len s \<noteq> 0"
  then show "(([], drop (space_len s) s), (cur, s)) \<in> measure (length \<circ> snd)"
    using space_len_le [of s] by auto
qed (auto simp: neq_Nil_conv)

declare fields_from.simps [simp del]

definition str_fields :: "string \<Rightarrow> string list" where
  "str_fields s = fields_from [] s"

lemma fields_from_Nil [simp]: "fields_from cur [] = (if cur = [] then [] else [cur])"
  by (simp add: fields_from.simps)

lemma fields_from_char:
  "space_len (c # s) = 0 \<Longrightarrow> fields_from cur (c # s) = fields_from (cur @ [c]) s"
  by (subst fields_from.simps) (simp)

lemma fields_from_space:
  "space_len (c # s) \<noteq> 0 \<Longrightarrow>
    fields_from cur (c # s) =
      (if cur = [] then [] else [cur]) @ fields_from [] (drop (space_len (c # s)) (c # s))"
  by (subst fields_from.simps) (simp)

lemmas fields_from_eval = str_fields_def fields_from_char fields_from_space

text \<open>A word: not empty, with no white-space character starting anywhere in it.\<close>

definition word_str :: "string \<Rightarrow> bool" where
  "word_str w \<longleftrightarrow> w \<noteq> [] \<and> (\<forall>k < length w. space_len (drop k w) = 0)"

lemma fields_from_words:
  assumes "\<forall>k < length cur. space_len (drop k (cur @ s)) = 0"
  shows "\<forall>w \<in> set (fields_from cur s). word_str w"
  using assms
proof (induction cur s rule: fields_from.induct)
  case (1 cur s)
  have cur: "word_str cur" if "cur \<noteq> []"
    unfolding word_str_def
  proof (intro conjI allI impI)
    fix k
    assume k: "k < length cur"
    then have "drop k cur = take (length cur - k) (drop k (cur @ s))" by simp
    then show "space_len (drop k cur) = 0"
      using "1.prems" k space_len_take by metis
  qed (rule that)
  show ?case
  proof (cases s)
    case Nil
    with cur show ?thesis by auto
  next
    case (Cons c t)
    show ?thesis
    proof (cases "space_len s = 0")
      case True
      have "\<forall>k < length (cur @ [hd s]). space_len (drop k ((cur @ [hd s]) @ tl s)) = 0"
        using "1.prems" True Cons
        by (auto simp: less_Suc_eq)
      with "1.IH"(1) True Cons show ?thesis
        by (simp add: fields_from_char)
    next
      case False
      with "1.IH"(2) Cons cur show ?thesis
        by (auto simp: fields_from_space)
    qed
  qed
qed

lemma fields_words: "w \<in> set (str_fields s) \<Longrightarrow> word_str w"
  using fields_from_words [of "[]" s] by (simp add: str_fields_def)

lemma fields_Nil [simp]: "str_fields [] = []"
  by (simp add: str_fields_def)

text \<open>White space is never completed by the byte that separates joined words.\<close>

lemma space_len_blank [simp]: "space_len (CHR '' '' # s) = 1"
  by (simp add: space_len_eval)

lemma space_len_before_blank:
  "u \<noteq> [] \<Longrightarrow> space_len u = 0 \<Longrightarrow> space_len (u @ CHR '' '' # t) = 0"
proof -
  assume u: "u \<noteq> []" "space_len u = 0"
  then obtain c v where c: "u = c # v" by (cases u) auto
  have "\<not> space2 c (take 1 (v @ CHR '' '' # t))"
    using u c by (cases v) (auto simp: space2_def space_len.simps(2) split: if_splits)
  moreover have "\<not> space3 c (take 2 (v @ CHR '' '' # t))"
  proof (cases v)
    case (Cons d v')
    then show ?thesis
      using u c by (cases v') (auto simp: space3_def space_len.simps(2) split: if_splits)
  qed (auto simp: space3_def)
  ultimately show ?thesis
    using u c by (auto simp: space_len.simps(2) split: if_splits)
qed

lemma fields_from_word_blank:
  assumes "w \<noteq> [] \<Longrightarrow> word_str w" "w \<noteq> [] \<or> cur \<noteq> []"
  shows "fields_from cur (w @ CHR '' '' # t) = (cur @ w) # str_fields t"
  using assms
proof (induction w arbitrary: cur)
  case Nil
  then show ?case by (simp add: fields_from_space str_fields_def)
next
  case (Cons c w)
  have "space_len (c # w @ CHR '' '' # t) = 0"
    using space_len_before_blank [of "c # w" t] Cons.prems(1)
    by (auto simp: word_str_def)
  moreover have "w \<noteq> [] \<Longrightarrow> word_str w"
    using Cons.prems(1) by (auto simp: word_str_def)
  ultimately show ?case
    using Cons.IH [of "cur @ [c]"] by (simp add: fields_from_char)
qed

lemma fields_from_word_end:
  assumes "w \<noteq> [] \<Longrightarrow> word_str w" "w \<noteq> [] \<or> cur \<noteq> []"
  shows "fields_from cur w = [cur @ w]"
  using assms
proof (induction w arbitrary: cur)
  case (Cons c w)
  have "space_len (c # w) = 0"
    using Cons.prems(1) by (auto simp: word_str_def)
  moreover have "w \<noteq> [] \<Longrightarrow> word_str w"
    using Cons.prems(1) by (auto simp: word_str_def)
  ultimately show ?case
    using Cons.IH [of "cur @ [c]"] by (simp add: fields_from_char)
qed simp

text \<open>Joining words with a blank and splitting again gives the words back.\<close>

lemma fields_join: "\<forall>w \<in> set ws. word_str w \<Longrightarrow> str_fields (join ws '' '') = ws"
proof (induction ws)
  case (Cons x xs)
  have x: "word_str x" "x \<noteq> []" using Cons.prems by (auto simp: word_str_def)
  show ?case
  proof (cases xs)
    case Nil
    then show ?thesis using x fields_from_word_end [of x "[]"] by (simp add: str_fields_def)
  next
    case (Cons y ys)
    then have "join (x # xs) '' '' = x @ CHR '' '' # join xs '' ''" by simp
    then show ?thesis
      using x fields_from_word_blank [of x "[]" "join xs '' ''"] Cons.IH Cons.prems
      by (simp add: str_fields_def)
  qed
qed simp

lemma fields_join_fields [simp]: "str_fields (join (str_fields s) '' '') = str_fields s"
  by (rule fields_join) (blast intro: fields_words)

subsection \<open>Case folding\<close>

text \<open>
  \<open>strings.EqualFold\<close> compares under simple Unicode case folding. An ASCII string can equal
  only a string of ASCII letters, the Kelvin sign (which folds to k) and the long s (which
  folds to s), so the model is exact whenever one side is ASCII, as it is wherever the
  source compares with a constant (the scope names, the admin role). Two strings that
  both hold other letters are compared byte by byte.
\<close>

definition ascii_lower :: "char \<Rightarrow> char" where
  "ascii_lower c =
    (if 65 \<le> (of_char c :: nat) \<and> (of_char c :: nat) \<le> 90 then char_of ((of_char c :: nat) + 32) else c)"

fun fold_key :: "string \<Rightarrow> string" where
  "fold_key [] = []"
| "fold_key (c # s) =
    (if c = CHR 0xE2 \<and> take 2 s = [CHR 0x84, CHR 0xAA] then CHR ''k'' # fold_key (drop 2 s)
     else if c = CHR 0xC5 \<and> take 1 s = [CHR 0xBF] then CHR ''s'' # fold_key (drop 1 s)
     else ascii_lower c # fold_key s)"

definition equal_fold :: "string \<Rightarrow> string \<Rightarrow> bool" where
  "equal_fold s t \<longleftrightarrow> fold_key s = fold_key t"

lemma equal_fold_refl [simp]: "equal_fold s s"
  by (simp add: equal_fold_def)

lemma equal_fold_sym: "equal_fold s t \<Longrightarrow> equal_fold t s"
  by (simp add: equal_fold_def)

lemma equal_fold_trans: "equal_fold s t \<Longrightarrow> equal_fold t u \<Longrightarrow> equal_fold s u"
  by (simp add: equal_fold_def)

lemma equal_fold_cong: "equal_fold s t \<Longrightarrow> equal_fold s u \<longleftrightarrow> equal_fold t u"
  by (simp add: equal_fold_def)

subsection \<open>The number of runes\<close>

definition byte_in :: "nat \<Rightarrow> nat \<Rightarrow> string \<Rightarrow> nat \<Rightarrow> bool" where
  "byte_in lo hi s k \<longleftrightarrow> k < length s \<and> lo \<le> of_char (s ! k) \<and> of_char (s ! k) \<le> hi"

text \<open>Bytes of the first rune; an invalid byte is a rune of its own (U+FFFD).\<close>

definition rune_len :: "string \<Rightarrow> nat" where
  "rune_len s =
    (if s = [] then 0
     else if byte_in 0xC2 0xDF s 0 \<and> byte_in 0x80 0xBF s 1 then 2
     else if (byte_in 0xE0 0xE0 s 0 \<and> byte_in 0xA0 0xBF s 1 \<or>
              byte_in 0xE1 0xEC s 0 \<and> byte_in 0x80 0xBF s 1 \<or>
              byte_in 0xED 0xED s 0 \<and> byte_in 0x80 0x9F s 1 \<or>
              byte_in 0xEE 0xEF s 0 \<and> byte_in 0x80 0xBF s 1) \<and> byte_in 0x80 0xBF s 2 then 3
     else if (byte_in 0xF0 0xF0 s 0 \<and> byte_in 0x90 0xBF s 1 \<or>
              byte_in 0xF1 0xF3 s 0 \<and> byte_in 0x80 0xBF s 1 \<or>
              byte_in 0xF4 0xF4 s 0 \<and> byte_in 0x80 0x8F s 1) \<and>
             byte_in 0x80 0xBF s 2 \<and> byte_in 0x80 0xBF s 3 then 4
     else 1)"

lemma rune_len_bounds: "s \<noteq> [] \<Longrightarrow> 1 \<le> rune_len s \<and> rune_len s \<le> 4 \<and> rune_len s \<le> length s"
  by (auto simp: rune_len_def byte_in_def Suc_le_eq)

function rune_count :: "string \<Rightarrow> nat" where
  "rune_count s = (if s = [] then 0 else Suc (rune_count (drop (rune_len s) s)))"
  by pat_completeness auto
termination
proof (relation "measure length")
  fix s :: string
  assume "s \<noteq> []"
  then show "(drop (rune_len s) s, s) \<in> measure length"
    using rune_len_bounds [of s] by auto
qed simp

declare rune_count.simps [simp del]

lemma rune_count_Nil [simp]: "rune_count [] = 0"
  by (simp add: rune_count.simps)

lemma rune_count_bounds: "rune_count s \<le> length s \<and> length s \<le> 4 * rune_count s"
proof (induction s rule: rune_count.induct)
  case (1 s)
  show ?case
  proof (cases "s = []")
    case False
    then have "rune_count (drop (rune_len s) s) \<le> length s - rune_len s"
      "length s - rune_len s \<le> 4 * rune_count (drop (rune_len s) s)"
      using "1" by auto
    with False rune_len_bounds [of s] show ?thesis
      by (subst (1 2) rune_count.simps) auto
  qed simp
qed

lemma rune_count_ascii:
  "\<forall>c \<in> set s. (of_char c :: nat) < 128 \<Longrightarrow> rune_count s = length s"
proof (induction s)
  case (Cons c s)
  then have "rune_len (c # s) = 1" by (simp add: rune_len_def byte_in_def)
  with Cons show ?case by (subst rune_count.simps) simp
qed simp

subsection \<open>URL values\<close>

text \<open>\<open>url.Values\<close> maps a key to its values; \<open>Get\<close> is the first, or the empty string.\<close>

type_synonym url_values = "(string, string list) gomap"

definition values_get :: "url_values \<Rightarrow> string \<Rightarrow> string" where
  "values_get q k = (case gm_get q k of Some (v # _) \<Rightarrow> v | _ \<Rightarrow> [])"

text \<open>\<open>s[:n]\<close> where the string is longer, as \<open>truncate_str\<close> in internal/oidc/login.go.\<close>

definition truncate_str :: "string \<Rightarrow> nat \<Rightarrow> string" where
  "truncate_str s n = (if length s \<le> n then s else take n s)"

lemma length_truncate_str: "length (truncate_str s n) \<le> n"
  by (simp add: truncate_str_def)

end
