(* ===== verification/GoUrl.thy ===== *)
theory GoUrl
  imports GoText
begin

section \<open>net/url: parsing\<close>

text \<open>
  \<open>url.Parse\<close> as far as the server reads its result: scheme, host, path and fragment, with the
  errors that make it fail. The server checks redirect URIs with it (internal/domain/client.go)
  and compares the host of an \<open>Origin\<close> header (internal/oidc/csrf_guard.go). A host in square
  brackets is checked for its closing bracket, port and escapes only.
\<close>

record url =
  url_scheme :: string
  url_host :: string
  url_path :: string
  url_raw_query :: string
  url_fragment :: string

subsection \<open>Characters and cuts\<close>

definition chr_code :: "char \<Rightarrow> nat" where
  "chr_code c = of_char c"

definition is_upper :: "char \<Rightarrow> bool" where
  "is_upper c \<longleftrightarrow> 65 \<le> chr_code c \<and> chr_code c \<le> 90"

definition is_lower :: "char \<Rightarrow> bool" where
  "is_lower c \<longleftrightarrow> 97 \<le> chr_code c \<and> chr_code c \<le> 122"

definition is_digit :: "char \<Rightarrow> bool" where
  "is_digit c \<longleftrightarrow> 48 \<le> chr_code c \<and> chr_code c \<le> 57"

definition is_ctl :: "char \<Rightarrow> bool" where
  "is_ctl c \<longleftrightarrow> chr_code c < 32 \<or> chr_code c = 127"

definition unhex :: "char \<Rightarrow> nat option" where
  "unhex c =
    (if is_digit c then Some (chr_code c - 48)
     else if 97 \<le> chr_code c \<and> chr_code c \<le> 102 then Some (chr_code c - 87)
     else if 65 \<le> chr_code c \<and> chr_code c \<le> 70 then Some (chr_code c - 55)
     else None)"

text \<open>\<open>strings.Cut\<close> on a one-byte separator, and the cut at the last occurrence.\<close>

definition cut :: "char \<Rightarrow> string \<Rightarrow> string \<times> string" where
  "cut c s = (takeWhile (\<lambda>x. x \<noteq> c) s, drop 1 (dropWhile (\<lambda>x. x \<noteq> c) s))"

definition after_last :: "char \<Rightarrow> string \<Rightarrow> string" where
  "after_last c s = rev (takeWhile (\<lambda>x. x \<noteq> c) (rev s))"

definition before_last :: "char \<Rightarrow> string \<Rightarrow> string" where
  "before_last c s = rev (drop 1 (dropWhile (\<lambda>x. x \<noteq> c) (rev s)))"

subsection \<open>Unescaping\<close>

datatype escape_mode = EncHost | EncZone | EncOther

text \<open>Bytes that may stand for themselves in a host (\<open>shouldEscape\<close> is false).\<close>

definition host_byte :: "char \<Rightarrow> bool" where
  "host_byte c \<longleftrightarrow> is_upper c \<or> is_lower c \<or> is_digit c \<or> c \<in> set ''!$&'()*+,;=:[]<>-_.~'' \<or> chr_code c = 34"

fun unescape :: "escape_mode \<Rightarrow> string \<Rightarrow> string option" where
  "unescape m [] = Some []"
| "unescape m (c # s) =
    (if c = CHR ''%'' then
       case s of
         a # b # t \<Rightarrow>
           (case (unhex a, unhex b) of
              (Some x, Some y) \<Rightarrow>
                if m = EncHost \<and> x < 8 \<and> (a, b) \<noteq> (CHR ''2'', CHR ''5'') then None
                else if m = EncZone \<and> (a, b) \<noteq> (CHR ''2'', CHR ''5'') \<and>
                        char_of (16 * x + y) \<noteq> CHR '' '' \<and> \<not> host_byte (char_of (16 * x + y)) then None
                else map_option ((#) (char_of (16 * x + y))) (unescape m t)
            | _ \<Rightarrow> None)
       | _ \<Rightarrow> None
     else if m \<noteq> EncOther \<and> chr_code c < 128 \<and> \<not> host_byte c then None
     else map_option ((#) c) (unescape m s))"

subsection \<open>Authority\<close>

definition valid_optional_port :: "string \<Rightarrow> bool" where
  "valid_optional_port p \<longleftrightarrow> p = [] \<or> hd p = CHR '':'' \<and> (\<forall>c \<in> set (tl p). is_digit c)"

text \<open>Where the zone of an IPv6 literal (\<open>%25\<close>) begins.\<close>

fun zone_split :: "string \<Rightarrow> (string \<times> string) option" where
  "zone_split [] = None"
| "zone_split (c # s) =
    (if has_prefix (c # s) ''%25'' then Some ([], c # s)
     else map_option (\<lambda>(a, b). (c # a, b)) (zone_split s))"

definition unescape3 :: "string \<Rightarrow> string \<Rightarrow> string \<Rightarrow> string option" where
  "unescape3 a b c =
    (case (unescape EncHost a, unescape EncZone b, unescape EncHost c) of
       (Some x, Some y, Some z) \<Rightarrow> Some (x @ y @ z)
     | _ \<Rightarrow> None)"

definition parse_host :: "string \<Rightarrow> string option" where
  "parse_host h =
    (if has_prefix h ''['' then
       if CHR '']'' \<notin> set h then None
       else if \<not> valid_optional_port (after_last CHR '']'' h) then None
       else (case zone_split (before_last CHR '']'' h) of
               Some (a, z) \<Rightarrow> unescape3 a z (CHR '']'' # after_last CHR '']'' h)
             | None \<Rightarrow> unescape EncHost h)
     else if CHR '':'' \<in> set h \<and> \<not> valid_optional_port (CHR '':'' # after_last CHR '':'' h) then None
     else unescape EncHost h)"

definition valid_userinfo :: "string \<Rightarrow> bool" where
  "valid_userinfo s \<longleftrightarrow>
    (\<forall>c \<in> set s. is_upper c \<or> is_lower c \<or> is_digit c \<or> c \<in> set ''-._:~!$&'()*+,;=%@'')"

definition parse_authority :: "string \<Rightarrow> string option" where
  "parse_authority a =
    (if CHR ''@'' \<notin> set a then parse_host a
     else case parse_host (after_last CHR ''@'' a) of
       None \<Rightarrow> None
     | Some h \<Rightarrow>
         let u = before_last CHR ''@'' a in
         if valid_userinfo u \<and> unescape EncOther u \<noteq> None then Some h else None)"

subsection \<open>Parse\<close>

text \<open>\<open>getScheme\<close>: the scheme, empty if there is none, and the rest; \<open>None\<close> is an error.\<close>

fun scheme_from :: "string \<Rightarrow> string \<Rightarrow> string \<Rightarrow> (string \<times> string) option" where
  "scheme_from raw acc [] = Some ([], raw)"
| "scheme_from raw acc (c # s) =
    (if is_lower c \<or> is_upper c then scheme_from raw (acc @ [c]) s
     else if is_digit c \<or> c \<in> set ''+-.'' then
       if acc = [] then Some ([], raw) else scheme_from raw (acc @ [c]) s
     else if c = CHR '':'' then if acc = [] then None else Some (acc, s)
     else Some ([], raw))"

definition get_scheme :: "string \<Rightarrow> (string \<times> string) option" where
  "get_scheme raw = scheme_from raw [] raw"

definition parse_rest :: "string \<Rightarrow> string \<Rightarrow> url option" where
  "parse_rest scheme rest0 =
    (let (rest, q) = cut CHR ''?'' rest0;
         u = \<lparr>url_scheme = scheme, url_host = [], url_path = [], url_raw_query = q, url_fragment = []\<rparr>
     in
     if \<not> has_prefix rest ''/'' \<and> scheme \<noteq> [] then Some u
     else if \<not> has_prefix rest ''/'' \<and> CHR '':'' \<in> set (fst (cut CHR ''/'' rest)) then None
     else if (scheme \<noteq> [] \<or> \<not> has_prefix rest ''///'') \<and> has_prefix rest ''//'' then
       (let a = takeWhile (\<lambda>c. c \<noteq> CHR ''/'') (drop 2 rest);
            p = dropWhile (\<lambda>c. c \<noteq> CHR ''/'') (drop 2 rest)
        in case (parse_authority a, unescape EncOther p) of
             (Some h, Some path) \<Rightarrow> Some (u\<lparr>url_host := h, url_path := path\<rparr>)
           | _ \<Rightarrow> None)
     else map_option (\<lambda>path. u\<lparr>url_path := path\<rparr>) (unescape EncOther rest))"

definition url_parse :: "string \<Rightarrow> url option" where
  "url_parse raw =
    (let (s, frag) = cut CHR ''#'' raw in
     if list_ex is_ctl s then None
     else
       case (if s = ''*'' then
               Some \<lparr>url_scheme = [], url_host = [], url_path = ''*'', url_raw_query = [], url_fragment = []\<rparr>
             else case get_scheme s of
               None \<Rightarrow> None
             | Some (sc, rest) \<Rightarrow> parse_rest (map ascii_lower sc) rest) of
         None \<Rightarrow> None
       | Some u \<Rightarrow>
           if frag = [] then Some u
           else map_option (\<lambda>f. u\<lparr>url_fragment := f\<rparr>) (unescape EncOther frag))"

lemmas url_eval = url_parse_def parse_rest_def get_scheme_def parse_authority_def parse_host_def
  valid_userinfo_def valid_optional_port_def cut_def after_last_def before_last_def
  is_ctl_def is_upper_def is_lower_def is_digit_def chr_code_def host_byte_def unhex_def
  has_prefix_def ascii_lower_def unescape3_def

lemma url_parse_empty [simp]: "url_parse [] =
  Some \<lparr>url_scheme = [], url_host = [], url_path = [], url_raw_query = [], url_fragment = []\<rparr>"
  by (simp add: url_parse_def cut_def get_scheme_def parse_rest_def has_prefix_def)

lemma url_parse_example:
  "map_option url_host (url_parse ''https://app.example:8443/cb?x=1#f'') = Some ''app.example:8443''"
  by code_simp

lemma url_parse_opaque:
  "map_option url_host (url_parse ''mailto:a'') = Some []"
  by code_simp

end
