(* ===== verification/Domain.thy ===== *)
theory Domain
  imports GoUrl
begin

section \<open>The data model (internal/domain)\<close>

text \<open>
  The plain structs that handlers and stores exchange, one record per struct, with the
  operations the package defines on them: a client's archetype, normalisation, validation and
  lifetimes; the bounds of a paged request; the password policy. A pointer field is an
  \<open>option\<close>; a nil slice and an empty one are the same list.
\<close>

subsection \<open>Clients\<close>

definition DefaultAccessTokenLifetimeSeconds :: goint where
  "DefaultAccessTokenLifetimeSeconds = 3600"

definition DefaultRefreshTokenLifetimeSeconds :: goint where
  "DefaultRefreshTokenLifetimeSeconds = 2592000"

definition DefaultRefreshTokenAbsoluteLifetimeSeconds :: goint where
  "DefaultRefreshTokenAbsoluteLifetimeSeconds = 2592000"

type_synonym token_expiration = goint

definition TokenExpirationSliding :: token_expiration where
  "TokenExpirationSliding = 0"

definition TokenExpirationAbsolute :: token_expiration where
  "TokenExpirationAbsolute = 1"

definition AuthMethodNone :: string where
  "AuthMethodNone = ''none''"

definition AuthMethodPrivateKeyJWT :: string where
  "AuthMethodPrivateKeyJWT = ''private_key_jwt''"

definition auth_method_valid :: "string \<Rightarrow> bool" where
  "auth_method_valid m \<longleftrightarrow> m = AuthMethodNone \<or> m = AuthMethodPrivateKeyJWT"

record client =
  c_ClientID :: string
  c_DisplayName :: string
  c_RedirectURIs :: "string list"
  c_PostLogoutRedirectURIs :: "string list"
  c_AllowedScopes :: "string list"
  c_RequirePKCE :: bool
  c_AllowRefreshTokens :: bool
  c_AllowClientCredentials :: bool
  c_TokenEndpointAuthMethod :: string
  c_JWKSJSON :: string
  c_AccessTokenLifetimeSeconds :: goint
  c_RefreshTokenLifetimeSeconds :: goint
  c_RefreshTokenAbsoluteLifetimeSeconds :: goint
  c_RefreshTokenExpiration :: token_expiration
  c_Properties :: "(string, string) gomap"

datatype client_profile = ProfileSPA | ProfileWeb | ProfileM2M | ProfileCustom

definition profile_of :: "client \<Rightarrow> client_profile" where
  "profile_of c =
    (if c_TokenEndpointAuthMethod c = AuthMethodPrivateKeyJWT then
       if c_AllowClientCredentials c \<and> c_RedirectURIs c = [] \<and> \<not> c_AllowRefreshTokens c
       then ProfileM2M
       else if \<not> c_AllowClientCredentials c then ProfileWeb
       else ProfileCustom
     else ProfileSPA)"

definition remove_scope :: "string list \<Rightarrow> string \<Rightarrow> string list" where
  "remove_scope xs target = filter (\<lambda>x. \<not> equal_fold x target) xs"

definition contains_fold :: "string list \<Rightarrow> string \<Rightarrow> bool" where
  "contains_fold xs target \<longleftrightarrow> list_ex (\<lambda>x. equal_fold x target) xs"

text \<open>\<open>cleanStringList\<close>: \<open>seen\<close> is the Go map of the strings already kept.\<close>

fun clean_from :: "string list \<Rightarrow> string list \<Rightarrow> string list" where
  "clean_from seen [] = []"
| "clean_from seen (x # xs) =
    (let v = trim_space x in
     if v = [] then clean_from seen xs
     else if v \<in> set seen then clean_from seen xs
     else v # clean_from (v # seen) xs)"

definition clean_string_list :: "string list \<Rightarrow> string list" where
  "clean_string_list xs = clean_from [] xs"

definition apply_profile :: "client_profile \<Rightarrow> client \<Rightarrow> client" where
  "apply_profile p c =
    (case p of
       ProfileSPA \<Rightarrow>
         c\<lparr>c_TokenEndpointAuthMethod := AuthMethodNone, c_RequirePKCE := True,
           c_AllowClientCredentials := False, c_JWKSJSON := []\<rparr>
     | ProfileWeb \<Rightarrow>
         c\<lparr>c_TokenEndpointAuthMethod := AuthMethodPrivateKeyJWT, c_RequirePKCE := True,
           c_AllowClientCredentials := False\<rparr>
     | ProfileM2M \<Rightarrow>
         c\<lparr>c_TokenEndpointAuthMethod := AuthMethodPrivateKeyJWT, c_AllowClientCredentials := True,
           c_AllowRefreshTokens := False, c_RequirePKCE := False, c_RedirectURIs := [],
           c_PostLogoutRedirectURIs := [],
           c_AllowedScopes := remove_scope (c_AllowedScopes c) ''offline_access''\<rparr>
     | ProfileCustom \<Rightarrow> c)"

text \<open>\<open>Normalize\<close>, in the order of its assignments.\<close>

definition normalize_auth :: "client \<Rightarrow> client" where
  "normalize_auth c =
    (let c1 = c\<lparr>c_ClientID := trim_space (c_ClientID c),
                c_DisplayName := trim_space (c_DisplayName c),
                c_JWKSJSON := trim_space (c_JWKSJSON c)\<rparr>;
         c2 = (if c_TokenEndpointAuthMethod c1 = []
               then c1\<lparr>c_TokenEndpointAuthMethod := AuthMethodNone\<rparr> else c1)
     in if c_TokenEndpointAuthMethod c2 = AuthMethodNone
        then c2\<lparr>c_AllowClientCredentials := False, c_JWKSJSON := []\<rparr> else c2)"

definition normalize_scopes :: "bool \<Rightarrow> string list \<Rightarrow> string list" where
  "normalize_scopes refresh scopes =
    (let s1 = clean_string_list scopes;
         s2 = (if \<not> contains_fold s1 ''openid'' then ''openid'' # s1 else s1);
         s3 = (if refresh \<and> \<not> contains_fold s2 ''offline_access'' then s2 @ [''offline_access''] else s2)
     in if \<not> refresh then remove_scope s3 ''offline_access'' else s3)"

definition normalize :: "client \<Rightarrow> client" where
  "normalize c =
    (let c1 = normalize_auth c in
     c1\<lparr>c_RedirectURIs := clean_string_list (c_RedirectURIs c1),
        c_PostLogoutRedirectURIs := clean_string_list (c_PostLogoutRedirectURIs c1),
        c_AllowedScopes := normalize_scopes (c_AllowRefreshTokens c1) (c_AllowedScopes c1)\<rparr>)"

datatype uri_error = UriParse | UriNotAbsolute | UriFragment

definition validate_absolute_uri :: "string \<Rightarrow> uri_error option" where
  "validate_absolute_uri raw =
    (case url_parse raw of
       None \<Rightarrow> Some UriParse
     | Some u \<Rightarrow>
         if url_scheme u = [] \<or> url_host u = [] then Some UriNotAbsolute
         else if url_fragment u \<noteq> [] then Some UriFragment
         else None)"

datatype client_error =
    ClientIDRequired
  | UnknownAuthMethod string
  | InvalidRedirectURI string uri_error
  | InvalidPostLogoutURI string uri_error
  | NegativeLifetime
  | InvalidExpiration

text \<open>The first URI of a list that is refused, with the reason.\<close>

fun first_bad_uri :: "string list \<Rightarrow> (string \<times> uri_error) option" where
  "first_bad_uri [] = None"
| "first_bad_uri (u # us) =
    (case validate_absolute_uri u of Some e \<Rightarrow> Some (u, e) | None \<Rightarrow> first_bad_uri us)"

definition validate :: "client \<Rightarrow> client_error option" where
  "validate c =
    (if c_ClientID c = [] then Some ClientIDRequired
     else if \<not> auth_method_valid (c_TokenEndpointAuthMethod c)
       then Some (UnknownAuthMethod (c_TokenEndpointAuthMethod c))
     else case first_bad_uri (c_RedirectURIs c) of
       Some (u, e) \<Rightarrow> Some (InvalidRedirectURI u e)
     | None \<Rightarrow>
         (case first_bad_uri (c_PostLogoutRedirectURIs c) of
            Some (u, e) \<Rightarrow> Some (InvalidPostLogoutURI u e)
          | None \<Rightarrow>
              if sint (c_AccessTokenLifetimeSeconds c) < 0 \<or>
                 sint (c_RefreshTokenLifetimeSeconds c) < 0 \<or>
                 sint (c_RefreshTokenAbsoluteLifetimeSeconds c) < 0
                then Some NegativeLifetime
              else if c_RefreshTokenExpiration c \<noteq> TokenExpirationSliding \<and>
                      c_RefreshTokenExpiration c \<noteq> TokenExpirationAbsolute
                then Some InvalidExpiration
              else None))"

text \<open>Lifetimes: a value of zero or less means the default; the product wraps at 64 bits.\<close>

definition effective_lifetime :: "goint \<Rightarrow> goint \<Rightarrow> goint" where
  "effective_lifetime n dflt = (if sint n \<le> 0 then dflt else n)"

definition AccessTokenLifetime :: "client \<Rightarrow> duration" where
  "AccessTokenLifetime c = seconds_to_duration
    (effective_lifetime (c_AccessTokenLifetimeSeconds c) DefaultAccessTokenLifetimeSeconds)"

definition RefreshTokenLifetime :: "client \<Rightarrow> duration" where
  "RefreshTokenLifetime c = seconds_to_duration
    (effective_lifetime (c_RefreshTokenLifetimeSeconds c) DefaultRefreshTokenLifetimeSeconds)"

definition RefreshTokenAbsoluteLifetime :: "client \<Rightarrow> duration" where
  "RefreshTokenAbsoluteLifetime c = seconds_to_duration
    (effective_lifetime (c_RefreshTokenAbsoluteLifetimeSeconds c)
      DefaultRefreshTokenAbsoluteLifetimeSeconds)"

subsection \<open>Codes, tokens, sessions, keys, users\<close>

record authorization_code =
  ac_ID :: uuid
  ac_CodeHash :: string
  ac_ClientID :: string
  ac_UserID :: string
  ac_SessionID :: "uuid option"
  ac_RedirectURI :: string
  ac_CodeChallenge :: "string option"
  ac_CodeChallengeMethod :: "string option"
  ac_Scope :: string
  ac_Nonce :: "string option"
  ac_ExpiresAt :: time
  ac_ConsumedAt :: "time option"
  ac_CreatedAt :: time

record refresh_token =
  rt_ID :: uuid
  rt_TokenHash :: string
  rt_ClientID :: string
  rt_UserID :: string
  rt_SessionID :: "uuid option"
  rt_ParentTokenID :: "uuid option"
  rt_Scope :: string
  rt_ExpiresAt :: time
  rt_AbsoluteExpiresAt :: time
  rt_ConsumedAt :: "time option"
  rt_RevokedAt :: "time option"
  rt_CreatedAt :: time

record session =
  s_ID :: uuid
  s_UserID :: string
  s_CreatedAt :: time
  s_ExpiresAt :: time
  s_RevokedAt :: "time option"
  s_Properties :: "(string, string) gomap"

record signing_key =
  sk_KeyID :: string
  sk_Algorithm :: string
  sk_PrivateKeyPEM :: string
  sk_PublicKeyPEM :: string
  sk_CreatedAt :: time
  sk_RetiredAt :: "time option"
  sk_IsActive :: bool

record data_protection_key =
  dk_KeyID :: string
  dk_HashKey :: string
  dk_BlockKey :: string
  dk_CSRFKey :: string
  dk_CreatedAt :: time
  dk_RetiredAt :: "time option"
  dk_IsActive :: bool

record password_reset_token =
  pr_ID :: uuid
  pr_UserID :: string
  pr_TokenHash :: string
  pr_CreatedAt :: time
  pr_ExpiresAt :: time
  pr_ConsumedAt :: "time option"

record user =
  u_ID :: string
  u_Username :: string
  u_Email :: string
  u_EmailConfirmed :: bool
  u_PasswordHash :: string
  u_SecurityStamp :: string
  u_TwoFactorEnabled :: bool
  u_LockoutEnd :: "time option"
  u_LockoutEnabled :: bool
  u_AccessFailedCount :: goint
  u_CreatedAt :: time
  u_UpdatedAt :: time

record user_claim =
  uc_Type :: string
  uc_Value :: string

record role =
  r_ID :: string
  r_Name :: string

record user_login =
  ul_LoginProvider :: string
  ul_ProviderKey :: string
  ul_ProviderName :: string
  ul_UserID :: string

record user_token =
  ut_UserID :: string
  ut_LoginProvider :: string
  ut_Name :: string
  ut_Value :: string

text \<open>
  A claim value is what \<open>encoding/json\<close> can render; \<open>JTime\<close> is an instant, whose text (RFC 3339)
  is not spelled out.
\<close>

datatype json =
    JNull
  | JBool bool
  | JNum int
  | JStr string
  | JTime time
  | JArr "json list"
  | JObj "(string \<times> json) list"

record user_info =
  ui_UserID :: string
  ui_Claims :: "(string, json) gomap"

record scope =
  sc_Name :: string
  sc_DisplayName :: string
  sc_Description :: string
  sc_Required :: bool
  sc_Emphasize :: bool
  sc_Properties :: "(string, string) gomap"

record audit_log =
  al_ID :: uuid
  al_Action :: string
  al_ActorUserID :: string
  al_TargetType :: string
  al_TargetID :: string
  al_Timestamp :: time
  al_IPAddress :: string
  al_UserAgent :: string
  al_Metadata :: string

subsection \<open>Paged requests\<close>

definition DefaultPage :: goint where
  "DefaultPage = 1"

definition DefaultPageSize :: goint where
  "DefaultPageSize = 50"

definition MaxPageSize :: goint where
  "MaxPageSize = 500"

record paged_request =
  pq_Page :: goint
  pq_PageSize :: goint

definition normalized :: "paged_request \<Rightarrow> paged_request" where
  "normalized r =
    (let r1 = (if sint (pq_Page r) < 1 then r\<lparr>pq_Page := DefaultPage\<rparr> else r);
         r2 = (if sint (pq_PageSize r1) < 1 then r1\<lparr>pq_PageSize := DefaultPageSize\<rparr> else r1)
     in if sint (pq_PageSize r2) > sint MaxPageSize then r2\<lparr>pq_PageSize := MaxPageSize\<rparr> else r2)"

record 'a paged_result =
  pg_Items :: "'a list"
  pg_TotalCount :: nat
  pg_Page :: goint
  pg_PageSize :: goint

subsection \<open>The password policy\<close>

definition PasswordMinLength :: nat where
  "PasswordMinLength = 8"

definition PasswordMaxBytes :: nat where
  "PasswordMaxBytes = 72"

datatype password_error = PasswordTooShort | PasswordTooLong | PasswordWhitespace

definition ValidatePassword :: "string \<Rightarrow> password_error option" where
  "ValidatePassword pw =
    (if trim_space pw = [] \<or> pw \<noteq> trim_space pw then Some PasswordWhitespace
     else if rune_count pw < PasswordMinLength then Some PasswordTooShort
     else if length pw > PasswordMaxBytes then Some PasswordTooLong
     else None)"

end
