(* ===== verification/Http.thy ===== *)
theory Http
  imports Domain
begin

section \<open>Requests and responses (net/http, internal/oidc/errors.go)\<close>

text \<open>
  What a handler reads of a request and writes to a response. A request carries its query and
  the text of its target (\<open>req_URI\<close>, what \<open>URL.RequestURI\<close> returns), the form that \<open>ParseForm\<close>
  delivers (\<open>None\<close> when parsing fails; \<open>req_PartialForm\<close> is what \<open>PostForm\<close> then holds), the first
  JSON value of the body (\<open>None\<close> when there is none), headers and cookies. A handler's
  result is the response it wrote, or \<open>Panicked\<close> where the Go code dereferences a nil pointer:
  the state changes made up to that point remain.
\<close>

record http_request =
  req_Method :: string
  req_Path :: string
  req_Query :: url_values
  req_URI :: string
  req_PostForm :: "url_values option"
  req_PartialForm :: url_values
  req_Body :: "json option"
  req_Header :: "(string, string) gomap"
  req_Cookies :: "(string, string) gomap"
  req_RemoteAddr :: string

text \<open>The first value of a form field: the body's before the query's (\<open>Request.FormValue\<close>).\<close>

definition form_value :: "http_request \<Rightarrow> url_values \<Rightarrow> string \<Rightarrow> string" where
  "form_value r form k =
    (case gm_get form k of Some (v # vs) \<Rightarrow> v | _ \<Rightarrow> values_get (req_Query r) k)"

text \<open>\<open>Request.Cookie\<close>: the first cookie of that name.\<close>

definition cookie_get :: "http_request \<Rightarrow> string \<Rightarrow> string option" where
  "cookie_get r k = (if k = [] then None else gm_get (req_Cookies r) k)"

definition header_get :: "http_request \<Rightarrow> string \<Rightarrow> string" where
  "header_get r k = (case gm_get (req_Header r) k of Some v \<Rightarrow> v | None \<Rightarrow> [])"

text \<open>
  A redirect's target: the URL it is built from and the query parameters added to it. The text
  of the resulting URL (\<open>url.URL.String\<close>, with its escapes) is not spelled out.
\<close>

datatype location = Location (loc_base: string) (loc_params: "(string \<times> string) list")

record set_cookie =
  ck_Name :: string
  ck_Value :: string
  ck_Path :: string
  ck_MaxAge :: int
  ck_Expires :: "time option"
  ck_HttpOnly :: bool
  ck_Secure :: bool
  ck_SameSiteLax :: bool

record http_response =
  resp_status :: nat
  resp_headers :: "(string \<times> string) list"
  resp_body :: "json option"
  resp_location :: "location option"
  resp_cookies :: "set_cookie list"

datatype outcome = Response http_response | Panicked

definition plain_response :: "nat \<Rightarrow> http_response" where
  "plain_response s = \<lparr>resp_status = s, resp_headers = [], resp_body = None,
     resp_location = None, resp_cookies = []\<rparr>"

definition no_store_headers :: "(string \<times> string) list" where
  "no_store_headers = [(''Cache-Control'', ''no-store''), (''Pragma'', ''no-cache'')]"

definition json_headers :: "(string \<times> string) list" where
  "json_headers = (''Content-Type'', ''application/json;charset=UTF-8'') # no_store_headers"

text \<open>\<open>ErrorResponse\<close> of the grants and \<open>errorBody\<close> of the endpoints: both omit an empty description.\<close>

definition error_body :: "string \<Rightarrow> string \<Rightarrow> json" where
  "error_body c desc =
    JObj ((''error'', JStr c) # (if desc = [] then [] else [(''error_description'', JStr desc)]))"

definition json_response :: "nat \<Rightarrow> json \<Rightarrow> http_response" where
  "json_response s b = (plain_response s)\<lparr>resp_headers := json_headers, resp_body := Some b\<rparr>"

definition error_response :: "nat \<Rightarrow> string \<Rightarrow> string \<Rightarrow> http_response" where
  "error_response s c desc = json_response s (error_body c desc)"

abbreviation fail_with :: "nat \<Rightarrow> string \<Rightarrow> string \<Rightarrow> outcome" where
  "fail_with s c desc \<equiv> Response (error_response s c desc)"

definition server_error :: "string \<Rightarrow> http_response" where
  "server_error msg = error_response 500 ''server_error'' msg"

definition invalid_client_response :: "string \<Rightarrow> http_response" where
  "invalid_client_response desc =
    (error_response 401 ''invalid_client'' desc)
      \<lparr>resp_headers := (''WWW-Authenticate'', ''Basic realm=\"auth-server\"'') # json_headers\<rparr>"

definition redirect_to :: "nat \<Rightarrow> location \<Rightarrow> http_response" where
  "redirect_to s l = (plain_response s)\<lparr>resp_location := Some l\<rparr>"

text \<open>
  The account endpoints answer \<open>{"redirect": target}\<close>. The target is a URL, so like that of a 302
  it is kept structured, in \<open>resp_location\<close>; the body holds the other fields.
\<close>

definition json_redirect :: "nat \<Rightarrow> location \<Rightarrow> http_response" where
  "json_redirect s l = (json_response s (JObj []))\<lparr>resp_location := Some l\<rparr>"

definition add_cookies :: "set_cookie list \<Rightarrow> outcome \<Rightarrow> outcome" where
  "add_cookies cs out =
    (case out of
       Response r \<Rightarrow> Response (r\<lparr>resp_cookies := cs @ resp_cookies r\<rparr>)
     | Panicked \<Rightarrow> Panicked)"

text \<open>\<open>redirectError\<close>: \<open>None\<close> where the Go function returns the empty string.\<close>

definition redirect_error :: "string \<Rightarrow> string \<Rightarrow> string \<Rightarrow> string \<Rightarrow> location option" where
  "redirect_error uri c desc state =
    (case url_parse uri of
       None \<Rightarrow> None
     | Some _ \<Rightarrow> Some (Location uri
         ((''error'', c) #
          (if desc = [] then [] else [(''error_description'', desc)]) @
          (if state = [] then [] else [(''state'', state)]))))"

subsection \<open>Reading a response\<close>

definition status_of :: "outcome \<Rightarrow> nat option" where
  "status_of o1 = (case o1 of Response r \<Rightarrow> Some (resp_status r) | Panicked \<Rightarrow> None)"

definition json_field :: "json \<Rightarrow> string \<Rightarrow> json option" where
  "json_field j k = (case j of JObj kvs \<Rightarrow> map_of kvs k | _ \<Rightarrow> None)"

definition body_field :: "outcome \<Rightarrow> string \<Rightarrow> json option" where
  "body_field o1 k =
    (case o1 of
       Response r \<Rightarrow> (case resp_body r of Some j \<Rightarrow> json_field j k | None \<Rightarrow> None)
     | Panicked \<Rightarrow> None)"

definition error_code :: "outcome \<Rightarrow> string option" where
  "error_code o1 = (case body_field o1 ''error'' of Some (JStr c) \<Rightarrow> Some c | _ \<Rightarrow> None)"

lemma status_of_simps [simp]:
  "status_of (Response r) = Some (resp_status r)" "status_of Panicked = None"
  by (simp_all add: status_of_def)

lemma status_plain_response [simp]: "resp_status (plain_response s) = s"
  by (simp add: plain_response_def)

lemma status_error_response [simp]: "resp_status (error_response s c d) = s"
  by (simp add: error_response_def json_response_def)

lemma status_json_response [simp]: "resp_status (json_response s b) = s"
  by (simp add: json_response_def)

lemma status_redirect_to [simp]: "resp_status (redirect_to s l) = s"
  by (simp add: redirect_to_def)

lemma location_redirect_to [simp]: "resp_location (redirect_to s l) = Some l"
  by (simp add: redirect_to_def)

lemma location_responses [simp]:
  "resp_location (plain_response s) = None"
  "resp_location (json_response s b) = None"
  "resp_location (error_response s c d) = None"
  "resp_location (server_error m) = None"
  by (simp_all add: plain_response_def json_response_def error_response_def server_error_def)

lemma status_server_error [simp]: "resp_status (server_error m) = 500"
  by (simp add: server_error_def)

lemma error_code_error_response [simp]: "error_code (Response (error_response s c d)) = Some c"
  by (simp add: error_code_def body_field_def error_response_def json_response_def json_field_def
      error_body_def plain_response_def)

lemma error_code_server_error [simp]: "error_code (Response (server_error m)) = Some ''server_error''"
  by (simp add: server_error_def)

lemma body_field_json_response [simp]:
  "body_field (Response (json_response s b)) k = json_field b k"
  by (simp add: body_field_def json_response_def plain_response_def)

lemma redirect_error_base: "redirect_error uri c d st = Some l \<Longrightarrow> loc_base l = uri"
  by (auto simp: redirect_error_def split: option.splits)


definition location_of :: "outcome \<Rightarrow> location option" where
  "location_of o1 = (case o1 of Response r \<Rightarrow> resp_location r | Panicked \<Rightarrow> None)"

definition cookies_of :: "outcome \<Rightarrow> set_cookie list" where
  "cookies_of o1 = (case o1 of Response r \<Rightarrow> resp_cookies r | Panicked \<Rightarrow> [])"

lemma cookies_of_simps [simp]:
  "cookies_of (Response r) = resp_cookies r" "cookies_of Panicked = []"
  by (simp_all add: cookies_of_def)

lemma location_of_simps [simp]:
  "location_of (Response r) = resp_location r" "location_of Panicked = None"
  by (simp_all add: location_of_def)

lemma json_redirect_simps [simp]:
  "resp_status (json_redirect s l) = s" "resp_location (json_redirect s l) = Some l"
  "resp_cookies (json_redirect s l) = []"
  by (simp_all add: json_redirect_def json_response_def plain_response_def)

lemma cookies_responses [simp]:
  "resp_cookies (plain_response s) = []" "resp_cookies (json_response s b) = []"
  "resp_cookies (error_response s c d) = []" "resp_cookies (server_error m) = []"
  "resp_cookies (redirect_to s l) = []"
  by (simp_all add: plain_response_def json_response_def error_response_def server_error_def
      redirect_to_def)

lemma add_cookies_simps [simp]:
  "add_cookies cs (Response r) = Response (r\<lparr>resp_cookies := cs @ resp_cookies r\<rparr>)"
  "status_of (add_cookies cs out) = status_of out"
  "location_of (add_cookies cs out) = location_of out"
  "body_field (add_cookies cs out) k = body_field out k"
  "error_code (add_cookies cs out) = error_code out"
  "add_cookies [] out = out"
  by (cases out; simp add: add_cookies_def body_field_def error_code_def)+

end
