(* ===== verification/Base64Url.thy ===== *)
theory Base64Url
  imports GoText
begin

section \<open>base64.RawURLEncoding\<close>

text \<open>
  The unpadded URL alphabet, three bytes to four characters, with one or two left-over
  bytes to two or three characters. Opaque tokens, token hashes, PKCE challenges and
  \<open>at_hash\<close> go through it. The decoder is there to state that the encoding loses nothing.
\<close>

definition b64_char :: "nat \<Rightarrow> char" where
  "b64_char n =
    (if n < 26 then char_of (65 + n)
     else if n < 52 then char_of (97 + (n - 26))
     else if n < 62 then char_of (48 + (n - 52))
     else if n = 62 then CHR ''-'' else CHR ''_'')"

definition b64_val :: "char \<Rightarrow> nat" where
  "b64_val c =
    (let b = of_char c in
     if 65 \<le> b \<and> b \<le> 90 then b - 65
     else if 97 \<le> b \<and> b \<le> 122 then b - 97 + 26
     else if 48 \<le> b \<and> b \<le> 57 then b - 48 + 52
     else if c = CHR ''-'' then 62 else 63)"

fun b64url :: "string \<Rightarrow> string" where
  "b64url [] = []"
| "b64url [a] =
    [b64_char (of_char a div 4), b64_char (of_char a mod 4 * 16)]"
| "b64url [a, b] =
    [b64_char (of_char a div 4), b64_char (of_char a mod 4 * 16 + of_char b div 16),
     b64_char (of_char b mod 16 * 4)]"
| "b64url (a # b # c # s) =
    b64_char (of_char a div 4) # b64_char (of_char a mod 4 * 16 + of_char b div 16) #
    b64_char (of_char b mod 16 * 4 + of_char c div 64) # b64_char (of_char c mod 64) # b64url s"

fun b64url_decode :: "string \<Rightarrow> string" where
  "b64url_decode (p # q # r # t # s) =
    char_of (b64_val p * 4 + b64_val q div 16) #
    char_of (b64_val q mod 16 * 16 + b64_val r div 4) #
    char_of (b64_val r mod 4 * 64 + b64_val t) # b64url_decode s"
| "b64url_decode [p, q, r] =
    [char_of (b64_val p * 4 + b64_val q div 16), char_of (b64_val q mod 16 * 16 + b64_val r div 4)]"
| "b64url_decode [p, q] = [char_of (b64_val p * 4 + b64_val q div 16)]"
| "b64url_decode _ = []"

lemma b64_val_char: "n < 64 \<Longrightarrow> b64_val (b64_char n) = n"
proof -
  assume "n < 64"
  then have "n \<in> set [0..<64]" by simp
  then show ?thesis
    by (simp add: upt_rec b64_char_def b64_val_def) (elim disjE; simp)
qed

lemma of_char_div_lt [simp]:
  fixes c :: char
  shows "(of_char c :: nat) div 4 < 64" "(of_char c :: nat) mod 4 * 16 < 64"
    "(of_char c :: nat) mod 16 * 4 < 64" "(of_char c :: nat) mod 64 < 64"
    "(of_char c :: nat) div 16 < 16" "(of_char c :: nat) div 64 < 4"
  using nat_of_char_less_256 [of c] by (auto simp: div_less_iff_less_mult)

lemma six_bits_lt:
  fixes x y :: nat
  shows "y < 16 \<Longrightarrow> x mod 4 * 16 + y < 64" "y < 4 \<Longrightarrow> x mod 16 * 4 + y < 64"
  using mod_less_divisor [of 4 x] mod_less_divisor [of 16 x] by auto

lemma six_bits_join:
  fixes x y z :: nat
  shows "y < 16 \<Longrightarrow> x div 4 * 4 + (x mod 4 * 16 + y) div 16 = x"
    "y < 256 \<Longrightarrow> z < 4 \<Longrightarrow>
      (x mod 4 * 16 + y div 16) mod 16 * 16 + (y mod 16 * 4 + z) div 4 = y"
    "z < 256 \<Longrightarrow> (y mod 16 * 4 + z div 64) mod 4 * 64 + z mod 64 = z"
proof -
  show "x div 4 * 4 + (x mod 4 * 16 + y) div 16 = x" if "y < 16"
  proof -
    have "(x mod 4 * 16 + y) div 16 = x mod 4" using that by simp
    then show ?thesis by simp
  qed
  show "(x mod 4 * 16 + y div 16) mod 16 * 16 + (y mod 16 * 4 + z) div 4 = y"
    if "y < 256" "z < 4"
  proof -
    have "y div 16 < 16" using that(1) by (simp add: div_less_iff_less_mult)
    then have "(x mod 4 * 16 + y div 16) mod 16 = y div 16" by simp
    moreover have "(y mod 16 * 4 + z) div 4 = y mod 16" using that(2) by simp
    ultimately show ?thesis by simp
  qed
  show "(y mod 16 * 4 + z div 64) mod 4 * 64 + z mod 64 = z" if "z < 256"
  proof -
    have "z div 64 < 4" using that by (simp add: div_less_iff_less_mult)
    then have "(y mod 16 * 4 + z div 64) mod 4 = z div 64" by simp
    then show ?thesis by simp
  qed
qed

lemma b64url_decode_b64url [simp]: "b64url_decode (b64url s) = s"
proof (induction s rule: b64url.induct)
  case (2 a)
  then show ?case by (simp add: b64_val_char six_bits_join(1) [where y = 0, simplified])
next
  case (3 a b)
  then show ?case by (simp add: b64_val_char six_bits_lt six_bits_join six_bits_join(2) [where z = 0, simplified])
next
  case (4 a b c s)
  then show ?case by (simp add: b64_val_char six_bits_lt six_bits_join)
qed simp

lemma b64url_inject: "b64url s = b64url t \<longleftrightarrow> s = t"
  by (metis b64url_decode_b64url)

text \<open>The alphabet has no padding, no white space and none of the URL delimiters.\<close>

definition b64_alphabet :: string where
  "b64_alphabet = ''ABCDEFGHIJKLMNOPQRSTUVWXYZabcdefghijklmnopqrstuvwxyz0123456789-_''"

lemma b64_char_alphabet: "b64_char n \<in> set b64_alphabet"
proof -
  have "\<forall>k \<in> set [0..<64]. b64_char k \<in> set b64_alphabet" by code_simp
  moreover have "b64_char n = b64_char (min n 63)"
    by (auto simp: b64_char_def min_def)
  moreover have "min n 63 \<in> set [0..<64]" by auto
  ultimately show ?thesis by metis
qed

lemma b64url_alphabet: "set (b64url s) \<subseteq> set b64_alphabet"
  by (induction s rule: b64url.induct) (simp_all add: b64_char_alphabet)

end
