(* ===== verification/Runtime.thy ===== *)
theory Runtime
  imports Http Base64Url
begin

section \<open>What the server takes from outside\<close>

text \<open>
  The values a run draws from the operating system, and the functions of packages that are not
  part of this repository.

  \<open>runtime\<close> holds what varies from one run of a handler to the next: the clock reading, the
  fresh UUID, the random bytes and the RSA key pair of each place that asks for one, and the salt
  of the one password a request may hash. The places
  of a handler are numbered; nothing relates the readings of two places unless a theorem says
  so. \<open>crypto\<close> holds the libraries: SHA-256, PKCS#8 and PKIX in PEM, the JWT and JWK functions
  of lestrrat-go/jwx (\<open>jwt_sign\<close>; \<open>jwt_verify\<close> against the server's own keys; \<open>jwks_len\<close>, \<open>jws_signatures\<close>
  and \<open>jwt_parse\<close> for a client's assertion), bcrypt, and the two directions of the text form of a UUID (google/uuid).
  RSA keys are opaque byte strings that only go from one of these functions to the next.
\<close>

type_synonym rsa_key = string
type_synonym claims = "(string, json) gomap"

record jwk =
  jwk_raw :: rsa_key
  jwk_kid :: string
  jwk_alg :: string
  jwk_use :: string

record assertion_token =
  tok_Issuer :: string
  tok_Subject :: string
  tok_Audience :: "string list"
  tok_Expiration :: time
  tok_JwtID :: string
  tok_IssuedAt :: time

record runtime =
  now :: "nat \<Rightarrow> time"
  new_uuid :: "nat \<Rightarrow> uuid"
  random_bytes :: "nat \<Rightarrow> nat \<Rightarrow> string option"
  rsa_generate :: "nat \<Rightarrow> rsa_key option"
  bcrypt_salt :: string

record crypto =
  sha256 :: "string \<Rightarrow> string"
  rsa_public :: "rsa_key \<Rightarrow> rsa_key"
  private_to_pem :: "rsa_key \<Rightarrow> string option"
  public_to_pem :: "rsa_key \<Rightarrow> string option"
  private_from_pem :: "string \<Rightarrow> rsa_key option"
  public_from_pem :: "string \<Rightarrow> rsa_key option"
  jwt_sign :: "jwk \<Rightarrow> claims \<Rightarrow> string option"
  jwt_verify :: "jwk list \<Rightarrow> string \<Rightarrow> time \<Rightarrow> duration \<Rightarrow> string \<Rightarrow> claims option"
  jwks_len :: "string \<Rightarrow> nat option"
  jws_signatures :: "string \<Rightarrow> string option list option"
  jwt_parse :: "string \<Rightarrow> time \<Rightarrow> duration \<Rightarrow> string \<Rightarrow> assertion_token option"
  bcrypt_hash :: "string \<Rightarrow> string \<Rightarrow> string option"
  bcrypt_compare :: "string \<Rightarrow> string \<Rightarrow> bool"
  uuid_string :: "uuid \<Rightarrow> string"
  uuid_parse :: "string \<Rightarrow> uuid option"

subsection \<open>Opaque tokens (internal/token/hasher.go)\<close>

definition OpaqueTokenBytes :: nat where
  "OpaqueTokenBytes = 32"

definition HashToken :: "crypto \<Rightarrow> string \<Rightarrow> string" where
  "HashToken cr raw = b64url (sha256 cr raw)"

text \<open>\<open>None\<close> is the error of \<open>rand.Read\<close>; otherwise the raw value and its hash.\<close>

definition NewOpaqueToken :: "crypto \<Rightarrow> runtime \<Rightarrow> nat \<Rightarrow> (string \<times> string) option" where
  "NewOpaqueToken cr rt k =
    (case random_bytes rt k OpaqueTokenBytes of
       None \<Rightarrow> None
     | Some b \<Rightarrow> (let raw = b64url b in Some (raw, HashToken cr raw)))"

definition HashAccessToken :: "crypto \<Rightarrow> string \<Rightarrow> string" where
  "HashAccessToken cr access =
    (let sum = sha256 cr access in b64url (take (length sum div 2) sum))"

lemma HashToken_inject: "HashToken cr a = HashToken cr b \<longleftrightarrow> sha256 cr a = sha256 cr b"
  by (simp add: HashToken_def b64url_inject)

lemma b64url_eq_Nil [simp]: "b64url s = [] \<longleftrightarrow> s = []"
  by (cases s rule: b64url.cases) simp_all

lemma HashToken_not_Nil: "sha256 cr raw \<noteq> [] \<Longrightarrow> HashToken cr raw \<noteq> []"
  by (simp add: HashToken_def)

lemma NewOpaqueToken_hash: "NewOpaqueToken cr rt k = Some (raw, h) \<Longrightarrow> h = HashToken cr raw"
  by (auto simp: NewOpaqueToken_def Let_def split: option.splits)

subsection \<open>PKCE (internal/token/pkce.go)\<close>

definition PKCEMethod :: string where
  "PKCEMethod = ''S256''"

definition minVerifierLen :: nat where
  "minVerifierLen = 43"

definition maxVerifierLen :: nat where
  "maxVerifierLen = 128"

datatype pkce_error = PKCEInvalidMethod | PKCEInvalidFormat | PKCEChallengeEmpty | PKCEMismatch

definition VerifyS256 :: "crypto \<Rightarrow> string \<Rightarrow> string \<Rightarrow> string \<Rightarrow> pkce_error option" where
  "VerifyS256 cr method verifier challenge =
    (if method \<noteq> PKCEMethod then Some PKCEInvalidMethod
     else if challenge = [] then Some PKCEChallengeEmpty
     else if length verifier < minVerifierLen \<or> length verifier > maxVerifierLen
       then Some PKCEInvalidFormat
     else if b64url (sha256 cr verifier) \<noteq> challenge then Some PKCEMismatch
     else None)"

lemma VerifyS256_None:
  "VerifyS256 cr m v c = None \<longleftrightarrow>
    m = PKCEMethod \<and> c \<noteq> [] \<and> minVerifierLen \<le> length v \<and> length v \<le> maxVerifierLen \<and>
    b64url (sha256 cr v) = c"
  by (auto simp: VerifyS256_def)

section \<open>Clocks (internal/clock)\<close>

text \<open>
  The clock of the running server is the reading \<open>now\<close> of \<open>runtime\<close>; the clock of the tests holds an
  instant that moves when it is told to. An instant is a point in time without a location, so
  \<open>UTC()\<close> leaves it as it is.
\<close>

definition SystemClock_Now :: "runtime \<Rightarrow> nat \<Rightarrow> time" where
  "SystemClock_Now rt place = now rt place"

record fake_clock =
  fc_t :: time

definition NewFakeClock :: "time \<Rightarrow> fake_clock" where
  "NewFakeClock start = \<lparr>fc_t = start\<rparr>"

definition FakeClock_Now :: "fake_clock \<Rightarrow> time" where
  "FakeClock_Now f = fc_t f"

definition FakeClock_Advance :: "duration \<Rightarrow> fake_clock \<Rightarrow> fake_clock" where
  "FakeClock_Advance d f = f\<lparr>fc_t := time_add (fc_t f) d\<rparr>"

definition FakeClock_Set :: "time \<Rightarrow> fake_clock \<Rightarrow> fake_clock" where
  "FakeClock_Set t f = f\<lparr>fc_t := t\<rparr>"

lemmas fake_clock_defs = NewFakeClock_def FakeClock_Now_def FakeClock_Advance_def FakeClock_Set_def

text \<open>A run under a fake clock reads one instant at every place.\<close>

definition at_fake_clock :: "fake_clock \<Rightarrow> runtime \<Rightarrow> runtime" where
  "at_fake_clock f rt = rt\<lparr>now := \<lambda>_. FakeClock_Now f\<rparr>"

lemma fake_clock_reading: "SystemClock_Now (at_fake_clock f rt) place = FakeClock_Now f"
  by (simp add: SystemClock_Now_def at_fake_clock_def)

text \<open>However often it is advanced, the clock has moved by the sum of the durations, without wrap-around.\<close>

lemma advanced_by:
  "FakeClock_Now (fold FakeClock_Advance ds f) = FakeClock_Now f + sum_list (map sint ds)"
  by (induction ds arbitrary: f) (simp_all add: fake_clock_defs time_add_def)

lemma advance_measured: "time_sub (FakeClock_Now (FakeClock_Advance d f)) (FakeClock_Now f) = sint d"
proof -
  have "- (2 ^ 63) \<le> sint d" "sint d < 2 ^ 63" using sint_ge [of d] sint_less [of d] by simp_all
  then show ?thesis by (simp add: fake_clock_defs time_add_def time_sub_def max_duration_def min_duration_def)
qed

end
