(* ===== verification/Store_Interfaces.thy ===== *)
theory Store_Interfaces
  imports Domain_Facts Runtime
begin

section \<open>The store interfaces (internal/store)\<close>

text \<open>
  An interface of the Go package is a record of its methods over the state \<open>'w\<close> of whatever
  implements it: a method that writes takes the state and returns the new one, a method that
  reads returns a value. A pointer argument is an \<open>option\<close>. The handlers are written against
  these records, so they run on every implementation; the in-memory one is in Mem_Codes and
  its neighbours.

  The contract that the handlers rely on is a locale for each kind of store.
\<close>

datatype store_error = NotFound | Duplicate | NilEntity | EmptyID | EmptyHash | OtherError string

record 'w auth_code_store =
  acs_Store :: "authorization_code option \<Rightarrow> 'w \<Rightarrow> store_error option \<times> 'w"
  acs_FindByHash :: "string \<Rightarrow> 'w \<Rightarrow> store_error + authorization_code"
  acs_MarkConsumed :: "uuid \<Rightarrow> time \<Rightarrow> 'w \<Rightarrow> (store_error + bool) \<times> 'w"

record 'w refresh_token_store =
  rts_Store :: "refresh_token option \<Rightarrow> 'w \<Rightarrow> store_error option \<times> 'w"
  rts_FindByHash :: "string \<Rightarrow> 'w \<Rightarrow> store_error + refresh_token"
  rts_FindByID :: "uuid \<Rightarrow> 'w \<Rightarrow> store_error + refresh_token"
  rts_MarkConsumed :: "uuid \<Rightarrow> time \<Rightarrow> 'w \<Rightarrow> (store_error + bool) \<times> 'w"
  rts_Revoke :: "uuid \<Rightarrow> time \<Rightarrow> 'w \<Rightarrow> store_error option \<times> 'w"
  rts_RevokeBySessionID :: "uuid \<Rightarrow> time \<Rightarrow> 'w \<Rightarrow> store_error option \<times> 'w"

record 'w session_store =
  ss_Find :: "uuid \<Rightarrow> 'w \<Rightarrow> store_error + session"
  ss_Store :: "session option \<Rightarrow> 'w \<Rightarrow> store_error option \<times> 'w"
  ss_Revoke :: "uuid \<Rightarrow> time \<Rightarrow> 'w \<Rightarrow> store_error option \<times> 'w"
  ss_ListByUserID :: "string \<Rightarrow> time \<Rightarrow> 'w \<Rightarrow> store_error + session list"
  ss_RevokeByUserIDExcept ::
    "string \<Rightarrow> uuid \<Rightarrow> time \<Rightarrow> 'w \<Rightarrow> (store_error + uuid list) \<times> 'w"

record 'w client_store =
  cs_FindByClientID :: "string \<Rightarrow> 'w \<Rightarrow> store_error + client"
  cs_Store :: "client option \<Rightarrow> 'w \<Rightarrow> store_error option \<times> 'w"
  cs_Delete :: "string \<Rightarrow> 'w \<Rightarrow> store_error option \<times> 'w"

text \<open>The methods of \<open>UserStore\<close> that the handlers of internal/oidc call.\<close>

record 'w user_store =
  us_ValidateCredentials :: "string \<Rightarrow> string \<Rightarrow> 'w \<Rightarrow> store_error + user_info option"
  us_FindByID :: "string \<Rightarrow> 'w \<Rightarrow> store_error + user_info"
  us_CreateUser :: "user \<Rightarrow> string \<Rightarrow> 'w \<Rightarrow> store_error option \<times> 'w"
  us_UpdateUser :: "user \<Rightarrow> 'w \<Rightarrow> store_error option \<times> 'w"
  us_DeleteUser :: "string \<Rightarrow> 'w \<Rightarrow> store_error option \<times> 'w"
  us_FindUserByID :: "string \<Rightarrow> 'w \<Rightarrow> store_error + user"
  us_FindUserByUsername :: "string \<Rightarrow> 'w \<Rightarrow> store_error + user"
  us_FindUserByEmail :: "string \<Rightarrow> 'w \<Rightarrow> store_error + user"
  us_SetPassword :: "string \<Rightarrow> string \<Rightarrow> 'w \<Rightarrow> store_error option \<times> 'w"
  us_GetUserRoles :: "string \<Rightarrow> 'w \<Rightarrow> store_error + string list"

record 'w audit_log_store =
  als_Store :: "audit_log option \<Rightarrow> 'w \<Rightarrow> store_error option \<times> 'w"
  als_ListByActor :: "string \<Rightarrow> string \<Rightarrow> goint \<Rightarrow> 'w \<Rightarrow> store_error + audit_log list"

record 'w signing_key_store =
  sks_GetActive :: "'w \<Rightarrow> store_error + signing_key"
  sks_GetAll :: "'w \<Rightarrow> store_error + signing_key list"
  sks_Store :: "signing_key option \<Rightarrow> 'w \<Rightarrow> store_error option \<times> 'w"

record 'w data_protection_store =
  dps_GetActive :: "'w \<Rightarrow> store_error + data_protection_key"
  dps_GetAll :: "'w \<Rightarrow> store_error + data_protection_key list"
  dps_Store :: "data_protection_key option \<Rightarrow> 'w \<Rightarrow> store_error option \<times> 'w"

record 'w scope_store =
  scs_FindByName :: "string \<Rightarrow> 'w \<Rightarrow> store_error + scope"
  scs_GetAll :: "'w \<Rightarrow> store_error + scope list"
  scs_Store :: "scope option \<Rightarrow> 'w \<Rightarrow> store_error option \<times> 'w"
  scs_Delete :: "string \<Rightarrow> 'w \<Rightarrow> store_error option \<times> 'w"

record 'w password_reset_store =
  prs_Create :: "password_reset_token option \<Rightarrow> 'w \<Rightarrow> store_error option \<times> 'w"
  prs_FindByHash :: "string \<Rightarrow> 'w \<Rightarrow> store_error + password_reset_token"
  prs_Consume :: "uuid \<Rightarrow> time \<Rightarrow> 'w \<Rightarrow> (store_error + bool) \<times> 'w"
  prs_InvalidateForUser :: "string \<Rightarrow> time \<Rightarrow> 'w \<Rightarrow> store_error option \<times> 'w"
  prs_DeleteExpired :: "time \<Rightarrow> 'w \<Rightarrow> (store_error + nat) \<times> 'w"

record 'w login_attempt_tracker =
  lat_IsLockedOut :: "string \<Rightarrow> 'w \<Rightarrow> (store_error + bool) \<times> 'w"
  lat_RecordFailure :: "string \<Rightarrow> 'w \<Rightarrow> store_error option \<times> 'w"
  lat_Reset :: "string \<Rightarrow> 'w \<Rightarrow> store_error option \<times> 'w"

subsection \<open>Single-use tokens\<close>

text \<open>
  The compare-and-set contract of \<open>MarkConsumed\<close> (authcode_store.go, refreshtoken_store.go):
  it is won at most once per id. \<open>spent id s\<close> says the id can no longer win; \<open>step\<close> is any
  other operation the implementation offers on its state.
\<close>

locale cas_store =
  fixes mark :: "uuid \<Rightarrow> time \<Rightarrow> 's \<Rightarrow> (store_error + bool) \<times> 's"
    and spent :: "uuid \<Rightarrow> 's \<Rightarrow> bool"
  assumes mark_won: "mark i t s = (Inr True, s') \<Longrightarrow> \<not> spent i s \<and> spent i s'"
    and mark_keeps: "spent j s \<Longrightarrow> spent j (snd (mark i t s))"
    and mark_lost: "fst (mark i t s) \<noteq> Inr True \<Longrightarrow> snd (mark i t s) = s"
begin

lemma spent_not_won: "spent i s \<Longrightarrow> fst (mark i t s) \<noteq> Inr True"
  using mark_won [of i t s] by (cases "mark i t s") auto

text \<open>A sequence of attempts on ids and times: how often an id wins.\<close>

fun wins :: "uuid \<Rightarrow> (uuid \<times> time) list \<Rightarrow> 's \<Rightarrow> nat" where
  "wins i [] s = 0"
| "wins i ((j, t) # as) s =
    (if j = i \<and> fst (mark j t s) = Inr True then Suc (wins i as (snd (mark j t s)))
     else wins i as (snd (mark j t s)))"

lemma wins_spent: "spent i s \<Longrightarrow> wins i as s = 0"
proof (induction as arbitrary: s)
  case (Cons a as)
  obtain j t where a: "a = (j, t)" by (cases a)
  have "spent i (snd (mark j t s))" by (rule mark_keeps) (rule Cons.prems)
  then show ?case using Cons spent_not_won [of i s t] by (auto simp: a)
qed simp

lemma wins_at_most_once: "wins i as s \<le> 1"
proof (induction as arbitrary: s)
  case (Cons a as)
  obtain j t where a: "a = (j, t)" by (cases a)
  show ?case
  proof (cases "j = i \<and> fst (mark j t s) = Inr True")
    case True
    then have "spent i (snd (mark i t s))"
      using mark_won [of i t s "snd (mark i t s)"] by (cases "mark i t s") auto
    with True show ?thesis by (simp add: a wins_spent)
  next
    case False
    with Cons show ?thesis by (auto simp: a)
  qed
qed simp

end

subsection \<open>Key/value stores\<close>

text \<open>
  What every lookup of a store promises after a write of the same store: the entry written, and
  every other entry untouched. \<open>ok\<close> says which entries the store accepts.
\<close>

locale kv_store =
  fixes find :: "'k \<Rightarrow> 's \<Rightarrow> store_error + 'v"
    and put :: "'v option \<Rightarrow> 's \<Rightarrow> store_error option \<times> 's"
    and key :: "'v \<Rightarrow> 'k"
    and ok :: "'v \<Rightarrow> bool"
  assumes put_ok: "ok v \<Longrightarrow> fst (put (Some v) s) = None"
    and put_bad: "\<not> ok v \<Longrightarrow> fst (put (Some v) s) \<noteq> None \<and> snd (put (Some v) s) = s"
    and put_nil: "fst (put None s) \<noteq> None \<and> snd (put None s) = s"
    and find_put: "ok v \<Longrightarrow>
      find k (snd (put (Some v) s)) = (if k = key v then Inr v else find k s)"
begin

lemma put_then_find: "ok v \<Longrightarrow> find (key v) (snd (put (Some v) s)) = Inr v"
  by (simp add: find_put)

lemma put_other: "k \<noteq> key v \<Longrightarrow> find k (snd (put (Some v) s)) = find k s"
  by (cases "ok v") (simp_all add: find_put put_bad)

lemma put_twice:
  "\<lbrakk>ok v; ok v'; key v = key v'\<rbrakk> \<Longrightarrow>
    find k (snd (put (Some v') (snd (put (Some v) s)))) = find k (snd (put (Some v') s))"
  by (simp add: find_put)

lemma put_result: "fst (put x s) = None \<longleftrightarrow> (\<exists>v. x = Some v \<and> ok v)"
proof (cases x)
  case (Some v)
  then show ?thesis using put_ok [of v s] put_bad [of v s] by (cases "ok v") simp_all
qed (simp add: put_nil)

end

locale kv_store_del = kv_store find put key ok
  for find :: "'k \<Rightarrow> 's \<Rightarrow> store_error + 'v" and put key ok +
  fixes del :: "'k \<Rightarrow> 's \<Rightarrow> store_error option \<times> 's"
  assumes del_missing: "(\<exists>e. find k s = Inl e) \<Longrightarrow> del k s = (Some NotFound, s)"
    and del_found: "find k s = Inr v \<Longrightarrow> fst (del k s) = None"
    and find_del: "find k s = Inr v \<Longrightarrow>
      find j (snd (del k s)) = (if j = k then Inl NotFound else find j s)"
begin

lemma del_result: "fst (del k s) = None \<longleftrightarrow> (\<exists>v. find k s = Inr v)"
  using del_missing [of k s] del_found [of k s] by (cases "find k s") auto

lemma del_then_find: "\<exists>e. find k (snd (del k s)) = Inl e"
  using del_missing [of k s] find_del [of k s] by (cases "find k s") auto

lemma del_other: "j \<noteq> k \<Longrightarrow> find j (snd (del k s)) = find j s"
  using del_missing [of k s] find_del [of k s _ j] by (cases "find k s") auto

lemma del_twice: "del k (snd (del k s)) = (Some NotFound, snd (del k s))"
  using del_then_find by (rule del_missing)

end

subsection \<open>Key rings\<close>

text \<open>
  Signing keys and data-protection keys are rings of the same shape: one lookup for an active
  key, one for all of them, and an upsert by key id.
\<close>

locale key_ring =
  fixes get_active :: "'s \<Rightarrow> store_error + 'k"
    and get_all :: "'s \<Rightarrow> store_error + 'k list"
    and put :: "'k option \<Rightarrow> 's \<Rightarrow> store_error option \<times> 's"
    and ring :: "'s \<Rightarrow> 'k list"
    and good :: "'s \<Rightarrow> bool"
    and kid :: "'k \<Rightarrow> string"
    and active :: "'k \<Rightarrow> bool"
  assumes all_ring: "\<exists>ks. get_all s = Inr ks \<and> set ks = set (ring s)"
    and active_some: "get_active s = Inr k \<Longrightarrow> k \<in> set (ring s) \<and> active k"
    and active_none: "get_active s = Inl e \<Longrightarrow> e = NotFound \<and> (\<forall>k \<in> set (ring s). \<not> active k)"
    and put_good: "good s \<Longrightarrow> good (snd (put x s))"
    and put_ring: "kid k \<noteq> [] \<Longrightarrow> good s \<Longrightarrow> fst (put (Some k) s) = None \<and>
      set (ring (snd (put (Some k) s))) = insert k {k' \<in> set (ring s). kid k' \<noteq> kid k}"
begin

lemma some_active: "(\<exists>k \<in> set (ring s). active k) \<longleftrightarrow> (\<exists>k. get_active s = Inr k)"
  using active_some [of s] active_none [of s] by (cases "get_active s") auto

lemma put_other_key:
  "\<lbrakk>kid k \<noteq> []; good s; k' \<in> set (ring s); kid k' \<noteq> kid k\<rbrakk>
    \<Longrightarrow> k' \<in> set (ring (snd (put (Some k) s)))"
  using put_ring [of k s] by blast

lemma put_this_key: "\<lbrakk>kid k \<noteq> []; good s\<rbrakk> \<Longrightarrow> k \<in> set (ring (snd (put (Some k) s)))"
  using put_ring [of k s] by blast

lemma kids_after_put:
  assumes "kid k \<noteq> []" "good s"
  shows "kid ` set (ring (snd (put (Some k) s))) = insert (kid k) (kid ` set (ring s))"
proof -
  have "set (ring (snd (put (Some k) s))) = insert k {k' \<in> set (ring s). kid k' \<noteq> kid k}"
    using put_ring [OF assms] by (rule conjunct2)
  then show ?thesis by auto
qed

end

end
