(* ===== verification/Mem_Codes.thy ===== *)
theory Mem_Codes
  imports Store_Interfaces
begin

section \<open>In-memory authorization codes and refresh tokens\<close>

text \<open>
  internal/store/memory/authcode.go and refreshtoken.go. A store keeps its entities by id and an
  index from the hash to the id. Every method holds the store's mutex for its whole body
  (\<open>MarkConsumed\<close> also a mutex per id, cas.go), so a method is one atomic function of the state;
  the mutexes themselves have no part in the model.
\<close>

subsection \<open>Authorization codes\<close>

record auth_code_mem =
  acm_codes :: "(uuid, authorization_code) gomap"
  acm_byHash :: "(string, uuid) gomap"

definition NewAuthorizationCodeStore :: auth_code_mem where
  "NewAuthorizationCodeStore = \<lparr>acm_codes = [], acm_byHash = []\<rparr>"

text \<open>The zero value a Go map yields for a key that is not present.\<close>

definition zero_authorization_code :: authorization_code where
  "zero_authorization_code = \<lparr>ac_ID = uuid_nil, ac_CodeHash = [], ac_ClientID = [], ac_UserID = [],
     ac_SessionID = None, ac_RedirectURI = [], ac_CodeChallenge = None,
     ac_CodeChallengeMethod = None, ac_Scope = [], ac_Nonce = None, ac_ExpiresAt = zero_time,
     ac_ConsumedAt = None, ac_CreatedAt = zero_time\<rparr>"

definition authcode_Store :: "authorization_code option \<Rightarrow> auth_code_mem \<Rightarrow> store_error option \<times> auth_code_mem" where
  "authcode_Store x s =
    (case x of
       None \<Rightarrow> (Some NilEntity, s)
     | Some c \<Rightarrow>
         if ac_CodeHash c = [] then (Some EmptyHash, s)
         else (None, s\<lparr>acm_codes := gm_put (ac_ID c) c (acm_codes s),
                       acm_byHash := gm_put (ac_CodeHash c) (ac_ID c) (acm_byHash s)\<rparr>))"

definition authcode_FindByHash :: "string \<Rightarrow> auth_code_mem \<Rightarrow> store_error + authorization_code" where
  "authcode_FindByHash h s =
    (case gm_get (acm_byHash s) h of
       None \<Rightarrow> Inl NotFound
     | Some i \<Rightarrow> (case gm_get (acm_codes s) i of Some c \<Rightarrow> Inr c | None \<Rightarrow> Inr zero_authorization_code))"

definition authcode_MarkConsumed :: "uuid \<Rightarrow> time \<Rightarrow> auth_code_mem \<Rightarrow> (store_error + bool) \<times> auth_code_mem" where
  "authcode_MarkConsumed i t s =
    (case gm_get (acm_codes s) i of
       None \<Rightarrow> (Inl NotFound, s)
     | Some c \<Rightarrow>
         if ac_ConsumedAt c \<noteq> None then (Inr False, s)
         else (Inr True, s\<lparr>acm_codes := gm_put i (c\<lparr>ac_ConsumedAt := Some t\<rparr>) (acm_codes s)\<rparr>))"

lemmas authcode_defs = authcode_Store_def authcode_FindByHash_def authcode_MarkConsumed_def

definition code_spent :: "uuid \<Rightarrow> auth_code_mem \<Rightarrow> bool" where
  "code_spent i s \<longleftrightarrow> (\<exists>c. gm_get (acm_codes s) i = Some c \<and> ac_ConsumedAt c \<noteq> None)"

interpretation code_cas: cas_store authcode_MarkConsumed code_spent
  by unfold_locales
    (auto simp: authcode_MarkConsumed_def code_spent_def split: option.splits if_splits)

text \<open>The index points at entities that are present and carry the hash they are indexed by.\<close>

definition authcode_inv :: "auth_code_mem \<Rightarrow> bool" where
  "authcode_inv s \<longleftrightarrow>
    (\<forall>h i. gm_get (acm_byHash s) h = Some i \<longrightarrow>
      (\<exists>c. gm_get (acm_codes s) i = Some c \<and> ac_ID c = i)) \<and>
    (\<forall>i c. gm_get (acm_codes s) i = Some c \<longrightarrow> ac_ID c = i \<and> ac_CodeHash c \<noteq> [] \<and>
      gm_get (acm_byHash s) (ac_CodeHash c) \<noteq> None)"

lemma authcode_inv_new [simp]: "authcode_inv NewAuthorizationCodeStore"
  by (simp add: authcode_inv_def NewAuthorizationCodeStore_def)

lemma authcode_inv_Store: "authcode_inv s \<Longrightarrow> authcode_inv (snd (authcode_Store x s))"
  unfolding authcode_inv_def authcode_Store_def
  by (auto split: option.splits if_splits)

lemma authcode_inv_MarkConsumed: "authcode_inv s \<Longrightarrow> authcode_inv (snd (authcode_MarkConsumed i t s))"
  unfolding authcode_inv_def authcode_MarkConsumed_def
  by (auto split: option.splits if_splits)

lemma authcode_FindByHash_Inr:
  "authcode_inv s \<Longrightarrow> authcode_FindByHash h s = Inr c \<Longrightarrow> gm_get (acm_codes s) (ac_ID c) = Some c"
  unfolding authcode_inv_def authcode_FindByHash_def
  by (fastforce split: option.splits)

lemma authcode_find_after_store:
  "ac_CodeHash c \<noteq> [] \<Longrightarrow> authcode_FindByHash (ac_CodeHash c) (snd (authcode_Store (Some c) s)) = Inr c"
  by (simp add: authcode_defs)

lemma authcode_MarkConsumed_won:
  "authcode_MarkConsumed i t s = (Inr True, s') \<longleftrightarrow>
    (\<exists>c. gm_get (acm_codes s) i = Some c \<and> ac_ConsumedAt c = None \<and>
      s' = s\<lparr>acm_codes := gm_put i (c\<lparr>ac_ConsumedAt := Some t\<rparr>) (acm_codes s)\<rparr>)"
  by (auto simp: authcode_MarkConsumed_def split: option.splits if_splits)

text \<open>Once consumed, whatever the hash finds is spent.\<close>

lemma authcode_found_spent:
  assumes "authcode_inv s" "authcode_FindByHash h s = Inr c"
    and won: "authcode_MarkConsumed (ac_ID c) t s = (Inr True, s')"
    and "authcode_FindByHash h s' = Inr c'"
  shows "code_spent (ac_ID c') s'"
proof -
  obtain i where i: "gm_get (acm_byHash s) h = Some i"
    using assms(2) by (auto simp: authcode_FindByHash_def split: option.splits)
  then obtain d where d: "gm_get (acm_codes s) i = Some d" "ac_ID d = i"
    using assms(1) unfolding authcode_inv_def by blast
  with i assms(2) have "c = d" by (simp add: authcode_FindByHash_def)
  with d won have s': "s' = s\<lparr>acm_codes := gm_put i (d\<lparr>ac_ConsumedAt := Some t\<rparr>) (acm_codes s)\<rparr>"
    by (simp add: authcode_MarkConsumed_won)
  with i assms(4) have "c' = d\<lparr>ac_ConsumedAt := Some t\<rparr>" by (simp add: authcode_FindByHash_def)
  with d(2) s' show ?thesis by (simp add: code_spent_def)
qed

subsection \<open>Refresh tokens\<close>

record refresh_token_mem =
  rtm_tokens :: "(uuid, refresh_token) gomap"
  rtm_byHash :: "(string, uuid) gomap"

definition NewRefreshTokenStore :: refresh_token_mem where
  "NewRefreshTokenStore = \<lparr>rtm_tokens = [], rtm_byHash = []\<rparr>"

definition zero_refresh_token :: refresh_token where
  "zero_refresh_token = \<lparr>rt_ID = uuid_nil, rt_TokenHash = [], rt_ClientID = [], rt_UserID = [],
     rt_SessionID = None, rt_ParentTokenID = None, rt_Scope = [], rt_ExpiresAt = zero_time,
     rt_AbsoluteExpiresAt = zero_time, rt_ConsumedAt = None, rt_RevokedAt = None,
     rt_CreatedAt = zero_time\<rparr>"

definition refresh_Store :: "refresh_token option \<Rightarrow> refresh_token_mem \<Rightarrow> store_error option \<times> refresh_token_mem" where
  "refresh_Store x s =
    (case x of
       None \<Rightarrow> (Some NilEntity, s)
     | Some t \<Rightarrow>
         if rt_TokenHash t = [] then (Some EmptyHash, s)
         else (None, s\<lparr>rtm_tokens := gm_put (rt_ID t) t (rtm_tokens s),
                       rtm_byHash := gm_put (rt_TokenHash t) (rt_ID t) (rtm_byHash s)\<rparr>))"

definition refresh_FindByHash :: "string \<Rightarrow> refresh_token_mem \<Rightarrow> store_error + refresh_token" where
  "refresh_FindByHash h s =
    (case gm_get (rtm_byHash s) h of
       None \<Rightarrow> Inl NotFound
     | Some i \<Rightarrow> (case gm_get (rtm_tokens s) i of Some t \<Rightarrow> Inr t | None \<Rightarrow> Inr zero_refresh_token))"

definition refresh_FindByID :: "uuid \<Rightarrow> refresh_token_mem \<Rightarrow> store_error + refresh_token" where
  "refresh_FindByID i s =
    (case gm_get (rtm_tokens s) i of Some t \<Rightarrow> Inr t | None \<Rightarrow> Inl NotFound)"

definition refresh_MarkConsumed :: "uuid \<Rightarrow> time \<Rightarrow> refresh_token_mem \<Rightarrow> (store_error + bool) \<times> refresh_token_mem" where
  "refresh_MarkConsumed i at s =
    (case gm_get (rtm_tokens s) i of
       None \<Rightarrow> (Inl NotFound, s)
     | Some t \<Rightarrow>
         if rt_ConsumedAt t \<noteq> None then (Inr False, s)
         else (Inr True, s\<lparr>rtm_tokens := gm_put i (t\<lparr>rt_ConsumedAt := Some at\<rparr>) (rtm_tokens s)\<rparr>))"

definition refresh_Revoke :: "uuid \<Rightarrow> time \<Rightarrow> refresh_token_mem \<Rightarrow> store_error option \<times> refresh_token_mem" where
  "refresh_Revoke i at s =
    (case gm_get (rtm_tokens s) i of
       None \<Rightarrow> (Some NotFound, s)
     | Some t \<Rightarrow>
         if rt_RevokedAt t \<noteq> None then (None, s)
         else (None, s\<lparr>rtm_tokens := gm_put i (t\<lparr>rt_RevokedAt := Some at\<rparr>) (rtm_tokens s)\<rparr>))"

definition revoke_if :: "bool \<Rightarrow> time \<Rightarrow> refresh_token \<Rightarrow> refresh_token" where
  "revoke_if p at t = (if p \<and> rt_RevokedAt t = None then t\<lparr>rt_RevokedAt := Some at\<rparr> else t)"

definition refresh_RevokeBySessionID :: "uuid \<Rightarrow> time \<Rightarrow> refresh_token_mem \<Rightarrow> store_error option \<times> refresh_token_mem" where
  "refresh_RevokeBySessionID sid at s =
    (None, s\<lparr>rtm_tokens := gm_map (\<lambda>i t. revoke_if (rt_SessionID t = Some sid) at t) (rtm_tokens s)\<rparr>)"

lemmas refresh_mem_defs = refresh_Store_def refresh_FindByHash_def refresh_FindByID_def
  refresh_MarkConsumed_def refresh_Revoke_def refresh_RevokeBySessionID_def

definition refresh_spent :: "uuid \<Rightarrow> refresh_token_mem \<Rightarrow> bool" where
  "refresh_spent i s \<longleftrightarrow> (\<exists>t. gm_get (rtm_tokens s) i = Some t \<and> rt_ConsumedAt t \<noteq> None)"

interpretation refresh_cas: cas_store refresh_MarkConsumed refresh_spent
  by unfold_locales
    (auto simp: refresh_MarkConsumed_def refresh_spent_def split: option.splits if_splits)

interpretation refresh_kv: kv_store refresh_FindByID refresh_Store rt_ID "\<lambda>t. rt_TokenHash t \<noteq> []"
  by unfold_locales (auto simp: refresh_FindByID_def refresh_Store_def split: option.splits)

lemma revoke_if_simps [simp]:
  "rt_ID (revoke_if p at t) = rt_ID t" "rt_TokenHash (revoke_if p at t) = rt_TokenHash t"
  "rt_ConsumedAt (revoke_if p at t) = rt_ConsumedAt t"
  "rt_SessionID (revoke_if p at t) = rt_SessionID t"
  "rt_ParentTokenID (revoke_if p at t) = rt_ParentTokenID t"
  "rt_Scope (revoke_if p at t) = rt_Scope t"
  "rt_ClientID (revoke_if p at t) = rt_ClientID t"
  "rt_CreatedAt (revoke_if p at t) = rt_CreatedAt t"
  "rt_AbsoluteExpiresAt (revoke_if p at t) = rt_AbsoluteExpiresAt t"
  "rt_ExpiresAt (revoke_if p at t) = rt_ExpiresAt t"
  by (simp_all add: revoke_if_def)

lemma revoke_if_False [simp]: "revoke_if False at t = t"
  by (simp add: revoke_if_def)

lemma revoke_if_True [simp]: "\<exists>y. rt_RevokedAt (revoke_if True at t) = Some y"
  by (cases "rt_RevokedAt t") (auto simp: revoke_if_def)

lemma revoke_if_keeps: "rt_RevokedAt t \<noteq> None \<Longrightarrow> revoke_if p at t = t"
  by (simp add: revoke_if_def)

definition refresh_inv :: "refresh_token_mem \<Rightarrow> bool" where
  "refresh_inv s \<longleftrightarrow>
    (\<forall>h i. gm_get (rtm_byHash s) h = Some i \<longrightarrow>
      (\<exists>t. gm_get (rtm_tokens s) i = Some t \<and> rt_ID t = i)) \<and>
    (\<forall>i t. gm_get (rtm_tokens s) i = Some t \<longrightarrow> rt_ID t = i \<and> rt_TokenHash t \<noteq> [] \<and>
      gm_get (rtm_byHash s) (rt_TokenHash t) \<noteq> None)"

lemma refresh_inv_new [simp]: "refresh_inv NewRefreshTokenStore"
  by (simp add: refresh_inv_def NewRefreshTokenStore_def)

lemma refresh_inv_Store: "refresh_inv s \<Longrightarrow> refresh_inv (snd (refresh_Store x s))"
  unfolding refresh_inv_def refresh_Store_def by (auto split: option.splits if_splits)

lemma refresh_inv_MarkConsumed: "refresh_inv s \<Longrightarrow> refresh_inv (snd (refresh_MarkConsumed i t s))"
  unfolding refresh_inv_def refresh_MarkConsumed_def by (auto split: option.splits if_splits)

lemma refresh_inv_Revoke: "refresh_inv s \<Longrightarrow> refresh_inv (snd (refresh_Revoke i t s))"
  unfolding refresh_inv_def refresh_Revoke_def by (auto split: option.splits if_splits)

lemma refresh_inv_RevokeBySessionID:
  "refresh_inv s \<Longrightarrow> refresh_inv (snd (refresh_RevokeBySessionID i t s))"
  unfolding refresh_inv_def refresh_RevokeBySessionID_def by fastforce

lemma refresh_FindByHash_Inr:
  "refresh_inv s \<Longrightarrow> refresh_FindByHash h s = Inr t \<Longrightarrow> gm_get (rtm_tokens s) (rt_ID t) = Some t"
  unfolding refresh_inv_def refresh_FindByHash_def by (fastforce split: option.splits)

text \<open>After \<open>RevokeBySessionID\<close> every token of the session is revoked, and only those changed.\<close>

lemma refresh_revoked_by_session:
  "gm_get (rtm_tokens (snd (refresh_RevokeBySessionID sid at s))) i = Some t \<Longrightarrow>
    rt_SessionID t = Some sid \<Longrightarrow> rt_RevokedAt t \<noteq> None"
  by (auto simp: refresh_RevokeBySessionID_def)

lemma refresh_revoke_other:
  "gm_get (rtm_tokens s) i = Some t \<Longrightarrow> rt_SessionID t \<noteq> Some sid \<Longrightarrow>
    gm_get (rtm_tokens (snd (refresh_RevokeBySessionID sid at s))) i = Some t"
  by (simp add: refresh_RevokeBySessionID_def)

text \<open>Consumption and revocation are never undone by these operations.\<close>

lemma refresh_spent_stays:
  "refresh_spent j s \<Longrightarrow> refresh_spent j (snd (refresh_Revoke i t s))"
  "refresh_spent j s \<Longrightarrow> refresh_spent j (snd (refresh_RevokeBySessionID sid t s))"
  "refresh_spent j s \<Longrightarrow> (\<forall>r. x = Some r \<longrightarrow> rt_ID r \<noteq> j) \<Longrightarrow> refresh_spent j (snd (refresh_Store x s))"
  by (auto simp: refresh_spent_def refresh_mem_defs split: option.splits)

end
