(* ===== verification/Key_Manager.thy ===== *)
theory Key_Manager
  imports Store_Interfaces
begin

section \<open>Signing keys (internal/token/keys.go)\<close>

text \<open>
  The key manager over any signing-key store. \<open>site\<close> numbers the place that draws the key
  material, the key id and the clock reading. The lemmas hold for every store that keeps the
  \<open>key_ring\<close> contract: there is never a moment without an active key once there was one, and
  a retired key stays published.
\<close>

datatype key_error =
    KeysGetActive store_error
  | KeysGetAll store_error
  | KeysStore store_error
  | KeysGenerate
  | KeysEncode
  | KeysDecode

definition RSAKeyBits :: nat where
  "RSAKeyBits = 2048"

definition DefaultAlgorithm :: string where
  "DefaultAlgorithm = ''RS256''"

definition GenerateRSAKey :: "runtime \<Rightarrow> nat \<Rightarrow> nat \<Rightarrow> rsa_key option" where
  "GenerateRSAKey rt site bits = (if bits < 2048 then None else rsa_generate rt site)"

definition generateActive ::
  "crypto \<Rightarrow> 'w signing_key_store \<Rightarrow> runtime \<Rightarrow> nat \<Rightarrow> 'w \<Rightarrow> (key_error + signing_key) \<times> 'w" where
  "generateActive cr st rt site w =
    (case GenerateRSAKey rt site RSAKeyBits of
       None \<Rightarrow> (Inl KeysGenerate, w)
     | Some priv \<Rightarrow>
         (case private_to_pem cr priv of
            None \<Rightarrow> (Inl KeysEncode, w)
          | Some privPEM \<Rightarrow>
              (case public_to_pem cr (rsa_public cr priv) of
                 None \<Rightarrow> (Inl KeysEncode, w)
               | Some pubPEM \<Rightarrow>
                   (let k = \<lparr>sk_KeyID = uuid_string cr (new_uuid rt site),
                             sk_Algorithm = DefaultAlgorithm, sk_PrivateKeyPEM = privPEM,
                             sk_PublicKeyPEM = pubPEM, sk_CreatedAt = now rt site,
                             sk_RetiredAt = None, sk_IsActive = True\<rparr>
                    in case sks_Store st (Some k) w of
                         (Some e, w') \<Rightarrow> (Inl (KeysStore e), w')
                       | (None, w') \<Rightarrow> (Inr k, w')))))"

definition EnsureActiveKey ::
  "crypto \<Rightarrow> 'w signing_key_store \<Rightarrow> runtime \<Rightarrow> nat \<Rightarrow> 'w \<Rightarrow> (key_error + signing_key) \<times> 'w" where
  "EnsureActiveKey cr st rt site w =
    (case sks_GetActive st w of
       Inr active \<Rightarrow> (Inr active, w)
     | Inl e \<Rightarrow> if e \<noteq> NotFound then (Inl (KeysGetActive e), w) else generateActive cr st rt site w)"

text \<open>The last step of \<open>Rotate\<close>: retire the key that was active before.\<close>

definition retire :: "signing_key \<Rightarrow> time \<Rightarrow> signing_key" where
  "retire k t = k\<lparr>sk_IsActive := False, sk_RetiredAt := Some t\<rparr>"

definition Rotate ::
  "crypto \<Rightarrow> 'w signing_key_store \<Rightarrow> runtime \<Rightarrow> nat \<Rightarrow> 'w \<Rightarrow> (key_error + signing_key) \<times> 'w" where
  "Rotate cr st rt site w =
    (case (case sks_GetActive st w of
             Inr k \<Rightarrow> Inr (Some k)
           | Inl e \<Rightarrow> if e = NotFound then Inr None else Inl (KeysGetActive e)) of
       Inl e \<Rightarrow> (Inl e, w)
     | Inr previous \<Rightarrow>
         (case generateActive cr st rt site w of
            (Inl e, w1) \<Rightarrow> (Inl e, w1)
          | (Inr next_key, w1) \<Rightarrow>
              (case previous of
                 None \<Rightarrow> (Inr next_key, w1)
               | Some p \<Rightarrow>
                   (case sks_Store st (Some (retire p (now rt (site + 1)))) w1 of
                      (Some e, w2) \<Rightarrow> (Inl (KeysStore e), w2)
                    | (None, w2) \<Rightarrow> (Inr next_key, w2)))))"

definition PrivateJWK ::
  "crypto \<Rightarrow> 'w signing_key_store \<Rightarrow> runtime \<Rightarrow> nat \<Rightarrow> 'w \<Rightarrow> (key_error + jwk) \<times> 'w" where
  "PrivateJWK cr st rt site w =
    (case EnsureActiveKey cr st rt site w of
       (Inl e, w') \<Rightarrow> (Inl e, w')
     | (Inr k, w') \<Rightarrow>
         (case private_from_pem cr (sk_PrivateKeyPEM k) of
            None \<Rightarrow> (Inl KeysDecode, w')
          | Some priv \<Rightarrow>
              (Inr \<lparr>jwk_raw = priv, jwk_kid = sk_KeyID k, jwk_alg = sk_Algorithm k, jwk_use = []\<rparr>, w')))"

definition public_jwk :: "crypto \<Rightarrow> signing_key \<Rightarrow> jwk option" where
  "public_jwk cr k =
    map_option (\<lambda>pub. \<lparr>jwk_raw = pub, jwk_kid = sk_KeyID k, jwk_alg = sk_Algorithm k, jwk_use = ''sig''\<rparr>)
      (public_from_pem cr (sk_PublicKeyPEM k))"

fun public_jwks :: "crypto \<Rightarrow> signing_key list \<Rightarrow> jwk list option" where
  "public_jwks cr [] = Some []"
| "public_jwks cr (k # ks) =
    (case public_jwk cr k of
       None \<Rightarrow> None
     | Some j \<Rightarrow> map_option ((#) j) (public_jwks cr ks))"

definition PublicJWKSet :: "crypto \<Rightarrow> 'w signing_key_store \<Rightarrow> 'w \<Rightarrow> key_error + jwk list" where
  "PublicJWKSet cr st w =
    (case sks_GetAll st w of
       Inl e \<Rightarrow> Inl (KeysGetAll e)
     | Inr ks \<Rightarrow> (case public_jwks cr ks of None \<Rightarrow> Inl KeysDecode | Some js \<Rightarrow> Inr js))"

lemma retire_simps [simp]:
  "sk_KeyID (retire k t) = sk_KeyID k" "\<not> sk_IsActive (retire k t)"
  "sk_RetiredAt (retire k t) = Some t" "sk_PublicKeyPEM (retire k t) = sk_PublicKeyPEM k"
  by (simp_all add: retire_def)

lemmas key_manager_defs = GenerateRSAKey_def RSAKeyBits_def generateActive_def
  EnsureActiveKey_def Rotate_def PrivateJWK_def retire_def

lemma public_jwks_kids: "public_jwks cr ks = Some js \<Longrightarrow> map jwk_kid js = map sk_KeyID ks"
  by (induction ks arbitrary: js) (auto simp: public_jwk_def split: option.splits)

lemma generateActive_key:
  assumes "generateActive cr st rt site w = (Inr k, w')"
  shows "sk_IsActive k" "sk_RetiredAt k = None" "sk_KeyID k = uuid_string cr (new_uuid rt site)"
    "sks_Store st (Some k) w = (None, w')"
  using assms
  by (auto simp: generateActive_def Let_def split: option.splits prod.splits)

lemma generateActive_error:
  assumes "generateActive cr st rt site w = (Inl e, w')"
  shows "w' = w \<or> (\<exists>k e'. sks_Store st (Some k) w = (Some e', w') \<and> e = KeysStore e')"
  using assms
  by (auto simp: generateActive_def Let_def split: option.splits prod.splits)

subsection \<open>The ring the manager maintains\<close>

locale signing_ring =
  key_ring "sks_GetActive st" "sks_GetAll st" "sks_Store st" ring good sk_KeyID sk_IsActive
  for st :: "'w signing_key_store" and ring and good
begin

definition has_active :: "'w \<Rightarrow> bool" where
  "has_active w \<longleftrightarrow> (\<exists>k \<in> set (ring w). sk_IsActive k)"

lemma has_active_get: "has_active w \<longleftrightarrow> (\<exists>k. sks_GetActive st w = Inr k)"
  unfolding has_active_def by (rule some_active)

lemma ensure_idempotent:
  assumes "EnsureActiveKey cr st rt site w = (Inr k, w')" "uuid_string cr (new_uuid rt site) \<noteq> []"
    and good: "good w"
  shows "has_active w' \<and> (\<exists>k'. EnsureActiveKey cr st rt' site' w' = (Inr k', w'))"
proof -
  have "has_active w'"
  proof (cases "sks_GetActive st w")
    case (Inr a)
    with assms have "w' = w" by (simp add: EnsureActiveKey_def)
    with Inr show ?thesis by (auto simp: has_active_get)
  next
    case (Inl e)
    with assms have g: "generateActive cr st rt site w = (Inr k, w')"
      by (auto simp: EnsureActiveKey_def split: if_splits)
    have "k \<in> set (ring w')"
      using put_this_key [of k w] generateActive_key [OF g] assms(2) good by simp
    with generateActive_key(1) [OF g] show ?thesis by (auto simp: has_active_def)
  qed
  then show ?thesis by (auto simp: EnsureActiveKey_def has_active_get)
qed

lemma ensure_no_write: "has_active w \<Longrightarrow> \<exists>k. EnsureActiveKey cr st rt site w = (Inr k, w)"
  by (auto simp: EnsureActiveKey_def has_active_get)

text \<open>A rotation: the new key is there and active, the old one is there and retired.\<close>

lemma rotate_ring:
  assumes good: "good w"
    and old: "sks_GetActive st w = Inr p" "sk_KeyID p \<noteq> []"
    and fresh: "uuid_string cr (new_uuid rt site) \<noteq> []"
      "uuid_string cr (new_uuid rt site) \<notin> sk_KeyID ` set (ring w)"
    and rot: "Rotate cr st rt site w = (Inr k, w')"
  shows "sk_IsActive k" "k \<in> set (ring w')" "retire p (now rt (site + 1)) \<in> set (ring w')"
    "set (ring w') = insert (retire p (now rt (site + 1)))
       (insert k {q \<in> set (ring w). sk_KeyID q \<noteq> sk_KeyID p})"
proof -
  obtain w1 where g: "generateActive cr st rt site w = (Inr k, w1)"
    and s: "sks_Store st (Some (retire p (now rt (site + 1)))) w1 = (None, w')"
    using rot old by (auto simp: Rotate_def split: prod.splits sum.splits option.splits)
  note k = generateActive_key [OF g]
  have good1: "good w1" using put_good [OF good, of "Some k"] k(4) by simp
  have p: "p \<in> set (ring w)" using active_some [OF old(1)] by simp
  then have ne: "sk_KeyID k \<noteq> sk_KeyID p" using fresh k by auto
  have r1: "set (ring w1) = insert k {q \<in> set (ring w). sk_KeyID q \<noteq> sk_KeyID k}"
    using put_ring [of k w] k fresh good by simp
  then have r1': "set (ring w1) = insert k (set (ring w))"
    using fresh(2) k(3) by (auto simp: image_iff)
  have "set (ring w') = insert (retire p (now rt (site + 1))) {q \<in> set (ring w1). sk_KeyID q \<noteq> sk_KeyID p}"
    using put_ring [of "retire p (now rt (site + 1))" w1] s old(2) good1 by simp
  with r1' ne show all: "set (ring w') = insert (retire p (now rt (site + 1)))
       (insert k {q \<in> set (ring w). sk_KeyID q \<noteq> sk_KeyID p})" by auto
  show "sk_IsActive k" by (rule k)
  show "k \<in> set (ring w')" "retire p (now rt (site + 1)) \<in> set (ring w')" by (simp_all add: all)
qed

text \<open>Whatever the outcome, rotating a ring that has an active key leaves one.\<close>

lemma rotate_never_none:
  assumes good: "good w" and act: "has_active w"
    and ids: "uuid_string cr (new_uuid rt site) \<noteq> []" "\<forall>q \<in> set (ring w). sk_KeyID q \<noteq> []"
      "uuid_string cr (new_uuid rt site) \<notin> sk_KeyID ` set (ring w)"
    and rot: "Rotate cr st rt site w = (res, w')"
  shows "has_active w'"
proof -
  obtain p where p: "sks_GetActive st w = Inr p" using act by (auto simp: has_active_get)
  then have pr: "p \<in> set (ring w)" "sk_IsActive p" using active_some by auto
  show ?thesis
  proof (cases "generateActive cr st rt site w")
    case (Pair g w1)
    show ?thesis
    proof (cases g)
      case (Inl e)
      with Pair p rot have "w' = w1" by (simp add: Rotate_def)
      moreover have "w1 = w"
        using Pair Inl ids(1) put_ring [OF _ good]
        by (auto simp: generateActive_def Let_def split: option.splits prod.splits)
          (metis fst_conv option.distinct(1) signing_key.select_convs(1))+
      ultimately show ?thesis using act by simp
    next
      case (Inr k)
      have good1: "good w1"
        using put_good [OF good, of "Some k"] generateActive_key(4) [of cr st rt site w k w1] Pair Inr
        by simp
      obtain w2 where "sks_Store st (Some (retire p (now rt (site + 1)))) w1 = (None, w2)"
        using put_ring [of "retire p (now rt (site + 1))" w1] ids(2) pr good1
        by (cases "sks_Store st (Some (retire p (now rt (site + 1)))) w1") auto
      with Pair Inr p rot have "Rotate cr st rt site w = (Inr k, w')"
        by (auto simp: Rotate_def)
      from rotate_ring(1,2) [OF good p _ ids(1) ids(3) this] show ?thesis
        using ids(2) pr by (auto simp: has_active_def)
    qed
  qed
qed

end

end
