(* ===== verification/Mem_Stores.thy ===== *)
theory Mem_Stores
  imports Key_Manager Mem_Codes
begin

section \<open>The other in-memory stores\<close>

text \<open>
  Sessions, clients, signing keys, data-protection keys, scopes, audit log and password resets
  (internal/store/memory). A Go map is the list of its entries, and a \<open>range\<close> loop visits them in
  that order. \<open>sort.Slice\<close> leaves the order of equal entries open; the model keeps them as the
  loop found them.
\<close>

subsection \<open>Paging\<close>

text \<open>\<open>items[start:end]\<close>, \<open>None\<close> where Go panics.\<close>

definition go_slice :: "'a list \<Rightarrow> int \<Rightarrow> int \<Rightarrow> 'a list option" where
  "go_slice xs s e =
    (if 0 \<le> s \<and> s \<le> e \<and> e \<le> int (length xs) then Some (take (nat (e - s)) (drop (nat s) xs)) else None)"

text \<open>The bounds every \<open>GetPaged\<close> computes, with 64-bit products and sums.\<close>

definition page_bounds :: "paged_request \<Rightarrow> int \<Rightarrow> int \<times> int" where
  "page_bounds r cnt =
    (let start0 = sint ((pq_Page r - 1) * pq_PageSize r);
         start = (if start0 > cnt then cnt else start0);
         end0 = sint (word_of_int start + pq_PageSize r)
     in (start, if end0 > cnt then cnt else end0))"

definition get_paged :: "'a list \<Rightarrow> paged_request \<Rightarrow> 'a paged_result option" where
  "get_paged items req =
    (let r = normalized req;
         (s, e) = page_bounds r (int (length items))
     in map_option (\<lambda>xs. \<lparr>pg_Items = xs, pg_TotalCount = length items, pg_Page = pq_Page r,
          pg_PageSize = pq_PageSize r\<rparr>) (go_slice items s e))"

definition refresh_GetPaged :: "paged_request \<Rightarrow> refresh_token_mem \<Rightarrow> refresh_token paged_result option" where
  "refresh_GetPaged req s = get_paged (map snd (rtm_tokens s)) req"

subsection \<open>Sessions\<close>

type_synonym session_mem = "(uuid, session) gomap"

definition session_Find :: "uuid \<Rightarrow> session_mem \<Rightarrow> store_error + session" where
  "session_Find i s = (case gm_get s i of None \<Rightarrow> Inl NotFound | Some x \<Rightarrow> Inr x)"

definition session_GetPaged :: "paged_request \<Rightarrow> session_mem \<Rightarrow> session paged_result option" where
  "session_GetPaged req s = get_paged (map snd s) req"

definition session_Store :: "session option \<Rightarrow> session_mem \<Rightarrow> store_error option \<times> session_mem" where
  "session_Store x s =
    (case x of None \<Rightarrow> (Some NilEntity, s) | Some v \<Rightarrow> (None, gm_put (s_ID v) v s))"

definition session_Revoke :: "uuid \<Rightarrow> time \<Rightarrow> session_mem \<Rightarrow> store_error option \<times> session_mem" where
  "session_Revoke i t s =
    (case gm_get s i of
       None \<Rightarrow> (Some NotFound, s)
     | Some x \<Rightarrow>
         if s_RevokedAt x \<noteq> None then (None, s)
         else (None, gm_put i (x\<lparr>s_RevokedAt := Some t\<rparr>) s))"

definition session_usable :: "string \<Rightarrow> time \<Rightarrow> session \<Rightarrow> bool" where
  "session_usable uid t x \<longleftrightarrow> s_UserID x = uid \<and> s_RevokedAt x = None \<and> time_before t (s_ExpiresAt x)"

definition session_ListByUserID :: "string \<Rightarrow> time \<Rightarrow> session_mem \<Rightarrow> store_error + session list" where
  "session_ListByUserID uid t s =
    Inr (sort_key (\<lambda>x. - s_CreatedAt x) (filter (session_usable uid t) (map snd s)))"

text \<open>The loop of \<open>RevokeByUserIDExcept\<close>: the entries it revokes.\<close>

definition revoke_hits :: "string \<Rightarrow> uuid \<Rightarrow> time \<Rightarrow> uuid \<Rightarrow> session \<Rightarrow> bool" where
  "revoke_hits uid keep t i x \<longleftrightarrow> session_usable uid t x \<and> i \<noteq> keep"

definition session_RevokeByUserIDExcept ::
  "string \<Rightarrow> uuid \<Rightarrow> time \<Rightarrow> session_mem \<Rightarrow> (store_error + uuid list) \<times> session_mem" where
  "session_RevokeByUserIDExcept uid keep t s =
    (Inr (map fst (filter (\<lambda>(i, x). revoke_hits uid keep t i x) s)),
     gm_map (\<lambda>i x. if revoke_hits uid keep t i x then x\<lparr>s_RevokedAt := Some t\<rparr> else x) s)"

lemmas session_mem_defs = session_Find_def session_Store_def session_Revoke_def
  session_ListByUserID_def session_RevokeByUserIDExcept_def

interpretation session_kv: kv_store session_Find session_Store s_ID "\<lambda>_. True"
  by unfold_locales (auto simp: session_Find_def session_Store_def)

subsection \<open>Clients\<close>

type_synonym client_mem = "(string, client) gomap"

definition client_FindByClientID :: "string \<Rightarrow> client_mem \<Rightarrow> store_error + client" where
  "client_FindByClientID i s = (case gm_get s i of None \<Rightarrow> Inl NotFound | Some x \<Rightarrow> Inr x)"

definition client_GetPaged :: "paged_request \<Rightarrow> client_mem \<Rightarrow> client paged_result option" where
  "client_GetPaged req s = get_paged (map snd s) req"

definition client_Store :: "client option \<Rightarrow> client_mem \<Rightarrow> store_error option \<times> client_mem" where
  "client_Store x s =
    (case x of
       None \<Rightarrow> (Some NilEntity, s)
     | Some c \<Rightarrow> if c_ClientID c = [] then (Some EmptyID, s) else (None, gm_put (c_ClientID c) c s))"

definition client_Delete :: "string \<Rightarrow> client_mem \<Rightarrow> store_error option \<times> client_mem" where
  "client_Delete i s =
    (case gm_get s i of None \<Rightarrow> (Some NotFound, s) | Some _ \<Rightarrow> (None, gm_del i s))"

interpretation client_kv: kv_store_del client_FindByClientID client_Store c_ClientID
  "\<lambda>c. c_ClientID c \<noteq> []" client_Delete
  by unfold_locales
    (auto simp: client_FindByClientID_def client_Store_def client_Delete_def split: option.splits)

subsection \<open>Keyed lists in insertion order\<close>

text \<open>
  Signing keys, data-protection keys and scopes keep a map and the order of first insertion.
  A list of the values in that order is the same data.
\<close>

definition upsert :: "('v \<Rightarrow> string) \<Rightarrow> 'v \<Rightarrow> (string, 'v) gomap \<Rightarrow> (string, 'v) gomap" where
  "upsert key v s = gm_put (key v) v s"

type_synonym signing_key_mem = "(string, signing_key) gomap"

definition signing_GetActive :: "signing_key_mem \<Rightarrow> store_error + signing_key" where
  "signing_GetActive s =
    (case find sk_IsActive (map snd s) of None \<Rightarrow> Inl NotFound | Some k \<Rightarrow> Inr k)"

definition signing_GetAll :: "signing_key_mem \<Rightarrow> store_error + signing_key list" where
  "signing_GetAll s = Inr (map snd s)"

definition signing_Store :: "signing_key option \<Rightarrow> signing_key_mem \<Rightarrow> store_error option \<times> signing_key_mem" where
  "signing_Store x s =
    (case x of
       None \<Rightarrow> (Some NilEntity, s)
     | Some k \<Rightarrow> if sk_KeyID k = [] then (Some EmptyID, s) else (None, upsert sk_KeyID k s))"

type_synonym data_protection_mem = "(string, data_protection_key) gomap"

definition dp_GetActive :: "data_protection_mem \<Rightarrow> store_error + data_protection_key" where
  "dp_GetActive s =
    (case find dk_IsActive (map snd s) of None \<Rightarrow> Inl NotFound | Some k \<Rightarrow> Inr k)"

definition dp_GetAll :: "data_protection_mem \<Rightarrow> store_error + data_protection_key list" where
  "dp_GetAll s = Inr (rev (map snd s))"

definition dp_Store ::
  "data_protection_key option \<Rightarrow> data_protection_mem \<Rightarrow> store_error option \<times> data_protection_mem" where
  "dp_Store x s =
    (case x of
       None \<Rightarrow> (Some NilEntity, s)
     | Some k \<Rightarrow> if dk_KeyID k = [] then (Some EmptyID, s) else (None, upsert dk_KeyID k s))"

type_synonym scope_mem = "(string, scope) gomap"

definition scope_FindByName :: "string \<Rightarrow> scope_mem \<Rightarrow> store_error + scope" where
  "scope_FindByName n s = (case gm_get s n of None \<Rightarrow> Inl NotFound | Some x \<Rightarrow> Inr x)"

definition scope_GetAll :: "scope_mem \<Rightarrow> store_error + scope list" where
  "scope_GetAll s = Inr (map snd s)"

definition scope_Store :: "scope option \<Rightarrow> scope_mem \<Rightarrow> store_error option \<times> scope_mem" where
  "scope_Store x s =
    (case x of
       None \<Rightarrow> (Some NilEntity, s)
     | Some c \<Rightarrow> if sc_Name c = [] then (Some EmptyID, s) else (None, upsert sc_Name c s))"

definition scope_Delete :: "string \<Rightarrow> scope_mem \<Rightarrow> store_error option \<times> scope_mem" where
  "scope_Delete n s =
    (case gm_get s n of None \<Rightarrow> (Some NotFound, s) | Some _ \<Rightarrow> (None, gm_del n s))"

interpretation scope_kv: kv_store_del scope_FindByName scope_Store sc_Name
  "\<lambda>c. sc_Name c \<noteq> []" scope_Delete
  by unfold_locales
    (auto simp: scope_FindByName_def scope_Store_def scope_Delete_def upsert_def split: option.splits)

subsection \<open>The audit log\<close>

type_synonym audit_log_mem = "audit_log list"

definition audit_Store :: "audit_log option \<Rightarrow> audit_log_mem \<Rightarrow> store_error option \<times> audit_log_mem" where
  "audit_Store x s = (case x of None \<Rightarrow> (Some NilEntity, s) | Some l \<Rightarrow> (None, s @ [l]))"

definition audit_GetPaged :: "paged_request \<Rightarrow> audit_log_mem \<Rightarrow> audit_log paged_result option" where
  "audit_GetPaged req s = get_paged s req"

definition audit_ListByActor ::
  "string \<Rightarrow> string \<Rightarrow> goint \<Rightarrow> audit_log_mem \<Rightarrow> store_error + audit_log list" where
  "audit_ListByActor actor action limit s =
    (let lim = (if sint limit \<le> 0 then 10 else sint limit);
         hits = sort_key (\<lambda>l. - al_Timestamp l)
                  (filter (\<lambda>l. al_ActorUserID l = actor \<and> al_Action l = action) s)
     in Inr (if int (length hits) > lim then take (nat lim) hits else hits))"

subsection \<open>Password resets\<close>

type_synonym password_reset_mem = "(uuid, password_reset_token) gomap"

definition reset_Create ::
  "password_reset_token option \<Rightarrow> password_reset_mem \<Rightarrow> store_error option \<times> password_reset_mem" where
  "reset_Create x s =
    (case x of
       None \<Rightarrow> (Some NilEntity, s)
     | Some t \<Rightarrow>
         if pr_TokenHash t = [] then (Some EmptyHash, s)
         else if list_ex (\<lambda>e. pr_TokenHash e = pr_TokenHash t) (map snd s) then (Some Duplicate, s)
         else (None, gm_put (pr_ID t) t s))"

definition reset_FindByHash :: "string \<Rightarrow> password_reset_mem \<Rightarrow> store_error + password_reset_token" where
  "reset_FindByHash h s =
    (case find (\<lambda>e. pr_TokenHash e = h) (map snd s) of None \<Rightarrow> Inl NotFound | Some t \<Rightarrow> Inr t)"

definition reset_Consume ::
  "uuid \<Rightarrow> time \<Rightarrow> password_reset_mem \<Rightarrow> (store_error + bool) \<times> password_reset_mem" where
  "reset_Consume i t s =
    (case gm_get s i of
       None \<Rightarrow> (Inr False, s)
     | Some x \<Rightarrow>
         if pr_ConsumedAt x \<noteq> None \<or> \<not> time_before t (pr_ExpiresAt x) then (Inr False, s)
         else (Inr True, gm_put i (x\<lparr>pr_ConsumedAt := Some t\<rparr>) s))"

definition reset_InvalidateForUser ::
  "string \<Rightarrow> time \<Rightarrow> password_reset_mem \<Rightarrow> store_error option \<times> password_reset_mem" where
  "reset_InvalidateForUser uid t s =
    (None, gm_map (\<lambda>i x. if pr_UserID x = uid \<and> pr_ConsumedAt x = None
                         then x\<lparr>pr_ConsumedAt := Some t\<rparr> else x) s)"

definition reset_DeleteExpired ::
  "time \<Rightarrow> password_reset_mem \<Rightarrow> (store_error + nat) \<times> password_reset_mem" where
  "reset_DeleteExpired before s =
    (Inr (length (filter (\<lambda>(i, x). time_before (pr_ExpiresAt x) before) s)),
     gm_filter (\<lambda>i x. \<not> time_before (pr_ExpiresAt x) before) s)"

definition reset_spent :: "uuid \<Rightarrow> password_reset_mem \<Rightarrow> bool" where
  "reset_spent i s \<longleftrightarrow> (\<exists>t. gm_get s i = Some t \<and> pr_ConsumedAt t \<noteq> None)"

interpretation reset_cas: cas_store reset_Consume reset_spent
  by unfold_locales (auto simp: reset_Consume_def reset_spent_def split: option.splits if_splits)

end
