(* ===== verification/Mem_Users.thy ===== *)
theory Mem_Users
  imports Mem_Stores
begin

section \<open>In-memory users and roles (internal/store/memory/users.go, roles.go)\<close>

text \<open>
  Users with their password hashes, claims, roles, external logins and tokens. The slices a
  method stores or returns are values here: that \<open>ReplaceUserClaims\<close> keeps the caller's slice
  and \<open>UpdateRole\<close> the caller's pointer is not modelled. A user that a map points to by nil is
  not either: no method stores one.
\<close>

record user_mem =
  um_users :: "(string, user) gomap"
  um_hashes :: "(string, string) gomap"
  um_claims :: "(string, user_claim list) gomap"
  um_roles :: "(string, string list) gomap"
  um_logins :: "(string, user_login list) gomap"
  um_tokens :: "(string, user_token) gomap"

definition NewUserStore :: user_mem where
  "NewUserStore = \<lparr>um_users = [], um_hashes = [], um_claims = [], um_roles = [], um_logins = [],
     um_tokens = []\<rparr>"

text \<open>A map of slices yields the nil slice for a key that is not present.\<close>

definition get_list :: "(string, 'a list) gomap \<Rightarrow> string \<Rightarrow> 'a list" where
  "get_list m k = (case gm_get m k of None \<Rightarrow> [] | Some xs \<Rightarrow> xs)"

subsection \<open>Accounts\<close>

definition user_CreateUser ::
  "crypto \<Rightarrow> string \<Rightarrow> user \<Rightarrow> string \<Rightarrow> user_mem \<Rightarrow> store_error option \<times> user_mem" where
  "user_CreateUser cr salt u password s =
    (if u_ID u = [] then (Some EmptyID, s)
     else case bcrypt_hash cr salt password of
       None \<Rightarrow> (Some (OtherError ''hash password''), s)
     | Some hash \<Rightarrow>
         if gm_get (um_users s) (u_ID u) \<noteq> None then (Some Duplicate, s)
         else (None, s\<lparr>um_users := gm_put (u_ID u) (u\<lparr>u_PasswordHash := []\<rparr>) (um_users s),
                       um_hashes := gm_put (u_ID u) hash (um_hashes s)\<rparr>))"

definition user_UpdateUser :: "user \<Rightarrow> user_mem \<Rightarrow> store_error option \<times> user_mem" where
  "user_UpdateUser u s =
    (case gm_get (um_users s) (u_ID u) of
       None \<Rightarrow> (Some NotFound, s)
     | Some _ \<Rightarrow> (None, s\<lparr>um_users := gm_put (u_ID u) (u\<lparr>u_PasswordHash := []\<rparr>) (um_users s)\<rparr>))"

definition user_DeleteUser :: "string \<Rightarrow> user_mem \<Rightarrow> store_error option \<times> user_mem" where
  "user_DeleteUser uid s =
    (case gm_get (um_users s) uid of
       None \<Rightarrow> (Some NotFound, s)
     | Some _ \<Rightarrow>
         (None, s\<lparr>um_users := gm_del uid (um_users s), um_hashes := gm_del uid (um_hashes s),
            um_claims := gm_del uid (um_claims s), um_roles := gm_del uid (um_roles s),
            um_logins := gm_del uid (um_logins s),
            um_tokens := gm_filter (\<lambda>k t. \<not> has_prefix k (uid @ '':'')) (um_tokens s)\<rparr>))"

definition user_FindUserByID :: "string \<Rightarrow> user_mem \<Rightarrow> store_error + user" where
  "user_FindUserByID uid s = (case gm_get (um_users s) uid of None \<Rightarrow> Inl NotFound | Some u \<Rightarrow> Inr u)"

definition user_FindUserByUsername :: "string \<Rightarrow> user_mem \<Rightarrow> store_error + user" where
  "user_FindUserByUsername name s =
    (case find (\<lambda>u. equal_fold (u_Username u) name) (map snd (um_users s)) of
       None \<Rightarrow> Inl NotFound | Some u \<Rightarrow> Inr u)"

definition user_FindUserByEmail :: "string \<Rightarrow> user_mem \<Rightarrow> store_error + user" where
  "user_FindUserByEmail email s =
    (case find (\<lambda>u. equal_fold (u_Email u) email) (map snd (um_users s)) of
       None \<Rightarrow> Inl NotFound | Some u \<Rightarrow> Inr u)"

text \<open>\<open>GetPagedUsers\<close> differs from the other stores: a page past the end is empty.\<close>

definition user_GetPagedUsers :: "paged_request \<Rightarrow> user_mem \<Rightarrow> user paged_result option" where
  "user_GetPagedUsers req s =
    (let r = normalized req;
         all = map snd (um_users s);
         n = int (length all);
         start = sint ((pq_Page r - 1) * pq_PageSize r);
         end0 = sint ((pq_Page r - 1) * pq_PageSize r + pq_PageSize r)
     in if start \<ge> n then
          Some \<lparr>pg_Items = [], pg_TotalCount = length all, pg_Page = pq_Page r, pg_PageSize = pq_PageSize r\<rparr>
        else map_option (\<lambda>xs. \<lparr>pg_Items = xs, pg_TotalCount = length all, pg_Page = pq_Page r,
               pg_PageSize = pq_PageSize r\<rparr>) (go_slice all start (if end0 > n then n else end0)))"

definition user_SetPassword ::
  "crypto \<Rightarrow> string \<Rightarrow> string \<Rightarrow> string \<Rightarrow> user_mem \<Rightarrow> store_error option \<times> user_mem" where
  "user_SetPassword cr salt uid password s =
    (case bcrypt_hash cr salt password of
       None \<Rightarrow> (Some (OtherError ''hash password''), s)
     | Some hash \<Rightarrow>
         (case gm_get (um_users s) uid of
            None \<Rightarrow> (Some NotFound, s)
          | Some _ \<Rightarrow> (None, s\<lparr>um_hashes := gm_put uid hash (um_hashes s)\<rparr>)))"

fun claims_map :: "user_claim list \<Rightarrow> claims \<Rightarrow> claims" where
  "claims_map [] m = m"
| "claims_map (c # cs) m = claims_map cs (gm_put (uc_Type c) (JStr (uc_Value c)) m)"

definition buildClaimsMap :: "string \<Rightarrow> user_mem \<Rightarrow> claims" where
  "buildClaimsMap uid s = claims_map (get_list (um_claims s) uid) []"

definition user_matches :: "string \<Rightarrow> user \<Rightarrow> bool" where
  "user_matches name u \<longleftrightarrow> u_ID u = name \<or> equal_fold (u_Username u) name \<or> equal_fold (u_Email u) name"

definition user_ValidateCredentials ::
  "crypto \<Rightarrow> string \<Rightarrow> string \<Rightarrow> user_mem \<Rightarrow> store_error + user_info option" where
  "user_ValidateCredentials cr name password s =
    (case find (user_matches name) (map snd (um_users s)) of
       None \<Rightarrow> Inr None
     | Some u \<Rightarrow>
         let hash = (case gm_get (um_hashes s) (u_ID u) of None \<Rightarrow> [] | Some h \<Rightarrow> h) in
         if \<not> bcrypt_compare cr hash password then Inr None
         else Inr (Some \<lparr>ui_UserID = u_ID u, ui_Claims = buildClaimsMap (u_ID u) s\<rparr>))"

definition user_FindByID :: "string \<Rightarrow> user_mem \<Rightarrow> store_error + user_info" where
  "user_FindByID uid s =
    (case gm_get (um_users s) uid of
       None \<Rightarrow> Inl NotFound
     | Some u \<Rightarrow>
         let c1 = gm_put ''preferred_username'' (JStr (u_Username u)) (buildClaimsMap uid s);
             c2 = (if u_Email u \<noteq> []
                   then gm_put ''email_verified'' (JBool (u_EmailConfirmed u))
                          (gm_put ''email'' (JStr (u_Email u)) c1)
                   else c1)
         in Inr \<lparr>ui_UserID = u_ID u, ui_Claims = c2\<rparr>)"

subsection \<open>Claims, roles, logins, tokens\<close>

text \<open>Every one of these methods first requires the user to exist.\<close>

definition for_user :: "string \<Rightarrow> (user_mem \<Rightarrow> user_mem) \<Rightarrow> user_mem \<Rightarrow> store_error option \<times> user_mem" where
  "for_user uid f s = (if gm_get (um_users s) uid = None then (Some NotFound, s) else (None, f s))"

definition of_user :: "string \<Rightarrow> (user_mem \<Rightarrow> 'a) \<Rightarrow> user_mem \<Rightarrow> store_error + 'a" where
  "of_user uid f s = (if gm_get (um_users s) uid = None then Inl NotFound else Inr (f s))"

text \<open>Drop the last element that satisfies the predicate, if there is one.\<close>

definition remove_last :: "('a \<Rightarrow> bool) \<Rightarrow> 'a list \<Rightarrow> 'a list" where
  "remove_last P xs =
    (case dropWhile (\<lambda>x. \<not> P x) (rev xs) of
       [] \<Rightarrow> xs
     | y # ys \<Rightarrow> rev (takeWhile (\<lambda>x. \<not> P x) (rev xs) @ ys))"

definition same_claim :: "user_claim \<Rightarrow> user_claim \<Rightarrow> bool" where
  "same_claim r c \<longleftrightarrow> uc_Type c = uc_Type r \<and> uc_Value c = uc_Value r"

definition user_GetUserClaims :: "string \<Rightarrow> user_mem \<Rightarrow> store_error + user_claim list" where
  "user_GetUserClaims uid = of_user uid (\<lambda>s. get_list (um_claims s) uid)"

definition user_AddUserClaims :: "string \<Rightarrow> user_claim list \<Rightarrow> user_mem \<Rightarrow> store_error option \<times> user_mem" where
  "user_AddUserClaims uid cs = for_user uid
    (\<lambda>s. s\<lparr>um_claims := gm_put uid (get_list (um_claims s) uid @ cs) (um_claims s)\<rparr>)"

definition user_RemoveUserClaims :: "string \<Rightarrow> user_claim list \<Rightarrow> user_mem \<Rightarrow> store_error option \<times> user_mem" where
  "user_RemoveUserClaims uid cs = for_user uid
    (\<lambda>s. s\<lparr>um_claims := gm_put uid
       (fold (\<lambda>r xs. remove_last (same_claim r) xs) cs (get_list (um_claims s) uid)) (um_claims s)\<rparr>)"

definition user_ReplaceUserClaims :: "string \<Rightarrow> user_claim list \<Rightarrow> user_mem \<Rightarrow> store_error option \<times> user_mem" where
  "user_ReplaceUserClaims uid cs = for_user uid
    (\<lambda>s. s\<lparr>um_claims := gm_put uid cs (um_claims s)\<rparr>)"

definition user_GetUserRoles :: "string \<Rightarrow> user_mem \<Rightarrow> store_error + string list" where
  "user_GetUserRoles uid = of_user uid (\<lambda>s. get_list (um_roles s) uid)"

fun add_roles :: "string list \<Rightarrow> string list \<Rightarrow> string list" where
  "add_roles existing [] = existing"
| "add_roles existing (r # rs) =
    (if contains_fold existing r then add_roles existing rs else add_roles (existing @ [r]) rs)"

definition user_AddToRoles :: "string \<Rightarrow> string list \<Rightarrow> user_mem \<Rightarrow> store_error option \<times> user_mem" where
  "user_AddToRoles uid rs = for_user uid
    (\<lambda>s. s\<lparr>um_roles := gm_put uid (add_roles (get_list (um_roles s) uid) rs) (um_roles s)\<rparr>)"

definition user_RemoveFromRoles :: "string \<Rightarrow> string list \<Rightarrow> user_mem \<Rightarrow> store_error option \<times> user_mem" where
  "user_RemoveFromRoles uid rs = for_user uid
    (\<lambda>s. s\<lparr>um_roles := gm_put uid
       (fold (\<lambda>r xs. remove_last (\<lambda>x. equal_fold x r) xs) rs (get_list (um_roles s) uid)) (um_roles s)\<rparr>)"

definition user_GetUsersInRole :: "string \<Rightarrow> user_mem \<Rightarrow> store_error + string list" where
  "user_GetUsersInRole r s = Inr (map fst (filter (\<lambda>(uid, rs). contains_fold rs r) (um_roles s)))"

definition user_GetUserLogins :: "string \<Rightarrow> user_mem \<Rightarrow> store_error + user_login list" where
  "user_GetUserLogins uid = of_user uid (\<lambda>s. get_list (um_logins s) uid)"

definition user_AddLogin :: "user_login \<Rightarrow> user_mem \<Rightarrow> store_error option \<times> user_mem" where
  "user_AddLogin l = for_user (ul_UserID l)
    (\<lambda>s. s\<lparr>um_logins := gm_put (ul_UserID l) (get_list (um_logins s) (ul_UserID l) @ [l]) (um_logins s)\<rparr>)"

definition is_login :: "string \<Rightarrow> string \<Rightarrow> user_login \<Rightarrow> bool" where
  "is_login provider key l \<longleftrightarrow> ul_LoginProvider l = provider \<and> ul_ProviderKey l = key"

definition user_RemoveLogin ::
  "string \<Rightarrow> string \<Rightarrow> string \<Rightarrow> user_mem \<Rightarrow> store_error option \<times> user_mem" where
  "user_RemoveLogin uid provider key = for_user uid
    (\<lambda>s. s\<lparr>um_logins := gm_put uid
       (remove_last (is_login provider key) (get_list (um_logins s) uid)) (um_logins s)\<rparr>)"

text \<open>\<open>None\<close> is the nil dereference of \<open>*u\<close> when the login's user is gone.\<close>

definition user_FindByLogin :: "string \<Rightarrow> string \<Rightarrow> user_mem \<Rightarrow> (store_error + user) option" where
  "user_FindByLogin provider key s =
    (case find (is_login provider key) (concat (map snd (um_logins s))) of
       None \<Rightarrow> Some (Inl NotFound)
     | Some l \<Rightarrow> map_option Inr (gm_get (um_users s) (ul_UserID l)))"

definition token_key :: "string \<Rightarrow> string \<Rightarrow> string \<Rightarrow> string" where
  "token_key uid provider name = uid @ '':'' @ provider @ '':'' @ name"

definition user_SetUserToken :: "user_token \<Rightarrow> user_mem \<Rightarrow> store_error option \<times> user_mem" where
  "user_SetUserToken t = for_user (ut_UserID t)
    (\<lambda>s. s\<lparr>um_tokens := gm_put (token_key (ut_UserID t) (ut_LoginProvider t) (ut_Name t)) t (um_tokens s)\<rparr>)"

definition user_GetUserToken :: "string \<Rightarrow> string \<Rightarrow> string \<Rightarrow> user_mem \<Rightarrow> store_error + user_token" where
  "user_GetUserToken uid provider name s =
    (case gm_get (um_tokens s) (token_key uid provider name) of None \<Rightarrow> Inl NotFound | Some t \<Rightarrow> Inr t)"

definition user_RemoveUserToken ::
  "string \<Rightarrow> string \<Rightarrow> string \<Rightarrow> user_mem \<Rightarrow> store_error option \<times> user_mem" where
  "user_RemoveUserToken uid provider name s =
    (case gm_get (um_tokens s) (token_key uid provider name) of
       None \<Rightarrow> (Some NotFound, s)
     | Some _ \<Rightarrow> (None, s\<lparr>um_tokens := gm_del (token_key uid provider name) (um_tokens s)\<rparr>))"

subsection \<open>Roles\<close>

record role_mem =
  rm_roles :: "(string, role) gomap"
  rm_claims :: "(string, user_claim list) gomap"

definition role_CreateRole :: "role \<Rightarrow> role_mem \<Rightarrow> store_error option \<times> role_mem" where
  "role_CreateRole r s =
    (if r_ID r = [] then (Some EmptyID, s)
     else if gm_get (rm_roles s) (r_ID r) \<noteq> None then (Some Duplicate, s)
     else (None, s\<lparr>rm_roles := gm_put (r_ID r) r (rm_roles s)\<rparr>))"

definition role_DeleteRole :: "string \<Rightarrow> role_mem \<Rightarrow> store_error option \<times> role_mem" where
  "role_DeleteRole rid s =
    (case gm_get (rm_roles s) rid of
       None \<Rightarrow> (Some NotFound, s)
     | Some _ \<Rightarrow> (None, s\<lparr>rm_roles := gm_del rid (rm_roles s), rm_claims := gm_del rid (rm_claims s)\<rparr>))"

definition role_FindRoleByID :: "string \<Rightarrow> role_mem \<Rightarrow> store_error + role" where
  "role_FindRoleByID rid s = (case gm_get (rm_roles s) rid of None \<Rightarrow> Inl NotFound | Some r \<Rightarrow> Inr r)"

definition role_FindRoleByName :: "string \<Rightarrow> role_mem \<Rightarrow> store_error + role" where
  "role_FindRoleByName name s =
    (case find (\<lambda>r. equal_fold (r_Name r) name) (map snd (rm_roles s)) of
       None \<Rightarrow> Inl NotFound | Some r \<Rightarrow> Inr r)"

definition role_GetAllRoles :: "role_mem \<Rightarrow> store_error + role list" where
  "role_GetAllRoles s = Inr (map snd (rm_roles s))"

definition role_UpdateRole :: "role \<Rightarrow> role_mem \<Rightarrow> store_error option \<times> role_mem" where
  "role_UpdateRole r s =
    (if r_ID r = [] then (Some EmptyID, s)
     else if gm_get (rm_roles s) (r_ID r) = None then (Some NotFound, s)
     else (None, s\<lparr>rm_roles := gm_put (r_ID r) r (rm_roles s)\<rparr>))"

definition role_GetRoleClaims :: "string \<Rightarrow> role_mem \<Rightarrow> store_error + user_claim list" where
  "role_GetRoleClaims rid s =
    (if gm_get (rm_roles s) rid = None then Inl NotFound else Inr (get_list (rm_claims s) rid))"

definition role_change_claims ::
  "string \<Rightarrow> (user_claim list \<Rightarrow> user_claim list) \<Rightarrow> role_mem \<Rightarrow> store_error option \<times> role_mem" where
  "role_change_claims rid f s =
    (if gm_get (rm_roles s) rid = None then (Some NotFound, s)
     else (None, s\<lparr>rm_claims := gm_put rid (f (get_list (rm_claims s) rid)) (rm_claims s)\<rparr>))"

definition role_AddRoleClaims :: "string \<Rightarrow> user_claim list \<Rightarrow> role_mem \<Rightarrow> store_error option \<times> role_mem" where
  "role_AddRoleClaims rid cs = role_change_claims rid (\<lambda>xs. xs @ cs)"

definition role_RemoveRoleClaims :: "string \<Rightarrow> user_claim list \<Rightarrow> role_mem \<Rightarrow> store_error option \<times> role_mem" where
  "role_RemoveRoleClaims rid cs = role_change_claims rid (fold (\<lambda>r xs. remove_last (same_claim r) xs) cs)"

definition role_ReplaceRoleClaims :: "string \<Rightarrow> user_claim list \<Rightarrow> role_mem \<Rightarrow> store_error option \<times> role_mem" where
  "role_ReplaceRoleClaims rid cs = role_change_claims rid (\<lambda>xs. cs)"

end
