(* ===== verification/Login_Attempts.thy ===== *)
theory Login_Attempts
  imports Store_Interfaces
begin

section \<open>The login attempt tracker (internal/store/memory/loginattempt.go)\<close>

text \<open>
  A fixed window of failures per key, opened by the first failure. \<open>t\<close> is the reading of the
  tracker's own clock in each operation. The failure counter is a 64-bit integer.
\<close>

record attempt =
  la_failures :: goint
  la_firstAt :: time
  la_lockedAt :: time

record attempt_tracker =
  lt_attempts :: "(string, attempt) gomap"
  lt_MaxFailures :: goint
  lt_LockoutDuration :: duration
  lt_ResetAfter :: duration

definition NewLoginAttemptTracker :: attempt_tracker where
  "NewLoginAttemptTracker = \<lparr>lt_attempts = [], lt_MaxFailures = 5,
     lt_LockoutDuration = 15 * minute, lt_ResetAfter = 15 * minute\<rparr>"

definition IsLockedOut :: "time \<Rightarrow> string \<Rightarrow> attempt_tracker \<Rightarrow> bool \<times> attempt_tracker" where
  "IsLockedOut t key s =
    (case gm_get (lt_attempts s) key of
       None \<Rightarrow> (False, s)
     | Some a \<Rightarrow>
         if \<not> is_zero_time (la_lockedAt a) \<and>
            time_sub t (la_lockedAt a) < sint (lt_LockoutDuration s) then (True, s)
         else if time_sub t (la_firstAt a) > sint (lt_ResetAfter s) then
           (False, s\<lparr>lt_attempts := gm_del key (lt_attempts s)\<rparr>)
         else (False, s))"

definition RecordFailure :: "time \<Rightarrow> string \<Rightarrow> attempt_tracker \<Rightarrow> attempt_tracker" where
  "RecordFailure t key s =
    (case gm_get (lt_attempts s) key of
       None \<Rightarrow>
         s\<lparr>lt_attempts := gm_put key \<lparr>la_failures = 1, la_firstAt = t, la_lockedAt = zero_time\<rparr>
             (lt_attempts s)\<rparr>
     | Some a \<Rightarrow>
         if time_sub t (la_firstAt a) > sint (lt_ResetAfter s) then
           s\<lparr>lt_attempts := gm_put key \<lparr>la_failures = 1, la_firstAt = t, la_lockedAt = zero_time\<rparr>
               (lt_attempts s)\<rparr>
         else
           (let a1 = a\<lparr>la_failures := la_failures a + 1\<rparr>;
                a2 = (if sint (la_failures a1) \<ge> sint (lt_MaxFailures s) \<and> is_zero_time (la_lockedAt a1)
                      then a1\<lparr>la_lockedAt := t\<rparr> else a1)
            in s\<lparr>lt_attempts := gm_put key a2 (lt_attempts s)\<rparr>))"

definition ResetAttempts :: "string \<Rightarrow> attempt_tracker \<Rightarrow> attempt_tracker" where
  "ResetAttempts key s = s\<lparr>lt_attempts := gm_del key (lt_attempts s)\<rparr>"

subsection \<open>The contract of a tracker\<close>

text \<open>
  \<open>locked s k t\<close>: at time \<open>t\<close> the key is locked. What the login handler relies on: an operation
  on one key leaves every other key alone, and a reset opens the key.
\<close>

locale lockout_tracker =
  fixes is_locked :: "time \<Rightarrow> string \<Rightarrow> 's \<Rightarrow> bool \<times> 's"
    and record_failure :: "time \<Rightarrow> string \<Rightarrow> 's \<Rightarrow> 's"
    and reset_key :: "string \<Rightarrow> 's \<Rightarrow> 's"
    and entry :: "'s \<Rightarrow> string \<Rightarrow> 'e option"
    and config :: "'s \<Rightarrow> 'c"
    and locked :: "'c \<Rightarrow> 'e option \<Rightarrow> time \<Rightarrow> bool"
  assumes is_locked_iff: "fst (is_locked t k s) \<longleftrightarrow> locked (config s) (entry s k) t"
    and locked_stays: "locked (config s) (entry s k) t \<Longrightarrow> snd (is_locked t k s) = s"
    and config_same: "config (snd (is_locked t k s)) = config s"
      "config (record_failure t k s) = config s" "config (reset_key k s) = config s"
    and entry_other: "j \<noteq> k \<Longrightarrow> entry (snd (is_locked t k s)) j = entry s j"
      "j \<noteq> k \<Longrightarrow> entry (record_failure t k s) j = entry s j"
      "j \<noteq> k \<Longrightarrow> entry (reset_key k s) j = entry s j"
    and entry_reset: "entry (reset_key k s) k = None"
    and not_locked_None: "\<not> locked c None t"
begin

lemma reset_opens: "\<not> fst (is_locked t k (reset_key k s))"
  by (simp add: is_locked_iff entry_reset not_locked_None)

lemma other_key_independent:
  "j \<noteq> k \<Longrightarrow> fst (is_locked t j (record_failure u k s)) = fst (is_locked t j s)"
  by (simp add: is_locked_iff config_same entry_other)

lemma asking_twice: "fst (is_locked t k s) \<Longrightarrow> fst (is_locked t k (snd (is_locked t k s)))"
  by (simp add: is_locked_iff locked_stays)

end

definition attempt_locked :: "goint \<times> duration \<times> duration \<Rightarrow> attempt option \<Rightarrow> time \<Rightarrow> bool" where
  "attempt_locked cfg e t =
    (case e of
       None \<Rightarrow> False
     | Some a \<Rightarrow> \<not> is_zero_time (la_lockedAt a) \<and>
         time_sub t (la_lockedAt a) < sint (fst (snd cfg)))"

definition tracker_config :: "attempt_tracker \<Rightarrow> goint \<times> duration \<times> duration" where
  "tracker_config s = (lt_MaxFailures s, lt_LockoutDuration s, lt_ResetAfter s)"

lemma tracker_config_simps [simp]:
  "tracker_config (s\<lparr>lt_attempts := x\<rparr>) = tracker_config s"
  by (simp add: tracker_config_def)

interpretation mem_tracker: lockout_tracker IsLockedOut RecordFailure ResetAttempts
  "\<lambda>s. gm_get (lt_attempts s)" tracker_config attempt_locked
  by unfold_locales
    (auto simp: IsLockedOut_def RecordFailure_def ResetAttempts_def attempt_locked_def Let_def
      tracker_config_def split: option.splits)

subsection \<open>Five failures in a window lock the key\<close>

text \<open>Failures of one key at the given times, with no other operation on the key between.\<close>

fun record_all :: "string \<Rightarrow> time list \<Rightarrow> attempt_tracker \<Rightarrow> attempt_tracker" where
  "record_all k [] s = s"
| "record_all k (t # ts) s = record_all k ts (RecordFailure t k s)"

text \<open>Instants the program meets: after year 1, and with differences that fit a duration.\<close>

definition sane_time :: "time \<Rightarrow> bool" where
  "sane_time t \<longleftrightarrow> 0 \<le> t \<and> t \<le> max_duration"

lemma sane_time_sub: "sane_time t \<Longrightarrow> sane_time u \<Longrightarrow> time_sub t u = t - u"
  by (auto simp: sane_time_def time_sub_def max_duration_def min_duration_def)

lemma sane_not_zero: "sane_time t \<Longrightarrow> \<not> is_zero_time t"
  by (auto simp: sane_time_def is_zero_time_def zero_time_def)

definition window_open :: "attempt \<Rightarrow> attempt_tracker \<Rightarrow> time \<Rightarrow> bool" where
  "window_open a s t \<longleftrightarrow> time_sub t (la_firstAt a) \<le> sint (lt_ResetAfter s)"

lemma RecordFailure_config [simp]: "tracker_config (RecordFailure t k s) = tracker_config s"
  by (simp add: mem_tracker.config_same)

lemma RecordFailure_fields [simp]:
  "lt_MaxFailures (RecordFailure t k s) = lt_MaxFailures s"
  "lt_LockoutDuration (RecordFailure t k s) = lt_LockoutDuration s"
  "lt_ResetAfter (RecordFailure t k s) = lt_ResetAfter s"
  using RecordFailure_config [of t k s] by (simp_all add: tracker_config_def)

lemma record_all_fields [simp]:
  "lt_MaxFailures (record_all k ts s) = lt_MaxFailures s"
  "lt_LockoutDuration (record_all k ts s) = lt_LockoutDuration s"
  "lt_ResetAfter (record_all k ts s) = lt_ResetAfter s"
  by (induction ts arbitrary: s) simp_all

lemma RecordFailure_first:
  "gm_get (lt_attempts s) k = None \<Longrightarrow>
    gm_get (lt_attempts (RecordFailure t k s)) k =
      Some \<lparr>la_failures = 1, la_firstAt = t, la_lockedAt = zero_time\<rparr>"
  by (simp add: RecordFailure_def)

text \<open>Within the window the counter goes up by one; the lock is set when it reaches the maximum.\<close>

lemma RecordFailure_next:
  assumes "gm_get (lt_attempts s) k = Some a" "window_open a s t"
  shows "gm_get (lt_attempts (RecordFailure t k s)) k =
    Some \<lparr>la_failures = la_failures a + 1, la_firstAt = la_firstAt a,
      la_lockedAt = (if sint (lt_MaxFailures s) \<le> sint (la_failures a + 1) \<and> is_zero_time (la_lockedAt a)
                     then t else la_lockedAt a)\<rparr>"
  using assms by (auto simp: RecordFailure_def Let_def window_open_def)

lemma sint_succ: "0 \<le> sint (n :: goint) \<Longrightarrow> sint n < max_duration \<Longrightarrow> sint (n + 1) = sint n + 1"
  by (simp add: sint_word_ariths signed_take_bit_int_eq_self max_duration_def)

text \<open>The state after \<open>n\<close> failures, as long as they are fewer than the maximum.\<close>

lemma record_all_count:
  assumes "gm_get (lt_attempts s) k = Some a" "la_lockedAt a = zero_time" "0 \<le> sint (la_failures a)"
    "\<forall>t \<in> set ts. window_open a s t"
    "sint (la_failures a) + int (length ts) < sint (lt_MaxFailures s)"
  shows "\<exists>b. gm_get (lt_attempts (record_all k ts s)) k = Some b \<and> la_lockedAt b = zero_time \<and>
    la_firstAt b = la_firstAt a \<and> sint (la_failures b) = sint (la_failures a) + int (length ts)"
  using assms
proof (induction ts arbitrary: s a)
  case (Cons t ts)
  have "sint (la_failures a) < max_duration"
    using Cons.prems(5) sint_bounds [of "lt_MaxFailures s"] by simp
  then have inc: "sint (la_failures a + 1) = sint (la_failures a) + 1"
    using Cons.prems(3) by (intro sint_succ)
  let ?b = "\<lparr>la_failures = la_failures a + 1, la_firstAt = la_firstAt a, la_lockedAt = zero_time\<rparr>"
  have b: "gm_get (lt_attempts (RecordFailure t k s)) k = Some ?b"
    using RecordFailure_next [OF Cons.prems(1), of t] Cons.prems inc by simp
  have "\<forall>u \<in> set ts. window_open ?b (RecordFailure t k s) u"
    using Cons.prems(4) by (simp add: window_open_def)
  from Cons.IH [OF b _ _ this] Cons.prems(3,5) inc show ?case by (simp add: add.assoc)
qed simp

lemma record_all_append: "record_all k (ts @ [t]) s = RecordFailure t k (record_all k ts s)"
  by (induction ts arbitrary: s) simp_all

text \<open>The failure that reaches the maximum sets the lock to its own time.\<close>

lemma record_all_locks:
  assumes new: "gm_get (lt_attempts s) k = None"
    and len: "1 + int (length ts) + 1 = sint (lt_MaxFailures s)"
    and win: "\<forall>u \<in> set (ts @ [t]). time_sub u t0 \<le> sint (lt_ResetAfter s)"
  shows "\<exists>a. gm_get (lt_attempts (record_all k (t0 # ts @ [t]) s)) k = Some a \<and>
    la_lockedAt a = t \<and> la_firstAt a = t0"
proof -
  let ?s1 = "RecordFailure t0 k s"
  let ?a = "\<lparr>la_failures = 1, la_firstAt = t0, la_lockedAt = zero_time\<rparr>"
  have first: "gm_get (lt_attempts ?s1) k = Some ?a" using new by (rule RecordFailure_first)
  have "\<forall>u \<in> set ts. window_open ?a ?s1 u" using win by (simp add: window_open_def)
  with record_all_count [OF first, of ts] len obtain b where
    b: "gm_get (lt_attempts (record_all k ts ?s1)) k = Some b" "la_lockedAt b = zero_time"
      "la_firstAt b = t0" "sint (la_failures b) = 1 + int (length ts)"
    by auto
  have "sint (la_failures b + 1) = sint (lt_MaxFailures s)"
    using b(4) len sint_bounds [of "lt_MaxFailures s"] sint_succ [of "la_failures b"] by simp
  moreover have "window_open b (record_all k ts ?s1) t"
    using win b(3) by (simp add: window_open_def)
  ultimately show ?thesis
    using RecordFailure_next [OF b(1), of t] b(2,3)
    by (simp add: record_all_append is_zero_time_def)
qed

lemma record_all_open:
  assumes new: "gm_get (lt_attempts s) k = None"
    and len: "1 + int (length ts) < sint (lt_MaxFailures s)"
    and win: "\<forall>u \<in> set ts. time_sub u t0 \<le> sint (lt_ResetAfter s)"
  shows "\<not> fst (IsLockedOut t k (record_all k (t0 # ts) s))"
proof -
  let ?s1 = "RecordFailure t0 k s"
  let ?a = "\<lparr>la_failures = 1, la_firstAt = t0, la_lockedAt = zero_time\<rparr>"
  have first: "gm_get (lt_attempts ?s1) k = Some ?a" using new by (rule RecordFailure_first)
  have "\<forall>u \<in> set ts. window_open ?a ?s1 u" using win by (simp add: window_open_def)
  with record_all_count [OF first, of ts] len show ?thesis
    by (auto simp: mem_tracker.is_locked_iff attempt_locked_def is_zero_time_def)
qed

end
