(* ===== verification/Client_Assertion.thy ===== *)
theory Client_Assertion
  imports Key_Manager
begin

section \<open>Client assertions (internal/token/clientassertion.go)\<close>

text \<open>
  Verification of a \<open>private_key_jwt\<close> assertion over any replay cache, and the in-memory cache.
  Parsing the key set and the JWT, checking the signature and the time claims is jwx's work
  (\<open>jwks_len\<close>, \<open>jws_signatures\<close>, \<open>jwt_parse\<close>); the checks of the claims are the server's.
\<close>

subsection \<open>Audiences\<close>

definition isAsymmetricAlg :: "string \<Rightarrow> bool" where
  "isAsymmetricAlg alg \<longleftrightarrow> alg \<in> set [''RS256'', ''RS384'', ''RS512'', ''ES256'', ''ES384'', ''ES512'',
     ''PS256'', ''PS384'', ''PS512'', ''EdDSA'']"

definition equalAudience :: "string \<Rightarrow> string \<Rightarrow> bool" where
  "equalAudience a b =
    (if a = b then True
     else case (url_parse a, url_parse b) of
       (Some au, Some bu) \<Rightarrow>
         if url_scheme au = [] \<or> url_scheme bu = [] then False
         else if \<not> equal_fold (url_scheme au) (url_scheme bu) then False
         else if \<not> equal_fold (url_host au) (url_host bu) then False
         else url_path au = url_path bu \<and> url_raw_query au = url_raw_query bu \<and>
              url_fragment au = url_fragment bu
     | _ \<Rightarrow> False)"

definition anyAudienceMatch :: "string list \<Rightarrow> string list \<Rightarrow> bool" where
  "anyAudienceMatch tokenAud accepted =
    (if accepted = [] then True
     else list_ex (\<lambda>t. list_ex (\<lambda>a. equalAudience t a) accepted) tokenAud)"

subsection \<open>The replay cache\<close>

record mem_assertion_cache =
  mac_seen :: "(string, time) gomap"

definition NewMemAssertionCache :: mem_assertion_cache where
  "NewMemAssertionCache = \<lparr>mac_seen = []\<rparr>"

definition cache_key :: "string \<Rightarrow> string \<Rightarrow> string" where
  "cache_key clientID jti = clientID @ ''|'' @ jti"

text \<open>\<open>t\<close> is the reading of the cache's own clock.\<close>

definition CheckAndStore ::
  "time \<Rightarrow> string \<Rightarrow> string \<Rightarrow> time \<Rightarrow> mem_assertion_cache \<Rightarrow> bool \<times> mem_assertion_cache" where
  "CheckAndStore t clientID jti exp c =
    (let live = gm_filter (\<lambda>k e. \<not> time_before e t) (mac_seen c);
         key = cache_key clientID jti
     in if gm_get live key \<noteq> None then (False, c\<lparr>mac_seen := live\<rparr>)
        else (True, c\<lparr>mac_seen := gm_put key exp live\<rparr>))"

record 'w assertion_cache =
  cac_CheckAndStore :: "string \<Rightarrow> string \<Rightarrow> time \<Rightarrow> 'w \<Rightarrow> (store_error + bool) \<times> 'w"

subsection \<open>Verification\<close>

definition ClientAssertionType :: string where
  "ClientAssertionType = ''urn:ietf:params:oauth:client-assertion-type:jwt-bearer''"

record 'w client_assertion_params =
  cap_Assertion :: string
  cap_JWKSJSON :: string
  cap_ExpectedIssuer :: string
  cap_ExpectedSubject :: string
  cap_Audience :: "string list"
  cap_Skew :: duration
  cap_Cache :: "'w assertion_cache option"
  cap_HasClock :: bool

datatype assertion_error =
    AssertionEmpty | NoJWKS | NoExpectation | NoCache | NoClock
  | BadJWKS | EmptyJWKS | BadJWS | NoSignature | NoHeaders | NoAlg | AlgNotAsymmetric
  | BadToken | WrongIssuer | WrongSubject | NoAudience | WrongAudience | NoExpiry | NoJTI
  | CacheFailed store_error | Replayed

text \<open>The part up to \<open>jwt.Parse\<close>: key set, envelope and algorithm.\<close>

definition assertion_envelope :: "crypto \<Rightarrow> string \<Rightarrow> string \<Rightarrow> assertion_error option" where
  "assertion_envelope cr jwks raw =
    (case jwks_len cr jwks of
       None \<Rightarrow> Some BadJWKS
     | Some n \<Rightarrow>
         if n = 0 then Some EmptyJWKS
         else case jws_signatures cr raw of
           None \<Rightarrow> Some BadJWS
         | Some [] \<Rightarrow> Some NoSignature
         | Some (hdr # _) \<Rightarrow>
             (case hdr of
                None \<Rightarrow> Some NoHeaders
              | Some alg \<Rightarrow>
                  if alg = [] then Some NoAlg
                  else if \<not> isAsymmetricAlg alg then Some AlgNotAsymmetric
                  else None))"

definition assertion_claims_error ::
  "'w client_assertion_params \<Rightarrow> assertion_token \<Rightarrow> assertion_error option" where
  "assertion_claims_error p tok =
    (if tok_Issuer tok \<noteq> cap_ExpectedIssuer p then Some WrongIssuer
     else if tok_Subject tok \<noteq> cap_ExpectedSubject p then Some WrongSubject
     else if tok_Audience tok = [] then Some NoAudience
     else if \<not> anyAudienceMatch (tok_Audience tok) (cap_Audience p) then Some WrongAudience
     else if is_zero_time (tok_Expiration tok) then Some NoExpiry
     else if tok_JwtID tok = [] then Some NoJTI
     else None)"

definition VerifyClientAssertion ::
  "crypto \<Rightarrow> runtime \<Rightarrow> nat \<Rightarrow> 'w client_assertion_params \<Rightarrow> 'w
    \<Rightarrow> (assertion_error + assertion_token) \<times> 'w" where
  "VerifyClientAssertion cr rt site p w =
    (if cap_Assertion p = [] then (Inl AssertionEmpty, w)
     else if cap_JWKSJSON p = [] then (Inl NoJWKS, w)
     else if cap_ExpectedIssuer p = [] \<or> cap_ExpectedSubject p = [] then (Inl NoExpectation, w)
     else case cap_Cache p of
       None \<Rightarrow> (Inl NoCache, w)
     | Some cache \<Rightarrow>
         if \<not> cap_HasClock p then (Inl NoClock, w)
         else case assertion_envelope cr (cap_JWKSJSON p) (cap_Assertion p) of
           Some e \<Rightarrow> (Inl e, w)
         | None \<Rightarrow>
             (case jwt_parse cr (cap_JWKSJSON p) (now rt site) (cap_Skew p) (cap_Assertion p) of
                None \<Rightarrow> (Inl BadToken, w)
              | Some tok \<Rightarrow>
                  (case assertion_claims_error p tok of
                     Some e \<Rightarrow> (Inl e, w)
                   | None \<Rightarrow>
                       (case cac_CheckAndStore cache (cap_ExpectedIssuer p) (tok_JwtID tok)
                               (tok_Expiration tok) w of
                          (Inl e, w') \<Rightarrow> (Inl (CacheFailed e), w')
                        | (Inr fresh, w') \<Rightarrow> (if \<not> fresh then Inl Replayed else Inr tok, w')))))"

subsection \<open>Facts\<close>

lemma equalAudience_refl [simp]: "equalAudience a a"
  by (simp add: equalAudience_def)

lemma assertion_claims_ok:
  "assertion_claims_error p tok = None \<longleftrightarrow>
    tok_Issuer tok = cap_ExpectedIssuer p \<and> tok_Subject tok = cap_ExpectedSubject p \<and>
    tok_Audience tok \<noteq> [] \<and> anyAudienceMatch (tok_Audience tok) (cap_Audience p) \<and>
    \<not> is_zero_time (tok_Expiration tok) \<and> tok_JwtID tok \<noteq> []"
  by (auto simp: assertion_claims_error_def)

lemma assertion_envelope_ok:
  "assertion_envelope cr jwks raw = None \<longleftrightarrow>
    (\<exists>n alg rest. jwks_len cr jwks = Some n \<and> 0 < n \<and> jws_signatures cr raw = Some (Some alg # rest) \<and>
      alg \<noteq> [] \<and> isAsymmetricAlg alg)"
  by (auto simp: assertion_envelope_def split: option.splits list.splits)

lemma VerifyClientAssertion_Inr:
  assumes "VerifyClientAssertion cr rt site p w = (Inr tok, w')"
  obtains cache where "cap_Cache p = Some cache"
    "assertion_envelope cr (cap_JWKSJSON p) (cap_Assertion p) = None"
    "jwt_parse cr (cap_JWKSJSON p) (now rt site) (cap_Skew p) (cap_Assertion p) = Some tok"
    "assertion_claims_error p tok = None"
    "cac_CheckAndStore cache (cap_ExpectedIssuer p) (tok_JwtID tok) (tok_Expiration tok) w = (Inr True, w')"
  using assms
  by (auto simp: VerifyClientAssertion_def split: if_splits option.splits prod.splits sum.splits intro: that)

text \<open>Only a fully checked assertion reaches the cache.\<close>

lemma VerifyClientAssertion_unchanged:
  assumes "VerifyClientAssertion cr rt site p w = (Inl e, w')" "e \<noteq> Replayed" "\<nexists>e'. e = CacheFailed e'"
  shows "w' = w"
  using assms
  by (auto simp: VerifyClientAssertion_def split: if_splits option.splits prod.splits sum.splits)

text \<open>The cache: an entry is refused for as long as its expiry is not in the past.\<close>

lemma cache_filter_get:
  "gm_wf (mac_seen c) \<Longrightarrow>
    gm_get (gm_filter (\<lambda>k e. \<not> time_before e t) (mac_seen c)) k =
      (case gm_get (mac_seen c) k of None \<Rightarrow> None | Some e \<Rightarrow> if e < t then None else Some e)"
  by (auto simp: gm_get_filter time_before_def split: option.splits)

lemma CheckAndStore_fresh:
  "gm_wf (mac_seen c) \<Longrightarrow> fst (CheckAndStore t cid jti exp c) \<longleftrightarrow>
    (\<forall>e. gm_get (mac_seen c) (cache_key cid jti) = Some e \<longrightarrow> e < t)"
  by (auto simp: CheckAndStore_def Let_def cache_filter_get split: option.splits)

lemma CheckAndStore_wf: "gm_wf (mac_seen c) \<Longrightarrow> gm_wf (mac_seen (snd (CheckAndStore t cid jti exp c)))"
  by (simp add: CheckAndStore_def Let_def)

lemma CheckAndStore_get:
  "gm_wf (mac_seen c) \<Longrightarrow>
    gm_get (mac_seen (snd (CheckAndStore t cid jti exp c))) k =
      (if fst (CheckAndStore t cid jti exp c) \<and> k = cache_key cid jti then Some exp
       else case gm_get (mac_seen c) k of None \<Rightarrow> None | Some e \<Rightarrow> if e < t then None else Some e)"
  by (auto simp: CheckAndStore_def Let_def cache_filter_get split: option.splits)

subsection \<open>The contract of a replay cache\<close>

text \<open>
  \<open>seen k e s\<close>: the cache holds key \<open>k\<close> with expiry \<open>e\<close>. The laws are about one call whose clock
  reads \<open>t\<close>.
\<close>

locale replay_cache =
  fixes check :: "time \<Rightarrow> string \<Rightarrow> string \<Rightarrow> time \<Rightarrow> 's \<Rightarrow> bool \<times> 's"
    and holds :: "'s \<Rightarrow> string \<Rightarrow> time option"
    and good :: "'s \<Rightarrow> bool"
  assumes check_good: "good s \<Longrightarrow> good (snd (check t cid jti e s))"
    and check_seen: "good s \<Longrightarrow> holds s (cache_key cid jti) = Some x \<Longrightarrow> t \<le> x \<Longrightarrow>
      \<not> fst (check t cid jti e s)"
    and check_records: "good s \<Longrightarrow> fst (check t cid jti e s) \<Longrightarrow>
      holds (snd (check t cid jti e s)) (cache_key cid jti) = Some e"
    and check_keeps: "good s \<Longrightarrow> holds s k = Some x \<Longrightarrow> t \<le> x \<Longrightarrow>
      holds (snd (check t cid jti e s)) k = Some x"
begin

text \<open>Any number of calls later, the recorded pair is still refused until its expiry.\<close>

fun run :: "(time \<times> string \<times> string \<times> time) list \<Rightarrow> 's \<Rightarrow> 's" where
  "run [] s = s"
| "run ((t, cid, jti, e) # cs) s = run cs (snd (check t cid jti e s))"

lemma run_good: "good s \<Longrightarrow> good (run cs s)"
  by (induction cs s rule: run.induct) (auto simp: check_good)

lemma run_keeps:
  "good s \<Longrightarrow> holds s k = Some x \<Longrightarrow> \<forall>(t, _) \<in> set cs. t \<le> x \<Longrightarrow> holds (run cs s) k = Some x"
  by (induction cs s rule: run.induct) (auto simp: check_good check_keeps)

lemma replay_refused:
  assumes "good s" "fst (check t cid jti e s)" "\<forall>(u, _) \<in> set cs. u \<le> e" "t' \<le> e"
  shows "\<not> fst (check t' cid jti e' (run cs (snd (check t cid jti e s))))"
proof -
  let ?s = "snd (check t cid jti e s)"
  have g: "good ?s" using assms(1) by (rule check_good)
  have "holds ?s (cache_key cid jti) = Some e" using assms(1,2) by (rule check_records)
  then have "holds (run cs ?s) (cache_key cid jti) = Some e" using g assms(3) by (intro run_keeps)
  with run_good [OF g] show ?thesis using assms(4) by (rule check_seen)
qed

end

interpretation mem_cache: replay_cache CheckAndStore "\<lambda>c. gm_get (mac_seen c)" "\<lambda>c. gm_wf (mac_seen c)"
proof
  show "gm_wf (mac_seen (snd (CheckAndStore t cid jti e s)))" if "gm_wf (mac_seen s)" for s t cid jti e
    using that by (rule CheckAndStore_wf)
qed (auto simp: CheckAndStore_fresh CheckAndStore_get split: option.splits)

end
