(* ===== verification/DP_Keys.thy ===== *)
theory DP_Keys
  imports Store_Interfaces
begin

section \<open>Data-protection keys (internal/session/dpkeys.go)\<close>

text \<open>
  The ring of keys the session cookies are sealed with, over any store of them. Unlike the
  signing keys, a rotation retires the active key before it generates the next one. \<open>site\<close>
  numbers the place that draws the key id and reads the clock; the random bytes are drawn at
  \<open>site\<close>, \<open>site + 1\<close> and \<open>site + 2\<close>; the retirement time is read at \<open>site + 1\<close>.
\<close>

datatype dp_error =
    DPGetActive store_error
  | DPGetAll store_error
  | DPRetire store_error
  | DPStore store_error
  | DPRand

definition dpKeyBytes :: nat where
  "dpKeyBytes = 32"

record dp_pair =
  dpp_Hash :: string
  dpp_Block :: string

definition dp_generateActive ::
  "crypto \<Rightarrow> 'w data_protection_store \<Rightarrow> runtime \<Rightarrow> nat \<Rightarrow> 'w \<Rightarrow> (dp_error + data_protection_key) \<times> 'w" where
  "dp_generateActive cr st rt site w =
    (case random_bytes rt site dpKeyBytes of
       None \<Rightarrow> (Inl DPRand, w)
     | Some hash \<Rightarrow>
         (case random_bytes rt (site + 1) dpKeyBytes of
            None \<Rightarrow> (Inl DPRand, w)
          | Some block \<Rightarrow>
              (case random_bytes rt (site + 2) dpKeyBytes of
                 None \<Rightarrow> (Inl DPRand, w)
               | Some csrf \<Rightarrow>
                   (let k = \<lparr>dk_KeyID = uuid_string cr (new_uuid rt site), dk_HashKey = hash,
                             dk_BlockKey = block, dk_CSRFKey = csrf, dk_CreatedAt = now rt site,
                             dk_RetiredAt = None, dk_IsActive = True\<rparr>
                    in case dps_Store st (Some k) w of
                         (Some e, w') \<Rightarrow> (Inl (DPStore e), w')
                       | (None, w') \<Rightarrow> (Inr k, w')))))"

definition dp_EnsureActiveKey ::
  "crypto \<Rightarrow> 'w data_protection_store \<Rightarrow> runtime \<Rightarrow> nat \<Rightarrow> 'w \<Rightarrow> (dp_error + data_protection_key) \<times> 'w" where
  "dp_EnsureActiveKey cr st rt site w =
    (case dps_GetActive st w of
       Inr active \<Rightarrow> (Inr active, w)
     | Inl e \<Rightarrow> if e \<noteq> NotFound then (Inl (DPGetActive e), w) else dp_generateActive cr st rt site w)"

definition dp_retire :: "data_protection_key \<Rightarrow> time \<Rightarrow> data_protection_key" where
  "dp_retire k t = k\<lparr>dk_IsActive := False, dk_RetiredAt := Some t\<rparr>"

definition dp_Rotate ::
  "crypto \<Rightarrow> 'w data_protection_store \<Rightarrow> runtime \<Rightarrow> nat \<Rightarrow> 'w \<Rightarrow> (dp_error + data_protection_key) \<times> 'w" where
  "dp_Rotate cr st rt site w =
    (case dps_GetActive st w of
       Inr active \<Rightarrow>
         (case dps_Store st (Some (dp_retire active (now rt (site + 1)))) w of
            (Some e, w1) \<Rightarrow> (Inl (DPRetire e), w1)
          | (None, w1) \<Rightarrow> dp_generateActive cr st rt site w1)
     | Inl e \<Rightarrow> if e = NotFound then dp_generateActive cr st rt site w else (Inl (DPGetActive e), w))"

definition pair_of :: "data_protection_key \<Rightarrow> dp_pair" where
  "pair_of k = \<lparr>dpp_Hash = dk_HashKey k, dpp_Block = dk_BlockKey k\<rparr>"

definition Keyset ::
  "crypto \<Rightarrow> 'w data_protection_store \<Rightarrow> runtime \<Rightarrow> nat \<Rightarrow> 'w
    \<Rightarrow> (dp_error + dp_pair list \<times> data_protection_key) \<times> 'w" where
  "Keyset cr st rt site w =
    (case dp_EnsureActiveKey cr st rt site w of
       (Inl e, w1) \<Rightarrow> (Inl e, w1)
     | (Inr active, w1) \<Rightarrow>
         (case dps_GetAll st w1 of
            Inl e \<Rightarrow> (Inl (DPGetAll e), w1)
          | Inr all \<Rightarrow>
              (Inr (pair_of active # map pair_of (filter (\<lambda>k. dk_KeyID k \<noteq> dk_KeyID active) all), active), w1)))"

lemmas dp_keys_defs = dp_generateActive_def dp_EnsureActiveKey_def dp_Rotate_def Keyset_def

lemma dp_retire_simps [simp]:
  "dk_KeyID (dp_retire k t) = dk_KeyID k" "\<not> dk_IsActive (dp_retire k t)"
  "pair_of (dp_retire k t) = pair_of k" "dk_RetiredAt (dp_retire k t) = Some t"
  by (simp_all add: dp_retire_def pair_of_def)

lemma dp_generateActive_key:
  assumes "dp_generateActive cr st rt site w = (Inr k, w')"
  shows "dk_IsActive k" "dk_RetiredAt k = None" "dk_KeyID k = uuid_string cr (new_uuid rt site)"
    "dps_Store st (Some k) w = (None, w')"
  using assms by (auto simp: dp_generateActive_def Let_def split: option.splits prod.splits)

subsection \<open>The ring of cookie keys\<close>

text \<open>\<open>sole w\<close>: ids tell the keys of the ring apart.\<close>

locale cookie_ring =
  key_ring "dps_GetActive st" "dps_GetAll st" "dps_Store st" ring good dk_KeyID dk_IsActive
  for st :: "'w data_protection_store" and ring and good +
  assumes good_ids: "good w \<Longrightarrow> k \<in> set (ring w) \<Longrightarrow> k' \<in> set (ring w) \<Longrightarrow> dk_KeyID k = dk_KeyID k' \<Longrightarrow> k = k'"
    and good_named: "good w \<Longrightarrow> k \<in> set (ring w) \<Longrightarrow> dk_KeyID k \<noteq> []"
begin

text \<open>The keyset holds exactly the pairs of the ring, the active key's first.\<close>

lemma keyset_pairs:
  assumes "good w'" "Keyset cr st rt site w = (Inr (ps, a), w')"
    and "uuid_string cr (new_uuid rt site) \<noteq> []" "good w"
  shows "set ps = pair_of ` set (ring w') \<and> hd ps = pair_of a \<and> dk_IsActive a \<and> a \<in> set (ring w')"
proof -
  obtain all where e: "dp_EnsureActiveKey cr st rt site w = (Inr a, w')"
    and all: "dps_GetAll st w' = Inr all"
    and ps: "ps = pair_of a # map pair_of (filter (\<lambda>k. dk_KeyID k \<noteq> dk_KeyID a) all)"
    using assms(2) by (auto simp: Keyset_def split: prod.splits sum.splits)
  have ring: "set all = set (ring w')" using all_ring [of w'] all by auto
  have a: "a \<in> set (ring w') \<and> dk_IsActive a"
  proof (cases "dps_GetActive st w")
    case (Inr b)
    with e have "b = a" "w' = w" by (simp_all add: dp_EnsureActiveKey_def)
    with Inr show ?thesis using active_some [of w a] by simp
  next
    case (Inl x)
    with e have g: "dp_generateActive cr st rt site w = (Inr a, w')"
      by (auto simp: dp_EnsureActiveKey_def split: if_splits)
    show ?thesis
      using dp_generateActive_key [OF g] put_this_key [of a w] assms(3,4) by simp
  qed
  have "set ps = pair_of ` set (ring w')"
    using a good_ids [OF assms(1)] by (auto simp: ps ring)
  with a show ?thesis by (simp add: ps)
qed

text \<open>Generating a key under a fresh id keeps every key there is.\<close>

lemma generate_keeps:
  assumes "good v" "uuid_string cr (new_uuid rt site) \<noteq> []"
    "uuid_string cr (new_uuid rt site) \<notin> dk_KeyID ` set (ring v)"
    "dp_generateActive cr st rt site v = (r, v')"
  shows "set (ring v) \<subseteq> set (ring v') \<and> good v'"
proof (cases r)
  case (Inr k)
  with assms have k: "dk_KeyID k = uuid_string cr (new_uuid rt site)" "dps_Store st (Some k) v = (None, v')"
    using dp_generateActive_key [of cr st rt site v k v'] by auto
  then have "set (ring v') = insert k {q \<in> set (ring v). dk_KeyID q \<noteq> dk_KeyID k}" "good v'"
    using put_ring [of k v] put_good [of v "Some k"] assms(1,2) by simp_all
  with assms(3) k(1) show ?thesis by (auto simp: image_iff)
next
  case (Inl e)
  then have "v' = v"
    using assms put_ring [OF _ assms(1)]
    by (auto simp: dp_generateActive_def Let_def split: option.splits prod.splits)
      (metis fst_conv option.distinct(1) data_protection_key.select_convs(1))+
  with assms(1) show ?thesis by simp
qed

lemma ensure_keeps:
  assumes "good v" "uuid_string cr (new_uuid rt site) \<noteq> []"
    "uuid_string cr (new_uuid rt site) \<notin> dk_KeyID ` set (ring v)"
    "dp_EnsureActiveKey cr st rt site v = (r, v')"
  shows "set (ring v) \<subseteq> set (ring v') \<and> good v'"
  using generate_keeps [OF assms(1-3), of r v'] assms(1,4)
  by (auto simp: dp_EnsureActiveKey_def split: sum.splits if_splits)

lemma keyset_keeps:
  assumes "good v" "uuid_string cr (new_uuid rt site) \<noteq> []"
    "uuid_string cr (new_uuid rt site) \<notin> dk_KeyID ` set (ring v)"
    "Keyset cr st rt site v = (r, v')"
  shows "set (ring v) \<subseteq> set (ring v') \<and> good v'"
  using assms ensure_keeps [OF assms(1-3)]
  by (auto simp: Keyset_def split: sum.splits prod.splits)

text \<open>A rotation keeps the pair of every key of the ring, so old cookies still decode.\<close>

lemma rotate_keeps_pairs:
  assumes good: "good w" and rot: "dp_Rotate cr st rt site w = (res, w')"
    and fresh: "uuid_string cr (new_uuid rt site) \<noteq> []"
      "uuid_string cr (new_uuid rt site) \<notin> dk_KeyID ` set (ring w)"
  shows "pair_of ` set (ring w) \<subseteq> pair_of ` set (ring w') \<and> good w'"
proof -
  show ?thesis
  proof (cases "dps_GetActive st w")
    case (Inl e)
    then have "e = NotFound" using active_none by simp
    with Inl rot have "dp_generateActive cr st rt site w = (res, w')" by (simp add: dp_Rotate_def)
    from generate_keeps [OF good fresh this] show ?thesis by auto
  next
    case (Inr a)
    let ?r = "dp_retire a (now rt (site + 1))"
    have a: "a \<in> set (ring w)" using active_some [OF Inr] by simp
    then have ne: "dk_KeyID ?r \<noteq> []" using good_named [OF good] by simp
    obtain w1 where s: "dps_Store st (Some ?r) w = (None, w1)"
      and g: "dp_generateActive cr st rt site w1 = (res, w')"
      using put_ring [OF ne good] rot Inr
      by (cases "dps_Store st (Some ?r) w") (auto simp: dp_Rotate_def)
    have r1: "set (ring w1) = insert ?r {q \<in> set (ring w). dk_KeyID q \<noteq> dk_KeyID a}" "good w1"
      using put_ring [OF ne good] put_good [OF good, of "Some ?r"] s by simp_all
    have fr: "uuid_string cr (new_uuid rt site) \<notin> dk_KeyID ` set (ring w1)"
      using fresh(2) a by (auto simp: r1)
    have "pair_of k \<in> pair_of ` set (ring w1)" if "k \<in> set (ring w)" for k
    proof (cases "dk_KeyID k = dk_KeyID a")
      case True
      then have "k = a" using good_ids [OF good that a] by simp
      then have "pair_of k = pair_of ?r" by simp
      then show ?thesis by (simp add: r1)
    next
      case False
      with that show ?thesis by (simp add: r1)
    qed
    with generate_keeps [OF r1(2) fresh(1) fr g] show ?thesis by blast
  qed
qed

end

end
