(* ===== verification/Mem_World.thy ===== *)
theory Mem_World
  imports Mem_Codes Mem_Users Login_Attempts Client_Assertion DP_Keys
begin

section \<open>The server's state on the in-memory stores\<close>

text \<open>
  One record with the state of every store, as the wiring of cmd/authserver shares the stores
  among the handlers, and the interface records of Store_Interfaces over it. The contracts the
  handlers rely on are interpreted here for these instances.
\<close>

record world =
  w_codes :: auth_code_mem
  w_refresh :: refresh_token_mem
  w_sessions :: session_mem
  w_clients :: client_mem
  w_users :: user_mem
  w_roles :: role_mem
  w_audit :: audit_log_mem
  w_signing :: signing_key_mem
  w_dpkeys :: data_protection_mem
  w_scopes :: scope_mem
  w_resets :: password_reset_mem
  w_tracker :: attempt_tracker
  w_assertions :: mem_assertion_cache

definition empty_world :: world where
  "empty_world = \<lparr>w_codes = NewAuthorizationCodeStore, w_refresh = NewRefreshTokenStore,
     w_sessions = [], w_clients = [], w_users = NewUserStore, w_roles = \<lparr>rm_roles = [], rm_claims = []\<rparr>,
     w_audit = [], w_signing = [], w_dpkeys = [], w_scopes = [], w_resets = [],
     w_tracker = NewLoginAttemptTracker, w_assertions = NewMemAssertionCache\<rparr>"

subsection \<open>The interfaces\<close>

abbreviation on_codes where "on_codes \<equiv> zoom w_codes (\<lambda>s. w_codes_update (\<lambda>_. s))"
abbreviation on_refresh where "on_refresh \<equiv> zoom w_refresh (\<lambda>s. w_refresh_update (\<lambda>_. s))"
abbreviation on_sessions where "on_sessions \<equiv> zoom w_sessions (\<lambda>s. w_sessions_update (\<lambda>_. s))"
abbreviation on_clients where "on_clients \<equiv> zoom w_clients (\<lambda>s. w_clients_update (\<lambda>_. s))"
abbreviation on_users where "on_users \<equiv> zoom w_users (\<lambda>s. w_users_update (\<lambda>_. s))"
abbreviation on_audit where "on_audit \<equiv> zoom w_audit (\<lambda>s. w_audit_update (\<lambda>_. s))"
abbreviation on_signing where "on_signing \<equiv> zoom w_signing (\<lambda>s. w_signing_update (\<lambda>_. s))"
abbreviation on_dpkeys where "on_dpkeys \<equiv> zoom w_dpkeys (\<lambda>s. w_dpkeys_update (\<lambda>_. s))"
abbreviation on_scopes where "on_scopes \<equiv> zoom w_scopes (\<lambda>s. w_scopes_update (\<lambda>_. s))"
abbreviation on_resets where "on_resets \<equiv> zoom w_resets (\<lambda>s. w_resets_update (\<lambda>_. s))"
abbreviation on_tracker where "on_tracker \<equiv> zoom w_tracker (\<lambda>s. w_tracker_update (\<lambda>_. s))"
abbreviation on_assertions where "on_assertions \<equiv> zoom w_assertions (\<lambda>s. w_assertions_update (\<lambda>_. s))"

definition mem_auth_codes :: "world auth_code_store" where
  "mem_auth_codes =
    \<lparr>acs_Store = \<lambda>x. on_codes (authcode_Store x),
     acs_FindByHash = \<lambda>h w. authcode_FindByHash h (w_codes w),
     acs_MarkConsumed = \<lambda>i t. on_codes (authcode_MarkConsumed i t)\<rparr>"

definition mem_refresh_tokens :: "world refresh_token_store" where
  "mem_refresh_tokens =
    \<lparr>rts_Store = \<lambda>x. on_refresh (refresh_Store x),
     rts_FindByHash = \<lambda>h w. refresh_FindByHash h (w_refresh w),
     rts_FindByID = \<lambda>i w. refresh_FindByID i (w_refresh w),
     rts_MarkConsumed = \<lambda>i t. on_refresh (refresh_MarkConsumed i t),
     rts_Revoke = \<lambda>i t. on_refresh (refresh_Revoke i t),
     rts_RevokeBySessionID = \<lambda>i t. on_refresh (refresh_RevokeBySessionID i t)\<rparr>"

definition mem_sessions :: "world session_store" where
  "mem_sessions =
    \<lparr>ss_Find = \<lambda>i w. session_Find i (w_sessions w),
     ss_Store = \<lambda>x. on_sessions (session_Store x),
     ss_Revoke = \<lambda>i t. on_sessions (session_Revoke i t),
     ss_ListByUserID = \<lambda>u t w. session_ListByUserID u t (w_sessions w),
     ss_RevokeByUserIDExcept = \<lambda>u k t. on_sessions (session_RevokeByUserIDExcept u k t)\<rparr>"

definition mem_clients :: "world client_store" where
  "mem_clients =
    \<lparr>cs_FindByClientID = \<lambda>i w. client_FindByClientID i (w_clients w),
     cs_Store = \<lambda>x. on_clients (client_Store x),
     cs_Delete = \<lambda>i. on_clients (client_Delete i)\<rparr>"

definition mem_users :: "crypto \<Rightarrow> runtime \<Rightarrow> world user_store" where
  "mem_users cr rt =
    \<lparr>us_ValidateCredentials = \<lambda>n p w. user_ValidateCredentials cr n p (w_users w),
     us_FindByID = \<lambda>i w. user_FindByID i (w_users w),
     us_CreateUser = \<lambda>u p. on_users (user_CreateUser cr (bcrypt_salt rt) u p),
     us_UpdateUser = \<lambda>u. on_users (user_UpdateUser u),
     us_DeleteUser = \<lambda>i. on_users (user_DeleteUser i),
     us_FindUserByID = \<lambda>i w. user_FindUserByID i (w_users w),
     us_FindUserByUsername = \<lambda>n w. user_FindUserByUsername n (w_users w),
     us_FindUserByEmail = \<lambda>e w. user_FindUserByEmail e (w_users w),
     us_SetPassword = \<lambda>i p. on_users (user_SetPassword cr (bcrypt_salt rt) i p),
     us_GetUserRoles = \<lambda>i w. user_GetUserRoles i (w_users w)\<rparr>"

definition mem_audit_logs :: "world audit_log_store" where
  "mem_audit_logs =
    \<lparr>als_Store = \<lambda>x. on_audit (audit_Store x),
     als_ListByActor = \<lambda>a c l w. audit_ListByActor a c l (w_audit w)\<rparr>"

definition mem_signing_keys :: "world signing_key_store" where
  "mem_signing_keys =
    \<lparr>sks_GetActive = \<lambda>w. signing_GetActive (w_signing w),
     sks_GetAll = \<lambda>w. signing_GetAll (w_signing w),
     sks_Store = \<lambda>x. on_signing (signing_Store x)\<rparr>"

definition mem_dp_keys :: "world data_protection_store" where
  "mem_dp_keys =
    \<lparr>dps_GetActive = \<lambda>w. dp_GetActive (w_dpkeys w),
     dps_GetAll = \<lambda>w. dp_GetAll (w_dpkeys w),
     dps_Store = \<lambda>x. on_dpkeys (dp_Store x)\<rparr>"

definition mem_scopes :: "world scope_store" where
  "mem_scopes =
    \<lparr>scs_FindByName = \<lambda>n w. scope_FindByName n (w_scopes w),
     scs_GetAll = \<lambda>w. scope_GetAll (w_scopes w),
     scs_Store = \<lambda>x. on_scopes (scope_Store x),
     scs_Delete = \<lambda>n. on_scopes (scope_Delete n)\<rparr>"

definition mem_resets :: "world password_reset_store" where
  "mem_resets =
    \<lparr>prs_Create = \<lambda>x. on_resets (reset_Create x),
     prs_FindByHash = \<lambda>h w. reset_FindByHash h (w_resets w),
     prs_Consume = \<lambda>i t. on_resets (reset_Consume i t),
     prs_InvalidateForUser = \<lambda>u t. on_resets (reset_InvalidateForUser u t),
     prs_DeleteExpired = \<lambda>t. on_resets (reset_DeleteExpired t)\<rparr>"

text \<open>The tracker and the replay cache read their own clock, at the places 200 to 202 and 101.\<close>

definition mem_tracker_store :: "runtime \<Rightarrow> world login_attempt_tracker" where
  "mem_tracker_store rt =
    \<lparr>lat_IsLockedOut = \<lambda>k. on_tracker (\<lambda>s. case IsLockedOut (now rt 200) k s of (b, s') \<Rightarrow> (Inr b, s')),
     lat_RecordFailure = \<lambda>k. on_tracker (\<lambda>s. (None, RecordFailure (now rt 201) k s)),
     lat_Reset = \<lambda>k. on_tracker (\<lambda>s. (None, ResetAttempts k s))\<rparr>"

definition mem_assertions :: "runtime \<Rightarrow> world assertion_cache" where
  "mem_assertions rt =
    \<lparr>cac_CheckAndStore = \<lambda>cid jti e. on_assertions
       (\<lambda>s. case CheckAndStore (now rt 101) cid jti e s of (b, s') \<Rightarrow> (Inr b, s'))\<rparr>"

lemmas mem_instances = mem_auth_codes_def mem_refresh_tokens_def mem_sessions_def mem_clients_def
  mem_users_def mem_audit_logs_def mem_signing_keys_def mem_dp_keys_def mem_scopes_def
  mem_resets_def mem_tracker_store_def mem_assertions_def

subsection \<open>The contracts\<close>

interpretation codes: cas_store "acs_MarkConsumed mem_auth_codes" "\<lambda>i w. code_spent i (w_codes w)"
proof
  fix i t and w w' :: world
  assume "acs_MarkConsumed mem_auth_codes i t w = (Inr True, w')"
  then have "authcode_MarkConsumed i t (w_codes w) = (Inr True, w_codes w')"
    by (auto simp: mem_auth_codes_def zoom_eq prod_eq_iff)
  then show "\<not> code_spent i (w_codes w) \<and> code_spent i (w_codes w')" by (rule code_cas.mark_won)
next
  fix j i t and w :: world
  assume "code_spent j (w_codes w)"
  then show "code_spent j (w_codes (snd (acs_MarkConsumed mem_auth_codes i t w)))"
    by (simp add: mem_auth_codes_def code_cas.mark_keeps)
next
  fix i t and w :: world
  assume "fst (acs_MarkConsumed mem_auth_codes i t w) \<noteq> Inr True"
  then show "snd (acs_MarkConsumed mem_auth_codes i t w) = w"
    using code_cas.mark_lost [of i t "w_codes w"] by (simp add: mem_auth_codes_def)
qed

interpretation refresh: cas_store "rts_MarkConsumed mem_refresh_tokens" "\<lambda>i w. refresh_spent i (w_refresh w)"
proof
  fix i t and w w' :: world
  assume "rts_MarkConsumed mem_refresh_tokens i t w = (Inr True, w')"
  then have "refresh_MarkConsumed i t (w_refresh w) = (Inr True, w_refresh w')"
    by (auto simp: mem_refresh_tokens_def zoom_eq prod_eq_iff)
  then show "\<not> refresh_spent i (w_refresh w) \<and> refresh_spent i (w_refresh w')"
    by (rule refresh_cas.mark_won)
next
  fix j i t and w :: world
  assume "refresh_spent j (w_refresh w)"
  then show "refresh_spent j (w_refresh (snd (rts_MarkConsumed mem_refresh_tokens i t w)))"
    by (simp add: mem_refresh_tokens_def refresh_cas.mark_keeps)
next
  fix i t and w :: world
  assume "fst (rts_MarkConsumed mem_refresh_tokens i t w) \<noteq> Inr True"
  then show "snd (rts_MarkConsumed mem_refresh_tokens i t w) = w"
    using refresh_cas.mark_lost [of i t "w_refresh w"] by (simp add: mem_refresh_tokens_def)
qed

text \<open>A ring of signing keys indexed by their own ids.\<close>

definition keyed :: "('v \<Rightarrow> string) \<Rightarrow> (string, 'v) gomap \<Rightarrow> bool" where
  "keyed key m \<longleftrightarrow> gm_wf m \<and> (\<forall>(i, v) \<in> set m. key v = i \<and> i \<noteq> [])"

lemma keyed_upsert: "keyed key m \<Longrightarrow> key v \<noteq> [] \<Longrightarrow> keyed key (upsert key v m)"
proof -
  assume k: "keyed key m" "key v \<noteq> []"
  have "set (gm_put (key v) v m) \<subseteq> insert (key v, v) (set m)"
    by (induction m) auto
  with k show ?thesis by (auto simp: keyed_def upsert_def)
qed

lemma values_upsert:
  assumes "keyed key m" "key v \<noteq> []"
  shows "snd ` set (upsert key v m) = insert v {u \<in> snd ` set m. key u \<noteq> key v}"
proof -
  have w: "gm_wf m" "gm_wf (upsert key v m)" using assms by (auto simp: keyed_def upsert_def)
  have mem: "(i, u) \<in> set m \<longleftrightarrow> gm_get m i = Some u" if "gm_wf m" for i u and m :: "(string, 'a) gomap"
    using that by (rule map_of_eq_Some_iff [symmetric])
  have up: "(i, u) \<in> set (upsert key v m) \<longleftrightarrow> (if i = key v then u = v else (i, u) \<in> set m)" for i u
    unfolding mem [OF w(1)] mem [OF w(2)] by (auto simp: upsert_def)
  have own: "(i, u) \<in> set m \<Longrightarrow> i = key u" for i u
    using assms(1) by (auto simp: keyed_def)
  show ?thesis
  proof (intro equalityI subsetI)
    fix u
    assume "u \<in> snd ` set (upsert key v m)"
    then obtain i where "(i, u) \<in> set (upsert key v m)" by auto
    then show "u \<in> insert v {u \<in> snd ` set m. key u \<noteq> key v}"
      using own [of i u] by (cases "i = key v") (force simp: up)+
  next
    fix u
    assume "u \<in> insert v {u \<in> snd ` set m. key u \<noteq> key v}"
    then have "u = v \<or> (key u, u) \<in> set m \<and> key u \<noteq> key v" using own by auto
    then have "(key u, u) \<in> set (upsert key v m)" by (auto simp: up)
    then show "u \<in> snd ` set (upsert key v m)" by force
  qed
qed

interpretation signing: signing_ring mem_signing_keys "\<lambda>w. map snd (w_signing w)"
  "\<lambda>w. keyed sk_KeyID (w_signing w)"
proof
  fix w :: world
  show "\<exists>ks. sks_GetAll mem_signing_keys w = Inr ks \<and> set ks = set (map snd (w_signing w))"
    by (simp add: mem_signing_keys_def signing_GetAll_def)
next
  fix k and w :: world
  assume "sks_GetActive mem_signing_keys w = Inr k"
  then show "k \<in> set (map snd (w_signing w)) \<and> sk_IsActive k"
    by (auto simp: mem_signing_keys_def signing_GetActive_def split: option.splits dest: find_Some_set)
next
  fix e and w :: world
  assume "sks_GetActive mem_signing_keys w = Inl e"
  then show "e = NotFound \<and> (\<forall>k \<in> set (map snd (w_signing w)). \<not> sk_IsActive k)"
    by (auto simp: mem_signing_keys_def signing_GetActive_def find_None_iff split: option.splits)
next
  fix x and w :: world
  assume "keyed sk_KeyID (w_signing w)"
  then show "keyed sk_KeyID (w_signing (snd (sks_Store mem_signing_keys x w)))"
    by (auto simp: mem_signing_keys_def signing_Store_def keyed_upsert split: option.splits)
next
  fix k :: signing_key and w :: world
  assume "sk_KeyID k \<noteq> []" "keyed sk_KeyID (w_signing w)"
  then show "fst (sks_Store mem_signing_keys (Some k) w) = None \<and>
    set (map snd (w_signing (snd (sks_Store mem_signing_keys (Some k) w)))) =
      insert k {k' \<in> set (map snd (w_signing w)). sk_KeyID k' \<noteq> sk_KeyID k}"
    by (simp add: mem_signing_keys_def signing_Store_def values_upsert)
qed

text \<open>The cookie keys: ids tell them apart.\<close>

lemma keyed_own: "keyed key m \<Longrightarrow> v \<in> snd ` set m \<Longrightarrow> key v \<noteq> [] \<and> gm_get m (key v) = Some v"
  by (force simp: keyed_def intro: map_of_is_SomeI)

interpretation cookie_keys: cookie_ring mem_dp_keys "\<lambda>w. map snd (w_dpkeys w)"
  "\<lambda>w. keyed dk_KeyID (w_dpkeys w)"
proof
  fix w :: world
  show "\<exists>ks. dps_GetAll mem_dp_keys w = Inr ks \<and> set ks = set (map snd (w_dpkeys w))"
    by (simp add: mem_dp_keys_def dp_GetAll_def)
next
  fix k and w :: world
  assume "dps_GetActive mem_dp_keys w = Inr k"
  then show "k \<in> set (map snd (w_dpkeys w)) \<and> dk_IsActive k"
    by (auto simp: mem_dp_keys_def dp_GetActive_def split: option.splits dest: find_Some_set)
next
  fix e and w :: world
  assume "dps_GetActive mem_dp_keys w = Inl e"
  then show "e = NotFound \<and> (\<forall>k \<in> set (map snd (w_dpkeys w)). \<not> dk_IsActive k)"
    by (auto simp: mem_dp_keys_def dp_GetActive_def find_None_iff split: option.splits)
next
  fix x and w :: world
  assume "keyed dk_KeyID (w_dpkeys w)"
  then show "keyed dk_KeyID (w_dpkeys (snd (dps_Store mem_dp_keys x w)))"
    by (auto simp: mem_dp_keys_def dp_Store_def keyed_upsert split: option.splits)
next
  fix k :: data_protection_key and w :: world
  assume "dk_KeyID k \<noteq> []" "keyed dk_KeyID (w_dpkeys w)"
  then show "fst (dps_Store mem_dp_keys (Some k) w) = None \<and>
    set (map snd (w_dpkeys (snd (dps_Store mem_dp_keys (Some k) w)))) =
      insert k {k' \<in> set (map snd (w_dpkeys w)). dk_KeyID k' \<noteq> dk_KeyID k}"
    by (simp add: mem_dp_keys_def dp_Store_def values_upsert)
next
  fix k k' and w :: world
  assume "keyed dk_KeyID (w_dpkeys w)" "k \<in> set (map snd (w_dpkeys w))" "k' \<in> set (map snd (w_dpkeys w))"
    "dk_KeyID k = dk_KeyID k'"
  then show "k = k'" using keyed_own [of dk_KeyID "w_dpkeys w"] by (metis list.set_map option.inject)
next
  fix k and w :: world
  assume "keyed dk_KeyID (w_dpkeys w)" "k \<in> set (map snd (w_dpkeys w))"
  then show "dk_KeyID k \<noteq> []" using keyed_own [of dk_KeyID "w_dpkeys w"] by simp
qed

text \<open>Storing a signing key touches nothing else.\<close>

lemma signing_frame [simp]:
  "w_codes (snd (sks_Store mem_signing_keys x w)) = w_codes w"
  "w_refresh (snd (sks_Store mem_signing_keys x w)) = w_refresh w"
  "w_sessions (snd (sks_Store mem_signing_keys x w)) = w_sessions w"
  "w_clients (snd (sks_Store mem_signing_keys x w)) = w_clients w"
  "w_users (snd (sks_Store mem_signing_keys x w)) = w_users w"
  "w_audit (snd (sks_Store mem_signing_keys x w)) = w_audit w"
  by (simp_all add: mem_signing_keys_def)

lemma assertions_frame [simp]:
  "w_codes (snd (cac_CheckAndStore (mem_assertions rt) a b t w)) = w_codes w"
  "w_refresh (snd (cac_CheckAndStore (mem_assertions rt) a b t w)) = w_refresh w"
  "w_clients (snd (cac_CheckAndStore (mem_assertions rt) a b t w)) = w_clients w"
  by (simp_all add: mem_assertions_def)

end
