(* ===== verification/Issuer.thy ===== *)
theory Issuer
  imports Key_Manager
begin

section \<open>Issuing and verifying JWTs (internal/token/issuer.go)\<close>

text \<open>
  The claims of an access token and of an ID token are built by pure functions and signed with
  the active key, which is created on the spot when the store has none (so issuing may write).
  \<open>site\<close> numbers the clock reading and the \<open>jti\<close>; \<open>site + 1\<close> is the key manager's.
\<close>

record 'w issuer =
  iss_Issuer :: string
  iss_Keys :: "'w signing_key_store"
  iss_DefaultAccessTokenLifetime :: duration
  iss_DefaultIDTokenLifetime :: duration

definition NewIssuer :: "string \<Rightarrow> 'w signing_key_store \<Rightarrow> 'w issuer" where
  "NewIssuer url keys = \<lparr>iss_Issuer = url, iss_Keys = keys,
     iss_DefaultAccessTokenLifetime = hour, iss_DefaultIDTokenLifetime = hour\<rparr>"

record access_token_claims =
  at_Subject :: string
  at_ClientID :: string
  at_Scope :: string
  at_ExpiresIn :: duration
  at_IssuedAt :: time
  at_AuthTime :: "time option"
  at_JwtID :: string

record id_token_claims =
  it_Subject :: string
  it_ClientID :: string
  it_Scope :: string
  it_Nonce :: string
  it_AuthTime :: time
  it_Claims :: claims
  it_AtHash :: string
  it_IssuedAt :: time
  it_ExpiresIn :: duration

datatype issue_error =
    SubjectRequired
  | ClientIDRequiredForToken
  | AtHashRequired
  | SigningKeyFailed key_error
  | SignFailed

text \<open>A numeric date, as jwx writes it: whole seconds.\<close>

definition numeric_date :: "time \<Rightarrow> json" where
  "numeric_date t = JNum (unix_seconds t)"

definition access_claims :: "string \<Rightarrow> access_token_claims \<Rightarrow> claims" where
  "access_claims iss c =
    (let b = [(''iss'', JStr iss), (''sub'', JStr (at_Subject c)), (''aud'', JArr [JStr (at_ClientID c)]),
              (''iat'', numeric_date (at_IssuedAt c)), (''nbf'', numeric_date (at_IssuedAt c)),
              (''exp'', numeric_date (time_add (at_IssuedAt c) (at_ExpiresIn c))),
              (''jti'', JStr (at_JwtID c)), (''client_id'', JStr (at_ClientID c)),
              (''scope'', JStr (at_Scope c))]
     in case at_AuthTime c of None \<Rightarrow> b | Some t \<Rightarrow> gm_put ''auth_time'' (numeric_date t) b)"

definition sign_with_active ::
  "crypto \<Rightarrow> 'w issuer \<Rightarrow> runtime \<Rightarrow> nat \<Rightarrow> claims \<Rightarrow> 'w \<Rightarrow> (issue_error + string) \<times> 'w" where
  "sign_with_active cr i rt site cl w =
    (case PrivateJWK cr (iss_Keys i) rt site w of
       (Inl e, w') \<Rightarrow> (Inl (SigningKeyFailed e), w')
     | (Inr key, w') \<Rightarrow>
         (case jwt_sign cr key cl of
            None \<Rightarrow> (Inl SignFailed, w')
          | Some s \<Rightarrow> (Inr s, w')))"

text \<open>The defaults \<open>IssueAccessToken\<close> fills in: lifetime, issue time and token id.\<close>

definition fill_access :: "crypto \<Rightarrow> 'w issuer \<Rightarrow> runtime \<Rightarrow> nat \<Rightarrow> access_token_claims \<Rightarrow> access_token_claims" where
  "fill_access cr i rt site c =
    (let c1 = (if sint (at_ExpiresIn c) \<le> 0
               then c\<lparr>at_ExpiresIn := iss_DefaultAccessTokenLifetime i\<rparr> else c);
         c2 = (if is_zero_time (at_IssuedAt c1) then c1\<lparr>at_IssuedAt := now rt site\<rparr> else c1)
     in if at_JwtID c2 = [] then c2\<lparr>at_JwtID := uuid_string cr (new_uuid rt site)\<rparr> else c2)"

definition IssueAccessToken ::
  "crypto \<Rightarrow> 'w issuer \<Rightarrow> runtime \<Rightarrow> nat \<Rightarrow> access_token_claims \<Rightarrow> 'w \<Rightarrow> (issue_error + string) \<times> 'w" where
  "IssueAccessToken cr i rt site c w =
    (if at_Subject c = [] then (Inl SubjectRequired, w)
     else if at_ClientID c = [] then (Inl ClientIDRequiredForToken, w)
     else sign_with_active cr i rt (site + 1)
            (access_claims (iss_Issuer i) (fill_access cr i rt site c)) w)"

definition isReservedClaim :: "string \<Rightarrow> bool" where
  "isReservedClaim n \<longleftrightarrow> n \<in> set [''iss'', ''sub'', ''aud'', ''exp'', ''iat'', ''nbf'', ''jti'',
     ''at_hash'', ''auth_time'', ''nonce'', ''scope'']"

text \<open>The loop over \<open>c.Claims\<close>.\<close>

fun add_claims :: "claims \<Rightarrow> claims \<Rightarrow> claims" where
  "add_claims b [] = b"
| "add_claims b ((k, v) # cs) =
    (if isReservedClaim k then add_claims b cs else add_claims (gm_put k v b) cs)"

definition id_base_claims :: "string \<Rightarrow> string \<Rightarrow> id_token_claims \<Rightarrow> claims" where
  "id_base_claims iss jti c =
    [(''iss'', JStr iss), (''sub'', JStr (it_Subject c)), (''aud'', JArr [JStr (it_ClientID c)]),
     (''iat'', numeric_date (it_IssuedAt c)), (''nbf'', numeric_date (it_IssuedAt c)),
     (''exp'', numeric_date (time_add (it_IssuedAt c) (it_ExpiresIn c))),
     (''jti'', JStr jti), (''at_hash'', JStr (it_AtHash c)),
     (''auth_time'', numeric_date (it_AuthTime c))] @
    (if it_Nonce c = [] then [] else [(''nonce'', JStr (it_Nonce c))]) @
    (if it_Scope c = [] then [] else [(''scope'', JStr (it_Scope c))])"

definition id_claims :: "string \<Rightarrow> string \<Rightarrow> id_token_claims \<Rightarrow> claims" where
  "id_claims iss jti c = add_claims (id_base_claims iss jti c) (it_Claims c)"

definition fill_id :: "'w issuer \<Rightarrow> runtime \<Rightarrow> nat \<Rightarrow> id_token_claims \<Rightarrow> id_token_claims" where
  "fill_id i rt site c =
    (let c1 = (if sint (it_ExpiresIn c) \<le> 0
               then c\<lparr>it_ExpiresIn := iss_DefaultIDTokenLifetime i\<rparr> else c)
     in if is_zero_time (it_IssuedAt c1) then c1\<lparr>it_IssuedAt := now rt site\<rparr> else c1)"

definition IssueIDToken ::
  "crypto \<Rightarrow> 'w issuer \<Rightarrow> runtime \<Rightarrow> nat \<Rightarrow> id_token_claims \<Rightarrow> 'w \<Rightarrow> (issue_error + string) \<times> 'w" where
  "IssueIDToken cr i rt site c w =
    (if it_Subject c = [] then (Inl SubjectRequired, w)
     else if it_ClientID c = [] then (Inl ClientIDRequiredForToken, w)
     else if it_AtHash c = [] then (Inl AtHashRequired, w)
     else sign_with_active cr i rt (site + 1)
            (id_claims (iss_Issuer i) (uuid_string cr (new_uuid rt site)) (fill_id i rt site c)) w)"

definition VerifyToken ::
  "crypto \<Rightarrow> 'w issuer \<Rightarrow> runtime \<Rightarrow> nat \<Rightarrow> string \<Rightarrow> 'w \<Rightarrow> (key_error option) + claims" where
  "VerifyToken cr i rt site raw w =
    (case PublicJWKSet cr (iss_Keys i) w of
       Inl e \<Rightarrow> Inl (Some e)
     | Inr js \<Rightarrow>
         (case jwt_verify cr js (iss_Issuer i) (now rt site) hour raw of
            None \<Rightarrow> Inl None
          | Some cl \<Rightarrow> Inr cl))"

definition JWKSForEndpoint ::
  "crypto \<Rightarrow> 'w issuer \<Rightarrow> runtime \<Rightarrow> nat \<Rightarrow> 'w \<Rightarrow> (key_error + jwk list) \<times> 'w" where
  "JWKSForEndpoint cr i rt site w =
    (case EnsureActiveKey cr (iss_Keys i) rt site w of
       (Inl e, w') \<Rightarrow> (Inl e, w')
     | (Inr k, w') \<Rightarrow> (PublicJWKSet cr (iss_Keys i) w', w'))"

lemmas issuer_defs = IssueAccessToken_def IssueIDToken_def sign_with_active_def

subsection \<open>Claims\<close>

lemma add_claims_reserved: "isReservedClaim k \<Longrightarrow> gm_get (add_claims b cs) k = gm_get b k"
  by (induction b cs rule: add_claims.induct) auto

lemma add_claims_other:
  "\<not> isReservedClaim k \<Longrightarrow> gm_wf cs \<Longrightarrow>
    gm_get (add_claims b cs) k = (case gm_get cs k of None \<Rightarrow> gm_get b k | Some v \<Rightarrow> Some v)"
proof (induction b cs rule: add_claims.induct)
  case (2 b k' v cs)
  have "gm_get cs k' = None"
    using "2.prems"(2) by (simp add: map_of_eq_None_iff)
  with 2 show ?case by (cases "isReservedClaim k'"; cases "k = k'") (auto split: option.splits)
qed simp

lemma id_claims_reserved:
  "isReservedClaim k \<Longrightarrow> gm_get (id_claims iss jti c) k = gm_get (id_base_claims iss jti c) k"
  by (simp add: id_claims_def add_claims_reserved)

lemma reserved_names [simp]:
  "isReservedClaim ''iss''" "isReservedClaim ''sub''" "isReservedClaim ''aud''"
  "isReservedClaim ''exp''" "isReservedClaim ''iat''" "isReservedClaim ''nbf''"
  "isReservedClaim ''jti''" "isReservedClaim ''at_hash''" "isReservedClaim ''auth_time''"
  "isReservedClaim ''nonce''" "isReservedClaim ''scope''"
  by (simp_all add: isReservedClaim_def)

lemma access_claims_get:
  "gm_get (access_claims iss c) ''sub'' = Some (JStr (at_Subject c))"
  "gm_get (access_claims iss c) ''client_id'' = Some (JStr (at_ClientID c))"
  "gm_get (access_claims iss c) ''scope'' = Some (JStr (at_Scope c))"
  "gm_get (access_claims iss c) ''exp'' =
    Some (numeric_date (time_add (at_IssuedAt c) (at_ExpiresIn c)))"
  "gm_get (access_claims iss c) ''iat'' = Some (numeric_date (at_IssuedAt c))"
  "gm_get (access_claims iss c) ''auth_time'' = map_option numeric_date (at_AuthTime c)"
  by (simp_all add: access_claims_def Let_def split: option.splits)

lemma fill_access_fields [simp]:
  "at_Subject (fill_access cr i rt site c) = at_Subject c"
  "at_ClientID (fill_access cr i rt site c) = at_ClientID c"
  "at_Scope (fill_access cr i rt site c) = at_Scope c"
  "at_AuthTime (fill_access cr i rt site c) = at_AuthTime c"
  by (simp_all add: fill_access_def Let_def)

text \<open>Signing changes the state only as the key manager does.\<close>

lemma sign_with_active_Inr:
  assumes "sign_with_active cr i rt site cl w = (Inr s, w')"
  obtains key where "PrivateJWK cr (iss_Keys i) rt site w = (Inr key, w')" "jwt_sign cr key cl = Some s"
  using assms by (auto simp: sign_with_active_def split: prod.splits sum.splits option.splits)

text \<open>
  A frame: anything the key store's \<open>Store\<close> leaves alone, issuing a token leaves alone.
\<close>

lemma generateActive_frame:
  assumes "\<And>k w. f (snd (sks_Store st k w)) = f w"
  shows "f (snd (generateActive cr st rt site w)) = f w"
  using assms
  by (simp add: generateActive_def Let_def prod.case_eq_if split: option.split)

lemma EnsureActiveKey_frame:
  assumes "\<And>k w. f (snd (sks_Store st k w)) = f w"
  shows "f (snd (EnsureActiveKey cr st rt site w)) = f w"
  using generateActive_frame [OF assms]
  by (auto simp: EnsureActiveKey_def split: sum.splits)

lemma sign_with_active_frame:
  assumes "\<And>k w. f (snd (sks_Store (iss_Keys i) k w)) = f w"
  shows "f (snd (sign_with_active cr i rt site cl w)) = f w"
  using EnsureActiveKey_frame [OF assms, of cr rt site w]
  by (auto simp: sign_with_active_def PrivateJWK_def split: sum.splits prod.splits option.splits)

lemma issue_frame:
  assumes "\<And>k w. f (snd (sks_Store (iss_Keys i) k w)) = f w"
  shows "f (snd (IssueAccessToken cr i rt site c w)) = f w"
    and "f (snd (IssueIDToken cr i rt site d w)) = f w"
  by (simp_all add: IssueAccessToken_def IssueIDToken_def sign_with_active_frame [OF assms])

end
