(* ===== verification/Grant_AuthCode.thy ===== *)
theory Grant_AuthCode
  imports Issuer
begin

section \<open>The authorization code grant (internal/oidc/grants/authcode.go)\<close>

text \<open>
  \<open>Handle\<close> in the three phases the code has: the checks, which only read (\<open>authcode_check\<close>);
  the compare-and-set; the issuance (\<open>authcode_issue\<close>). \<open>authcode_handle\<close> composes them the
  way the function does. The places that draw from the runtime are numbered 0 (expiry check),
  1 (consumption time), 2 to 5 (access and ID token), 6 to 8 (refresh token).
\<close>

subsection \<open>The token response\<close>

record token_response =
  tr_AccessToken :: string
  tr_TokenType :: string
  tr_ExpiresIn :: int
  tr_RefreshToken :: string
  tr_IDToken :: string
  tr_Scope :: string

definition omit_empty :: "string \<Rightarrow> string \<Rightarrow> (string \<times> json) list" where
  "omit_empty k v = (if v = [] then [] else [(k, JStr v)])"

definition token_response_json :: "token_response \<Rightarrow> json" where
  "token_response_json t =
    JObj ([(''access_token'', JStr (tr_AccessToken t)), (''token_type'', JStr (tr_TokenType t)),
           (''expires_in'', JNum (tr_ExpiresIn t))] @
          omit_empty ''refresh_token'' (tr_RefreshToken t) @
          omit_empty ''id_token'' (tr_IDToken t) @ omit_empty ''scope'' (tr_Scope t))"

definition token_ok :: "token_response \<Rightarrow> outcome" where
  "token_ok t = Response (json_response 200 (token_response_json t))"

subsection \<open>ID token claims\<close>

definition copy_claim :: "claims \<Rightarrow> string \<Rightarrow> claims \<Rightarrow> claims" where
  "copy_claim from k out = (case gm_get from k of Some v \<Rightarrow> gm_put k v out | None \<Rightarrow> out)"

fun build_claims_from :: "claims \<Rightarrow> claims \<Rightarrow> string list \<Rightarrow> claims" where
  "build_claims_from from out [] = out"
| "build_claims_from from out (s # ss) =
    build_claims_from from
      (if s = ''profile'' then copy_claim from ''preferred_username'' (copy_claim from ''name'' out)
       else if s = ''email'' then copy_claim from ''email_verified'' (copy_claim from ''email'' out)
       else out) ss"

definition buildIDClaims :: "user_info \<Rightarrow> string list \<Rightarrow> claims" where
  "buildIDClaims info scopes = build_claims_from (ui_Claims info) [] scopes"

subsection \<open>The handler\<close>

record auth_code_config =
  acc_AccessTokenLifetime :: duration
  acc_IDTokenLifetime :: duration
  acc_RefreshTokenLifetime :: duration
  acc_RefreshTokenAbsoluteLifetime :: duration

record 'w auth_code_grant =
  acg_AuthCodes :: "'w auth_code_store"
  acg_RefreshTokens :: "'w refresh_token_store"
  acg_Users :: "'w user_store"
  acg_Issuer :: "'w issuer"
  acg_Cfg :: auth_code_config

definition authcode_check ::
  "crypto \<Rightarrow> 'w auth_code_grant \<Rightarrow> runtime \<Rightarrow> client option \<Rightarrow> url_values \<Rightarrow> 'w
    \<Rightarrow> outcome + (client \<times> authorization_code)" where
  "authcode_check cr g rt client form w =
    (let clientID = values_get form ''client_id'';
         codeRaw = values_get form ''code'';
         redirectURI = values_get form ''redirect_uri'';
         codeVerifier = values_get form ''code_verifier''
     in
     if clientID = [] \<or> codeRaw = [] \<or> redirectURI = [] then
       Inl (fail_with 400 ''invalid_request'' ''client_id, code, redirect_uri are required'')
     else case client of
       None \<Rightarrow> Inl (fail_with 401 ''invalid_client'' ''client authentication required'')
     | Some cl \<Rightarrow>
         if c_ClientID cl \<noteq> clientID then
           Inl (fail_with 401 ''invalid_client'' ''client_id mismatch with authenticated client'')
         else case acs_FindByHash (acg_AuthCodes g) (HashToken cr codeRaw) w of
           Inl e \<Rightarrow> Inl (fail_with 400 ''invalid_grant'' ''authorization code is invalid'')
         | Inr code \<Rightarrow>
             if time_after (now rt 0) (ac_ExpiresAt code) then
               Inl (fail_with 400 ''invalid_grant'' ''authorization code expired'')
             else if ac_ClientID code \<noteq> c_ClientID cl then
               Inl (fail_with 400 ''invalid_grant'' ''code was issued to a different client'')
             else if ac_RedirectURI code \<noteq> redirectURI then
               Inl (fail_with 400 ''invalid_grant'' ''redirect_uri mismatch'')
             else case ac_CodeChallenge code of
               None \<Rightarrow> Inr (cl, code)
             | Some challenge \<Rightarrow>
                 (case ac_CodeChallengeMethod code of
                    None \<Rightarrow> Inl Panicked
                  | Some method \<Rightarrow>
                      if VerifyS256 cr method codeVerifier challenge \<noteq> None then
                        Inl (fail_with 400 ''invalid_grant'' ''PKCE verification failed'')
                      else Inr (cl, code)))"

text \<open>The refresh token the grant stores with the code's session.\<close>

definition initial_refresh_token ::
  "runtime \<Rightarrow> client \<Rightarrow> authorization_code \<Rightarrow> string \<Rightarrow> string \<Rightarrow> refresh_token" where
  "initial_refresh_token rt cl code userID hash =
    (let nw = now rt 7 in
     \<lparr>rt_ID = new_uuid rt 8, rt_TokenHash = hash, rt_ClientID = c_ClientID cl, rt_UserID = userID,
      rt_SessionID = ac_SessionID code, rt_ParentTokenID = None, rt_Scope = ac_Scope code,
      rt_ExpiresAt = (if c_RefreshTokenExpiration cl = TokenExpirationAbsolute
                      then time_add nw (RefreshTokenAbsoluteLifetime cl)
                      else time_add nw (RefreshTokenLifetime cl)),
      rt_AbsoluteExpiresAt = time_add nw (RefreshTokenAbsoluteLifetime cl),
      rt_ConsumedAt = None, rt_RevokedAt = None, rt_CreatedAt = nw\<rparr>)"

definition authcode_refresh ::
  "crypto \<Rightarrow> 'w auth_code_grant \<Rightarrow> runtime \<Rightarrow> client \<Rightarrow> authorization_code \<Rightarrow> user_info
    \<Rightarrow> token_response \<Rightarrow> 'w \<Rightarrow> outcome \<times> 'w" where
  "authcode_refresh cr g rt cl code info resp w =
    (if c_AllowRefreshTokens cl \<and> ''offline_access'' \<in> set (str_fields (ac_Scope code)) then
       case NewOpaqueToken cr rt 6 of
         None \<Rightarrow> (Response (server_error ''refresh token mint failed''), w)
       | Some (raw, hash) \<Rightarrow>
           (case rts_Store (acg_RefreshTokens g)
                   (Some (initial_refresh_token rt cl code (ui_UserID info) hash)) w of
              (Some e, w') \<Rightarrow> (Response (server_error ''refresh token store failed''), w')
            | (None, w') \<Rightarrow> (token_ok (resp\<lparr>tr_RefreshToken := raw\<rparr>), w'))
     else (token_ok resp, w))"

definition authcode_access_claims :: "client \<Rightarrow> authorization_code \<Rightarrow> user_info \<Rightarrow> access_token_claims" where
  "authcode_access_claims cl code info =
    \<lparr>at_Subject = ui_UserID info, at_ClientID = c_ClientID cl, at_Scope = ac_Scope code,
     at_ExpiresIn = AccessTokenLifetime cl, at_IssuedAt = zero_time,
     at_AuthTime = Some (ac_CreatedAt code), at_JwtID = []\<rparr>"

definition authcode_id_claims ::
  "crypto \<Rightarrow> auth_code_config \<Rightarrow> client \<Rightarrow> authorization_code \<Rightarrow> user_info \<Rightarrow> string \<Rightarrow> id_token_claims" where
  "authcode_id_claims cr cfg cl code info access =
    \<lparr>it_Subject = ui_UserID info, it_ClientID = c_ClientID cl, it_Scope = ac_Scope code,
     it_Nonce = (case ac_Nonce code of Some n \<Rightarrow> n | None \<Rightarrow> []),
     it_AuthTime = ac_CreatedAt code,
     it_Claims = buildIDClaims info (str_fields (ac_Scope code)),
     it_AtHash = HashAccessToken cr access, it_IssuedAt = zero_time,
     it_ExpiresIn = acc_IDTokenLifetime cfg\<rparr>"

definition authcode_issue ::
  "crypto \<Rightarrow> 'w auth_code_grant \<Rightarrow> runtime \<Rightarrow> client \<Rightarrow> authorization_code \<Rightarrow> 'w \<Rightarrow> outcome \<times> 'w" where
  "authcode_issue cr g rt cl code w =
    (case us_FindByID (acg_Users g) (ac_UserID code) w of
       Inl e \<Rightarrow> (Response (server_error ''user lookup failed''), w)
     | Inr info \<Rightarrow>
         (case IssueAccessToken cr (acg_Issuer g) rt 2 (authcode_access_claims cl code info) w of
            (Inl e, w1) \<Rightarrow> (Response (server_error ''access token issuance failed''), w1)
          | (Inr access, w1) \<Rightarrow>
              (case IssueIDToken cr (acg_Issuer g) rt 4
                      (authcode_id_claims cr (acg_Cfg g) cl code info access) w1 of
                 (Inl e, w2) \<Rightarrow> (Response (server_error ''id token issuance failed''), w2)
               | (Inr idt, w2) \<Rightarrow>
                   authcode_refresh cr g rt cl code info
                     \<lparr>tr_AccessToken = access, tr_TokenType = ''Bearer'',
                      tr_ExpiresIn = duration_seconds (AccessTokenLifetime cl),
                      tr_RefreshToken = [], tr_IDToken = idt, tr_Scope = ac_Scope code\<rparr> w2)))"

definition authcode_handle ::
  "crypto \<Rightarrow> 'w auth_code_grant \<Rightarrow> runtime \<Rightarrow> client option \<Rightarrow> url_values \<Rightarrow> 'w \<Rightarrow> outcome \<times> 'w" where
  "authcode_handle cr g rt client form w =
    (case authcode_check cr g rt client form w of
       Inl out \<Rightarrow> (out, w)
     | Inr (cl, code) \<Rightarrow>
         (case acs_MarkConsumed (acg_AuthCodes g) (ac_ID code) (now rt 1) w of
            (Inl e, w1) \<Rightarrow> (Response (server_error ''could not record code consumption''), w1)
          | (Inr won, w1) \<Rightarrow>
              if \<not> won then (fail_with 400 ''invalid_grant'' ''authorization code already used'', w1)
              else authcode_issue cr g rt cl code w1))"

lemmas authcode_phases = authcode_check_def authcode_issue_def authcode_refresh_def

subsection \<open>What each phase does\<close>

lemma token_response_fields [simp]:
  "json_field (token_response_json t) ''access_token'' = Some (JStr (tr_AccessToken t))"
  "json_field (token_response_json t) ''scope'' =
    (if tr_Scope t = [] then None else Some (JStr (tr_Scope t)))"
  "json_field (token_response_json t) ''refresh_token'' =
    (if tr_RefreshToken t = [] then None else Some (JStr (tr_RefreshToken t)))"
  "json_field (token_response_json t) ''id_token'' =
    (if tr_IDToken t = [] then None else Some (JStr (tr_IDToken t)))"
  "json_field (token_response_json t) ''expires_in'' = Some (JNum (tr_ExpiresIn t))"
  "json_field (token_response_json t) ''error'' = None"
  by (auto simp: token_response_json_def json_field_def omit_empty_def)

lemma token_ok_simps [simp]:
  "status_of (token_ok t) = Some 200"
  "body_field (token_ok t) k = json_field (token_response_json t) k"
  "error_code (token_ok t) = None"
  by (simp_all add: token_ok_def error_code_def)

text \<open>The checks pass exactly when each of the handler's guards does.\<close>

definition pkce_ok :: "crypto \<Rightarrow> authorization_code \<Rightarrow> string \<Rightarrow> bool" where
  "pkce_ok cr code verifier \<longleftrightarrow>
    (case ac_CodeChallenge code of
       None \<Rightarrow> True
     | Some ch \<Rightarrow> (case ac_CodeChallengeMethod code of
                     None \<Rightarrow> False
                   | Some m \<Rightarrow> VerifyS256 cr m verifier ch = None))"

lemma authcode_check_Inr:
  "authcode_check cr g rt client form w = Inr (cl, code) \<longleftrightarrow>
    client = Some cl \<and> c_ClientID cl = values_get form ''client_id'' \<and> c_ClientID cl \<noteq> [] \<and>
    values_get form ''code'' \<noteq> [] \<and> values_get form ''redirect_uri'' \<noteq> [] \<and>
    acs_FindByHash (acg_AuthCodes g) (HashToken cr (values_get form ''code'')) w = Inr code \<and>
    now rt 0 \<le> ac_ExpiresAt code \<and> ac_ClientID code = c_ClientID cl \<and>
    ac_RedirectURI code = values_get form ''redirect_uri'' \<and>
    pkce_ok cr code (values_get form ''code_verifier'')"
  by (auto simp: authcode_check_def Let_def pkce_ok_def time_defs
      split: option.splits sum.splits if_splits)

lemma authcode_check_Inl:
  "authcode_check cr g rt client form w = Inl out \<Longrightarrow>
    out = Panicked \<or> (\<exists>s c d. out = fail_with s c d \<and>
      (s, c) \<in> {(400, ''invalid_request''), (401, ''invalid_client''), (400, ''invalid_grant'')})"
  by (auto simp: authcode_check_def Let_def split: option.splits sum.splits if_splits)

lemma authcode_check_panic:
  "authcode_check cr g rt client form w = Inl Panicked \<Longrightarrow>
    \<exists>code. acs_FindByHash (acg_AuthCodes g) (HashToken cr (values_get form ''code'')) w = Inr code \<and>
      ac_CodeChallenge code \<noteq> None \<and> ac_CodeChallengeMethod code = None"
  by (auto simp: authcode_check_def Let_def split: option.splits sum.splits if_splits)

lemma authcode_refresh_200:
  assumes "authcode_refresh cr g rt cl code info resp w = (out, w')" "status_of out = Some 200"
  shows "\<exists>r. out = token_ok r \<and> tr_AccessToken r = tr_AccessToken resp \<and> tr_IDToken r = tr_IDToken resp \<and>
    tr_Scope r = tr_Scope resp \<and> tr_ExpiresIn r = tr_ExpiresIn resp"
  using assms by (auto simp: authcode_refresh_def split: if_splits option.splits prod.splits)

lemma authcode_refresh_panic: "fst (authcode_refresh cr g rt cl code info resp w) \<noteq> Panicked"
  by (auto simp: authcode_refresh_def token_ok_def split: option.splits prod.splits)

lemma authcode_issue_panic: "fst (authcode_issue cr g rt cl code w) \<noteq> Panicked"
  by (simp add: authcode_issue_def authcode_refresh_panic split: sum.split prod.split)

text \<open>A grant that answers 200 has gone through the checks and won the compare-and-set.\<close>

lemma authcode_handle_200:
  assumes "authcode_handle cr g rt client form w = (out, w')" "status_of out = Some 200"
  obtains cl code w1 where
    "authcode_check cr g rt client form w = Inr (cl, code)"
    "acs_MarkConsumed (acg_AuthCodes g) (ac_ID code) (now rt 1) w = (Inr True, w1)"
    "authcode_issue cr g rt cl code w1 = (out, w')"
proof (cases "authcode_check cr g rt client form w")
  case (Inl o')
  with assms show ?thesis
    using authcode_check_Inl [OF Inl] by (auto simp: authcode_handle_def)
next
  case (Inr p)
  then obtain cl code where p: "authcode_check cr g rt client form w = Inr (cl, code)"
    by (cases p) auto
  with assms show ?thesis
    by (auto simp: authcode_handle_def split: prod.splits sum.splits if_splits intro: that)
qed

text \<open>What is issued: the scope of the code, for the user of the code.\<close>

lemma authcode_issue_200:
  assumes "authcode_issue cr g rt cl code w = (out, w')" "status_of out = Some 200"
  obtains info access idt r w1 w2 where
    "us_FindByID (acg_Users g) (ac_UserID code) w = Inr info"
    "IssueAccessToken cr (acg_Issuer g) rt 2 (authcode_access_claims cl code info) w = (Inr access, w1)"
    "IssueIDToken cr (acg_Issuer g) rt 4 (authcode_id_claims cr (acg_Cfg g) cl code info access) w1
       = (Inr idt, w2)"
    "out = token_ok r" "tr_AccessToken r = access" "tr_IDToken r = idt" "tr_Scope r = ac_Scope code"
    "tr_ExpiresIn r = duration_seconds (AccessTokenLifetime cl)"
proof -
  obtain info access idt w1 w2 where steps:
    "us_FindByID (acg_Users g) (ac_UserID code) w = Inr info"
    "IssueAccessToken cr (acg_Issuer g) rt 2 (authcode_access_claims cl code info) w = (Inr access, w1)"
    "IssueIDToken cr (acg_Issuer g) rt 4 (authcode_id_claims cr (acg_Cfg g) cl code info access) w1
       = (Inr idt, w2)"
    "authcode_refresh cr g rt cl code info
       \<lparr>tr_AccessToken = access, tr_TokenType = ''Bearer'',
        tr_ExpiresIn = duration_seconds (AccessTokenLifetime cl),
        tr_RefreshToken = [], tr_IDToken = idt, tr_Scope = ac_Scope code\<rparr> w2 = (out, w')"
    using assms by (auto simp: authcode_issue_def split: sum.splits prod.splits)
  from authcode_refresh_200 [OF steps(4) assms(2)] steps(1-3) show ?thesis
    by (auto intro: that)
qed

end
