(* ===== verification/Grant_Refresh.thy ===== *)
theory Grant_Refresh
  imports Grant_AuthCode
begin

section \<open>The refresh token grant (internal/oidc/grants/refresh.go)\<close>

text \<open>
  \<open>Handle\<close> in its phases: \<open>refresh_check\<close> only reads; then the compare-and-set; a lost one goes
  to \<open>handleReuse\<close>, a won one to \<open>refresh_issue\<close>, which down-scopes, finds the time of the
  original authentication at the root of the rotation chain and rotates the token.
  Runtime places: 0 (the clock reading the whole request uses), 1 (audit id), 2 to 5 (access and
  ID token), 6 and 8 (new refresh token).
\<close>

definition RefreshTokenReuseAudit :: string where
  "RefreshTokenReuseAudit = ''RefreshTokenReuseDetected''"

record refresh_config =
  rc_AccessTokenLifetime :: duration
  rc_IDTokenLifetime :: duration
  rc_RefreshTokenLifetime :: duration
  rc_RefreshTokenAbsoluteLifetime :: duration
  rc_DetectReuse :: bool

record 'w refresh_grant =
  rg_RefreshTokens :: "'w refresh_token_store"
  rg_Users :: "'w user_store"
  rg_AuditLogs :: "'w audit_log_store option"
  rg_Issuer :: "'w issuer"
  rg_Cfg :: refresh_config

definition subset_of :: "string list \<Rightarrow> string list \<Rightarrow> bool" where
  "subset_of a b \<longleftrightarrow> list_all (\<lambda>x. x \<in> set b) a"

definition maxDepth :: nat where
  "maxDepth = 1000"

text \<open>The loop of \<open>chainRootCreatedAt\<close>: \<open>n\<close> iterations are left.\<close>

fun chain_walk :: "'w refresh_token_store \<Rightarrow> 'w \<Rightarrow> nat \<Rightarrow> refresh_token \<Rightarrow> time" where
  "chain_walk st w 0 cur = rt_CreatedAt cur"
| "chain_walk st w (Suc n) cur =
    (case rt_ParentTokenID cur of
       None \<Rightarrow> rt_CreatedAt cur
     | Some p \<Rightarrow>
         (case rts_FindByID st p w of
            Inl e \<Rightarrow> rt_CreatedAt cur
          | Inr parent \<Rightarrow> chain_walk st w n parent))"

definition chainRootCreatedAt :: "'w refresh_token_store \<Rightarrow> refresh_token \<Rightarrow> 'w \<Rightarrow> time" where
  "chainRootCreatedAt st start w = chain_walk st w maxDepth start"

definition refresh_check ::
  "crypto \<Rightarrow> 'w refresh_grant \<Rightarrow> runtime \<Rightarrow> client option \<Rightarrow> url_values \<Rightarrow> 'w
    \<Rightarrow> outcome + (client \<times> refresh_token)" where
  "refresh_check cr g rt client form w =
    (let raw = values_get form ''refresh_token'';
         clientID = values_get form ''client_id''
     in
     if raw = [] \<or> clientID = [] then
       Inl (fail_with 400 ''invalid_request'' ''refresh_token and client_id are required'')
     else case client of
       None \<Rightarrow> Inl (fail_with 401 ''invalid_client'' ''client authentication required'')
     | Some cl \<Rightarrow>
         if c_ClientID cl \<noteq> clientID then
           Inl (fail_with 400 ''invalid_grant'' ''client_id mismatch with authenticated client'')
         else case rts_FindByHash (rg_RefreshTokens g) (HashToken cr raw) w of
           Inl e \<Rightarrow> Inl (fail_with 400 ''invalid_grant'' ''refresh token is invalid'')
         | Inr existing \<Rightarrow>
             if rt_ClientID existing \<noteq> c_ClientID cl then
               Inl (fail_with 400 ''invalid_grant'' ''refresh token was issued to a different client'')
             else if rt_RevokedAt existing \<noteq> None then
               Inl (fail_with 400 ''invalid_grant'' ''refresh token has been revoked'')
             else if time_after (now rt 0) (rt_AbsoluteExpiresAt existing) then
               Inl (fail_with 400 ''invalid_grant'' ''refresh token has expired'')
             else if time_before (rt_ExpiresAt existing) (now rt 0) then
               Inl (fail_with 400 ''invalid_grant'' ''refresh token sliding expiry has elapsed'')
             else Inr (cl, existing))"

definition reuse_audit :: "crypto \<Rightarrow> runtime \<Rightarrow> refresh_token \<Rightarrow> audit_log" where
  "reuse_audit cr rt old =
    \<lparr>al_ID = new_uuid rt 1, al_Action = RefreshTokenReuseAudit, al_ActorUserID = rt_UserID old,
     al_TargetType = ''RefreshToken'', al_TargetID = uuid_string cr (rt_ID old),
     al_Timestamp = now rt 0, al_IPAddress = [], al_UserAgent = [],
     al_Metadata = (case rt_SessionID old of
         None \<Rightarrow> []
       | Some sid \<Rightarrow> ''{\"session_id\":\"'' @ uuid_string cr sid @ ''\"}'')\<rparr>"

definition handleReuse ::
  "crypto \<Rightarrow> 'w refresh_grant \<Rightarrow> runtime \<Rightarrow> refresh_token \<Rightarrow> 'w \<Rightarrow> outcome \<times> 'w" where
  "handleReuse cr g rt old w =
    (let w1 = (case rt_SessionID old of
                 Some sid \<Rightarrow> snd (rts_RevokeBySessionID (rg_RefreshTokens g) sid (now rt 0) w)
               | None \<Rightarrow> snd (rts_Revoke (rg_RefreshTokens g) (rt_ID old) (now rt 0) w));
         w2 = (case rg_AuditLogs g of
                 None \<Rightarrow> w1
               | Some al \<Rightarrow> snd (als_Store al (Some (reuse_audit cr rt old)) w1))
     in (fail_with 400 ''invalid_grant'' ''refresh token reuse detected'', w2))"

text \<open>
  The scopes a request ends up with: those granted before, or the requested subset of them.
  The second component is the list the later steps read, the first its text.
\<close>

definition narrow_scope :: "string \<Rightarrow> string \<Rightarrow> (string \<times> string list) option" where
  "narrow_scope scopeParam grantedScope =
    (let granted = str_fields grantedScope in
     if scopeParam = [] then Some (grantedScope, granted)
     else let requested = str_fields scopeParam in
       if \<not> subset_of requested granted then None
       else Some (join requested '' '', requested))"

definition rotated_token ::
  "runtime \<Rightarrow> client \<Rightarrow> refresh_token \<Rightarrow> string \<Rightarrow> string \<Rightarrow> refresh_token" where
  "rotated_token rt cl existing scope hash =
    (let nw = now rt 0;
         slide = time_add nw (RefreshTokenLifetime cl)
     in
     \<lparr>rt_ID = new_uuid rt 8, rt_TokenHash = hash, rt_ClientID = c_ClientID cl,
      rt_UserID = rt_UserID existing, rt_SessionID = rt_SessionID existing,
      rt_ParentTokenID = Some (rt_ID existing), rt_Scope = scope,
      rt_ExpiresAt =
        (if c_RefreshTokenExpiration cl = TokenExpirationAbsolute
         then time_add nw (RefreshTokenAbsoluteLifetime cl)
         else if time_after slide (rt_AbsoluteExpiresAt existing) then rt_AbsoluteExpiresAt existing
         else slide),
      rt_AbsoluteExpiresAt = rt_AbsoluteExpiresAt existing,
      rt_ConsumedAt = None, rt_RevokedAt = None, rt_CreatedAt = nw\<rparr>)"

definition refresh_rotate ::
  "crypto \<Rightarrow> 'w refresh_grant \<Rightarrow> runtime \<Rightarrow> client \<Rightarrow> refresh_token \<Rightarrow> string \<Rightarrow> string list
    \<Rightarrow> token_response \<Rightarrow> 'w \<Rightarrow> outcome \<times> 'w" where
  "refresh_rotate cr g rt cl existing scope granted resp w =
    (if c_AllowRefreshTokens cl \<and> ''offline_access'' \<in> set granted then
       case NewOpaqueToken cr rt 6 of
         None \<Rightarrow> (Response (server_error ''refresh token mint failed''), w)
       | Some (raw, hash) \<Rightarrow>
           (case rts_Store (rg_RefreshTokens g) (Some (rotated_token rt cl existing scope hash)) w of
              (Some e, w') \<Rightarrow> (Response (server_error ''refresh token store failed''), w')
            | (None, w') \<Rightarrow> (token_ok (resp\<lparr>tr_RefreshToken := raw\<rparr>), w'))
     else (token_ok resp, w))"

definition refresh_access_claims :: "client \<Rightarrow> refresh_token \<Rightarrow> string \<Rightarrow> time \<Rightarrow> access_token_claims" where
  "refresh_access_claims cl existing scope authTime =
    \<lparr>at_Subject = rt_UserID existing, at_ClientID = c_ClientID cl, at_Scope = scope,
     at_ExpiresIn = AccessTokenLifetime cl, at_IssuedAt = zero_time,
     at_AuthTime = Some authTime, at_JwtID = []\<rparr>"

definition refresh_id_claims ::
  "crypto \<Rightarrow> refresh_config \<Rightarrow> client \<Rightarrow> refresh_token \<Rightarrow> user_info \<Rightarrow> string \<Rightarrow> string list
    \<Rightarrow> time \<Rightarrow> string \<Rightarrow> id_token_claims" where
  "refresh_id_claims cr cfg cl existing info scope granted authTime access =
    \<lparr>it_Subject = rt_UserID existing, it_ClientID = c_ClientID cl, it_Scope = scope, it_Nonce = [],
     it_AuthTime = authTime, it_Claims = buildIDClaims info granted,
     it_AtHash = HashAccessToken cr access, it_IssuedAt = zero_time,
     it_ExpiresIn = rc_IDTokenLifetime cfg\<rparr>"

text \<open>The ID token, issued only for the \<open>openid\<close> scope; the empty string stands for none.\<close>

definition refresh_id_token ::
  "crypto \<Rightarrow> 'w refresh_grant \<Rightarrow> runtime \<Rightarrow> client \<Rightarrow> refresh_token \<Rightarrow> user_info \<Rightarrow> string
    \<Rightarrow> string list \<Rightarrow> time \<Rightarrow> string \<Rightarrow> 'w \<Rightarrow> (issue_error + string) \<times> 'w" where
  "refresh_id_token cr g rt cl existing info scope granted authTime access w =
    (if ''openid'' \<in> set granted then
       IssueIDToken cr (rg_Issuer g) rt 4
         (refresh_id_claims cr (rg_Cfg g) cl existing info scope granted authTime access) w
     else (Inr [], w))"

definition refresh_issue ::
  "crypto \<Rightarrow> 'w refresh_grant \<Rightarrow> runtime \<Rightarrow> client \<Rightarrow> url_values \<Rightarrow> refresh_token \<Rightarrow> 'w
    \<Rightarrow> outcome \<times> 'w" where
  "refresh_issue cr g rt cl form existing w =
    (case us_FindByID (rg_Users g) (rt_UserID existing) w of
       Inl e \<Rightarrow>
         (if e = NotFound then fail_with 400 ''invalid_grant'' ''user no longer exists''
          else Response (server_error ''user lookup failed''), w)
     | Inr info \<Rightarrow>
         (case narrow_scope (values_get form ''scope'') (rt_Scope existing) of
            None \<Rightarrow>
              (fail_with 400 ''invalid_scope'' ''requested scope is broader than the granted scope'', w)
          | Some (scope, granted) \<Rightarrow>
              (let authTime = chainRootCreatedAt (rg_RefreshTokens g) existing w in
               case IssueAccessToken cr (rg_Issuer g) rt 2
                      (refresh_access_claims cl existing scope authTime) w of
                 (Inl e, w1) \<Rightarrow> (Response (server_error ''access token issuance failed''), w1)
               | (Inr access, w1) \<Rightarrow>
                   (case refresh_id_token cr g rt cl existing info scope granted authTime access w1 of
                      (Inl e, w2) \<Rightarrow> (Response (server_error ''id token issuance failed''), w2)
                    | (Inr idt, w2) \<Rightarrow>
                        refresh_rotate cr g rt cl existing scope granted
                          \<lparr>tr_AccessToken = access, tr_TokenType = ''Bearer'',
                           tr_ExpiresIn = duration_seconds (AccessTokenLifetime cl),
                           tr_RefreshToken = [], tr_IDToken = idt, tr_Scope = scope\<rparr> w2))))"

definition refresh_handle ::
  "crypto \<Rightarrow> 'w refresh_grant \<Rightarrow> runtime \<Rightarrow> client option \<Rightarrow> url_values \<Rightarrow> 'w \<Rightarrow> outcome \<times> 'w" where
  "refresh_handle cr g rt client form w =
    (case refresh_check cr g rt client form w of
       Inl out \<Rightarrow> (out, w)
     | Inr (cl, existing) \<Rightarrow>
         (case rts_MarkConsumed (rg_RefreshTokens g) (rt_ID existing) (now rt 0) w of
            (Inl e, w1) \<Rightarrow>
              (Response (server_error ''could not record refresh token consumption''), w1)
          | (Inr won, w1) \<Rightarrow>
              if \<not> won then
                if rc_DetectReuse (rg_Cfg g) then handleReuse cr g rt existing w1
                else (fail_with 400 ''invalid_grant'' ''refresh token already used'', w1)
              else refresh_issue cr g rt cl form existing w1))"

subsection \<open>The chain of rotations\<close>

text \<open>
  \<open>chain st w t ts\<close>: following parents from \<open>t\<close> visits \<open>ts\<close> and stops there, because the last
  token has no parent or its parent is not in the store.
\<close>

inductive chain :: "'w refresh_token_store \<Rightarrow> 'w \<Rightarrow> refresh_token \<Rightarrow> refresh_token list \<Rightarrow> bool"
  for st w where
  chain_root: "rt_ParentTokenID t = None \<Longrightarrow> chain st w t []"
| chain_lost: "rt_ParentTokenID t = Some p \<Longrightarrow> rts_FindByID st p w = Inl e \<Longrightarrow> chain st w t []"
| chain_step: "rt_ParentTokenID t = Some p \<Longrightarrow> rts_FindByID st p w = Inr u \<Longrightarrow> chain st w u us
    \<Longrightarrow> chain st w t (u # us)"

inductive_cases chain_NilE: "chain st w t []"
inductive_cases chain_ConsE: "chain st w t (u # us)"

lemma chain_walk_last:
  "chain st w t ts \<Longrightarrow> length ts \<le> n \<Longrightarrow> chain_walk st w n t = rt_CreatedAt (last (t # ts))"
proof (induction arbitrary: n rule: chain.induct)
  case (chain_root t)
  then show ?case by (cases n) simp_all
next
  case (chain_lost t p e)
  then show ?case by (cases n) simp_all
next
  case (chain_step t p u us)
  then obtain m where "n = Suc m" "length us \<le> m" by (cases n) auto
  with chain_step show ?case by (auto split: if_splits)
qed

lemma chain_det: "chain st w t ts \<Longrightarrow> chain st w t us \<Longrightarrow> ts = us"
proof (induction arbitrary: us rule: chain.induct)
  case (chain_step t p u us')
  from chain_step.prems chain_step.hyps show ?case
    by (cases rule: chain.cases) (auto intro: chain_step.IH)
qed (auto elim: chain.cases)

subsection \<open>What each phase does\<close>

lemma subset_of_iff: "subset_of a b \<longleftrightarrow> set a \<subseteq> set b"
  by (auto simp: subset_of_def list_all_iff)

lemma narrow_scope_Some:
  assumes "narrow_scope p s = Some (sc, granted)"
  shows "str_fields sc = granted" "set granted \<subseteq> set (str_fields s)"
  using assms by (auto simp: narrow_scope_def Let_def subset_of_iff split: if_splits)

lemma refresh_check_Inr:
  "refresh_check cr g rt client form w = Inr (cl, existing) \<longleftrightarrow>
    client = Some cl \<and> c_ClientID cl = values_get form ''client_id'' \<and> c_ClientID cl \<noteq> [] \<and>
    values_get form ''refresh_token'' \<noteq> [] \<and>
    rts_FindByHash (rg_RefreshTokens g) (HashToken cr (values_get form ''refresh_token'')) w = Inr existing \<and>
    rt_ClientID existing = c_ClientID cl \<and> rt_RevokedAt existing = None \<and>
    now rt 0 \<le> rt_AbsoluteExpiresAt existing \<and> now rt 0 \<le> rt_ExpiresAt existing"
  by (auto simp: refresh_check_def Let_def time_defs split: option.splits sum.splits if_splits)

lemma refresh_check_Inl:
  "refresh_check cr g rt client form w = Inl out \<Longrightarrow>
    \<exists>s c d. out = fail_with s c d \<and>
      (s, c) \<in> {(400, ''invalid_request''), (401, ''invalid_client''), (400, ''invalid_grant'')}"
  by (auto simp: refresh_check_def Let_def split: option.splits sum.splits if_splits)

lemma handleReuse_out: "fst (handleReuse cr g rt old w) =
    fail_with 400 ''invalid_grant'' ''refresh token reuse detected''"
  by (simp add: handleReuse_def Let_def)

lemma refresh_handle_200:
  assumes "refresh_handle cr g rt client form w = (out, w')" "status_of out = Some 200"
  obtains cl existing w1 where
    "refresh_check cr g rt client form w = Inr (cl, existing)"
    "rts_MarkConsumed (rg_RefreshTokens g) (rt_ID existing) (now rt 0) w = (Inr True, w1)"
    "refresh_issue cr g rt cl form existing w1 = (out, w')"
proof (cases "refresh_check cr g rt client form w")
  case (Inl o')
  with assms show ?thesis
    using refresh_check_Inl [OF Inl] by (auto simp: refresh_handle_def)
next
  case (Inr p)
  then obtain cl existing where p: "refresh_check cr g rt client form w = Inr (cl, existing)"
    by (cases p) auto
  have "handleReuse cr g rt existing w1 \<noteq> (out, w')" for w1
    using assms(2) handleReuse_out [of cr g rt existing w1] by auto
  with assms p show ?thesis
    by (auto simp: refresh_handle_def split: prod.splits sum.splits if_splits intro: that)
qed

lemma refresh_issue_200:
  assumes "refresh_issue cr g rt cl form existing w = (out, w')" "status_of out = Some 200"
  obtains info scope granted access idt w1 w2 where
    "us_FindByID (rg_Users g) (rt_UserID existing) w = Inr info"
    "narrow_scope (values_get form ''scope'') (rt_Scope existing) = Some (scope, granted)"
    "IssueAccessToken cr (rg_Issuer g) rt 2
       (refresh_access_claims cl existing scope (chainRootCreatedAt (rg_RefreshTokens g) existing w)) w
       = (Inr access, w1)"
    "refresh_id_token cr g rt cl existing info scope granted
       (chainRootCreatedAt (rg_RefreshTokens g) existing w) access w1 = (Inr idt, w2)"
    "refresh_rotate cr g rt cl existing scope granted
       \<lparr>tr_AccessToken = access, tr_TokenType = ''Bearer'',
        tr_ExpiresIn = duration_seconds (AccessTokenLifetime cl),
        tr_RefreshToken = [], tr_IDToken = idt, tr_Scope = scope\<rparr> w2 = (out, w')"
  using assms
  by (auto simp: refresh_issue_def Let_def split: sum.splits option.splits prod.splits if_splits
      intro: that)

lemma refresh_rotate_200:
  assumes "refresh_rotate cr g rt cl existing scope granted resp w = (out, w')" "status_of out = Some 200"
  shows "(\<not> (c_AllowRefreshTokens cl \<and> ''offline_access'' \<in> set granted) \<and> w' = w \<and> out = token_ok resp) \<or>
    (c_AllowRefreshTokens cl \<and> ''offline_access'' \<in> set granted \<and>
     (\<exists>raw. NewOpaqueToken cr rt 6 = Some (raw, HashToken cr raw) \<and>
        rts_Store (rg_RefreshTokens g)
          (Some (rotated_token rt cl existing scope (HashToken cr raw))) w = (None, w') \<and>
        out = token_ok (resp\<lparr>tr_RefreshToken := raw\<rparr>)))"
  using assms
  by (auto simp: refresh_rotate_def split: if_splits option.splits prod.splits dest: NewOpaqueToken_hash)

lemma rotated_token_bounds:
  "rt_AbsoluteExpiresAt (rotated_token rt cl t sc h) = rt_AbsoluteExpiresAt t"
  "rt_ParentTokenID (rotated_token rt cl t sc h) = Some (rt_ID t)"
  "rt_SessionID (rotated_token rt cl t sc h) = rt_SessionID t"
  "rt_UserID (rotated_token rt cl t sc h) = rt_UserID t"
  "rt_ClientID (rotated_token rt cl t sc h) = c_ClientID cl"
  "rt_Scope (rotated_token rt cl t sc h) = sc"
  "rt_ConsumedAt (rotated_token rt cl t sc h) = None"
  "rt_RevokedAt (rotated_token rt cl t sc h) = None"
  "rt_TokenHash (rotated_token rt cl t sc h) = h"
  "rt_ID (rotated_token rt cl t sc h) = new_uuid rt 8"
  "rt_CreatedAt (rotated_token rt cl t sc h) = now rt 0"
  "c_RefreshTokenExpiration cl \<noteq> TokenExpirationAbsolute \<Longrightarrow>
    rt_ExpiresAt (rotated_token rt cl t sc h) \<le> rt_AbsoluteExpiresAt t"
  by (simp_all add: rotated_token_def Let_def time_after_def)

end
