(* ===== verification/Grant_ClientCreds.thy ===== *)
theory Grant_ClientCreds
  imports Grant_AuthCode
begin

section \<open>The client credentials grant (internal/oidc/grants/clientcreds.go)\<close>

text \<open>Runtime places: 0 and 1 (access token).\<close>

record 'w client_credentials_grant =
  ccg_Issuer :: "'w issuer"
  ccg_AccessTokenLifetime :: duration

text \<open>The loop over the requested scopes: the first one that is not allowed.\<close>

definition first_disallowed :: "string list \<Rightarrow> string list \<Rightarrow> string option" where
  "first_disallowed requested allowed = find (\<lambda>s. s \<notin> set allowed) requested"

definition client_creds_access_claims ::
  "'w client_credentials_grant \<Rightarrow> client \<Rightarrow> string list \<Rightarrow> access_token_claims" where
  "client_creds_access_claims g cl requested =
    \<lparr>at_Subject = c_ClientID cl, at_ClientID = c_ClientID cl, at_Scope = join requested '' '',
     at_ExpiresIn = ccg_AccessTokenLifetime g, at_IssuedAt = zero_time, at_AuthTime = None,
     at_JwtID = []\<rparr>"

text \<open>The message of \<open>fmt.Sprintf\<close> with the verb \<open>%q\<close> is kept to the scope between quotes.\<close>

definition scope_not_allowed :: "string \<Rightarrow> string" where
  "scope_not_allowed s = ''scope '' @ [char_of (34 :: nat)] @ s @ [char_of (34 :: nat)] @
     '' is not allowed for this client''"

definition client_creds_handle ::
  "crypto \<Rightarrow> 'w client_credentials_grant \<Rightarrow> runtime \<Rightarrow> client option \<Rightarrow> url_values \<Rightarrow> 'w
    \<Rightarrow> outcome \<times> 'w" where
  "client_creds_handle cr g rt client form w =
    (case client of
       None \<Rightarrow> (fail_with 401 ''invalid_client'' ''client is required'', w)
     | Some cl \<Rightarrow>
         if c_TokenEndpointAuthMethod cl = AuthMethodNone then
           (fail_with 401 ''unauthorized_client'' ''client_credentials requires a confidential client'', w)
         else if \<not> c_AllowClientCredentials cl then
           (fail_with 401 ''unauthorized_client'' ''client is not allowed to use client_credentials'', w)
         else
           let requested = str_fields (values_get form ''scope'') in
           case first_disallowed requested (c_AllowedScopes cl) of
             Some s \<Rightarrow> (fail_with 400 ''invalid_scope'' (scope_not_allowed s), w)
           | None \<Rightarrow>
               (case IssueAccessToken cr (ccg_Issuer g) rt 0 (client_creds_access_claims g cl requested) w of
                  (Inl e, w') \<Rightarrow> (Response (server_error ''access token issuance failed''), w')
                | (Inr access, w') \<Rightarrow>
                    (token_ok \<lparr>tr_AccessToken = access, tr_TokenType = ''Bearer'',
                       tr_ExpiresIn = duration_seconds (ccg_AccessTokenLifetime g),
                       tr_RefreshToken = [], tr_IDToken = [], tr_Scope = join requested '' ''\<rparr>, w')))"

lemma first_disallowed_None: "first_disallowed r a = None \<longleftrightarrow> set r \<subseteq> set a"
  by (auto simp: first_disallowed_def find_None_iff)

lemma client_creds_200:
  assumes "client_creds_handle cr g rt client form w = (out, w')" "status_of out = Some 200"
  obtains cl requested access where
    "client = Some cl" "c_TokenEndpointAuthMethod cl \<noteq> AuthMethodNone" "c_AllowClientCredentials cl"
    "requested = str_fields (values_get form ''scope'')" "set requested \<subseteq> set (c_AllowedScopes cl)"
    "IssueAccessToken cr (ccg_Issuer g) rt 0 (client_creds_access_claims g cl requested) w = (Inr access, w')"
    "body_field out ''access_token'' = Some (JStr access)"
    "body_field out ''refresh_token'' = None" "body_field out ''id_token'' = None"
    "body_field out ''scope'' = (if requested = [] then None else Some (JStr (join requested '' '')))"
proof -
  have j: "join r '' '' = [] \<longleftrightarrow> r = []" if "\<forall>w \<in> set r. word_str w" for r
    using that by (cases r rule: join.cases [of "(_, _)", simplified]) (auto simp: word_str_def)
  show ?thesis
    using assms j fields_words
    by (auto simp: client_creds_handle_def Let_def first_disallowed_None
        split: option.splits if_splits prod.splits sum.splits intro!: that)
qed

end
