(* ===== verification/Client_Auth.thy ===== *)
theory Client_Auth
  imports Client_Assertion
begin

section \<open>Client authentication (internal/oidc/clientauth.go)\<close>

text \<open>
  \<open>AuthenticateClient\<close>: a public client is whoever names its id; a confidential one proves
  itself with an assertion. The error carries what is logged; the body on the wire is fixed.
\<close>

datatype auth_cause = CauseStore store_error | CauseAssertion assertion_error

record client_auth_error =
  cae_Status :: nat
  cae_Code :: string
  cae_Description :: string
  cae_Cause :: "auth_cause option"

record 'w client_auth_config =
  cac_IssuerURL :: string
  cac_TokenEndpointURL :: string
  cac_AssertionCache :: "'w assertion_cache option"
  cac_AssertionSkew :: duration
  cac_HasClock :: bool

definition auth_error :: "nat \<Rightarrow> string \<Rightarrow> string \<Rightarrow> auth_cause option \<Rightarrow> client_auth_error" where
  "auth_error s c d x = \<lparr>cae_Status = s, cae_Code = c, cae_Description = d, cae_Cause = x\<rparr>"

abbreviation not_authenticated :: "string \<Rightarrow> auth_cause option \<Rightarrow> client_auth_error" where
  "not_authenticated d x \<equiv> auth_error 401 ''invalid_client'' d x"

definition accepted_audiences :: "'w client_auth_config \<Rightarrow> string list" where
  "accepted_audiences cfg =
    (if cac_IssuerURL cfg = [] then [] else [cac_IssuerURL cfg]) @
    (if cac_TokenEndpointURL cfg = [] then [] else [cac_TokenEndpointURL cfg])"

definition assertion_params ::
  "'w client_auth_config \<Rightarrow> client \<Rightarrow> string \<Rightarrow> 'w client_assertion_params" where
  "assertion_params cfg cl raw =
    \<lparr>cap_Assertion = raw, cap_JWKSJSON = c_JWKSJSON cl, cap_ExpectedIssuer = c_ClientID cl,
     cap_ExpectedSubject = c_ClientID cl, cap_Audience = accepted_audiences cfg,
     cap_Skew = cac_AssertionSkew cfg, cap_Cache = cac_AssertionCache cfg,
     cap_HasClock = cac_HasClock cfg\<rparr>"

definition authenticateWithPrivateKeyJWT ::
  "crypto \<Rightarrow> runtime \<Rightarrow> nat \<Rightarrow> 'w client_auth_config \<Rightarrow> client \<Rightarrow> url_values \<Rightarrow> 'w
    \<Rightarrow> (client_auth_error + client) \<times> 'w" where
  "authenticateWithPrivateKeyJWT cr rt site cfg cl form w =
    (let assertionType = values_get form ''client_assertion_type'';
         assertion = values_get form ''client_assertion''
     in
     if assertionType = [] then
       (Inl (not_authenticated ''client_assertion_type is required'' None), w)
     else if assertionType \<noteq> ClientAssertionType then
       (Inl (not_authenticated ''unsupported client_assertion_type'' None), w)
     else if assertion = [] then
       (Inl (not_authenticated ''client_assertion is required'' None), w)
     else if accepted_audiences cfg = [] then
       (Inl (auth_error 500 ''server_error'' ''client auth misconfigured: no audience'' None), w)
     else case VerifyClientAssertion cr rt site (assertion_params cfg cl assertion) w of
       (Inl e, w') \<Rightarrow>
         (Inl (not_authenticated ''client assertion failed verification'' (Some (CauseAssertion e))), w')
     | (Inr tok, w') \<Rightarrow> (Inr cl, w'))"

definition AuthenticateClient ::
  "crypto \<Rightarrow> runtime \<Rightarrow> nat \<Rightarrow> 'w client_auth_config \<Rightarrow> 'w client_store \<Rightarrow> url_values \<Rightarrow> 'w
    \<Rightarrow> (client_auth_error + client) \<times> 'w" where
  "AuthenticateClient cr rt site cfg clients form w =
    (let clientID = values_get form ''client_id'' in
     if clientID = [] then (Inl (not_authenticated ''client_id is required'' None), w)
     else case cs_FindByClientID clients clientID w of
       Inl e \<Rightarrow> (Inl (not_authenticated ''unknown client'' (Some (CauseStore e))), w)
     | Inr cl \<Rightarrow>
         if c_TokenEndpointAuthMethod cl = AuthMethodNone then (Inr cl, w)
         else if c_TokenEndpointAuthMethod cl = AuthMethodPrivateKeyJWT then
           authenticateWithPrivateKeyJWT cr rt site cfg cl form w
         else (Inl (not_authenticated ''unsupported client auth method'' None), w))"

definition writeClientAuthError :: "client_auth_error \<Rightarrow> outcome" where
  "writeClientAuthError e =
    (let s = (if cae_Status e = 0 then 401 else cae_Status e);
         c = (if cae_Code e = [] then ''invalid_client'' else cae_Code e)
     in Response ((error_response s c ''client authentication failed'')
          \<lparr>resp_headers := (''WWW-Authenticate'', ''Basic realm=\"auth-server\"'') # json_headers\<rparr>))"

lemma status_writeClientAuthError [simp]:
  "status_of (writeClientAuthError e) = Some (if cae_Status e = 0 then 401 else cae_Status e)"
  by (simp add: writeClientAuthError_def Let_def error_response_def json_response_def)

lemma auth_error_simps [simp]:
  "cae_Status (auth_error s c d x) = s" "cae_Code (auth_error s c d x) = c"
  "cae_Cause (auth_error s c d x) = x"
  by (simp_all add: auth_error_def)

lemma assertion_params_simps [simp]:
  "cap_Assertion (assertion_params cfg cl raw) = raw"
  "cap_JWKSJSON (assertion_params cfg cl raw) = c_JWKSJSON cl"
  "cap_ExpectedIssuer (assertion_params cfg cl raw) = c_ClientID cl"
  "cap_ExpectedSubject (assertion_params cfg cl raw) = c_ClientID cl"
  "cap_Audience (assertion_params cfg cl raw) = accepted_audiences cfg"
  "cap_Skew (assertion_params cfg cl raw) = cac_AssertionSkew cfg"
  "cap_Cache (assertion_params cfg cl raw) = cac_AssertionCache cfg"
  "cap_HasClock (assertion_params cfg cl raw) = cac_HasClock cfg"
  by (simp_all add: assertion_params_def)

text \<open>An authenticated client is the registered one the form names, by one of the two methods.\<close>

lemma AuthenticateClient_Inr:
  assumes "AuthenticateClient cr rt site cfg clients form w = (Inr cl, w')"
  shows "values_get form ''client_id'' \<noteq> []"
    "cs_FindByClientID clients (values_get form ''client_id'') w = Inr cl"
    "(c_TokenEndpointAuthMethod cl = AuthMethodNone \<and> w' = w) \<or>
     (c_TokenEndpointAuthMethod cl = AuthMethodPrivateKeyJWT \<and>
      values_get form ''client_assertion_type'' = ClientAssertionType \<and> accepted_audiences cfg \<noteq> [] \<and>
      (\<exists>tok. VerifyClientAssertion cr rt site
         (assertion_params cfg cl (values_get form ''client_assertion'')) w = (Inr tok, w')))"
  using assms
  by (auto simp: AuthenticateClient_def authenticateWithPrivateKeyJWT_def Let_def
      split: if_splits sum.splits prod.splits)

lemma AuthenticateClient_Inl:
  assumes "AuthenticateClient cr rt site cfg clients form w = (Inl e, w')"
  shows "(cae_Status e, cae_Code e) \<in> {(401, ''invalid_client''), (500, ''server_error'')}"
  using assms
  by (auto simp: AuthenticateClient_def authenticateWithPrivateKeyJWT_def Let_def
      split: if_splits sum.splits prod.splits)

text \<open>Authentication touches nothing the replay cache leaves alone.\<close>

lemma VerifyClientAssertion_frame:
  assumes "\<And>c a b t w. cap_Cache p = Some c \<Longrightarrow> f (snd (cac_CheckAndStore c a b t w)) = f w"
  shows "f (snd (VerifyClientAssertion cr rt site p w)) = f w"
  using assms
  by (simp add: VerifyClientAssertion_def prod.case_eq_if split: option.split sum.split)

lemma AuthenticateClient_frame:
  assumes "\<And>c a b t w. cac_AssertionCache cfg = Some c \<Longrightarrow> f (snd (cac_CheckAndStore c a b t w)) = f w"
  shows "f (snd (AuthenticateClient cr rt site cfg clients form w)) = f w"
proof -
  have "f (snd (VerifyClientAssertion cr rt site (assertion_params cfg cl raw) w)) = f w" for cl raw w
    by (rule VerifyClientAssertion_frame) (simp add: assms)
  then show ?thesis
    by (simp add: AuthenticateClient_def authenticateWithPrivateKeyJWT_def Let_def
        prod.case_eq_if split: sum.split)
qed

end
