(* ===== verification/Token_Endpoint.thy ===== *)
theory Token_Endpoint
  imports Grant_Refresh Grant_ClientCreds Client_Auth
begin

section \<open>The token endpoint and revocation (internal/oidc/token.go, revoke.go)\<close>

text \<open>
  \<open>TokenHandler\<close> authenticates the client and hands it to the grant the form names. The
  assertion's clock is place 100; a grant uses the places of its own theory. \<open>RevokeHandler\<close>
  authenticates the same way and answers 200 whatever it finds.
\<close>

record 'w token_handler =
  th_AuthCode :: "'w auth_code_grant option"
  th_Refresh :: "'w refresh_grant option"
  th_ClientCredentials :: "'w client_credentials_grant option"
  th_ClientAuth :: "'w client_auth_config"
  th_Clients :: "'w client_store"

definition method_not_allowed :: "string \<Rightarrow> outcome" where
  "method_not_allowed allow = Response ((error_response 405 ''invalid_request'' ''method not allowed'')
     \<lparr>resp_headers := (''Allow'', allow) # json_headers\<rparr>)"

definition token_dispatch ::
  "crypto \<Rightarrow> 'w token_handler \<Rightarrow> runtime \<Rightarrow> client \<Rightarrow> url_values \<Rightarrow> 'w \<Rightarrow> outcome \<times> 'w" where
  "token_dispatch cr h rt cl form w =
    (let grantType = values_get form ''grant_type'' in
     if grantType = ''authorization_code'' then
       (case th_AuthCode h of
          None \<Rightarrow> (fail_with 400 ''unsupported_grant_type'' ''authorization_code grant not enabled'', w)
        | Some g \<Rightarrow> authcode_handle cr g rt (Some cl) form w)
     else if grantType = ''refresh_token'' then
       (case th_Refresh h of
          None \<Rightarrow> (fail_with 400 ''unsupported_grant_type'' ''refresh_token grant not enabled'', w)
        | Some g \<Rightarrow> refresh_handle cr g rt (Some cl) form w)
     else if grantType = ''client_credentials'' then
       (case th_ClientCredentials h of
          None \<Rightarrow> (fail_with 400 ''unsupported_grant_type'' ''client_credentials grant not enabled'', w)
        | Some g \<Rightarrow> client_creds_handle cr g rt (Some cl) form w)
     else (fail_with 400 ''unsupported_grant_type'' ''unsupported grant_type'', w))"

definition token_serve ::
  "crypto \<Rightarrow> 'w token_handler \<Rightarrow> runtime \<Rightarrow> http_request \<Rightarrow> 'w \<Rightarrow> outcome \<times> 'w" where
  "token_serve cr h rt r w =
    (if req_Method r \<noteq> ''POST'' then (method_not_allowed ''POST'', w)
     else case req_PostForm r of
       None \<Rightarrow> (fail_with 400 ''invalid_request'' ''could not parse form body'', w)
     | Some form \<Rightarrow>
         (case AuthenticateClient cr rt 100 (th_ClientAuth h) (th_Clients h) form w of
            (Inl e, w') \<Rightarrow> (writeClientAuthError e, w')
          | (Inr cl, w') \<Rightarrow> token_dispatch cr h rt cl form w'))"

subsection \<open>Revocation\<close>

record 'w revoke_handler =
  rh_RefreshTokens :: "'w refresh_token_store"
  rh_Clients :: "'w client_store"
  rh_ClientAuth :: "'w client_auth_config"

definition revoke_serve ::
  "crypto \<Rightarrow> 'w revoke_handler \<Rightarrow> runtime \<Rightarrow> http_request \<Rightarrow> 'w \<Rightarrow> outcome \<times> 'w" where
  "revoke_serve cr h rt r w =
    (if req_Method r \<noteq> ''POST'' then (method_not_allowed ''POST'', w)
     else case req_PostForm r of
       None \<Rightarrow> (fail_with 400 ''invalid_request'' ''could not parse form body'', w)
     | Some form \<Rightarrow>
         let raw = values_get form ''token'' in
         if raw = [] then (fail_with 400 ''invalid_request'' ''token is required'', w)
         else case AuthenticateClient cr rt 100 (rh_ClientAuth h) (rh_Clients h) form w of
           (Inl e, w') \<Rightarrow> (writeClientAuthError e, w')
         | (Inr cl, w') \<Rightarrow>
             (case rts_FindByHash (rh_RefreshTokens h) (HashToken cr raw) w' of
                Inl e \<Rightarrow> (Response (plain_response 200), w')
              | Inr existing \<Rightarrow>
                  if rt_ClientID existing \<noteq> c_ClientID cl then (Response (plain_response 200), w')
                  else case rt_SessionID existing of
                    Some sid \<Rightarrow>
                      (Response (plain_response 200),
                       snd (rts_RevokeBySessionID (rh_RefreshTokens h) sid (now rt 0) w'))
                  | None \<Rightarrow>
                      (Response (plain_response 200),
                       snd (rts_Revoke (rh_RefreshTokens h) (rt_ID existing) (now rt 0) w'))))"

subsection \<open>Facts\<close>

lemma status_method_not_allowed [simp]: "status_of (method_not_allowed a) = Some 405"
  by (simp add: method_not_allowed_def error_response_def json_response_def)

lemma token_serve_200:
  assumes "token_serve cr h rt r w = (out, w')" "status_of out = Some 200"
  obtains form cl w1 where
    "req_Method r = ''POST''" "req_PostForm r = Some form"
    "AuthenticateClient cr rt 100 (th_ClientAuth h) (th_Clients h) form w = (Inr cl, w1)"
    "token_dispatch cr h rt cl form w1 = (out, w')"
proof -
  have "status_of (writeClientAuthError e) \<noteq> Some 200"
    if "AuthenticateClient cr rt 100 (th_ClientAuth h) (th_Clients h) form w = (Inl e, w1)" for form e w1
    using AuthenticateClient_Inl [OF that] by auto
  with assms show ?thesis
    by (auto simp: token_serve_def split: if_splits option.splits prod.splits sum.splits intro: that)
qed

lemma token_dispatch_200:
  assumes "token_dispatch cr h rt cl form w = (out, w')" "status_of out = Some 200"
  shows "(values_get form ''grant_type'' = ''authorization_code'' \<and>
      (\<exists>g. th_AuthCode h = Some g \<and> authcode_handle cr g rt (Some cl) form w = (out, w'))) \<or>
    (values_get form ''grant_type'' = ''refresh_token'' \<and>
      (\<exists>g. th_Refresh h = Some g \<and> refresh_handle cr g rt (Some cl) form w = (out, w'))) \<or>
    (values_get form ''grant_type'' = ''client_credentials'' \<and>
      (\<exists>g. th_ClientCredentials h = Some g \<and> client_creds_handle cr g rt (Some cl) form w = (out, w')))"
  using assms by (auto simp: token_dispatch_def Let_def split: if_splits option.splits)

lemma revoke_serve_cases:
  assumes "revoke_serve cr h rt r w = (out, w')" "status_of out = Some 200"
  obtains form cl w1 where
    "req_PostForm r = Some form" "values_get form ''token'' \<noteq> []"
    "AuthenticateClient cr rt 100 (rh_ClientAuth h) (rh_Clients h) form w = (Inr cl, w1)"
    "w' = w1 \<or> (\<exists>t. rts_FindByHash (rh_RefreshTokens h) (HashToken cr (values_get form ''token'')) w1 = Inr t \<and>
       rt_ClientID t = c_ClientID cl \<and>
       (case rt_SessionID t of
          Some sid \<Rightarrow> w' = snd (rts_RevokeBySessionID (rh_RefreshTokens h) sid (now rt 0) w1)
        | None \<Rightarrow> w' = snd (rts_Revoke (rh_RefreshTokens h) (rt_ID t) (now rt 0) w1)))"
proof -
  have "status_of (writeClientAuthError e) \<noteq> Some 200"
    if "AuthenticateClient cr rt 100 (rh_ClientAuth h) (rh_Clients h) form w = (Inl e, w1)" for form e w1
    using AuthenticateClient_Inl [OF that] by auto
  with assms show ?thesis
    by (auto simp: revoke_serve_def Let_def split: if_splits option.splits prod.splits sum.splits intro: that)
qed

end
