(* ===== verification/Redemption.thy ===== *)
theory Redemption
  imports Mem_World Token_Endpoint
begin

section \<open>Concurrent redemption of single-use tokens\<close>

text \<open>
  The authorization code and the refresh token grant share a shape: read-only checks, one
  compare-and-set, then the issuance. A \<open>redeemer\<close> names the phases of such a handler;
  \<open>redeem\<close> runs them in sequence, and the handlers of the two grants are instances of it. The
  step relation runs any number of requests at once on one state: a request moves by one phase
  at a time, in any interleaving with the others and with the rest of the server (\<open>env\<close>).
\<close>

record ('q, 't, 's) redeemer =
  rd_check :: "'q \<Rightarrow> 's \<Rightarrow> outcome + 't"
  rd_id :: "'t \<Rightarrow> uuid"
  rd_mark :: "'q \<Rightarrow> 't \<Rightarrow> 's \<Rightarrow> (store_error + bool) \<times> 's"
  rd_failed :: outcome
  rd_lost :: "'q \<Rightarrow> 't \<Rightarrow> 's \<Rightarrow> outcome \<times> 's"
  rd_issue :: "'q \<Rightarrow> 't \<Rightarrow> 's \<Rightarrow> outcome \<times> 's"
  rd_draws :: "'q \<Rightarrow> 's \<Rightarrow> bool"

text \<open>\<open>rd_draws q s\<close> says that the ids request \<open>q\<close> draws at random are not in use in \<open>s\<close>.\<close>

definition redeem :: "('q, 't, 's) redeemer \<Rightarrow> 'q \<Rightarrow> 's \<Rightarrow> outcome \<times> 's" where
  "redeem R q s =
    (case rd_check R q s of
       Inl out \<Rightarrow> (out, s)
     | Inr t \<Rightarrow>
         (case rd_mark R q t s of
            (Inl e, s1) \<Rightarrow> (rd_failed R, s1)
          | (Inr won, s1) \<Rightarrow> if won then rd_issue R q t s1 else rd_lost R q t s1))"

type_synonym grant_request = "runtime \<times> client option \<times> url_values"

definition authcode_redeemer ::
  "crypto \<Rightarrow> 'w auth_code_grant \<Rightarrow> (grant_request, client \<times> authorization_code, 'w) redeemer" where
  "authcode_redeemer cr g =
    \<lparr>rd_check = \<lambda>(rt, cl, form). authcode_check cr g rt cl form,
     rd_id = \<lambda>(cl, code). ac_ID code,
     rd_mark = \<lambda>(rt, _, _) (cl, code). acs_MarkConsumed (acg_AuthCodes g) (ac_ID code) (now rt 1),
     rd_failed = Response (server_error ''could not record code consumption''),
     rd_lost = \<lambda>_ _ w. (fail_with 400 ''invalid_grant'' ''authorization code already used'', w),
     rd_issue = \<lambda>(rt, _, _) (cl, code). authcode_issue cr g rt cl code,
     rd_draws = \<lambda>_ _. True\<rparr>"

definition refresh_redeemer ::
  "crypto \<Rightarrow> 'w refresh_grant \<Rightarrow> ('w \<Rightarrow> uuid \<Rightarrow> bool)
    \<Rightarrow> (grant_request, client \<times> refresh_token, 'w) redeemer" where
  "refresh_redeemer cr g used =
    \<lparr>rd_check = \<lambda>(rt, cl, form). refresh_check cr g rt cl form,
     rd_id = \<lambda>(cl, t). rt_ID t,
     rd_mark = \<lambda>(rt, _, _) (cl, t). rts_MarkConsumed (rg_RefreshTokens g) (rt_ID t) (now rt 0),
     rd_failed = Response (server_error ''could not record refresh token consumption''),
     rd_lost = \<lambda>(rt, _, _) (cl, t) w.
       if rc_DetectReuse (rg_Cfg g) then handleReuse cr g rt t w
       else (fail_with 400 ''invalid_grant'' ''refresh token already used'', w),
     rd_issue = \<lambda>(rt, _, form) (cl, t). refresh_issue cr g rt cl form t,
     rd_draws = \<lambda>(rt, _, _) w. \<not> used w (new_uuid rt 8)\<rparr>"

lemma authcode_handle_redeem:
  "authcode_handle cr g rt cl form w = redeem (authcode_redeemer cr g) (rt, cl, form) w"
  by (simp add: authcode_handle_def redeem_def authcode_redeemer_def split: sum.split prod.split)

lemma refresh_handle_redeem:
  "refresh_handle cr g rt cl form w = redeem (refresh_redeemer cr g used) (rt, cl, form) w"
  by (simp add: refresh_handle_def redeem_def refresh_redeemer_def split: sum.split prod.split)

subsection \<open>Many requests at once\<close>

text \<open>A request that has passed the compare-and-set remembers the id it consumed.\<close>

datatype 't thread = Idle | Checked 't | Won 't | Finished "uuid option" outcome

type_synonym ('t, 's) system = "'s \<times> (nat \<Rightarrow> 't thread)"

inductive rstep ::
  "('q, 't, 's) redeemer \<Rightarrow> ('s \<Rightarrow> 's \<Rightarrow> bool) \<Rightarrow> (nat \<Rightarrow> 'q) \<Rightarrow> ('t, 's) system \<Rightarrow> ('t, 's) system \<Rightarrow> bool"
  for R env q where
  check_fails: "\<lbrakk>ts i = Idle; rd_check R (q i) s = Inl out\<rbrakk>
    \<Longrightarrow> rstep R env q (s, ts) (s, ts(i := Finished None out))"
| check_ok: "\<lbrakk>ts i = Idle; rd_check R (q i) s = Inr t\<rbrakk>
    \<Longrightarrow> rstep R env q (s, ts) (s, ts(i := Checked t))"
| mark_fails: "\<lbrakk>ts i = Checked t; rd_mark R (q i) t s = (Inl e, s')\<rbrakk>
    \<Longrightarrow> rstep R env q (s, ts) (s', ts(i := Finished None (rd_failed R)))"
| mark_wins: "\<lbrakk>ts i = Checked t; rd_mark R (q i) t s = (Inr True, s')\<rbrakk>
    \<Longrightarrow> rstep R env q (s, ts) (s', ts(i := Won t))"
| mark_loses: "\<lbrakk>ts i = Checked t; rd_mark R (q i) t s = (Inr False, s1); rd_lost R (q i) t s1 = (out, s')\<rbrakk>
    \<Longrightarrow> rstep R env q (s, ts) (s', ts(i := Finished None out))"
| issues: "\<lbrakk>ts i = Won t; rd_draws R (q i) s; rd_issue R (q i) t s = (out, s')\<rbrakk>
    \<Longrightarrow> rstep R env q (s, ts) (s', ts(i := Finished (Some (rd_id R t)) out))"
| environment: "env s s' \<Longrightarrow> rstep R env q (s, ts) (s', ts)"

inductive_cases rstepE: "rstep R env q (s, ts) (s', ts')"

definition reachable ::
  "('q, 't, 's) redeemer \<Rightarrow> ('s \<Rightarrow> 's \<Rightarrow> bool) \<Rightarrow> (nat \<Rightarrow> 'q) \<Rightarrow> 's \<Rightarrow> ('t, 's) system \<Rightarrow> bool" where
  "reachable R env q s0 c \<longleftrightarrow> (rstep R env q)\<^sup>*\<^sup>* (s0, \<lambda>_. Idle) c"

text \<open>The id a request holds once it has won.\<close>

fun holds_id :: "('q, 't, 's) redeemer \<Rightarrow> 't thread \<Rightarrow> uuid option" where
  "holds_id R (Won t) = Some (rd_id R t)"
| "holds_id R (Finished x out) = x"
| "holds_id R Idle = None"
| "holds_id R (Checked t) = None"

text \<open>
  The contract: only one compare-and-set per id is won, and nothing any phase or the
  environment does makes a consumed id fresh again; the phases before it never answer 200.
\<close>

locale single_use =
  fixes R :: "('q, 't, 's) redeemer"
    and spent :: "uuid \<Rightarrow> 's \<Rightarrow> bool"
    and env :: "'s \<Rightarrow> 's \<Rightarrow> bool"
  assumes won: "rd_mark R x t s = (Inr True, s') \<Longrightarrow> \<not> spent (rd_id R t) s \<and> spent (rd_id R t) s'"
    and keep_mark: "spent j s \<Longrightarrow> spent j (snd (rd_mark R x t s))"
    and keep_lost: "spent j s \<Longrightarrow> spent j (snd (rd_lost R x t s))"
    and keep_issue: "spent j s \<Longrightarrow> rd_draws R x s \<Longrightarrow> spent j (snd (rd_issue R x t s))"
    and keep_env: "spent j s \<Longrightarrow> env s s' \<Longrightarrow> spent j s'"
    and check_not_ok: "rd_check R x s = Inl out \<Longrightarrow> status_of out \<noteq> Some 200"
    and lost_not_ok: "status_of (fst (rd_lost R x t s)) \<noteq> Some 200"
    and failed_not_ok: "status_of (rd_failed R) \<noteq> Some 200"
begin

definition inv :: "('t, 's) system \<Rightarrow> bool" where
  "inv c \<longleftrightarrow>
    (\<forall>i k. holds_id R (snd c i) = Some k \<longrightarrow> spent k (fst c)) \<and>
    (\<forall>i j k. holds_id R (snd c i) = Some k \<longrightarrow> holds_id R (snd c j) = Some k \<longrightarrow> i = j) \<and>
    (\<forall>i out. snd c i = Finished None out \<longrightarrow> status_of out \<noteq> Some 200)"

lemma inv_init: "inv (s0, \<lambda>_. Idle)"
  by (simp add: inv_def)

text \<open>A step that leaves the held ids alone only has to keep them spent.\<close>

lemma inv_same_ids:
  assumes "inv (s, ts)" "\<And>j. spent j s \<Longrightarrow> spent j s'"
    "holds_id R x = holds_id R (ts i)"
    "\<And>out. x = Finished None out \<Longrightarrow> status_of out \<noteq> Some 200"
  shows "inv (s', ts(i := x))"
  using assms unfolding inv_def by (auto split: if_splits)

lemma inv_step:
  assumes "rstep R env q c c'" "inv c"
  shows "inv c'"
  using assms
proof (induction rule: rstep.induct)
  case (check_fails ts i s out)
  then show ?case using check_not_ok by (intro inv_same_ids [where s = s]) auto
next
  case (check_ok ts i s t)
  then show ?case by (intro inv_same_ids [where s = s]) auto
next
  case (mark_fails ts i t s e s')
  have "spent j s \<Longrightarrow> spent j s'" for j
    using keep_mark [of j s "q i" t] mark_fails.hyps(2) by simp
  then show ?case using mark_fails failed_not_ok by (intro inv_same_ids [where s = s]) auto
next
  case (mark_loses ts i t s s1 out s')
  have "spent j s \<Longrightarrow> spent j s'" for j
    using keep_mark [of j s "q i" t] keep_lost [of j s1 "q i" t] mark_loses.hyps(2,3) by simp
  moreover have "status_of out \<noteq> Some 200"
    using lost_not_ok [of "q i" t s1] mark_loses.hyps(3) by simp
  ultimately show ?case using mark_loses by (intro inv_same_ids [where s = s]) auto
next
  case (mark_wins ts i t s s')
  have keep: "spent j s \<Longrightarrow> spent j s'" for j
    using keep_mark [of j s "q i" t] mark_wins.hyps(2) by simp
  have "\<not> spent (rd_id R t) s" "spent (rd_id R t) s'" using won [OF mark_wins.hyps(2)] by auto
  with keep mark_wins.prems show ?case unfolding inv_def by (auto split: if_splits)
next
  case (issues ts i t s out s')
  have "spent j s \<Longrightarrow> spent j s'" for j
    using keep_issue [of j s "q i" t] issues.hyps(2,3) by simp
  then show ?case using issues by (intro inv_same_ids [where s = s]) auto
next
  case (environment s s' ts)
  then have "spent j s \<Longrightarrow> spent j s'" for j using keep_env by blast
  with environment.prems show ?case unfolding inv_def by auto
qed

lemma inv_reachable: "reachable R env q s0 c \<Longrightarrow> inv c"
  unfolding reachable_def
  by (induction rule: rtranclp_induct) (auto intro: inv_init inv_step)

lemma two_successes_two_ids:
  assumes "reachable R env q s0 (s, ts)" "i \<noteq> j"
    "ts i = Finished x o1" "status_of o1 = Some 200"
    "ts j = Finished y o2" "status_of o2 = Some 200"
  shows "\<exists>a b. x = Some a \<and> y = Some b \<and> a \<noteq> b"
proof -
  have inv: "inv (s, ts)" using assms(1) by (rule inv_reachable)
  obtain a where a: "x = Some a"
    using inv assms(3,4) unfolding inv_def by (cases x) auto
  obtain b where b: "y = Some b"
    using inv assms(5,6) unfolding inv_def by (cases y) auto
  have "a \<noteq> b"
    using inv assms(2,3,5) a b unfolding inv_def by (metis holds_id.simps(2) snd_conv)
  with a b show ?thesis by simp
qed

lemma spent_never_succeeds:
  assumes "spent k s0" "reachable R env q s0 (s, ts)" "ts i = Finished (Some k) out"
  shows False
proof -
  have "spent k (fst c) \<and> (\<forall>i. holds_id R (snd c i) \<noteq> Some k)"
    if "(rstep R env q)\<^sup>*\<^sup>* (s0, \<lambda>_. Idle) c" for c
    using that
  proof (induction rule: rtranclp_induct)
    case base
    then show ?case using assms(1) by simp
  next
    case (step c c')
    from step.hyps(2) step.IH show ?case
    proof (cases rule: rstep.cases)
      case (mark_wins ts i t s s')
      with won [OF mark_wins(4)] keep_mark [of k s "q i" t] step.IH show ?thesis by auto
    next
      case (mark_fails ts i t s e s')
      with keep_mark [of k s "q i" t] step.IH show ?thesis by auto
    next
      case (mark_loses ts i t s s1 out s')
      with keep_mark [of k s "q i" t] keep_lost [of k s1 "q i" t] step.IH show ?thesis by auto
    next
      case (issues ts i t s out s')
      with keep_issue [of k s "q i" t] step.IH show ?thesis
        by (auto split: if_splits) (metis holds_id.simps(1))
    next
      case (environment s s' ts)
      with keep_env step.IH show ?thesis by auto
    qed auto
  qed
  from this [of "(s, ts)"] assms(2,3) show ?thesis
    by (auto simp: reachable_def) (metis holds_id.simps(2))
qed

end

subsection \<open>The grants on the in-memory stores\<close>

definition mem_issuer :: "string \<Rightarrow> world issuer" where
  "mem_issuer url = NewIssuer url mem_signing_keys"

definition mem_authcode_grant :: "crypto \<Rightarrow> runtime \<Rightarrow> string \<Rightarrow> auth_code_config \<Rightarrow> world auth_code_grant" where
  "mem_authcode_grant cr rt url cfg =
    \<lparr>acg_AuthCodes = mem_auth_codes, acg_RefreshTokens = mem_refresh_tokens,
     acg_Users = mem_users cr rt, acg_Issuer = mem_issuer url, acg_Cfg = cfg\<rparr>"

definition mem_refresh_grant :: "crypto \<Rightarrow> runtime \<Rightarrow> string \<Rightarrow> refresh_config \<Rightarrow> world refresh_grant" where
  "mem_refresh_grant cr rt url cfg =
    \<lparr>rg_RefreshTokens = mem_refresh_tokens, rg_Users = mem_users cr rt,
     rg_AuditLogs = Some mem_audit_logs, rg_Issuer = mem_issuer url, rg_Cfg = cfg\<rparr>"

lemma mem_grant_simps [simp]:
  "acg_AuthCodes (mem_authcode_grant cr rt url cfg) = mem_auth_codes"
  "acg_RefreshTokens (mem_authcode_grant cr rt url cfg) = mem_refresh_tokens"
  "acg_Users (mem_authcode_grant cr rt url cfg) = mem_users cr rt"
  "acg_Issuer (mem_authcode_grant cr rt url cfg) = mem_issuer url"
  "acg_Cfg (mem_authcode_grant cr rt url cfg) = cfg"
  "rg_RefreshTokens (mem_refresh_grant cr rt url rcfg) = mem_refresh_tokens"
  "rg_Users (mem_refresh_grant cr rt url rcfg) = mem_users cr rt"
  "rg_AuditLogs (mem_refresh_grant cr rt url rcfg) = Some mem_audit_logs"
  "rg_Issuer (mem_refresh_grant cr rt url rcfg) = mem_issuer url"
  "rg_Cfg (mem_refresh_grant cr rt url rcfg) = rcfg"
  "iss_Keys (mem_issuer url) = mem_signing_keys"
  "iss_Issuer (mem_issuer url) = url"
  by (simp_all add: mem_authcode_grant_def mem_refresh_grant_def mem_issuer_def NewIssuer_def)

lemma mem_issue_frame [simp]:
  "w_codes (snd (IssueAccessToken cr (mem_issuer url) rt k c w)) = w_codes w"
  "w_codes (snd (IssueIDToken cr (mem_issuer url) rt k d w)) = w_codes w"
  "w_refresh (snd (IssueAccessToken cr (mem_issuer url) rt k c w)) = w_refresh w"
  "w_refresh (snd (IssueIDToken cr (mem_issuer url) rt k d w)) = w_refresh w"
  "w_audit (snd (IssueAccessToken cr (mem_issuer url) rt k c w)) = w_audit w"
  "w_audit (snd (IssueIDToken cr (mem_issuer url) rt k d w)) = w_audit w"
  "w_users (snd (IssueAccessToken cr (mem_issuer url) rt k c w)) = w_users w"
  "w_users (snd (IssueIDToken cr (mem_issuer url) rt k d w)) = w_users w"
  "w_sessions (snd (IssueAccessToken cr (mem_issuer url) rt k c w)) = w_sessions w"
  "w_sessions (snd (IssueIDToken cr (mem_issuer url) rt k d w)) = w_sessions w"
  "w_clients (snd (IssueAccessToken cr (mem_issuer url) rt k c w)) = w_clients w"
  "w_clients (snd (IssueIDToken cr (mem_issuer url) rt k d w)) = w_clients w"
  by (rule issue_frame, simp)+

lemma mem_refresh_store_frame [simp]:
  "w_codes (snd (rts_Store mem_refresh_tokens x w)) = w_codes w"
  "w_codes (snd (rts_MarkConsumed mem_refresh_tokens i t w)) = w_codes w"
  "w_codes (snd (rts_Revoke mem_refresh_tokens i t w)) = w_codes w"
  "w_codes (snd (rts_RevokeBySessionID mem_refresh_tokens i t w)) = w_codes w"
  by (simp_all add: mem_refresh_tokens_def)

lemma mem_refresh_ops [simp]:
  "w_refresh (snd (rts_Store mem_refresh_tokens x w)) = snd (refresh_Store x (w_refresh w))"
  "w_refresh (snd (rts_MarkConsumed mem_refresh_tokens i t w)) = snd (refresh_MarkConsumed i t (w_refresh w))"
  "w_refresh (snd (rts_Revoke mem_refresh_tokens i t w)) = snd (refresh_Revoke i t (w_refresh w))"
  "w_refresh (snd (rts_RevokeBySessionID mem_refresh_tokens i t w)) =
    snd (refresh_RevokeBySessionID i t (w_refresh w))"
  "w_refresh (snd (acs_MarkConsumed mem_auth_codes i t w)) = w_refresh w"
  "w_refresh (snd (als_Store mem_audit_logs l w)) = w_refresh w"
  by (simp_all add: mem_refresh_tokens_def mem_auth_codes_def mem_audit_logs_def)

lemma mem_authcode_issue_codes [simp]:
  "w_codes (snd (authcode_issue cr (mem_authcode_grant cr' rt' url cfg) rt cl code w)) = w_codes w"
  by (simp add: authcode_issue_def authcode_refresh_def prod.case_eq_if
      split: sum.split option.split)

lemma mem_refresh_id_token_refresh [simp]:
  "w_refresh (snd (refresh_id_token cr (mem_refresh_grant cr' rt' url cfg) rt cl t info sc gr at ac w))
    = w_refresh w"
  by (simp add: refresh_id_token_def)

text \<open>What issuing on a refresh does to the refresh tokens: nothing, or the rotated token is added.\<close>

lemma mem_refresh_issue_refresh:
  "w_refresh (snd (refresh_issue cr (mem_refresh_grant cr' rt' url cfg) rt cl form t w)) = w_refresh w \<or>
   (\<exists>sc h. w_refresh (snd (refresh_issue cr (mem_refresh_grant cr' rt' url cfg) rt cl form t w)) =
     snd (refresh_Store (Some (rotated_token rt cl t sc h)) (w_refresh w)))"
  by (auto simp: refresh_issue_def refresh_rotate_def Let_def prod.case_eq_if
      split: sum.split option.split)

definition codes_grow :: "world \<Rightarrow> world \<Rightarrow> bool" where
  "codes_grow w w' \<longleftrightarrow> (\<forall>j. code_spent j (w_codes w) \<longrightarrow> code_spent j (w_codes w'))"

definition refresh_grow :: "world \<Rightarrow> world \<Rightarrow> bool" where
  "refresh_grow w w' \<longleftrightarrow> (\<forall>j. refresh_spent j (w_refresh w) \<longrightarrow> refresh_spent j (w_refresh w'))"

text \<open>The id of a token that is already in the store.\<close>

definition refresh_id_used :: "world \<Rightarrow> uuid \<Rightarrow> bool" where
  "refresh_id_used w i \<longleftrightarrow> gm_get (rtm_tokens (w_refresh w)) i \<noteq> None"

lemma refresh_spent_used: "refresh_spent i (w_refresh w) \<Longrightarrow> refresh_id_used w i"
  by (auto simp: refresh_spent_def refresh_id_used_def)

interpretation code_use: single_use
  "authcode_redeemer cr (mem_authcode_grant cr rt0 url cfg)" "\<lambda>i w. code_spent i (w_codes w)" codes_grow
  for cr rt0 url cfg
proof
  fix x :: grant_request and t :: "client \<times> authorization_code" and s s' :: world and j out
  obtain rt cl form where x: "x = (rt, cl, form)" by (cases x)
  obtain c a where t: "t = (c, a)" by (cases t)
  let ?R = "authcode_redeemer cr (mem_authcode_grant cr rt0 url cfg)"
  show "rd_mark ?R x t s = (Inr True, s') \<Longrightarrow>
      \<not> code_spent (rd_id ?R t) (w_codes s) \<and> code_spent (rd_id ?R t) (w_codes s')"
    by (simp add: x t authcode_redeemer_def) (rule codes.mark_won)
  show "code_spent j (w_codes s) \<Longrightarrow> code_spent j (w_codes (snd (rd_mark ?R x t s)))"
    by (simp add: x t authcode_redeemer_def codes.mark_keeps)
  show "code_spent j (w_codes s) \<Longrightarrow> code_spent j (w_codes (snd (rd_lost ?R x t s)))"
    by (simp add: x t authcode_redeemer_def)
  show "code_spent j (w_codes s) \<Longrightarrow> rd_draws ?R x s \<Longrightarrow>
      code_spent j (w_codes (snd (rd_issue ?R x t s)))"
    by (simp add: x t authcode_redeemer_def)
  show "code_spent j (w_codes s) \<Longrightarrow> codes_grow s s' \<Longrightarrow> code_spent j (w_codes s')"
    by (simp add: codes_grow_def)
  show "rd_check ?R x s = Inl out \<Longrightarrow> status_of out \<noteq> Some 200"
    using authcode_check_Inl by (fastforce simp: x authcode_redeemer_def)
  show "status_of (fst (rd_lost ?R x t s)) \<noteq> Some 200"
    by (simp add: x t authcode_redeemer_def)
  show "status_of (rd_failed ?R) \<noteq> Some 200"
    by (simp add: authcode_redeemer_def)
qed

lemma mem_handleReuse_refresh:
  "w_refresh (snd (handleReuse cr (mem_refresh_grant cr' rt' url cfg) rt t w)) =
    (case rt_SessionID t of
       Some sid \<Rightarrow> snd (refresh_RevokeBySessionID sid (now rt 0) (w_refresh w))
     | None \<Rightarrow> snd (refresh_Revoke (rt_ID t) (now rt 0) (w_refresh w)))"
  by (simp add: handleReuse_def Let_def split: option.split)

interpretation refresh_use: single_use
  "refresh_redeemer cr (mem_refresh_grant cr rt0 url cfg) refresh_id_used"
  "\<lambda>i w. refresh_spent i (w_refresh w)" refresh_grow
  for cr rt0 url cfg
proof
  fix x :: grant_request and t :: "client \<times> refresh_token" and s s' :: world and j out
  obtain rt cl form where x: "x = (rt, cl, form)" by (cases x)
  obtain c a where t: "t = (c, a)" by (cases t)
  let ?R = "refresh_redeemer cr (mem_refresh_grant cr rt0 url cfg) refresh_id_used"
  show "rd_mark ?R x t s = (Inr True, s') \<Longrightarrow>
      \<not> refresh_spent (rd_id ?R t) (w_refresh s) \<and> refresh_spent (rd_id ?R t) (w_refresh s')"
    by (simp add: x t refresh_redeemer_def) (rule refresh.mark_won)
  show "refresh_spent j (w_refresh s) \<Longrightarrow> refresh_spent j (w_refresh (snd (rd_mark ?R x t s)))"
    by (simp add: x t refresh_redeemer_def refresh_cas.mark_keeps)
  show "refresh_spent j (w_refresh s) \<Longrightarrow> refresh_spent j (w_refresh (snd (rd_lost ?R x t s)))"
    by (auto simp: x t refresh_redeemer_def mem_handleReuse_refresh refresh_spent_stays
        split: option.split)
  show "refresh_spent j (w_refresh s) \<Longrightarrow> rd_draws ?R x s \<Longrightarrow>
      refresh_spent j (w_refresh (snd (rd_issue ?R x t s)))"
    using mem_refresh_issue_refresh [of cr cr rt0 url cfg rt c form a s] refresh_spent_used [of j s]
    by (auto simp: x t refresh_redeemer_def rotated_token_bounds intro!: refresh_spent_stays(3))
  show "refresh_spent j (w_refresh s) \<Longrightarrow> refresh_grow s s' \<Longrightarrow> refresh_spent j (w_refresh s')"
    by (simp add: refresh_grow_def)
  show "rd_check ?R x s = Inl out \<Longrightarrow> status_of out \<noteq> Some 200"
    using refresh_check_Inl by (fastforce simp: x refresh_redeemer_def)
  show "status_of (fst (rd_lost ?R x t s)) \<noteq> Some 200"
    by (simp add: x t refresh_redeemer_def handleReuse_out)
  show "status_of (rd_failed ?R) \<noteq> Some 200"
    by (simp add: refresh_redeemer_def)
qed

end
