(* ===== verification/Lineage.thy ===== *)
theory Lineage
  imports Redemption
begin

section \<open>The lineage of refresh tokens\<close>

text \<open>
  An invariant of the refresh token store that ties every rotated token to the token it
  replaced: the parent is in the store and consumed, belongs to the same client, user and
  session, has the same absolute expiry, and its scope covers the child's. Every handler that
  writes refresh tokens keeps it, provided the ids it draws are not in use.
\<close>

definition descends :: "refresh_token \<Rightarrow> refresh_token \<Rightarrow> bool" where
  "descends t p \<longleftrightarrow> rt_ConsumedAt p \<noteq> None \<and> rt_ClientID t = rt_ClientID p \<and>
    rt_UserID t = rt_UserID p \<and> rt_SessionID t = rt_SessionID p \<and>
    rt_AbsoluteExpiresAt t = rt_AbsoluteExpiresAt p \<and>
    set (str_fields (rt_Scope t)) \<subseteq> set (str_fields (rt_Scope p))"

definition lineage :: "refresh_token_mem \<Rightarrow> bool" where
  "lineage s \<longleftrightarrow> refresh_inv s \<and>
    (\<forall>i t p. gm_get (rtm_tokens s) i = Some t \<longrightarrow> rt_ParentTokenID t = Some p \<longrightarrow>
      (\<exists>pt. gm_get (rtm_tokens s) p = Some pt \<and> descends t pt))"

lemma lineage_new [simp]: "lineage NewRefreshTokenStore"
  by (simp add: lineage_def NewRefreshTokenStore_def refresh_inv_def)

lemma lineage_inv: "lineage s \<Longrightarrow> refresh_inv s"
  by (simp add: lineage_def)

lemma descends_refl_fields:
  assumes "descends t p"
    and "rt_ClientID t' = rt_ClientID t" "rt_UserID t' = rt_UserID t" "rt_SessionID t' = rt_SessionID t"
      "rt_AbsoluteExpiresAt t' = rt_AbsoluteExpiresAt t" "rt_Scope t' = rt_Scope t"
    and "rt_ClientID p' = rt_ClientID p" "rt_UserID p' = rt_UserID p" "rt_SessionID p' = rt_SessionID p"
      "rt_AbsoluteExpiresAt p' = rt_AbsoluteExpiresAt p" "rt_Scope p' = rt_Scope p"
      "rt_ConsumedAt p \<noteq> None \<Longrightarrow> rt_ConsumedAt p' \<noteq> None"
  shows "descends t' p'"
  using assms by (simp add: descends_def)

text \<open>A change of an entry that keeps what the lineage is about, and never un-consumes.\<close>

definition mild :: "refresh_token \<Rightarrow> refresh_token \<Rightarrow> bool" where
  "mild t t' \<longleftrightarrow> rt_ID t' = rt_ID t \<and> rt_TokenHash t' = rt_TokenHash t \<and>
    rt_ClientID t' = rt_ClientID t \<and> rt_UserID t' = rt_UserID t \<and> rt_SessionID t' = rt_SessionID t \<and>
    rt_ParentTokenID t' = rt_ParentTokenID t \<and> rt_AbsoluteExpiresAt t' = rt_AbsoluteExpiresAt t \<and>
    rt_Scope t' = rt_Scope t \<and> (rt_ConsumedAt t \<noteq> None \<longrightarrow> rt_ConsumedAt t' \<noteq> None)"

lemma mild_refl [simp]: "mild t t"
  by (simp add: mild_def)

lemma mild_descends: "mild t t' \<Longrightarrow> mild p p' \<Longrightarrow> descends t p \<Longrightarrow> descends t' p'"
  by (simp add: mild_def descends_def)

lemma mild_lineage:
  assumes "lineage s" "rtm_byHash s' = rtm_byHash s"
    and old: "\<And>i t. gm_get (rtm_tokens s) i = Some t \<Longrightarrow>
      \<exists>t'. gm_get (rtm_tokens s') i = Some t' \<and> mild t t'"
    and new: "\<And>i t'. gm_get (rtm_tokens s') i = Some t' \<Longrightarrow>
      \<exists>t. gm_get (rtm_tokens s) i = Some t \<and> mild t t'"
  shows "lineage s'"
  unfolding lineage_def
proof (intro conjI allI impI)
  show "refresh_inv s'"
    unfolding refresh_inv_def
  proof (intro conjI allI impI)
    fix h i
    assume "gm_get (rtm_byHash s') h = Some i"
    then have "gm_get (rtm_byHash s) h = Some i" using assms(2) by simp
    then obtain t where t: "gm_get (rtm_tokens s) i = Some t" "rt_ID t = i"
      using assms(1) unfolding lineage_def refresh_inv_def by blast
    from old [OF t(1)] t(2) show "\<exists>t. gm_get (rtm_tokens s') i = Some t \<and> rt_ID t = i"
      by (auto simp: mild_def)
  next
    fix i t'
    assume "gm_get (rtm_tokens s') i = Some t'"
    then obtain t where t: "gm_get (rtm_tokens s) i = Some t" "mild t t'" using new by blast
    have "rt_ID t = i" "rt_TokenHash t \<noteq> []" "gm_get (rtm_byHash s) (rt_TokenHash t) \<noteq> None"
      using assms(1) t(1) unfolding lineage_def refresh_inv_def by auto
    then show "rt_ID t' = i" "rt_TokenHash t' \<noteq> []" "gm_get (rtm_byHash s') (rt_TokenHash t') \<noteq> None"
      using t(2) assms(2) by (simp_all add: mild_def)
  qed
next
  fix i t' p
  assume t': "gm_get (rtm_tokens s') i = Some t'" "rt_ParentTokenID t' = Some p"
  then obtain t where t: "gm_get (rtm_tokens s) i = Some t" "mild t t'" using new by blast
  then have "rt_ParentTokenID t = Some p" using t'(2) by (simp add: mild_def)
  then obtain pt where pt: "gm_get (rtm_tokens s) p = Some pt" "descends t pt"
    using assms(1) t(1) unfolding lineage_def by blast
  then obtain pt' where "gm_get (rtm_tokens s') p = Some pt'" "mild pt pt'" using old by blast
  with t(2) pt(2) show "\<exists>pt'. gm_get (rtm_tokens s') p = Some pt' \<and> descends t' pt'"
    by (blast intro: mild_descends)
qed

lemma lineage_MarkConsumed: "lineage s \<Longrightarrow> lineage (snd (refresh_MarkConsumed i at s))"
  by (erule mild_lineage)
    (auto simp: refresh_MarkConsumed_def mild_def split: option.splits if_splits)

lemma lineage_Revoke: "lineage s \<Longrightarrow> lineage (snd (refresh_Revoke i at s))"
  by (erule mild_lineage)
    (auto simp: refresh_Revoke_def mild_def split: option.splits if_splits)

lemma lineage_RevokeBySessionID: "lineage s \<Longrightarrow> lineage (snd (refresh_RevokeBySessionID sid at s))"
  by (erule mild_lineage) (auto simp: refresh_RevokeBySessionID_def mild_def revoke_if_def)

text \<open>Adding a token under a fresh id: it has no parent, or it descends from its parent.\<close>

lemma lineage_Store:
  assumes "lineage s" "gm_get (rtm_tokens s) (rt_ID t) = None"
    and "\<And>p. rt_ParentTokenID t = Some p \<Longrightarrow> \<exists>pt. gm_get (rtm_tokens s) p = Some pt \<and> descends t pt"
  shows "lineage (snd (refresh_Store (Some t) s))"
proof (cases "rt_TokenHash t = []")
  case True
  then show ?thesis using assms(1) by (simp add: refresh_Store_def)
next
  case False
  have tok: "gm_get (rtm_tokens (snd (refresh_Store (Some t) s))) =
      (gm_get (rtm_tokens s))(rt_ID t \<mapsto> t)"
    using False by (simp add: refresh_Store_def)
  have "\<exists>pt. gm_get (rtm_tokens (snd (refresh_Store (Some t) s))) p = Some pt \<and> descends u pt"
    if u: "gm_get (rtm_tokens (snd (refresh_Store (Some t) s))) i = Some u" "rt_ParentTokenID u = Some p"
    for i u p
  proof -
    have "\<exists>pt. gm_get (rtm_tokens s) p = Some pt \<and> descends u pt"
    proof (cases "i = rt_ID t")
      case True
      then show ?thesis using u assms(3) by (simp add: tok)
    next
      case False
      then show ?thesis using u assms(1) unfolding lineage_def by (auto simp: tok)
    qed
    moreover have "gm_get (rtm_tokens s) p \<noteq> None \<Longrightarrow> p \<noteq> rt_ID t" using assms(2) by auto
    ultimately show ?thesis by (auto simp: tok)
  qed
  moreover have "refresh_inv (snd (refresh_Store (Some t) s))"
    using assms(1) by (intro refresh_inv_Store lineage_inv)
  ultimately show ?thesis unfolding lineage_def by blast
qed

subsection \<open>The handlers keep the lineage\<close>

lemma narrow_scope_subset:
  "narrow_scope p s = Some (sc, granted) \<Longrightarrow> set (str_fields sc) \<subseteq> set (str_fields s)"
  using narrow_scope_Some [of p s sc granted] by simp

lemma rotated_descends:
  assumes "rt_ClientID t = c_ClientID cl" "rt_ConsumedAt p \<noteq> None" "mild t p"
    "set (str_fields sc) \<subseteq> set (str_fields (rt_Scope t))"
  shows "descends (rotated_token rt cl t sc h) p"
  using assms by (simp add: descends_def rotated_token_bounds mild_def)

lemma lineage_refresh_issue:
  assumes lin: "lineage (w_refresh w)"
    and p: "gm_get (rtm_tokens (w_refresh w)) (rt_ID t) = Some p" "rt_ConsumedAt p \<noteq> None" "mild t p"
    and cl: "rt_ClientID t = c_ClientID cl"
    and fresh: "\<not> refresh_id_used w (new_uuid rt 8)"
  shows "lineage (w_refresh (snd (refresh_issue cr (mem_refresh_grant cr' rt' url cfg) rt cl form t w)))"
proof -
  have "lineage (snd (refresh_Store (Some (rotated_token rt cl t sc h)) (w_refresh w)))"
    if "set (str_fields sc) \<subseteq> set (str_fields (rt_Scope t))" for sc h
    using fresh p that cl lin
    by (intro lineage_Store) (auto simp: rotated_token_bounds refresh_id_used_def intro: rotated_descends)
  then show ?thesis
    using lin
    by (auto simp: refresh_issue_def refresh_rotate_def Let_def prod.case_eq_if
        dest: narrow_scope_subset split: sum.split option.split)
qed

text \<open>The state of the refresh tokens after the compare-and-set is won.\<close>

lemma mem_mark_won:
  assumes "rts_MarkConsumed mem_refresh_tokens i t w = (Inr True, w1)"
  obtains e where "gm_get (rtm_tokens (w_refresh w)) i = Some e" "rt_ConsumedAt e = None"
    "rtm_byHash (w_refresh w1) = rtm_byHash (w_refresh w)"
    "gm_get (rtm_tokens (w_refresh w1)) = (gm_get (rtm_tokens (w_refresh w)))(i \<mapsto> e\<lparr>rt_ConsumedAt := Some t\<rparr>)"
    "w1 = w\<lparr>w_refresh := w_refresh w1\<rparr>"
  using assms
  by (auto simp: mem_refresh_tokens_def zoom_def refresh_MarkConsumed_def split: option.splits if_splits
      intro: that)

lemma mem_find_hash:
  "lineage (w_refresh w) \<Longrightarrow> rts_FindByHash mem_refresh_tokens h w = Inr t \<Longrightarrow>
    gm_get (rtm_tokens (w_refresh w)) (rt_ID t) = Some t"
  using refresh_FindByHash_Inr [of "w_refresh w" h t] lineage_inv by (simp add: mem_refresh_tokens_def)

lemma lineage_mark: "lineage (w_refresh w) \<Longrightarrow>
    lineage (w_refresh (snd (rts_MarkConsumed mem_refresh_tokens i t w)))"
  by (simp add: lineage_MarkConsumed)

lemma lineage_refresh_handle:
  assumes lin: "lineage (w_refresh w)" and fresh: "\<not> refresh_id_used w (new_uuid rt 8)"
  shows "lineage (w_refresh (snd (refresh_handle cr (mem_refresh_grant cr' rt' url cfg) rt client form w)))"
    (is "lineage (w_refresh (snd (refresh_handle cr ?g rt client form w)))")
proof (cases "refresh_check cr ?g rt client form w")
  case (Inl out)
  then show ?thesis using lin by (simp add: refresh_handle_def)
next
  case (Inr x)
  then obtain cl t where x: "refresh_check cr ?g rt client form w = Inr (cl, t)" by (cases x) auto
  from x have t: "gm_get (rtm_tokens (w_refresh w)) (rt_ID t) = Some t" "rt_ClientID t = c_ClientID cl"
    using mem_find_hash [OF lin] by (auto simp: refresh_check_Inr)
  obtain r w1 where m: "rts_MarkConsumed mem_refresh_tokens (rt_ID t) (now rt 0) w = (r, w1)"
    by (cases "rts_MarkConsumed mem_refresh_tokens (rt_ID t) (now rt 0) w")
  have lin1: "lineage (w_refresh w1)"
    using lineage_mark [OF lin, of "rt_ID t" "now rt 0"] m by simp
  show ?thesis
  proof (cases "r = Inr True")
    case True
    obtain e where e: "gm_get (rtm_tokens (w_refresh w)) (rt_ID t) = Some e"
      "gm_get (rtm_tokens (w_refresh w1)) =
         (gm_get (rtm_tokens (w_refresh w)))(rt_ID t \<mapsto> e\<lparr>rt_ConsumedAt := Some (now rt 0)\<rparr>)"
      using m True by (metis mem_mark_won)
    have "e = t" using e(1) t(1) by simp
    with e(2) have p: "gm_get (rtm_tokens (w_refresh w1)) (rt_ID t) = Some (t\<lparr>rt_ConsumedAt := Some (now rt 0)\<rparr>)"
      by simp
    have fr: "\<not> refresh_id_used w1 (new_uuid rt 8)"
      using fresh e t(1) by (auto simp: refresh_id_used_def)
    have "lineage (w_refresh (snd (refresh_issue cr ?g rt cl form t w1)))"
      by (rule lineage_refresh_issue [OF lin1 p _ _ t(2) fr]) (simp_all add: mild_def)
    with x m True show ?thesis by (simp add: refresh_handle_def)
  next
    case False
    then show ?thesis
      using x m lin1
      by (auto simp: refresh_handle_def mem_handleReuse_refresh lineage_Revoke lineage_RevokeBySessionID
          split: sum.split option.split)
  qed
qed

lemma lineage_authcode_handle:
  assumes lin: "lineage (w_refresh w)" and fresh: "\<not> refresh_id_used w (new_uuid rt 8)"
  shows "lineage (w_refresh (snd (authcode_handle cr (mem_authcode_grant cr' rt' url cfg) rt client form w)))"
proof -
  have "lineage (snd (refresh_Store (Some (initial_refresh_token rt cl code u h)) (w_refresh w)))"
    for cl code u h
    using fresh lin
    by (intro lineage_Store) (auto simp: initial_refresh_token_def Let_def refresh_id_used_def)
  then show ?thesis
    using lin
    by (auto simp: authcode_handle_def authcode_issue_def authcode_refresh_def prod.case_eq_if
        split: sum.split option.split)
qed

subsection \<open>What the lineage gives\<close>

text \<open>Along a chain of parents, everything but the time of creation and the id is inherited.\<close>

lemma lineage_chain:
  assumes "lineage (w_refresh w)" "chain mem_refresh_tokens w t ts"
    and "gm_get (rtm_tokens (w_refresh w)) (rt_ID t) = Some t"
  shows "\<forall>u \<in> set ts. rt_SessionID u = rt_SessionID t \<and> rt_UserID u = rt_UserID t \<and>
      rt_ClientID u = rt_ClientID t \<and> rt_AbsoluteExpiresAt u = rt_AbsoluteExpiresAt t \<and>
      rt_ConsumedAt u \<noteq> None \<and> set (str_fields (rt_Scope t)) \<subseteq> set (str_fields (rt_Scope u))"
  using assms(2,3)
proof (induction rule: chain.induct)
  case (chain_step t p u us)
  have u: "gm_get (rtm_tokens (w_refresh w)) p = Some u"
    using chain_step.hyps(2) by (auto simp: mem_refresh_tokens_def refresh_FindByID_def split: option.splits)
  then have d: "descends t u"
    using assms(1) chain_step.prems chain_step.hyps(1) unfolding lineage_def by force
  have "rt_ID u = p" using assms(1) u unfolding lineage_def refresh_inv_def by blast
  with u have "gm_get (rtm_tokens (w_refresh w)) (rt_ID u) = Some u" by simp
  from chain_step.IH [OF this] d show ?case by (auto simp: descends_def)
qed simp_all

end
