(* ===== verification/Sample.thy ===== *)
theory Sample
  imports Lineage
begin

section \<open>A small deployment\<close>

text \<open>
  Concrete libraries, a concrete run of the clock and the random source, and a world with one
  public client, one user and one authorization code. The witnesses of the properties evaluate
  the handlers on them. The "libraries" only have the shapes the handlers need: the hash keeps
  two bytes, a signature is a constant.
\<close>

definition sample_hash :: "string \<Rightarrow> string" where
  "sample_hash s = take 2 (s @ ''..'')"

definition sample_crypto :: crypto where
  "sample_crypto =
    \<lparr>sha256 = sample_hash,
     rsa_public = (\<lambda>k. k), private_to_pem = Some, public_to_pem = Some,
     private_from_pem = Some, public_from_pem = Some,
     jwt_sign = (\<lambda>k cl. Some ''signed''),
     jwt_verify = (\<lambda>ks iss t skew raw. if raw = ''signed'' then Some [(''sub'', JStr ''alice'')] else None),
     jwks_len = (\<lambda>j. Some 1), jws_signatures = (\<lambda>raw. Some [Some ''RS256'']),
     jwt_parse = (\<lambda>j t skew raw. Some \<lparr>tok_Issuer = ''svc'', tok_Subject = ''svc'',
        tok_Audience = [''https://as''], tok_Expiration = 5000, tok_JwtID = raw, tok_IssuedAt = 0\<rparr>),
     bcrypt_hash = (\<lambda>salt pw. Some (''h:'' @ pw)),
     bcrypt_compare = (\<lambda>h pw. h = ''h:'' @ pw),
     uuid_string = (\<lambda>i. ''id'' @ [char_of (unat i)]),
     uuid_parse = (\<lambda>s. if take 2 s = ''id'' then Some (of_nat (of_char (last s))) else None)\<rparr>"

text \<open>Every reading of the clock is \<open>t\<close>; ids and random bytes are numbered from \<open>n\<close>.\<close>

definition sample_runtime :: "time \<Rightarrow> nat \<Rightarrow> runtime" where
  "sample_runtime t n =
    \<lparr>now = (\<lambda>_. t), new_uuid = (\<lambda>k. of_nat (n + k)),
     random_bytes = (\<lambda>k len. Some (replicate len (char_of (n + k)))),
     rsa_generate = (\<lambda>_. Some ''rsa''), bcrypt_salt = ''salt''\<rparr>"

definition sample_client :: client where
  "sample_client =
    \<lparr>c_ClientID = ''app'', c_DisplayName = ''App'', c_RedirectURIs = [''https://app/cb''],
     c_PostLogoutRedirectURIs = [], c_AllowedScopes = [''openid'', ''offline_access''],
     c_RequirePKCE = True, c_AllowRefreshTokens = True, c_AllowClientCredentials = False,
     c_TokenEndpointAuthMethod = ''none'', c_JWKSJSON = [], c_AccessTokenLifetimeSeconds = 0,
     c_RefreshTokenLifetimeSeconds = 0, c_RefreshTokenAbsoluteLifetimeSeconds = 0,
     c_RefreshTokenExpiration = 0, c_Properties = []\<rparr>"

definition sample_service :: client where
  "sample_service = sample_client
    \<lparr>c_ClientID := ''svc'', c_TokenEndpointAuthMethod := ''private_key_jwt'', c_JWKSJSON := ''keys'',
     c_AllowClientCredentials := True, c_AllowRefreshTokens := False, c_RedirectURIs := [],
     c_AllowedScopes := [''openid'', ''read'', ''write'']\<rparr>"

definition sample_user :: user where
  "sample_user =
    \<lparr>u_ID = ''alice'', u_Username = ''alice'', u_Email = ''alice@mail'', u_EmailConfirmed = True,
     u_PasswordHash = [], u_SecurityStamp = [], u_TwoFactorEnabled = False, u_LockoutEnd = None,
     u_LockoutEnabled = False, u_AccessFailedCount = 0, u_CreatedAt = 0, u_UpdatedAt = 0\<rparr>"

definition sample_verifier :: string where
  "sample_verifier = replicate 43 CHR ''v''"

definition sample_code :: authorization_code where
  "sample_code =
    \<lparr>ac_ID = 7, ac_CodeHash = ''dGg'', ac_ClientID = ''app'', ac_UserID = ''alice'',
     ac_SessionID = Some 3, ac_RedirectURI = ''https://app/cb'',
     ac_CodeChallenge = Some ''dnY'', ac_CodeChallengeMethod = Some ''S256'',
     ac_Scope = ''openid offline_access'', ac_Nonce = Some ''n0'', ac_ExpiresAt = 2000,
     ac_ConsumedAt = None, ac_CreatedAt = 500\<rparr>"

definition sample_session :: session where
  "sample_session = \<lparr>s_ID = 3, s_UserID = ''alice'', s_CreatedAt = 400, s_ExpiresAt = 9000,
     s_RevokedAt = None, s_Properties = []\<rparr>"

definition sample_key :: signing_key where
  "sample_key = \<lparr>sk_KeyID = ''k1'', sk_Algorithm = ''RS256'', sk_PrivateKeyPEM = ''rsa'',
     sk_PublicKeyPEM = ''rsa'', sk_CreatedAt = 0, sk_RetiredAt = None, sk_IsActive = True\<rparr>"

definition sample_world :: world where
  "sample_world = empty_world
    \<lparr>w_signing := [(''k1'', sample_key)],
     w_clients := [(''app'', sample_client), (''svc'', sample_service)],
     w_users := NewUserStore\<lparr>um_users := [(''alice'', sample_user)], um_hashes := [(''alice'', ''h:pw'')]\<rparr>,
     w_sessions := [(3, sample_session)],
     w_codes := snd (authcode_Store (Some sample_code) NewAuthorizationCodeStore)\<rparr>"

definition sample_cfg :: auth_code_config where
  "sample_cfg = \<lparr>acc_AccessTokenLifetime = hour, acc_IDTokenLifetime = hour,
     acc_RefreshTokenLifetime = hour, acc_RefreshTokenAbsoluteLifetime = hour\<rparr>"

definition sample_rcfg :: refresh_config where
  "sample_rcfg = \<lparr>rc_AccessTokenLifetime = hour, rc_IDTokenLifetime = hour,
     rc_RefreshTokenLifetime = hour, rc_RefreshTokenAbsoluteLifetime = hour, rc_DetectReuse = True\<rparr>"

definition sample_code_form :: url_values where
  "sample_code_form =
    [(''grant_type'', [''authorization_code'']), (''client_id'', [''app'']), (''code'', [''thecode'']),
     (''redirect_uri'', [''https://app/cb'']), (''code_verifier'', [sample_verifier])]"

definition sample_rt :: runtime where
  "sample_rt = sample_runtime 1000 20"

abbreviation sample_grant :: "world auth_code_grant" where
  "sample_grant \<equiv> mem_authcode_grant sample_crypto sample_rt ''https://as'' sample_cfg"

abbreviation sample_rgrant :: "world refresh_grant" where
  "sample_rgrant \<equiv> mem_refresh_grant sample_crypto sample_rt ''https://as'' sample_rcfg"


definition sample_token :: refresh_token where
  "sample_token =
    \<lparr>rt_ID = 40, rt_TokenHash = ''cmE'', rt_ClientID = ''app'', rt_UserID = ''alice'',
     rt_SessionID = Some 3, rt_ParentTokenID = None, rt_Scope = ''openid offline_access'',
     rt_ExpiresAt = 5000, rt_AbsoluteExpiresAt = 8000, rt_ConsumedAt = None, rt_RevokedAt = None,
     rt_CreatedAt = 500\<rparr>"

definition token_world :: world where
  "token_world = sample_world
    \<lparr>w_refresh := \<lparr>rtm_tokens = [(40, sample_token)], rtm_byHash = [(''cmE'', 40)]\<rparr>\<rparr>"

definition sample_refresh_form :: url_values where
  "sample_refresh_form =
    [(''grant_type'', [''refresh_token'']), (''client_id'', [''app'']),
     (''refresh_token'', [''raw''])]"

named_theorems sample_simps \<open>the small deployment, field by field\<close>

lemma sample_crypto_simps [sample_simps]:
  "rsa_public sample_crypto k = k" "private_to_pem sample_crypto k = Some k"
  "public_to_pem sample_crypto k = Some k" "private_from_pem sample_crypto k = Some k"
  "public_from_pem sample_crypto k = Some k" "jwt_sign sample_crypto j cl = Some ''signed''"
  "uuid_string sample_crypto i = ''id'' @ [char_of (unat i)]"
  "jwks_len sample_crypto js = Some 1" "jws_signatures sample_crypto raw = Some [Some ''RS256'']"
  "bcrypt_hash sample_crypto salt pw = Some (''h:'' @ pw)"
  "bcrypt_compare sample_crypto h pw = (h = ''h:'' @ pw)"
  by (simp_all add: sample_crypto_def)

lemma sample_runtime_simps [sample_simps]:
  "now (sample_runtime t n) k = t" "new_uuid (sample_runtime t n) k = of_nat (n + k)"
  "random_bytes (sample_runtime t n) k len = Some (replicate len (char_of (n + k)))"
  "rsa_generate (sample_runtime t n) k = Some ''rsa''"
  by (simp_all add: sample_runtime_def)

lemma sample_hashes [sample_simps]:
  "HashToken sample_crypto ''thecode'' = ''dGg''" "HashToken sample_crypto ''raw'' = ''cmE''"
  "HashAccessToken sample_crypto ''signed'' = ''cw''"
  "b64url (sha256 sample_crypto sample_verifier) = ''dnY''"
  by code_simp+

lemma sample_verifier_length [sample_simps]: "length sample_verifier = 43"
  by (simp add: sample_verifier_def)

lemma sample_opaque [sample_simps]:
  "NewOpaqueToken sample_crypto (sample_runtime t n) k =
    Some (b64url (replicate 32 (char_of (n + k))), HashToken sample_crypto (b64url (replicate 32 (char_of (n + k)))))"
  by (simp add: NewOpaqueToken_def OpaqueTokenBytes_def sample_simps Let_def)

lemma sample_hash_Nil [sample_simps]: "HashToken sample_crypto s = [] \<longleftrightarrow> False"
  by (simp add: HashToken_def sample_crypto_def sample_hash_def)

lemma sample_client_simps [sample_simps]:
  "c_ClientID sample_client = ''app''" "c_RedirectURIs sample_client = [''https://app/cb'']"
  "c_AllowedScopes sample_client = [''openid'', ''offline_access'']"
  "c_RequirePKCE sample_client" "c_AllowRefreshTokens sample_client"
  "c_TokenEndpointAuthMethod sample_client = ''none''"
  "c_RefreshTokenExpiration sample_client = 0"
  by (simp_all add: sample_client_def)

lemma sample_lifetimes [sample_simps]:
  "sint (AccessTokenLifetime sample_client) = 3600000000000"
  "sint (RefreshTokenLifetime sample_client) = 2592000000000000"
  "sint (RefreshTokenAbsoluteLifetime sample_client) = 2592000000000000"
  by code_simp+

lemma sample_code_simps [sample_simps]:
  "ac_ID sample_code = 7" "ac_ClientID sample_code = ''app''" "ac_UserID sample_code = ''alice''"
  "ac_CodeHash sample_code = ''dGg''" "ac_RedirectURI sample_code = ''https://app/cb''"
  "ac_CodeChallenge sample_code = Some ''dnY''" "ac_CodeChallengeMethod sample_code = Some ''S256''"
  "ac_Scope sample_code = ''openid offline_access''" "ac_Nonce sample_code = Some ''n0''"
  "ac_ExpiresAt sample_code = 2000" "ac_ConsumedAt sample_code = None"
  "ac_SessionID sample_code = Some 3"
  by (simp_all add: sample_code_def)

lemma sample_scope_fields [sample_simps]:
  "str_fields ''openid offline_access'' = [''openid'', ''offline_access'']"
  by code_simp

lemma sample_world_simps [sample_simps]:
  "w_clients sample_world = [(''app'', sample_client), (''svc'', sample_service)]"
  "w_users sample_world = NewUserStore\<lparr>um_users := [(''alice'', sample_user)], um_hashes := [(''alice'', ''h:pw'')]\<rparr>"
  "w_codes sample_world = \<lparr>acm_codes = [(7, sample_code)], acm_byHash = [(''dGg'', 7)]\<rparr>"
  "w_refresh sample_world = NewRefreshTokenStore"
  "w_sessions sample_world = [(3, sample_session)]" "w_audit sample_world = []"
  "w_signing sample_world = [(''k1'', sample_key)]"
  by (simp_all add: sample_world_def empty_world_def authcode_Store_def NewAuthorizationCodeStore_def sample_simps)

lemma token_world_simps [sample_simps]:
  "w_clients token_world = w_clients sample_world" "w_users token_world = w_users sample_world"
  "w_codes token_world = w_codes sample_world" "w_signing token_world = w_signing sample_world"
  "w_refresh token_world = \<lparr>rtm_tokens = [(40, sample_token)], rtm_byHash = [(''cmE'', 40)]\<rparr>"
  "w_audit token_world = []"
  by (simp_all add: token_world_def sample_simps)

lemma sample_token_simps [sample_simps]:
  "rt_ID sample_token = 40" "rt_ClientID sample_token = ''app''" "rt_UserID sample_token = ''alice''"
  "rt_TokenHash sample_token = ''cmE''" "rt_SessionID sample_token = Some 3"
  "rt_ParentTokenID sample_token = None" "rt_Scope sample_token = ''openid offline_access''"
  "rt_ExpiresAt sample_token = 5000" "rt_AbsoluteExpiresAt sample_token = 8000"
  "rt_ConsumedAt sample_token = None" "rt_RevokedAt sample_token = None" "rt_CreatedAt sample_token = 500"
  by (simp_all add: sample_token_def)

text \<open>With an active key in the store, issuing signs and changes nothing.\<close>

lemma sample_issue [sample_simps]:
  "w_signing w = [(''k1'', sample_key)] \<Longrightarrow> at_Subject c \<noteq> [] \<Longrightarrow> at_ClientID c \<noteq> [] \<Longrightarrow>
    IssueAccessToken sample_crypto (mem_issuer url) rt k c w = (Inr ''signed'', w)"
  "w_signing w = [(''k1'', sample_key)] \<Longrightarrow> it_Subject d \<noteq> [] \<Longrightarrow> it_ClientID d \<noteq> [] \<Longrightarrow>
    it_AtHash d \<noteq> [] \<Longrightarrow> IssueIDToken sample_crypto (mem_issuer url) rt k d w = (Inr ''signed'', w)"
  by (simp_all add: issuer_defs PrivateJWK_def EnsureActiveKey_def mem_signing_keys_def
      signing_GetActive_def sample_key_def sample_crypto_simps)

lemma form_get [sample_simps]:
  "values_get sample_code_form ''client_id'' = ''app''" "values_get sample_code_form ''code'' = ''thecode''"
  "values_get sample_code_form ''redirect_uri'' = ''https://app/cb''"
  "values_get sample_code_form ''code_verifier'' = sample_verifier"
  by (simp_all add: sample_code_form_def values_get_def)

lemma refresh_form_get [sample_simps]:
  "values_get sample_refresh_form ''client_id'' = ''app''"
  "values_get sample_refresh_form ''refresh_token'' = ''raw''"
  "values_get sample_refresh_form ''scope'' = []"
  by (simp_all add: sample_refresh_form_def values_get_def)

lemmas mem_ops = mem_auth_codes_def mem_users_def mem_refresh_tokens_def mem_audit_logs_def zoom_eq
  authcode_FindByHash_def authcode_MarkConsumed_def refresh_FindByHash_def refresh_MarkConsumed_def
  refresh_Store_def user_FindByID_def

lemmas authcode_run = authcode_handle_def authcode_check_def authcode_issue_def authcode_refresh_def
  VerifyS256_def PKCEMethod_def minVerifierLen_def maxVerifierLen_def time_defs
  authcode_access_claims_def authcode_id_claims_def initial_refresh_token_def

lemmas refresh_run = refresh_handle_def refresh_check_def refresh_issue_def refresh_rotate_def
  refresh_id_token_def refresh_access_claims_def refresh_id_claims_def narrow_scope_def time_defs

lemma sample_code_redeems:
  "status_of (fst (authcode_handle sample_crypto sample_grant sample_rt (Some sample_client)
     sample_code_form sample_world)) = Some 200"
  by (simp add: authcode_run mem_ops sample_simps sample_rt_def Let_def NewUserStore_def sample_user_def)

lemma sample_refresh_rotates:
  "status_of (fst (refresh_handle sample_crypto sample_rgrant sample_rt (Some sample_client)
     sample_refresh_form token_world)) = Some 200"
  by (simp add: refresh_run mem_ops sample_simps sample_rt_def Let_def NewUserStore_def sample_user_def
      rotated_token_bounds)

end
