(* ===== verification/Grant_Properties.thy ===== *)
theory Grant_Properties
  imports Sample
begin

section \<open>Properties of the code and refresh token grants\<close>

text \<open>
  The theorems that make the two redeeming grants correct, each after the claim it states, with
  a witness that applies it to the small deployment of Sample.
\<close>

subsection \<open>Concurrency\<close>

text \<open>
  C1. However many token requests run at once, in any interleaving of their phases with each
  other and with anything else that does not un-consume a code, no two of them get past the
  compare-and-set with the same authorization code, and a request that does not get past it
  never answers 200. So an authorization code yields tokens at most once.
\<close>

theorem code_redeemed_at_most_once:
  assumes "reachable (authcode_redeemer cr (mem_authcode_grant cr rt0 url cfg)) codes_grow q w0 (w, ts)"
  shows "(\<forall>i j k o1 o2. ts i = Finished (Some k) o1 \<longrightarrow> ts j = Finished (Some k) o2 \<longrightarrow> i = j) \<and>
    (\<forall>i out. ts i = Finished None out \<longrightarrow> status_of out \<noteq> Some 200)"
  using code_use.inv_reachable [OF assms] unfolding code_use.inv_def
  by (metis holds_id.simps(2) snd_conv)

text \<open>Two requests for the same code that both pass the checks before either consumes it.\<close>

definition race_requests :: "nat \<Rightarrow> grant_request" where
  "race_requests i = (sample_runtime 1000 (20 + 100 * i), Some sample_client, sample_code_form)"

abbreviation race :: "(grant_request, client \<times> authorization_code, world) redeemer" where
  "race \<equiv> authcode_redeemer sample_crypto sample_grant"

definition won_world :: world where
  "won_world = snd (rd_mark race (race_requests 0) (sample_client, sample_code) sample_world)"

definition race_result :: "outcome \<times> world" where
  "race_result = rd_issue race (race_requests 0) (sample_client, sample_code) won_world"

definition race_end :: "(client \<times> authorization_code, world) system" where
  "race_end = (snd race_result,
     (\<lambda>_. Idle)(0 := Finished (Some 7) (fst race_result),
       1 := Finished None (fail_with 400 ''invalid_grant'' ''authorization code already used'')))"

lemma race_checks:
  "rd_check race (race_requests i) sample_world = Inr (sample_client, sample_code)"
  by (simp add: authcode_redeemer_def race_requests_def authcode_run mem_ops sample_simps)

lemma race_marks:
  "rd_mark race (race_requests 0) (sample_client, sample_code) sample_world = (Inr True, won_world)"
  by (simp add: won_world_def authcode_redeemer_def race_requests_def mem_ops sample_simps)

lemma won_world_simps:
  "w_codes won_world =
    \<lparr>acm_codes = [(7, sample_code\<lparr>ac_ConsumedAt := Some 1000\<rparr>)], acm_byHash = [(''dGg'', 7)]\<rparr>"
  "w_users won_world = w_users sample_world" "w_signing won_world = w_signing sample_world"
  by (simp_all add: won_world_def authcode_redeemer_def race_requests_def mem_ops sample_simps)

lemma race_mark_lost:
  "rd_mark race (race_requests i) (sample_client, sample_code) won_world = (Inr False, won_world)"
  by (simp add: authcode_redeemer_def race_requests_def mem_ops sample_simps won_world_simps)

lemma race_lost:
  "rd_lost race q t w = (fail_with 400 ''invalid_grant'' ''authorization code already used'', w)"
  by (simp add: authcode_redeemer_def)

lemma race_reachable: "reachable race codes_grow race_requests sample_world race_end"
proof -
  let ?t = "(sample_client, sample_code)"
  let ?s = "rstep race codes_grow race_requests"
  let ?c = "(\<lambda>_. Idle)(0 := Checked ?t)"
  let ?d = "?c(1 := Checked ?t)"
  let ?lost = "fail_with 400 ''invalid_grant'' ''authorization code already used''"
  have "?s (sample_world, \<lambda>_. Idle) (sample_world, ?c)"
    by (rule check_ok) (simp_all add: race_checks)
  moreover have "?s (sample_world, ?c) (sample_world, ?d)"
    by (rule check_ok) (simp_all add: race_checks)
  moreover have "?s (sample_world, ?d) (won_world, ?d(0 := Won ?t))"
    by (rule mark_wins) (simp_all add: race_marks)
  moreover have "?s (won_world, ?d(0 := Won ?t)) (won_world, ?d(0 := Won ?t, 1 := Finished None ?lost))"
    by (rule mark_loses [OF _ race_mark_lost race_lost]) simp
  moreover have "?s (won_world, ?d(0 := Won ?t, 1 := Finished None ?lost)) race_end"
  proof -
    have "?s (won_world, ?d(0 := Won ?t, 1 := Finished None ?lost))
      (snd race_result, (?d(0 := Won ?t, 1 := Finished None ?lost))
        (0 := Finished (Some (rd_id race ?t)) (fst race_result)))"
      by (rule issues) (simp_all add: race_result_def authcode_redeemer_def)
    moreover have "rd_id race ?t = 7" by (simp add: authcode_redeemer_def sample_simps)
    ultimately show ?thesis
      by (simp add: race_end_def fun_upd_twist)
  qed
  ultimately show ?thesis
    unfolding reachable_def by (meson converse_rtranclp_into_rtranclp rtranclp.rtrancl_refl)
qed

lemma race_wins: "status_of (fst race_result) = Some 200"
proof -
  have r: "race_result = authcode_issue sample_crypto sample_grant sample_rt sample_client sample_code won_world"
    by (simp add: race_result_def authcode_redeemer_def race_requests_def sample_rt_def)
  show ?thesis
    by (simp add: r authcode_run mem_ops sample_simps won_world_simps NewUserStore_def sample_user_def
        Let_def sample_rt_def)
qed

theorem code_redeemed_at_most_once_witness:
  "{i. \<exists>out. snd race_end i = Finished (Some 7) out} = {0} \<and>
    status_of (fst race_result) = Some 200 \<and>
    {i. \<exists>out. snd race_end i = Finished None out \<and> status_of out = Some 200} = {}"
proof -
  have r: "reachable race codes_grow race_requests sample_world (fst race_end, snd race_end)"
    using race_reachable by simp
  have z: "snd race_end 0 = Finished (Some 7) (fst race_result)" by (simp add: race_end_def)
  from code_redeemed_at_most_once [OF r] z
  have "i = 0" if "snd race_end i = Finished (Some 7) out" for i out using that by blast
  with z have "{i. \<exists>out. snd race_end i = Finished (Some 7) out} = {0}" by auto
  moreover have "{i. \<exists>out. snd race_end i = Finished None out \<and> status_of out = Some 200} = {}"
    using code_redeemed_at_most_once [OF r] by blast
  ultimately show ?thesis using race_wins by blast
qed

subsection \<open>What a successful redemption has checked\<close>

text \<open>
  C2. Over any stores: the code grant answers 200 only if the form names the authenticated
  client, the code exists, is not past its expiry, was issued to that client for that
  redirect URI, its PKCE challenge (if any) is met by the verifier, and this request is the one
  that consumed it. The access token is then issued to the code's user, for the code's scope,
  with the code's creation as authentication time.
\<close>

theorem code_grant_success:
  assumes "authcode_handle cr g rt client form w = (out, w')" "status_of out = Some 200"
  shows "\<exists>cl code info w1 access w2.
    client = Some cl \<and> c_ClientID cl = values_get form ''client_id'' \<and>
    acs_FindByHash (acg_AuthCodes g) (HashToken cr (values_get form ''code'')) w = Inr code \<and>
    now rt 0 \<le> ac_ExpiresAt code \<and> ac_ClientID code = c_ClientID cl \<and>
    ac_RedirectURI code = values_get form ''redirect_uri'' \<and>
    pkce_ok cr code (values_get form ''code_verifier'') \<and>
    acs_MarkConsumed (acg_AuthCodes g) (ac_ID code) (now rt 1) w = (Inr True, w1) \<and>
    us_FindByID (acg_Users g) (ac_UserID code) w1 = Inr info \<and>
    IssueAccessToken cr (acg_Issuer g) rt 2
      \<lparr>at_Subject = ui_UserID info, at_ClientID = c_ClientID cl, at_Scope = ac_Scope code,
       at_ExpiresIn = AccessTokenLifetime cl, at_IssuedAt = zero_time,
       at_AuthTime = Some (ac_CreatedAt code), at_JwtID = []\<rparr> w1 = (Inr access, w2) \<and>
    body_field out ''access_token'' = Some (JStr access)"
proof -
  obtain cl code w1 where c: "authcode_check cr g rt client form w = Inr (cl, code)"
    "acs_MarkConsumed (acg_AuthCodes g) (ac_ID code) (now rt 1) w = (Inr True, w1)"
    "authcode_issue cr g rt cl code w1 = (out, w')"
    using assms by (rule authcode_handle_200)
  obtain info access w2 r where i:
    "us_FindByID (acg_Users g) (ac_UserID code) w1 = Inr info"
    "IssueAccessToken cr (acg_Issuer g) rt 2 (authcode_access_claims cl code info) w1 = (Inr access, w2)"
    "out = token_ok r" "tr_AccessToken r = access"
    using c(3) assms(2) by (rule authcode_issue_200) blast
  from c(1,2) i show ?thesis
    by (auto simp: authcode_check_Inr authcode_access_claims_def)
qed

theorem code_grant_success_witness:
  "\<exists>cl code info w1 access w2.
    Some sample_client = Some cl \<and> c_ClientID cl = ''app'' \<and>
    acs_FindByHash mem_auth_codes (HashToken sample_crypto ''thecode'') sample_world = Inr code \<and>
    now sample_rt 0 \<le> ac_ExpiresAt code \<and> ac_ClientID code = c_ClientID cl \<and>
    ac_RedirectURI code = ''https://app/cb'' \<and> pkce_ok sample_crypto code sample_verifier \<and>
    acs_MarkConsumed mem_auth_codes (ac_ID code) (now sample_rt 1) sample_world = (Inr True, w1) \<and>
    us_FindByID (mem_users sample_crypto sample_rt) (ac_UserID code) w1 = Inr info \<and>
    IssueAccessToken sample_crypto (mem_issuer ''https://as'') sample_rt 2
      \<lparr>at_Subject = ui_UserID info, at_ClientID = c_ClientID cl, at_Scope = ac_Scope code,
       at_ExpiresIn = AccessTokenLifetime cl, at_IssuedAt = zero_time,
       at_AuthTime = Some (ac_CreatedAt code), at_JwtID = []\<rparr> w1 = (Inr access, w2) \<and>
    body_field (fst (authcode_handle sample_crypto sample_grant sample_rt (Some sample_client)
      sample_code_form sample_world)) ''access_token'' = Some (JStr access)"
  using code_grant_success [OF prod.collapse [symmetric] sample_code_redeems]
  by (simp only: mem_grant_simps form_get)

text \<open>
  Replay: after a redemption that succeeded, presenting the same code again, by any client,
  with any other parameters and at any time, is refused and changes nothing.
\<close>

theorem code_replay_refused:
  assumes "authcode_inv (w_codes w)"
    and "authcode_handle cr (mem_authcode_grant cr rt0 url cfg) rt client form w = (out, w')"
    and "status_of out = Some 200" "values_get form' ''code'' = values_get form ''code''"
  shows "\<exists>out'. authcode_handle cr (mem_authcode_grant cr rt0 url cfg) rt' client' form' w' = (out', w') \<and>
    status_of out' \<noteq> Some 200"
proof -
  let ?g = "mem_authcode_grant cr rt0 url cfg"
  obtain cl code w1 where c: "authcode_check cr ?g rt client form w = Inr (cl, code)"
    "acs_MarkConsumed mem_auth_codes (ac_ID code) (now rt 1) w = (Inr True, w1)"
    "authcode_issue cr ?g rt cl code w1 = (out, w')"
    using authcode_handle_200 [OF assms(2,3)] by (metis mem_grant_simps(1))
  have codes: "w_codes w' = w_codes w1" using mem_authcode_issue_codes c(3) by (metis snd_conv)
  have find: "authcode_FindByHash (HashToken cr (values_get form ''code'')) (w_codes w) = Inr code"
    using c(1) by (simp add: authcode_check_Inr mem_auth_codes_def)
  show ?thesis
  proof (cases "authcode_check cr ?g rt' client' form' w'")
    case (Inl o1)
    then show ?thesis using authcode_check_Inl [OF Inl] by (auto simp: authcode_handle_def)
  next
    case (Inr p)
    then obtain cl' code' where p: "authcode_check cr ?g rt' client' form' w' = Inr (cl', code')"
      by (cases p) auto
    have find': "authcode_FindByHash (HashToken cr (values_get form ''code'')) (w_codes w') = Inr code'"
      using p assms(4) by (simp add: authcode_check_Inr mem_auth_codes_def)
    have "authcode_MarkConsumed (ac_ID code) (now rt 1) (w_codes w) = (Inr True, w_codes w')"
      using c(2) codes by (auto simp: mem_auth_codes_def zoom_eq prod_eq_iff)
    with assms(1) find have "code_spent (ac_ID code') (w_codes w')"
      using find' by (rule authcode_found_spent)
    then have "fst (authcode_MarkConsumed (ac_ID code') (now rt' 1) (w_codes w')) \<noteq> Inr True"
      by (rule code_cas.spent_not_won)
    with p show ?thesis
      using code_cas.mark_lost [of "ac_ID code'" "now rt' 1" "w_codes w'"]
      by (auto simp: authcode_handle_def mem_auth_codes_def zoom_eq split: sum.split)
  qed
qed

theorem code_replay_refused_witness:
  "\<exists>out'. authcode_handle sample_crypto sample_grant (sample_runtime 1001 50) (Some sample_client)
      sample_code_form (snd (authcode_handle sample_crypto sample_grant sample_rt (Some sample_client)
        sample_code_form sample_world)) = (out', snd (authcode_handle sample_crypto sample_grant
          sample_rt (Some sample_client) sample_code_form sample_world)) \<and>
    status_of out' \<noteq> Some 200"
proof -
  have "authcode_inv (w_codes sample_world)"
    by (simp add: sample_simps authcode_inv_def)
  from code_replay_refused [OF this prod.collapse [symmetric] sample_code_redeems refl]
  show ?thesis .
qed

end
