(* ===== verification/Refresh_Properties.thy ===== *)
theory Refresh_Properties
  imports Sample
begin

section \<open>Properties of the refresh token grant\<close>

text \<open>
  Rotation, reuse detection and down-scoping, on the in-memory stores, with the runs of the
  small deployment of Sample as witnesses.
\<close>

subsection \<open>The store after each phase\<close>

text \<open>What a won compare-and-set makes of a token the lineage holds.\<close>

lemma mem_won_token:
  assumes "lineage (w_refresh w)" "rts_FindByHash mem_refresh_tokens h w = Inr t"
    and "rts_MarkConsumed mem_refresh_tokens (rt_ID t) at w = (Inr True, w1)"
  shows "rt_ConsumedAt t = None" "rtm_byHash (w_refresh w1) = rtm_byHash (w_refresh w)"
    "gm_get (rtm_tokens (w_refresh w1)) =
      (gm_get (rtm_tokens (w_refresh w)))(rt_ID t \<mapsto> t\<lparr>rt_ConsumedAt := Some at\<rparr>)"
proof -
  have t: "gm_get (rtm_tokens (w_refresh w)) (rt_ID t) = Some t"
    using mem_find_hash [OF assms(1,2)] .
  obtain e where "gm_get (rtm_tokens (w_refresh w)) (rt_ID t) = Some e" "rt_ConsumedAt e = None"
    "rtm_byHash (w_refresh w1) = rtm_byHash (w_refresh w)"
    "gm_get (rtm_tokens (w_refresh w1)) =
      (gm_get (rtm_tokens (w_refresh w)))(rt_ID t \<mapsto> e\<lparr>rt_ConsumedAt := Some at\<rparr>)"
    using assms(3) by (rule mem_mark_won)
  with t show "rt_ConsumedAt t = None" "rtm_byHash (w_refresh w1) = rtm_byHash (w_refresh w)"
    "gm_get (rtm_tokens (w_refresh w1)) =
      (gm_get (rtm_tokens (w_refresh w)))(rt_ID t \<mapsto> t\<lparr>rt_ConsumedAt := Some at\<rparr>)"
    by auto
qed

text \<open>A refresh that is answered 200 went through every phase.\<close>

lemma refresh_200_run:
  assumes "refresh_handle cr (mem_refresh_grant cr' rt0 url cfg) rt client form w = (out, w')"
    and "status_of out = Some 200"
  obtains cl t w1 w2 sc gr resp where
    "refresh_check cr (mem_refresh_grant cr' rt0 url cfg) rt client form w = Inr (cl, t)"
    "rts_MarkConsumed mem_refresh_tokens (rt_ID t) (now rt 0) w = (Inr True, w1)"
    "narrow_scope (values_get form ''scope'') (rt_Scope t) = Some (sc, gr)"
    "w_refresh w2 = w_refresh w1" "tr_RefreshToken resp = []"
    "refresh_rotate cr (mem_refresh_grant cr' rt0 url cfg) rt cl t sc gr resp w2 = (out, w')"
proof -
  let ?g = "mem_refresh_grant cr' rt0 url cfg"
  obtain cl t w1 where c: "refresh_check cr ?g rt client form w = Inr (cl, t)"
    "rts_MarkConsumed mem_refresh_tokens (rt_ID t) (now rt 0) w = (Inr True, w1)"
    "refresh_issue cr ?g rt cl form t w1 = (out, w')"
    using refresh_handle_200 [OF assms] by (metis mem_grant_simps(6))
  obtain info sc gr access idt wa wb where i:
    "narrow_scope (values_get form ''scope'') (rt_Scope t) = Some (sc, gr)"
    "IssueAccessToken cr (mem_issuer url) rt 2
       (refresh_access_claims cl t sc (chainRootCreatedAt mem_refresh_tokens t w1)) w1 = (Inr access, wa)"
    "refresh_id_token cr ?g rt cl t info sc gr (chainRootCreatedAt mem_refresh_tokens t w1) access wa
       = (Inr idt, wb)"
    "refresh_rotate cr ?g rt cl t sc gr
       \<lparr>tr_AccessToken = access, tr_TokenType = ''Bearer'',
        tr_ExpiresIn = duration_seconds (AccessTokenLifetime cl),
        tr_RefreshToken = [], tr_IDToken = idt, tr_Scope = sc\<rparr> wb = (out, w')"
    using refresh_issue_200 [OF c(3) assms(2)] by (metis mem_grant_simps(6,9))
  have "w_refresh wa = w_refresh w1" using i(2) by (metis mem_issue_frame(3) snd_conv)
  moreover have "w_refresh wb = w_refresh wa" using i(3) by (metis mem_refresh_id_token_refresh snd_conv)
  ultimately show ?thesis using that [OF c(1,2) i(1) _ _ i(4)] by simp
qed

text \<open>A new refresh token on the wire comes from a rotation that was stored.\<close>

lemma refresh_token_issued:
  assumes "refresh_handle cr (mem_refresh_grant cr' rt0 url cfg) rt client form w = (out, w')"
    and "body_field out ''refresh_token'' = Some (JStr raw)"
  obtains cl t w1 w2 sc gr where
    "refresh_check cr (mem_refresh_grant cr' rt0 url cfg) rt client form w = Inr (cl, t)"
    "rts_MarkConsumed mem_refresh_tokens (rt_ID t) (now rt 0) w = (Inr True, w1)"
    "narrow_scope (values_get form ''scope'') (rt_Scope t) = Some (sc, gr)"
    "w_refresh w2 = w_refresh w1"
    "rts_Store mem_refresh_tokens (Some (rotated_token rt cl t sc (HashToken cr raw))) w2 = (None, w')"
proof -
  let ?g = "mem_refresh_grant cr' rt0 url cfg"
  have ok: "status_of out = Some 200"
  proof (rule ccontr)
    assume "status_of out \<noteq> Some 200"
    with assms show False
      by (auto simp: refresh_handle_def refresh_check_def refresh_issue_def refresh_rotate_def
          handleReuse_def Let_def error_response_def error_body_def server_error_def json_field_def
          split: sum.splits prod.splits option.splits if_splits)
  qed
  obtain cl t w1 w2 sc gr resp where c: "refresh_check cr ?g rt client form w = Inr (cl, t)"
    "rts_MarkConsumed mem_refresh_tokens (rt_ID t) (now rt 0) w = (Inr True, w1)"
    "narrow_scope (values_get form ''scope'') (rt_Scope t) = Some (sc, gr)" "w_refresh w2 = w_refresh w1"
    and rot: "tr_RefreshToken resp = []" "refresh_rotate cr ?g rt cl t sc gr resp w2 = (out, w')"
    by (rule refresh_200_run [OF assms(1) ok])
  from refresh_rotate_200 [OF rot(2) ok] assms(2) rot(1) obtain raw' where
    "rts_Store mem_refresh_tokens (Some (rotated_token rt cl t sc (HashToken cr raw'))) w2 = (None, w')"
    "out = token_ok (resp\<lparr>tr_RefreshToken := raw'\<rparr>)"
    by auto
  moreover from this(2) assms(2) have "raw' = raw" by (auto split: if_splits)
  ultimately show ?thesis using that [OF c] by simp
qed

text \<open>A request whose token is consumed already goes to reuse detection.\<close>

lemma refresh_handle_lost:
  assumes "refresh_check cr (mem_refresh_grant cr' rt0 url cfg) rt client form w = Inr (cl, t)"
    and "gm_get (rtm_tokens (w_refresh w)) (rt_ID t) = Some t" "rt_ConsumedAt t \<noteq> None" "rc_DetectReuse cfg"
  shows "refresh_handle cr (mem_refresh_grant cr' rt0 url cfg) rt client form w =
    (fail_with 400 ''invalid_grant'' ''refresh token reuse detected'',
     snd (handleReuse cr (mem_refresh_grant cr' rt0 url cfg) rt t w))"
proof -
  let ?g = "mem_refresh_grant cr' rt0 url cfg"
  have "rts_MarkConsumed mem_refresh_tokens (rt_ID t) (now rt 0) w = (Inr False, w)"
    using assms(2,3) by (auto simp: mem_refresh_tokens_def zoom_eq refresh_MarkConsumed_def)
  then have "refresh_handle cr ?g rt client form w = handleReuse cr ?g rt t w"
    using assms(1,4) by (simp add: refresh_handle_def)
  then show ?thesis using handleReuse_out [of cr ?g rt t w] by (simp add: prod_eq_iff)
qed

subsection \<open>Rotation\<close>

text \<open>\<open>rand.Read\<close> fills the buffer it is given or fails.\<close>

definition full_reads :: "runtime \<Rightarrow> bool" where
  "full_reads rt \<longleftrightarrow> (\<forall>k n b. random_bytes rt k n = Some b \<longrightarrow> length b = n)"

lemma NewOpaqueToken_not_Nil: "full_reads rt \<Longrightarrow> NewOpaqueToken cr rt k = Some (raw, h) \<Longrightarrow> raw \<noteq> []"
  by (fastforce simp: NewOpaqueToken_def full_reads_def OpaqueTokenBytes_def Let_def split: option.splits)

lemma full_reads_sample [simp]: "full_reads sample_rt"
  by (simp add: full_reads_def sample_rt_def sample_simps)

text \<open>
  C5. Rotation: a refresh that is answered 200 has consumed the token presented, which belonged to
  the client and was neither consumed nor revoked nor expired. When the client may use refresh
  tokens and the scope of the answer keeps \<open>offline_access\<close>, the answer has a new token, and a live
  successor that the new value (and only its hash) finds is stored: with the same client, user,
  session and absolute expiry, the old token as its parent, and a scope covered by the old one.
  Otherwise there is no new token, in the answer or in the store. No other token changes.
\<close>

theorem refresh_rotation:
  assumes "lineage (w_refresh w)" "\<not> refresh_id_used w (new_uuid rt 8)"
    and "refresh_handle cr (mem_refresh_grant cr' rt0 url cfg) rt client form w = (out, w')"
    and "status_of out = Some 200" "full_reads rt"
  shows "\<exists>cl t scope granted. client = Some cl \<and>
    refresh_FindByHash (HashToken cr (values_get form ''refresh_token'')) (w_refresh w) = Inr t \<and>
    rt_ClientID t = c_ClientID cl \<and> rt_ConsumedAt t = None \<and> rt_RevokedAt t = None \<and>
    now rt 0 \<le> rt_ExpiresAt t \<and> now rt 0 \<le> rt_AbsoluteExpiresAt t \<and>
    narrow_scope (values_get form ''scope'') (rt_Scope t) = Some (scope, granted) \<and>
    (let old = t\<lparr>rt_ConsumedAt := Some (now rt 0)\<rparr>; before = gm_get (rtm_tokens (w_refresh w));
         after = gm_get (rtm_tokens (w_refresh w'))
     in if c_AllowRefreshTokens cl \<and> ''offline_access'' \<in> set granted then
          \<exists>raw t'. body_field out ''refresh_token'' = Some (JStr raw) \<and>
            refresh_FindByHash (HashToken cr raw) (w_refresh w') = Inr t' \<and>
            descends t' old \<and> rt_ParentTokenID t' = Some (rt_ID t) \<and> rt_Scope t' = scope \<and>
            rt_ConsumedAt t' = None \<and> rt_RevokedAt t' = None \<and> rt_ID t' \<noteq> rt_ID t \<and>
            after = before(rt_ID t \<mapsto> old, rt_ID t' \<mapsto> t')
        else body_field out ''refresh_token'' = None \<and> after = before(rt_ID t \<mapsto> old))"
proof -
  let ?g = "mem_refresh_grant cr' rt0 url cfg"
  obtain cl t w1 w2 sc gr resp where c: "refresh_check cr ?g rt client form w = Inr (cl, t)"
    "rts_MarkConsumed mem_refresh_tokens (rt_ID t) (now rt 0) w = (Inr True, w1)"
    "narrow_scope (values_get form ''scope'') (rt_Scope t) = Some (sc, gr)" "w_refresh w2 = w_refresh w1"
    and rot: "tr_RefreshToken resp = []" "refresh_rotate cr ?g rt cl t sc gr resp w2 = (out, w')"
    by (rule refresh_200_run [OF assms(3,4)])
  have f: "client = Some cl" "refresh_FindByHash (HashToken cr (values_get form ''refresh_token'')) (w_refresh w) = Inr t"
    "rt_ClientID t = c_ClientID cl" "rt_RevokedAt t = None" "now rt 0 \<le> rt_AbsoluteExpiresAt t" "now rt 0 \<le> rt_ExpiresAt t"
    using c(1) by (simp_all add: refresh_check_Inr mem_refresh_tokens_def)
  then have "rts_FindByHash mem_refresh_tokens (HashToken cr (values_get form ''refresh_token'')) w = Inr t"
    by (simp add: mem_refresh_tokens_def)
  note won = mem_won_token [OF assms(1) this c(2)] and t = mem_find_hash [OF assms(1) this]
  let ?old = "t\<lparr>rt_ConsumedAt := Some (now rt 0)\<rparr>"
  show ?thesis
  proof (cases "c_AllowRefreshTokens cl \<and> ''offline_access'' \<in> set gr")
    case True
    with refresh_rotate_200 [OF rot(2) assms(4)] obtain raw where new: "NewOpaqueToken cr rt 6 = Some (raw, HashToken cr raw)"
      "rts_Store mem_refresh_tokens (Some (rotated_token rt cl t sc (HashToken cr raw))) w2 = (None, w')"
      "out = token_ok (resp\<lparr>tr_RefreshToken := raw\<rparr>)" by auto
    let ?n = "rotated_token rt cl t sc (HashToken cr raw)"
    have h: "HashToken cr raw \<noteq> []" and w': "w_refresh w' = (w_refresh w1)
        \<lparr>rtm_tokens := gm_put (new_uuid rt 8) ?n (rtm_tokens (w_refresh w1)),
         rtm_byHash := gm_put (HashToken cr raw) (new_uuid rt 8) (rtm_byHash (w_refresh w1))\<rparr>"
      using new(2) c(4) by (auto simp: mem_refresh_tokens_def zoom_eq refresh_Store_def rotated_token_bounds split: if_splits)
    have "rt_ID t \<noteq> new_uuid rt 8" using assms(2) t by (auto simp: refresh_id_used_def)
    moreover have "descends ?n ?old"
      using f(3) narrow_scope_subset [OF c(3)] by (intro rotated_descends) (simp_all add: mild_def)
    moreover have "raw \<noteq> []" by (rule NewOpaqueToken_not_Nil [OF assms(5) new(1)])
    ultimately show ?thesis
      using True f won c(3) new(3)
      by (intro exI [of _ cl] exI [of _ t] exI [of _ sc] exI [of _ gr])
        (auto simp: Let_def w' refresh_FindByHash_def rotated_token_bounds intro!: exI [of _ ?n])
  next
    case False
    with refresh_rotate_200 [OF rot(2) assms(4)] have "w' = w2" "out = token_ok resp" by auto
    with False f won c(3,4) rot(1) show ?thesis
      by (intro exI [of _ cl] exI [of _ t] exI [of _ sc] exI [of _ gr]) (auto simp: Let_def)
  qed
qed

lemma token_world_lineage: "lineage (w_refresh token_world)"
  by (simp add: lineage_def refresh_inv_def sample_simps)

definition rotated_run :: "outcome \<times> world" where
  "rotated_run = refresh_handle sample_crypto sample_rgrant sample_rt (Some sample_client)
     sample_refresh_form token_world"

lemma rotated_run_eq: "refresh_handle sample_crypto sample_rgrant sample_rt (Some sample_client)
    sample_refresh_form token_world = (fst rotated_run, snd rotated_run)"
  by (simp add: rotated_run_def)

definition sample_raw :: string where
  "sample_raw = b64url (replicate 32 (char_of (26 :: nat)))"

lemma sample_raw_not_Nil: "sample_raw \<noteq> []"
  by (simp add: sample_raw_def)

lemma rotated_run_token: "body_field (fst rotated_run) ''refresh_token'' = Some (JStr sample_raw)"
  using sample_raw_not_Nil
  by (simp add: rotated_run_def refresh_run mem_ops sample_simps sample_rt_def Let_def NewUserStore_def
      sample_user_def rotated_token_bounds sample_raw_def)

lemma rotated_run_status: "status_of (fst rotated_run) = Some 200"
  by (simp add: rotated_run_def refresh_run mem_ops sample_simps sample_rt_def Let_def NewUserStore_def
      sample_user_def rotated_token_bounds)

theorem refresh_rotation_witness:
  "\<exists>t t'. refresh_FindByHash (HashToken sample_crypto ''raw'') (w_refresh token_world) = Inr t \<and>
    rt_ConsumedAt t = None \<and>
    refresh_FindByHash (HashToken sample_crypto sample_raw) (w_refresh (snd rotated_run)) = Inr t' \<and>
    descends t' (t\<lparr>rt_ConsumedAt := Some (now sample_rt 0)\<rparr>) \<and> rt_ParentTokenID t' = Some (rt_ID t) \<and>
    gm_get (rtm_tokens (w_refresh (snd rotated_run))) = (gm_get (rtm_tokens (w_refresh token_world)))
      (rt_ID t \<mapsto> t\<lparr>rt_ConsumedAt := Some (now sample_rt 0)\<rparr>, rt_ID t' \<mapsto> t')"
proof -
  have "\<not> refresh_id_used token_world (new_uuid sample_rt 8)"
    by (simp add: refresh_id_used_def sample_simps sample_rt_def)
  from refresh_rotation [OF token_world_lineage this rotated_run_eq rotated_run_status full_reads_sample] rotated_run_token
  show ?thesis by (auto simp: sample_simps Let_def split: if_splits)
qed

subsection \<open>Reuse detection\<close>

text \<open>
  C6. Reuse: presenting a refresh token that was consumed before is refused, every token of its
  session is revoked (of the token alone when it has no session), every other token is left as
  it was, and an audit entry names the user and the token.
\<close>

theorem refresh_reuse_detected:
  assumes "refresh_check cr (mem_refresh_grant cr' rt0 url cfg) rt client form w = Inr (cl, t)"
    and "lineage (w_refresh w)" "rt_ConsumedAt t \<noteq> None" "rc_DetectReuse cfg"
  shows "\<exists>w'. refresh_handle cr (mem_refresh_grant cr' rt0 url cfg) rt client form w =
      (fail_with 400 ''invalid_grant'' ''refresh token reuse detected'', w') \<and>
    w_audit w' = w_audit w @ [reuse_audit cr rt t] \<and>
    (\<forall>i u. gm_get (rtm_tokens (w_refresh w')) i = Some u \<longrightarrow>
      (rt_SessionID u \<noteq> None \<and> rt_SessionID u = rt_SessionID t \<longrightarrow> rt_RevokedAt u \<noteq> None)) \<and>
    (\<exists>u. refresh_FindByID (rt_ID t) (w_refresh w') = Inr u \<and> rt_RevokedAt u \<noteq> None) \<and>
    (\<forall>i u. gm_get (rtm_tokens (w_refresh w)) i = Some u \<longrightarrow> i \<noteq> rt_ID t \<longrightarrow>
      rt_SessionID t = None \<or> rt_SessionID u \<noteq> rt_SessionID t \<longrightarrow>
      gm_get (rtm_tokens (w_refresh w')) i = Some u)"
proof -
  let ?g = "mem_refresh_grant cr' rt0 url cfg"
  have t: "gm_get (rtm_tokens (w_refresh w)) (rt_ID t) = Some t"
    using assms(1) mem_find_hash [OF assms(2)] by (auto simp: refresh_check_Inr)
  let ?w' = "snd (handleReuse cr ?g rt t w)"
  have h: "refresh_handle cr ?g rt client form w =
      (fail_with 400 ''invalid_grant'' ''refresh token reuse detected'', ?w')"
    using refresh_handle_lost [OF assms(1) t assms(3,4)] .
  have au: "w_audit ?w' = w_audit w @ [reuse_audit cr rt t]"
    by (simp add: handleReuse_def Let_def mem_audit_logs_def mem_refresh_tokens_def audit_Store_def
        split: option.split)
  have "rt_RevokedAt t = None" using assms(1) by (simp add: refresh_check_Inr)
  then show ?thesis
    using h au t
    by (intro exI [of _ ?w'])
      (auto simp: mem_handleReuse_refresh refresh_RevokeBySessionID_def refresh_Revoke_def
        refresh_FindByID_def split: option.splits if_splits)
qed

definition spent_world :: world where
  "spent_world = token_world
    \<lparr>w_refresh := \<lparr>rtm_tokens = [(40, sample_token\<lparr>rt_ConsumedAt := Some 600\<rparr>)], rtm_byHash = [(''cmE'', 40)]\<rparr>\<rparr>"

lemma spent_world_simps [sample_simps]:
  "w_refresh spent_world =
    \<lparr>rtm_tokens = [(40, sample_token\<lparr>rt_ConsumedAt := Some 600\<rparr>)], rtm_byHash = [(''cmE'', 40)]\<rparr>"
  "w_audit spent_world = []" "w_users spent_world = w_users sample_world"
  "w_signing spent_world = w_signing sample_world"
  by (simp_all add: spent_world_def sample_simps)

theorem refresh_reuse_detected_witness:
  "\<exists>w' u. refresh_handle sample_crypto sample_rgrant sample_rt (Some sample_client) sample_refresh_form
      spent_world = (fail_with 400 ''invalid_grant'' ''refresh token reuse detected'', w') \<and>
    length (w_audit w') = 1 \<and> refresh_FindByID 40 (w_refresh w') = Inr u \<and> rt_RevokedAt u \<noteq> None"
proof -
  have c: "refresh_check sample_crypto sample_rgrant sample_rt (Some sample_client) sample_refresh_form
      spent_world = Inr (sample_client, sample_token\<lparr>rt_ConsumedAt := Some 600\<rparr>)"
    by (simp add: refresh_run mem_ops sample_simps sample_rt_def Let_def)
  have l: "lineage (w_refresh spent_world)"
    by (simp add: lineage_def refresh_inv_def sample_simps)
  show ?thesis
    using refresh_reuse_detected [OF c l] by (auto simp: sample_simps sample_rcfg_def)
qed

subsection \<open>Scope\<close>

text \<open>
  A request for more scope than was granted is refused, but only after the compare-and-set:
  the refresh token is spent, no successor is issued, and a retry without the parameter is
  treated as the reuse of a stolen token.
\<close>

theorem refresh_bad_scope_spends_token:
  assumes "refresh_check cr (mem_refresh_grant cr' rt0 url cfg) rt client form w = Inr (cl, t)"
    and "lineage (w_refresh w)" "rt_ConsumedAt t = None" "rc_DetectReuse cfg"
    and "us_FindByID (mem_users cr' rt0) (rt_UserID t) w = Inr info"
    and "narrow_scope (values_get form ''scope'') (rt_Scope t) = None"
    and retry: "values_get form2 ''refresh_token'' = values_get form ''refresh_token''"
      "values_get form2 ''client_id'' = values_get form ''client_id''"
      "now rt2 0 \<le> rt_ExpiresAt t" "now rt2 0 \<le> rt_AbsoluteExpiresAt t"
  shows "\<exists>w' w2. refresh_handle cr (mem_refresh_grant cr' rt0 url cfg) rt client form w =
      (fail_with 400 ''invalid_scope'' ''requested scope is broader than the granted scope'', w') \<and>
    refresh_FindByID (rt_ID t) (w_refresh w') = Inr (t\<lparr>rt_ConsumedAt := Some (now rt 0)\<rparr>) \<and>
    refresh_handle cr (mem_refresh_grant cr' rt0 url cfg) rt2 client form2 w' =
      (fail_with 400 ''invalid_grant'' ''refresh token reuse detected'', w2)"
proof -
  let ?g = "mem_refresh_grant cr' rt0 url cfg"
  note c = assms(1) [unfolded refresh_check_Inr mem_grant_simps]
  have f: "rts_FindByHash mem_refresh_tokens (HashToken cr (values_get form ''refresh_token'')) w = Inr t"
    using c by simp
  have t: "gm_get (rtm_tokens (w_refresh w)) (rt_ID t) = Some t" using mem_find_hash [OF assms(2) f] .
  obtain w1 where w1: "rts_MarkConsumed mem_refresh_tokens (rt_ID t) (now rt 0) w = (Inr True, w1)"
    using t assms(3) by (simp add: mem_refresh_tokens_def zoom_eq refresh_MarkConsumed_def)
  note won = mem_won_token [OF assms(2) f w1]
  have u: "us_FindByID (mem_users cr' rt0) (rt_UserID t) w1 = Inr info"
    using assms(5) w1 by (auto simp: mem_users_def mem_refresh_tokens_def zoom_eq)
  have h: "refresh_handle cr ?g rt client form w =
      (fail_with 400 ''invalid_scope'' ''requested scope is broader than the granted scope'', w1)"
    using assms(1,6) w1 u by (simp add: refresh_handle_def refresh_issue_def)
  let ?t1 = "t\<lparr>rt_ConsumedAt := Some (now rt 0)\<rparr>"
  have t1: "gm_get (rtm_tokens (w_refresh w1)) (rt_ID t) = Some ?t1" by (simp add: won(3))
  have f1: "rts_FindByHash mem_refresh_tokens (HashToken cr (values_get form ''refresh_token'')) w1 = Inr ?t1"
  proof -
    obtain i where i: "gm_get (rtm_byHash (w_refresh w)) (HashToken cr (values_get form ''refresh_token'')) = Some i"
      using f by (auto simp: mem_refresh_tokens_def refresh_FindByHash_def split: option.splits)
    then obtain v where v: "gm_get (rtm_tokens (w_refresh w)) i = Some v" "rt_ID v = i"
      using assms(2) unfolding lineage_def refresh_inv_def by blast
    then have "v = t" using f i by (simp add: mem_refresh_tokens_def refresh_FindByHash_def)
    with i v t1 show ?thesis by (simp add: mem_refresh_tokens_def refresh_FindByHash_def won(2))
  qed
  have c2: "refresh_check cr ?g rt2 client form2 w1 = Inr (cl, ?t1)"
    using c f1 retry by (auto simp: refresh_check_Inr)
  have "gm_get (rtm_tokens (w_refresh w1)) (rt_ID ?t1) = Some ?t1" using t1 by simp
  from refresh_handle_lost [OF c2 this _ assms(4)]
  have "refresh_handle cr ?g rt2 client form2 w1 =
      (fail_with 400 ''invalid_grant'' ''refresh token reuse detected'', snd (handleReuse cr ?g rt2 ?t1 w1))"
    by simp
  with h t1 show ?thesis by (auto simp: refresh_FindByID_def)
qed

definition broad_form :: url_values where
  "broad_form = (''scope'', [''openid admin'']) # sample_refresh_form"

lemma broad_form_get [sample_simps]:
  "values_get broad_form ''client_id'' = ''app''" "values_get broad_form ''refresh_token'' = ''raw''"
  "values_get broad_form ''scope'' = ''openid admin''"
  by (simp_all add: broad_form_def sample_refresh_form_def values_get_def)

lemma broad_fields [sample_simps]: "str_fields ''openid admin'' = [''openid'', ''admin'']"
  by code_simp

theorem refresh_bad_scope_spends_token_witness:
  "\<exists>w' w2. refresh_handle sample_crypto sample_rgrant sample_rt (Some sample_client) broad_form token_world =
      (fail_with 400 ''invalid_scope'' ''requested scope is broader than the granted scope'', w') \<and>
    refresh_handle sample_crypto sample_rgrant (sample_runtime 1001 90) (Some sample_client)
      sample_refresh_form w' = (fail_with 400 ''invalid_grant'' ''refresh token reuse detected'', w2)"
proof -
  have c: "refresh_check sample_crypto sample_rgrant sample_rt (Some sample_client) broad_form
      token_world = Inr (sample_client, sample_token)"
    by (simp add: refresh_run mem_ops sample_simps sample_rt_def Let_def)
  have u: "\<exists>info. us_FindByID (mem_users sample_crypto sample_rt) (rt_UserID sample_token) token_world = Inr info"
    by (simp add: mem_ops sample_simps Let_def NewUserStore_def sample_user_def)
  have n: "narrow_scope (values_get broad_form ''scope'') (rt_Scope sample_token) = None"
    by (simp add: narrow_scope_def sample_simps Let_def subset_of_def)
  from u obtain info where
    "us_FindByID (mem_users sample_crypto sample_rt) (rt_UserID sample_token) token_world = Inr info" ..
  from refresh_bad_scope_spends_token [OF c token_world_lineage _ _ this n, of sample_refresh_form
      "sample_runtime 1001 90"]
  show ?thesis by (auto simp: sample_simps sample_rcfg_def)
qed

text \<open>
  Scopes never widen: the scope of the answer, and of the access token behind it, is
  covered by the scope of the refresh token presented; without a scope parameter it is the same.
\<close>

theorem refresh_scope_never_widens:
  assumes "refresh_handle cr g rt client form w = (out, w')" "status_of out = Some 200"
  shows "\<exists>t sc access w1 w2 authTime cl.
    rts_FindByHash (rg_RefreshTokens g) (HashToken cr (values_get form ''refresh_token'')) w = Inr t \<and>
    IssueAccessToken cr (rg_Issuer g) rt 2 (refresh_access_claims cl t sc authTime) w1 = (Inr access, w2) \<and>
    client = Some cl \<and> body_field out ''access_token'' = Some (JStr access) \<and>
    body_field out ''scope'' = (if sc = [] then None else Some (JStr sc)) \<and>
    set (str_fields sc) \<subseteq> set (str_fields (rt_Scope t)) \<and>
    (values_get form ''scope'' = [] \<longrightarrow> sc = rt_Scope t)"
proof -
  obtain cl t w1 where c: "refresh_check cr g rt client form w = Inr (cl, t)"
    "refresh_issue cr g rt cl form t w1 = (out, w')"
    using refresh_handle_200 [OF assms] by metis
  obtain sc gr access idt w2 w3 where i:
    "narrow_scope (values_get form ''scope'') (rt_Scope t) = Some (sc, gr)"
    "IssueAccessToken cr (rg_Issuer g) rt 2
       (refresh_access_claims cl t sc (chainRootCreatedAt (rg_RefreshTokens g) t w1)) w1 = (Inr access, w2)"
    "refresh_rotate cr g rt cl t sc gr
       \<lparr>tr_AccessToken = access, tr_TokenType = ''Bearer'',
        tr_ExpiresIn = duration_seconds (AccessTokenLifetime cl),
        tr_RefreshToken = [], tr_IDToken = idt, tr_Scope = sc\<rparr> w3 = (out, w')"
    using refresh_issue_200 [OF c(2) assms(2)] by metis
  have out: "body_field out ''access_token'' = Some (JStr access)"
    "body_field out ''scope'' = (if sc = [] then None else Some (JStr sc))"
    using refresh_rotate_200 [OF i(3) assms(2)] by auto
  have "values_get form ''scope'' = [] \<longrightarrow> sc = rt_Scope t"
    using i(1) by (auto simp: narrow_scope_def Let_def)
  moreover have "client = Some cl"
    "rts_FindByHash (rg_RefreshTokens g) (HashToken cr (values_get form ''refresh_token'')) w = Inr t"
    using c(1) by (simp_all add: refresh_check_Inr)
  ultimately show ?thesis using i(2) out narrow_scope_subset [OF i(1)] by blast
qed

theorem refresh_scope_never_widens_witness:
  "\<exists>sc access. body_field (fst rotated_run) ''access_token'' = Some (JStr access) \<and>
    body_field (fst rotated_run) ''scope'' = (if sc = [] then None else Some (JStr sc)) \<and>
    set (str_fields sc) \<subseteq> {''openid'', ''offline_access''}"
proof -
  have "status_of (fst rotated_run) = Some 200"
    unfolding rotated_run_def by (rule sample_refresh_rotates)
  from refresh_scope_never_widens [OF rotated_run_eq this]
  show ?thesis by (force simp: mem_refresh_tokens_def refresh_FindByHash_def sample_simps)
qed

end
