(* ===== verification/Refresh_Race.thy ===== *)
theory Refresh_Race
  imports Refresh_Properties
begin

section \<open>Concurrent refreshes\<close>

text \<open>
  Any number of requests with refresh tokens at once: a token rotates at most once. One run of
  two requests serves both as the witness of that and as the counterexample to a stronger
  hope: the revocation of the loser does not reach the successor its winner stores afterwards.
\<close>

text \<open>
  C7. However many token requests run at once, in any interleaving with each other and with
  anything that does not un-consume a token, no two of them get past the compare-and-set with
  the same refresh token, and a request that does not get past it never answers 200. The ids the
  requests draw are not in use when they are drawn.
\<close>

theorem refresh_rotates_at_most_once:
  assumes "reachable (refresh_redeemer cr (mem_refresh_grant cr rt0 url cfg) refresh_id_used)
    refresh_grow q w0 (w, ts)"
  shows "(\<forall>i j k o1 o2. ts i = Finished (Some k) o1 \<longrightarrow> ts j = Finished (Some k) o2 \<longrightarrow> i = j) \<and>
    (\<forall>i out. ts i = Finished None out \<longrightarrow> status_of out \<noteq> Some 200)"
  using refresh_use.inv_reachable [OF assms] unfolding refresh_use.inv_def
  by (metis holds_id.simps(2) snd_conv)

subsection \<open>The run\<close>

definition pair_requests :: "nat \<Rightarrow> grant_request" where
  "pair_requests i = (sample_runtime 1000 (20 + 100 * i), Some sample_client, sample_refresh_form)"

abbreviation rrace :: "(grant_request, client \<times> refresh_token, world) redeemer" where
  "rrace \<equiv> refresh_redeemer sample_crypto sample_rgrant refresh_id_used"

abbreviation rrace_token :: "client \<times> refresh_token" where
  "rrace_token \<equiv> (sample_client, sample_token)"

definition taken_world :: world where
  "taken_world = snd (rd_mark rrace (pair_requests 0) rrace_token token_world)"

definition revoked_world :: world where
  "revoked_world = snd (rd_lost rrace (pair_requests 1) rrace_token taken_world)"

definition rrace_result :: "outcome \<times> world" where
  "rrace_result = rd_issue rrace (pair_requests 0) rrace_token revoked_world"

abbreviation reuse_answer :: outcome where
  "reuse_answer \<equiv> fail_with 400 ''invalid_grant'' ''refresh token reuse detected''"

definition rrace_end :: "(client \<times> refresh_token, world) system" where
  "rrace_end = (snd rrace_result,
     (\<lambda>_. Idle)(0 := Finished (Some 40) (fst rrace_result), 1 := Finished None reuse_answer))"

lemma taken_world_simps [sample_simps]:
  "w_refresh taken_world =
    \<lparr>rtm_tokens = [(40, sample_token\<lparr>rt_ConsumedAt := Some 1000\<rparr>)], rtm_byHash = [(''cmE'', 40)]\<rparr>"
  "w_users taken_world = w_users sample_world" "w_signing taken_world = w_signing sample_world"
  by (simp_all add: taken_world_def refresh_redeemer_def pair_requests_def mem_ops sample_simps)

lemma revoked_world_simps [sample_simps]:
  "w_refresh revoked_world =
    \<lparr>rtm_tokens = [(40, sample_token\<lparr>rt_ConsumedAt := Some 1000, rt_RevokedAt := Some 1000\<rparr>)],
     rtm_byHash = [(''cmE'', 40)]\<rparr>"
  "w_users revoked_world = w_users sample_world" "w_signing revoked_world = w_signing sample_world"
proof -
  have r: "revoked_world = snd (handleReuse sample_crypto sample_rgrant (sample_runtime 1000 120) sample_token taken_world)"
    by (simp add: revoked_world_def refresh_redeemer_def pair_requests_def sample_rcfg_def)
  show "w_refresh revoked_world =
    \<lparr>rtm_tokens = [(40, sample_token\<lparr>rt_ConsumedAt := Some 1000, rt_RevokedAt := Some 1000\<rparr>)],
     rtm_byHash = [(''cmE'', 40)]\<rparr>"
    by (simp add: r mem_handleReuse_refresh sample_simps refresh_RevokeBySessionID_def gm_map_def revoke_if_def)
  show "w_users revoked_world = w_users sample_world" "w_signing revoked_world = w_signing sample_world"
    by (simp_all add: r handleReuse_def Let_def sample_simps mem_refresh_tokens_def mem_audit_logs_def
        split: option.split)
qed

lemma rrace_checks: "rd_check rrace (pair_requests i) token_world = Inr rrace_token"
  by (simp add: refresh_redeemer_def pair_requests_def refresh_run mem_ops sample_simps Let_def)

lemma rrace_wins: "rd_mark rrace (pair_requests 0) rrace_token token_world = (Inr True, taken_world)"
  by (simp add: taken_world_def refresh_redeemer_def pair_requests_def mem_ops sample_simps)

lemma rrace_loses: "rd_mark rrace (pair_requests 1) rrace_token taken_world = (Inr False, taken_world)"
  by (simp add: refresh_redeemer_def pair_requests_def mem_ops sample_simps)

lemma rrace_reuse: "rd_lost rrace (pair_requests 1) rrace_token taken_world = (reuse_answer, revoked_world)"
  by (simp add: prod_eq_iff revoked_world_def refresh_redeemer_def pair_requests_def handleReuse_out
      sample_rcfg_def)

lemma rrace_reachable: "reachable rrace refresh_grow pair_requests token_world rrace_end"
proof -
  let ?s = "rstep rrace refresh_grow pair_requests"
  let ?c = "(\<lambda>_. Idle)(0 := Checked rrace_token)"
  let ?d = "?c(1 := Checked rrace_token)"
  have "?s (token_world, \<lambda>_. Idle) (token_world, ?c)"
    by (rule check_ok) (simp_all add: rrace_checks)
  moreover have "?s (token_world, ?c) (token_world, ?d)"
    by (rule check_ok) (simp_all add: rrace_checks)
  moreover have "?s (token_world, ?d) (taken_world, ?d(0 := Won rrace_token))"
    by (rule mark_wins) (simp_all add: rrace_wins)
  moreover have "?s (taken_world, ?d(0 := Won rrace_token))
      (revoked_world, ?d(0 := Won rrace_token, 1 := Finished None reuse_answer))"
    by (rule mark_loses [of _ 1 rrace_token rrace pair_requests, OF _ rrace_loses rrace_reuse]) simp
  moreover have "?s (revoked_world, ?d(0 := Won rrace_token, 1 := Finished None reuse_answer)) rrace_end"
  proof -
    have "rd_draws rrace (pair_requests 0) revoked_world"
      by (simp add: refresh_redeemer_def pair_requests_def refresh_id_used_def sample_simps)
    then have "?s (revoked_world, ?d(0 := Won rrace_token, 1 := Finished None reuse_answer))
      (snd rrace_result, (?d(0 := Won rrace_token, 1 := Finished None reuse_answer))
        (0 := Finished (Some (rd_id rrace rrace_token)) (fst rrace_result)))"
      by (intro issues) (simp_all add: rrace_result_def)
    moreover have "rd_id rrace rrace_token = 40" by (simp add: refresh_redeemer_def sample_simps)
    ultimately show ?thesis by (simp add: rrace_end_def fun_upd_twist)
  qed
  ultimately show ?thesis
    unfolding reachable_def by (meson converse_rtranclp_into_rtranclp rtranclp.rtrancl_refl)
qed

lemma rrace_result_eq:
  "rrace_result = refresh_issue sample_crypto sample_rgrant sample_rt sample_client sample_refresh_form
     sample_token revoked_world"
  by (simp add: rrace_result_def refresh_redeemer_def pair_requests_def sample_rt_def)

lemma rrace_result_simps:
  "status_of (fst rrace_result) = Some 200"
  "w_refresh (snd rrace_result) = snd (refresh_Store (Some (rotated_token sample_rt sample_client sample_token
     ''openid offline_access'' (HashToken sample_crypto sample_raw))) (w_refresh revoked_world))"
  by (simp_all add: rrace_result_eq refresh_run mem_ops sample_simps Let_def NewUserStore_def sample_user_def
      rotated_token_bounds sample_rt_def sample_raw_def)

theorem refresh_rotates_at_most_once_witness:
  "{i. \<exists>out. snd rrace_end i = Finished (Some 40) out} = {0} \<and>
    status_of (fst rrace_result) = Some 200 \<and>
    {i. \<exists>out. snd rrace_end i = Finished None out \<and> status_of out = Some 200} = {}"
proof -
  have r: "reachable rrace refresh_grow pair_requests token_world (fst rrace_end, snd rrace_end)"
    using rrace_reachable by simp
  have z: "snd rrace_end 0 = Finished (Some 40) (fst rrace_result)" by (simp add: rrace_end_def)
  from refresh_rotates_at_most_once [OF r] z
  have "i = 0" if "snd rrace_end i = Finished (Some 40) out" for i out using that by blast
  with z have "{i. \<exists>out. snd rrace_end i = Finished (Some 40) out} = {0}" by auto
  moreover have "{i. \<exists>out. snd rrace_end i = Finished None out \<and> status_of out = Some 200} = {}"
    using refresh_rotates_at_most_once [OF r] by blast
  ultimately show ?thesis using rrace_result_simps(1) by blast
qed

text \<open>
  The revocation of a detected reuse can be outrun: there is an interleaving of two requests
  with one token in which the loser answers "reuse detected" and revokes the session's tokens,
  and afterwards the session has a refresh token that is neither consumed nor revoked, because
  the winner stores its successor last.
\<close>

theorem refresh_reuse_outrun:
  "\<exists>w ts t. reachable rrace refresh_grow pair_requests token_world (w, ts) \<and>
    ts 1 = Finished None reuse_answer \<and>
    refresh_FindByHash (HashToken sample_crypto sample_raw) (w_refresh w) = Inr t \<and>
    rt_SessionID t = rt_SessionID sample_token \<and> rt_RevokedAt t = None \<and> rt_ConsumedAt t = None"
proof -
  have "reachable rrace refresh_grow pair_requests token_world (fst rrace_end, snd rrace_end)"
    using rrace_reachable by simp
  moreover have "snd rrace_end 1 = Finished None reuse_answer" by (simp add: rrace_end_def)
  moreover have "refresh_FindByHash (HashToken sample_crypto sample_raw) (w_refresh (fst rrace_end)) =
      Inr (rotated_token sample_rt sample_client sample_token ''openid offline_access''
        (HashToken sample_crypto sample_raw))"
    by (simp add: rrace_end_def rrace_result_simps refresh_Store_def refresh_FindByHash_def
        rotated_token_bounds sample_simps)
  ultimately show ?thesis by (metis rotated_token_bounds(3,7,8))
qed

end
