(* ===== verification/Token_Properties.thy ===== *)
theory Token_Properties
  imports Refresh_Properties Token_Endpoint
begin

section \<open>The token and revocation endpoints\<close>

text \<open>
  The endpoints as wired on the memory stores: who gets tokens at all, what a client-credentials
  token says, whom a revocation reaches, what every sequence of calls keeps of the refresh
  tokens, and where the authentication time in a refreshed token comes from.
\<close>

subsection \<open>The endpoints on the memory stores\<close>

record endpoint_config =
  ec_Issuer :: string
  ec_AuthCode :: auth_code_config
  ec_Refresh :: refresh_config
  ec_ClientCredsLifetime :: duration
  ec_AssertionSkew :: duration

definition mem_client_auth :: "runtime \<Rightarrow> endpoint_config \<Rightarrow> world client_auth_config" where
  "mem_client_auth rt cfg = \<lparr>cac_IssuerURL = ec_Issuer cfg, cac_TokenEndpointURL = ec_Issuer cfg @ ''/token'',
     cac_AssertionCache = Some (mem_assertions rt), cac_AssertionSkew = ec_AssertionSkew cfg,
     cac_HasClock = True\<rparr>"

definition mem_token_handler :: "crypto \<Rightarrow> runtime \<Rightarrow> endpoint_config \<Rightarrow> world token_handler" where
  "mem_token_handler cr rt cfg =
    \<lparr>th_AuthCode = Some (mem_authcode_grant cr rt (ec_Issuer cfg) (ec_AuthCode cfg)),
     th_Refresh = Some (mem_refresh_grant cr rt (ec_Issuer cfg) (ec_Refresh cfg)),
     th_ClientCredentials = Some \<lparr>ccg_Issuer = mem_issuer (ec_Issuer cfg),
       ccg_AccessTokenLifetime = ec_ClientCredsLifetime cfg\<rparr>,
     th_ClientAuth = mem_client_auth rt cfg, th_Clients = mem_clients\<rparr>"

definition mem_revoke_handler :: "runtime \<Rightarrow> endpoint_config \<Rightarrow> world revoke_handler" where
  "mem_revoke_handler rt cfg =
    \<lparr>rh_RefreshTokens = mem_refresh_tokens, rh_Clients = mem_clients, rh_ClientAuth = mem_client_auth rt cfg\<rparr>"

lemma mem_handler_simps [simp]:
  "th_AuthCode (mem_token_handler cr rt cfg) = Some (mem_authcode_grant cr rt (ec_Issuer cfg) (ec_AuthCode cfg))"
  "th_Refresh (mem_token_handler cr rt cfg) = Some (mem_refresh_grant cr rt (ec_Issuer cfg) (ec_Refresh cfg))"
  "th_ClientCredentials (mem_token_handler cr rt cfg) = Some \<lparr>ccg_Issuer = mem_issuer (ec_Issuer cfg),
       ccg_AccessTokenLifetime = ec_ClientCredsLifetime cfg\<rparr>"
  "th_ClientAuth (mem_token_handler cr rt cfg) = mem_client_auth rt cfg"
  "th_Clients (mem_token_handler cr rt cfg) = mem_clients"
  "rh_RefreshTokens (mem_revoke_handler rt cfg) = mem_refresh_tokens"
  "rh_Clients (mem_revoke_handler rt cfg) = mem_clients"
  "rh_ClientAuth (mem_revoke_handler rt cfg) = mem_client_auth rt cfg"
  "cac_AssertionCache (mem_client_auth rt cfg) = Some (mem_assertions rt)"
  by (simp_all add: mem_token_handler_def mem_revoke_handler_def mem_client_auth_def)

lemma mem_auth_frame [simp]:
  "w_refresh (snd (AuthenticateClient cr rt k (mem_client_auth rt' cfg) cs form w)) = w_refresh w"
  "w_clients (snd (AuthenticateClient cr rt k (mem_client_auth rt' cfg) cs form w)) = w_clients w"
  by (rule AuthenticateClient_frame, auto)+

lemma auth_frame:
  "AuthenticateClient cr rt k (mem_client_auth rt' cfg) cs form w = (a, w1) \<Longrightarrow> w_refresh w1 = w_refresh w"
  using mem_auth_frame(1) [of cr rt k rt' cfg cs form w] by simp

subsection \<open>Who gets tokens\<close>

text \<open>
  C20. The token endpoint answers 200 only to a POST whose form names a registered client, which
  is public or has proved itself with a verified assertion, and whose grant type is one of the
  three that are enabled; the answer is that grant's. Client credentials are for confidential
  clients only.
\<close>

theorem token_requires_client:
  assumes "token_serve cr h rt r w = (out, w')" "status_of out = Some 200"
  shows "\<exists>form cl w1. req_Method r = ''POST'' \<and> req_PostForm r = Some form \<and>
    cs_FindByClientID (th_Clients h) (values_get form ''client_id'') w = Inr cl \<and>
    ((c_TokenEndpointAuthMethod cl = AuthMethodNone \<and> w1 = w \<and>
        values_get form ''grant_type'' \<in> {''authorization_code'', ''refresh_token''}) \<or>
     (c_TokenEndpointAuthMethod cl = AuthMethodPrivateKeyJWT \<and>
      (\<exists>tok. VerifyClientAssertion cr rt 100
         (assertion_params (th_ClientAuth h) cl (values_get form ''client_assertion'')) w = (Inr tok, w1)))) \<and>
    ((\<exists>g. th_AuthCode h = Some g \<and> authcode_handle cr g rt (Some cl) form w1 = (out, w')) \<or>
     (\<exists>g. th_Refresh h = Some g \<and> refresh_handle cr g rt (Some cl) form w1 = (out, w')) \<or>
     (\<exists>g. th_ClientCredentials h = Some g \<and> client_creds_handle cr g rt (Some cl) form w1 = (out, w')))"
proof -
  obtain form cl w1 where s: "req_Method r = ''POST''" "req_PostForm r = Some form"
    "AuthenticateClient cr rt 100 (th_ClientAuth h) (th_Clients h) form w = (Inr cl, w1)"
    "token_dispatch cr h rt cl form w1 = (out, w')"
    using token_serve_200 [OF assms] by metis
  note d = token_dispatch_200 [OF s(4) assms(2)]
  have cc: "c_TokenEndpointAuthMethod cl \<noteq> AuthMethodNone"
    if "client_creds_handle cr g rt (Some cl) form w1 = (out, w')" for g
    using that assms(2) by (auto elim: client_creds_200)
  show ?thesis
    using s(1,2) AuthenticateClient_Inr [OF s(3)] d cc
    by (intro exI [of _ form] exI [of _ cl] exI [of _ w1]) blast
qed

text \<open>
  A client-credentials answer is for a confidential client that may use the grant and asked
  only for its own scopes; the token's subject is the client itself, and there is neither a
  refresh token nor an ID token.
\<close>

theorem client_credentials_grant:
  assumes "client_creds_handle cr g rt client form w = (out, w')" "status_of out = Some 200"
  shows "\<exists>cl access. client = Some cl \<and> c_TokenEndpointAuthMethod cl \<noteq> AuthMethodNone \<and>
    c_AllowClientCredentials cl \<and>
    set (str_fields (values_get form ''scope'')) \<subseteq> set (c_AllowedScopes cl) \<and>
    IssueAccessToken cr (ccg_Issuer g) rt 0
      (client_creds_access_claims g cl (str_fields (values_get form ''scope''))) w = (Inr access, w') \<and>
    gm_get (access_claims iss (client_creds_access_claims g cl (str_fields (values_get form ''scope'')))) ''sub'' =
      Some (JStr (c_ClientID cl)) \<and>
    body_field out ''access_token'' = Some (JStr access) \<and>
    body_field out ''refresh_token'' = None \<and> body_field out ''id_token'' = None"
proof (rule client_creds_200 [OF assms])
  fix cl requested access
  assume "client = Some cl" "c_TokenEndpointAuthMethod cl \<noteq> AuthMethodNone" "c_AllowClientCredentials cl"
    and req: "requested = str_fields (values_get form ''scope'')" "set requested \<subseteq> set (c_AllowedScopes cl)"
    and "IssueAccessToken cr (ccg_Issuer g) rt 0 (client_creds_access_claims g cl requested) w = (Inr access, w')"
    and "body_field out ''access_token'' = Some (JStr access)"
      "body_field out ''refresh_token'' = None" "body_field out ''id_token'' = None"
  moreover have "at_Subject (client_creds_access_claims g cl requested) = c_ClientID cl"
    by (simp add: client_creds_access_claims_def)
  ultimately show ?thesis
    unfolding req(1) access_claims_get by (intro exI [of _ cl] exI [of _ access]) simp
qed

subsection \<open>Revocation\<close>

definition revoked_at :: "refresh_token_mem \<Rightarrow> uuid \<Rightarrow> bool" where
  "revoked_at s i \<longleftrightarrow> (\<exists>t. gm_get (rtm_tokens s) i = Some t \<and> rt_RevokedAt t \<noteq> None)"

text \<open>What the two revoking operations of the store do.\<close>

definition family :: "refresh_token_mem \<Rightarrow> refresh_token \<Rightarrow> uuid set" where
  "family s t = {i. \<exists>u. gm_get (rtm_tokens s) i = Some u \<and>
     (i = rt_ID t \<or> rt_SessionID t \<noteq> None \<and> rt_SessionID u = rt_SessionID t)}"

definition changed :: "refresh_token_mem \<Rightarrow> refresh_token_mem \<Rightarrow> uuid set" where
  "changed s s' = {i. gm_get (rtm_tokens s') i \<noteq> gm_get (rtm_tokens s) i}"

definition revoked :: "refresh_token_mem \<Rightarrow> uuid set" where
  "revoked s = {i. \<exists>t. gm_get (rtm_tokens s) i = Some t \<and> rt_RevokedAt t \<noteq> None}"

lemma revoke_session_family:
  assumes "gm_get (rtm_tokens s) (rt_ID t) = Some t" "rt_SessionID t = Some sid"
  shows "changed s (snd (refresh_RevokeBySessionID sid at s)) \<subseteq> family s t"
    "family s t \<subseteq> revoked (snd (refresh_RevokeBySessionID sid at s))"
proof -
  let ?s = "snd (refresh_RevokeBySessionID sid at s)"
  have get: "gm_get (rtm_tokens ?s) i =
      map_option (\<lambda>u. revoke_if (rt_SessionID u = Some sid) at u) (gm_get (rtm_tokens s) i)" for i
    by (simp add: refresh_RevokeBySessionID_def)
  show "changed s ?s \<subseteq> family s t"
  proof
    fix i
    assume "i \<in> changed s ?s"
    then obtain u where u: "gm_get (rtm_tokens s) i = Some u" "revoke_if (rt_SessionID u = Some sid) at u \<noteq> u"
      by (cases "gm_get (rtm_tokens s) i") (auto simp: changed_def get)
    then have "rt_SessionID u = Some sid" by (cases "rt_SessionID u = Some sid") simp_all
    with u(1) assms(2) show "i \<in> family s t" by (simp add: family_def)
  qed
  show "family s t \<subseteq> revoked ?s"
    using assms by (auto simp: family_def revoked_def get)
qed

lemma revoke_single_family:
  assumes "gm_get (rtm_tokens s) (rt_ID t) = Some t" "rt_SessionID t = None"
  shows "changed s (snd (refresh_Revoke (rt_ID t) at s)) \<subseteq> family s t"
    "family s t \<subseteq> revoked (snd (refresh_Revoke (rt_ID t) at s))"
  using assms by (auto simp: changed_def family_def revoked_def refresh_Revoke_def split: if_splits)

text \<open>
  C21. A revocation request of an authenticated client is answered with the same empty 200 whatever
  it presents. An unknown token, or one of another client, changes no refresh token; a token of the
  client itself ends exactly its family, the token and every token of its session: all of them end
  up revoked and no other token changes. Every other request is answered 400, 401, 405 or 500, and
  changes no refresh token.
\<close>

theorem revocation_reaches_family:
  assumes "revoke_serve cr (mem_revoke_handler rt0 cfg) rt r w = (out, w')" "refresh_inv (w_refresh w)"
  shows "case if req_Method r = ''POST'' then req_PostForm r else None of
      None \<Rightarrow> w' = w \<and> status_of out = Some (if req_Method r = ''POST'' then 400 else 405)
    | Some form \<Rightarrow>
        if values_get form ''token'' = [] then w' = w \<and> status_of out = Some 400
        else case AuthenticateClient cr rt 100 (mem_client_auth rt0 cfg) mem_clients form w of
          (Inl e, w1) \<Rightarrow> out = writeClientAuthError e \<and> status_of out \<in> {Some 401, Some 500} \<and>
            w_refresh w' = w_refresh w
        | (Inr cl, w1) \<Rightarrow> out = Response (plain_response 200) \<and>
            client_FindByClientID (values_get form ''client_id'') (w_clients w) = Inr cl \<and>
            (case refresh_FindByHash (HashToken cr (values_get form ''token'')) (w_refresh w) of
               Inl e \<Rightarrow> w_refresh w' = w_refresh w
             | Inr t \<Rightarrow> if rt_ClientID t \<noteq> c_ClientID cl then w_refresh w' = w_refresh w
                      else rt_ID t \<in> family (w_refresh w) t \<and>
                        changed (w_refresh w) (w_refresh w') \<subseteq> family (w_refresh w) t \<and>
                        family (w_refresh w) t \<subseteq> revoked (w_refresh w'))"
proof (cases "req_Method r = ''POST'' \<and> (\<exists>form. req_PostForm r = Some form \<and> values_get form ''token'' \<noteq> [])")
  case False
  then show ?thesis using assms(1) by (auto simp: revoke_serve_def split: option.splits)
next
  case True
  then obtain form where form: "req_Method r = ''POST''" "req_PostForm r = Some form" "values_get form ''token'' \<noteq> []"
    by auto
  obtain a w1 where auth: "AuthenticateClient cr rt 100 (mem_client_auth rt0 cfg) mem_clients form w = (a, w1)"
    by (cases "AuthenticateClient cr rt 100 (mem_client_auth rt0 cfg) mem_clients form w")
  have same: "w_refresh w1 = w_refresh w" using auth by (rule auth_frame)
  show ?thesis
  proof (cases a)
    case (Inl e)
    then show ?thesis
      using assms(1) form auth same AuthenticateClient_Inl [OF auth [unfolded Inl]] by (auto simp: revoke_serve_def Let_def)
  next
    case (Inr cl)
    let ?h = "HashToken cr (values_get form ''token'')"
    have cl: "client_FindByClientID (values_get form ''client_id'') (w_clients w) = Inr cl"
      using AuthenticateClient_Inr(2) [OF auth [unfolded Inr]] by (simp add: mem_clients_def)
    have run: "out = Response (plain_response 200)" "w_refresh w' =
      (case refresh_FindByHash ?h (w_refresh w) of
         Inl e \<Rightarrow> w_refresh w
       | Inr t \<Rightarrow> if rt_ClientID t \<noteq> c_ClientID cl then w_refresh w
                else case rt_SessionID t of
                  Some sid \<Rightarrow> snd (refresh_RevokeBySessionID sid (now rt 0) (w_refresh w))
                | None \<Rightarrow> snd (refresh_Revoke (rt_ID t) (now rt 0) (w_refresh w)))"
      using assms(1) form auth Inr same
      by (auto simp: revoke_serve_def Let_def mem_refresh_tokens_def split: if_splits sum.splits option.splits)
    have fam: "rt_ID t \<in> family (w_refresh w) t" if "gm_get (rtm_tokens (w_refresh w)) (rt_ID t) = Some t" for t
      using that by (simp add: family_def)
    show ?thesis
      using form auth Inr cl run refresh_FindByHash_Inr [OF assms(2), of ?h] fam
      by (auto simp: revoke_session_family revoke_single_family split: sum.split option.splits)
  qed
qed

subsection \<open>Every sequence of calls keeps the lineage\<close>

datatype call = TokenCall runtime http_request | RevokeCall runtime http_request

fun serve_all :: "crypto \<Rightarrow> endpoint_config \<Rightarrow> call list \<Rightarrow> world \<Rightarrow> world" where
  "serve_all cr cfg [] w = w"
| "serve_all cr cfg (TokenCall rt r # cs) w =
    serve_all cr cfg cs (snd (token_serve cr (mem_token_handler cr rt cfg) rt r w))"
| "serve_all cr cfg (RevokeCall rt r # cs) w =
    serve_all cr cfg cs (snd (revoke_serve cr (mem_revoke_handler rt cfg) rt r w))"

text \<open>The id each call may draw for a refresh token is not in use.\<close>

fun ids_fresh :: "crypto \<Rightarrow> endpoint_config \<Rightarrow> call list \<Rightarrow> world \<Rightarrow> bool" where
  "ids_fresh cr cfg [] w = True"
| "ids_fresh cr cfg (TokenCall rt r # cs) w =
    (\<not> refresh_id_used w (new_uuid rt 8) \<and>
     ids_fresh cr cfg cs (snd (token_serve cr (mem_token_handler cr rt cfg) rt r w)))"
| "ids_fresh cr cfg (RevokeCall rt r # cs) w =
    ids_fresh cr cfg cs (snd (revoke_serve cr (mem_revoke_handler rt cfg) rt r w))"

lemma client_creds_refresh:
  "w_refresh (snd (client_creds_handle cr \<lparr>ccg_Issuer = mem_issuer url, ccg_AccessTokenLifetime = d\<rparr> rt cl form w)) =
    w_refresh w"
  by (simp add: client_creds_handle_def Let_def prod.case_eq_if split: option.split sum.split)

lemma token_serve_lineage:
  assumes "lineage (w_refresh w)" "\<not> refresh_id_used w (new_uuid rt 8)"
  shows "lineage (w_refresh (snd (token_serve cr (mem_token_handler cr rt cfg) rt r w)))"
proof -
  have "lineage (w_refresh (snd (token_dispatch cr (mem_token_handler cr rt cfg) rt cl form w1)))"
    if "w_refresh w1 = w_refresh w" for cl form w1
    using that assms lineage_refresh_handle [of w1 rt] lineage_authcode_handle [of w1 rt]
    by (simp add: token_dispatch_def Let_def client_creds_refresh refresh_id_used_def)
  then show ?thesis
    using assms(1) by (simp add: token_serve_def prod.case_eq_if split: option.split sum.split)
qed

lemma revoke_serve_lineage:
  "lineage (w_refresh w) \<Longrightarrow> lineage (w_refresh (snd (revoke_serve cr (mem_revoke_handler rt0 cfg) rt r w)))"
  by (auto simp: revoke_serve_def Let_def prod.case_eq_if lineage_Revoke lineage_RevokeBySessionID
      split: option.split sum.split)

lemma serve_all_lineage:
  "lineage (w_refresh w) \<Longrightarrow> ids_fresh cr cfg cs w \<Longrightarrow> lineage (w_refresh (serve_all cr cfg cs w))"
  by (induction cr cfg cs w rule: serve_all.induct) (auto simp: token_serve_lineage revoke_serve_lineage)

text \<open>
  C8. Any sequence of token and revocation requests, from an empty store or any other in good
  order, leaves the refresh tokens in good order; and then along the chain of parents of any
  stored token the client, the user, the session and the absolute deadline are the same, every
  ancestor is consumed, and no scope was gained.
\<close>

theorem refresh_lineage_invariant:
  assumes "lineage (w_refresh w)" "ids_fresh cr cfg calls w" "serve_all cr cfg calls w = w'"
    and "gm_get (rtm_tokens (w_refresh w')) (rt_ID t) = Some t" "chain mem_refresh_tokens w' t ts"
  shows "lineage (w_refresh w') \<and>
    set ts \<subseteq> {u. rt_ClientID u = rt_ClientID t \<and> rt_UserID u = rt_UserID t \<and>
      rt_SessionID u = rt_SessionID t \<and> rt_AbsoluteExpiresAt u = rt_AbsoluteExpiresAt t \<and>
      rt_ConsumedAt u \<noteq> None \<and> set (str_fields (rt_Scope t)) \<subseteq> set (str_fields (rt_Scope u))}"
  using serve_all_lineage [OF assms(1,2)] lineage_chain [OF _ assms(5,4)] assms(3) by auto

subsection \<open>The authentication time\<close>

text \<open>The tokens that following parents visits.\<close>

fun ancestors :: "'w refresh_token_store \<Rightarrow> 'w \<Rightarrow> refresh_token \<Rightarrow> refresh_token list \<Rightarrow> bool" where
  "ancestors st w t [] = True"
| "ancestors st w t (u # us) =
    ((\<exists>p. rt_ParentTokenID t = Some p \<and> rts_FindByID st p w = Inr u) \<and> ancestors st w u us)"

lemma chain_walk_ends:
  "\<exists>ts. ancestors st w t ts \<and> length ts \<le> n \<and> chain_walk st w n t = rt_CreatedAt (last (t # ts)) \<and>
    (length ts = n \<or> chain st w t ts)"
proof (induction n arbitrary: t)
  case (Suc n)
  show ?case
  proof (cases "\<exists>p u. rt_ParentTokenID t = Some p \<and> rts_FindByID st p w = Inr u")
    case True
    then obtain p u where u: "rt_ParentTokenID t = Some p" "rts_FindByID st p w = Inr u" by blast
    from Suc.IH obtain ts where "ancestors st w u ts" "length ts \<le> n"
      "chain_walk st w n u = rt_CreatedAt (last (u # ts))" "length ts = n \<or> chain st w u ts" by blast
    with u show ?thesis by (intro exI [of _ "u # ts"]) (auto intro: chain_step)
  next
    case False
    then have "chain st w t []"
      by (cases "rt_ParentTokenID t"; cases "rts_FindByID st (the (rt_ParentTokenID t)) w")
        (auto intro: chain_root chain_lost)
    with False show ?thesis
      by (intro exI [of _ "[]"]) (auto split: option.split sum.split)
  qed
qed simp

text \<open>
  C22. The walk to the root of a rotation chain ends on every store, one with a cycle of parents
  included: it visits at most 1000 ancestors and answers with the creation time of the last one
  visited, which is the root unless the bound was reached.
\<close>

theorem auth_time_walk_ends:
  "\<exists>ts. ancestors st w t ts \<and> length ts \<le> 1000 \<and>
    chainRootCreatedAt st t w = rt_CreatedAt (last (t # ts)) \<and> (length ts = 1000 \<or> chain st w t ts)"
  using chain_walk_ends [of st w t 1000] by (simp add: chainRootCreatedAt_def maxDepth_def)

text \<open>
  A refreshed access token carries the authentication time of the first token of its
  family, however often the family was rotated (up to the 1000 rotations the walk follows).
\<close>

theorem refresh_keeps_auth_time:
  assumes "refresh_handle cr g rt client form w = (out, w')" "status_of out = Some 200"
    and "refresh_check cr g rt client form w = Inr (cl, t)"
    and "rts_MarkConsumed (rg_RefreshTokens g) (rt_ID t) (now rt 0) w = (Inr True, w1)"
    and "chain (rg_RefreshTokens g) w1 t ts" "length ts \<le> 1000"
  shows "\<exists>access scope w2. body_field out ''access_token'' = Some (JStr access) \<and>
    IssueAccessToken cr (rg_Issuer g) rt 2
      (refresh_access_claims cl t scope (rt_CreatedAt (last (t # ts)))) w1 = (Inr access, w2) \<and>
    gm_get (access_claims iss (refresh_access_claims cl t scope (rt_CreatedAt (last (t # ts))))) ''auth_time'' =
      Some (numeric_date (rt_CreatedAt (last (t # ts))))"
proof -
  have root: "chainRootCreatedAt (rg_RefreshTokens g) t w1 = rt_CreatedAt (last (t # ts))"
    unfolding chainRootCreatedAt_def by (rule chain_walk_last [OF assms(5)]) (simp add: assms(6) maxDepth_def)
  have issue: "refresh_issue cr g rt cl form t w1 = (out, w')"
    using assms(1,3,4) by (simp add: refresh_handle_def)
  obtain info scope granted access idt wa wb where i:
    "IssueAccessToken cr (rg_Issuer g) rt 2
       (refresh_access_claims cl t scope (chainRootCreatedAt (rg_RefreshTokens g) t w1)) w1 = (Inr access, wa)"
    "refresh_rotate cr g rt cl t scope granted
       \<lparr>tr_AccessToken = access, tr_TokenType = ''Bearer'',
        tr_ExpiresIn = duration_seconds (AccessTokenLifetime cl),
        tr_RefreshToken = [], tr_IDToken = idt, tr_Scope = scope\<rparr> wb = (out, w')"
    by (rule refresh_issue_200 [OF issue assms(2)])
  have "body_field out ''access_token'' = Some (JStr access)"
    using refresh_rotate_200 [OF i(2) assms(2)] by auto
  with i(1) show ?thesis
    unfolding root access_claims_get
    by (intro exI [of _ access] exI [of _ scope] exI [of _ wa]) (simp add: refresh_access_claims_def)
qed


subsection \<open>Runs\<close>

definition sample_endpoints :: endpoint_config where
  "sample_endpoints = \<lparr>ec_Issuer = ''https://as'', ec_AuthCode = sample_cfg, ec_Refresh = sample_rcfg,
     ec_ClientCredsLifetime = hour, ec_AssertionSkew = minute\<rparr>"

definition form_request :: "url_values \<Rightarrow> http_request" where
  "form_request form = \<lparr>req_Method = ''POST'', req_Path = ''/token'', req_Query = [], req_URI = ''/token'',
     req_PostForm = Some form, req_PartialForm = form, req_Body = None, req_Header = [],
     req_Cookies = [], req_RemoteAddr = []\<rparr>"

lemma form_request_simps [simp]:
  "req_Method (form_request form) = ''POST''" "req_PostForm (form_request form) = Some form"
  by (simp_all add: form_request_def)

lemma sample_endpoints_simps [simp]:
  "ec_Issuer sample_endpoints = ''https://as''" "ec_AuthCode sample_endpoints = sample_cfg"
  "ec_Refresh sample_endpoints = sample_rcfg"
  by (simp_all add: sample_endpoints_def)

lemma public_authenticates:
  "values_get form ''client_id'' = ''app'' \<Longrightarrow> w_clients w = w_clients sample_world \<Longrightarrow>
    AuthenticateClient cr rt k cfg mem_clients form w = (Inr sample_client, w)"
  by (simp add: AuthenticateClient_def mem_clients_def client_FindByClientID_def sample_simps AuthMethodNone_def)

lemma served_refresh:
  "token_serve sample_crypto (mem_token_handler sample_crypto sample_rt sample_endpoints) sample_rt
     (form_request sample_refresh_form) token_world = (fst rotated_run, snd rotated_run)"
proof -
  have "values_get sample_refresh_form ''grant_type'' = ''refresh_token''"
    by (simp add: sample_refresh_form_def values_get_def)
  then show ?thesis
    by (simp add: token_serve_def public_authenticates sample_simps token_dispatch_def rotated_run_def)
qed

lemma rotated_run_200: "status_of (fst rotated_run) = Some 200"
  unfolding rotated_run_def by (rule sample_refresh_rotates)

theorem token_requires_client_witness:
  "\<exists>cl g. cs_FindByClientID mem_clients ''app'' token_world = Inr cl \<and>
    c_TokenEndpointAuthMethod cl = AuthMethodNone \<and>
    refresh_handle sample_crypto g sample_rt (Some cl) sample_refresh_form token_world = (fst rotated_run, snd rotated_run)"
  using token_requires_client [OF served_refresh rotated_run_200] rotated_run_eq
  by (auto simp: sample_simps mem_clients_def client_FindByClientID_def AuthMethodNone_def)

definition service_form :: url_values where
  "service_form = [(''grant_type'', [''client_credentials'']), (''client_id'', [''svc'']), (''scope'', [''read''])]"

abbreviation service_grant :: "world client_credentials_grant" where
  "service_grant \<equiv> \<lparr>ccg_Issuer = mem_issuer ''https://as'', ccg_AccessTokenLifetime = hour\<rparr>"

lemma service_run:
  obtains out w' where "client_creds_handle sample_crypto service_grant sample_rt (Some sample_service) service_form
    sample_world = (out, w')" "status_of out = Some 200"
proof -
  have f: "str_fields ''read'' = [''read'']" by code_simp
  show ?thesis
    by (rule that [of "fst (client_creds_handle sample_crypto service_grant sample_rt (Some sample_service) service_form
      sample_world)" "snd (client_creds_handle sample_crypto service_grant sample_rt (Some sample_service) service_form
      sample_world)"])
      (simp_all add: client_creds_handle_def service_form_def values_get_def f sample_service_def first_disallowed_def
        client_creds_access_claims_def AuthMethodNone_def sample_simps Let_def)
qed

theorem client_credentials_grant_witness:
  "\<exists>out access. body_field out ''access_token'' = Some (JStr access) \<and> body_field out ''refresh_token'' = None \<and>
    gm_get (access_claims ''https://as'' (client_creds_access_claims service_grant sample_service
      (str_fields (values_get service_form ''scope'')))) ''sub'' = Some (JStr ''svc'')"
proof -
  obtain out w' where run: "client_creds_handle sample_crypto service_grant sample_rt (Some sample_service) service_form
    sample_world = (out, w')" "status_of out = Some 200" by (rule service_run)
  from client_credentials_grant [OF run, of "''https://as''"] show ?thesis
    by (auto simp: sample_service_def)
qed

definition revoke_form :: url_values where
  "revoke_form = [(''client_id'', [''app'']), (''token'', [''raw''])]"

lemma revoke_run:
  "fst (revoke_serve sample_crypto (mem_revoke_handler sample_rt sample_endpoints) sample_rt (form_request revoke_form)
     token_world) = Response (plain_response 200)"
  by (simp add: revoke_serve_def revoke_form_def values_get_def public_authenticates sample_simps Let_def
      mem_refresh_tokens_def refresh_FindByHash_def)

theorem revocation_reaches_family_witness:
  "\<exists>out w'. revoke_serve sample_crypto (mem_revoke_handler sample_rt sample_endpoints) sample_rt
      (form_request revoke_form) token_world = (out, w') \<and>
    changed (w_refresh token_world) (w_refresh w') \<subseteq> {40} \<and> {40} \<subseteq> revoked (w_refresh w')"
proof -
  obtain w' where run: "revoke_serve sample_crypto (mem_revoke_handler sample_rt sample_endpoints) sample_rt
      (form_request revoke_form) token_world = (Response (plain_response 200), w')"
    using revoke_run by (metis prod.collapse)
  have fam: "family (w_refresh token_world) sample_token = {40}"
    by (auto simp: family_def sample_simps split: if_splits)
  have inv: "refresh_inv (w_refresh token_world)" by (rule lineage_inv) (rule token_world_lineage)
  from revocation_reaches_family [OF run inv] run fam show ?thesis
    by (auto simp: revoke_form_def values_get_def client_FindByClientID_def refresh_FindByHash_def sample_simps
        public_authenticates split: if_splits prod.splits sum.splits)
qed

lemma rotated_run_world:
  "w_refresh (snd rotated_run) =
    \<lparr>rtm_tokens = [(40, sample_token\<lparr>rt_ConsumedAt := Some 1000\<rparr>),
       (28, rotated_token sample_rt sample_client sample_token ''openid offline_access''
         (HashToken sample_crypto sample_raw))],
     rtm_byHash = gm_put (HashToken sample_crypto sample_raw) 28 [(''cmE'', 40)]\<rparr>"
  by (simp add: rotated_run_def refresh_run mem_ops sample_simps sample_rt_def Let_def NewUserStore_def
      sample_user_def rotated_token_bounds sample_raw_def)

theorem refresh_lineage_invariant_witness:
  "\<exists>w' t p. serve_all sample_crypto sample_endpoints [TokenCall sample_rt (form_request sample_refresh_form)] token_world = w' \<and>
    gm_get (rtm_tokens (w_refresh w')) 28 = Some t \<and> gm_get (rtm_tokens (w_refresh w')) 40 = Some p \<and>
    lineage (w_refresh w') \<and> rt_AbsoluteExpiresAt p = rt_AbsoluteExpiresAt t \<and> rt_SessionID p = rt_SessionID t"
proof -
  let ?t = "rotated_token sample_rt sample_client sample_token ''openid offline_access''
         (HashToken sample_crypto sample_raw)"
  let ?p = "sample_token\<lparr>rt_ConsumedAt := Some 1000\<rparr>"
  have serve: "serve_all sample_crypto sample_endpoints [TokenCall sample_rt (form_request sample_refresh_form)] token_world =
      snd rotated_run"
    by (simp add: served_refresh)
  have fresh: "ids_fresh sample_crypto sample_endpoints [TokenCall sample_rt (form_request sample_refresh_form)] token_world"
    by (simp add: refresh_id_used_def sample_simps sample_rt_def)
  have t: "gm_get (rtm_tokens (w_refresh (snd rotated_run))) (rt_ID ?t) = Some ?t"
    by (simp add: rotated_run_world rotated_token_bounds sample_simps sample_rt_def)
  have "chain mem_refresh_tokens (snd rotated_run) ?t [?p]"
    by (rule chain_step [where p = 40], simp add: rotated_token_bounds sample_simps,
        simp add: mem_refresh_tokens_def refresh_FindByID_def rotated_run_world,
        rule chain_root, simp add: sample_simps)
  from refresh_lineage_invariant [OF token_world_lineage fresh serve t this] serve t show ?thesis
    by (auto simp: rotated_run_world rotated_token_bounds sample_simps sample_rt_def)
qed

theorem refresh_keeps_auth_time_witness:
  "\<exists>access scope. body_field (fst rotated_run) ''access_token'' = Some (JStr access) \<and>
    gm_get (access_claims ''https://as'' (refresh_access_claims sample_client sample_token scope 500)) ''auth_time'' =
      Some (numeric_date 500)"
proof -
  have check: "refresh_check sample_crypto sample_rgrant sample_rt (Some sample_client) sample_refresh_form token_world =
      Inr (sample_client, sample_token)"
    by (simp add: refresh_check_Inr mem_refresh_tokens_def refresh_FindByHash_def sample_simps sample_rt_def)
  obtain w1 where mark: "rts_MarkConsumed (rg_RefreshTokens sample_rgrant) (rt_ID sample_token) (now sample_rt 0)
      token_world = (Inr True, w1)"
    by (simp add: mem_ops sample_simps)
  have "chain (rg_RefreshTokens sample_rgrant) w1 sample_token []"
    by (rule chain_root) (simp add: sample_simps)
  from refresh_keeps_auth_time [OF rotated_run_eq rotated_run_200 check mark this, of "''https://as''"]
  show ?thesis by (auto simp: sample_simps)
qed

end
