(* ===== verification/Key_Properties.thy ===== *)
theory Key_Properties
  imports Sample
begin

section \<open>Keys and the tokens they sign\<close>

text \<open>
  The ring of signing keys over the memory store, through any number of rotations: every stored
  pair matches, one key stays active, and what was published stays published; so a token that
  was issued before the rotations still verifies after them. What the proofs use of the PEM and
  JWS libraries are the hypotheses \<open>pem_laws\<close> and \<open>jws_laws\<close>.
\<close>

subsection \<open>What the libraries promise\<close>

text \<open>Decoding a PEM block gives back the key that was encoded.\<close>

definition pem_laws :: "crypto \<Rightarrow> bool" where
  "pem_laws cr \<longleftrightarrow>
    (\<forall>k p. private_to_pem cr k = Some p \<longrightarrow> private_from_pem cr p = Some k) \<and>
    (\<forall>k p. public_to_pem cr k = Some p \<longrightarrow> public_from_pem cr p = Some k)"

definition claim_date :: "claims \<Rightarrow> string \<Rightarrow> int \<Rightarrow> bool" where
  "claim_date cl k n \<longleftrightarrow> gm_get cl k = Some (JNum n)"

text \<open>A claim set that is valid at time \<open>t\<close> for the issuer, whatever the allowed skew.\<close>

definition current_claims :: "claims \<Rightarrow> string \<Rightarrow> time \<Rightarrow> bool" where
  "current_claims cl iss t \<longleftrightarrow> gm_get cl ''iss'' = Some (JStr iss) \<and>
    (\<exists>i n e. claim_date cl ''iat'' i \<and> claim_date cl ''nbf'' n \<and> claim_date cl ''exp'' e \<and>
      i * 1000000000 \<le> t \<and> n * 1000000000 \<le> t \<and> t < e * 1000000000)"

text \<open>
  A signature verifies against a key set in which exactly one key has the signer's id and that
  key is its public half; the claims come back as they were signed, when they are valid.
\<close>

definition jws_laws :: "crypto \<Rightarrow> bool" where
  "jws_laws cr \<longleftrightarrow> (\<forall>key cl s js pub iss t.
    jwt_sign cr key cl = Some s \<longrightarrow> pub \<in> set js \<longrightarrow> distinct (map jwk_kid js) \<longrightarrow>
    jwk_kid pub = jwk_kid key \<longrightarrow> jwk_alg pub = jwk_alg key \<longrightarrow>
    jwk_raw pub = rsa_public cr (jwk_raw key) \<longrightarrow> current_claims cl iss t \<longrightarrow>
    jwt_verify cr js iss t hour s = Some cl)"

subsection \<open>The invariant of the ring\<close>

definition matched :: "crypto \<Rightarrow> signing_key \<Rightarrow> bool" where
  "matched cr k \<longleftrightarrow> (\<exists>priv. private_from_pem cr (sk_PrivateKeyPEM k) = Some priv \<and>
    public_from_pem cr (sk_PublicKeyPEM k) = Some (rsa_public cr priv))"

definition ring :: "world \<Rightarrow> signing_key set" where
  "ring w = snd ` set (w_signing w)"

definition signing_good :: "crypto \<Rightarrow> world \<Rightarrow> bool" where
  "signing_good cr w \<longleftrightarrow> keyed sk_KeyID (w_signing w) \<and> (\<forall>k \<in> ring w. matched cr k)"

definition same_public :: "signing_key \<Rightarrow> signing_key \<Rightarrow> bool" where
  "same_public k k' \<longleftrightarrow> sk_KeyID k' = sk_KeyID k \<and> sk_Algorithm k' = sk_Algorithm k \<and>
    sk_PrivateKeyPEM k' = sk_PrivateKeyPEM k \<and> sk_PublicKeyPEM k' = sk_PublicKeyPEM k"

definition published :: "signing_key \<Rightarrow> world \<Rightarrow> bool" where
  "published k w \<longleftrightarrow> (\<exists>k' \<in> ring w. same_public k k')"

lemma same_public_simps [simp]: "same_public k k" "same_public k (retire k t)"
  by (simp_all add: same_public_def retire_def)

lemma same_public_trans: "same_public a b \<Longrightarrow> same_public b c \<Longrightarrow> same_public a c"
  by (simp add: same_public_def)

lemma matched_same: "matched cr k \<Longrightarrow> same_public k k' \<Longrightarrow> matched cr k'"
  by (simp add: matched_def same_public_def)

lemma published_self: "k \<in> ring w \<Longrightarrow> published k w"
  unfolding published_def by (blast intro: same_public_simps(1))

text \<open>One write of a matched key that takes no other key's id.\<close>

lemma signing_put:
  assumes good: "signing_good cr w" and k: "sk_KeyID k \<noteq> []" "matched cr k"
    and own: "\<And>q. q \<in> ring w \<Longrightarrow> sk_KeyID q = sk_KeyID k \<Longrightarrow> same_public q k"
    and put: "sks_Store mem_signing_keys (Some k) w = (e, w')"
  shows "e = None" "signing_good cr w'" "k \<in> ring w'" "\<And>q. published q w \<Longrightarrow> published q w'"
    "ring w' = insert k {q \<in> ring w. sk_KeyID q \<noteq> sk_KeyID k}"
proof -
  have keyed: "keyed sk_KeyID (w_signing w)" using good by (simp add: signing_good_def)
  have w': "e = None" "w_signing w' = upsert sk_KeyID k (w_signing w)"
    using put k(1) by (auto simp: mem_signing_keys_def signing_Store_def zoom_eq)
  show "e = None" by (rule w')
  show r: "ring w' = insert k {q \<in> ring w. sk_KeyID q \<noteq> sk_KeyID k}"
    unfolding ring_def w'(2) by (rule values_upsert [OF keyed k(1)])
  then show "k \<in> ring w'" by simp
  show "signing_good cr w'"
    using good k r by (auto simp: signing_good_def w'(2) keyed_upsert)
  show "published q w'" if "published q w" for q
  proof -
    from that obtain q' where q': "q' \<in> ring w" "same_public q q'" by (auto simp: published_def)
    show ?thesis
    proof (cases "sk_KeyID q' = sk_KeyID k")
      case True
      from same_public_trans [OF q'(2) own [OF q'(1) True]] show ?thesis by (auto simp: published_def r)
    next
      case False
      with q' show ?thesis by (auto simp: published_def r)
    qed
  qed
qed

definition fresh_kid :: "crypto \<Rightarrow> runtime \<Rightarrow> nat \<Rightarrow> world \<Rightarrow> bool" where
  "fresh_kid cr rt site w \<longleftrightarrow> uuid_string cr (new_uuid rt site) \<noteq> [] \<and>
    uuid_string cr (new_uuid rt site) \<notin> sk_KeyID ` ring w"

lemma fresh_kidD: "fresh_kid cr rt site w \<Longrightarrow> q \<in> ring w \<Longrightarrow> sk_KeyID q \<noteq> uuid_string cr (new_uuid rt site)"
  unfolding fresh_kid_def by (metis image_eqI)

lemma generateActive_good:
  assumes laws: "pem_laws cr" and good: "signing_good cr w" and fresh: "fresh_kid cr rt site w"
    and gen: "generateActive cr mem_signing_keys rt site w = (res, w')"
  shows "signing_good cr w'" "\<And>q. published q w \<Longrightarrow> published q w'"
    "res = Inr k \<Longrightarrow> k \<in> ring w' \<and> sk_IsActive k \<and> ring w' = insert k (ring w) \<and>
       sk_KeyID k = uuid_string cr (new_uuid rt site)"
    "res = Inl e \<Longrightarrow> w' = w"
proof -
  have "(w' = w \<and> (\<exists>e. res = Inl e)) \<or>
    (\<exists>k. res = Inr k \<and> matched cr k \<and> sk_KeyID k = uuid_string cr (new_uuid rt site) \<and> sk_IsActive k \<and>
      sks_Store mem_signing_keys (Some k) w = (None, w'))"
  proof (cases res)
    case (Inl e)
    then have "w' = w"
      using gen fresh
      by (auto simp: generateActive_def Let_def mem_signing_keys_def signing_Store_def zoom_eq fresh_kid_def
          split: option.splits)
    with Inl show ?thesis by blast
  next
    case (Inr k)
    with gen have g: "generateActive cr mem_signing_keys rt site w = (Inr k, w')" by simp
    then have "matched cr k"
      using laws by (auto simp: generateActive_def Let_def matched_def pem_laws_def split: option.splits prod.splits)
    with Inr generateActive_key [OF g] show ?thesis by blast
  qed
  moreover have "signing_good cr w' \<and> (\<forall>q. published q w \<longrightarrow> published q w') \<and> k \<in> ring w' \<and>
      ring w' = insert k (ring w)"
    if k: "matched cr k" "sk_KeyID k = uuid_string cr (new_uuid rt site)"
      "sks_Store mem_signing_keys (Some k) w = (None, w')" for k
  proof -
    have own: "same_public q k" if "q \<in> ring w" "sk_KeyID q = sk_KeyID k" for q
      using fresh_kidD [OF fresh that(1)] that(2) k(2) by simp
    have ne: "sk_KeyID k \<noteq> []" using fresh k(2) by (simp add: fresh_kid_def)
    note put = signing_put [OF good ne k(1) own k(3)]
    have "{q \<in> ring w. sk_KeyID q \<noteq> sk_KeyID k} = ring w"
      using fresh_kidD [OF fresh] k(2) by auto
    then have "ring w' = insert k (ring w)" using put(5) by simp
    with put(2-4) show ?thesis by blast
  qed
  ultimately show "signing_good cr w'" "\<And>q. published q w \<Longrightarrow> published q w'"
    "res = Inr k \<Longrightarrow> k \<in> ring w' \<and> sk_IsActive k \<and> ring w' = insert k (ring w) \<and>
       sk_KeyID k = uuid_string cr (new_uuid rt site)"
    "res = Inl e \<Longrightarrow> w' = w"
    using good by blast+
qed

lemma get_active_ring:
  "sks_GetActive mem_signing_keys w = Inr p \<Longrightarrow> p \<in> ring w \<and> sk_IsActive p"
  using signing.active_some [of w p] by (simp add: ring_def)

lemma ensure_good:
  assumes "pem_laws cr" "signing_good cr w" "fresh_kid cr rt site w"
    and ens: "EnsureActiveKey cr mem_signing_keys rt site w = (res, w')"
  shows "signing_good cr w'" "\<And>q. published q w \<Longrightarrow> published q w'" "res = Inr k \<Longrightarrow> k \<in> ring w'"
  using generateActive_good [OF assms(1-3), of res w'] ens assms(2) get_active_ring [of w k]
  by (auto simp: EnsureActiveKey_def split: sum.splits if_splits)

lemma Rotate_good:
  assumes laws: "pem_laws cr" "signing_good cr w" "fresh_kid cr rt site w"
    and rot: "Rotate cr mem_signing_keys rt site w = (res, w')"
  shows "signing_good cr w'" "\<And>q. published q w \<Longrightarrow> published q w'"
proof -
  obtain g w1 where g: "generateActive cr mem_signing_keys rt site w = (g, w1)"
    by (cases "generateActive cr mem_signing_keys rt site w")
  note gen = generateActive_good [OF laws g]
  have "w' = w \<or> w' = w1 \<or> (\<exists>p e k. p \<in> ring w \<and> g = Inr k \<and>
      sks_Store mem_signing_keys (Some (retire p (now rt (site + 1)))) w1 = (e, w'))"
    using rot g get_active_ring [of w]
    by (auto simp: Rotate_def split: sum.splits option.splits prod.splits if_splits)
  moreover have "signing_good cr w' \<and> (\<forall>q. published q w1 \<longrightarrow> published q w')"
    if p: "p \<in> ring w" "g = Inr k"
      "sks_Store mem_signing_keys (Some (retire p (now rt (site + 1)))) w1 = (e, w')" for p e k
  proof -
    let ?r = "retire p (now rt (site + 1))"
    have pm: "matched cr p" "sk_KeyID p \<noteq> []"
      using laws(2) p(1) keyed_own [of sk_KeyID "w_signing w" p] by (auto simp: signing_good_def ring_def)
    have r1: "ring w1 = insert k (ring w)" "sk_KeyID k = uuid_string cr (new_uuid rt site)"
      using gen(3) p(2) by auto
    have own: "same_public q ?r" if q: "q \<in> ring w1" "sk_KeyID q = sk_KeyID ?r" for q
    proof -
      have "q \<noteq> k" using q(2) r1(2) p(1) laws(3) by (auto simp: fresh_kid_def)
      then have "q \<in> ring w" using q(1) r1(1) by simp
      then have "q = p"
        using q(2) p(1) laws(2) keyed_own [of sk_KeyID "w_signing w"]
        by (simp add: signing_good_def ring_def) (metis option.inject)
      then show ?thesis by simp
    qed
    have ne: "sk_KeyID ?r \<noteq> []" "matched cr ?r"
      using pm(2) matched_same [OF pm(1), of ?r] by simp_all
    from signing_put [OF gen(1) ne own p(3)] show ?thesis by simp
  qed
  ultimately show "signing_good cr w'" "\<And>q. published q w \<Longrightarrow> published q w'"
    using gen(1,2) laws(2) by blast+
qed

lemma Rotate_active:
  assumes laws: "pem_laws cr" "signing_good cr w" "{q \<in> ring w. sk_IsActive q} = {p}" "fresh_kid cr rt site w"
    and rot: "Rotate cr mem_signing_keys rt site w = (res, w')"
  shows "{q \<in> ring w'. sk_IsActive q} = (case res of Inr k \<Rightarrow> {k} | Inl e \<Rightarrow> {p})"
proof -
  have keyed: "keyed sk_KeyID (w_signing w)" using laws(2) by (simp add: signing_good_def)
  have p: "p \<in> ring w" "sk_IsActive p" using laws(3) by auto
  then have "signing.has_active w" by (auto simp: signing.has_active_def ring_def)
  then obtain a where a: "sks_GetActive mem_signing_keys w = Inr a" by (auto simp: signing.has_active_get)
  then have a_p: "a = p" using get_active_ring [OF a] laws(3) by auto
  have ne: "sk_KeyID p \<noteq> []" using keyed_own [OF keyed, of p] p(1) by (simp add: ring_def)
  show ?thesis
  proof (cases res)
    case (Inr k)
    have "ring w' = insert (retire p (now rt (site + 1))) (insert k {q \<in> ring w. sk_KeyID q \<noteq> sk_KeyID p})"
      "sk_IsActive k"
      using signing.rotate_ring [OF keyed a _ _ _ rot [unfolded Inr]] ne laws(4)
      by (simp_all add: a_p fresh_kid_def ring_def)
    with laws(3) Inr show ?thesis by auto
  next
    case (Inl e)
    obtain g w1 where g: "generateActive cr mem_signing_keys rt site w = (g, w1)"
      by (cases "generateActive cr mem_signing_keys rt site w")
    have "w' = w"
      using rot g Inl a_p a ne generateActive_good(4) [OF laws(1,2,4) g]
      by (auto simp: Rotate_def mem_signing_keys_def signing_Store_def zoom_eq split: sum.splits prod.splits if_splits)
    with Inl laws(3) show ?thesis by simp
  qed
qed

text \<open>
  C15. Rotating the signing keys, whatever it answers, keeps every stored pair matched and every
  published key published (retired keys included), and leaves exactly one active key: the new one
  when the rotation succeeds, the old one when it does not.
\<close>

theorem signing_rotation:
  assumes "pem_laws cr" "signing_good cr w" "{q \<in> ring w. sk_IsActive q} = {p}" "fresh_kid cr rt site w"
    and "Rotate cr mem_signing_keys rt site w = (res, w')"
  shows "signing_good cr w' \<and> {q. published q w} \<subseteq> {q. published q w'} \<and>
    {q \<in> ring w'. sk_IsActive q} = (case res of Inr k \<Rightarrow> {k} | Inl e \<Rightarrow> {p})"
proof -
  have active: "{q \<in> ring w'. sk_IsActive q} = (case res of Inr k \<Rightarrow> {k} | Inl e \<Rightarrow> {p})"
    using assms by (rule Rotate_active)
  show ?thesis using Rotate_good [OF assms(1,2,4,5)] active by auto
qed

subsection \<open>Tokens across rotations\<close>

fun rotate_all :: "crypto \<Rightarrow> (runtime \<times> nat) list \<Rightarrow> world \<Rightarrow> world" where
  "rotate_all cr [] w = w"
| "rotate_all cr ((rt, site) # rots) w = rotate_all cr rots (snd (Rotate cr mem_signing_keys rt site w))"

fun rotations_fresh :: "crypto \<Rightarrow> (runtime \<times> nat) list \<Rightarrow> world \<Rightarrow> bool" where
  "rotations_fresh cr [] w = True"
| "rotations_fresh cr ((rt, site) # rots) w =
    (fresh_kid cr rt site w \<and> rotations_fresh cr rots (snd (Rotate cr mem_signing_keys rt site w)))"

lemma rotate_all_good:
  "pem_laws cr \<Longrightarrow> signing_good cr w \<Longrightarrow> rotations_fresh cr rots w \<Longrightarrow>
    signing_good cr (rotate_all cr rots w) \<and> (published q w \<longrightarrow> published q (rotate_all cr rots w))"
proof (induction cr rots w rule: rotate_all.induct)
  case (2 cr rt site rots w)
  obtain res w' where r: "Rotate cr mem_signing_keys rt site w = (res, w')"
    by (cases "Rotate cr mem_signing_keys rt site w")
  have "signing_good cr w'" "published q w \<Longrightarrow> published q w'"
    using Rotate_good [OF 2(2,3) _ r] 2(4) by simp_all
  with 2 r show ?case by simp
qed simp

text \<open>What \<open>/jwks\<close> publishes: one JWK per key of the ring, told apart by their ids.\<close>

lemma public_jwks_all:
  "\<forall>k \<in> set ks. matched cr k \<Longrightarrow> \<exists>js. public_jwks cr ks = Some js \<and>
    (\<forall>k \<in> set ks. \<exists>pub \<in> set js. jwk_kid pub = sk_KeyID k \<and> jwk_alg pub = sk_Algorithm k \<and>
      public_from_pem cr (sk_PublicKeyPEM k) = Some (jwk_raw pub))"
  by (induction ks) (auto simp: matched_def public_jwk_def)

lemma jwks_of_ring:
  assumes good: "signing_good cr w" and pub: "published k w"
  obtains js j priv where "PublicJWKSet cr mem_signing_keys w = Inr js" "distinct (map jwk_kid js)" "j \<in> set js"
    "jwk_kid j = sk_KeyID k" "jwk_alg j = sk_Algorithm k"
    "private_from_pem cr (sk_PrivateKeyPEM k) = Some priv" "jwk_raw j = rsa_public cr priv"
proof -
  from pub obtain k' where k': "k' \<in> ring w" "same_public k k'" by (auto simp: published_def)
  let ?ks = "map snd (w_signing w)"
  have keyed: "keyed sk_KeyID (w_signing w)" using good by (simp add: signing_good_def)
  then have "map sk_KeyID ?ks = map fst (w_signing w)" by (auto simp: keyed_def)
  then have dist: "distinct (map sk_KeyID ?ks)" using keyed by (metis keyed_def)
  have "\<forall>k \<in> set ?ks. matched cr k" using good by (simp add: signing_good_def ring_def)
  from public_jwks_all [OF this] obtain js where js: "public_jwks cr ?ks = Some js"
    "\<forall>k \<in> set ?ks. \<exists>pub \<in> set js. jwk_kid pub = sk_KeyID k \<and> jwk_alg pub = sk_Algorithm k \<and>
      public_from_pem cr (sk_PublicKeyPEM k) = Some (jwk_raw pub)" by blast
  have "k' \<in> set ?ks" using k'(1) by (simp add: ring_def)
  with js(2) obtain j where j: "j \<in> set js" "jwk_kid j = sk_KeyID k'" "jwk_alg j = sk_Algorithm k'"
    "public_from_pem cr (sk_PublicKeyPEM k') = Some (jwk_raw j)" by blast
  obtain priv where "private_from_pem cr (sk_PrivateKeyPEM k') = Some priv"
    "public_from_pem cr (sk_PublicKeyPEM k') = Some (rsa_public cr priv)"
    using good k'(1) by (auto simp: signing_good_def matched_def)
  moreover have "distinct (map jwk_kid js)" using dist public_jwks_kids [OF js(1)] by metis
  ultimately show ?thesis
    using j k'(2) js(1)
    by (intro that [of js j priv])
      (auto simp: PublicJWKSet_def mem_signing_keys_def signing_GetAll_def same_public_def)
qed


text \<open>An issued access token is the signature of its claims by a key of the ring.\<close>

lemma IssueAccessToken_signed:
  assumes laws: "pem_laws cr" "signing_good cr w" "fresh_kid cr rt (site + 1) w"
    and iss: "IssueAccessToken cr (mem_issuer url) rt site c w = (Inr raw, w')"
  obtains key k where "jwt_sign cr key (access_claims url (fill_access cr (mem_issuer url) rt site c)) = Some raw"
    "private_from_pem cr (sk_PrivateKeyPEM k) = Some (jwk_raw key)" "jwk_kid key = sk_KeyID k"
    "jwk_alg key = sk_Algorithm k" "published k w'" "signing_good cr w'"
proof -
  let ?cl = "access_claims url (fill_access cr (mem_issuer url) rt site c)"
  obtain key where key: "PrivateJWK cr mem_signing_keys rt (site + 1) w = (Inr key, w')"
    "jwt_sign cr key ?cl = Some raw"
    using iss by (auto simp: IssueAccessToken_def mem_issuer_def NewIssuer_def split: if_splits
        elim!: sign_with_active_Inr)
  obtain k where k: "EnsureActiveKey cr mem_signing_keys rt (site + 1) w = (Inr k, w')"
    "private_from_pem cr (sk_PrivateKeyPEM k) = Some (jwk_raw key)" "jwk_kid key = sk_KeyID k"
    "jwk_alg key = sk_Algorithm k"
    using key(1) by (auto simp: PrivateJWK_def split: sum.splits prod.splits option.splits)
  have "k \<in> ring w'" "signing_good cr w'"
    using ensure_good [OF laws k(1)] by simp_all
  then show ?thesis by (intro that [OF key(2) k(2-4)] published_self)
qed

definition valid_between :: "access_token_claims \<Rightarrow> time \<Rightarrow> bool" where
  "valid_between c t \<longleftrightarrow> at_IssuedAt c \<le> t \<and>
    t < unix_seconds (time_add (at_IssuedAt c) (at_ExpiresIn c)) * 1000000000"

lemma access_claims_current:
  assumes "valid_between c t"
  shows "current_claims (access_claims url c) url t"
proof -
  have "at_IssuedAt c div 1000000000 * 1000000000 \<le> at_IssuedAt c"
    by presburger
  then have "unix_seconds (at_IssuedAt c) * 1000000000 \<le> t"
    using assms by (simp add: unix_seconds_def valid_between_def)
  moreover have "gm_get (access_claims url c) ''iss'' = Some (JStr url)"
    "claim_date (access_claims url c) ''iat'' (unix_seconds (at_IssuedAt c))"
    "claim_date (access_claims url c) ''nbf'' (unix_seconds (at_IssuedAt c))"
    "claim_date (access_claims url c) ''exp'' (unix_seconds (time_add (at_IssuedAt c) (at_ExpiresIn c)))"
    by (simp_all add: access_claims_def claim_date_def numeric_date_def Let_def split: option.splits)
  ultimately show ?thesis
    using assms unfolding current_claims_def valid_between_def by blast
qed

text \<open>
  C16. An access token verifies, with the claims it was issued with, against the keys the server
  publishes at any time of its lifetime, whatever rotations of the signing keys came between.
\<close>

theorem access_token_verifies:
  assumes "pem_laws cr" "jws_laws cr" "signing_good cr w" "fresh_kid cr rt (site + 1) w"
    and "IssueAccessToken cr (mem_issuer url) rt site c w = (Inr raw, w1)"
    and "rotations_fresh cr rots w1"
    and "valid_between (fill_access cr (mem_issuer url) rt site c) (now rt' site')"
  shows "VerifyToken cr (mem_issuer url) rt' site' raw (rotate_all cr rots w1) =
    Inr (access_claims url (fill_access cr (mem_issuer url) rt site c))"
proof -
  let ?cl = "access_claims url (fill_access cr (mem_issuer url) rt site c)"
  obtain key k where key: "jwt_sign cr key ?cl = Some raw"
    "private_from_pem cr (sk_PrivateKeyPEM k) = Some (jwk_raw key)" "jwk_kid key = sk_KeyID k"
    "jwk_alg key = sk_Algorithm k" "published k w1" "signing_good cr w1"
    by (rule IssueAccessToken_signed [OF assms(1,3,4,5)])
  then have after: "signing_good cr (rotate_all cr rots w1)" "published k (rotate_all cr rots w1)"
    using rotate_all_good [OF assms(1) _ assms(6), of k] by simp_all
  obtain js j priv where js: "PublicJWKSet cr mem_signing_keys (rotate_all cr rots w1) = Inr js"
    "distinct (map jwk_kid js)" "j \<in> set js" "jwk_kid j = sk_KeyID k" "jwk_alg j = sk_Algorithm k"
    "private_from_pem cr (sk_PrivateKeyPEM k) = Some priv" "jwk_raw j = rsa_public cr priv"
    by (rule jwks_of_ring [OF after])
  have "jwt_verify cr js url (now rt' site') hour raw = Some ?cl"
    using assms(2) key(1) js(2-3) access_claims_current [OF assms(7), of url] js(4-7) key(2-4)
    unfolding jws_laws_def by (metis option.inject)
  with js(1) show ?thesis by (simp add: VerifyToken_def mem_issuer_def NewIssuer_def)
qed


subsection \<open>A run\<close>

text \<open>
  Libraries with one key pair and one signature: signing succeeds for one key and one set of
  claims, and verifying gives them back while they are valid.
\<close>

definition run_claims :: access_token_claims where
  "run_claims = \<lparr>at_Subject = ''alice'', at_ClientID = ''app'', at_Scope = ''openid'', at_ExpiresIn = hour,
     at_IssuedAt = 1000000000, at_AuthTime = None, at_JwtID = ''j''\<rparr>"

definition run_key :: jwk where
  "run_key = \<lparr>jwk_raw = ''rsa'', jwk_kid = ''k1'', jwk_alg = ''RS256'', jwk_use = []\<rparr>"

definition run_signed :: claims where
  "run_signed = access_claims ''https://as'' run_claims"

definition run_crypto :: crypto where
  "run_crypto = sample_crypto
    \<lparr>jwt_sign := (\<lambda>k cl. if k = run_key \<and> cl = run_signed then Some ''signed'' else None),
     jwt_verify := (\<lambda>js iss t skew raw. if raw = ''signed'' then Some run_signed else None)\<rparr>"

lemma run_laws: "pem_laws run_crypto" "jws_laws run_crypto"
  by (simp_all add: pem_laws_def jws_laws_def run_crypto_def sample_crypto_def)

lemma run_ring [simp]: "ring sample_world = {sample_key}"
  by (simp add: ring_def sample_simps)

lemma rotation_run_good: "signing_good run_crypto sample_world"
  by (simp add: signing_good_def keyed_def matched_def sample_simps run_crypto_def)
    (simp add: sample_key_def sample_crypto_def)

lemma run_uuid: "uuid_string run_crypto i = ''id'' @ [char_of (unat i)]"
  by (simp add: run_crypto_def sample_crypto_def)

lemma run_fresh: "fresh_kid run_crypto rt site sample_world"
  by (simp add: fresh_kid_def run_uuid) (simp add: sample_key_def)

lemma run_fill: "fill_access cr i rt site run_claims = run_claims"
  by (simp add: fill_access_def run_claims_def hour_def minute_def second_def is_zero_time_def zero_time_def)

lemma run_issues:
  "IssueAccessToken run_crypto (mem_issuer ''https://as'') sample_rt 0 run_claims sample_world =
    (Inr ''signed'', sample_world)"
proof -
  have "PrivateJWK run_crypto mem_signing_keys sample_rt (Suc 0) sample_world = (Inr run_key, sample_world)"
    by (simp add: PrivateJWK_def EnsureActiveKey_def mem_signing_keys_def signing_GetActive_def sample_simps
        run_crypto_def) (simp add: sample_key_def run_key_def)
  then show ?thesis
    by (simp add: IssueAccessToken_def sign_with_active_def mem_issuer_def NewIssuer_def run_fill)
      (simp add: run_crypto_def run_signed_def run_claims_def)
qed

lemma run_valid: "valid_between run_claims 5000000000"
  by (simp add: valid_between_def run_claims_def time_add_def unix_seconds_def hour_def minute_def second_def)

lemma run_rotates: "\<exists>k w'. Rotate run_crypto mem_signing_keys sample_rt 0 sample_world = (Inr k, w')"
  by (simp add: key_manager_defs mem_signing_keys_def signing_GetActive_def signing_Store_def zoom_eq
      sample_rt_def sample_simps run_crypto_def Let_def)
    (simp add: sample_key_def)

theorem signing_rotation_witness:
  "\<exists>k w'. Rotate run_crypto mem_signing_keys sample_rt 0 sample_world = (Inr k, w') \<and>
    signing_good run_crypto w' \<and> {q. published q sample_world} \<subseteq> {q. published q w'} \<and>
    {q \<in> ring w'. sk_IsActive q} = {k}"
proof -
  obtain k w' where r: "Rotate run_crypto mem_signing_keys sample_rt 0 sample_world = (Inr k, w')"
    using run_rotates by blast
  have "{q \<in> ring sample_world. sk_IsActive q} = {sample_key}" by (auto simp: sample_key_def)
  from signing_rotation [OF run_laws(1) rotation_run_good this run_fresh r] r show ?thesis by auto
qed

theorem access_token_verifies_witness:
  "VerifyToken run_crypto (mem_issuer ''https://as'') (sample_runtime 5000000000 0) 0 ''signed''
     (rotate_all run_crypto [(sample_runtime 2000000000 65, 0)] sample_world) = Inr run_signed"
proof -
  have "rotations_fresh run_crypto [(sample_runtime 2000000000 65, 0)] sample_world"
    by (simp add: run_fresh)
  from access_token_verifies [OF run_laws rotation_run_good run_fresh run_issues this, of "sample_runtime 5000000000 0" 0]
  show ?thesis by (simp add: run_fill run_valid run_signed_def sample_simps)
qed

end
