(* ===== verification/Browser_Session.thy ===== *)
theory Browser_Session
  imports DP_Keys
begin

section \<open>Browser sessions (internal/session/cookie.go, internal/oidc/session\_resolver.go, csrf\_guard.go)\<close>

text \<open>
  What the pages and JSON endpoints of the browser share: the sealed session cookie, the lookup
  of the signed-in session, the double-submit CSRF check and the decoding of a JSON body.

  Sealing and opening a cookie is gorilla/securecookie's; a \<open>cookie_lib\<close> holds its two functions
  as one request sees them. They depend on the time of day and, sealing, on random bytes, so
  two requests have two of them.
\<close>

record cookie_lib =
  EncodeMulti :: "string \<Rightarrow> string \<Rightarrow> dp_pair list \<Rightarrow> string option"
  DecodeMulti :: "string \<Rightarrow> string \<Rightarrow> dp_pair list \<Rightarrow> string option"

subsection \<open>The session cookie\<close>

record cookie_manager =
  cm_codecs :: "dp_pair list"
  cm_Name :: string
  cm_RequireHTTPS :: bool
  cm_Path :: string
  cm_MaxAge :: duration

datatype session_error = ErrNoSession | ErrInvalidCookie | SessionStoreError store_error

definition cookie_Encode :: "crypto \<Rightarrow> cookie_lib \<Rightarrow> cookie_manager \<Rightarrow> uuid \<Rightarrow> string option" where
  "cookie_Encode cr lib m i = EncodeMulti lib (cm_Name m) (uuid_string cr i) (cm_codecs m)"

definition cookie_Decode :: "crypto \<Rightarrow> cookie_lib \<Rightarrow> cookie_manager \<Rightarrow> string \<Rightarrow> session_error + uuid" where
  "cookie_Decode cr lib m raw =
    (case DecodeMulti lib (cm_Name m) raw (cm_codecs m) of
       None \<Rightarrow> Inl ErrInvalidCookie
     | Some s \<Rightarrow> (case uuid_parse cr s of None \<Rightarrow> Inl ErrInvalidCookie | Some i \<Rightarrow> Inr i))"

text \<open>\<open>SetCookie\<close>: \<open>None\<close> is its error; \<open>t\<close> is the clock's reading.\<close>

definition SetCookie :: "crypto \<Rightarrow> cookie_lib \<Rightarrow> time \<Rightarrow> cookie_manager \<Rightarrow> uuid \<Rightarrow> set_cookie option" where
  "SetCookie cr lib t m i =
    (case cookie_Encode cr lib m i of
       None \<Rightarrow> None
     | Some encoded \<Rightarrow>
         let c = \<lparr>ck_Name = cm_Name m, ck_Value = encoded, ck_Path = cm_Path m, ck_MaxAge = 0,
                  ck_Expires = None, ck_HttpOnly = True, ck_Secure = cm_RequireHTTPS m,
                  ck_SameSiteLax = True\<rparr>
         in Some (if sint (cm_MaxAge m) > 0
                  then c\<lparr>ck_MaxAge := duration_seconds (cm_MaxAge m),
                         ck_Expires := Some (time_add t (cm_MaxAge m))\<rparr>
                  else c))"

definition ClearCookie :: "cookie_manager \<Rightarrow> set_cookie" where
  "ClearCookie m =
    \<lparr>ck_Name = cm_Name m, ck_Value = [], ck_Path = cm_Path m, ck_MaxAge = -1, ck_Expires = Some 0,
     ck_HttpOnly = True, ck_Secure = cm_RequireHTTPS m, ck_SameSiteLax = True\<rparr>"

definition FromRequest ::
  "crypto \<Rightarrow> cookie_lib \<Rightarrow> cookie_manager \<Rightarrow> http_request \<Rightarrow> session_error + uuid" where
  "FromRequest cr lib m r =
    (case cookie_get r (cm_Name m) of
       None \<Rightarrow> Inl ErrNoSession
     | Some v \<Rightarrow> cookie_Decode cr lib m v)"

subsection \<open>The session resolver\<close>

record 'w session_resolver =
  sr_Cookies :: cookie_manager
  sr_Sessions :: "'w session_store"

text \<open>\<open>Inr None\<close> is the Go pair \<open>(nil, nil)\<close>: the session exists but is over.\<close>

definition session_over :: "session \<Rightarrow> time \<Rightarrow> bool" where
  "session_over s t \<longleftrightarrow> s_RevokedAt s \<noteq> None \<or> time_after t (s_ExpiresAt s)"

definition Resolve ::
  "crypto \<Rightarrow> cookie_lib \<Rightarrow> time \<Rightarrow> 'w session_resolver \<Rightarrow> http_request \<Rightarrow> 'w
    \<Rightarrow> session_error + session option" where
  "Resolve cr lib t sr r w =
    (case FromRequest cr lib (sr_Cookies sr) r of
       Inl e \<Rightarrow> Inl e
     | Inr i \<Rightarrow>
         (case ss_Find (sr_Sessions sr) i w of
            Inl e \<Rightarrow> Inl (SessionStoreError e)
          | Inr s \<Rightarrow> Inr (if session_over s t then None else Some s)))"

text \<open>The middleware: \<open>next\<close> gets the session and the request.\<close>

definition RequireSession ::
  "crypto \<Rightarrow> cookie_lib \<Rightarrow> time \<Rightarrow> 'w session_resolver
    \<Rightarrow> (session \<Rightarrow> http_request \<Rightarrow> 'w \<Rightarrow> outcome \<times> 'w) \<Rightarrow> http_request \<Rightarrow> 'w \<Rightarrow> outcome \<times> 'w" where
  "RequireSession cr lib t sr nxt r w =
    (case Resolve cr lib t sr r w of
       Inr (Some s) \<Rightarrow> nxt s r w
     | Inr None \<Rightarrow> (fail_with 401 ''login_required'' ''login required'', w)
     | Inl e \<Rightarrow>
         (add_cookies (if e \<noteq> ErrNoSession then [ClearCookie (sr_Cookies sr)] else [])
            (fail_with 401 ''login_required'' ''login required''), w))"

lemma Resolve_Some:
  "Resolve cr lib t sr r w = Inr (Some s) \<longleftrightarrow>
    (\<exists>i. FromRequest cr lib (sr_Cookies sr) r = Inr i \<and> ss_Find (sr_Sessions sr) i w = Inr s) \<and>
    s_RevokedAt s = None \<and> t \<le> s_ExpiresAt s"
  by (auto simp: Resolve_def session_over_def time_after_def split: sum.splits)

text \<open>The middleware runs the handler for a live session only; otherwise it answers 401.\<close>

lemma RequireSession_cases:
  assumes "RequireSession cr lib t sr nxt r w = (out, w')"
  shows "(\<exists>s. Resolve cr lib t sr r w = Inr (Some s) \<and> nxt s r w = (out, w')) \<or>
    (status_of out = Some 401 \<and> w' = w)"
  using assms by (auto simp: RequireSession_def split: sum.splits option.splits)

subsection \<open>CSRF\<close>

record csrf_guard =
  cg_CookieName :: string
  cg_Path :: string
  cg_RequireHTTPS :: bool

definition csrfCookieName :: string where "csrfCookieName = ''_csrf''"
definition csrfFieldName :: string where "csrfFieldName = ''csrf_token''"
definition csrfHeaderName :: string where "csrfHeaderName = ''X-CSRF-Token''"

definition APICSRFGuard :: "bool \<Rightarrow> csrf_guard" where
  "APICSRFGuard https = \<lparr>cg_CookieName = csrfCookieName, cg_Path = ''/'', cg_RequireHTTPS = https\<rparr>"

definition csrf_Issue :: "runtime \<Rightarrow> nat \<Rightarrow> csrf_guard \<Rightarrow> (string \<times> set_cookie) option" where
  "csrf_Issue rt site g =
    (case random_bytes rt site 32 of
       None \<Rightarrow> None
     | Some b \<Rightarrow>
         let tok = b64url b in
         Some (tok, \<lparr>ck_Name = cg_CookieName g, ck_Value = tok, ck_Path = cg_Path g, ck_MaxAge = 0,
                     ck_Expires = None, ck_HttpOnly = True, ck_Secure = cg_RequireHTTPS g,
                     ck_SameSiteLax = True\<rparr>))"

definition csrf_Verify :: "csrf_guard \<Rightarrow> http_request \<Rightarrow> url_values \<Rightarrow> bool" where
  "csrf_Verify g r form =
    (case cookie_get r (cg_CookieName g) of
       None \<Rightarrow> False
     | Some c \<Rightarrow>
         if c = [] then False
         else let f = form_value r form csrfFieldName;
                  got = (if f = [] then header_get r csrfHeaderName else f)
              in c = got)"

definition csrf_VerifyHeader :: "csrf_guard \<Rightarrow> http_request \<Rightarrow> bool" where
  "csrf_VerifyHeader g r =
    (case cookie_get r (cg_CookieName g) of
       None \<Rightarrow> False
     | Some c \<Rightarrow>
         if c = [] then False
         else let got = header_get r csrfHeaderName in if got = [] then False else c = got)"

text \<open>Without a cookie of its own a request never passes, whatever else it carries.\<close>

lemma csrf_needs_cookie:
  "csrf_Verify g r form \<Longrightarrow> \<exists>c. cookie_get r (cg_CookieName g) = Some c \<and> c \<noteq> []"
  "csrf_VerifyHeader g r \<Longrightarrow> \<exists>c. cookie_get r (cg_CookieName g) = Some c \<and> c \<noteq> [] \<and>
     header_get r csrfHeaderName = c"
  by (auto simp: csrf_Verify_def csrf_VerifyHeader_def Let_def split: option.splits if_splits)

subsection \<open>JSON bodies (internal/oidc/api.go)\<close>

text \<open>
  \<open>decodeJSON\<close> into a struct of string fields, with the rules of encoding/json: field names
  match up to case, a later key overwrites, \<open>null\<close> leaves a field alone, any other type is an
  error. The result maps the fields that were set.
\<close>

fun decode_object ::
  "string list \<Rightarrow> (string \<times> json) list \<Rightarrow> (string, string) gomap \<Rightarrow> (string, string) gomap option" where
  "decode_object names [] acc = Some acc"
| "decode_object names ((k, v) # kvs) acc =
    (case find (equal_fold k) names of
       None \<Rightarrow> decode_object names kvs acc
     | Some f \<Rightarrow>
         (case v of
            JStr s \<Rightarrow> decode_object names kvs (gm_put f s acc)
          | JNull \<Rightarrow> decode_object names kvs acc
          | _ \<Rightarrow> None))"

definition decodeJSON :: "string list \<Rightarrow> http_request \<Rightarrow> (string, string) gomap option" where
  "decodeJSON names r =
    (case req_Body r of
       Some (JObj kvs) \<Rightarrow> decode_object names kvs []
     | Some JNull \<Rightarrow> Some []
     | _ \<Rightarrow> None)"

definition body_str :: "(string, string) gomap \<Rightarrow> string \<Rightarrow> string" where
  "body_str m k = (case gm_get m k of Some v \<Rightarrow> v | None \<Rightarrow> [])"

definition writeJSON :: "nat \<Rightarrow> json \<Rightarrow> outcome" where
  "writeJSON s j = Response (json_response s j)"

lemma writeJSON_simps [simp]:
  "status_of (writeJSON s j) = Some s" "body_field (writeJSON s j) k = json_field j k"
  "location_of (writeJSON s j) = None" "cookies_of (writeJSON s j) = []"
  by (simp_all add: writeJSON_def)

lemma body_field_cookies [simp]:
  "body_field (Response (r\<lparr>resp_cookies := cs\<rparr>)) k = body_field (Response r) k"
  by (simp add: body_field_def)

text \<open>\<open>CSRFHandler\<close> (api.go).\<close>

definition csrf_serve :: "runtime \<Rightarrow> bool \<Rightarrow> http_request \<Rightarrow> outcome" where
  "csrf_serve rt https r =
    (if req_Method r \<noteq> ''GET'' \<and> req_Method r \<noteq> ''HEAD'' then
       Response ((error_response 405 ''invalid_request'' ''method not allowed'')
         \<lparr>resp_headers := (''Allow'', ''GET, HEAD'') # json_headers\<rparr>)
     else case csrf_Issue rt 0 (APICSRFGuard https) of
       None \<Rightarrow> fail_with 500 ''server_error'' ''internal error''
     | Some (tok, c) \<Rightarrow> add_cookies [c] (writeJSON 200 (JObj [(''csrf_token'', JStr tok)])))"

text \<open>A request that echoes the token of \<open>GET /api/csrf\<close> passes the check.\<close>

lemma csrf_round_trip:
  assumes "csrf_serve rt https r = out" "status_of out = Some 200"
    and "cookies_of out = [c]" "body_field out ''csrf_token'' = Some (JStr tok)" "tok \<noteq> []"
    and "cookie_get r' (ck_Name c) = Some (ck_Value c)" "header_get r' csrfHeaderName = tok"
  shows "csrf_VerifyHeader (APICSRFGuard https') r'"
  using assms
  by (auto simp: csrf_serve_def csrf_Issue_def csrf_VerifyHeader_def APICSRFGuard_def Let_def json_field_def
      writeJSON_def split: if_splits option.splits)

end
