(* ===== verification/Cookie_Properties.thy ===== *)
theory Cookie_Properties
  imports Sample Browser_Session
begin

section \<open>The session cookie across key rotations\<close>

text \<open>
  A session cookie sealed under one keyset opens under any later one: a rotation retires keys
  but never drops them. What gorilla/securecookie contributes is the hypothesis \<open>sealing\<close>, and
  google/uuid's the hypothesis \<open>uuid_text\<close>.
\<close>

text \<open>
  What one of the codecs of \<open>ps\<close> sealed, a list that has them all opens, under the same cookie
  name. \<open>enc\<close> and \<open>dec\<close> are the library as the two requests see it.
\<close>

definition sealing :: "cookie_lib \<Rightarrow> cookie_lib \<Rightarrow> bool" where
  "sealing enc dec \<longleftrightarrow> (\<forall>name v ps s qs. EncodeMulti enc name v ps = Some s \<longrightarrow> set ps \<subseteq> set qs \<longrightarrow>
    DecodeMulti dec name s qs = Some v)"

definition uuid_text :: "crypto \<Rightarrow> bool" where
  "uuid_text cr \<longleftrightarrow> (\<forall>i. uuid_parse cr (uuid_string cr i) = Some i)"

definition fresh_dp :: "crypto \<Rightarrow> runtime \<Rightarrow> nat \<Rightarrow> world \<Rightarrow> bool" where
  "fresh_dp cr rt site w \<longleftrightarrow> uuid_string cr (new_uuid rt site) \<noteq> [] \<and>
    uuid_string cr (new_uuid rt site) \<notin> dk_KeyID ` snd ` set (w_dpkeys w)"

abbreviation dp_good :: "world \<Rightarrow> bool" where
  "dp_good w \<equiv> keyed dk_KeyID (w_dpkeys w)"

abbreviation pairs :: "world \<Rightarrow> dp_pair set" where
  "pairs w \<equiv> pair_of ` snd ` set (w_dpkeys w)"

lemma mem_keyset:
  assumes "dp_good w" "fresh_dp cr rt site w" "Keyset cr mem_dp_keys rt site w = (Inr (ps, a), w')"
  shows "dp_good w'" "set ps = pairs w'" "pairs w \<subseteq> pairs w'"
proof -
  have k: "snd ` set (w_dpkeys w) \<subseteq> snd ` set (w_dpkeys w') \<and> dp_good w'"
    using cookie_keys.keyset_keeps [OF assms(1) _ _ assms(3)] assms(2) by (simp add: fresh_dp_def)
  then show "dp_good w'" "pairs w \<subseteq> pairs w'" by (simp_all add: image_mono)
  show "set ps = pairs w'"
    using cookie_keys.keyset_pairs [OF _ assms(3)] k assms(1,2) by (simp add: fresh_dp_def)
qed

lemma mem_rotate:
  assumes "dp_good w" "fresh_dp cr rt site w" "dp_Rotate cr mem_dp_keys rt site w = (res, w')"
  shows "dp_good w'" "pairs w \<subseteq> pairs w'"
  using cookie_keys.rotate_keeps_pairs [OF assms(1,3)] assms(2) by (simp_all add: fresh_dp_def)

lemma SetCookie_value:
  "SetCookie cr lib t m i = Some c \<Longrightarrow>
    EncodeMulti lib (cm_Name m) (uuid_string cr i) (cm_codecs m) = Some (ck_Value c)"
  by (auto simp: SetCookie_def cookie_Encode_def Let_def split: option.splits if_splits)

text \<open>
  C17. A session cookie set under the keyset of one process is read back, as the same session,
  by a process whose keyset was loaded after a rotation of the cookie keys.
\<close>

theorem session_cookie_survives_rotation:
  assumes "sealing enc dec" "uuid_text cr" "dp_good w"
    and "fresh_dp cr rt site w" "Keyset cr mem_dp_keys rt site w = (Inr (ps, a), w1)"
    and "fresh_dp cr rt1 site1 w1" "dp_Rotate cr mem_dp_keys rt1 site1 w1 = (res, w2)"
    and "fresh_dp cr rt2 site2 w2" "Keyset cr mem_dp_keys rt2 site2 w2 = (Inr (qs, b), w3)"
    and "cm_codecs m = ps" "cm_codecs m' = qs" "cm_Name m' = cm_Name m"
    and "SetCookie cr enc t m i = Some c" "cookie_get r (cm_Name m') = Some (ck_Value c)"
  shows "FromRequest cr dec m' r = Inr i"
proof -
  note k1 = mem_keyset [OF assms(3,4,5)]
  note r = mem_rotate [OF k1(1) assms(6,7)]
  note k2 = mem_keyset [OF r(1) assms(8,9)]
  have "set ps \<subseteq> set qs"
    using k1(2) k2(2,3) r(2) by (metis subset_trans)
  moreover have "EncodeMulti enc (cm_Name m') (uuid_string cr i) ps = Some (ck_Value c)"
    using SetCookie_value [OF assms(13)] assms(10,12) by simp
  ultimately have "DecodeMulti dec (cm_Name m') (ck_Value c) (cm_codecs m') = Some (uuid_string cr i)"
    using assms(1) unfolding sealing_def assms(11) by blast
  then show ?thesis
    using assms(2,14) by (simp add: FromRequest_def cookie_Decode_def uuid_text_def)
qed

subsection \<open>A run\<close>

text \<open>A seal that writes the hash key in front, and opens by looking for it.\<close>

definition sample_lib :: cookie_lib where
  "sample_lib = \<lparr>EncodeMulti = (\<lambda>n v ps. case ps of [] \<Rightarrow> None | p # _ \<Rightarrow> Some (hd (dpp_Hash p) # v)),
     DecodeMulti = (\<lambda>n s ps. case s of [] \<Rightarrow> None
       | x # v \<Rightarrow> if list_ex (\<lambda>p. hd (dpp_Hash p) = x) ps then Some v else None)\<rparr>"

lemma sample_sealing: "sealing sample_lib sample_lib"
  unfolding sealing_def
proof (intro allI impI)
  fix name v s and ps qs :: "dp_pair list"
  assume e: "EncodeMulti sample_lib name v ps = Some s" "set ps \<subseteq> set qs"
  then obtain p ps' where ps: "ps = p # ps'" "s = hd (dpp_Hash p) # v"
    by (cases ps) (simp_all add: sample_lib_def)
  then have "p \<in> set qs" using e(2) by simp
  then have "list_ex (\<lambda>q. hd (dpp_Hash q) = hd (dpp_Hash p)) qs" by (auto simp: list_ex_iff)
  with ps show "DecodeMulti sample_lib name s qs = Some v" by (simp add: sample_lib_def)
qed

definition sample_uuid_crypto :: crypto where
  "sample_uuid_crypto = sample_crypto
    \<lparr>uuid_string := (\<lambda>i. CHR ''u'' # replicate (unat i) CHR ''x''),
     uuid_parse := (\<lambda>s. case s of [] \<Rightarrow> None | _ # xs \<Rightarrow> Some (of_nat (length xs)))\<rparr>"

lemma sample_uuid_text: "uuid_text sample_uuid_crypto"
  by (simp add: uuid_text_def sample_uuid_crypto_def)

definition sample_manager :: "dp_pair list \<Rightarrow> cookie_manager" where
  "sample_manager ps = \<lparr>cm_codecs = ps, cm_Name = ''sid'', cm_RequireHTTPS = True, cm_Path = ''/'',
     cm_MaxAge = hour\<rparr>"

definition cookie_request :: "string \<Rightarrow> http_request" where
  "cookie_request v = \<lparr>req_Method = ''GET'', req_Path = ''/'', req_Query = [], req_URI = ''/'',
     req_PostForm = Some [], req_PartialForm = [], req_Body = None, req_Header = [],
     req_Cookies = [(''sid'', v)], req_RemoteAddr = []\<rparr>"

abbreviation dp_run :: "nat \<Rightarrow> runtime" where "dp_run \<equiv> sample_runtime 1000"

lemma mem_dp_ops:
  "dps_GetActive mem_dp_keys w = dp_GetActive (w_dpkeys w)" "dps_GetAll mem_dp_keys w = dp_GetAll (w_dpkeys w)"
  "dps_Store mem_dp_keys x w =
    (fst (dp_Store x (w_dpkeys w)), w\<lparr>w_dpkeys := snd (dp_Store x (w_dpkeys w))\<rparr>)"
  by (simp_all add: mem_dp_keys_def zoom_eq prod_eq_iff)

definition run_dp :: "nat \<Rightarrow> data_protection_key" where
  "run_dp n = \<lparr>dk_KeyID = CHR ''u'' # replicate n CHR ''x'', dk_HashKey = replicate 32 (char_of n),
     dk_BlockKey = replicate 32 (char_of (n + 1)), dk_CSRFKey = replicate 32 (char_of (n + 2)),
     dk_CreatedAt = 1000, dk_RetiredAt = None, dk_IsActive = True\<rparr>"

lemma run_dp_simps [simp]: "dk_KeyID (run_dp n) = CHR ''u'' # replicate n CHR ''x''" "dk_IsActive (run_dp n)"
  by (simp_all add: run_dp_def)

lemma dp_run_uuid:
  "n < 100 \<Longrightarrow> uuid_string sample_uuid_crypto (of_nat n) = CHR ''u'' # replicate n CHR ''x''"
  by (simp add: sample_uuid_crypto_def unsigned_of_nat take_bit_nat_eq_self_iff)

lemma dp_run_key:
  "n < 100 \<Longrightarrow> dp_generateActive sample_uuid_crypto mem_dp_keys (dp_run n) 0 w =
    (Inr (run_dp n), w\<lparr>w_dpkeys := upsert dk_KeyID (run_dp n) (w_dpkeys w)\<rparr>)"
  by (simp add: dp_generateActive_def mem_dp_ops dp_Store_def sample_simps dpKeyBytes_def Let_def dp_run_uuid run_dp_def)

text \<open>A key is generated, a cookie set, the key rotated, the keyset loaded again.\<close>

abbreviation keyed_world :: "data_protection_key list \<Rightarrow> world" where
  "keyed_world ks \<equiv> empty_world\<lparr>w_dpkeys := map (\<lambda>k. (dk_KeyID k, k)) ks\<rparr>"

lemmas dp_step_simps = Keyset_def dp_Rotate_def dp_EnsureActiveKey_def dp_run_key mem_dp_ops
  dp_GetActive_def dp_GetAll_def dp_Store_def upsert_def sample_simps

lemma dp_first:
  "Keyset sample_uuid_crypto mem_dp_keys (dp_run 2) 0 (keyed_world []) =
    (Inr ([pair_of (run_dp 2)], run_dp 2), keyed_world [run_dp 2])"
  by (simp add: dp_step_simps)

lemma dp_second:
  "dp_Rotate sample_uuid_crypto mem_dp_keys (dp_run 3) 0 (keyed_world [run_dp 2]) =
    (Inr (run_dp 3), keyed_world [dp_retire (run_dp 2) 1000, run_dp 3])"
  by (simp add: dp_step_simps)

lemma dp_third:
  "Keyset sample_uuid_crypto mem_dp_keys (dp_run 4) 0 (keyed_world [dp_retire (run_dp 2) 1000, run_dp 3]) =
    (Inr ([pair_of (run_dp 3), pair_of (run_dp 2)], run_dp 3), keyed_world [dp_retire (run_dp 2) 1000, run_dp 3])"
  by (simp add: dp_step_simps)

abbreviation old_manager :: cookie_manager where "old_manager \<equiv> sample_manager [pair_of (run_dp 2)]"
abbreviation new_manager :: cookie_manager where
  "new_manager \<equiv> sample_manager [pair_of (run_dp 3), pair_of (run_dp 2)]"

theorem session_cookie_survives_rotation_witness:
  "\<exists>c. SetCookie sample_uuid_crypto sample_lib 1000 old_manager 7 = Some c \<and>
    FromRequest sample_uuid_crypto sample_lib new_manager (cookie_request (ck_Value c)) = Inr 7"
proof -
  have m: "cm_codecs (sample_manager ps) = ps" "cm_Name (sample_manager ps) = ''sid''" for ps
    by (simp_all add: sample_manager_def)
  obtain c where c: "SetCookie sample_uuid_crypto sample_lib 1000 old_manager 7 = Some c"
    by (auto simp: SetCookie_def cookie_Encode_def sample_lib_def m Let_def)
  have "cookie_get (cookie_request (ck_Value c)) (cm_Name new_manager) = Some (ck_Value c)"
    by (simp add: m cookie_request_def cookie_get_def)
  note run = session_cookie_survives_rotation [OF sample_sealing sample_uuid_text _ _ dp_first _ dp_second _ dp_third
      m(1) m(1) _ c this]
  have "FromRequest sample_uuid_crypto sample_lib new_manager (cookie_request (ck_Value c)) = Inr 7"
    by (rule run) (simp_all add: m keyed_def fresh_dp_def sample_uuid_crypto_def sample_simps)
  with c show ?thesis by blast
qed

end
