(* ===== verification/Assertion_Properties.thy ===== *)
theory Assertion_Properties
  imports Sample Token_Endpoint
begin

section \<open>Client assertions are used once\<close>

text \<open>
  What a verified \<open>private_key_jwt\<close> assertion has passed, for how long the memory cache refuses
  it a second time, and two places where the checks are weaker than they look: the time between
  an assertion's expiry and the end of the allowed skew, and audiences that are opaque URIs.
\<close>

lemma mem_check:
  assumes "cac_CheckAndStore (mem_assertions rt) cid jti e w = (Inr b, w')"
  shows "CheckAndStore (now rt 101) cid jti e (w_assertions w) = (b, w_assertions w')"
  using assms by (auto simp: mem_assertions_def zoom_def split: prod.splits)

definition cache_good :: "world \<Rightarrow> bool" where
  "cache_good w \<longleftrightarrow> gm_wf (mac_seen (w_assertions w))"

text \<open>
  C18. A client assertion that was accepted is not accepted again before it expires: whatever
  calls the cache served in between, no verification for the same client accepts a token with
  the same \<open>jti\<close>, as long as the cache's clock has not passed the expiry.
\<close>

theorem assertion_single_use:
  assumes "cache_good w"
    and "VerifyClientAssertion cr rt site p w = (Inr tok, w1)" "cap_Cache p = Some (mem_assertions rt)"
    and "w_assertions w2 = mem_cache.run cs (w_assertions w1)" "\<forall>(u, _) \<in> set cs. u \<le> tok_Expiration tok"
    and "VerifyClientAssertion cr' rt' site' p' w2 = (Inr tok', w3)" "cap_Cache p' = Some (mem_assertions rt')"
    and "cap_ExpectedIssuer p' = cap_ExpectedIssuer p" "now rt' 101 \<le> tok_Expiration tok"
  shows "tok_JwtID tok' \<noteq> tok_JwtID tok"
proof
  assume same: "tok_JwtID tok' = tok_JwtID tok"
  let ?id = "cap_ExpectedIssuer p" and ?jti = "tok_JwtID tok" and ?e = "tok_Expiration tok"
  have first: "CheckAndStore (now rt 101) ?id ?jti ?e (w_assertions w) = (True, w_assertions w1)"
    by (rule VerifyClientAssertion_Inr [OF assms(2)]) (use assms(3) in \<open>auto dest: mem_check\<close>)
  have again: "fst (CheckAndStore (now rt' 101) ?id ?jti (tok_Expiration tok') (w_assertions w2))"
    by (rule VerifyClientAssertion_Inr [OF assms(6)]) (use assms(7,8) same in \<open>auto dest: mem_check\<close>)
  have "\<not> fst (CheckAndStore (now rt' 101) ?id ?jti (tok_Expiration tok')
      (mem_cache.run cs (snd (CheckAndStore (now rt 101) ?id ?jti ?e (w_assertions w)))))"
    by (rule mem_cache.replay_refused) (use assms(1,5,9) first in \<open>simp_all add: cache_good_def\<close>)
  with again show False by (simp add: first assms(4))
qed

text \<open>
  C19. A verified assertion carries an asymmetric algorithm and a signature that the client's key
  set verifies, names the client as issuer and subject, is addressed to an accepted audience, and
  has an expiry and an id.
\<close>

theorem assertion_checked:
  assumes "VerifyClientAssertion cr rt site p w = (Inr tok, w')"
  shows "jwt_parse cr (cap_JWKSJSON p) (now rt site) (cap_Skew p) (cap_Assertion p) = Some tok \<and>
    (\<exists>alg rest. jws_signatures cr (cap_Assertion p) = Some (Some alg # rest) \<and> isAsymmetricAlg alg) \<and>
    tok_Issuer tok = cap_ExpectedIssuer p \<and> tok_Subject tok = cap_ExpectedSubject p \<and>
    tok_Audience tok \<noteq> [] \<and> anyAudienceMatch (tok_Audience tok) (cap_Audience p) \<and>
    tok_Expiration tok \<noteq> zero_time \<and> tok_JwtID tok \<noteq> [] \<and> cap_Cache p \<noteq> None"
  by (rule VerifyClientAssertion_Inr [OF assms])
    (auto simp: assertion_envelope_ok assertion_claims_ok is_zero_time_def)

subsection \<open>The gap between expiry and skew\<close>

definition skew_params :: "string \<Rightarrow> runtime \<Rightarrow> world client_assertion_params" where
  "skew_params raw rt = \<lparr>cap_Assertion = raw, cap_JWKSJSON = ''keys'', cap_ExpectedIssuer = ''svc'',
     cap_ExpectedSubject = ''svc'', cap_Audience = [''https://as''], cap_Skew = minute,
     cap_Cache = Some (mem_assertions rt), cap_HasClock = True\<rparr>"

text \<open>A parser that accepts up to the expiry plus the skew, as \<open>jwt.WithAcceptableSkew\<close> does.\<close>

definition skew_token :: "string \<Rightarrow> assertion_token" where
  "skew_token raw = \<lparr>tok_Issuer = ''svc'', tok_Subject = ''svc'', tok_Audience = [''https://as''],
     tok_Expiration = 300000000000, tok_JwtID = raw, tok_IssuedAt = 0\<rparr>"

definition skew_crypto :: crypto where
  "skew_crypto = sample_crypto
    \<lparr>jwt_parse := (\<lambda>keys t skew raw.
       if t < tok_Expiration (skew_token raw) + sint skew then Some (skew_token raw) else None)\<rparr>"

definition at_seconds :: "int \<Rightarrow> runtime" where
  "at_seconds n = sample_runtime (n * 1000000000) 0"

lemma at_seconds_now [simp]: "now (at_seconds n) k = n * 1000000000"
  by (simp add: at_seconds_def sample_simps)

lemma skew_params_simps [simp]:
  "cap_Assertion (skew_params raw rt) = raw" "cap_JWKSJSON (skew_params raw rt) = ''keys''"
  "cap_ExpectedIssuer (skew_params raw rt) = ''svc''" "cap_ExpectedSubject (skew_params raw rt) = ''svc''"
  "cap_Audience (skew_params raw rt) = [''https://as'']" "cap_Skew (skew_params raw rt) = minute"
  "cap_Cache (skew_params raw rt) = Some (mem_assertions rt)" "cap_HasClock (skew_params raw rt)"
  by (simp_all add: skew_params_def)

lemma skew_token_simps [simp]:
  "tok_Expiration (skew_token raw) = 300000000000" "tok_JwtID (skew_token raw) = raw"
  by (simp_all add: skew_token_def)

lemma skew_run:
  assumes "n < 360" "raw \<noteq> []"
  shows "VerifyClientAssertion skew_crypto (at_seconds n) 100 (skew_params raw (at_seconds n)) w =
    (let (b, s) = CheckAndStore (n * 1000000000) ''svc'' raw 300000000000 (w_assertions w)
     in (if b then Inr (skew_token raw) else Inl Replayed, w\<lparr>w_assertions := s\<rparr>))"
proof -
  have e: "assertion_envelope skew_crypto ''keys'' raw = None"
    by (simp add: assertion_envelope_def skew_crypto_def sample_crypto_def isAsymmetricAlg_def)
  have c: "assertion_claims_error (skew_params raw rt) (skew_token raw) = None" for rt
    using assms(2) by (simp add: assertion_claims_ok) (simp add: skew_token_def anyAudienceMatch_def is_zero_time_def zero_time_def)
  have "sint minute = 60000000000" by code_simp
  then have j: "jwt_parse skew_crypto ''keys'' (n * 1000000000) minute raw = Some (skew_token raw)"
    using assms by (simp add: skew_crypto_def)
  show ?thesis
    by (simp add: VerifyClientAssertion_def e c j assms(2) sample_simps mem_assertions_def zoom_def Let_def split: prod.split)
qed

lemma sample_cache: "w_assertions sample_world = NewMemAssertionCache"
  by (simp add: sample_world_def empty_world_def)

text \<open>
  The cache forgets an assertion at its expiry while the verifier still accepts it for the
  allowed skew: an assertion that expires at 300 s, used at 0 s, is refused at 200 s but accepted
  a second time at 310 s, with a skew of one minute.
\<close>

theorem assertion_replayed_within_skew:
  "\<exists>w1 w2 w3 tok.
    VerifyClientAssertion skew_crypto (at_seconds 0) 100 (skew_params ''jwt'' (at_seconds 0)) sample_world = (Inr tok, w1) \<and>
    VerifyClientAssertion skew_crypto (at_seconds 200) 100 (skew_params ''jwt'' (at_seconds 200)) w1 = (Inl Replayed, w2) \<and>
    VerifyClientAssertion skew_crypto (at_seconds 310) 100 (skew_params ''jwt'' (at_seconds 310)) w2 = (Inr tok, w3)"
  by (simp add: skew_run sample_cache NewMemAssertionCache_def CheckAndStore_def time_before_def
      cache_key_def Let_def gm_filter_def)

text \<open>
  Audiences are compared by scheme, host, path, query and fragment only: two different opaque
  URIs of one scheme are the same audience, while URLs that differ in host or path are not.
\<close>

theorem opaque_audiences_equal:
  "equalAudience ''urn:example:as1'' ''urn:example:as2'' \<and>
    \<not> equalAudience ''https://as1'' ''https://as2'' \<and> \<not> equalAudience ''https://as/a'' ''https://as/b'' \<and>
    equalAudience ''HTTPS://AS/a'' ''https://as/a''"
  by code_simp


lemma skew_accepts:
  "VerifyClientAssertion skew_crypto (at_seconds 0) 100 (skew_params ''jwt'' (at_seconds 0)) sample_world =
    (Inr (skew_token ''jwt''), sample_world\<lparr>w_assertions := \<lparr>mac_seen = [(''svc|jwt'', 300000000000)]\<rparr>\<rparr>)"
  by (simp add: skew_run sample_cache NewMemAssertionCache_def CheckAndStore_def cache_key_def Let_def gm_filter_def)

theorem assertion_single_use_witness:
  "\<exists>w1 w3 tok. VerifyClientAssertion skew_crypto (at_seconds 1) 100 (skew_params ''jw2'' (at_seconds 1)) w1 =
      (Inr tok, w3) \<and> tok_JwtID tok \<noteq> ''jwt''"
proof -
  let ?w1 = "sample_world\<lparr>w_assertions := \<lparr>mac_seen = [(''svc|jwt'', 300000000000)]\<rparr>\<rparr>"
  obtain w3 where two: "VerifyClientAssertion skew_crypto (at_seconds 1) 100 (skew_params ''jw2'' (at_seconds 1)) ?w1 =
      (Inr (skew_token ''jw2''), w3)"
    by (simp add: skew_run CheckAndStore_def cache_key_def time_before_def Let_def gm_filter_def)
  have good: "cache_good sample_world" by (simp add: cache_good_def sample_cache NewMemAssertionCache_def)
  have none: "\<forall>(u, _) \<in> set []. u \<le> tok_Expiration (skew_token ''jwt'')" by simp
  have "w_assertions ?w1 = mem_cache.run [] (w_assertions ?w1)" by simp
  then have ne: "tok_JwtID (skew_token ''jw2'') \<noteq> tok_JwtID (skew_token ''jwt'')"
    by (rule assertion_single_use [OF good skew_accepts _ _ none two, rotated]) simp_all
  show ?thesis
    by (rule exI [where x = ?w1], rule exI [where x = w3], rule exI [where x = "skew_token ''jw2''"])
      (use two ne in simp)
qed

theorem assertion_checked_witness:
  "jwt_parse skew_crypto ''keys'' 0 minute ''jwt'' = Some (skew_token ''jwt'') \<and>
    anyAudienceMatch (tok_Audience (skew_token ''jwt'')) [''https://as'']"
  using assertion_checked [OF skew_accepts] by simp

end
