(* ===== verification/Sample_Browser.thy ===== *)
theory Sample_Browser
  imports Sample Browser_Session
begin

section \<open>A browser of the small deployment\<close>

text \<open>
  Cookies that are their own seal, a browser signed in as the session of Sample, and JSON
  requests with a valid CSRF token, for the witnesses of the browser-facing endpoints.
\<close>

definition plain_lib :: cookie_lib where
  "plain_lib = \<lparr>EncodeMulti = (\<lambda>n v ps. Some v), DecodeMulti = (\<lambda>n s ps. Some s)\<rparr>"

definition plain_manager :: cookie_manager where
  "plain_manager = \<lparr>cm_codecs = [], cm_Name = ''sid'', cm_RequireHTTPS = True, cm_Path = ''/'', cm_MaxAge = hour\<rparr>"

definition session_cookie :: "nat \<Rightarrow> string" where
  "session_cookie n = ''id'' @ [char_of n]"

lemma plain_reads:
  "n < 256 \<Longrightarrow> cookie_get r ''sid'' = Some (session_cookie n) \<Longrightarrow>
    FromRequest sample_crypto plain_lib plain_manager r = Inr (of_nat n)"
  by (simp add: FromRequest_def plain_manager_def cookie_Decode_def plain_lib_def session_cookie_def
      sample_crypto_def of_char_of)

lemma plain_resolves:
  assumes "cookie_get r ''sid'' = Some (session_cookie 3)" "w_sessions w = [(3, sample_session)]" "t \<le> 9000"
  shows "Resolve sample_crypto plain_lib t \<lparr>sr_Cookies = plain_manager, sr_Sessions = mem_sessions\<rparr> r w =
    Inr (Some sample_session)"
  using plain_reads [of 3 r] assms
  by (simp add: Resolve_Some mem_sessions_def session_Find_def) (simp add: sample_session_def)

lemma plain_sets: "\<exists>c. SetCookie cr plain_lib t plain_manager i = Some c \<and> ck_Value c = uuid_string cr i"
  by (simp add: SetCookie_def cookie_Encode_def plain_lib_def Let_def)

text \<open>A JSON request of a browser that holds a session cookie and echoes its CSRF cookie.\<close>

definition json_request :: "string \<Rightarrow> string \<Rightarrow> (string \<times> json) list \<Rightarrow> http_request" where
  "json_request method path body = \<lparr>req_Method = method, req_Path = path, req_Query = [], req_URI = path,
     req_PostForm = Some [], req_PartialForm = [], req_Body = Some (JObj body),
     req_Header = [(''X-CSRF-Token'', ''tok'')],
     req_Cookies = [(''sid'', session_cookie 3), (''_csrf'', ''tok'')], req_RemoteAddr = ''1.2.3.4:5''\<rparr>"

lemma json_request_simps [simp]:
  "req_Method (json_request m p b) = m" "req_Path (json_request m p b) = p" "req_Query (json_request m p b) = []"
  "req_Body (json_request m p b) = Some (JObj b)" "req_RemoteAddr (json_request m p b) = ''1.2.3.4:5''"
  "cookie_get (json_request m p b) ''sid'' = Some (session_cookie 3)"
  "csrf_VerifyHeader (APICSRFGuard s) (json_request m p b)"
  by (simp_all add: json_request_def cookie_get_def csrf_VerifyHeader_def APICSRFGuard_def header_get_def
      csrfCookieName_def csrfHeaderName_def)

end
