(* ===== verification/Authorize.thy ===== *)
theory Authorize
  imports Browser_Session
begin

section \<open>The authorization endpoint (internal/oidc/authorize.go)\<close>

text \<open>
  \<open>ServeHTTP\<close> in its phases: the checks of client, redirect URI, response type, scope, PKCE and
  \<open>max_age\<close> (\<open>authorize_validate\<close>), the session of the browser (\<open>authorize_session\<close>), what
  \<open>prompt\<close> and \<open>max_age\<close> make of it (\<open>authorize_gate\<close>), and the minting of the code (\<open>mintCode\<close>).
  Runtime places: 0 to 2 (clock of the session, of \<open>max_age\<close>, of \<open>prompt=none\<close>), 3 (the code),
  4 (its id and time).

  In a redirect to the client, \<open>code\<close> and \<open>state\<close> replace parameters of the same name.
\<close>

record authorize_config =
  azc_LoginPath :: string
  azc_AuthCodeLifetime :: duration
  azc_RequirePKCE :: bool

record 'w authorize_handler =
  az_Cfg :: authorize_config
  az_Clients :: "'w client_store"
  az_AuthCodes :: "'w auth_code_store"
  az_Sessions :: "'w session_store"
  az_Users :: "'w user_store"
  az_Cookies :: cookie_manager

subsection \<open>Numbers\<close>

text \<open>\<open>strconv.Atoi\<close>: \<open>None\<close> is a syntax or range error.\<close>

fun digits_val :: "int \<Rightarrow> string \<Rightarrow> int option" where
  "digits_val n [] = Some n"
| "digits_val n (c # s) = (if is_digit c then digits_val (10 * n + int (chr_code c - 48)) s else None)"

definition atoi :: "string \<Rightarrow> int option" where
  "atoi s =
    (let t = (if has_prefix s ''-'' \<or> has_prefix s ''+'' then tl s else s) in
     if t = [] then None
     else case digits_val 0 t of
       None \<Rightarrow> None
     | Some n \<Rightarrow>
         let v = (if has_prefix s ''-'' then - n else n) in
         if min_duration \<le> v \<and> v \<le> max_duration then Some v else None)"

subsection \<open>The handler\<close>

definition scopesAllowed :: "string \<Rightarrow> string list \<Rightarrow> bool" where
  "scopesAllowed scp allowed \<longleftrightarrow> scp \<noteq> [] \<and> list_all (\<lambda>s. s \<in> set allowed) (str_fields scp)"

definition stringPtr :: "string \<Rightarrow> string option" where
  "stringPtr s = (if s = [] then None else Some s)"

text \<open>The error redirect; an unparsable URI makes it a redirect to the empty string.\<close>

definition authorize_redirect_err :: "http_request \<Rightarrow> string \<Rightarrow> string \<Rightarrow> outcome" where
  "authorize_redirect_err r c desc =
    Response (redirect_to 302
      (case redirect_error (values_get (req_Query r) ''redirect_uri'') c desc
              (values_get (req_Query r) ''state'') of
         Some l \<Rightarrow> l
       | None \<Rightarrow> Location [] []))"

definition authorize_max_age :: "http_request \<Rightarrow> outcome + duration" where
  "authorize_max_age r =
    (let raw = values_get (req_Query r) ''max_age'' in
     if raw = [] then Inr 0
     else case atoi raw of
       None \<Rightarrow> Inl (authorize_redirect_err r ''invalid_request'' ''max_age must be a non-negative integer'')
     | Some secs \<Rightarrow>
         if secs < 0 then
           Inl (authorize_redirect_err r ''invalid_request'' ''max_age must be a non-negative integer'')
         else Inr (seconds_to_duration (word_of_int secs)))"

definition authorize_validate ::
  "'w authorize_handler \<Rightarrow> http_request \<Rightarrow> 'w \<Rightarrow> outcome + (client \<times> duration)" where
  "authorize_validate h r w =
    (let q = req_Query r;
         clientID = values_get q ''client_id'';
         redirectURI = values_get q ''redirect_uri'';
         challenge = values_get q ''code_challenge''
     in
     if clientID = [] then Inl (fail_with 400 ''invalid_request'' ''client_id is required'')
     else case cs_FindByClientID (az_Clients h) clientID w of
       Inl e \<Rightarrow> Inl (fail_with 400 ''invalid_request'' ''unknown client'')
     | Inr cl \<Rightarrow>
         if redirectURI \<notin> set (c_RedirectURIs cl) then
           Inl (fail_with 400 ''invalid_request'' ''redirect_uri not registered'')
         else if values_get q ''response_type'' \<noteq> ''code'' then
           Inl (authorize_redirect_err r ''unsupported_grant_type'' ''only response_type=code is supported'')
         else if \<not> scopesAllowed (values_get q ''scope'') (c_AllowedScopes cl) then
           Inl (authorize_redirect_err r ''invalid_scope'' ''scope is not allowed for this client'')
         else if (c_RequirePKCE cl \<or> azc_RequirePKCE (az_Cfg h)) \<and> challenge = [] then
           Inl (authorize_redirect_err r ''invalid_request'' ''code_challenge is required'')
         else if (c_RequirePKCE cl \<or> azc_RequirePKCE (az_Cfg h)) \<and>
                 values_get q ''code_challenge_method'' \<noteq> PKCEMethod then
           Inl (authorize_redirect_err r ''invalid_request'' ''code_challenge_method must be S256'')
         else case authorize_max_age r of
           Inl out \<Rightarrow> Inl out
         | Inr maxAge \<Rightarrow> Inr (cl, maxAge))"

text \<open>The cookies written and the session found; a failed lookup clears the cookie.\<close>

definition authorize_session ::
  "crypto \<Rightarrow> cookie_lib \<Rightarrow> runtime \<Rightarrow> 'w authorize_handler \<Rightarrow> http_request \<Rightarrow> 'w
    \<Rightarrow> set_cookie list \<times> session option" where
  "authorize_session cr lib rt h r w =
    (case Resolve cr lib (now rt 0) \<lparr>sr_Cookies = az_Cookies h, sr_Sessions = az_Sessions h\<rparr> r w of
       Inr s \<Rightarrow> ([], s)
     | Inl e \<Rightarrow> if e \<noteq> ErrNoSession then ([ClearCookie (az_Cookies h)], None) else ([], None))"

definition stale :: "runtime \<Rightarrow> http_request \<Rightarrow> duration \<Rightarrow> session \<Rightarrow> bool" where
  "stale rt r maxAge s \<longleftrightarrow> values_get (req_Query r) ''max_age'' \<noteq> [] \<and>
    (maxAge = 0 \<or> time_sub (now rt 1) (s_CreatedAt s) > sint maxAge)"

definition authorize_gate ::
  "runtime \<Rightarrow> http_request \<Rightarrow> duration \<Rightarrow> session option \<Rightarrow> outcome + session option" where
  "authorize_gate rt r maxAge sess0 =
    (let prompt = values_get (req_Query r) ''prompt'';
         too_old = (case sess0 of None \<Rightarrow> False | Some s \<Rightarrow> stale rt r maxAge s)
     in
     if too_old \<and> prompt = ''none'' then
       Inl (authorize_redirect_err r ''login_required'' ''max_age exceeded'')
     else
       let sess = (if too_old then None else sess0) in
       if prompt = ''none'' then
         (case sess of
            None \<Rightarrow> Inl (authorize_redirect_err r ''login_required'' ''login required'')
          | Some s \<Rightarrow>
              if session_over s (now rt 2) then
                Inl (authorize_redirect_err r ''login_required'' ''login required'')
              else Inr (Some s))
       else if prompt = ''login'' then Inr None
       else Inr sess)"

definition minted_code ::
  "runtime \<Rightarrow> authorize_config \<Rightarrow> client \<Rightarrow> session \<Rightarrow> http_request \<Rightarrow> string \<Rightarrow> authorization_code" where
  "minted_code rt cfg cl s r hash =
    (let q = req_Query r;
         challenge = values_get q ''code_challenge''
     in
     \<lparr>ac_ID = new_uuid rt 4, ac_CodeHash = hash, ac_ClientID = c_ClientID cl, ac_UserID = s_UserID s,
      ac_SessionID = Some (s_ID s), ac_RedirectURI = values_get q ''redirect_uri'',
      ac_CodeChallenge = stringPtr challenge,
      ac_CodeChallengeMethod =
        (if challenge = [] then None else stringPtr (values_get q ''code_challenge_method'')),
      ac_Scope = values_get q ''scope'', ac_Nonce = stringPtr (values_get q ''nonce''),
      ac_ExpiresAt = time_add (now rt 4) (azc_AuthCodeLifetime cfg), ac_ConsumedAt = None,
      ac_CreatedAt = now rt 4\<rparr>)"

text \<open>\<open>None\<close> is the error, whether of the random source or of the store.\<close>

definition mintCode ::
  "crypto \<Rightarrow> runtime \<Rightarrow> 'w authorize_handler \<Rightarrow> client \<Rightarrow> session \<Rightarrow> http_request \<Rightarrow> 'w
    \<Rightarrow> string option \<times> 'w" where
  "mintCode cr rt h cl s r w =
    (case NewOpaqueToken cr rt 3 of
       None \<Rightarrow> (None, w)
     | Some (raw, hash) \<Rightarrow>
         (case acs_Store (az_AuthCodes h) (Some (minted_code rt (az_Cfg h) cl s r hash)) w of
            (Some e, w') \<Rightarrow> (None, w')
          | (None, w') \<Rightarrow> (Some raw, w')))"

definition buildAuthorizeRedirect :: "string \<Rightarrow> string \<Rightarrow> string \<Rightarrow> location option" where
  "buildAuthorizeRedirect redirectURI code state =
    (case url_parse redirectURI of
       None \<Rightarrow> None
     | Some u \<Rightarrow>
         Some (Location redirectURI
           ((''code'', code) # (if state = [] then [] else [(''state'', state)]))))"

definition authorize_issue ::
  "crypto \<Rightarrow> runtime \<Rightarrow> 'w authorize_handler \<Rightarrow> client \<Rightarrow> session \<Rightarrow> http_request \<Rightarrow> 'w
    \<Rightarrow> outcome \<times> 'w" where
  "authorize_issue cr rt h cl s r w =
    (case us_FindByID (az_Users h) (s_UserID s) w of
       Inl e \<Rightarrow> (authorize_redirect_err r ''server_error'' ''user lookup failed'', w)
     | Inr info \<Rightarrow>
         (case mintCode cr rt h cl s r w of
            (None, w1) \<Rightarrow> (authorize_redirect_err r ''server_error'' ''could not mint code'', w1)
          | (Some code, w1) \<Rightarrow>
              (case buildAuthorizeRedirect (values_get (req_Query r) ''redirect_uri'') code
                      (values_get (req_Query r) ''state'') of
                 None \<Rightarrow> (authorize_redirect_err r ''server_error'' ''could not build redirect'', w1)
               | Some l \<Rightarrow> (Response (redirect_to 302 l), w1))))"

definition authorize_login :: "authorize_config \<Rightarrow> http_request \<Rightarrow> outcome" where
  "authorize_login cfg r =
    Response (redirect_to 302 (Location (azc_LoginPath cfg) [(''returnUrl'', req_URI r)]))"

definition authorize_serve ::
  "crypto \<Rightarrow> cookie_lib \<Rightarrow> runtime \<Rightarrow> 'w authorize_handler \<Rightarrow> http_request \<Rightarrow> 'w \<Rightarrow> outcome \<times> 'w" where
  "authorize_serve cr lib rt h r w =
    (case authorize_validate h r w of
       Inl out \<Rightarrow> (out, w)
     | Inr (cl, maxAge) \<Rightarrow>
         let (cookies, sess0) = authorize_session cr lib rt h r w in
         (case authorize_gate rt r maxAge sess0 of
            Inl out \<Rightarrow> (add_cookies cookies out, w)
          | Inr None \<Rightarrow> (add_cookies cookies (authorize_login (az_Cfg h) r), w)
          | Inr (Some s) \<Rightarrow>
              let (out, w') = authorize_issue cr rt h cl s r w in (add_cookies cookies out, w')))"

subsection \<open>Facts\<close>

definition loc_param :: "outcome \<Rightarrow> string \<Rightarrow> string option" where
  "loc_param out k = (case location_of out of None \<Rightarrow> None | Some l \<Rightarrow> map_of (loc_params l) k)"

lemma loc_param_simps [simp]:
  "loc_param (Response (error_response s c d)) k = None"
  "loc_param (Response (redirect_to s l)) k = map_of (loc_params l) k"
  "loc_param (add_cookies cs out) k = loc_param out k"
  by (simp_all add: loc_param_def)

lemma redirect_err_no_code [simp]: "loc_param (authorize_redirect_err r c d) ''code'' = None"
  by (auto simp: authorize_redirect_err_def redirect_error_def split: option.split)

lemma redirect_err_status [simp]:
  "status_of (authorize_redirect_err r c d) = Some 302" "body_field (authorize_redirect_err r c d) k = None"
  by (simp_all add: authorize_redirect_err_def body_field_def redirect_to_def plain_response_def)

lemma redirect_err_base:
  "location_of (authorize_redirect_err r c d) = Some l \<Longrightarrow>
    loc_base l = values_get (req_Query r) ''redirect_uri'' \<or>
    (url_parse (values_get (req_Query r) ''redirect_uri'') = None \<and> loc_base l = [])"
  by (auto simp: authorize_redirect_err_def redirect_error_def split: option.splits)

lemma authorize_login_simps [simp]:
  "loc_param (authorize_login cfg r) ''code'' = None"
  "location_of (authorize_login cfg r) = Some (Location (azc_LoginPath cfg) [(''returnUrl'', req_URI r)])"
  by (simp_all add: authorize_login_def)

text \<open>What the checks guarantee of the request.\<close>

definition request_ok :: "'w authorize_handler \<Rightarrow> http_request \<Rightarrow> client \<Rightarrow> 'w \<Rightarrow> bool" where
  "request_ok h r cl w \<longleftrightarrow>
    cs_FindByClientID (az_Clients h) (values_get (req_Query r) ''client_id'') w = Inr cl \<and>
    values_get (req_Query r) ''client_id'' \<noteq> [] \<and>
    values_get (req_Query r) ''redirect_uri'' \<in> set (c_RedirectURIs cl) \<and>
    values_get (req_Query r) ''response_type'' = ''code'' \<and>
    values_get (req_Query r) ''scope'' \<noteq> [] \<and>
    set (str_fields (values_get (req_Query r) ''scope'')) \<subseteq> set (c_AllowedScopes cl) \<and>
    (c_RequirePKCE cl \<or> azc_RequirePKCE (az_Cfg h) \<longrightarrow>
      values_get (req_Query r) ''code_challenge'' \<noteq> [] \<and>
      values_get (req_Query r) ''code_challenge_method'' = PKCEMethod)"

lemma scopesAllowed_iff: "scopesAllowed s a \<longleftrightarrow> s \<noteq> [] \<and> set (str_fields s) \<subseteq> set a"
  by (auto simp: scopesAllowed_def list_all_iff)

lemma authorize_validate_Inr:
  "authorize_validate h r w = Inr (cl, m) \<Longrightarrow> request_ok h r cl w \<and> authorize_max_age r = Inr m"
  by (auto simp: authorize_validate_def request_ok_def Let_def scopesAllowed_iff
      split: if_splits sum.splits)

text \<open>An error of the checks goes to a registered URI or is no redirect at all.\<close>

lemma authorize_max_age_Inl:
  "authorize_max_age r = Inl out \<Longrightarrow> \<exists>d. out = authorize_redirect_err r ''invalid_request'' d"
  by (auto simp: authorize_max_age_def Let_def split: if_splits option.splits)

lemma authorize_validate_Inl:
  assumes "authorize_validate h r w = Inl out"
  shows "(\<exists>d. out = fail_with 400 ''invalid_request'' d) \<or>
    (\<exists>c d cl. out = authorize_redirect_err r c d \<and>
      cs_FindByClientID (az_Clients h) (values_get (req_Query r) ''client_id'') w = Inr cl \<and>
      values_get (req_Query r) ''redirect_uri'' \<in> set (c_RedirectURIs cl))"
  using assms
  by (auto simp: authorize_validate_def Let_def split: if_splits sum.splits
      dest: authorize_max_age_Inl)

lemma authorize_gate_Inl:
  "authorize_gate rt r m s = Inl out \<Longrightarrow> \<exists>d. out = authorize_redirect_err r ''login_required'' d"
  by (auto simp: authorize_gate_def Let_def split: if_splits option.splits)

lemma authorize_gate_Some:
  "authorize_gate rt r m s0 = Inr (Some s) \<Longrightarrow>
    s0 = Some s \<and> values_get (req_Query r) ''prompt'' \<noteq> ''login'' \<and> \<not> stale rt r m s \<and>
    (values_get (req_Query r) ''prompt'' = ''none'' \<longrightarrow> \<not> session_over s (now rt 2))"
  by (auto simp: authorize_gate_def Let_def split: if_splits option.splits)

lemma authorize_session_Some:
  "snd (authorize_session cr lib rt h r w) = Some s \<longleftrightarrow>
    Resolve cr lib (now rt 0) \<lparr>sr_Cookies = az_Cookies h, sr_Sessions = az_Sessions h\<rparr> r w = Inr (Some s)"
  by (auto simp: authorize_session_def split: sum.split)

lemma mintCode_Some:
  "mintCode cr rt h cl s r w = (Some raw, w') \<Longrightarrow>
    acs_Store (az_AuthCodes h) (Some (minted_code rt (az_Cfg h) cl s r (HashToken cr raw))) w = (None, w')"
  by (auto simp: mintCode_def split: option.splits prod.splits dest: NewOpaqueToken_hash)

text \<open>A code on the wire: every check passed, a live session exists, and the code is stored.\<close>

lemma authorize_code:
  assumes "authorize_serve cr lib rt h r w = (out, w')" "loc_param out ''code'' = Some raw"
  obtains cl m s where
    "authorize_validate h r w = Inr (cl, m)"
    "snd (authorize_session cr lib rt h r w) = Some s"
    "authorize_gate rt r m (Some s) = Inr (Some s)"
    "acs_Store (az_AuthCodes h) (Some (minted_code rt (az_Cfg h) cl s r (HashToken cr raw))) w = (None, w')"
    "location_of out = Some (Location (values_get (req_Query r) ''redirect_uri'')
       ((''code'', raw) # (if values_get (req_Query r) ''state'' = [] then []
          else [(''state'', values_get (req_Query r) ''state'')])))"
    "\<exists>info. us_FindByID (az_Users h) (s_UserID s) w = Inr info"
proof (cases "authorize_validate h r w")
  case (Inl o1)
  with assms authorize_validate_Inl [OF Inl] show ?thesis
    by (auto simp: authorize_serve_def)
next
  case (Inr p)
  then obtain cl m where p: "authorize_validate h r w = Inr (cl, m)" by (cases p) auto
  obtain cs s0 where ses: "authorize_session cr lib rt h r w = (cs, s0)" by force
  show ?thesis
  proof (cases "authorize_gate rt r m s0")
    case (Inl o1)
    with assms p ses authorize_gate_Inl [OF Inl] show ?thesis by (auto simp: authorize_serve_def)
  next
    case (Inr s1)
    then obtain s where s1: "authorize_gate rt r m s0 = Inr (Some s)"
      using assms p ses by (cases s1) (auto simp: authorize_serve_def)
    then have s0: "s0 = Some s" using authorize_gate_Some by blast
    obtain o1 where i: "authorize_issue cr rt h cl s r w = (o1, w')" "out = add_cookies cs o1"
      using assms(1) p ses s1 by (auto simp: authorize_serve_def split: prod.splits)
    have c: "loc_param o1 ''code'' = Some raw" using assms(2) i(2) by simp
    obtain info where info: "us_FindByID (az_Users h) (s_UserID s) w = Inr info"
      using i(1) c by (auto simp: authorize_issue_def split: sum.splits)
    obtain raw' l where mint: "mintCode cr rt h cl s r w = (Some raw', w')"
      and l: "buildAuthorizeRedirect (values_get (req_Query r) ''redirect_uri'') raw'
        (values_get (req_Query r) ''state'') = Some l" "o1 = Response (redirect_to 302 l)"
      using i(1) c info by (auto simp: authorize_issue_def split: sum.splits prod.splits option.splits)
    from l c have "raw' = raw" by (auto simp: buildAuthorizeRedirect_def split: option.splits)
    with mint l i(2) info p ses s1 s0 show ?thesis
      using mintCode_Some [of cr rt h cl s r w raw w']
      by (intro that) (auto simp: buildAuthorizeRedirect_def split: option.splits)
  qed
qed

text \<open>Where the endpoint may send the browser.\<close>

lemma authorize_redirects:
  assumes "authorize_serve cr lib rt h r w = (out, w')" "location_of out = Some l"
  shows "l = Location (azc_LoginPath (az_Cfg h)) [(''returnUrl'', req_URI r)] \<or>
    (\<exists>cl. cs_FindByClientID (az_Clients h) (values_get (req_Query r) ''client_id'') w = Inr cl \<and>
      values_get (req_Query r) ''redirect_uri'' \<in> set (c_RedirectURIs cl) \<and>
      (loc_base l = values_get (req_Query r) ''redirect_uri'' \<or>
       url_parse (values_get (req_Query r) ''redirect_uri'') = None))"
proof (cases "authorize_validate h r w")
  case (Inl o1)
  with assms authorize_validate_Inl [OF Inl] redirect_err_base show ?thesis
    by (fastforce simp: authorize_serve_def)
next
  case (Inr p)
  then obtain cl m where p: "authorize_validate h r w = Inr (cl, m)" by (cases p) auto
  have ok: "request_ok h r cl w" using authorize_validate_Inr [OF p] by simp
  have issue: "loc_base l = values_get (req_Query r) ''redirect_uri'' \<or>
      url_parse (values_get (req_Query r) ''redirect_uri'') = None"
    if "authorize_issue cr rt h cl s r w = (o1, w1)" "location_of o1 = Some l" for s o1 w1
    using that redirect_err_base
    by (fastforce simp: authorize_issue_def buildAuthorizeRedirect_def
        split: sum.splits prod.splits option.splits)
  show ?thesis
    using assms p ok issue redirect_err_base
    by (fastforce simp: authorize_serve_def request_ok_def split: prod.splits sum.splits option.splits
        dest: authorize_gate_Inl)
qed

end
