(* ===== verification/Authorize_Properties.thy ===== *)
theory Authorize_Properties
  imports Sample_Browser Authorize
begin

section \<open>Properties of the authorization endpoint\<close>

text \<open>
  Who gets a code and what it is bound to, where the browser may be sent, when a code is certain
  to come, when none ever does, and that a code can be redeemed by the client it was issued to.
\<close>

abbreviation query :: "http_request \<Rightarrow> string \<Rightarrow> string" where
  "query r k \<equiv> values_get (req_Query r) k"

abbreviation az_resolver :: "'w authorize_handler \<Rightarrow> 'w session_resolver" where
  "az_resolver h \<equiv> \<lparr>sr_Cookies = az_Cookies h, sr_Sessions = az_Sessions h\<rparr>"

text \<open>The binding of a code to the request, the client and the session it was issued in.\<close>

definition bound_code :: "runtime \<Rightarrow> authorize_config \<Rightarrow> client \<Rightarrow> session \<Rightarrow> http_request \<Rightarrow> authorization_code \<Rightarrow> bool" where
  "bound_code rt cfg cl s r c \<longleftrightarrow> ac_ClientID c = c_ClientID cl \<and> ac_UserID c = s_UserID s \<and>
    ac_SessionID c = Some (s_ID s) \<and> ac_RedirectURI c = query r ''redirect_uri'' \<and>
    ac_Scope c = query r ''scope'' \<and> ac_ConsumedAt c = None \<and> ac_CreatedAt c = now rt 4 \<and>
    ac_ExpiresAt c = time_add (now rt 4) (azc_AuthCodeLifetime cfg) \<and>
    ac_Nonce c = stringPtr (query r ''nonce'') \<and> ac_CodeChallenge c = stringPtr (query r ''code_challenge'') \<and>
    (query r ''code_challenge'' = [] \<or> ac_CodeChallengeMethod c = stringPtr (query r ''code_challenge_method''))"

lemma minted_bound: "bound_code rt cfg cl s r (minted_code rt cfg cl s r h)"
  by (simp add: bound_code_def minted_code_def Let_def)

lemma stored_code:
  assumes "acs_Store mem_auth_codes (Some c) w = (None, w')"
  shows "authcode_FindByHash (ac_CodeHash c) (w_codes w') = Inr c" "ac_CodeHash c \<noteq> []"
    "gm_get (acm_codes (w_codes w')) (ac_ID c) = Some c"
  using assms by (auto simp: mem_auth_codes_def zoom_eq authcode_defs split: if_splits)

text \<open>
  C9. A code is only ever sent to a registered redirect URI of the client, for a request that
  passed every check, in the session of a signed-in browser that is neither revoked nor expired;
  the stored code is bound to that client, user, session, URI, scope and PKCE challenge, and PKCE
  is there whenever the client or the server requires it.
\<close>

theorem code_issued_to_live_session:
  assumes "authorize_serve cr lib rt h r w = (out, w')" "loc_param out ''code'' = Some raw"
    and "az_AuthCodes h = mem_auth_codes"
  shows "\<exists>cl s c. request_ok h r cl w \<and>
    Resolve cr lib (now rt 0) (az_resolver h) r w = Inr (Some s) \<and>
    s_RevokedAt s = None \<and> now rt 0 \<le> s_ExpiresAt s \<and> query r ''prompt'' \<noteq> ''login'' \<and>
    (\<exists>l. location_of out = Some l \<and> loc_base l = query r ''redirect_uri'') \<and>
    authcode_FindByHash (HashToken cr raw) (w_codes w') = Inr c \<and> bound_code rt (az_Cfg h) cl s r c \<and>
    (c_RequirePKCE cl \<or> azc_RequirePKCE (az_Cfg h) \<longrightarrow>
      ac_CodeChallenge c = Some (query r ''code_challenge'') \<and> ac_CodeChallengeMethod c = Some ''S256'')"
proof -
  obtain cl m s where c: "authorize_validate h r w = Inr (cl, m)"
    "snd (authorize_session cr lib rt h r w) = Some s" "authorize_gate rt r m (Some s) = Inr (Some s)"
    "acs_Store (az_AuthCodes h) (Some (minted_code rt (az_Cfg h) cl s r (HashToken cr raw))) w = (None, w')"
    "location_of out = Some (Location (query r ''redirect_uri'')
       ((''code'', raw) # (if query r ''state'' = [] then [] else [(''state'', query r ''state'')])))"
    by (rule authorize_code [OF assms(1,2)])
  let ?c = "minted_code rt (az_Cfg h) cl s r (HashToken cr raw)"
  have ok: "request_ok h r cl w" using authorize_validate_Inr [OF c(1)] by simp
  have res: "Resolve cr lib (now rt 0) (az_resolver h) r w = Inr (Some s)"
    using c(2) by (simp add: authorize_session_Some)
  have "ac_CodeHash ?c = HashToken cr raw" by (simp add: minted_code_def Let_def)
  then have found: "authcode_FindByHash (HashToken cr raw) (w_codes w') = Inr ?c"
    using stored_code(1) [of ?c w w'] c(4) assms(3) by simp
  have pkce: "c_RequirePKCE cl \<or> azc_RequirePKCE (az_Cfg h) \<longrightarrow>
      ac_CodeChallenge ?c = Some (query r ''code_challenge'') \<and> ac_CodeChallengeMethod ?c = Some ''S256''"
    using ok by (simp add: request_ok_def minted_code_def stringPtr_def Let_def PKCEMethod_def)
  show ?thesis
    using ok res found pkce c(5) authorize_gate_Some [OF c(3)] minted_bound
    by (intro exI [of _ cl] exI [of _ s] exI [of _ ?c]) (simp add: Resolve_Some)
qed

text \<open>
  C11. The endpoint redirects a browser only to its own login page or to a redirect URI that is
  registered for the client the request names. (A registered URI that does not parse gives the
  empty target.)
\<close>

theorem authorize_redirects_registered:
  assumes "authorize_serve cr lib rt h r w = (out, w')" "location_of out = Some l"
  shows "loc_base l = azc_LoginPath (az_Cfg h) \<or>
    (\<exists>cl. cs_FindByClientID (az_Clients h) (query r ''client_id'') w = Inr cl \<and>
      query r ''redirect_uri'' \<in> set (c_RedirectURIs cl) \<and>
      (loc_base l = query r ''redirect_uri'' \<or> url_parse (query r ''redirect_uri'') = None))"
  using authorize_redirects [OF assms] by auto

text \<open>
  A well-formed request in a live session gets its code: when the checks pass, the session
  is not stale, no new login is asked for, the user exists, random bytes come and the store
  takes the code, the answer is a redirect with a code and the state that was sent.
\<close>

theorem live_session_gets_code:
  assumes "authorize_validate h r w = Inr (cl, m)"
    and "Resolve cr lib (now rt 0) (az_resolver h) r w = Inr (Some s)"
    and "\<not> stale rt r m s" "query r ''prompt'' = []"
    and "us_FindByID (az_Users h) (s_UserID s) w = Inr info"
    and "NewOpaqueToken cr rt 3 = Some (raw, hash)"
    and "fst (acs_Store (az_AuthCodes h) (Some (minted_code rt (az_Cfg h) cl s r hash)) w) = None"
    and "url_parse (query r ''redirect_uri'') \<noteq> None"
  shows "\<exists>out w'. authorize_serve cr lib rt h r w = (out, w') \<and> status_of out = Some 302 \<and>
    loc_param out ''code'' = Some raw \<and>
    (query r ''state'' = [] \<or> loc_param out ''state'' = Some (query r ''state''))"
proof -
  have ses: "authorize_session cr lib rt h r w = ([], Some s)"
    using assms(2) by (simp add: authorize_session_def)
  have gate: "authorize_gate rt r m (Some s) = Inr (Some s)"
    using assms(3,4) by (simp add: authorize_gate_def)
  obtain w1 where mint: "mintCode cr rt h cl s r w = (Some raw, w1)"
    using assms(6,7) by (cases "acs_Store (az_AuthCodes h) (Some (minted_code rt (az_Cfg h) cl s r hash)) w")
      (simp add: mintCode_def)
  obtain l where "buildAuthorizeRedirect (query r ''redirect_uri'') raw (query r ''state'') = Some l"
    "loc_params l = (''code'', raw) # (if query r ''state'' = [] then [] else [(''state'', query r ''state'')])"
    using assms(8) by (auto simp: buildAuthorizeRedirect_def)
  then show ?thesis
    using assms(1,5) ses gate mint
    by (simp add: authorize_serve_def authorize_issue_def)
qed

text \<open>
  A request with \<open>prompt=login\<close>, or with \<open>max_age=0\<close>, never gets a code, however recently the
  user signed in: every answer to it that is not an error leads to the login page with the same
  request as the place to return to.
\<close>

theorem prompt_login_never_ends:
  assumes "query r ''prompt'' = ''login'' \<or>
      query r ''max_age'' \<noteq> [] \<and> authorize_max_age r = Inr 0 \<and> query r ''prompt'' \<noteq> ''none''"
    and "authorize_validate h r w = Inr (cl, m)"
  shows "location_of (fst (authorize_serve cr lib rt h r w)) =
      Some (Location (azc_LoginPath (az_Cfg h)) [(''returnUrl'', req_URI r)]) \<and>
    loc_param (fst (authorize_serve cr lib rt h r w)) ''code'' = None \<and>
    snd (authorize_serve cr lib rt h r w) = w"
proof -
  obtain cs s0 where ses: "authorize_session cr lib rt h r w = (cs, s0)" by force
  have m: "authorize_max_age r = Inr m" using authorize_validate_Inr [OF assms(2)] by simp
  have "authorize_gate rt r m s0 = Inr None"
    using assms(1) m by (auto simp: authorize_gate_def stale_def Let_def split: option.split)
  then show ?thesis using assms(2) ses by (simp add: authorize_serve_def)
qed

text \<open>
  C10. From the authorization endpoint to the token endpoint: the client that got the code and
  presents it in time, with the redirect URI of the request and the verifier of its challenge,
  passes every check of the grant, wins the compare-and-set and goes on to the issuance for the
  user of the session.
\<close>

theorem issued_code_redeems:
  assumes "authorize_serve cr lib rt h r w = (out, w')" "loc_param out ''code'' = Some raw"
    and "az_AuthCodes h = mem_auth_codes" "az_Clients h = mem_clients"
    and "client_FindByClientID (query r ''client_id'') (w_clients w) = Inr cl" "c_ClientID cl = query r ''client_id''"
    and "values_get form ''client_id'' = query r ''client_id''" "values_get form ''code'' = raw" "raw \<noteq> []"
    and "values_get form ''redirect_uri'' = query r ''redirect_uri''" "query r ''redirect_uri'' \<noteq> []"
    and "query r ''code_challenge_method'' = ''S256''"
    and "query r ''code_challenge'' = b64url (sha256 cr (values_get form ''code_verifier''))"
    and "query r ''code_challenge'' \<noteq> []"
    and "43 \<le> length (values_get form ''code_verifier'')" "length (values_get form ''code_verifier'') \<le> 128"
    and "w_codes w2 = w_codes w'" "now rt' 0 \<le> time_add (now rt 4) (azc_AuthCodeLifetime (az_Cfg h))"
  shows "\<exists>s c w3. Resolve cr lib (now rt 0) (az_resolver h) r w = Inr (Some s) \<and> ac_UserID c = s_UserID s \<and>
    bound_code rt (az_Cfg h) cl s r c \<and>
    acs_MarkConsumed mem_auth_codes (ac_ID c) (now rt' 1) w2 = (Inr True, w3) \<and>
    authcode_handle cr (mem_authcode_grant cr rt' url cfg) rt' (Some cl) form w2 =
      authcode_issue cr (mem_authcode_grant cr rt' url cfg) rt' cl c w3"
proof -
  obtain cl' m s where c: "authorize_validate h r w = Inr (cl', m)"
    "snd (authorize_session cr lib rt h r w) = Some s"
    "acs_Store (az_AuthCodes h) (Some (minted_code rt (az_Cfg h) cl' s r (HashToken cr raw))) w = (None, w')"
    by (rule authorize_code [OF assms(1,2)])
  have "cl' = cl" using authorize_validate_Inr [OF c(1)] assms(4,5) by (simp add: request_ok_def mem_clients_def)
  let ?c = "minted_code rt (az_Cfg h) cl s r (HashToken cr raw)"
  have b: "bound_code rt (az_Cfg h) cl s r ?c" by (rule minted_bound)
  have "acs_Store mem_auth_codes (Some ?c) w = (None, w')" using c(3) assms(3) \<open>cl' = cl\<close> by simp
  note st = stored_code [OF this]
  have hash: "ac_CodeHash ?c = HashToken cr raw" by (simp add: minted_code_def Let_def)
  have pk: "pkce_ok cr ?c (values_get form ''code_verifier'')"
    using assms(12-16) by (simp add: pkce_ok_def minted_code_def stringPtr_def Let_def VerifyS256_None
        PKCEMethod_def minVerifierLen_def maxVerifierLen_def)
  have check: "authcode_check cr (mem_authcode_grant cr rt' url cfg) rt' (Some cl) form w2 = Inr (cl, ?c)"
    using assms(6-11,17,18) st(1) hash pk b authorize_validate_Inr [OF c(1), THEN conjunct1, unfolded request_ok_def]
    by (simp add: authcode_check_Inr mem_auth_codes_def bound_code_def)
  obtain w3 where mark: "acs_MarkConsumed mem_auth_codes (ac_ID ?c) (now rt' 1) w2 = (Inr True, w3)"
    using st(3) assms(17) b
    by (simp add: mem_auth_codes_def zoom_def authcode_MarkConsumed_def bound_code_def)
  have "Resolve cr lib (now rt 0) (az_resolver h) r w = Inr (Some s)"
    using c(2) by (simp add: authorize_session_Some)
  then show ?thesis
    using b check mark by (intro exI [of _ s] exI [of _ ?c] exI [of _ w3]) (simp add: authcode_handle_def bound_code_def)
qed


subsection \<open>A run\<close>

text \<open>A signed-in browser asks for a code.\<close>

definition az_sample :: "world authorize_handler" where
  "az_sample = \<lparr>az_Cfg = \<lparr>azc_LoginPath = ''/login'', azc_AuthCodeLifetime = minute, azc_RequirePKCE = True\<rparr>,
     az_Clients = mem_clients, az_AuthCodes = mem_auth_codes, az_Sessions = mem_sessions,
     az_Users = mem_users sample_crypto sample_rt, az_Cookies = plain_manager\<rparr>"

definition az_query :: "string \<Rightarrow> url_values" where
  "az_query prompt = [(''client_id'', [''app'']), (''redirect_uri'', [''https://app/cb'']), (''response_type'', [''code'']),
     (''scope'', [''openid offline_access'']), (''code_challenge'', [''dnY'']), (''code_challenge_method'', [''S256'']),
     (''state'', [''s1'']), (''prompt'', [prompt])]"

definition az_request :: "string \<Rightarrow> http_request" where
  "az_request prompt = \<lparr>req_Method = ''GET'', req_Path = ''/authorize'', req_Query = az_query prompt, req_URI = ''/authorize?x'',
     req_PostForm = Some [], req_PartialForm = [], req_Body = None, req_Header = [],
     req_Cookies = [(''sid'', session_cookie 3)], req_RemoteAddr = []\<rparr>"

lemma az_query_simps [simp]:
  "req_Query (az_request p) = az_query p" "req_URI (az_request p) = ''/authorize?x''"
  "values_get (az_query p) ''client_id'' = ''app''" "values_get (az_query p) ''redirect_uri'' = ''https://app/cb''"
  "values_get (az_query p) ''response_type'' = ''code''" "values_get (az_query p) ''scope'' = ''openid offline_access''"
  "values_get (az_query p) ''code_challenge'' = ''dnY''" "values_get (az_query p) ''code_challenge_method'' = ''S256''"
  "values_get (az_query p) ''state'' = ''s1''" "values_get (az_query p) ''prompt'' = p"
  "values_get (az_query p) ''max_age'' = []" "values_get (az_query p) ''nonce'' = []"
  by (simp_all add: az_request_def az_query_def values_get_def)

lemma az_sample_simps [simp]:
  "azc_LoginPath (az_Cfg az_sample) = ''/login''" "azc_AuthCodeLifetime (az_Cfg az_sample) = minute"
  "azc_RequirePKCE (az_Cfg az_sample)" "az_Clients az_sample = mem_clients" "az_AuthCodes az_sample = mem_auth_codes"
  "az_Sessions az_sample = mem_sessions" "az_Users az_sample = mem_users sample_crypto sample_rt"
  "az_Cookies az_sample = plain_manager"
  by (simp_all add: az_sample_def)

lemma az_validates: "authorize_validate az_sample (az_request p) sample_world = Inr (sample_client, 0)"
  by (simp add: authorize_validate_def mem_clients_def client_FindByClientID_def sample_simps scopesAllowed_iff
      PKCEMethod_def authorize_max_age_def)

lemma az_resolves:
  "Resolve sample_crypto plain_lib (now sample_rt 0) (az_resolver az_sample) (az_request p) sample_world = Inr (Some sample_session)"
proof -
  have "cookie_get (az_request p) ''sid'' = Some (session_cookie 3)" by (simp add: az_request_def cookie_get_def)
  from plain_resolves [OF this, of sample_world "now sample_rt 0"] show ?thesis
    by (simp add: sample_simps) (simp add: sample_rt_def sample_simps)
qed

definition az_raw :: string where
  "az_raw = b64url (replicate 32 (char_of (23 :: nat)))"

lemma az_token: "NewOpaqueToken sample_crypto sample_rt 3 = Some (az_raw, HashToken sample_crypto az_raw)"
  by (simp add: sample_rt_def sample_simps az_raw_def)

lemma az_parse: "url_parse ''https://app/cb'' \<noteq> None"
  by code_simp

lemma az_stores: "fst (acs_Store mem_auth_codes (Some (minted_code rt cfg cl s r (HashToken sample_crypto raw))) w) = None"
  by (simp add: mem_auth_codes_def authcode_Store_def minted_code_def Let_def sample_simps)

lemma az_user: "us_FindByID (mem_users sample_crypto sample_rt) (s_UserID sample_session) sample_world \<noteq> Inl e"
  by (simp add: mem_ops sample_simps sample_session_def NewUserStore_def Let_def)

theorem live_session_gets_code_witness:
  "\<exists>out w'. authorize_serve sample_crypto plain_lib sample_rt az_sample (az_request []) sample_world = (out, w') \<and>
    status_of out = Some 302 \<and> loc_param out ''code'' = Some az_raw \<and> loc_param out ''state'' = Some ''s1''"
proof -
  obtain info where info: "us_FindByID (az_Users az_sample) (s_UserID sample_session) sample_world = Inr info"
    using az_user by (cases "us_FindByID (az_Users az_sample) (s_UserID sample_session) sample_world") auto
  have fresh: "\<not> stale sample_rt (az_request []) 0 sample_session" by (simp add: stale_def)
  have "fst (acs_Store (az_AuthCodes az_sample) (Some (minted_code sample_rt (az_Cfg az_sample) sample_client
      sample_session (az_request []) (HashToken sample_crypto az_raw))) sample_world) = None"
    using az_stores by simp
  from live_session_gets_code [OF az_validates az_resolves fresh _ info az_token this] az_parse
  show ?thesis by simp
qed

definition az_run :: "outcome \<times> world" where
  "az_run = authorize_serve sample_crypto plain_lib sample_rt az_sample (az_request []) sample_world"

lemma az_run_eq: "authorize_serve sample_crypto plain_lib sample_rt az_sample (az_request []) sample_world =
    (fst az_run, snd az_run)"
  by (simp add: az_run_def)

lemma az_run_code: "loc_param (fst az_run) ''code'' = Some az_raw"
proof -
  obtain info where info: "us_FindByID (mem_users sample_crypto sample_rt) (s_UserID sample_session) sample_world = Inr info"
    using az_user by (cases "us_FindByID (mem_users sample_crypto sample_rt) (s_UserID sample_session) sample_world") auto
  have "authorize_gate sample_rt (az_request []) 0 (Some sample_session) = Inr (Some sample_session)"
    by (simp add: authorize_gate_def stale_def)
  moreover have "authorize_session sample_crypto plain_lib sample_rt az_sample (az_request []) sample_world = ([], Some sample_session)"
    using az_resolves by (simp add: authorize_session_def)
  moreover obtain w1 where "mintCode sample_crypto sample_rt az_sample sample_client sample_session (az_request []) sample_world
      = (Some az_raw, w1)"
    using az_stores [of sample_rt "az_Cfg az_sample" sample_client sample_session "az_request []" az_raw sample_world]
    by (cases "acs_Store mem_auth_codes (Some (minted_code sample_rt (az_Cfg az_sample) sample_client sample_session
          (az_request []) (HashToken sample_crypto az_raw))) sample_world")
      (simp add: mintCode_def az_token)
  moreover obtain l where "buildAuthorizeRedirect ''https://app/cb'' az_raw ''s1'' = Some l" "map_of (loc_params l) ''code'' = Some az_raw"
    using az_parse by (auto simp: buildAuthorizeRedirect_def)
  ultimately show ?thesis
    using info by (simp add: az_run_def authorize_serve_def az_validates authorize_issue_def)
qed

theorem code_issued_to_live_session_witness:
  "\<exists>s c. Resolve sample_crypto plain_lib (now sample_rt 0) (az_resolver az_sample) (az_request []) sample_world = Inr (Some s) \<and>
    authcode_FindByHash (HashToken sample_crypto az_raw) (w_codes (snd az_run)) = Inr c \<and>
    ac_UserID c = s_UserID s \<and> ac_SessionID c = Some (s_ID s)"
proof -
  have "az_AuthCodes az_sample = mem_auth_codes" by simp
  from code_issued_to_live_session [OF az_run_eq az_run_code this] show ?thesis
    unfolding bound_code_def by blast
qed

theorem authorize_redirects_registered_witness:
  "\<exists>l. location_of (fst az_run) = Some l \<and>
    (loc_base l = ''/login'' \<or> loc_base l = ''https://app/cb'')"
proof -
  obtain l where l: "location_of (fst az_run) = Some l"
    using az_run_code by (auto simp: loc_param_def split: option.splits)
  from authorize_redirects_registered [OF az_run_eq l] l az_parse show ?thesis by auto
qed

theorem prompt_login_never_ends_witness:
  "location_of (fst (authorize_serve sample_crypto plain_lib sample_rt az_sample (az_request ''login'') sample_world)) =
    Some (Location ''/login'' [(''returnUrl'', ''/authorize?x'')])"
  using prompt_login_never_ends [of "az_request ''login''" az_sample sample_world sample_client 0 sample_crypto plain_lib sample_rt]
  by (simp add: az_validates)

definition az_form :: url_values where
  "az_form = [(''grant_type'', [''authorization_code'']), (''client_id'', [''app'']), (''code'', [az_raw]),
     (''redirect_uri'', [''https://app/cb'']), (''code_verifier'', [sample_verifier])]"

lemma az_form_simps [simp]:
  "values_get az_form ''client_id'' = ''app''" "values_get az_form ''code'' = az_raw"
  "values_get az_form ''redirect_uri'' = ''https://app/cb''" "values_get az_form ''code_verifier'' = sample_verifier"
  by (simp_all add: az_form_def values_get_def)

theorem issued_code_redeems_witness:
  "\<exists>c w3. ac_UserID c = s_UserID sample_session \<and>
    authcode_handle sample_crypto sample_grant sample_rt (Some sample_client) az_form (snd az_run) =
      authcode_issue sample_crypto sample_grant sample_rt sample_client c w3"
proof -
  have raw: "az_raw \<noteq> []" by (simp add: az_raw_def)
  have cl: "client_FindByClientID (query (az_request []) ''client_id'') (w_clients sample_world) = Inr sample_client"
    by (simp add: client_FindByClientID_def sample_simps)
  have "now sample_rt 0 \<le> time_add (now sample_rt 4) (azc_AuthCodeLifetime (az_Cfg az_sample))"
    by (simp add: sample_rt_def sample_simps time_add_def)
  from issued_code_redeems [OF az_run_eq az_run_code _ _ cl _ _ _ raw _ _ _ _ _ _ _ refl this,
      of az_form "''https://as''" sample_cfg] az_resolves
  show ?thesis by (auto simp: sample_simps)
qed

end
