(* ===== verification/Login.thy ===== *)
theory Login
  imports Browser_Session
begin

section \<open>Signing in and registering (internal/oidc/login.go, register.go)\<close>

text \<open>
  \<open>LoginHandler.ServeHTTP\<close> in phases: what the request carries (\<open>login_request\<close>), lockout and
  credentials (\<open>login_check\<close>), the new session (\<open>login_session\<close>). Runtime places: 0 (failed
  attempt: time and audit id), 1 (session: time and id), 2 (audit id), 3 (clock of the cookie).
  When the lockout lookup fails the account counts as open, as the code has it.
\<close>

definition homePath :: string where
  "homePath = ''/''"

record login_config =
  lgc_IssuerURL :: string
  lgc_AuthorizePath :: string
  lgc_ProfilePath :: string
  lgc_RequireHTTPS :: bool
  lgc_SessionLifetime :: duration

record 'w login_handler =
  lg_Cfg :: login_config
  lg_Users :: "'w user_store"
  lg_Sessions :: "'w session_store"
  lg_Cookies :: cookie_manager
  lg_Tracker :: "'w login_attempt_tracker"
  lg_ClientIP :: "(http_request \<Rightarrow> string) option"
  lg_AuditLogs :: "'w audit_log_store option"

definition loginErrorLabel :: "string \<Rightarrow> string" where
  "loginErrorLabel c =
    (if c = ''invalid_credentials'' then ''Invalid username or password.''
     else if c = ''missing_credentials'' then ''Please enter both a username and a password.''
     else if c = ''account_locked'' then
       ''Account temporarily locked due to repeated failures. Try again later.''
     else if c = ''antiforgery_failed'' then ''Your session expired. Please reload and try again.''
     else if c = ''invalid_return'' then ''The destination link is invalid. Please start over.''
     else ''An unexpected error occurred.'')"

definition login_error :: "nat \<Rightarrow> string \<Rightarrow> outcome" where
  "login_error s c = fail_with s c (loginErrorLabel c)"

subsection \<open>Source address and audit entries\<close>

text \<open>The same lines stand in the login, profile and password-reset handlers.\<close>

definition source_ip :: "(http_request \<Rightarrow> string) option \<Rightarrow> http_request \<Rightarrow> string" where
  "source_ip clientIP r =
    (let ip = (case clientIP of None \<Rightarrow> [] | Some f \<Rightarrow> f r) in
     if ip = [] then req_RemoteAddr r else ip)"

definition audit_entry ::
  "uuid \<Rightarrow> time \<Rightarrow> string \<Rightarrow> string \<Rightarrow> string \<Rightarrow> string \<Rightarrow> string \<Rightarrow> string \<Rightarrow> http_request \<Rightarrow> audit_log" where
  "audit_entry i t action actor targetType target metadata ip r =
    \<lparr>al_ID = i, al_Action = action, al_ActorUserID = actor, al_TargetType = targetType,
     al_TargetID = target, al_Timestamp = t, al_IPAddress = truncate_str ip 64,
     al_UserAgent = truncate_str (header_get r ''User-Agent'') 512, al_Metadata = metadata\<rparr>"

definition write_audit :: "'w audit_log_store option \<Rightarrow> audit_log \<Rightarrow> 'w \<Rightarrow> 'w" where
  "write_audit al e w = (case al of None \<Rightarrow> w | Some st \<Rightarrow> snd (als_Store st (Some e) w))"

definition recordAuth ::
  "'w login_handler \<Rightarrow> http_request \<Rightarrow> uuid \<Rightarrow> string \<Rightarrow> string \<Rightarrow> string \<Rightarrow> time \<Rightarrow> 'w \<Rightarrow> 'w" where
  "recordAuth h r i userID action metadata t w =
    write_audit (lg_AuditLogs h)
      (audit_entry i t action userID ''User'' userID metadata (source_ip (lg_ClientIP h) r) r) w"

definition lookupUserID :: "'w user_store \<Rightarrow> string \<Rightarrow> 'w \<Rightarrow> string" where
  "lookupUserID us identifier w =
    (case us_FindUserByUsername us identifier w of
       Inr u \<Rightarrow> u_ID u
     | Inl e \<Rightarrow> (case us_FindUserByEmail us identifier w of Inr u \<Rightarrow> u_ID u | Inl e' \<Rightarrow> []))"

definition recordFailedLogin ::
  "'w login_handler \<Rightarrow> runtime \<Rightarrow> http_request \<Rightarrow> string \<Rightarrow> 'w \<Rightarrow> 'w" where
  "recordFailedLogin h rt r identifier w =
    (if lg_AuditLogs h = None then w
     else let userID = lookupUserID (lg_Users h) identifier w in
       if userID = [] then w
       else recordAuth h r (new_uuid rt 0) userID ''login_failed''
              ''{\"reason\":\"invalid_credentials\"}'' (now rt 0) w)"

definition lockoutKey :: "'w login_handler \<Rightarrow> http_request \<Rightarrow> string \<Rightarrow> string" where
  "lockoutKey h r username = username @ ''|'' @ source_ip (lg_ClientIP h) r"

subsection \<open>The target after signing in\<close>

datatype return_error = ReturnParse | ReturnIssuer | ReturnOrigin | ReturnNotPath | ReturnNotAllowed

text \<open>
  \<open>validateReturnURL\<close>. For an absolute URL the Go code returns the parsed URL written back; the
  result here names it by the text it was parsed from.
\<close>

definition validateReturnURL ::
  "string \<Rightarrow> string \<Rightarrow> string \<Rightarrow> string list \<Rightarrow> return_error + string" where
  "validateReturnURL raw issuerURL authorizePath accountPaths =
    (if raw = [] then Inr []
     else case url_parse raw of
       None \<Rightarrow> Inl ReturnParse
     | Some u \<Rightarrow>
         if url_scheme u \<noteq> [] then
           (case url_parse issuerURL of
              None \<Rightarrow> Inl ReturnIssuer
            | Some iss \<Rightarrow>
                if url_scheme u \<noteq> url_scheme iss \<or> url_host u \<noteq> url_host iss then Inl ReturnOrigin
                else Inr raw)
         else if \<not> has_prefix raw ''/'' \<or> has_prefix raw ''//'' then Inl ReturnNotPath
         else if url_path u = homePath \<or> (url_path u \<noteq> [] \<and> url_path u \<in> set accountPaths) then Inr raw
         else if \<not> has_prefix raw authorizePath \<and> \<not> has_prefix raw ''/logout'' then Inl ReturnNotAllowed
         else Inr raw)"

subsection \<open>The handler\<close>

definition post_only :: outcome where
  "post_only = Response ((error_response 405 ''invalid_request'' ''method not allowed'')
     \<lparr>resp_headers := (''Allow'', ''POST'') # json_headers\<rparr>)"

definition login_request :: "'w login_handler \<Rightarrow> http_request \<Rightarrow> outcome + (string \<times> string \<times> string)" where
  "login_request h r =
    (if req_Method r \<noteq> ''POST'' then Inl post_only
     else if \<not> csrf_VerifyHeader (APICSRFGuard (lgc_RequireHTTPS (lg_Cfg h))) r then
       Inl (login_error 403 ''antiforgery_failed'')
     else case decodeJSON [''username'', ''password'', ''return_url''] r of
       None \<Rightarrow> Inl (login_error 400 ''invalid_credentials'')
     | Some body \<Rightarrow>
         let username = trim_space (body_str body ''username'');
             password = body_str body ''password''
         in
         if username = [] \<or> password = [] then Inl (login_error 400 ''missing_credentials'')
         else Inr (username, password, body_str body ''return_url''))"

definition login_check ::
  "runtime \<Rightarrow> 'w login_handler \<Rightarrow> http_request \<Rightarrow> string \<Rightarrow> string \<Rightarrow> 'w
    \<Rightarrow> (outcome + user_info) \<times> 'w" where
  "login_check rt h r username password w =
    (let key = lockoutKey h r username;
         (locked, w1) = lat_IsLockedOut (lg_Tracker h) key w
     in
     if locked = Inr True then (Inl (login_error 429 ''account_locked''), w1)
     else case us_ValidateCredentials (lg_Users h) username password w1 of
       Inl e \<Rightarrow> (Inl (login_error 500 ''server_error''), w1)
     | Inr None \<Rightarrow>
         let w2 = snd (lat_RecordFailure (lg_Tracker h) key w1);
             w3 = recordFailedLogin h rt r username w2
         in (Inl (login_error 401 ''invalid_credentials''), w3)
     | Inr (Some info) \<Rightarrow> (Inr info, snd (lat_Reset (lg_Tracker h) key w1)))"

definition login_session_of :: "runtime \<Rightarrow> login_config \<Rightarrow> user_info \<Rightarrow> session" where
  "login_session_of rt cfg info =
    \<lparr>s_ID = new_uuid rt 1, s_UserID = ui_UserID info, s_CreatedAt = now rt 1,
     s_ExpiresAt = time_add (now rt 1) (lgc_SessionLifetime cfg), s_RevokedAt = None, s_Properties = []\<rparr>"

definition login_session ::
  "crypto \<Rightarrow> cookie_lib \<Rightarrow> runtime \<Rightarrow> 'w login_handler \<Rightarrow> http_request \<Rightarrow> user_info \<Rightarrow> string \<Rightarrow> 'w
    \<Rightarrow> outcome \<times> 'w" where
  "login_session cr lib rt h r info returnURL w =
    (let sess = login_session_of rt (lg_Cfg h) info in
     case ss_Store (lg_Sessions h) (Some sess) w of
       (Some e, w1) \<Rightarrow> (login_error 500 ''server_error'', w1)
     | (None, w1) \<Rightarrow>
         (case SetCookie cr lib (now rt 3) (lg_Cookies h) (s_ID sess) of
            None \<Rightarrow> (login_error 500 ''server_error'', w1)
          | Some c \<Rightarrow>
              let w2 = recordAuth h r (new_uuid rt 2) (ui_UserID info) ''login_succeeded'' [] (now rt 1) w1 in
              (case validateReturnURL returnURL (lgc_IssuerURL (lg_Cfg h)) (lgc_AuthorizePath (lg_Cfg h))
                      [lgc_ProfilePath (lg_Cfg h)] of
                 Inl e \<Rightarrow> (add_cookies [c] (login_error 400 ''invalid_return''), w2)
               | Inr target \<Rightarrow>
                   (add_cookies [c] (Response (json_redirect 200
                      (Location (if target = [] then homePath else target) []))), w2))))"

definition login_serve ::
  "crypto \<Rightarrow> cookie_lib \<Rightarrow> runtime \<Rightarrow> 'w login_handler \<Rightarrow> http_request \<Rightarrow> 'w \<Rightarrow> outcome \<times> 'w" where
  "login_serve cr lib rt h r w =
    (case login_request h r of
       Inl out \<Rightarrow> (out, w)
     | Inr (username, password, returnURL) \<Rightarrow>
         (case login_check rt h r username password w of
            (Inl out, w1) \<Rightarrow> (out, w1)
          | (Inr info, w1) \<Rightarrow> login_session cr lib rt h r info returnURL w1))"

subsection \<open>Registration\<close>

record register_config =
  rgc_LoginPath :: string
  rgc_RequireHTTPS :: bool

record 'w register_handler =
  rgh_Cfg :: register_config
  rgh_Users :: "'w user_store"

definition registerErrorLabel :: "string \<Rightarrow> string" where
  "registerErrorLabel c =
    (if c = ''missing_fields'' then ''Please fill out all fields.''
     else if c = ''password_mismatch'' then ''Passwords do not match.''
     else if c = ''weak_password'' then
       ''Password must be 8-72 characters and must not start or end with whitespace.''
     else if c = ''duplicate_user'' then ''Username or email is already taken.''
     else if c = ''antiforgery_failed'' then ''Your session expired. Please reload and try again.''
     else if c = ''server_error'' then ''An unexpected error occurred. Please try again later.''
     else ''An unexpected error occurred.'')"

definition register_error :: "nat \<Rightarrow> string \<Rightarrow> outcome" where
  "register_error s c = fail_with s c (registerErrorLabel c)"

definition registered_user :: "crypto \<Rightarrow> runtime \<Rightarrow> string \<Rightarrow> string \<Rightarrow> user" where
  "registered_user cr rt username email =
    \<lparr>u_ID = uuid_string cr (new_uuid rt 0), u_Username = username, u_Email = email,
     u_EmailConfirmed = False, u_PasswordHash = [], u_SecurityStamp = [], u_TwoFactorEnabled = False,
     u_LockoutEnd = None, u_LockoutEnabled = False, u_AccessFailedCount = 0,
     u_CreatedAt = now rt 0, u_UpdatedAt = now rt 0\<rparr>"

definition register_serve ::
  "crypto \<Rightarrow> runtime \<Rightarrow> 'w register_handler \<Rightarrow> http_request \<Rightarrow> 'w \<Rightarrow> outcome \<times> 'w" where
  "register_serve cr rt h r w =
    (if req_Method r \<noteq> ''POST'' then (post_only, w)
     else if \<not> csrf_VerifyHeader (APICSRFGuard (rgc_RequireHTTPS (rgh_Cfg h))) r then
       (register_error 403 ''antiforgery_failed'', w)
     else case decodeJSON [''username'', ''email'', ''password'', ''password_confirm'', ''return_url''] r of
       None \<Rightarrow> (register_error 400 ''missing_fields'', w)
     | Some body \<Rightarrow>
         let username = trim_space (body_str body ''username'');
             email = trim_space (body_str body ''email'');
             password = body_str body ''password'';
             confirm = body_str body ''password_confirm'';
             returnURL = body_str body ''return_url''
         in
         if username = [] \<or> email = [] \<or> password = [] \<or> confirm = [] then
           (register_error 400 ''missing_fields'', w)
         else if password \<noteq> confirm then (register_error 400 ''password_mismatch'', w)
         else if ValidatePassword password \<noteq> None then (register_error 400 ''weak_password'', w)
         else case us_CreateUser (rgh_Users h) (registered_user cr rt username email) password w of
           (Some e, w') \<Rightarrow>
             (if e = Duplicate then register_error 409 ''duplicate_user''
              else register_error 500 ''server_error'', w')
         | (None, w') \<Rightarrow>
             (Response (json_redirect 201 (Location (rgc_LoginPath (rgh_Cfg h))
                (if returnURL = [] then [] else [(''returnUrl'', returnURL)]))), w'))"

end
