(* ===== verification/Login_Properties.thy ===== *)
theory Login_Properties
  imports Sample_Browser Login
begin

section \<open>Properties of signing in\<close>

text \<open>
  A session cookie is the result of valid credentials and names a session that was stored for
  that user; repeated failures shut the account for the address they come from; and the place
  the browser is sent to afterwards stays with the server.
\<close>

record login_deployment =
  ld_Cfg :: login_config
  ld_Cookies :: cookie_manager
  ld_ClientIP :: "(http_request \<Rightarrow> string) option"

definition mem_login :: "crypto \<Rightarrow> login_deployment \<Rightarrow> runtime \<Rightarrow> world login_handler" where
  "mem_login cr d rt = \<lparr>lg_Cfg = ld_Cfg d, lg_Users = mem_users cr rt, lg_Sessions = mem_sessions,
     lg_Cookies = ld_Cookies d, lg_Tracker = mem_tracker_store rt, lg_ClientIP = ld_ClientIP d,
     lg_AuditLogs = Some mem_audit_logs\<rparr>"

lemma mem_login_simps [simp]:
  "lg_Cfg (mem_login cr d rt) = ld_Cfg d" "lg_Users (mem_login cr d rt) = mem_users cr rt"
  "lg_Sessions (mem_login cr d rt) = mem_sessions" "lg_Cookies (mem_login cr d rt) = ld_Cookies d"
  "lg_Tracker (mem_login cr d rt) = mem_tracker_store rt" "lg_ClientIP (mem_login cr d rt) = ld_ClientIP d"
  "lg_AuditLogs (mem_login cr d rt) = Some mem_audit_logs"
  by (simp_all add: mem_login_def)

lemma login_error_simps [simp]:
  "cookies_of (login_error s c) = []" "location_of (login_error s c) = None" "status_of (login_error s c) = Some s"
  by (simp_all add: login_error_def)

lemma post_only_simps [simp]:
  "cookies_of post_only = []" "location_of post_only = None" "status_of post_only = Some 405"
  by (simp_all add: post_only_def error_response_def json_response_def plain_response_def)

lemma login_request_Inl:
  "login_request h r = Inl out \<Longrightarrow> cookies_of out = [] \<and> location_of out = None \<and>
    status_of out \<in> {Some 405, Some 403, Some 400}"
  by (auto simp: login_request_def Let_def split: if_splits option.splits)

text \<open>The credential check: it lets through only valid ones of an account that is not locked.\<close>

lemma login_check_Inr:
  assumes "login_check rt h r u p w = (Inr info, w')"
  shows "\<exists>w1. fst (lat_IsLockedOut (lg_Tracker h) (lockoutKey h r u) w) \<noteq> Inr True \<and>
    snd (lat_IsLockedOut (lg_Tracker h) (lockoutKey h r u) w) = w1 \<and>
    us_ValidateCredentials (lg_Users h) u p w1 = Inr (Some info) \<and>
    w' = snd (lat_Reset (lg_Tracker h) (lockoutKey h r u) w1)"
  using assms by (auto simp: login_check_def Let_def split: prod.splits if_splits sum.splits option.splits)

lemma login_check_Inl:
  "login_check rt h r u p w = (Inl out, w') \<Longrightarrow> cookies_of out = [] \<and> location_of out = None"
  by (auto simp: login_check_def Let_def split: prod.splits if_splits sum.splits option.splits)

text \<open>A new session: the cookie is written only once the session is stored.\<close>

lemma login_session_cookie:
  assumes "login_session cr lib rt h r info ret w = (out, w')" "c \<in> set (cookies_of out)"
  shows "\<exists>w1. ss_Store (lg_Sessions h) (Some (login_session_of rt (lg_Cfg h) info)) w = (None, w1) \<and>
    SetCookie cr lib (now rt 3) (lg_Cookies h) (new_uuid rt 1) = Some c \<and>
    w' = recordAuth h r (new_uuid rt 2) (ui_UserID info) ''login_succeeded'' [] (now rt 1) w1"
  using assms
  by (auto simp: login_session_def Let_def login_session_of_def login_error_def
      split: option.splits prod.splits sum.splits)

lemma mem_frames [simp]:
  "w_sessions (snd (lat_Reset (mem_tracker_store rt) k w)) = w_sessions w"
  "w_sessions (snd (lat_IsLockedOut (mem_tracker_store rt) k w)) = w_sessions w"
  "w_users (snd (lat_IsLockedOut (mem_tracker_store rt) k w)) = w_users w"
  "w_sessions (recordAuth (mem_login cr d rt') r i u a m t w) = w_sessions w"
  "w_tracker (recordAuth (mem_login cr d rt') r i u a m t w) = w_tracker w"
  "w_tracker (recordFailedLogin (mem_login cr d rt') rt r u w) = w_tracker w"
  by (simp_all add: mem_tracker_store_def recordAuth_def write_audit_def mem_audit_logs_def recordFailedLogin_def Let_def)

text \<open>
  C12. A session cookie goes out only in answer to a POST with a valid CSRF token and, for an
  account that is not locked, the right password: the stored hash of the first user that matches
  the name accepts it. The cookie seals the id of a session that is then in the store, belongs to
  that user, starts now, is not revoked and lasts for the configured time.
\<close>

theorem session_needs_credentials:
  assumes "login_serve cr lib rt (mem_login cr d rt) r w = (out, w')" "c \<in> set (cookies_of out)"
  shows "\<exists>u p ret usr sess. login_request (mem_login cr d rt) r = Inr (u, p, ret) \<and>
    csrf_VerifyHeader (APICSRFGuard (lgc_RequireHTTPS (ld_Cfg d))) r \<and>
    \<not> fst (IsLockedOut (now rt 200) (lockoutKey (mem_login cr d rt) r u) (w_tracker w)) \<and>
    find (user_matches u) (map snd (um_users (w_users w))) = Some usr \<and>
    bcrypt_compare cr (case gm_get (um_hashes (w_users w)) (u_ID usr) of None \<Rightarrow> [] | Some x \<Rightarrow> x) p \<and>
    SetCookie cr lib (now rt 3) (ld_Cookies d) (s_ID sess) = Some c \<and>
    session_Find (s_ID sess) (w_sessions w') = Inr sess \<and> s_UserID sess = u_ID usr \<and>
    s_CreatedAt sess = now rt 1 \<and> s_RevokedAt sess = None \<and>
    s_ExpiresAt sess = time_add (now rt 1) (lgc_SessionLifetime (ld_Cfg d))"
proof -
  let ?h = "mem_login cr d rt"
  obtain u p ret where req: "login_request ?h r = Inr (u, p, ret)"
    using assms login_request_Inl [of ?h r] by (cases "login_request ?h r") (auto simp: login_serve_def)
  obtain info w1 where chk: "login_check rt ?h r u p w = (Inr info, w1)"
    and ses: "login_session cr lib rt ?h r info ret w1 = (out, w')"
    using assms req login_check_Inl [of rt ?h r u p w]
    by (auto simp: login_serve_def split: prod.splits sum.splits)
  let ?k = "lockoutKey ?h r u" and ?s = "login_session_of rt (ld_Cfg d) info"
  obtain w0 where w0: "fst (lat_IsLockedOut (mem_tracker_store rt) ?k w) \<noteq> Inr True"
    "snd (lat_IsLockedOut (mem_tracker_store rt) ?k w) = w0"
    "user_ValidateCredentials cr u p (w_users w0) = Inr (Some info)"
    "w1 = snd (lat_Reset (mem_tracker_store rt) ?k w0)"
    using login_check_Inr [OF chk] by (auto simp: mem_users_def)
  have same: "w_users w0 = w_users w" using w0(2) by auto
  obtain w2 where w2: "ss_Store mem_sessions (Some ?s) w1 = (None, w2)"
    "SetCookie cr lib (now rt 3) (ld_Cookies d) (new_uuid rt 1) = Some c" "w_sessions w' = w_sessions w2"
    using login_session_cookie [OF ses assms(2)] by auto
  have found: "session_Find (s_ID ?s) (w_sessions w') = Inr ?s"
    using w2(1,3) by (auto simp: mem_sessions_def session_Store_def zoom_eq session_Find_def)
  have unlocked: "\<not> fst (IsLockedOut (now rt 200) ?k (w_tracker w))"
    using w0(1) by (auto simp: mem_tracker_store_def split: prod.splits)
  obtain usr where usr: "find (user_matches u) (map snd (um_users (w_users w))) = Some usr"
    "bcrypt_compare cr (case gm_get (um_hashes (w_users w)) (u_ID usr) of None \<Rightarrow> [] | Some x \<Rightarrow> x) p"
    "ui_UserID info = u_ID usr"
    using w0(3) by (auto simp: user_ValidateCredentials_def same Let_def split: option.splits if_splits)
  have csrf: "csrf_VerifyHeader (APICSRFGuard (lgc_RequireHTTPS (ld_Cfg d))) r"
    using req by (auto simp: login_request_def split: if_splits)
  show ?thesis
    using req csrf unlocked usr w2(2) found
    by (intro exI [of _ u] exI [of _ p] exI [of _ ret] exI [of _ usr] exI [of _ ?s])
      (simp add: login_session_of_def)
qed

subsection \<open>Brute force\<close>

text \<open>A locked account: the answer does not depend on the password, and nothing happens.\<close>

lemma locked_login:
  assumes "login_request (mem_login cr d rt) r = Inr (u, p, ret)"
    and "fst (IsLockedOut (now rt 200) (lockoutKey (mem_login cr d rt) r u) (w_tracker w))"
  shows "login_serve cr lib rt (mem_login cr d rt) r w = (login_error 429 ''account_locked'', w)"
proof -
  let ?k = "lockoutKey (mem_login cr d rt) r u"
  have "IsLockedOut (now rt 200) ?k (w_tracker w) = (True, w_tracker w)"
    using assms(2) mem_tracker.locked_stays [of "w_tracker w" ?k "now rt 200"]
    by (simp add: mem_tracker.is_locked_iff prod_eq_iff)
  then show ?thesis
    using assms(1) by (simp add: login_serve_def login_check_def Let_def mem_tracker_store_def zoom_def)
qed

text \<open>The failed attempts of one name from one address.\<close>

fun failed_logins ::
  "crypto \<Rightarrow> cookie_lib \<Rightarrow> login_deployment \<Rightarrow> string \<Rightarrow> (runtime \<times> http_request) list \<Rightarrow> world \<Rightarrow> world \<Rightarrow> bool" where
  "failed_logins cr lib d key [] w w' = (w' = w)"
| "failed_logins cr lib d key ((rt, r) # as) w w' =
    (\<exists>w1 u p ret. login_request (mem_login cr d rt) r = Inr (u, p, ret) \<and>
      lockoutKey (mem_login cr d rt) r u = key \<and>
      login_serve cr lib rt (mem_login cr d rt) r w = (login_error 401 ''invalid_credentials'', w1) \<and>
      failed_logins cr lib d key as w1 w')"

definition in_window :: "attempt_tracker \<Rightarrow> string \<Rightarrow> time \<Rightarrow> bool" where
  "in_window s k t \<longleftrightarrow> (case gm_get (lt_attempts s) k of
     None \<Rightarrow> True | Some a \<Rightarrow> time_sub t (la_firstAt a) \<le> sint (lt_ResetAfter s))"

lemma in_window_asks: "in_window s k t \<Longrightarrow> snd (IsLockedOut t k s) = s"
  by (auto simp: in_window_def IsLockedOut_def split: option.splits)

lemma login_error_inject [simp]: "login_error s c = login_error s' c' \<longleftrightarrow> s = s' \<and> c = c'"
proof
  assume e: "login_error s c = login_error s' c'"
  then have "status_of (login_error s c) = status_of (login_error s' c')"
    "error_code (login_error s c) = error_code (login_error s' c')" by simp_all
  then show "s = s' \<and> c = c'" by (simp add: login_error_def)
qed simp

text \<open>An answer of 401 has recorded a failure.\<close>

lemma failed_login_tracker:
  assumes "login_request (mem_login cr d rt) r = Inr (u, p, ret)"
    and "login_serve cr lib rt (mem_login cr d rt) r w = (login_error 401 ''invalid_credentials'', w')"
    and "in_window (w_tracker w) (lockoutKey (mem_login cr d rt) r u) (now rt 200)"
  shows "w_tracker w' = RecordFailure (now rt 201) (lockoutKey (mem_login cr d rt) r u) (w_tracker w)"
proof -
  let ?h = "mem_login cr d rt" and ?k = "lockoutKey (mem_login cr d rt) r u"
  have c: "\<not> (\<exists>info w1. login_check rt ?h r u p w = (Inr info, w1))"
  proof
    assume "\<exists>info w1. login_check rt ?h r u p w = (Inr info, w1)"
    then obtain info w1 where "login_check rt ?h r u p w = (Inr info, w1)" by blast
    then have "login_session cr lib rt ?h r info ret w1 = (login_error 401 ''invalid_credentials'', w')"
      using assms(1,2) by (simp add: login_serve_def)
    then have "status_of (fst (login_session cr lib rt ?h r info ret w1)) = Some 401" by simp
    then show False
      by (auto simp: login_session_def Let_def split: option.splits prod.splits sum.splits)
  qed
  obtain out w1 where chk: "login_check rt ?h r u p w = (Inl out, w1)"
    using c by (cases "login_check rt ?h r u p w"; cases "fst (login_check rt ?h r u p w)") auto
  then have "out = login_error 401 ''invalid_credentials''" "w1 = w'"
    using assms(1,2) by (simp_all add: login_serve_def)
  with chk have "login_check rt ?h r u p w = (Inl (login_error 401 ''invalid_credentials''), w')" by simp
  moreover have "snd (IsLockedOut (now rt 200) ?k (w_tracker w)) = w_tracker w"
    using assms(3) by (rule in_window_asks)
  ultimately show ?thesis
    by (auto simp: login_check_def Let_def mem_tracker_store_def zoom_eq
        split: prod.splits if_splits sum.splits option.splits)
qed

text \<open>The times of the attempts: every clock reading within the window of the first failure.\<close>

definition steady :: "duration \<Rightarrow> time \<Rightarrow> (runtime \<times> http_request) list \<Rightarrow> bool" where
  "steady reset t0 as \<longleftrightarrow> (\<forall>(rt, r) \<in> set as. time_sub (now rt 200) t0 \<le> sint reset \<and>
     time_sub (now rt 201) t0 \<le> sint reset)"

lemma failed_logins_tracker:
  assumes "failed_logins cr lib d key as w w'"
    and "gm_get (lt_attempts (w_tracker w)) key = Some a" "steady (lt_ResetAfter (w_tracker w)) (la_firstAt a) as"
  shows "w_tracker w' = record_all key (map (\<lambda>(rt, r). now rt 201) as) (w_tracker w)"
  using assms
proof (induction cr lib d key as w w' arbitrary: a rule: failed_logins.induct)
  case (2 cr lib d key rt r as w w')
  then obtain w1 u p ret where one: "login_request (mem_login cr d rt) r = Inr (u, p, ret)"
    "lockoutKey (mem_login cr d rt) r u = key"
    "login_serve cr lib rt (mem_login cr d rt) r w = (login_error 401 ''invalid_credentials'', w1)"
    "failed_logins cr lib d key as w1 w'" by auto
  have now: "time_sub (now rt 200) (la_firstAt a) \<le> sint (lt_ResetAfter (w_tracker w))"
    "time_sub (now rt 201) (la_firstAt a) \<le> sint (lt_ResetAfter (w_tracker w))"
    using "2.prems"(3) by (auto simp: steady_def)
  have "in_window (w_tracker w) key (now rt 200)" using now(1) "2.prems"(2) by (simp add: in_window_def)
  then have t1: "w_tracker w1 = RecordFailure (now rt 201) key (w_tracker w)"
    using failed_login_tracker [OF one(1,3)] one(2) by simp
  obtain b where "gm_get (lt_attempts (w_tracker w1)) key = Some b" "la_firstAt b = la_firstAt a"
    using RecordFailure_next [OF "2.prems"(2), of "now rt 201"] now(2) by (simp add: t1 window_open_def)
  then have "w_tracker w' = record_all key (map (\<lambda>(rt, r). now rt 201) as) (w_tracker w1)"
    using "2.IH" [OF one(4)] "2.prems"(3) by (simp add: t1 steady_def)
  then show ?case by (simp add: t1)
qed simp

text \<open>
  C13. Guessing is stopped: after five failed attempts on one name from one address within the
  window, every further attempt during the lockout time is answered 429, the right password
  included, and changes nothing.
\<close>

theorem guessing_is_locked_out:
  assumes "failed_logins cr lib d key ((rt0, r0) # as @ [(rt4, r4)]) w w'" "length as = 3"
    and "gm_get (lt_attempts (w_tracker w)) key = None" "sint (lt_MaxFailures (w_tracker w)) = 5"
    and "steady (lt_ResetAfter (w_tracker w)) (now rt0 201) (as @ [(rt4, r4)])"
    and "login_request (mem_login cr d rt) r = Inr (u, p, ret)" "lockoutKey (mem_login cr d rt) r u = key"
    and "now rt4 201 \<noteq> zero_time"
      "time_sub (now rt 200) (now rt4 201) < sint (lt_LockoutDuration (w_tracker w))"
  shows "login_serve cr lib rt (mem_login cr d rt) r w' = (login_error 429 ''account_locked'', w')"
proof -
  let ?ts = "map (\<lambda>(rt, r). now rt 201) as"
  obtain w1 u0 p0 ret0 where one: "login_request (mem_login cr d rt0) r0 = Inr (u0, p0, ret0)"
    "lockoutKey (mem_login cr d rt0) r0 u0 = key"
    "login_serve cr lib rt0 (mem_login cr d rt0) r0 w = (login_error 401 ''invalid_credentials'', w1)"
    "failed_logins cr lib d key (as @ [(rt4, r4)]) w1 w'" using assms(1) by auto
  have "in_window (w_tracker w) key (now rt0 200)" using assms(3) by (simp add: in_window_def)
  then have t1: "w_tracker w1 = RecordFailure (now rt0 201) key (w_tracker w)"
    using failed_login_tracker [OF one(1,3)] one(2) by simp
  let ?a = "\<lparr>la_failures = 1, la_firstAt = now rt0 201, la_lockedAt = zero_time\<rparr>"
  have "gm_get (lt_attempts (w_tracker w1)) key = Some ?a"
    unfolding t1 by (rule RecordFailure_first [OF assms(3)])
  from failed_logins_tracker [OF one(4) this]
  have "w_tracker w' = record_all key (map (\<lambda>(rt, r). now rt 201) (as @ [(rt4, r4)])) (w_tracker w1)"
    using assms(5) by (simp add: t1)
  then have all: "w_tracker w' = record_all key (now rt0 201 # ?ts @ [now rt4 201]) (w_tracker w)"
    by (simp add: t1)
  have win: "\<forall>v \<in> set (?ts @ [now rt4 201]). time_sub v (now rt0 201) \<le> sint (lt_ResetAfter (w_tracker w))"
    using assms(5) by (auto simp: steady_def)
  obtain a where a: "gm_get (lt_attempts (w_tracker w')) key = Some a" "la_lockedAt a = now rt4 201"
    using record_all_locks [OF assms(3) _ win] assms(2,4) by (auto simp: all)
  have "fst (IsLockedOut (now rt 200) key (w_tracker w'))"
    using a assms(8,9)
    by (simp add: mem_tracker.is_locked_iff attempt_locked_def tracker_config_def is_zero_time_def)
      (simp add: all del: record_all.simps)
  then show ?thesis using locked_login [OF assms(6)] assms(7) by simp
qed

subsection \<open>Where the browser goes\<close>

definition same_origin :: "string \<Rightarrow> string \<Rightarrow> bool" where
  "same_origin issuer target \<longleftrightarrow> (has_prefix target ''/'' \<and> \<not> has_prefix target ''//'') \<or>
    (\<exists>u iss. url_parse target = Some u \<and> url_parse issuer = Some iss \<and>
      url_scheme u = url_scheme iss \<and> url_host u = url_host iss \<and> url_scheme u \<noteq> [])"

lemma validateReturnURL_Inr:
  "validateReturnURL raw issuer path accounts = Inr t \<Longrightarrow> t = [] \<or> (t = raw \<and> same_origin issuer t)"
  by (auto simp: validateReturnURL_def same_origin_def split: if_splits option.splits)

lemma login_session_location:
  assumes "login_session cr lib rt h r info ret w = (out, w')" "location_of out = Some l"
  shows "loc_base l = homePath \<or> (\<exists>t. validateReturnURL ret (lgc_IssuerURL (lg_Cfg h))
      (lgc_AuthorizePath (lg_Cfg h)) [lgc_ProfilePath (lg_Cfg h)] = Inr t \<and> t \<noteq> [] \<and> loc_base l = t)"
  using assms
  by (auto simp: login_session_def Let_def split: option.splits prod.splits sum.splits if_splits)

text \<open>
  C38. No open redirect: wherever the login endpoint sends the browser is a path on the server
  itself (never a \<open>//host\<close> reference) or a URL of the issuer's own scheme and host.
\<close>

theorem login_stays_on_origin:
  assumes "login_serve cr lib rt h r w = (out, w')" "location_of out = Some l"
  shows "same_origin (lgc_IssuerURL (lg_Cfg h)) (loc_base l)"
proof -
  obtain u p ret where req: "login_request h r = Inr (u, p, ret)"
    using assms login_request_Inl [of h r] by (cases "login_request h r") (auto simp: login_serve_def)
  obtain info w1 where "login_session cr lib rt h r info ret w1 = (out, w')"
    using assms req login_check_Inl [of rt h r u p w]
    by (auto simp: login_serve_def split: prod.splits sum.splits)
  from login_session_location [OF this assms(2)] show ?thesis
  proof (elim disjE exE conjE)
    assume "loc_base l = homePath"
    then show ?thesis by (simp add: same_origin_def homePath_def has_prefix_def)
  next
    fix t
    assume "validateReturnURL ret (lgc_IssuerURL (lg_Cfg h)) (lgc_AuthorizePath (lg_Cfg h))
      [lgc_ProfilePath (lg_Cfg h)] = Inr t" "t \<noteq> []" "loc_base l = t"
    then show ?thesis using validateReturnURL_Inr by blast
  qed
qed

lemma redirect_no_error [simp]:
  "error_code (Response (json_redirect s l)) = None"
  "error_code (Response (resp\<lparr>resp_cookies := cs\<rparr>)) = error_code (Response resp)"
  by (simp_all add: error_code_def body_field_def json_redirect_def json_response_def plain_response_def json_field_def)

text \<open>
  The check of the return URL comes after the session: a request with valid credentials and a
  refused return URL is answered 400, but the session is stored and its cookie is set.
\<close>

lemma invalid_return_signs_in:
  assumes "login_session cr lib rt h r info ret w = (out, w')" "error_code out = Some ''invalid_return''"
  shows "\<exists>c w1. cookies_of out = [c] \<and> status_of out = Some 400 \<and>
    SetCookie cr lib (now rt 3) (lg_Cookies h) (new_uuid rt 1) = Some c \<and>
    ss_Store (lg_Sessions h) (Some (login_session_of rt (lg_Cfg h) info)) w = (None, w1)"
  using assms
  by (auto simp: login_session_def login_session_of_def login_error_def Let_def
      split: option.splits prod.splits sum.splits)


subsection \<open>Runs\<close>

definition login_dep :: login_deployment where
  "login_dep = \<lparr>ld_Cfg = \<lparr>lgc_IssuerURL = ''https://as'', lgc_AuthorizePath = ''/authorize'', lgc_ProfilePath = ''/profile'',
     lgc_RequireHTTPS = True, lgc_SessionLifetime = hour\<rparr>, ld_Cookies = plain_manager, ld_ClientIP = None\<rparr>"

definition login_body :: "string \<Rightarrow> http_request" where
  "login_body pw = json_request ''POST'' ''/api/login''
     [(''username'', JStr ''alice''), (''password'', JStr pw), (''return_url'', JStr ''/profile'')]"

lemma login_names: "equal_fold ''username'' ''username''" "equal_fold ''password'' ''username'' \<longleftrightarrow> False"
  "equal_fold ''password'' ''password''" "equal_fold ''return_url'' ''username'' \<longleftrightarrow> False"
  "equal_fold ''return_url'' ''password'' \<longleftrightarrow> False" "equal_fold ''return_url'' ''return_url''"
  by code_simp+

lemma login_trim: "trim_space ''alice'' = ''alice''"
  by code_simp

lemma login_reads:
  "pw \<noteq> [] \<Longrightarrow> login_request (mem_login cr login_dep rt) (login_body pw) = Inr (''alice'', pw, ''/profile'')"
  by (simp add: login_request_def login_body_def decodeJSON_def login_names body_str_def login_trim login_dep_def Let_def)

lemma login_key: "lockoutKey (mem_login cr login_dep rt) (login_body pw) ''alice'' = ''alice|1.2.3.4:5''"
  by (simp add: lockoutKey_def source_ip_def login_dep_def login_body_def)

lemma sample_tracker: "w_tracker sample_world = NewLoginAttemptTracker"
  by (simp add: sample_world_def empty_world_def)

lemma login_finds: "find (user_matches ''alice'') (map snd (um_users (w_users sample_world))) = Some sample_user"
  by (simp add: sample_simps user_matches_def) (simp add: sample_user_def)

lemma login_validates:
  "us_ValidateCredentials (mem_users sample_crypto rt) ''alice'' pw sample_world =
    (if pw = ''pw'' then Inr (Some \<lparr>ui_UserID = ''alice'', ui_Claims = []\<rparr>) else Inr None)"
  using login_finds
  by (simp add: mem_users_def user_ValidateCredentials_def)
    (simp add: sample_user_def sample_simps NewUserStore_def buildClaimsMap_def get_list_def Let_def)

lemma login_target:
  "validateReturnURL ''/profile'' ''https://as'' ''/authorize'' [''/profile''] = Inr ''/profile''"
  by code_simp

definition login_run :: "outcome \<times> world" where
  "login_run = login_serve sample_crypto plain_lib sample_rt (mem_login sample_crypto login_dep sample_rt)
     (login_body ''pw'') sample_world"

lemma login_run_eq: "login_serve sample_crypto plain_lib sample_rt (mem_login sample_crypto login_dep sample_rt)
     (login_body ''pw'') sample_world = (fst login_run, snd login_run)"
  by (simp add: login_run_def)

lemma login_run_cookie: "\<exists>c. cookies_of (fst login_run) = [c]" "location_of (fst login_run) = Some (Location ''/profile'' [])"
proof -
  let ?h = "mem_login sample_crypto login_dep sample_rt"
  have check: "login_check sample_rt ?h (login_body ''pw'') ''alice'' ''pw'' sample_world =
      (Inr \<lparr>ui_UserID = ''alice'', ui_Claims = []\<rparr>, snd (lat_Reset (mem_tracker_store sample_rt) ''alice|1.2.3.4:5'' sample_world))"
  proof -
    have "lat_IsLockedOut (mem_tracker_store sample_rt) ''alice|1.2.3.4:5'' sample_world = (Inr False, sample_world)"
    proof -
      have "IsLockedOut t ''alice|1.2.3.4:5'' (w_tracker sample_world) = (False, w_tracker sample_world)" for t
        by (simp add: IsLockedOut_def) (simp add: sample_tracker NewLoginAttemptTracker_def)
      then show ?thesis by (simp add: mem_tracker_store_def zoom_def)
    qed
    then show ?thesis
      by (simp add: login_check_def login_key login_validates)
  qed
  obtain c where c: "SetCookie sample_crypto plain_lib (now sample_rt 3) plain_manager (new_uuid sample_rt 1) = Some c"
    using plain_sets by blast
  have cfg: "ld_Cookies login_dep = plain_manager" "lgc_IssuerURL (ld_Cfg login_dep) = ''https://as''"
    "lgc_AuthorizePath (ld_Cfg login_dep) = ''/authorize''" "lgc_ProfilePath (ld_Cfg login_dep) = ''/profile''"
    by (simp_all add: login_dep_def)
  have "fst login_run = add_cookies [c] (Response (json_redirect 200 (Location ''/profile'' [])))"
    by (simp add: login_run_def login_serve_def login_reads check login_session_def mem_sessions_def session_Store_def
        zoom_def cfg login_session_of_def c [simplified] login_target Let_def)
  then show "\<exists>c. cookies_of (fst login_run) = [c]" "location_of (fst login_run) = Some (Location ''/profile'' [])"
    by simp_all
qed

theorem session_needs_credentials_witness:
  "\<exists>usr sess. find (user_matches ''alice'') (map snd (um_users (w_users sample_world))) = Some usr \<and>
    session_Find (s_ID sess) (w_sessions (snd login_run)) = Inr sess \<and> s_UserID sess = u_ID usr"
proof -
  obtain c where "c \<in> set (cookies_of (fst login_run))" using login_run_cookie by force
  from session_needs_credentials [OF login_run_eq this]
  show ?thesis by (auto simp: login_reads)
qed

theorem login_stays_on_origin_witness:
  "location_of (fst login_run) = Some (Location ''/profile'' []) \<and> same_origin ''https://as'' ''/profile''"
  using login_stays_on_origin [OF login_run_eq login_run_cookie(2)] login_run_cookie(2)
  by (simp add: login_dep_def)


text \<open>Wrong passwords, all at the same instant.\<close>

definition guesses :: "nat \<Rightarrow> attempt_tracker" where
  "guesses n = record_all ''alice|1.2.3.4:5'' (replicate n 1000) NewLoginAttemptTracker"

lemma guesses_Suc: "guesses (Suc n) = RecordFailure 1000 ''alice|1.2.3.4:5'' (guesses n)"
  by (simp add: guesses_def record_all_append replicate_append_same flip: record_all_append)

lemma fifteen_minutes: "sint (15 * minute) = 900000000000"
  by code_simp

lemma guesses_window: "0 < n \<Longrightarrow> n < 5 \<Longrightarrow>
    gm_get (lt_attempts (guesses n)) ''alice|1.2.3.4:5'' =
      Some \<lparr>la_failures = of_nat n, la_firstAt = 1000, la_lockedAt = zero_time\<rparr>"
proof -
  have step: "gm_get (lt_attempts (guesses (Suc m))) ''alice|1.2.3.4:5'' =
      Some \<lparr>la_failures = x + 1, la_firstAt = 1000, la_lockedAt = zero_time\<rparr>"
    if "gm_get (lt_attempts (guesses m)) ''alice|1.2.3.4:5'' =
      Some \<lparr>la_failures = x, la_firstAt = 1000, la_lockedAt = zero_time\<rparr>" "sint (x + 1) < 5" for m x
    using RecordFailure_next [OF that(1), of 1000] that(2)
    by (simp add: guesses_Suc window_open_def time_defs fifteen_minutes)
      (simp add: guesses_def NewLoginAttemptTracker_def fifteen_minutes zero_time_def)
  have g1: "gm_get (lt_attempts (guesses 1)) ''alice|1.2.3.4:5'' =
      Some \<lparr>la_failures = 1, la_firstAt = 1000, la_lockedAt = zero_time\<rparr>"
    by (simp add: guesses_def RecordFailure_def NewLoginAttemptTracker_def)
  note g2 = step [OF g1, simplified] note g3 = step [OF g2, simplified] note g4 = step [OF g3, simplified]
  assume "0 < n" "n < 5"
  then have "n = 1 \<or> n = 2 \<or> n = 3 \<or> n = 4" by auto
  then show ?thesis using g1 g2 g3 g4 by (auto simp: numeral_eq_Suc)
qed

lemma guesses_open: "n < 5 \<Longrightarrow> IsLockedOut 1000 ''alice|1.2.3.4:5'' (guesses n) = (False, guesses n)"
  using guesses_window [of n]
  by (cases "n = 0")
    (simp_all add: IsLockedOut_def is_zero_time_def time_defs, simp_all add: guesses_def NewLoginAttemptTracker_def fifteen_minutes)

definition guess_of :: "world \<Rightarrow> nat \<Rightarrow> bool" where
  "guess_of w n \<longleftrightarrow> w_users w = w_users sample_world \<and> w_tracker w = guesses n"

lemma wrong_guess:
  assumes "guess_of w n" "n < 5"
  shows "\<exists>w1. login_serve sample_crypto plain_lib sample_rt (mem_login sample_crypto login_dep sample_rt)
      (login_body ''no'') w = (login_error 401 ''invalid_credentials'', w1) \<and> guess_of w1 (Suc n)"
proof -
  let ?h = "mem_login sample_crypto login_dep sample_rt" and ?k = "''alice|1.2.3.4:5''"
  have rt: "now sample_rt k = 1000" for k by (simp add: sample_rt_def sample_simps)
  have locked: "lat_IsLockedOut (mem_tracker_store sample_rt) ?k w = (Inr False, w)"
    using assms guesses_open [of n] by (simp add: mem_tracker_store_def zoom_def guess_of_def rt)
  have wrong: "us_ValidateCredentials (mem_users sample_crypto sample_rt) ''alice'' ''no'' w = Inr None"
    using assms(1) login_validates [of sample_rt "''no''"] by (simp add: mem_users_def guess_of_def)
  let ?w2 = "snd (lat_RecordFailure (mem_tracker_store sample_rt) ?k w)"
  let ?w3 = "recordFailedLogin ?h sample_rt (login_body ''no'') ''alice'' ?w2"
  have "login_serve sample_crypto plain_lib sample_rt ?h (login_body ''no'') w =
      (login_error 401 ''invalid_credentials'', ?w3)"
    by (simp add: login_serve_def login_reads login_check_def login_key locked wrong Let_def)
  moreover have "guess_of ?w3 (Suc n)"
    using assms(1)
    by (simp add: guess_of_def guesses_Suc mem_tracker_store_def rt)
      (simp add: recordFailedLogin_def recordAuth_def write_audit_def mem_audit_logs_def Let_def)
  ultimately show ?thesis by blast
qed

lemma wrong_guesses:
  assumes "guess_of w n" "n + length xs \<le> 5" "set xs \<subseteq> {(sample_rt, login_body ''no'')}"
  shows "\<exists>w'. failed_logins sample_crypto plain_lib login_dep ''alice|1.2.3.4:5'' xs w w'"
  using assms
proof (induction xs arbitrary: w n)
  case (Cons x xs)
  then obtain w1 where one: "login_serve sample_crypto plain_lib sample_rt (mem_login sample_crypto login_dep sample_rt)
      (login_body ''no'') w = (login_error 401 ''invalid_credentials'', w1)" "guess_of w1 (Suc n)"
    using wrong_guess [of w n] by auto
  with Cons obtain w' where "failed_logins sample_crypto plain_lib login_dep ''alice|1.2.3.4:5'' xs w1 w'"
    by fastforce
  with one Cons.prems(3) show ?case by (auto simp: login_reads login_key)
next
  case Nil
  show ?case by (rule exI [of _ w]) simp
qed

theorem guessing_is_locked_out_witness:
  "\<exists>w'. login_serve sample_crypto plain_lib sample_rt (mem_login sample_crypto login_dep sample_rt)
    (login_body ''pw'') w' = (login_error 429 ''account_locked'', w')"
proof -
  let ?x = "(sample_rt, login_body ''no'')"
  have "guess_of sample_world 0" by (simp add: guess_of_def guesses_def sample_tracker)
  from wrong_guesses [OF this, of "[?x, ?x, ?x, ?x, ?x]"] obtain w' where
    run: "failed_logins sample_crypto plain_lib login_dep ''alice|1.2.3.4:5'' (?x # [?x, ?x, ?x] @ [?x]) sample_world w'"
    by auto
  have rt: "now sample_rt k = 1000" for k by (simp add: sample_rt_def sample_simps)
  have "login_serve sample_crypto plain_lib sample_rt (mem_login sample_crypto login_dep sample_rt) (login_body ''pw'') w'
    = (login_error 429 ''account_locked'', w')"
    by (rule guessing_is_locked_out [OF run _ _ _ _ login_reads login_key])
      (simp_all add: sample_tracker NewLoginAttemptTracker_def steady_def rt zero_time_def time_sub_def
        min_duration_def max_duration_def fifteen_minutes)
  then show ?thesis by blast
qed

end
