(* ===== verification/Account.thy ===== *)
theory Account
  imports Login
begin

section \<open>The account endpoints (internal/oidc/profile.go, home.go, api.go)\<close>

text \<open>
  The JSON endpoints of a signed-in user: profile, sessions, password, home page, and the
  \<open>whoami\<close> check. They take the session \<open>RequireSession\<close> put in the request context. Runtime
  places: 0 (the listing, or the time of a revocation), 1 (audit entry), 2 (security stamp),
  3 (revoking the other sessions).
\<close>

record profile_config =
  pfc_BasePath :: string
  pfc_RequireHTTPS :: bool

record 'w profile_handler =
  pf_Cfg :: profile_config
  pf_Users :: "'w user_store"
  pf_Sessions :: "'w session_store"
  pf_RefreshTokens :: "'w refresh_token_store"
  pf_AuditLogs :: "'w audit_log_store option"
  pf_Tracker :: "'w login_attempt_tracker option"
  pf_ClientIP :: "(http_request \<Rightarrow> string) option"

definition profileErrorLabel :: "string \<Rightarrow> string" where
  "profileErrorLabel c =
    (if c = ''antiforgery_failed'' then ''Your page expired. Please reload and try again.''
     else if c = ''current_session'' then ''Use sign out to end the current session.''
     else if c = ''password_missing'' then ''Please fill out all password fields.''
     else if c = ''password_mismatch'' then ''The new passwords do not match.''
     else if c = ''password_weak'' then
       ''The new password must be 8-72 characters and must not start or end with whitespace.''
     else if c = ''password_unchanged'' then ''The new password must differ from the current one.''
     else if c = ''current_password_wrong'' then ''The current password is incorrect.''
     else if c = ''account_locked'' then ''Too many failed attempts. Please try again later.''
     else ''An unexpected error occurred. Please try again later.'')"

definition profile_error :: "nat \<Rightarrow> string \<Rightarrow> outcome" where
  "profile_error s c = fail_with s c (profileErrorLabel c)"

definition profile_csrf :: "'w profile_handler \<Rightarrow> http_request \<Rightarrow> bool" where
  "profile_csrf h r = csrf_VerifyHeader (APICSRFGuard (pfc_RequireHTTPS (pf_Cfg h))) r"

definition profile_audit ::
  "runtime \<Rightarrow> 'w profile_handler \<Rightarrow> http_request \<Rightarrow> string \<Rightarrow> string \<Rightarrow> string \<Rightarrow> string \<Rightarrow> string \<Rightarrow> 'w \<Rightarrow> 'w" where
  "profile_audit rt h r userID action targetType targetID metadata w =
    write_audit (pf_AuditLogs h)
      (audit_entry (new_uuid rt 1) (now rt 1) action userID targetType targetID metadata
         (source_ip (pf_ClientIP h) r) r) w"

subsection \<open>Viewing the profile\<close>

definition session_view :: "crypto \<Rightarrow> session \<Rightarrow> session \<Rightarrow> json" where
  "session_view cr sess s =
    JObj [(''id'', JStr (uuid_string cr (s_ID s))), (''created_at'', JTime (s_CreatedAt s)),
          (''expires_at'', JTime (s_ExpiresAt s)), (''current'', JBool (s_ID s = s_ID sess))]"

definition getProfile ::
  "crypto \<Rightarrow> runtime \<Rightarrow> 'w profile_handler \<Rightarrow> session \<Rightarrow> 'w \<Rightarrow> outcome" where
  "getProfile cr rt h sess w =
    (case us_FindUserByID (pf_Users h) (s_UserID sess) w of
       Inl e \<Rightarrow> profile_error 500 ''server_error''
     | Inr u \<Rightarrow>
         let active = (case ss_ListByUserID (pf_Sessions h) (s_UserID sess) (now rt 0) w of
                         Inl e \<Rightarrow> [] | Inr l \<Rightarrow> l)
         in writeJSON 200 (JObj
              [(''username'', JStr (u_Username u)), (''email'', JStr (u_Email u)),
               (''has_other_sessions'', JBool (list_ex (\<lambda>s. s_ID s \<noteq> s_ID sess) active)),
               (''sessions'', JArr (map (session_view cr sess) active))]))"

subsection \<open>Revoking sessions\<close>

definition session_not_found :: outcome where
  "session_not_found = fail_with 404 ''not_found'' ''session not found''"

definition revokeSession ::
  "crypto \<Rightarrow> runtime \<Rightarrow> 'w profile_handler \<Rightarrow> http_request \<Rightarrow> session \<Rightarrow> 'w \<Rightarrow> outcome \<times> 'w" where
  "revokeSession cr rt h r sess w =
    (if \<not> profile_csrf h r then (profile_error 403 ''antiforgery_failed'', w)
     else case decodeJSON [''session_id''] r of
       None \<Rightarrow> (fail_with 400 ''invalid_request'' ''invalid request body'', w)
     | Some body \<Rightarrow>
         (case uuid_parse cr (body_str body ''session_id'') of
            None \<Rightarrow> (session_not_found, w)
          | Some i \<Rightarrow>
              (case ss_Find (pf_Sessions h) i w of
                 Inl e \<Rightarrow> (if e = NotFound then session_not_found
                          else profile_error 500 ''server_error'', w)
               | Inr target \<Rightarrow>
                   if s_UserID target \<noteq> s_UserID sess then (session_not_found, w)
                   else if s_ID target = s_ID sess then (profile_error 400 ''current_session'', w)
                   else
                     let (e1, w1) = ss_Revoke (pf_Sessions h) (s_ID target) (now rt 0) w in
                     if e1 \<noteq> None \<and> e1 \<noteq> Some NotFound then (profile_error 500 ''server_error'', w1)
                     else
                       let (e2, w2) = rts_RevokeBySessionID (pf_RefreshTokens h) (s_ID target) (now rt 0) w1 in
                       if e2 \<noteq> None then (profile_error 500 ''server_error'', w2)
                       else (writeJSON 200 (JObj [(''status'', JStr ''session_revoked'')]),
                             profile_audit rt h r (s_UserID sess) ''session_revoked'' ''Session''
                               (uuid_string cr (s_ID target)) [] w2))))"

text \<open>The loop over the revoked sessions stops at the first error.\<close>

fun revoke_tokens :: "'w refresh_token_store \<Rightarrow> time \<Rightarrow> uuid list \<Rightarrow> 'w \<Rightarrow> bool \<times> 'w" where
  "revoke_tokens st t [] w = (True, w)"
| "revoke_tokens st t (i # is) w =
    (case rts_RevokeBySessionID st i t w of
       (Some e, w') \<Rightarrow> (False, w')
     | (None, w') \<Rightarrow> revoke_tokens st t is w')"

text \<open>The count and whether it went without an error.\<close>

definition revokeOtherSessions ::
  "runtime \<Rightarrow> 'w profile_handler \<Rightarrow> session \<Rightarrow> 'w \<Rightarrow> (nat \<times> bool) \<times> 'w" where
  "revokeOtherSessions rt h sess w =
    (case ss_RevokeByUserIDExcept (pf_Sessions h) (s_UserID sess) (s_ID sess) (now rt 3) w of
       (Inl e, w1) \<Rightarrow> ((0, False), w1)
     | (Inr ids, w1) \<Rightarrow>
         let (ok, w2) = revoke_tokens (pf_RefreshTokens h) (now rt 3) ids w1 in ((length ids, ok), w2))"

definition revokeOthers ::
  "runtime \<Rightarrow> 'w profile_handler \<Rightarrow> http_request \<Rightarrow> session \<Rightarrow> 'w \<Rightarrow> outcome \<times> 'w" where
  "revokeOthers rt h r sess w =
    (if \<not> profile_csrf h r then (profile_error 403 ''antiforgery_failed'', w)
     else
       let ((n, ok), w1) = revokeOtherSessions rt h sess w in
       if \<not> ok then (profile_error 500 ''server_error'', w1)
       else (writeJSON 200 (JObj [(''status'', JStr ''other_sessions_revoked''), (''count'', JNum (int n))]),
             profile_audit rt h r (s_UserID sess) ''session_revoked'' ''User'' (s_UserID sess)
               (''{\"scope\":\"others\",\"count\":'' @ itoa n @ ''}'') w1))"

subsection \<open>Changing the password\<close>

definition passwordLockoutKey :: "'w profile_handler \<Rightarrow> http_request \<Rightarrow> string \<Rightarrow> string" where
  "passwordLockoutKey h r userID = ''pwchange:'' @ userID @ ''|'' @ source_ip (pf_ClientIP h) r"

definition change_request :: "'w profile_handler \<Rightarrow> http_request \<Rightarrow> outcome + (string \<times> string \<times> string)" where
  "change_request h r =
    (if \<not> profile_csrf h r then Inl (profile_error 403 ''antiforgery_failed'')
     else case decodeJSON [''current_password'', ''new_password'', ''new_password_confirm''] r of
       None \<Rightarrow> Inl (profile_error 400 ''password_missing'')
     | Some body \<Rightarrow>
         let current = body_str body ''current_password'';
             new = body_str body ''new_password'';
             confirm = body_str body ''new_password_confirm''
         in if current = [] \<or> new = [] \<or> confirm = [] then Inl (profile_error 400 ''password_missing'')
            else Inr (current, new, confirm))"

text \<open>The lockout check, the current password, and the reset of the tracker.\<close>

definition change_verify ::
  "'w profile_handler \<Rightarrow> http_request \<Rightarrow> session \<Rightarrow> string \<Rightarrow> 'w \<Rightarrow> (outcome + user) \<times> 'w" where
  "change_verify h r sess current w =
    (case us_FindUserByID (pf_Users h) (s_UserID sess) w of
       Inl e \<Rightarrow> (Inl (profile_error 500 ''server_error''), w)
     | Inr u \<Rightarrow>
         let key = passwordLockoutKey h r (u_ID u);
             (locked, w1) = (case pf_Tracker h of
                               None \<Rightarrow> (Inr False, w)
                             | Some t \<Rightarrow> lat_IsLockedOut t key w)
         in
         if locked = Inr True then (Inl (profile_error 429 ''account_locked''), w1)
         else case us_ValidateCredentials (pf_Users h) (u_Username u) current w1 of
           Inl e \<Rightarrow> (Inl (profile_error 500 ''server_error''), w1)
         | Inr None \<Rightarrow>
             (Inl (profile_error 400 ''current_password_wrong''),
              case pf_Tracker h of None \<Rightarrow> w1 | Some t \<Rightarrow> snd (lat_RecordFailure t key w1))
         | Inr (Some info) \<Rightarrow>
             (Inr u, case pf_Tracker h of None \<Rightarrow> w1 | Some t \<Rightarrow> snd (lat_Reset t key w1)))"

definition change_policy :: "string \<Rightarrow> string \<Rightarrow> string \<Rightarrow> string option" where
  "change_policy current new confirm =
    (if new \<noteq> confirm then Some ''password_mismatch''
     else if ValidatePassword new \<noteq> None then Some ''password_weak''
     else if new = current then Some ''password_unchanged''
     else None)"

definition change_apply ::
  "crypto \<Rightarrow> runtime \<Rightarrow> 'w profile_handler \<Rightarrow> http_request \<Rightarrow> session \<Rightarrow> user \<Rightarrow> string \<Rightarrow> 'w
    \<Rightarrow> outcome \<times> 'w" where
  "change_apply cr rt h r sess u new w =
    (case us_SetPassword (pf_Users h) (u_ID u) new w of
       (Some e, w1) \<Rightarrow> (profile_error 500 ''server_error'', w1)
     | (None, w1) \<Rightarrow>
         let w2 = snd (us_UpdateUser (pf_Users h)
                    (u\<lparr>u_SecurityStamp := uuid_string cr (new_uuid rt 2), u_UpdatedAt := now rt 2\<rparr>) w1);
             ((n, ok), w3) = revokeOtherSessions rt h sess w2;
             w4 = profile_audit rt h r (u_ID u) ''password_changed'' ''User'' (u_ID u)
                    (''{\"sessions_revoked\":'' @ itoa n @ ''}'') w3
         in (writeJSON 200 (JObj [(''status'', JStr ''password_changed'')]), w4))"

definition changePassword ::
  "crypto \<Rightarrow> runtime \<Rightarrow> 'w profile_handler \<Rightarrow> http_request \<Rightarrow> session \<Rightarrow> 'w \<Rightarrow> outcome \<times> 'w" where
  "changePassword cr rt h r sess w =
    (case change_request h r of
       Inl out \<Rightarrow> (out, w)
     | Inr (current, new, confirm) \<Rightarrow>
         (case change_verify h r sess current w of
            (Inl out, w1) \<Rightarrow> (out, w1)
          | (Inr u, w1) \<Rightarrow>
              (case change_policy current new confirm of
                 Some c \<Rightarrow> (profile_error 400 c, w1)
               | None \<Rightarrow> change_apply cr rt h r sess u new w1)))"

definition profile_serve ::
  "crypto \<Rightarrow> runtime \<Rightarrow> 'w profile_handler \<Rightarrow> session option \<Rightarrow> http_request \<Rightarrow> 'w \<Rightarrow> outcome \<times> 'w" where
  "profile_serve cr rt h ctx r w =
    (case ctx of
       None \<Rightarrow> (fail_with 401 ''login_required'' ''login required'', w)
     | Some sess \<Rightarrow>
         let base = pfc_BasePath (pf_Cfg h);
             revokePath = base @ ''/sessions/revoke'';
             othersPath = base @ ''/sessions/revoke-others'';
             passwordPath = base @ ''/password''
         in
         if req_Path r = base \<and> req_Method r = ''GET'' then (getProfile cr rt h sess w, w)
         else if req_Path r = revokePath \<and> req_Method r = ''POST'' then revokeSession cr rt h r sess w
         else if req_Path r = othersPath \<and> req_Method r = ''POST'' then revokeOthers rt h r sess w
         else if req_Path r = passwordPath \<and> req_Method r = ''POST'' then changePassword cr rt h r sess w
         else
           (Response ((error_response 405 ''invalid_request'' ''method not allowed'')
              \<lparr>resp_headers := (''Allow'',
                 if req_Path r = revokePath \<or> req_Path r = othersPath \<or> req_Path r = passwordPath
                 then ''POST'' else ''GET'') # json_headers\<rparr>), w))"

subsection \<open>The home page and whoami\<close>

definition recentLoginsLimit :: goint where
  "recentLoginsLimit = 10"

definition browser_tokens :: "(string \<times> string) list" where
  "browser_tokens = [(''Edg/'', ''Edge''), (''OPR/'', ''Opera''), (''Firefox/'', ''Firefox''),
     (''Chrome/'', ''Chrome''), (''Safari/'', ''Safari''), (''curl/'', ''curl'')]"

definition os_tokens :: "(string \<times> string) list" where
  "os_tokens = [(''iPhone'', ''iOS''), (''iPad'', ''iOS''), (''Android'', ''Android''),
     (''Windows'', ''Windows''), (''Mac OS X'', ''macOS''), (''Linux'', ''Linux'')]"

definition describeUserAgent :: "string \<Rightarrow> string" where
  "describeUserAgent ua =
    (if ua = [] then ''unknown device''
     else
       let browser = (case find (\<lambda>(t, n). contains_str ua t) browser_tokens of
                        None \<Rightarrow> ''browser'' | Some (t, n) \<Rightarrow> n)
       in case find (\<lambda>(t, n). contains_str ua t) os_tokens of
            None \<Rightarrow> browser
          | Some (t, os) \<Rightarrow> browser @ '' on '' @ os)"

definition login_view :: "bool \<Rightarrow> audit_log \<Rightarrow> json" where
  "login_view current l =
    JObj [(''when'', JTime (al_Timestamp l)), (''ip'', JStr (al_IPAddress l)),
          (''device'', JStr (describeUserAgent (al_UserAgent l))), (''current'', JBool current)]"

definition history :: "'w audit_log_store option \<Rightarrow> string \<Rightarrow> string \<Rightarrow> bool \<Rightarrow> 'w \<Rightarrow> json" where
  "history al userID action markFirst w =
    (case al of
       None \<Rightarrow> JArr []
     | Some st \<Rightarrow>
         (case als_ListByActor st userID action recentLoginsLimit w of
            Inl e \<Rightarrow> JArr []
          | Inr logs \<Rightarrow>
              JArr (map (\<lambda>(i, l). login_view (markFirst \<and> i = (0 :: nat)) l) (zip [0..<length logs] logs))))"

definition get_or_head :: "http_request \<Rightarrow> bool" where
  "get_or_head r \<longleftrightarrow> req_Method r = ''GET'' \<or> req_Method r = ''HEAD''"

definition get_only :: outcome where
  "get_only = Response ((error_response 405 ''invalid_request'' ''method not allowed'')
     \<lparr>resp_headers := (''Allow'', ''GET, HEAD'') # json_headers\<rparr>)"

definition home_serve ::
  "'w user_store \<Rightarrow> 'w audit_log_store option \<Rightarrow> session option \<Rightarrow> http_request \<Rightarrow> 'w \<Rightarrow> outcome" where
  "home_serve us al ctx r w =
    (if \<not> get_or_head r then get_only
     else case ctx of
       None \<Rightarrow> fail_with 401 ''login_required'' ''login required''
     | Some sess \<Rightarrow>
         (case us_FindUserByID us (s_UserID sess) w of
            Inl e \<Rightarrow> fail_with 500 ''server_error'' ''internal error''
          | Inr u \<Rightarrow>
              writeJSON 200 (JObj
                [(''username'', JStr (u_Username u)), (''email'', JStr (u_Email u)),
                 (''logins'', history al (s_UserID sess) ''login_succeeded'' True w),
                 (''failed_logins'', history al (s_UserID sess) ''login_failed'' False w)])))"

definition omit_empty_str :: "string \<Rightarrow> string \<Rightarrow> (string \<times> json) list" where
  "omit_empty_str k v = (if v = [] then [] else [(k, JStr v)])"

definition whoami_serve ::
  "crypto \<Rightarrow> cookie_lib \<Rightarrow> runtime \<Rightarrow> 'w session_resolver \<Rightarrow> 'w user_store \<Rightarrow> string
    \<Rightarrow> http_request \<Rightarrow> 'w \<Rightarrow> outcome" where
  "whoami_serve cr lib rt sr us adminRole r w =
    (if \<not> get_or_head r then get_only
     else case Resolve cr lib (now rt 0) sr r w of
       Inr (Some sess) \<Rightarrow>
         (case us_FindUserByID us (s_UserID sess) w of
            Inl e \<Rightarrow> fail_with 500 ''server_error'' ''internal error''
          | Inr u \<Rightarrow>
              let roles = (case us_GetUserRoles us (s_UserID sess) w of Inl e \<Rightarrow> [] | Inr rs \<Rightarrow> rs);
                  admin = (if adminRole = [] then ''admin'' else adminRole)
              in writeJSON 200 (JObj
                   ([(''authenticated'', JBool True)] @ omit_empty_str ''user_id'' (u_ID u) @
                    omit_empty_str ''username'' (u_Username u) @ omit_empty_str ''email'' (u_Email u) @
                    (if roles = [] then [] else [(''roles'', JArr (map JStr roles))]) @
                    [(''is_admin'', JBool (list_ex (\<lambda>x. equal_fold x admin) roles))])))
     | _ \<Rightarrow> writeJSON 200 (JObj [(''authenticated'', JBool False), (''is_admin'', JBool False)]))"

end
