(* ===== verification/Mail.thy ===== *)
theory Mail
  imports Runtime GoText
begin

section \<open>Outgoing mail (internal/mail)\<close>

text \<open>
  \<open>SMTPMailer\<close> builds a message and hands it to a mail server. The address parser, the encodings
  of the subject and the body and the format of dates are the standard library's and are
  parameters. The mail server is an oracle: \<open>smtp_server\<close> says what it answers at each point of the
  dialogue, and a timeout is a refusal. What the client sends is a list of commands, each with the
  flag whether the connection was encrypted; the greeting (\<open>EHLO\<close>) carries nothing and is left out.
\<close>

subsection \<open>Addresses and messages\<close>

record email =
  em_To :: string
  em_Subject :: string
  em_Body :: string

text \<open>\<open>net/mail.Address\<close>: the bare address and the text \<open>String\<close> prints.\<close>

record address =
  ad_Address :: string
  ad_String :: string

record mail_lib =
  ml_ParseAddress :: "string \<Rightarrow> address option"
  ml_QEncode :: "string \<Rightarrow> string"
  ml_Date :: "time \<Rightarrow> string"
  ml_QuotedPrintable :: "string \<Rightarrow> string"
  ml_LoopbackIP :: "string \<Rightarrow> bool"

definition line_break :: "char \<Rightarrow> bool" where
  "line_break c \<longleftrightarrow> c = CHR 0x0D \<or> c = CHR 0x0A"

definition parseAddress :: "mail_lib \<Rightarrow> string \<Rightarrow> string option" where
  "parseAddress lib s =
    (if list_ex line_break s then None else map_option ad_Address (ml_ParseAddress lib s))"

definition bracket :: "char \<Rightarrow> bool" where
  "bracket c \<longleftrightarrow> c = CHR ''['' \<or> c = CHR '']''"

definition isLoopbackHost :: "mail_lib \<Rightarrow> string \<Rightarrow> bool" where
  "isLoopbackHost lib host \<longleftrightarrow>
    equal_fold host ''localhost'' \<or>
    ml_LoopbackIP lib (rev (dropWhile bracket (rev (dropWhile bracket host))))"

text \<open>What follows the last \<open>@\<close>, and \<open>localhost\<close> where there is none.\<close>

definition address_domain :: "string \<Rightarrow> string" where
  "address_domain a =
    (if CHR ''@'' \<in> set a then rev (takeWhile (\<lambda>c. c \<noteq> CHR ''@'') (rev a)) else ''localhost'')"

abbreviation crlf :: string where "crlf \<equiv> [CHR 0x0D, CHR 0x0A]"

fun lf_only :: "string \<Rightarrow> string" where
  "lf_only (a # b # s) = (if a = CHR 0x0D \<and> b = CHR 0x0A then CHR 0x0A # lf_only s else a # lf_only (b # s))"
| "lf_only s = s"

definition header_line :: "string \<times> string \<Rightarrow> string" where
  "header_line kv = fst kv @ '': '' @ snd kv @ crlf"

datatype smtp_error =
    BadRecipient | SubjectBreak | BadFrom | DialFailed | HandshakeFailed | StartTLSFailed | PlaintextRefused
  | AuthFailed | MailFromFailed | RcptFailed | DataFailed | WriteFailed | FinishFailed | QuitFailed | HostRequired

text \<open>\<open>mid\<close> is the new id of the message.\<close>

definition message_headers :: "mail_lib \<Rightarrow> address \<Rightarrow> string \<Rightarrow> string \<Rightarrow> time \<Rightarrow> string \<Rightarrow> (string \<times> string) list" where
  "message_headers lib from to subject t mid =
    [(''From'', ad_String from), (''To'', to), (''Subject'', ml_QEncode lib subject), (''Date'', ml_Date lib t),
     (''Message-ID'', ''<'' @ mid @ ''@'' @ address_domain (ad_Address from) @ ''>''),
     (''MIME-Version'', ''1.0''), (''Content-Type'', ''text/plain; charset=\"utf-8\"''),
     (''Content-Transfer-Encoding'', ''quoted-printable'')]"

definition buildMessage ::
  "mail_lib \<Rightarrow> string \<Rightarrow> string \<Rightarrow> email \<Rightarrow> time \<Rightarrow> string \<Rightarrow> smtp_error + string" where
  "buildMessage lib fromHeader to msg t mid =
    (if list_ex line_break (em_Subject msg) then Inl SubjectBreak
     else case ml_ParseAddress lib fromHeader of
       None \<Rightarrow> Inl BadFrom
     | Some from \<Rightarrow>
         Inr (concat (map header_line (message_headers lib from to (em_Subject msg) t mid)) @ crlf @
           ml_QuotedPrintable lib (lf_only (em_Body msg))))"

subsection \<open>The dialogue\<close>

record smtp_config =
  smc_Host :: string
  smc_Port :: string
  smc_Username :: string
  smc_Password :: string
  smc_From :: string
  smc_Timeout :: duration

record smtp_server =
  sv_Dial :: bool
  sv_Greets :: bool
  sv_Hello :: bool
  sv_OffersTLS :: bool
  sv_StartTLS :: bool
  sv_Auth :: bool
  sv_Mail :: bool
  sv_Rcpt :: bool
  sv_Data :: bool
  sv_Write :: bool
  sv_Finish :: bool
  sv_Quit :: bool

datatype smtp_sent =
    SentStartTLS | SentAuth string string | SentMail string | SentRcpt string | SentData | SentBody string
  | SentEnd | SentAbort | SentQuit

type_synonym smtp_trace = "(bool \<times> smtp_sent) list"

text \<open>Commands in order, each with the server's answer to it, up to the first refusal.\<close>

fun smtp_steps :: "bool \<Rightarrow> (smtp_sent \<times> bool \<times> smtp_error) list \<Rightarrow> smtp_error option \<times> smtp_trace" where
  "smtp_steps enc [] = (None, [])"
| "smtp_steps enc ((c, ok, e) # cs) =
    (if ok then (case smtp_steps enc cs of (res, tr) \<Rightarrow> (res, (enc, c) # tr)) else (Some e, [(enc, c)]))"

definition after_sent :: "smtp_trace \<Rightarrow> smtp_error option \<times> smtp_trace \<Rightarrow> smtp_error option \<times> smtp_trace" where
  "after_sent tr res = (fst res, tr @ snd res)"

text \<open>
  \<open>c.Auth\<close> with \<open>smtp.PlainAuth\<close> of the standard library: it refuses to send the password over a
  connection that is not encrypted unless the server is called localhost, 127.0.0.1 or ::1, and
  ends the dialogue. A client that got no answer to its greeting fails at its first command.
\<close>

definition plain_auth_allowed :: "bool \<Rightarrow> string \<Rightarrow> bool" where
  "plain_auth_allowed enc host \<longleftrightarrow> enc \<or> host = ''localhost'' \<or> host = ''127.0.0.1'' \<or> host = ''::1''"

definition smtp_deliver ::
  "smtp_config \<Rightarrow> smtp_server \<Rightarrow> bool \<Rightarrow> string \<Rightarrow> string \<Rightarrow> string \<Rightarrow> smtp_error option \<times> smtp_trace" where
  "smtp_deliver cfg srv enc from to raw =
    (if smc_Username cfg \<noteq> [] \<and> \<not> sv_Hello srv then (Some AuthFailed, [])
     else if \<not> sv_Hello srv then (Some MailFromFailed, [])
     else if smc_Username cfg \<noteq> [] \<and> \<not> plain_auth_allowed enc (smc_Host cfg) then (Some AuthFailed, [(enc, SentQuit)])
     else if smc_Username cfg \<noteq> [] \<and> \<not> sv_Auth srv
       then (Some AuthFailed, [(enc, SentAuth (smc_Username cfg) (smc_Password cfg)), (enc, SentAbort), (enc, SentQuit)])
     else smtp_steps enc
       ((if smc_Username cfg \<noteq> [] then [(SentAuth (smc_Username cfg) (smc_Password cfg), True, AuthFailed)] else []) @
        [(SentMail from, sv_Mail srv, MailFromFailed), (SentRcpt to, sv_Rcpt srv, RcptFailed),
         (SentData, sv_Data srv, DataFailed), (SentBody raw, sv_Write srv, WriteFailed),
         (SentEnd, sv_Finish srv, FinishFailed), (SentQuit, sv_Quit srv, QuitFailed)]))"

text \<open>Port 465 is encrypted from the start; elsewhere \<open>STARTTLS\<close> is required, except on loopback.\<close>

definition smtp_connected ::
  "mail_lib \<Rightarrow> smtp_config \<Rightarrow> smtp_server \<Rightarrow> string \<Rightarrow> string \<Rightarrow> string \<Rightarrow> smtp_error option \<times> smtp_trace" where
  "smtp_connected lib cfg srv from to raw =
    (if smc_Port cfg = ''465'' then smtp_deliver cfg srv True from to raw
     else if sv_Hello srv \<and> sv_OffersTLS srv then
       (if sv_StartTLS srv then after_sent [(False, SentStartTLS)] (smtp_deliver cfg srv True from to raw)
        else (Some StartTLSFailed, [(False, SentStartTLS)]))
     else if \<not> isLoopbackHost lib (smc_Host cfg) then (Some PlaintextRefused, [])
     else smtp_deliver cfg srv False from to raw)"

definition smtp_Send ::
  "mail_lib \<Rightarrow> smtp_config \<Rightarrow> smtp_server \<Rightarrow> time \<Rightarrow> string \<Rightarrow> email \<Rightarrow> smtp_error option \<times> smtp_trace" where
  "smtp_Send lib cfg srv t mid msg =
    (case parseAddress lib (em_To msg) of
       None \<Rightarrow> (Some BadRecipient, [])
     | Some to \<Rightarrow>
         (case buildMessage lib (smc_From cfg) to msg t mid of
            Inl e \<Rightarrow> (Some e, [])
          | Inr raw \<Rightarrow>
              if \<not> sv_Dial srv then (Some DialFailed, [])
              else if \<not> sv_Greets srv then (Some HandshakeFailed, [])
              else smtp_connected lib cfg srv
                (case parseAddress lib (smc_From cfg) of None \<Rightarrow> [] | Some a \<Rightarrow> a) to raw))"

definition NewSMTPMailer :: "mail_lib \<Rightarrow> smtp_config \<Rightarrow> smtp_error + smtp_config" where
  "NewSMTPMailer lib cfg =
    (if smc_Host cfg = [] then Inl HostRequired
     else if parseAddress lib (smc_From cfg) = None then Inl BadFrom
     else Inr (cfg\<lparr>smc_Port := (if smc_Port cfg = [] then ''587'' else smc_Port cfg),
       smc_Timeout := (if sint (smc_Timeout cfg) \<le> 0 then 15 * second else smc_Timeout cfg)\<rparr>))"

text \<open>The development mailer delivers nothing. What it writes to the log is the subject, and the body if asked to.\<close>

definition log_Send :: "bool \<Rightarrow> email \<Rightarrow> string list" where
  "log_Send LogBodies msg = (if LogBodies then [em_Subject msg, em_Body msg] else [em_Subject msg])"

subsection \<open>What leaves the process\<close>

lemma smtp_steps_sent: "snd (smtp_steps enc cs) = map (Pair enc) (map fst (take (length (snd (smtp_steps enc cs))) cs))"
  by (induction enc cs rule: smtp_steps.induct) (auto split: prod.splits)

lemma smtp_steps_enc: "x \<in> set (snd (smtp_steps enc cs)) \<Longrightarrow> fst x = enc"
  by (induction enc cs rule: smtp_steps.induct) (auto split: prod.splits if_splits)

lemma smtp_steps_member: "x \<in> set (snd (smtp_steps enc cs)) \<Longrightarrow> \<exists>c \<in> set cs. snd x = fst c"
  by (induction enc cs rule: smtp_steps.induct) (auto split: prod.splits if_splits)

lemma smtp_steps_done: "fst (smtp_steps enc cs) = None \<Longrightarrow> snd (smtp_steps enc cs) = map (\<lambda>c. (enc, fst c)) cs"
  by (induction enc cs rule: smtp_steps.induct) (auto split: prod.splits if_splits)

lemma deliver_enc: "x \<in> set (snd (smtp_deliver cfg srv enc from to raw)) \<Longrightarrow> fst x = enc"
  unfolding smtp_deliver_def by (auto split: if_splits dest: smtp_steps_enc)

lemma deliver_auth:
  assumes "(enc, SentAuth u p) \<in> set (snd (smtp_deliver cfg srv enc from to raw))"
  shows "plain_auth_allowed enc (smc_Host cfg) \<and> u = smc_Username cfg \<and> p = smc_Password cfg"
  using assms unfolding smtp_deliver_def by (auto split: if_splits dest!: smtp_steps_member)

lemma deliver_done:
  assumes "fst (smtp_deliver cfg srv enc from to raw) = None"
  shows "snd (smtp_deliver cfg srv enc from to raw) = map (Pair enc)
    ((if smc_Username cfg \<noteq> [] then [SentAuth (smc_Username cfg) (smc_Password cfg)] else []) @
     [SentMail from, SentRcpt to, SentData, SentBody raw, SentEnd, SentQuit])"
  using assms unfolding smtp_deliver_def by (auto split: if_splits dest!: smtp_steps_done)

definition content :: "smtp_sent \<Rightarrow> bool" where
  "content c \<longleftrightarrow> (case c of SentRcpt to \<Rightarrow> True | SentBody raw \<Rightarrow> True | _ \<Rightarrow> False)"

lemma connected_clear:
  assumes "x \<in> set (snd (smtp_connected lib cfg srv from to raw))" "\<not> fst x" "snd x \<noteq> SentStartTLS"
  shows "isLoopbackHost lib (smc_Host cfg) \<and> \<not> (sv_Hello srv \<and> sv_OffersTLS srv) \<and> smc_Port cfg \<noteq> ''465''"
  using assms unfolding smtp_connected_def by (auto simp: after_sent_def split: if_splits dest: deliver_enc)

lemma connected_auth:
  assumes "(False, SentAuth u p) \<in> set (snd (smtp_connected lib cfg srv from to raw))"
  shows "plain_auth_allowed False (smc_Host cfg)"
  using assms unfolding smtp_connected_def
  by (auto simp: after_sent_def split: if_splits dest: deliver_enc deliver_auth)

lemma connected_done:
  assumes "fst (smtp_connected lib cfg srv from to raw) = None"
  shows "filter content (map snd (snd (smtp_connected lib cfg srv from to raw))) = [SentRcpt to, SentBody raw]"
  using assms unfolding smtp_connected_def
  by (auto simp: after_sent_def content_def o_def split: if_splits dest!: deliver_done)

lemma smtp_Send_cases:
  assumes "smtp_Send lib cfg srv t mid msg = (res, tr)"
  obtains (early) "res \<noteq> None" "tr = []"
  | (sent) sender to raw where "parseAddress lib (em_To msg) = Some to" "buildMessage lib (smc_From cfg) to msg t mid = Inr raw"
      "smtp_connected lib cfg srv sender to raw = (res, tr)"
  using assms unfolding smtp_Send_def by (auto split: option.splits sum.splits if_splits)

text \<open>
  No line of the header can be broken into two by what a caller passes, as long as the parser
  answers addresses without line breaks and the encodings write none.
\<close>

lemma headers_unbroken:
  assumes "buildMessage lib fromHeader to msg t mid = Inr raw" "parseAddress lib (em_To msg) = Some to"
    and parse: "\<And>s a. ml_ParseAddress lib s = Some a \<Longrightarrow>
      list_ex line_break (ad_Address a) \<or> list_ex line_break (ad_String a) \<Longrightarrow> list_ex line_break s"
    and enc: "\<And>s. list_ex line_break (ml_QEncode lib s) \<Longrightarrow> list_ex line_break s"
      "\<not> list_ex line_break (ml_Date lib t)" "\<not> list_ex line_break mid" "\<not> list_ex line_break fromHeader"
  shows "\<exists>hs. raw = concat (map header_line hs) @ crlf @ ml_QuotedPrintable lib (lf_only (em_Body msg)) \<and>
    length hs = 8 \<and> list_all (\<lambda>kv. \<not> list_ex line_break (snd kv)) hs"
proof -
  obtain from' where f: "ml_ParseAddress lib fromHeader = Some from'" "\<not> list_ex line_break (em_Subject msg)"
    "raw = concat (map header_line (message_headers lib from' to (em_Subject msg) t mid)) @ crlf @
       ml_QuotedPrintable lib (lf_only (em_Body msg))"
    using assms(1) by (auto simp: buildMessage_def split: if_splits option.splits)
  have to: "\<not> list_ex line_break to"
    using assms(2) parse by (auto simp: parseAddress_def split: if_splits)
  have fr: "\<not> list_ex line_break (ad_Address from')" "\<not> list_ex line_break (ad_String from')"
    using parse [OF f(1)] enc(4) by blast+
  have dom: "\<not> list_ex line_break (address_domain (ad_Address from'))"
  proof (cases "CHR ''@'' \<in> set (ad_Address from')")
    case True
    then show ?thesis using fr(1) by (auto simp: address_domain_def list_ex_iff dest!: set_takeWhileD)
  qed (simp add: address_domain_def line_break_def)
  have q: "\<not> list_ex line_break (ml_QEncode lib (em_Subject msg))" using enc(1) f(2) by blast
  let ?hs = "message_headers lib from' to (em_Subject msg) t mid"
  have "length ?hs = 8 \<and> list_all (\<lambda>kv. \<not> list_ex line_break (snd kv)) ?hs"
    using to fr dom q enc(2,3) by (simp add: message_headers_def line_break_def)
  with f(3) show ?thesis by blast
qed

text \<open>
  C37. Whatever the mail server answers, the only thing the mailer sends over a connection that is not
  encrypted is the request to encrypt it, unless the host is a loopback host that does not offer
  encryption; the password goes in clear only to a server called localhost, 127.0.0.1 or ::1; and a
  message that was sent was sent once, to the address parsed from its recipient.
\<close>

theorem mail_never_in_clear:
  assumes "smtp_Send lib cfg srv t mid msg = (res, tr)"
  shows "(\<forall>x \<in> set tr. fst x \<or> snd x = SentStartTLS \<or>
      isLoopbackHost lib (smc_Host cfg) \<and> \<not> (sv_Hello srv \<and> sv_OffersTLS srv) \<and> smc_Port cfg \<noteq> ''465'') \<and>
    (\<forall>u p. (False, SentAuth u p) \<in> set tr \<longrightarrow> smc_Host cfg \<in> {''localhost'', ''127.0.0.1'', ''::1''}) \<and>
    (res = None \<longrightarrow> (\<exists>to raw. parseAddress lib (em_To msg) = Some to \<and>
       buildMessage lib (smc_From cfg) to msg t mid = Inr raw \<and>
       filter content (map snd tr) = [SentRcpt to, SentBody raw]))"
  using assms
proof (cases rule: smtp_Send_cases)
  case early
  then show ?thesis by simp
next
  case (sent sender to raw)
  then have r: "res = fst (smtp_connected lib cfg srv sender to raw)" "tr = snd (smtp_connected lib cfg srv sender to raw)"
    by (simp_all add: prod_eq_iff)
  have clear: "fst x \<or> snd x = SentStartTLS \<or> isLoopbackHost lib (smc_Host cfg) \<and>
      \<not> (sv_Hello srv \<and> sv_OffersTLS srv) \<and> smc_Port cfg \<noteq> ''465''" if "x \<in> set tr" for x
    using connected_clear that unfolding r by blast
  have auth: "smc_Host cfg \<in> {''localhost'', ''127.0.0.1'', ''::1''}" if "(False, SentAuth u p) \<in> set tr" for u p
    using connected_auth that unfolding r by (fastforce simp: plain_auth_allowed_def)
  have "filter content (map snd tr) = [SentRcpt to, SentBody raw]" if "res = None"
    using connected_done that unfolding r by blast
  then show ?thesis using clear auth sent(1,2) by blast
qed

definition sample_mail_lib :: mail_lib where
  "sample_mail_lib = \<lparr>ml_ParseAddress = \<lambda>s. if CHR ''@'' \<in> set s then Some \<lparr>ad_Address = s, ad_String = s\<rparr> else None,
     ml_QEncode = \<lambda>s. s, ml_Date = \<lambda>t. ''today'', ml_QuotedPrintable = \<lambda>s. s, ml_LoopbackIP = \<lambda>s. s = ''127.0.0.1''\<rparr>"

definition sample_smtp :: smtp_config where
  "sample_smtp = \<lparr>smc_Host = ''mx.example'', smc_Port = ''587'', smc_Username = ''u'', smc_Password = ''p'',
     smc_From = ''as@example'', smc_Timeout = 0\<rparr>"

definition willing_server :: smtp_server where
  "willing_server = \<lparr>sv_Dial = True, sv_Greets = True, sv_Hello = True, sv_OffersTLS = True, sv_StartTLS = True,
     sv_Auth = True, sv_Mail = True, sv_Rcpt = True, sv_Data = True, sv_Write = True, sv_Finish = True, sv_Quit = True\<rparr>"

definition sample_email :: email where
  "sample_email = \<lparr>em_To = ''a@b'', em_Subject = ''Hi'', em_Body = ''Bye''\<rparr>"

lemma mail_never_in_clear_witness:
  "fst (smtp_Send sample_mail_lib sample_smtp willing_server 0 ''id'' sample_email) = None \<and>
    smtp_Send sample_mail_lib sample_smtp (willing_server\<lparr>sv_OffersTLS := False\<rparr>) 0 ''id'' sample_email =
      (Some PlaintextRefused, []) \<and>
    list_ex (\<lambda>x. snd x = SentRcpt ''a@b'') (snd (smtp_Send sample_mail_lib sample_smtp willing_server 0 ''id'' sample_email))"
proof -
  obtain res tr where run: "smtp_Send sample_mail_lib sample_smtp willing_server 0 ''id'' sample_email = (res, tr)"
    by (rule prod.exhaust)
  have sent_ok: "fst (smtp_Send sample_mail_lib sample_smtp willing_server 0 ''id'' sample_email) = None" by code_simp
  moreover have "smtp_Send sample_mail_lib sample_smtp (willing_server\<lparr>sv_OffersTLS := False\<rparr>) 0 ''id'' sample_email =
      (Some PlaintextRefused, [])" by code_simp
  moreover have "parseAddress sample_mail_lib (em_To sample_email) = Some ''a@b''" by code_simp
  then obtain raw where "filter content (map snd tr) = [SentRcpt ''a@b'', SentBody raw]"
    using mail_never_in_clear [OF run] sent_ok by (metis fst_conv option.inject run)
  then have "SentRcpt ''a@b'' \<in> set (filter content (map snd tr))" by simp
  then have "list_ex (\<lambda>x. snd x = SentRcpt ''a@b'') tr" by (force simp: list_ex_iff)
  ultimately show ?thesis by (simp add: run)
qed

end
