(* ===== verification/Password_Reset.thy ===== *)
theory Password_Reset
  imports Account Mail
begin

section \<open>Resetting a password (internal/oidc/forgot\_password.go, reset\_password.go)\<close>

text \<open>
  \<open>ForgotPasswordHandler\<close> issues a single-use token and mails its link; \<open>ResetPasswordHandler\<close>
  consumes the token and sets the password. The mail goes out in the background, after the
  answer; the model returns the message next to the answer. Of its text the link and the number
  of minutes vary; the sentences around them are at the end of this theory. Runtime places of the first: 0 (time), 1 (token), 2 (its id),
  3 (audit). Of the second: 0 (first lookup), 1 (time of the change), 2 (second lookup),
  3 (security stamp), 4 (audit).
\<close>

record mail_message =
  mm_To :: string
  mm_Subject :: string
  mm_Link :: location
  mm_Minutes :: int

record forgot_config =
  fgc_ResetPath :: string
  fgc_PublicURL :: string
  fgc_TokenLifetime :: duration
  fgc_RequireHTTPS :: bool

record 'w forgot_handler =
  fg_Cfg :: forgot_config
  fg_Users :: "'w user_store"
  fg_Resets :: "'w password_reset_store"
  fg_Tracker :: "'w login_attempt_tracker option"
  fg_AuditLogs :: "'w audit_log_store option"
  fg_ClientIP :: "(http_request \<Rightarrow> string) option"

definition resetTokenRetention :: duration where
  "resetTokenRetention = 24 * hour"

definition forgotErrorLabel :: "string \<Rightarrow> string" where
  "forgotErrorLabel c =
    (if c = ''antiforgery_failed'' then ''Your page expired. Please reload and try again.''
     else if c = ''missing_identifier'' then ''Please enter your username or email.''
     else ''An unexpected error occurred.'')"

definition forgot_error :: "nat \<Rightarrow> string \<Rightarrow> outcome" where
  "forgot_error s c = fail_with s c (forgotErrorLabel c)"

definition forgot_findUser :: "'w user_store \<Rightarrow> string \<Rightarrow> 'w \<Rightarrow> user option" where
  "forgot_findUser us identifier w =
    (case us_FindUserByUsername us identifier w of
       Inr u \<Rightarrow> Some u
     | Inl e \<Rightarrow> (case us_FindUserByEmail us identifier w of Inr u \<Rightarrow> Some u | Inl e' \<Rightarrow> None))"

definition reset_mail :: "forgot_config \<Rightarrow> user \<Rightarrow> string \<Rightarrow> mail_message" where
  "reset_mail cfg u raw =
    \<lparr>mm_To = u_Email u, mm_Subject = ''Reset your password'',
     mm_Link = Location (fgc_PublicURL cfg @ fgc_ResetPath cfg) [(''token'', raw)],
     mm_Minutes = sgn (sint (fgc_TokenLifetime cfg)) * (\<bar>sint (fgc_TokenLifetime cfg)\<bar> div 60000000000)\<rparr>"

definition reset_token_of :: "runtime \<Rightarrow> forgot_config \<Rightarrow> user \<Rightarrow> string \<Rightarrow> password_reset_token" where
  "reset_token_of rt cfg u hash =
    \<lparr>pr_ID = new_uuid rt 2, pr_UserID = u_ID u, pr_TokenHash = hash, pr_CreatedAt = now rt 0,
     pr_ExpiresAt = time_add (now rt 0) (fgc_TokenLifetime cfg), pr_ConsumedAt = None\<rparr>"

text \<open>The throttle: \<open>None\<close> when the request is dropped.\<close>

definition forgot_throttle :: "'w forgot_handler \<Rightarrow> string \<Rightarrow> 'w \<Rightarrow> bool \<times> 'w" where
  "forgot_throttle h key w =
    (case fg_Tracker h of
       None \<Rightarrow> (True, w)
     | Some t \<Rightarrow>
         let (locked, w1) = lat_IsLockedOut t key w in
         if locked = Inr True then (False, w1) else (True, snd (lat_RecordFailure t key w1)))"

definition forgot_issue ::
  "crypto \<Rightarrow> runtime \<Rightarrow> 'w forgot_handler \<Rightarrow> http_request \<Rightarrow> user \<Rightarrow> 'w \<Rightarrow> mail_message option \<times> 'w" where
  "forgot_issue cr rt h r u w =
    (case NewOpaqueToken cr rt 1 of
       None \<Rightarrow> (None, w)
     | Some (raw, hash) \<Rightarrow>
         (case prs_InvalidateForUser (fg_Resets h) (u_ID u) (now rt 0) w of
            (Some e, w1) \<Rightarrow> (None, w1)
          | (None, w1) \<Rightarrow>
              (case prs_Create (fg_Resets h) (Some (reset_token_of rt (fg_Cfg h) u hash)) w1 of
                 (Some e, w2) \<Rightarrow> (None, w2)
               | (None, w2) \<Rightarrow>
                   (Some (reset_mail (fg_Cfg h) u raw),
                    write_audit (fg_AuditLogs h)
                      (audit_entry (new_uuid rt 3) (now rt 3) ''password_reset_requested'' (u_ID u) ''User''
                         (u_ID u) [] (source_ip (fg_ClientIP h) r) r) w2))))"

definition forgot_process ::
  "crypto \<Rightarrow> runtime \<Rightarrow> 'w forgot_handler \<Rightarrow> http_request \<Rightarrow> string \<Rightarrow> 'w \<Rightarrow> mail_message option \<times> 'w" where
  "forgot_process cr rt h r identifier w =
    (let w1 = snd (prs_DeleteExpired (fg_Resets h) (time_add (now rt 0) (- resetTokenRetention)) w) in
     case forgot_findUser (fg_Users h) identifier w1 of
       None \<Rightarrow> (None, w1)
     | Some u \<Rightarrow>
         if u_Email u = [] then (None, w1)
         else
           let (go, w2) = forgot_throttle h (''pwreset:'' @ u_ID u) w1 in
           if \<not> go then (None, w2) else forgot_issue cr rt h r u w2)"

definition forgot_serve ::
  "crypto \<Rightarrow> runtime \<Rightarrow> 'w forgot_handler \<Rightarrow> http_request \<Rightarrow> 'w
    \<Rightarrow> (outcome \<times> mail_message option) \<times> 'w" where
  "forgot_serve cr rt h r w =
    (if req_Method r \<noteq> ''POST'' then ((post_only, None), w)
     else if \<not> csrf_VerifyHeader (APICSRFGuard (fgc_RequireHTTPS (fg_Cfg h))) r then
       ((forgot_error 403 ''antiforgery_failed'', None), w)
     else case decodeJSON [''identifier''] r of
       None \<Rightarrow> ((forgot_error 400 ''missing_identifier'', None), w)
     | Some body \<Rightarrow>
         let identifier = trim_space (body_str body ''identifier'') in
         if identifier = [] then ((forgot_error 400 ''missing_identifier'', None), w)
         else
           let (m, w1) = forgot_process cr rt h r identifier w in
           ((writeJSON 200 (JObj [(''sent'', JBool True)]), m), w1))"

subsection \<open>Setting the new password\<close>

record reset_config =
  rsc_LoginPath :: string
  rsc_RequireHTTPS :: bool

record 'w reset_handler =
  rs_Cfg :: reset_config
  rs_Users :: "'w user_store"
  rs_Resets :: "'w password_reset_store"
  rs_Sessions :: "'w session_store"
  rs_RefreshTokens :: "'w refresh_token_store"
  rs_AuditLogs :: "'w audit_log_store option"
  rs_ClientIP :: "(http_request \<Rightarrow> string) option"

definition resetErrorLabel :: "string \<Rightarrow> string" where
  "resetErrorLabel c =
    (if c = ''antiforgery_failed'' then ''Your page expired. Please reload and try again.''
     else if c = ''invalid_token'' then
       ''This reset link is invalid or has expired. Please request a new one.''
     else if c = ''password_missing'' then ''Please fill out both password fields.''
     else if c = ''password_mismatch'' then ''The passwords do not match.''
     else if c = ''password_weak'' then
       ''Password must be 8-72 characters and must not start or end with whitespace.''
     else ''An unexpected error occurred. Please request a new reset link.'')"

definition reset_error :: "nat \<Rightarrow> string \<Rightarrow> outcome" where
  "reset_error s c = fail_with s c (resetErrorLabel c)"

definition reset_lookup :: "crypto \<Rightarrow> time \<Rightarrow> 'w reset_handler \<Rightarrow> string \<Rightarrow> 'w \<Rightarrow> password_reset_token option" where
  "reset_lookup cr t h raw w =
    (if raw = [] then None
     else case prs_FindByHash (rs_Resets h) (HashToken cr raw) w of
       Inl e \<Rightarrow> None
     | Inr tok \<Rightarrow>
         if pr_ConsumedAt tok \<noteq> None \<or> \<not> time_before t (pr_ExpiresAt tok) then None else Some tok)"

text \<open>What is read of the request before the token is touched.\<close>

definition reset_request ::
  "crypto \<Rightarrow> runtime \<Rightarrow> 'w reset_handler \<Rightarrow> http_request \<Rightarrow> 'w \<Rightarrow> outcome + (string \<times> string)" where
  "reset_request cr rt h r w =
    (if \<not> csrf_VerifyHeader (APICSRFGuard (rsc_RequireHTTPS (rs_Cfg h))) r then
       Inl (reset_error 403 ''antiforgery_failed'')
     else case decodeJSON [''token'', ''new_password'', ''new_password_confirm''] r of
       None \<Rightarrow> Inl (reset_error 400 ''invalid_token'')
     | Some body \<Rightarrow>
         let raw = body_str body ''token'';
             new = body_str body ''new_password'';
             confirm = body_str body ''new_password_confirm''
         in
         if reset_lookup cr (now rt 0) h raw w = None then Inl (reset_error 400 ''invalid_token'')
         else if new = [] \<or> confirm = [] then Inl (reset_error 400 ''password_missing'')
         else if new \<noteq> confirm then Inl (reset_error 400 ''password_mismatch'')
         else if ValidatePassword new \<noteq> None then Inl (reset_error 400 ''password_weak'')
         else Inr (raw, new))"

text \<open>The loop over the revoked sessions goes on after an error.\<close>

fun revoke_each :: "'w refresh_token_store \<Rightarrow> time \<Rightarrow> uuid list \<Rightarrow> 'w \<Rightarrow> 'w" where
  "revoke_each st t [] w = w"
| "revoke_each st t (i # is) w = revoke_each st t is (snd (rts_RevokeBySessionID st i t w))"

definition reset_cleanup ::
  "crypto \<Rightarrow> runtime \<Rightarrow> 'w reset_handler \<Rightarrow> http_request \<Rightarrow> string \<Rightarrow> 'w \<Rightarrow> 'w" where
  "reset_cleanup cr rt h r userID w =
    (let w1 = (case us_FindUserByID (rs_Users h) userID w of
                 Inl e \<Rightarrow> w
               | Inr u \<Rightarrow> snd (us_UpdateUser (rs_Users h)
                   (u\<lparr>u_SecurityStamp := uuid_string cr (new_uuid rt 3), u_UpdatedAt := now rt 1\<rparr>) w));
         w2 = snd (prs_InvalidateForUser (rs_Resets h) userID (now rt 1) w1);
         (res, w3) = ss_RevokeByUserIDExcept (rs_Sessions h) userID uuid_nil (now rt 1) w2;
         revoked = (case res of Inl e \<Rightarrow> [] | Inr ids \<Rightarrow> ids);
         w4 = revoke_each (rs_RefreshTokens h) (now rt 1) revoked w3
     in write_audit (rs_AuditLogs h)
          (audit_entry (new_uuid rt 4) (now rt 4) ''password_reset_completed'' userID ''User'' userID
             (''{\"sessions_revoked\":'' @ itoa (length revoked) @ ''}'')
             (source_ip (rs_ClientIP h) r) r) w4)"

definition reset_change ::
  "crypto \<Rightarrow> runtime \<Rightarrow> 'w reset_handler \<Rightarrow> http_request \<Rightarrow> string \<Rightarrow> string \<Rightarrow> 'w \<Rightarrow> outcome \<times> 'w" where
  "reset_change cr rt h r raw new w =
    (case reset_lookup cr (now rt 2) h raw w of
       None \<Rightarrow> (reset_error 400 ''invalid_token'', w)
     | Some t \<Rightarrow>
         (case prs_Consume (rs_Resets h) (pr_ID t) (now rt 1) w of
            (Inl e, w1) \<Rightarrow> (reset_error 500 ''server_error'', w1)
          | (Inr won, w1) \<Rightarrow>
              if \<not> won then (reset_error 400 ''invalid_token'', w1)
              else case us_SetPassword (rs_Users h) (pr_UserID t) new w1 of
                (Some e, w2) \<Rightarrow> (reset_error 500 ''server_error'', w2)
              | (None, w2) \<Rightarrow>
                  (Response (json_redirect 200
                     (Location (rsc_LoginPath (rs_Cfg h)) [(''notice'', ''password_reset'')])),
                   reset_cleanup cr rt h r (pr_UserID t) w2)))"

definition reset_headers :: "outcome \<Rightarrow> outcome" where
  "reset_headers out =
    (case out of
       Response r \<Rightarrow> Response (r\<lparr>resp_headers := (''Referrer-Policy'', ''no-referrer'') # resp_headers r\<rparr>)
     | Panicked \<Rightarrow> Panicked)"

definition reset_serve ::
  "crypto \<Rightarrow> runtime \<Rightarrow> 'w reset_handler \<Rightarrow> http_request \<Rightarrow> 'w \<Rightarrow> outcome \<times> 'w" where
  "reset_serve cr rt h r w =
    (if req_Method r = ''GET'' then
       (reset_headers (writeJSON 200 (JObj [(''valid'', JBool
          (reset_lookup cr (now rt 0) h (values_get (req_Query r) ''token'') w \<noteq> None))])), w)
     else if req_Method r = ''POST'' then
       (case reset_request cr rt h r w of
          Inl out \<Rightarrow> (reset_headers out, w)
        | Inr (raw, new) \<Rightarrow>
            let (out, w') = reset_change cr rt h r raw new w in (reset_headers out, w'))
     else (reset_headers (Response ((error_response 405 ''invalid_request'' ''method not allowed'')
             \<lparr>resp_headers := (''Allow'', ''GET, POST'') # json_headers\<rparr>)), w))"

section \<open>The text of the reset mail (oidc/forgot\_password.go)\<close>

text \<open>The message of Password_Reset as the mailer gets it: the link written out, and the sentences around it.\<close>

definition unreserved :: "char \<Rightarrow> bool" where
  "unreserved c \<longleftrightarrow> is_lower c \<or> is_upper c \<or> is_digit c \<or> c \<in> {CHR ''-'', CHR ''_'', CHR ''.'', CHR ''~''}"

definition upper_hex :: "nat \<Rightarrow> char" where
  "upper_hex n = (if n < 10 then char_of (48 + n) else char_of (55 + n))"

definition escape_query_byte :: "char \<Rightarrow> string" where
  "escape_query_byte c =
    (if unreserved c then [c]
     else if c = CHR '' '' then ''+''
     else [CHR ''%'', upper_hex (of_char c div 16), upper_hex (of_char c mod 16)])"

definition QueryEscape :: "string \<Rightarrow> string" where
  "QueryEscape s = concat (map escape_query_byte s)"

fun link_text :: "location \<Rightarrow> string" where
  "link_text (Location base params) =
    base @ ''?'' @ join (map (\<lambda>kv. fst kv @ ''='' @ QueryEscape (snd kv)) params) ''&''"

abbreviation newline :: string where "newline \<equiv> [CHR 0x0A]"

definition emailBody :: "mail_message \<Rightarrow> string" where
  "emailBody m =
    ''Hello,'' @ newline @ newline @
    ''Someone (hopefully you) asked to reset the password for your account.'' @ newline @
    ''Open the link below to choose a new password. It can be used once and'' @ newline @
    ''expires in '' @ int_text (mm_Minutes m) @ '' minutes:'' @ newline @ newline @
    link_text (mm_Link m) @ newline @ newline @
    ''If you did not ask for this, ignore this email. Your password stays unchanged.'' @ newline"

definition email_of :: "mail_message \<Rightarrow> email" where
  "email_of m = \<lparr>em_To = mm_To m, em_Subject = mm_Subject m, em_Body = emailBody m\<rparr>"

lemma escape_plain: "list_all unreserved s \<Longrightarrow> QueryEscape s = s"
  by (induction s) (simp_all add: QueryEscape_def escape_query_byte_def)

lemma reset_link_text:
  assumes "list_all unreserved raw"
  shows "link_text (mm_Link (reset_mail cfg u raw)) = fgc_PublicURL cfg @ fgc_ResetPath cfg @ ''?token='' @ raw"
  using assms by (simp add: reset_mail_def escape_plain)

text \<open>The recipient is the address of the account and the subject has no line break.\<close>

lemma reset_mail_fields:
  "em_To (email_of (reset_mail cfg u raw)) = u_Email u"
  "\<not> list_ex line_break (em_Subject (email_of (reset_mail cfg u raw)))"
  by (simp_all add: email_of_def reset_mail_def line_break_def)

end
