(* ===== verification/Logout.thy ===== *)
theory Logout
  imports Browser_Session Issuer
begin

section \<open>Logout (internal/oidc/logout.go)\<close>

text \<open>
  \<open>GET\<close> only leads to the confirm page; \<open>POST\<close> checks CSRF, ends the session with its refresh
  tokens and redirects to a registered URI or to the configured one. Runtime places: 0 (verifying
  the hint), 1 and 2 (times of the two revocations).
\<close>

record logout_config =
  loc_IssuerURL :: string
  loc_LogoutPath :: string
  loc_PostLogoutRedirectURI :: string

record 'w logout_handler =
  lo_Cfg :: logout_config
  lo_Cookies :: cookie_manager
  lo_Sessions :: "'w session_store"
  lo_RefreshTokens :: "'w refresh_token_store"
  lo_Clients :: "'w client_store"
  lo_Issuer :: "'w issuer"

text \<open>The audience of a verified token: a string or a list of strings.\<close>

fun json_strings :: "json list \<Rightarrow> string list" where
  "json_strings [] = []"
| "json_strings (JStr s # js) = s # json_strings js"
| "json_strings (_ # js) = json_strings js"

definition token_audience :: "claims \<Rightarrow> string list" where
  "token_audience c =
    (case gm_get c ''aud'' of
       Some (JStr s) \<Rightarrow> [s]
     | Some (JArr js) \<Rightarrow> json_strings js
     | _ \<Rightarrow> [])"

definition param :: "string \<Rightarrow> string \<Rightarrow> (string \<times> string) list" where
  "param k v = (if v = [] then [] else [(k, v)])"

definition logout_client :: "crypto \<Rightarrow> runtime \<Rightarrow> 'w logout_handler \<Rightarrow> url_values \<Rightarrow> 'w \<Rightarrow> string" where
  "logout_client cr rt h q w =
    (let clientID = values_get q ''client_id'';
         hint = values_get q ''id_token_hint''
     in
     if clientID = [] \<and> hint \<noteq> [] then
       (case VerifyToken cr (lo_Issuer h) rt 0 hint w of
          Inl e \<Rightarrow> clientID
        | Inr tok \<Rightarrow> (case token_audience tok of [] \<Rightarrow> clientID | a # as \<Rightarrow> a))
     else clientID)"

definition handleEntry :: "crypto \<Rightarrow> runtime \<Rightarrow> 'w logout_handler \<Rightarrow> http_request \<Rightarrow> 'w \<Rightarrow> outcome" where
  "handleEntry cr rt h r w =
    (let q = req_Query r in
     Response (redirect_to 302 (Location (loc_LogoutPath (lo_Cfg h))
       (param ''post_logout_redirect_uri'' (values_get q ''post_logout_redirect_uri'') @
        param ''state'' (values_get q ''state'') @ param ''client_id'' (logout_client cr rt h q w)))))"

definition terminateSession ::
  "crypto \<Rightarrow> cookie_lib \<Rightarrow> runtime \<Rightarrow> 'w logout_handler \<Rightarrow> http_request \<Rightarrow> 'w \<Rightarrow> 'w" where
  "terminateSession cr lib rt h r w =
    (case FromRequest cr lib (lo_Cookies h) r of
       Inl e \<Rightarrow> w
     | Inr sid \<Rightarrow>
         (case ss_Find (lo_Sessions h) sid w of
            Inl e \<Rightarrow> w
          | Inr sess \<Rightarrow>
              let w1 = (if s_RevokedAt sess = None
                        then snd (ss_Revoke (lo_Sessions h) (s_ID sess) (now rt 1) w) else w)
              in if s_ID sess \<noteq> uuid_nil
                 then snd (rts_RevokeBySessionID (lo_RefreshTokens h) (s_ID sess) (now rt 2) w1)
                 else w1))"

definition validatePostLogoutURI :: "'w logout_handler \<Rightarrow> string \<Rightarrow> string \<Rightarrow> 'w \<Rightarrow> bool" where
  "validatePostLogoutURI h clientID target w =
    (if target = [] then False
     else case url_parse target of
       None \<Rightarrow> False
     | Some u \<Rightarrow>
         if url_scheme u = [] \<or> clientID = [] then False
         else case cs_FindByClientID (lo_Clients h) clientID w of
           Inl e \<Rightarrow> False
         | Inr cl \<Rightarrow>
             c_PostLogoutRedirectURIs cl \<noteq> [] \<and> target \<in> set (c_PostLogoutRedirectURIs cl))"

definition appendState :: "string \<Rightarrow> string \<Rightarrow> location" where
  "appendState target state =
    (if state = [] then Location target []
     else case url_parse target of
       None \<Rightarrow> Location target []
     | Some u \<Rightarrow> Location target [(''state'', state)])"

definition handleConfirm ::
  "crypto \<Rightarrow> cookie_lib \<Rightarrow> runtime \<Rightarrow> 'w logout_handler \<Rightarrow> http_request \<Rightarrow> 'w \<Rightarrow> outcome \<times> 'w" where
  "handleConfirm cr lib rt h r w =
    (case req_PostForm r of
       None \<Rightarrow> (Response (redirect_to 302
                 (Location (loc_LogoutPath (lo_Cfg h)) [(''error'', ''malformed form'')])), w)
     | Some form \<Rightarrow>
         if \<not> csrf_Verify (APICSRFGuard (has_prefix (loc_IssuerURL (lo_Cfg h)) ''https://'')) r form then
           (Response (redirect_to 302
              (Location (loc_LogoutPath (lo_Cfg h)) [(''error'', ''antiforgery check failed'')])), w)
         else if form_value r form ''confirm'' = ''no'' then
           (Response (redirect_to 302 (Location (loc_PostLogoutRedirectURI (lo_Cfg h)) [])), w)
         else
           let target = form_value r form ''post_logout_redirect_uri'';
               state = form_value r form ''state'';
               clientID = form_value r form ''client_id'';
               w1 = terminateSession cr lib rt h r w;
               allowed = (if target \<noteq> [] \<and> validatePostLogoutURI h clientID target w1
                          then target else loc_PostLogoutRedirectURI (lo_Cfg h))
           in (add_cookies [ClearCookie (lo_Cookies h)]
                 (Response (redirect_to 302 (appendState allowed state))), w1))"

definition logout_serve ::
  "crypto \<Rightarrow> cookie_lib \<Rightarrow> runtime \<Rightarrow> 'w logout_handler \<Rightarrow> http_request \<Rightarrow> 'w \<Rightarrow> outcome \<times> 'w" where
  "logout_serve cr lib rt h r w =
    (if req_Method r = ''GET'' then (handleEntry cr rt h r w, w)
     else if req_Method r = ''POST'' then handleConfirm cr lib rt h r w
     else (Response ((error_response 405 ''invalid_request'' ''method not allowed'')
             \<lparr>resp_headers := (''Allow'', ''GET, POST'') # json_headers\<rparr>), w))"

subsection \<open>Facts\<close>

lemma appendState_base [simp]: "loc_base (appendState t s) = t"
  by (simp add: appendState_def split: option.split)

text \<open>Every redirect of the endpoint stays with the server, the configured URI or a registered one.\<close>

lemma logout_redirects:
  assumes "logout_serve cr lib rt h r w = (out, w')" "location_of out = Some l"
  shows "loc_base l = loc_LogoutPath (lo_Cfg h) \<or> loc_base l = loc_PostLogoutRedirectURI (lo_Cfg h) \<or>
    (\<exists>form cl. req_PostForm r = Some form \<and>
      cs_FindByClientID (lo_Clients h) (form_value r form ''client_id'') w' = Inr cl \<and>
      loc_base l \<in> set (c_PostLogoutRedirectURIs cl))"
  using assms
  by (auto simp: logout_serve_def handleEntry_def handleConfirm_def Let_def validatePostLogoutURI_def
      split: if_splits option.splits sum.splits)

text \<open>The state only changes on a POST that passed the CSRF check and was not cancelled.\<close>

lemma logout_changes:
  assumes "logout_serve cr lib rt h r w = (out, w')" "w' \<noteq> w"
  obtains form where "req_Method r = ''POST''" "req_PostForm r = Some form"
    "csrf_Verify (APICSRFGuard (has_prefix (loc_IssuerURL (lo_Cfg h)) ''https://'')) r form"
    "form_value r form ''confirm'' \<noteq> ''no''" "w' = terminateSession cr lib rt h r w"
  using assms
  by (auto simp: logout_serve_def handleConfirm_def Let_def split: if_splits option.splits)

end
