(* ===== verification/Session_Effects.thy ===== *)
theory Session_Effects
  imports Login_Properties Password_Reset Logout
begin

section \<open>Effects of the account endpoints on sessions\<close>

text \<open>
  Which sessions and refresh tokens a step of an account endpoint ends on the memory stores, as
  sets of ids, and the lemmas on the loops over revoked sessions that the endpoints share.
\<close>

subsection \<open>Sessions and their tokens\<close>

text \<open>Every session is stored under its own id.\<close>

definition sessions_good :: "world \<Rightarrow> bool" where
  "sessions_good w \<longleftrightarrow> (\<forall>i s. gm_get (w_sessions w) i = Some s \<longrightarrow> s_ID s = i)"

definition session_changes :: "world \<Rightarrow> world \<Rightarrow> uuid set" where
  "session_changes w w' = {i. gm_get (w_sessions w') i \<noteq> gm_get (w_sessions w) i}"

definition token_changes :: "world \<Rightarrow> world \<Rightarrow> uuid set" where
  "token_changes w w' =
    {i. gm_get (rtm_tokens (w_refresh w')) i \<noteq> gm_get (rtm_tokens (w_refresh w)) i}"

definition session_tokens :: "world \<Rightarrow> uuid set \<Rightarrow> uuid set" where
  "session_tokens w S =
    {i. \<exists>t sid. gm_get (rtm_tokens (w_refresh w)) i = Some t \<and> rt_SessionID t = Some sid \<and> sid \<in> S}"

definition tokens_revoked :: "world \<Rightarrow> uuid set" where
  "tokens_revoked w = {i. \<exists>t. gm_get (rtm_tokens (w_refresh w)) i = Some t \<and> rt_RevokedAt t \<noteq> None}"

definition sessions_revoked :: "world \<Rightarrow> uuid set" where
  "sessions_revoked w = {i. \<exists>s. gm_get (w_sessions w) i = Some s \<and> s_RevokedAt s \<noteq> None}"

text \<open>
  A step ends the sessions \<open>S\<close>: they are revoked, and so is every refresh token of theirs, and
  no other session and no other token changes.
\<close>

definition ends_sessions :: "uuid set \<Rightarrow> world \<Rightarrow> world \<Rightarrow> bool" where
  "ends_sessions S w w' \<longleftrightarrow> session_changes w w' \<subseteq> S \<and> S \<subseteq> sessions_revoked w' \<and>
    token_changes w w' \<subseteq> session_tokens w S \<and> session_tokens w S \<subseteq> tokens_revoked w'"

lemma ends_sessions_cong:
  "w_sessions v = w_sessions w \<Longrightarrow> w_refresh v = w_refresh w \<Longrightarrow> ends_sessions S v w' = ends_sessions S w w'"
  "w_sessions v' = w_sessions w' \<Longrightarrow> w_refresh v' = w_refresh w' \<Longrightarrow> ends_sessions S w v' = ends_sessions S w w'"
  by (simp_all add: ends_sessions_def session_changes_def token_changes_def session_tokens_def
      sessions_revoked_def tokens_revoked_def)

lemma ends_sessions_none: "w_sessions v = w_sessions w \<Longrightarrow> w_refresh v = w_refresh w \<Longrightarrow> ends_sessions {} w v"
  by (simp add: ends_sessions_def session_changes_def token_changes_def session_tokens_def)

lemma session_Find_good: "session_Find i s = Inr x \<longleftrightarrow> gm_get s i = Some x"
  by (auto simp: session_Find_def split: option.splits)

lemma mem_session_ops [simp]:
  "ss_Find mem_sessions i w = session_Find i (w_sessions w)"
  "w_sessions (snd (ss_Revoke mem_sessions i t w)) = snd (session_Revoke i t (w_sessions w))"
  "w_refresh (snd (ss_Revoke mem_sessions i t w)) = w_refresh w"
  "w_sessions (snd (rts_RevokeBySessionID mem_refresh_tokens i t w)) = w_sessions w"
  "fst (rts_RevokeBySessionID mem_refresh_tokens i t w) = None"
  by (simp_all add: mem_sessions_def mem_refresh_tokens_def refresh_RevokeBySessionID_def)

lemma session_Revoke_get:
  "gm_get (snd (session_Revoke i t s)) j =
    (if j = i then map_option (\<lambda>x. if s_RevokedAt x = None then x\<lparr>s_RevokedAt := Some t\<rparr> else x) (gm_get s i)
     else gm_get s j)"
  by (auto simp: session_Revoke_def split: option.splits)

lemma revoke_session_tokens:
  "gm_get (rtm_tokens (snd (refresh_RevokeBySessionID sid t s))) i =
    map_option (\<lambda>u. revoke_if (rt_SessionID u = Some sid) t u) (gm_get (rtm_tokens s) i)"
  by (simp add: refresh_RevokeBySessionID_def)


text \<open>The two loops over revoked sessions do the same on the memory store, which has no errors.\<close>

lemma revoke_tokens_each:
  "revoke_tokens mem_refresh_tokens t ids w = (True, revoke_each mem_refresh_tokens t ids w)"
proof (induction ids arbitrary: w)
  case (Cons i ids)
  obtain w1 where "rts_RevokeBySessionID mem_refresh_tokens i t w = (None, w1)"
    using mem_session_ops(5) [of i t w] by (metis prod.collapse)
  with Cons show ?case by simp
qed simp

definition in_sessions :: "uuid set \<Rightarrow> refresh_token \<Rightarrow> bool" where
  "in_sessions S u \<longleftrightarrow> (\<exists>sid \<in> S. rt_SessionID u = Some sid)"

lemma revoke_each_get:
  "gm_get (rtm_tokens (w_refresh (revoke_each mem_refresh_tokens t ids w))) i =
    map_option (\<lambda>u. revoke_if (in_sessions (set ids) u) t u) (gm_get (rtm_tokens (w_refresh w)) i)"
proof (induction ids arbitrary: w)
  case Nil
  show ?case by (cases "gm_get (rtm_tokens (w_refresh w)) i") (simp_all add: in_sessions_def)
next
  case (Cons j ids)
  then show ?case
    by (cases "gm_get (rtm_tokens (w_refresh w)) i")
      (auto simp: revoke_session_tokens in_sessions_def revoke_if_def)
qed

lemma revoke_each_frame [simp]:
  "w_sessions (revoke_each mem_refresh_tokens t ids w) = w_sessions w"
  "w_users (revoke_each mem_refresh_tokens t ids w) = w_users w"
  "w_resets (revoke_each mem_refresh_tokens t ids w) = w_resets w"
  by (induction ids arbitrary: w) (simp_all add: mem_refresh_tokens_def)

lemma revoke_each_tokens:
  assumes "w_refresh w1 = w_refresh w"
  shows "token_changes w (revoke_each mem_refresh_tokens t ids w1) \<subseteq> session_tokens w (set ids)"
    "session_tokens w (set ids) \<subseteq> tokens_revoked (revoke_each mem_refresh_tokens t ids w1)"
proof -
  have get: "gm_get (rtm_tokens (w_refresh (revoke_each mem_refresh_tokens t ids w1))) i =
      map_option (\<lambda>u. revoke_if (in_sessions (set ids) u) t u) (gm_get (rtm_tokens (w_refresh w)) i)" for i
    using assms by (simp add: revoke_each_get)
  show "token_changes w (revoke_each mem_refresh_tokens t ids w1) \<subseteq> session_tokens w (set ids)"
  proof
    fix i
    assume "i \<in> token_changes w (revoke_each mem_refresh_tokens t ids w1)"
    then obtain u where u: "gm_get (rtm_tokens (w_refresh w)) i = Some u" "revoke_if (in_sessions (set ids) u) t u \<noteq> u"
      by (cases "gm_get (rtm_tokens (w_refresh w)) i") (auto simp: token_changes_def get)
    then have "in_sessions (set ids) u" by (cases "in_sessions (set ids) u") simp_all
    with u(1) show "i \<in> session_tokens w (set ids)" by (auto simp: session_tokens_def in_sessions_def)
  qed
  show "session_tokens w (set ids) \<subseteq> tokens_revoked (revoke_each mem_refresh_tokens t ids w1)"
    by (auto simp: session_tokens_def tokens_revoked_def get in_sessions_def)
qed

lemma revoke_one_tokens:
  assumes "w_refresh w1 = w_refresh w"
  shows "token_changes w (snd (rts_RevokeBySessionID mem_refresh_tokens sid t w1)) \<subseteq> session_tokens w {sid}"
    "session_tokens w {sid} \<subseteq> tokens_revoked (snd (rts_RevokeBySessionID mem_refresh_tokens sid t w1))"
  using revoke_each_tokens [OF assms, where t = t and ids = "[sid]"] by simp_all

text \<open>The sessions of a user that a revocation at \<open>t\<close> which spares \<open>keep\<close> ends.\<close>

definition ended_sessions :: "world \<Rightarrow> string \<Rightarrow> uuid \<Rightarrow> time \<Rightarrow> uuid set" where
  "ended_sessions w uid keep t =
    {i. \<exists>s. gm_get (w_sessions w) i = Some s \<and> session_usable uid t s \<and> i \<noteq> keep}"

lemma ended_cong: "w_sessions v = w_sessions w \<Longrightarrow> ended_sessions v = ended_sessions w"
  by (intro ext) (simp add: ended_sessions_def)

lemma ended_ids:
  assumes "gm_wf (w_sessions w)"
  shows "set (map fst (filter (\<lambda>(i, x). revoke_hits uid keep t i x) (w_sessions w))) = ended_sessions w uid keep t"
  using assms by (force simp: ended_sessions_def revoke_hits_def gm_wf_get dest: gm_getD)

lemma session_changes_all:
  assumes "w_sessions w' = snd (session_RevokeByUserIDExcept uid keep t (w_sessions w))"
  shows "session_changes w w' = ended_sessions w uid keep t"
    "gm_get (w_sessions w') i = Some s' \<Longrightarrow> session_usable uid t s' \<Longrightarrow> i = keep"
proof -
  have get: "gm_get (w_sessions w') i = map_option
      (\<lambda>x. if revoke_hits uid keep t i x then x\<lparr>s_RevokedAt := Some t\<rparr> else x) (gm_get (w_sessions w) i)" for i
    by (simp add: assms session_RevokeByUserIDExcept_def)
  have moved: "x\<lparr>s_RevokedAt := Some t\<rparr> \<noteq> x" if "session_usable uid t x" for x
  proof
    assume "x\<lparr>s_RevokedAt := Some t\<rparr> = x"
    then have "s_RevokedAt x = Some t" by (metis session.select_convs(5) session.surjective session.update_convs(5))
    with that show False by (simp add: session_usable_def)
  qed
  show "session_changes w w' = ended_sessions w uid keep t"
  proof (intro set_eqI)
    fix i
    show "i \<in> session_changes w w' \<longleftrightarrow> i \<in> ended_sessions w uid keep t"
      using moved by (cases "gm_get (w_sessions w) i")
        (auto simp: session_changes_def ended_sessions_def get revoke_hits_def)
  qed
  show "gm_get (w_sessions w') i = Some s' \<Longrightarrow> session_usable uid t s' \<Longrightarrow> i = keep"
    by (cases "gm_get (w_sessions w) i")
      (auto simp: get revoke_hits_def session_usable_def split: if_splits)
qed

lemma session_all_revoked:
  assumes "w_sessions w' = snd (session_RevokeByUserIDExcept uid keep t (w_sessions w))"
  shows "ended_sessions w uid keep t \<subseteq> sessions_revoked w'"
proof
  fix i
  assume "i \<in> ended_sessions w uid keep t"
  then obtain s where "gm_get (w_sessions w) i = Some s" "revoke_hits uid keep t i s"
    by (auto simp: ended_sessions_def revoke_hits_def)
  then show "i \<in> sessions_revoked w'"
    by (simp add: assms session_RevokeByUserIDExcept_def sessions_revoked_def)
qed

text \<open>Revoking the sessions of a user but one, and the tokens of each.\<close>

lemma revoke_user_sessions:
  fixes uid :: string and keep :: uuid and t :: time
  assumes "gm_wf (w_sessions w)"
  defines "ids \<equiv> map fst (filter (\<lambda>(i, x). revoke_hits uid keep t i x) (w_sessions w))"
  defines "w' \<equiv> revoke_each mem_refresh_tokens t ids (snd (ss_RevokeByUserIDExcept mem_sessions uid keep t w))"
  shows "ends_sessions (ended_sessions w uid keep t) w w'" "ended_sessions w' uid keep t = {}"
proof -
  let ?w1 = "snd (ss_RevokeByUserIDExcept mem_sessions uid keep t w)"
  have ses: "w_sessions w' = snd (session_RevokeByUserIDExcept uid keep t (w_sessions w))"
    by (simp add: w'_def mem_sessions_def)
  have same: "w_refresh ?w1 = w_refresh w" by (simp add: mem_sessions_def)
  have ids: "set ids = ended_sessions w uid keep t" using ended_ids [OF assms(1)] by (simp add: ids_def)
  show "ends_sessions (ended_sessions w uid keep t) w w'"
    using revoke_each_tokens [OF same, where t = t and ids = ids] session_changes_all(1) [OF ses]
      session_all_revoked [OF ses]
    by (simp add: ends_sessions_def w'_def [symmetric] ids)
  show "ended_sessions w' uid keep t = {}"
    using session_changes_all(2) [OF ses] by (auto simp: ended_sessions_def)
qed

lemma mem_audit_frame [simp]:
  "w_sessions (write_audit (Some mem_audit_logs) e w) = w_sessions w"
  "w_refresh (write_audit (Some mem_audit_logs) e w) = w_refresh w"
  "w_users (write_audit (Some mem_audit_logs) e w) = w_users w"
  "w_resets (write_audit (Some mem_audit_logs) e w) = w_resets w"
  by (simp_all add: write_audit_def mem_audit_logs_def)

end
