(* ===== verification/Protocol_Endpoints.thy ===== *)
theory Protocol_Endpoints
  imports Issuer
begin

section \<open>UserInfo, discovery and JWKS (internal/oidc/userinfo.go, discovery.go, jwks.go)\<close>

text \<open>
  The endpoints a client reads from. UserInfo verifies a bearer token against the server's own
  keys and releases the claims the token's scope covers. Runtime place: 0 (the verifier's clock,
  or the key manager's for the JWKS).
\<close>

record 'w userinfo_handler =
  ui_Issuer :: "'w issuer"
  ui_Users :: "'w user_store"

definition extractBearer :: "http_request \<Rightarrow> string option" where
  "extractBearer r =
    (let h = header_get r ''Authorization'' in
     if h \<noteq> [] then
       (if has_prefix h ''Bearer '' then
          let tok = trim_space (drop (length ''Bearer '') h) in
          if tok \<noteq> [] then Some tok else None
        else None)
     else if req_Method r = ''POST'' then
       let form = (case req_PostForm r of Some f \<Rightarrow> f | None \<Rightarrow> req_PartialForm r);
           v = values_get form ''access_token''
       in if v \<noteq> [] then Some v else None
     else None)"

definition bearer_error :: "nat \<Rightarrow> string \<Rightarrow> string \<Rightarrow> string \<Rightarrow> outcome" where
  "bearer_error s challenge c desc =
    Response ((error_response s c desc)\<lparr>resp_headers := (''WWW-Authenticate'', challenge) # json_headers\<rparr>)"

definition invalidToken :: "string \<Rightarrow> outcome" where
  "invalidToken desc = bearer_error 401 ''Bearer error=\"invalid_token\"'' ''invalid_grant'' desc"

definition forbidden :: "string \<Rightarrow> outcome" where
  "forbidden desc = bearer_error 403 ''Bearer error=\"insufficient_scope\"'' ''access_denied'' desc"

text \<open>The claims each scope releases.\<close>

definition scope_claims :: "string \<Rightarrow> string list" where
  "scope_claims s =
    (if s = ''profile'' then
       [''name'', ''family_name'', ''given_name'', ''middle_name'', ''nickname'',
        ''preferred_username'', ''picture'', ''updated_at'']
     else if s = ''email'' then [''email'', ''email_verified'']
     else if s = ''phone'' then [''phone_number'', ''phone_number_verified'']
     else if s = ''address'' then [''address'']
     else [])"

fun copy_claims :: "claims \<Rightarrow> string list \<Rightarrow> claims \<Rightarrow> claims" where
  "copy_claims from [] out = out"
| "copy_claims from (k # ks) out =
    copy_claims from ks (case gm_get from k of Some v \<Rightarrow> gm_put k v out | None \<Rightarrow> out)"

fun add_scope_claims :: "claims \<Rightarrow> string list \<Rightarrow> claims \<Rightarrow> claims" where
  "add_scope_claims from [] out = out"
| "add_scope_claims from (s # ss) out = add_scope_claims from ss (copy_claims from (scope_claims s) out)"

definition buildUserInfoClaims :: "user_info \<Rightarrow> string list \<Rightarrow> claims" where
  "buildUserInfoClaims info scopes =
    add_scope_claims (ui_Claims info) scopes [(''sub'', JStr (ui_UserID info))]"

text \<open>A claim of the token read as a string: empty when absent or of another type.\<close>

definition claim_string :: "claims \<Rightarrow> string \<Rightarrow> string" where
  "claim_string c k = (case gm_get c k of Some (JStr s) \<Rightarrow> s | _ \<Rightarrow> [])"

definition userinfo_serve ::
  "crypto \<Rightarrow> runtime \<Rightarrow> 'w userinfo_handler \<Rightarrow> http_request \<Rightarrow> 'w \<Rightarrow> outcome" where
  "userinfo_serve cr rt h r w =
    (case extractBearer r of
       None \<Rightarrow> invalidToken ''missing or malformed Authorization header''
     | Some raw \<Rightarrow>
         (case VerifyToken cr (ui_Issuer h) rt 0 raw w of
            Inl e \<Rightarrow> invalidToken ''token verification failed''
          | Inr tok \<Rightarrow>
              let scopes = str_fields (claim_string tok ''scope'') in
              if ''openid'' \<notin> set scopes then
                forbidden ''access token does not grant openid scope''
              else case us_FindByID (ui_Users h) (claim_string tok ''sub'') w of
                Inl e \<Rightarrow> invalidToken ''user not found''
              | Inr info \<Rightarrow> Response (json_response 200 (JObj (buildUserInfoClaims info scopes)))))"

subsection \<open>Discovery and keys\<close>

definition trim_right_slash :: "string \<Rightarrow> string" where
  "trim_right_slash s = rev (dropWhile (\<lambda>c. c = CHR ''/'') (rev s))"

definition json_strs :: "string list \<Rightarrow> json" where
  "json_strs ss = JArr (map JStr ss)"

definition discovery_document :: "string \<Rightarrow> string list \<Rightarrow> json" where
  "discovery_document issuer_url scope_names =
    (let b = trim_right_slash issuer_url in
     JObj [(''issuer'', JStr b),
       (''authorization_endpoint'', JStr (b @ ''/connect/authorize'')),
       (''token_endpoint'', JStr (b @ ''/connect/token'')),
       (''userinfo_endpoint'', JStr (b @ ''/connect/userinfo'')),
       (''jwks_uri'', JStr (b @ ''/.well-known/jwks.json'')),
       (''end_session_endpoint'', JStr (b @ ''/connect/logout'')),
       (''revocation_endpoint'', JStr (b @ ''/connect/revoke'')),
       (''response_types_supported'', json_strs [''code'']),
       (''grant_types_supported'', json_strs [''authorization_code'', ''refresh_token'', ''client_credentials'']),
       (''subject_types_supported'', json_strs [''public'']),
       (''id_token_signing_alg_values_supported'', json_strs [''RS256'']),
       (''code_challenge_methods_supported'', json_strs [''S256'']),
       (''token_endpoint_auth_methods_supported'', json_strs [''none'', ''private_key_jwt'']),
       (''token_endpoint_auth_signing_alg_values_supported'', json_strs [''RS256'']),
       (''scopes_supported'', json_strs scope_names)])"

definition public_cache_headers :: "(string \<times> string) list" where
  "public_cache_headers =
    [(''Content-Type'', ''application/json;charset=UTF-8''), (''Cache-Control'', ''public, max-age=300'')]"

definition discovery_serve :: "string \<Rightarrow> 'w scope_store \<Rightarrow> 'w \<Rightarrow> outcome" where
  "discovery_serve issuer_url scopes w =
    (let names = (case scs_GetAll scopes w of Inl e \<Rightarrow> [] | Inr ss \<Rightarrow> map sc_Name ss) in
     Response ((json_response 200 (discovery_document issuer_url names))
       \<lparr>resp_headers := public_cache_headers\<rparr>))"

text \<open>One entry of the key set on the wire; the modulus and exponent stand for the public key.\<close>

definition jwk_json :: "jwk \<Rightarrow> json" where
  "jwk_json j = JObj [(''kid'', JStr (jwk_kid j)), (''alg'', JStr (jwk_alg j)),
     (''use'', JStr (jwk_use j)), (''key'', JStr (jwk_raw j))]"

definition jwks_serve ::
  "crypto \<Rightarrow> runtime \<Rightarrow> 'w issuer \<Rightarrow> 'w \<Rightarrow> outcome \<times> 'w" where
  "jwks_serve cr rt i w =
    (case JWKSForEndpoint cr i rt 0 w of
       (Inl e, w') \<Rightarrow> (fail_with 500 ''server_error'' ''could not build JWKS'', w')
     | (Inr js, w') \<Rightarrow>
         (Response ((json_response 200 (JObj [(''keys'', JArr (map jwk_json js))]))
            \<lparr>resp_headers := public_cache_headers\<rparr>), w'))"

subsection \<open>Facts\<close>

lemma copy_claims_get:
  "gm_get (copy_claims from ks out) k =
    (if k \<in> set ks \<and> gm_get from k \<noteq> None then gm_get from k else gm_get out k)"
  by (induction ks arbitrary: out) (auto split: option.split)

lemma add_scope_claims_get:
  "gm_get (add_scope_claims from ss out) k =
    (if (\<exists>s \<in> set ss. k \<in> set (scope_claims s)) \<and> gm_get from k \<noteq> None then gm_get from k
     else gm_get out k)"
  by (induction ss arbitrary: out) (auto simp: copy_claims_get)

lemma sub_not_scoped: "''sub'' \<notin> set (scope_claims s)"
  by (simp add: scope_claims_def)

text \<open>Exactly the subject and the claims some granted scope covers.\<close>

lemma userinfo_claims:
  "gm_get (buildUserInfoClaims info ss) k =
    (if k = ''sub'' then Some (JStr (ui_UserID info))
     else if \<exists>s \<in> set ss. k \<in> set (scope_claims s) then gm_get (ui_Claims info) k
     else None)"
  by (auto simp: buildUserInfoClaims_def add_scope_claims_get sub_not_scoped)

lemma status_bearer_error [simp]: "status_of (bearer_error s ch c d) = Some s"
  by (simp add: bearer_error_def error_response_def json_response_def)

lemma userinfo_200:
  assumes "userinfo_serve cr rt h r w = out" "status_of out = Some 200"
  obtains raw tok info where
    "extractBearer r = Some raw" "VerifyToken cr (ui_Issuer h) rt 0 raw w = Inr tok"
    "''openid'' \<in> set (str_fields (claim_string tok ''scope''))"
    "us_FindByID (ui_Users h) (claim_string tok ''sub'') w = Inr info"
    "out = Response (json_response 200 (JObj (buildUserInfoClaims info (str_fields (claim_string tok ''scope'')))))"
  using assms
  by (auto simp: userinfo_serve_def Let_def invalidToken_def forbidden_def
      split: option.splits sum.splits if_splits)

end
