(* ===== verification/Account_Properties.thy ===== *)
theory Account_Properties
  imports Session_Effects Protocol_Endpoints
begin

section \<open>Properties of the account endpoints\<close>

text \<open>
  Logout, the profile, the two halves of a password reset and UserInfo, on the memory stores:
  whose sessions, tokens and passwords each may change, and what it tells an outsider.
\<close>

subsection \<open>Logout\<close>

text \<open>
  C24. A confirmed logout ends the session of the cookie: it is revoked, so no request with that
  cookie is signed in any more, every refresh token of the session is revoked, no other session
  or token changes, and the cookie is cleared.
\<close>

theorem logout_ends_session:
  assumes "logout_serve cr lib rt h r w = (out, w')" "lo_Sessions h = mem_sessions"
    and "lo_RefreshTokens h = mem_refresh_tokens"
    and "req_Method r = ''POST''" "req_PostForm r = Some form" "form_value r form ''confirm'' \<noteq> ''no''"
    and "csrf_Verify (APICSRFGuard (has_prefix (loc_IssuerURL (lo_Cfg h)) ''https://'')) r form"
    and "FromRequest cr lib (lo_Cookies h) r = Inr sid" "gm_get (w_sessions w) sid = Some s"
    and "sessions_good w" "sid \<noteq> uuid_nil"
  shows "ends_sessions {sid} w w' \<and> ClearCookie (lo_Cookies h) \<in> set (cookies_of out) \<and>
    {(t, x). Resolve cr lib t \<lparr>sr_Cookies = lo_Cookies h, sr_Sessions = mem_sessions\<rparr> r w' = Inr (Some x)} = {}"
proof -
  have id: "s_ID s = sid" using assms(9,10) by (simp add: sessions_good_def)
  let ?w1 = "if s_RevokedAt s = None then snd (ss_Revoke mem_sessions sid (now rt 1) w) else w"
  have "session_Find sid (w_sessions w) = Inr s" using assms(9) by (simp add: session_Find_good)
  then have ended: "terminateSession cr lib rt h r w = snd (rts_RevokeBySessionID mem_refresh_tokens sid (now rt 2) ?w1)"
    using assms(2,3,8,11) id by (simp add: terminateSession_def)
  have w': "w' = snd (rts_RevokeBySessionID mem_refresh_tokens sid (now rt 2) ?w1)"
    and out: "ClearCookie (lo_Cookies h) \<in> set (cookies_of out)"
    using assms(1,4-7) by (auto simp: logout_serve_def handleConfirm_def Let_def ended)
  have ses: "gm_get (w_sessions w') j =
      (if j = sid then Some (if s_RevokedAt s = None then s\<lparr>s_RevokedAt := Some (now rt 1)\<rparr> else s)
       else gm_get (w_sessions w) j)" for j
    using assms(9) by (simp add: w' session_Revoke_get)
  have over: "\<exists>s'. gm_get (w_sessions w') sid = Some s' \<and> s_RevokedAt s' \<noteq> None"
    using ses [of sid] by (cases "s_RevokedAt s") auto
  have changes: "session_changes w w' \<subseteq> {sid}" by (auto simp: session_changes_def ses)
  have "w_refresh ?w1 = w_refresh w" by simp
  note tok = revoke_one_tokens [OF this, where sid = sid and t = "now rt 2", folded w']
  have "{(t, x). Resolve cr lib t \<lparr>sr_Cookies = lo_Cookies h, sr_Sessions = mem_sessions\<rparr> r w' = Inr (Some x)} = {}"
    using over assms(8) by (auto simp: Resolve_Some session_Find_good)
  moreover have "ends_sessions {sid} w w'"
    using over changes tok by (simp add: ends_sessions_def sessions_revoked_def)
  ultimately show ?thesis using out by blast
qed

subsection \<open>UserInfo\<close>

text \<open>
  C26. UserInfo answers only to a token that verifies and grants \<open>openid\<close>, and says of the token's
  subject exactly the subject itself and the claims that the granted scopes release.
\<close>

theorem userinfo_releases_granted_claims:
  assumes "userinfo_serve cr rt h r w = out" "status_of out = Some 200"
  shows "\<exists>raw tok info. extractBearer r = Some raw \<and> VerifyToken cr (ui_Issuer h) rt 0 raw w = Inr tok \<and>
    ''openid'' \<in> set (str_fields (claim_string tok ''scope'')) \<and>
    us_FindByID (ui_Users h) (claim_string tok ''sub'') w = Inr info \<and>
    body_field out = (\<lambda>k. if k = ''sub'' then Some (JStr (ui_UserID info))
      else if k \<in> (\<Union>s \<in> set (str_fields (claim_string tok ''scope'')). set (scope_claims s))
      then gm_get (ui_Claims info) k else None)"
proof -
  obtain raw tok info where u: "extractBearer r = Some raw" "VerifyToken cr (ui_Issuer h) rt 0 raw w = Inr tok"
    "''openid'' \<in> set (str_fields (claim_string tok ''scope''))"
    "us_FindByID (ui_Users h) (claim_string tok ''sub'') w = Inr info"
    "out = Response (json_response 200 (JObj (buildUserInfoClaims info (str_fields (claim_string tok ''scope'')))))"
    by (rule userinfo_200 [OF assms])
  have "body_field out k = (if k = ''sub'' then Some (JStr (ui_UserID info))
      else if k \<in> (\<Union>s \<in> set (str_fields (claim_string tok ''scope'')). set (scope_claims s))
      then gm_get (ui_Claims info) k else None)" for k
    by (simp add: u(5) json_field_def userinfo_claims)
  with u(1-4) show ?thesis by blast
qed

subsection \<open>Asking for a reset\<close>

text \<open>
  C27. The answer to a forgotten-password request does not tell whether an account exists: it is
  the same in every state of the stores. A mail goes out only to the address on file of an
  account the request names, which has one.
\<close>

theorem forgot_answer_tells_nothing:
  "fst (fst (forgot_serve cr rt h r w)) = fst (fst (forgot_serve cr' rt' (h'\<lparr>fg_Cfg := fg_Cfg h\<rparr>) r w2)) \<and>
   (snd (fst (forgot_serve cr rt h r w)) = None \<or>
    (\<exists>m v u. snd (fst (forgot_serve cr rt h r w)) = Some m \<and> forgot_findUser (fg_Users h) v
        (snd (prs_DeleteExpired (fg_Resets h) (time_add (now rt 0) (- resetTokenRetention)) w)) = Some u \<and>
      mm_To m = u_Email u \<and> u_Email u \<noteq> []))"
proof
  show "fst (fst (forgot_serve cr rt h r w)) = fst (fst (forgot_serve cr' rt' (h'\<lparr>fg_Cfg := fg_Cfg h\<rparr>) r w2))"
    by (auto simp: forgot_serve_def Let_def case_prod_beta split: option.splits)
  have issue: "fst (forgot_issue cr rt h r u v) = None \<or> (\<exists>m. fst (forgot_issue cr rt h r u v) = Some m \<and> mm_To m = u_Email u)"
    for u v
    by (auto simp: forgot_issue_def reset_mail_def split: option.splits prod.splits)
  then show "snd (fst (forgot_serve cr rt h r w)) = None \<or>
    (\<exists>m v u. snd (fst (forgot_serve cr rt h r w)) = Some m \<and> forgot_findUser (fg_Users h) v
        (snd (prs_DeleteExpired (fg_Resets h) (time_add (now rt 0) (- resetTokenRetention)) w)) = Some u \<and>
      mm_To m = u_Email u \<and> u_Email u \<noteq> [])"
    by (auto simp: forgot_serve_def forgot_process_def Let_def case_prod_beta split: option.splits) blast+
qed

subsection \<open>The profile\<close>

record profile_deployment =
  pd_Cfg :: profile_config
  pd_ClientIP :: "(http_request \<Rightarrow> string) option"

definition mem_profile :: "crypto \<Rightarrow> profile_deployment \<Rightarrow> runtime \<Rightarrow> world profile_handler" where
  "mem_profile cr d rt = \<lparr>pf_Cfg = pd_Cfg d, pf_Users = mem_users cr rt, pf_Sessions = mem_sessions,
     pf_RefreshTokens = mem_refresh_tokens, pf_AuditLogs = Some mem_audit_logs,
     pf_Tracker = Some (mem_tracker_store rt), pf_ClientIP = pd_ClientIP d\<rparr>"

lemma mem_profile_simps [simp]:
  "pf_Cfg (mem_profile cr d rt) = pd_Cfg d" "pf_Users (mem_profile cr d rt) = mem_users cr rt"
  "pf_Sessions (mem_profile cr d rt) = mem_sessions"
  "pf_RefreshTokens (mem_profile cr d rt) = mem_refresh_tokens"
  "pf_Tracker (mem_profile cr d rt) = Some (mem_tracker_store rt)"
  by (simp_all add: mem_profile_def)

text \<open>Writing the audit log touches no other store.\<close>

lemma audit_frame [simp]:
  "w_sessions (profile_audit rt (mem_profile cr d rt') r u a tt ti m w) = w_sessions w"
  "w_refresh (profile_audit rt (mem_profile cr d rt') r u a tt ti m w) = w_refresh w"
  "w_users (profile_audit rt (mem_profile cr d rt') r u a tt ti m w) = w_users w"
  by (simp_all add: profile_audit_def write_audit_def mem_profile_def mem_audit_logs_def)

lemma revoke_others_run:
  assumes "revokeOtherSessions rt (mem_profile cr d rt') sess w = ((n, ok), w')" "gm_wf (w_sessions w)"
  shows "ok" "ends_sessions (ended_sessions w (s_UserID sess) (s_ID sess) (now rt 3)) w w'"
    "w_users w' = w_users w" "ended_sessions w' (s_UserID sess) (s_ID sess) (now rt 3) = {}"
proof -
  let ?ids = "map fst (filter (\<lambda>(i, x). revoke_hits (s_UserID sess) (s_ID sess) (now rt 3) i x) (w_sessions w))"
  have run: "((n, ok), w') = ((length ?ids, True), revoke_each mem_refresh_tokens (now rt 3) ?ids
      (snd (ss_RevokeByUserIDExcept mem_sessions (s_UserID sess) (s_ID sess) (now rt 3) w)))"
    using assms(1) by (simp add: revokeOtherSessions_def mem_sessions_def zoom_eq
        session_RevokeByUserIDExcept_def revoke_tokens_each)
  then show ok by simp
  show "ends_sessions (ended_sessions w (s_UserID sess) (s_ID sess) (now rt 3)) w w'"
    "ended_sessions w' (s_UserID sess) (s_ID sess) (now rt 3) = {}"
    using run revoke_user_sessions [OF assms(2)] by simp_all
  show "w_users w' = w_users w" using run by (simp add: mem_sessions_def)
qed

lemma tracker_frames [simp]:
  "w_sessions (snd (lat_RecordFailure (mem_tracker_store rt) k w)) = w_sessions w"
  "w_users (snd (lat_RecordFailure (mem_tracker_store rt) k w)) = w_users w"
  "w_users (snd (lat_Reset (mem_tracker_store rt) k w)) = w_users w"
  "w_refresh (snd (lat_RecordFailure (mem_tracker_store rt) k w)) = w_refresh w"
  "w_refresh (snd (lat_Reset (mem_tracker_store rt) k w)) = w_refresh w"
  "w_refresh (snd (lat_IsLockedOut (mem_tracker_store rt) k w)) = w_refresh w"
  by (simp_all add: mem_tracker_store_def)

lemma change_verify_frame:
  "change_verify (mem_profile cr d rt) r sess current w = (res, w1) \<Longrightarrow>
    w_sessions w1 = w_sessions w \<and> w_refresh w1 = w_refresh w \<and> w_users w1 = w_users w"
  by (auto simp: change_verify_def Let_def case_prod_beta split: sum.splits if_splits option.splits)

lemma change_verify_Inr:
  assumes "change_verify (mem_profile cr d rt) r sess current w = (Inr u, w1)"
  shows "user_FindUserByID (s_UserID sess) (w_users w) = Inr u"
    "\<exists>info. user_ValidateCredentials cr (u_Username u) current (w_users w) = Inr (Some info)"
    "fst (IsLockedOut (now rt 200) (passwordLockoutKey (mem_profile cr d rt) r (u_ID u)) (w_tracker w)) = False"
  using assms
  by (auto simp: change_verify_def Let_def case_prod_beta mem_users_def mem_tracker_store_def
      split: sum.splits if_splits option.splits)

text \<open>Every user is stored under its own id.\<close>

definition users_good :: "world \<Rightarrow> bool" where
  "users_good w \<longleftrightarrow> (\<forall>i u. gm_get (um_users (w_users w)) i = Some u \<longrightarrow> u_ID u = i)"

lemma found_user: "users_good w \<Longrightarrow> user_FindUserByID i (w_users w) = Inr u \<Longrightarrow> u_ID u = i"
  by (auto simp: users_good_def user_FindUserByID_def split: option.splits)

lemma set_password_run:
  assumes "us_SetPassword (mem_users cr rt) uid new w = (res, w1)"
  shows "w_sessions w1 = w_sessions w" "w_refresh w1 = w_refresh w" "w_resets w1 = w_resets w"
    "res = None \<Longrightarrow> \<exists>hash. bcrypt_hash cr (bcrypt_salt rt) new = Some hash \<and>
      um_hashes (w_users w1) = gm_put uid hash (um_hashes (w_users w))"
    "res \<noteq> None \<Longrightarrow> w_users w1 = w_users w"
  using assms by (auto simp: mem_users_def zoom_eq user_SetPassword_def split: option.splits)

lemma update_user_frame [simp]:
  "w_sessions (snd (us_UpdateUser (mem_users cr rt) u w)) = w_sessions w"
  "w_refresh (snd (us_UpdateUser (mem_users cr rt) u w)) = w_refresh w"
  "w_resets (snd (us_UpdateUser (mem_users cr rt) u w)) = w_resets w"
  "um_hashes (w_users (snd (us_UpdateUser (mem_users cr rt) u w))) = um_hashes (w_users w)"
  by (simp_all add: mem_users_def user_UpdateUser_def split: option.split)

text \<open>Setting the password: the hash of this user, and the end of all other sessions.\<close>

lemma change_apply_run:
  assumes "change_apply cr rt (mem_profile cr d rt) r sess u new w = (out, w')" "gm_wf (w_sessions w)"
  shows "(status_of out = Some 200 \<and> (\<exists>hash. bcrypt_hash cr (bcrypt_salt rt) new = Some hash \<and>
        um_hashes (w_users w') = gm_put (u_ID u) hash (um_hashes (w_users w))) \<and>
      ends_sessions (ended_sessions w (s_UserID sess) (s_ID sess) (now rt 3)) w w' \<and>
      ended_sessions w' (s_UserID sess) (s_ID sess) (now rt 3) = {}) \<or>
    (status_of out = Some 500 \<and> w_sessions w' = w_sessions w \<and> w_refresh w' = w_refresh w \<and> w_users w' = w_users w)"
proof -
  obtain res w1 where set: "us_SetPassword (mem_users cr rt) (u_ID u) new w = (res, w1)" by fastforce
  note run = set_password_run [OF set]
  show ?thesis
  proof (cases res)
    case (Some e)
    then show ?thesis using assms(1) set run by (auto simp: change_apply_def profile_error_def)
  next
    case None
    let ?w2 = "snd (us_UpdateUser (mem_users cr rt)
      (u\<lparr>u_SecurityStamp := uuid_string cr (new_uuid rt 2), u_UpdatedAt := now rt 2\<rparr>) w1)"
    obtain n ok w3 where others: "revokeOtherSessions rt (mem_profile cr d rt) sess ?w2 = ((n, ok), w3)"
      by (metis surj_pair)
    have same: "w_sessions ?w2 = w_sessions w" "w_refresh ?w2 = w_refresh w" using run by simp_all
    with assms(2) have "gm_wf (w_sessions ?w2)" by simp
    note ends = revoke_others_run [OF others this]
    have w': "out = writeJSON 200 (JObj [(''status'', JStr ''password_changed'')])"
      "w_sessions w' = w_sessions w3" "w_refresh w' = w_refresh w3" "w_users w' = w_users w3"
      using assms(1) set None others by (auto simp: change_apply_def Let_def)
    have "ended_sessions ?w2 = ended_sessions w" "ended_sessions w' = ended_sessions w3"
      by (rule ended_cong [OF same(1)], rule ended_cong [OF w'(2)])
    then show ?thesis
      using ends run(4) [OF None] w' same ends_sessions_cong(1) [OF same] ends_sessions_cong(2) [OF w'(2,3)]
      by simp
  qed
qed

text \<open>One session of the user, named by its id.\<close>

lemma revoke_session_run:
  assumes "revokeSession cr rt (mem_profile cr d rt) r sess w = (out, w')" "sessions_good w"
  shows "w_users w' = w_users w \<and> (ends_sessions {} w w' \<or> (\<exists>i s. gm_get (w_sessions w) i = Some s \<and>
    s_UserID s = s_UserID sess \<and> i \<noteq> s_ID sess \<and> ends_sessions {i} w w'))"
proof (cases "w' = w")
  case True
  then show ?thesis using ends_sessions_none [of w w] by simp
next
  case False
  let ?h = "mem_profile cr d rt"
  from assms(1) have c: "profile_csrf ?h r"
    using False by (cases "profile_csrf ?h r") (simp_all add: revokeSession_def)
  from assms(1) c obtain body where b: "decodeJSON [''session_id''] r = Some body"
    using False by (cases "decodeJSON [''session_id''] r") (auto simp: revokeSession_def)
  from assms(1) c b obtain i where i: "uuid_parse cr (body_str body ''session_id'') = Some i"
    using False by (cases "uuid_parse cr (body_str body ''session_id'')") (auto simp: revokeSession_def)
  from assms(1) c b i obtain s where s: "gm_get (w_sessions w) i = Some s"
    using False by (cases "gm_get (w_sessions w) i") (auto simp: revokeSession_def session_Find_def)
  have sid: "s_ID s = i" using assms(2) s by (simp add: sessions_good_def)
  from assms(1) c b i s have own: "s_UserID s = s_UserID sess" "i \<noteq> s_ID sess"
    using False sid by (auto simp: revokeSession_def session_Find_def split: if_splits)
  obtain w1 where e1: "ss_Revoke mem_sessions i (now rt 0) w = (None, w1)"
    using s by (simp add: mem_sessions_def zoom_eq session_Revoke_def)
  obtain w2 where e2: "rts_RevokeBySessionID mem_refresh_tokens i (now rt 0) w1 = (None, w2)"
    by (metis mem_session_ops(5) prod.collapse)
  have w': "w' = profile_audit rt ?h r (s_UserID sess) ''session_revoked'' ''Session'' (uuid_string cr i) [] w2"
    using assms(1) c b i s sid own e1 e2 by (simp add: revokeSession_def session_Find_def)
  have w1: "w_refresh w1 = w_refresh w" "w_sessions w1 = snd (session_Revoke i (now rt 0) (w_sessions w))"
    "w_users w1 = w_users w"
    using e1 by (auto simp: mem_sessions_def zoom_eq)
  have w2: "w_sessions w2 = w_sessions w1" "w_users w2 = w_users w1"
    using e2 by (auto simp: mem_refresh_tokens_def zoom_eq)
  have w2': "w2 = snd (rts_RevokeBySessionID mem_refresh_tokens i (now rt 0) w1)" by (simp add: e2)
  note tok = revoke_one_tokens [OF w1(1), where sid = i and t = "now rt 0", folded w2']
  have ses: "session_changes w w2 \<subseteq> {i}" "i \<in> sessions_revoked w2"
    using s by (auto simp: session_changes_def sessions_revoked_def session_Revoke_get w1 w2)
  have "ends_sessions {i} w w2" using tok ses by (simp add: ends_sessions_def)
  moreover have "w_sessions w' = w_sessions w2" "w_refresh w' = w_refresh w2" "w_users w' = w_users w"
    unfolding w' audit_frame by (simp_all add: w1 w2)
  ultimately show ?thesis using s own ends_sessions_cong(2) by blast
qed

lemma change_password_reaches:
  assumes "changePassword cr rt (mem_profile cr d rt) r sess w = (out, w')"
    "\<not> (w_sessions w' = w_sessions w \<and> w_refresh w' = w_refresh w \<and> w_users w' = w_users w)"
  obtains cur new u w1 where "change_verify (mem_profile cr d rt) r sess cur w = (Inr u, w1)"
    "change_apply cr rt (mem_profile cr d rt) r sess u new w1 = (out, w')"
proof -
  from assms obtain cur new conf where r: "change_request (mem_profile cr d rt) r = Inr (cur, new, conf)"
    by (auto simp: changePassword_def split: sum.splits)
  obtain res w1 where v: "change_verify (mem_profile cr d rt) r sess cur w = (res, w1)" by fastforce
  note same = change_verify_frame [OF v]
  from assms r v same obtain u where "res = Inr u"
    by (cases res) (auto simp: changePassword_def)
  with assms r v same that show ?thesis
    by (auto simp: changePassword_def split: option.splits)
qed

lemma change_request_status:
  "change_request h r = Inl out \<Longrightarrow> status_of out = Some 403 \<or> status_of out = Some 400"
  by (auto simp: change_request_def profile_error_def Let_def split: if_splits option.splits)

lemma change_verify_status:
  "change_verify h r sess cur w = (Inl out, w1) \<Longrightarrow> status_of out \<noteq> Some 200"
  by (auto simp: change_verify_def profile_error_def Let_def case_prod_beta
      split: if_splits option.splits sum.splits)

lemma change_password_200:
  assumes "changePassword cr rt h r sess w = (out, w')" "status_of out = Some 200"
  obtains cur new conf u w1 where "change_request h r = Inr (cur, new, conf)"
    "change_verify h r sess cur w = (Inr u, w1)" "change_policy cur new conf = None"
    "change_apply cr rt h r sess u new w1 = (out, w')"
proof -
  from assms obtain cur new conf where r: "change_request h r = Inr (cur, new, conf)"
    using change_request_status [of h r out] by (auto simp: changePassword_def split: sum.splits)
  obtain res w1 where v: "change_verify h r sess cur w = (res, w1)" by fastforce
  from assms r v obtain u where u: "res = Inr u"
    using change_verify_status [of h r sess cur w out w1] by (cases res) (auto simp: changePassword_def)
  from assms r v u have p: "change_policy cur new conf = None"
    by (auto simp: changePassword_def profile_error_def split: option.splits)
  with assms r v u that show ?thesis by (auto simp: changePassword_def)
qed

text \<open>What a signed-in user may do to sessions and passwords.\<close>

definition own_effects :: "session \<Rightarrow> world \<Rightarrow> world \<Rightarrow> bool" where
  "own_effects sess w w' \<longleftrightarrow>
    (\<exists>S \<subseteq> {i. \<exists>s. gm_get (w_sessions w) i = Some s \<and> s_UserID s = s_UserID sess \<and> i \<noteq> s_ID sess}.
      ends_sessions S w w' \<and>
      {i. gm_get (um_hashes (w_users w')) i \<noteq> gm_get (um_hashes (w_users w)) i} \<subseteq> {s_UserID sess})"

lemma own_effects_none:
  "w_sessions w' = w_sessions w \<Longrightarrow> w_refresh w' = w_refresh w \<Longrightarrow> w_users w' = w_users w \<Longrightarrow> own_effects sess w w'"
  unfolding own_effects_def using ends_sessions_none by (intro exI [where x = "{}"]) simp

lemma own_effects_ended:
  assumes "ends_sessions (ended_sessions w (s_UserID sess) (s_ID sess) t) w w'"
    "{i. gm_get (um_hashes (w_users w')) i \<noteq> gm_get (um_hashes (w_users w)) i} \<subseteq> {s_UserID sess}"
  shows "own_effects sess w w'"
proof -
  have "ended_sessions w (s_UserID sess) (s_ID sess) t \<subseteq>
      {i. \<exists>s. gm_get (w_sessions w) i = Some s \<and> s_UserID s = s_UserID sess \<and> i \<noteq> s_ID sess}"
    by (auto simp: ended_sessions_def session_usable_def)
  with assms show ?thesis unfolding own_effects_def by blast
qed

lemma own_effects_one:
  assumes "revokeSession cr rt (mem_profile cr d rt) r sess w = (out, w')" "sessions_good w"
  shows "own_effects sess w w'"
  using revoke_session_run [OF assms]
proof (elim conjE disjE exE)
  assume "w_users w' = w_users w" "ends_sessions {} w w'"
  then show ?thesis unfolding own_effects_def by (intro exI [where x = "{}"]) simp
next
  fix i s
  assume "w_users w' = w_users w" "gm_get (w_sessions w) i = Some s" "s_UserID s = s_UserID sess"
    "i \<noteq> s_ID sess" "ends_sessions {i} w w'"
  then show ?thesis unfolding own_effects_def by (intro exI [where x = "{i}"]) simp
qed

lemma own_effects_others:
  assumes "revokeOthers rt (mem_profile cr d rt) r sess w = (out, w')" "gm_wf (w_sessions w)"
  shows "own_effects sess w w'"
proof -
  obtain n ok w1 where run: "revokeOtherSessions rt (mem_profile cr d rt) sess w = ((n, ok), w1)"
    by (metis surj_pair)
  note ends = revoke_others_run [OF run assms(2)]
  have "w' = w \<or> w_sessions w' = w_sessions w1 \<and> w_refresh w' = w_refresh w1 \<and> w_users w' = w_users w1"
    using assms(1) ends(1) by (auto simp: revokeOthers_def run split: if_splits)
  then show ?thesis
  proof
    assume "w' = w"
    then show ?thesis by (simp add: own_effects_none)
  next
    assume same: "w_sessions w' = w_sessions w1 \<and> w_refresh w' = w_refresh w1 \<and> w_users w' = w_users w1"
    then show ?thesis
      using ends(2,3) ends_sessions_cong(2) [of w' w1] by (intro own_effects_ended [where t = "now rt 3"]) simp_all
  qed
qed

lemma own_effects_password:
  assumes "changePassword cr rt (mem_profile cr d rt) r sess w = (out, w')" "users_good w" "gm_wf (w_sessions w)"
  shows "own_effects sess w w'"
proof (cases "w_sessions w' = w_sessions w \<and> w_refresh w' = w_refresh w \<and> w_users w' = w_users w")
  case True
  then show ?thesis by (simp add: own_effects_none)
next
  case False
  with assms(1) obtain cur new u w1 where v: "change_verify (mem_profile cr d rt) r sess cur w = (Inr u, w1)"
    "change_apply cr rt (mem_profile cr d rt) r sess u new w1 = (out, w')"
    by (rule change_password_reaches)
  note same = change_verify_frame [OF v(1)]
  from same assms(3) have "gm_wf (w_sessions w1)" by simp
  from change_apply_run [OF v(2) this] False same
  have "um_hashes (w_users w') \<in> {gm_put (u_ID u) hash (um_hashes (w_users w)) |hash. True}"
    and ends: "ends_sessions (ended_sessions w1 (s_UserID sess) (s_ID sess) (now rt 3)) w1 w'"
    by auto
  moreover have "u_ID u = s_UserID sess" using found_user [OF assms(2) change_verify_Inr(1) [OF v(1)]] .
  ultimately have "{i. gm_get (um_hashes (w_users w')) i \<noteq> gm_get (um_hashes (w_users w)) i} \<subseteq> {s_UserID sess}"
    by (auto split: if_splits)
  moreover have "ends_sessions (ended_sessions w (s_UserID sess) (s_ID sess) (now rt 3)) w w'"
    using ends same ended_cong [of w1 w] ends_sessions_cong(1) [of w1 w] by simp
  ultimately show ?thesis by (intro own_effects_ended)
qed

text \<open>
  C25. Whatever a signed-in user asks of the profile endpoint, sessions end only if they are
  further sessions of the same user, with exactly the refresh tokens of these sessions; the
  current session, and everybody else's, stay as they are. The only password hash that can
  change is the user's own.
\<close>

theorem profile_changes_own_account:
  assumes "profile_serve cr rt (mem_profile cr d rt) (Some sess) r w = (out, w')"
    and "sessions_good w" "users_good w" "gm_wf (w_sessions w)"
  shows "\<exists>S \<subseteq> {i. \<exists>s. gm_get (w_sessions w) i = Some s \<and> s_UserID s = s_UserID sess \<and> i \<noteq> s_ID sess}.
    ends_sessions S w w' \<and> {i. gm_get (um_hashes (w_users w')) i \<noteq> gm_get (um_hashes (w_users w)) i} \<subseteq> {s_UserID sess}"
proof -
  consider "w' = w" | "revokeSession cr rt (mem_profile cr d rt) r sess w = (out, w')"
    | "revokeOthers rt (mem_profile cr d rt) r sess w = (out, w')"
    | "changePassword cr rt (mem_profile cr d rt) r sess w = (out, w')"
    using assms(1) by (auto simp: profile_serve_def Let_def split: if_splits)
  then have "own_effects sess w w'"
    by cases (use assms(2-4) in \<open>auto intro: own_effects_none own_effects_one own_effects_others own_effects_password\<close>)
  then show ?thesis unfolding own_effects_def .
qed

text \<open>
  A password change that is answered with 200 gave the current password of the session's
  user, while the account was not locked, and a new one that is repeated, allowed and different;
  the stored hash is then one of the new password, and no other session of the user is usable.
\<close>

theorem password_change_checked:
  assumes "changePassword cr rt (mem_profile cr d rt) r sess w = (out, w')" "status_of out = Some 200"
    and "users_good w" "gm_wf (w_sessions w)"
  shows "\<exists>current new u info hash. change_request (mem_profile cr d rt) r = Inr (current, new, new) \<and>
    user_FindUserByID (s_UserID sess) (w_users w) = Inr u \<and>
    user_ValidateCredentials cr (u_Username u) current (w_users w) = Inr (Some info) \<and>
    fst (IsLockedOut (now rt 200) (passwordLockoutKey (mem_profile cr d rt) r (s_UserID sess)) (w_tracker w)) = False \<and>
    ValidatePassword new = None \<and> new \<noteq> current \<and> bcrypt_hash cr (bcrypt_salt rt) new = Some hash \<and>
    um_hashes (w_users w') = gm_put (s_UserID sess) hash (um_hashes (w_users w)) \<and>
    ends_sessions (ended_sessions w (s_UserID sess) (s_ID sess) (now rt 3)) w w' \<and>
    ended_sessions w' (s_UserID sess) (s_ID sess) (now rt 3) = {}"
proof -
  obtain cur new conf u w1 where req: "change_request (mem_profile cr d rt) r = Inr (cur, new, conf)"
    and v: "change_verify (mem_profile cr d rt) r sess cur w = (Inr u, w1)"
    and pol: "change_policy cur new conf = None"
    and ap: "change_apply cr rt (mem_profile cr d rt) r sess u new w1 = (out, w')"
    using assms(1,2) by (rule change_password_200)
  note same = change_verify_frame [OF v]
  from same assms(4) have "gm_wf (w_sessions w1)" by simp
  from change_apply_run [OF ap this] assms(2)
  obtain hash where hash: "bcrypt_hash cr (bcrypt_salt rt) new = Some hash"
      "um_hashes (w_users w') = gm_put (u_ID u) hash (um_hashes (w_users w1))"
    and ends: "ends_sessions (ended_sessions w1 (s_UserID sess) (s_ID sess) (now rt 3)) w1 w'"
      "ended_sessions w' (s_UserID sess) (s_ID sess) (now rt 3) = {}"
    by auto
  have "u_ID u = s_UserID sess" using found_user [OF assms(3) change_verify_Inr(1) [OF v]] .
  moreover have "new = conf" "ValidatePassword new = None" "new \<noteq> cur"
    using pol by (auto simp: change_policy_def split: if_splits)
  ultimately show ?thesis
    using req hash ends same change_verify_Inr [OF v] ended_cong [of w1 w] ends_sessions_cong(1) [of w1 w] by auto
qed

subsection \<open>Setting a new password\<close>

record reset_deployment =
  rd_Cfg :: reset_config
  rd_ClientIP :: "(http_request \<Rightarrow> string) option"

definition mem_reset :: "crypto \<Rightarrow> reset_deployment \<Rightarrow> runtime \<Rightarrow> world reset_handler" where
  "mem_reset cr d rt = \<lparr>rs_Cfg = rd_Cfg d, rs_Users = mem_users cr rt, rs_Resets = mem_resets,
     rs_Sessions = mem_sessions, rs_RefreshTokens = mem_refresh_tokens,
     rs_AuditLogs = Some mem_audit_logs, rs_ClientIP = rd_ClientIP d\<rparr>"

lemma mem_reset_simps [simp]:
  "rs_Cfg (mem_reset cr d rt) = rd_Cfg d" "rs_Users (mem_reset cr d rt) = mem_users cr rt"
  "rs_Resets (mem_reset cr d rt) = mem_resets" "rs_Sessions (mem_reset cr d rt) = mem_sessions"
  "rs_RefreshTokens (mem_reset cr d rt) = mem_refresh_tokens"
  "rs_AuditLogs (mem_reset cr d rt) = Some mem_audit_logs"
  by (simp_all add: mem_reset_def)

text \<open>Every reset token is stored once, under its own id.\<close>

definition resets_good :: "world \<Rightarrow> bool" where
  "resets_good w \<longleftrightarrow> gm_wf (w_resets w) \<and> (\<forall>(i, x) \<in> set (w_resets w). pr_ID x = i)"

definition open_resets :: "world \<Rightarrow> string \<Rightarrow> uuid set" where
  "open_resets w uid = {i. \<exists>x. gm_get (w_resets w) i = Some x \<and> pr_UserID x = uid \<and> pr_ConsumedAt x = None}"

lemma reset_request_Inr:
  assumes "reset_request cr rt h r w = Inr (raw, new)"
  shows "raw = body_str (the (decodeJSON [''token'', ''new_password'', ''new_password_confirm''] r)) ''token''"
    "ValidatePassword new = None" "new \<noteq> []"
  using assms by (auto simp: reset_request_def Let_def split: if_splits option.splits)

lemma reset_request_status:
  "reset_request cr rt h r w = Inl out \<Longrightarrow> status_of out \<noteq> Some 200"
  by (auto simp: reset_request_def reset_error_def Let_def split: if_splits option.splits)

lemma reset_lookup_Some:
  assumes "reset_lookup cr t (mem_reset cr d rt) raw w = Some tok" "resets_good w"
  shows "gm_get (w_resets w) (pr_ID tok) = Some tok" "pr_TokenHash tok = HashToken cr raw"
    "pr_ConsumedAt tok = None" "time_before t (pr_ExpiresAt tok)"
proof -
  have f: "find (\<lambda>e. pr_TokenHash e = HashToken cr raw) (map snd (w_resets w)) = Some tok"
    and o: "pr_ConsumedAt tok = None" "time_before t (pr_ExpiresAt tok)"
    using assms(1) by (auto simp: reset_lookup_def mem_resets_def reset_FindByHash_def split: if_splits option.splits)
  from find_Some_set [OF f] obtain i where "(i, tok) \<in> set (w_resets w)" "pr_TokenHash tok = HashToken cr raw"
    by auto
  with assms(2) o show "gm_get (w_resets w) (pr_ID tok) = Some tok" "pr_TokenHash tok = HashToken cr raw"
    "pr_ConsumedAt tok = None" "time_before t (pr_ExpiresAt tok)"
    by (auto simp: resets_good_def gm_wf_get)
qed

text \<open>What happens once the password is set: the user is signed out everywhere.\<close>

lemma reset_cleanup_run:
  fixes rt :: runtime and uid :: string
  assumes "w' = reset_cleanup cr rt (mem_reset cr d rt') r uid w" "gm_wf (w_sessions w)"
  shows "ends_sessions (ended_sessions w uid uuid_nil (now rt 1)) w w'"
    "ended_sessions w' uid uuid_nil (now rt 1) = {}" "open_resets w' uid = {}"
    "um_hashes (w_users w') = um_hashes (w_users w)"
proof -
  let ?w1 = "case us_FindUserByID (mem_users cr rt') uid w of Inl e \<Rightarrow> w
    | Inr u \<Rightarrow> snd (us_UpdateUser (mem_users cr rt')
        (u\<lparr>u_SecurityStamp := uuid_string cr (new_uuid rt 3), u_UpdatedAt := now rt 1\<rparr>) w)"
  define w2 where "w2 = snd (prs_InvalidateForUser mem_resets uid (now rt 1) ?w1)"
  let ?ids = "map fst (filter (\<lambda>(i, x). revoke_hits uid uuid_nil (now rt 1) i x) (w_sessions w2))"
  define w4 where "w4 = revoke_each mem_refresh_tokens (now rt 1) ?ids
    (snd (ss_RevokeByUserIDExcept mem_sessions uid uuid_nil (now rt 1) w2))"
  have same: "w_sessions w2 = w_sessions w" "w_refresh w2 = w_refresh w"
    "um_hashes (w_users w2) = um_hashes (w_users w)"
    "w_resets w2 = snd (reset_InvalidateForUser uid (now rt 1) (w_resets w))"
    by (simp_all add: w2_def mem_resets_def split: sum.split)
  have "ss_RevokeByUserIDExcept mem_sessions uid uuid_nil (now rt 1) w2 =
      (Inr ?ids, snd (ss_RevokeByUserIDExcept mem_sessions uid uuid_nil (now rt 1) w2))"
    by (simp add: mem_sessions_def zoom_eq session_RevokeByUserIDExcept_def)
  then obtain w3 where w3: "ss_RevokeByUserIDExcept mem_sessions uid uuid_nil (now rt 1) w2 = (Inr ?ids, w3)"
    by blast
  have w4_eq: "w4 = revoke_each mem_refresh_tokens (now rt 1) ?ids w3" by (simp only: w4_def w3 snd_conv)
  have w': "\<exists>e. w' = write_audit (Some mem_audit_logs) e w4"
    unfolding assms(1) reset_cleanup_def Let_def mem_reset_simps w2_def [symmetric] w3 prod.case sum.case
    unfolding w4_eq [symmetric] by (rule exI, rule refl)
  then have frame: "w_sessions w' = w_sessions w4" "w_refresh w' = w_refresh w4" "w_users w' = w_users w4"
    "w_resets w' = w_resets w4" by auto
  have "gm_wf (w_sessions w2)" using assms(2) same by simp
  note ends = revoke_user_sessions [OF this, where uid = uid and keep = uuid_nil and t = "now rt 1", folded w4_def]
  show "ends_sessions (ended_sessions w uid uuid_nil (now rt 1)) w w'"
    using ends(1) ended_cong [OF same(1)] ends_sessions_cong(1) [OF same(1,2)] ends_sessions_cong(2) [OF frame(1,2)]
    by simp
  show "ended_sessions w' uid uuid_nil (now rt 1) = {}"
    using ends(2) ended_cong [OF frame(1)] by simp
  have w4: "w_users w4 = w_users w2" "w_resets w4 = w_resets w2" by (simp_all add: w4_def mem_sessions_def)
  then show "um_hashes (w_users w') = um_hashes (w_users w)" using frame same by simp
  have get: "gm_get (w_resets w') i = map_option (\<lambda>x. if pr_UserID x = uid \<and> pr_ConsumedAt x = None
      then x\<lparr>pr_ConsumedAt := Some (now rt 1)\<rparr> else x) (gm_get (w_resets w) i)" for i
    unfolding frame(4) w4(2) same(4) reset_InvalidateForUser_def by simp
  show "open_resets w' uid = {}"
  proof (rule equals0I)
    fix i
    assume "i \<in> open_resets w' uid"
    then obtain x where x: "gm_get (w_resets w') i = Some x" "pr_UserID x = uid" "pr_ConsumedAt x = None"
      by (auto simp: open_resets_def)
    then show False using get [of i] by (cases "gm_get (w_resets w) i") (auto split: if_splits)
  qed
qed

lemma reset_serve_200:
  assumes "reset_serve cr rt (mem_reset cr d rt') r w = (out, w')" "req_Method r = ''POST''"
    "status_of out = Some 200"
  obtains raw new tok w1 w2 where "reset_request cr rt (mem_reset cr d rt') r w = Inr (raw, new)"
    "reset_lookup cr (now rt 2) (mem_reset cr d rt') raw w = Some tok"
    "prs_Consume mem_resets (pr_ID tok) (now rt 1) w = (Inr True, w1)"
    "us_SetPassword (mem_users cr rt') (pr_UserID tok) new w1 = (None, w2)"
    "w' = reset_cleanup cr rt (mem_reset cr d rt') r (pr_UserID tok) w2"
proof -
  have hdr: "status_of (reset_headers a) = status_of a" for a
    by (cases a) (simp_all add: reset_headers_def)
  from assms obtain raw new where q: "reset_request cr rt (mem_reset cr d rt') r w = Inr (raw, new)"
    using reset_request_status [of cr rt "mem_reset cr d rt'" r w]
    by (auto simp: reset_serve_def hdr split: sum.splits)
  with assms obtain a where c: "reset_change cr rt (mem_reset cr d rt') r raw new w = (a, w')" "status_of a = Some 200"
    by (auto simp: reset_serve_def hdr case_prod_beta prod_eq_iff)
  then show ?thesis
    using that [OF q]
    by (auto simp: reset_change_def reset_error_def split: option.splits prod.splits sum.splits if_splits)
qed

text \<open>What a reset that succeeds does; the property and its limit below rest on it.\<close>

lemma reset_effects:
  assumes "reset_serve cr rt (mem_reset cr d rt') r w = (out, w')" "req_Method r = ''POST''"
    and "status_of out = Some 200" "gm_wf (w_sessions w)" "resets_good w"
  shows "\<exists>raw new tok hash. reset_request cr rt (mem_reset cr d rt') r w = Inr (raw, new) \<and>
    gm_get (w_resets w) (pr_ID tok) = Some tok \<and> pr_TokenHash tok = HashToken cr raw \<and>
    pr_ConsumedAt tok = None \<and> time_before (now rt 1) (pr_ExpiresAt tok) \<and>
    ValidatePassword new = None \<and> bcrypt_hash cr (bcrypt_salt rt') new = Some hash \<and>
    um_hashes (w_users w') = gm_put (pr_UserID tok) hash (um_hashes (w_users w)) \<and>
    ends_sessions (ended_sessions w (pr_UserID tok) uuid_nil (now rt 1)) w w' \<and>
    ended_sessions w' (pr_UserID tok) uuid_nil (now rt 1) = {} \<and> open_resets w' (pr_UserID tok) = {}"
proof -
  obtain raw new tok w1 w2 where q: "reset_request cr rt (mem_reset cr d rt') r w = Inr (raw, new)"
    and l: "reset_lookup cr (now rt 2) (mem_reset cr d rt') raw w = Some tok"
    and c: "prs_Consume mem_resets (pr_ID tok) (now rt 1) w = (Inr True, w1)"
    and p: "us_SetPassword (mem_users cr rt') (pr_UserID tok) new w1 = (None, w2)"
    and w': "w' = reset_cleanup cr rt (mem_reset cr d rt') r (pr_UserID tok) w2"
    by (rule reset_serve_200 [OF assms(1-3)])
  note tok = reset_lookup_Some [OF l assms(5)]
  have w1: "w_sessions w1 = w_sessions w" "w_refresh w1 = w_refresh w" "w_users w1 = w_users w"
    and t: "time_before (now rt 1) (pr_ExpiresAt tok)"
    using c tok(1) by (auto simp: mem_resets_def zoom_eq reset_Consume_def split: if_splits)
  note set = set_password_run [OF p]
  have w2: "w_sessions w2 = w_sessions w" "w_refresh w2 = w_refresh w" using set w1 by simp_all
  from w2 assms(4) have "gm_wf (w_sessions w2)" by simp
  note over = reset_cleanup_run [OF w' this]
  obtain hash where "bcrypt_hash cr (bcrypt_salt rt') new = Some hash"
    "um_hashes (w_users w2) = gm_put (pr_UserID tok) hash (um_hashes (w_users w))"
    using set(4) w1 by auto
  then show ?thesis
    using q tok t reset_request_Inr [OF q] over ended_cong [OF w2(1)] ends_sessions_cong(1) [OF w2] by auto
qed

text \<open>
  C23. A password reset that succeeds spent the token of the link: it was stored with the hash of
  the presented one, unused and in time. Only the password of its user changes, to an allowed
  one. Every session of that user that was still active, neither revoked nor expired, ends with
  all the refresh tokens issued in it; no other session and no other refresh token changes. No
  session of the user is active afterwards, and no reset token of the user is left open, this one
  included.
\<close>

theorem reset_ends_everything:
  assumes "reset_serve cr rt (mem_reset cr d rt') r w = (out, w')" "req_Method r = ''POST''"
    and "status_of out = Some 200" "gm_wf (w_sessions w)" "resets_good w"
  shows "\<exists>raw new tok hash. reset_request cr rt (mem_reset cr d rt') r w = Inr (raw, new) \<and>
    gm_get (w_resets w) (pr_ID tok) = Some tok \<and> pr_TokenHash tok = HashToken cr raw \<and>
    pr_ConsumedAt tok = None \<and> time_before (now rt 1) (pr_ExpiresAt tok) \<and>
    ValidatePassword new = None \<and> bcrypt_hash cr (bcrypt_salt rt') new = Some hash \<and>
    um_hashes (w_users w') = gm_put (pr_UserID tok) hash (um_hashes (w_users w)) \<and>
    ends_sessions (ended_sessions w (pr_UserID tok) uuid_nil (now rt 1)) w w' \<and>
    ended_sessions w' (pr_UserID tok) uuid_nil (now rt 1) = {} \<and> open_resets w' (pr_UserID tok) = {}"
  by (rule reset_effects [OF assms])

text \<open>
  The limit of it: a refresh token outlives its session, and one whose session had expired before
  the reset stays as it was, although it can still be redeemed.
\<close>

lemma reset_spares_expired_sessions:
  assumes "reset_serve cr rt (mem_reset cr d rt') r w = (out, w')" "req_Method r = ''POST''"
    and "status_of out = Some 200" "gm_wf (w_sessions w)" "resets_good w"
    and "gm_get (rtm_tokens (w_refresh w)) i = Some t" "rt_SessionID t = Some sid"
    and "gm_get (w_sessions w) sid = Some s" "\<not> time_before (now rt 1) (s_ExpiresAt s)"
  shows "gm_get (rtm_tokens (w_refresh w')) i = Some t"
proof -
  obtain tok :: password_reset_token where ends: "ends_sessions (ended_sessions w (pr_UserID tok) uuid_nil (now rt 1)) w w'"
    using reset_effects [OF assms(1-5)] by blast
  have "sid \<notin> ended_sessions w (pr_UserID tok) uuid_nil (now rt 1)"
    using assms(8,9) by (auto simp: ended_sessions_def session_usable_def)
  then have "i \<notin> session_tokens w (ended_sessions w (pr_UserID tok) uuid_nil (now rt 1))"
    using assms(6,7) by (auto simp: session_tokens_def)
  then have "i \<notin> token_changes w w'" using ends by (auto simp: ends_sessions_def)
  then show ?thesis using assms(6) by (simp add: token_changes_def)
qed

subsection \<open>Witnesses\<close>

text \<open>Alice is signed in twice, as the sessions 3 and 5, and has asked for a reset link.\<close>

definition other_session :: session where
  "other_session = sample_session\<lparr>s_ID := 5\<rparr>"

definition sample_reset :: password_reset_token where
  "sample_reset = \<lparr>pr_ID = 60, pr_UserID = ''alice'', pr_TokenHash = ''cmE'', pr_CreatedAt = 0,
     pr_ExpiresAt = 5000, pr_ConsumedAt = None\<rparr>"

definition account_world :: world where
  "account_world = token_world\<lparr>w_sessions := [(3, sample_session), (5, other_session)], w_resets := [(60, sample_reset)]\<rparr>"

lemma account_world_simps [sample_simps]:
  "w_sessions account_world = [(3, sample_session), (5, other_session)]"
  "w_resets account_world = [(60, sample_reset)]" "w_refresh account_world = w_refresh token_world"
  "w_users account_world = w_users sample_world" "w_tracker account_world = NewLoginAttemptTracker"
  "w_clients account_world = w_clients sample_world" "w_signing account_world = w_signing sample_world"
  by (simp_all add: account_world_def sample_simps token_world_def sample_world_def empty_world_def)

lemma account_sessions [sample_simps]:
  "s_ID sample_session = 3" "s_UserID sample_session = ''alice''" "s_RevokedAt sample_session = None"
  "s_ExpiresAt sample_session = 9000" "s_ID other_session = 5" "s_UserID other_session = ''alice''"
  "s_RevokedAt other_session = None" "s_ExpiresAt other_session = 9000"
  by (simp_all add: sample_session_def other_session_def)

lemma account_good: "sessions_good account_world" "users_good account_world" "gm_wf (w_sessions account_world)"
  "resets_good account_world"
proof -
  show "sessions_good account_world" by (simp add: sessions_good_def sample_simps)
  show "users_good account_world"
    by (simp add: users_good_def sample_simps NewUserStore_def) (simp add: sample_user_def)
  show "gm_wf (w_sessions account_world)" by (simp add: sample_simps)
  show "resets_good account_world" by (simp add: resets_good_def sample_simps) (simp add: sample_reset_def)
qed

lemma other_ended: "5 \<in> ended_sessions account_world ''alice'' 3 1000"
  by (simp add: ended_sessions_def session_usable_def sample_simps time_defs)

definition logout_sample :: "world logout_handler" where
  "logout_sample = \<lparr>lo_Cfg = \<lparr>loc_IssuerURL = ''https://as'', loc_LogoutPath = ''/logout'',
     loc_PostLogoutRedirectURI = ''/bye''\<rparr>, lo_Cookies = plain_manager, lo_Sessions = mem_sessions,
     lo_RefreshTokens = mem_refresh_tokens, lo_Clients = mem_clients, lo_Issuer = mem_issuer ''https://as''\<rparr>"

definition logout_run :: "outcome \<times> world" where
  "logout_run = logout_serve sample_crypto plain_lib sample_rt logout_sample (json_request ''POST'' ''/logout'' []) account_world"

lemma json_request_form [simp]:
  "req_PostForm (json_request m p b) = Some []" "form_value (json_request m p b) [] k = []"
  "csrf_Verify (APICSRFGuard s) (json_request m p b) []"
  by (simp_all add: json_request_def form_value_def csrf_Verify_def cookie_get_def APICSRFGuard_def header_get_def
      csrfCookieName_def csrfHeaderName_def values_get_def)

theorem logout_ends_session_witness:
  "ends_sessions {3} account_world (snd logout_run) \<and> ClearCookie plain_manager \<in> set (cookies_of (fst logout_run))"
proof -
  have cm: "lo_Cookies logout_sample = plain_manager" by (simp add: logout_sample_def)
  have fields: "lo_Sessions logout_sample = mem_sessions" "lo_RefreshTokens logout_sample = mem_refresh_tokens"
    by (simp_all add: logout_sample_def)
  have run: "logout_serve sample_crypto plain_lib sample_rt logout_sample (json_request ''POST'' ''/logout'' []) account_world
    = (fst logout_run, snd logout_run)" by (simp add: logout_run_def)
  have cookie: "FromRequest sample_crypto plain_lib (lo_Cookies logout_sample) (json_request ''POST'' ''/logout'' []) = Inr 3"
    using plain_reads [of 3 "json_request ''POST'' ''/logout'' []"] by (simp add: cm)
  have "gm_get (w_sessions account_world) 3 = Some sample_session" by (simp add: sample_simps)
  from logout_ends_session [OF run fields _ _ _ _ cookie this account_good(1)] cm
  show ?thesis by simp
qed

definition profile_dep :: profile_deployment where
  "profile_dep = \<lparr>pd_Cfg = \<lparr>pfc_BasePath = ''/api/profile'', pfc_RequireHTTPS = True\<rparr>, pd_ClientIP = None\<rparr>"

abbreviation sample_profile :: "world profile_handler" where
  "sample_profile \<equiv> mem_profile sample_crypto profile_dep sample_rt"

definition password_request :: http_request where
  "password_request = json_request ''POST'' ''/api/profile/password''
     [(''current_password'', JStr ''pw''), (''new_password'', JStr ''new-pass-1''), (''new_password_confirm'', JStr ''new-pass-1'')]"

lemma password_names:
  "equal_fold ''current_password'' ''current_password''" "equal_fold ''new_password'' ''new_password''"
  "equal_fold ''new_password_confirm'' ''new_password_confirm''"
  "equal_fold ''new_password'' ''current_password'' \<longleftrightarrow> False"
  "equal_fold ''new_password_confirm'' ''current_password'' \<longleftrightarrow> False"
  "equal_fold ''new_password_confirm'' ''new_password'' \<longleftrightarrow> False"
  "equal_fold ''token'' ''token''" "equal_fold ''new_password'' ''token'' \<longleftrightarrow> False"
  "equal_fold ''new_password_confirm'' ''token'' \<longleftrightarrow> False"
  by code_simp+

lemma new_password_allowed: "ValidatePassword ''new-pass-1'' = None"
  by code_simp

definition password_run :: "outcome \<times> world" where
  "password_run = changePassword sample_crypto sample_rt sample_profile password_request sample_session account_world"

lemma password_run_ok: "status_of (fst password_run) = Some 200"
proof -
  have req: "change_request sample_profile password_request = Inr (''pw'', ''new-pass-1'', ''new-pass-1'')"
    by (simp add: change_request_def profile_csrf_def password_request_def decodeJSON_def password_names body_str_def Let_def)
  have user: "us_FindUserByID (mem_users sample_crypto sample_rt) (s_UserID sample_session) account_world = Inr sample_user"
    by (simp add: mem_users_def user_FindUserByID_def sample_simps NewUserStore_def)
  have fields: "u_ID sample_user = ''alice''" "u_Username sample_user = ''alice''" by (simp_all add: sample_user_def)
  have valid: "us_ValidateCredentials (mem_users sample_crypto sample_rt) ''alice'' ''pw'' account_world =
      Inr (Some \<lparr>ui_UserID = ''alice'', ui_Claims = []\<rparr>)"
    using login_validates [of sample_rt "''pw''"] by (simp add: mem_users_def sample_simps)
  have unlocked: "lat_IsLockedOut (mem_tracker_store sample_rt) k account_world = (Inr False, account_world)" for k
  proof -
    have "IsLockedOut t k (w_tracker account_world) = (False, w_tracker account_world)" for t
      by (simp add: IsLockedOut_def) (simp add: sample_simps NewLoginAttemptTracker_def)
    then show ?thesis by (simp add: mem_tracker_store_def zoom_def)
  qed
  obtain w1 where v: "change_verify sample_profile password_request sample_session ''pw'' account_world = (Inr sample_user, w1)"
    by (simp add: change_verify_def user fields valid unlocked)
  note same = change_verify_frame [OF v]
  have pol: "change_policy ''pw'' ''new-pass-1'' ''new-pass-1'' = None"
    by (simp add: change_policy_def new_password_allowed)
  have "us_SetPassword (mem_users sample_crypto sample_rt) ''alice'' ''new-pass-1'' w1 =
      (None, snd (us_SetPassword (mem_users sample_crypto sample_rt) ''alice'' ''new-pass-1'' w1))"
    by (simp add: mem_users_def zoom_eq user_SetPassword_def same sample_simps NewUserStore_def)
  then obtain w2 where "us_SetPassword (mem_users sample_crypto sample_rt) ''alice'' ''new-pass-1'' w1 = (None, w2)"
    by blast
  then show ?thesis
    by (simp add: password_run_def changePassword_def req v pol change_apply_def fields Let_def case_prod_beta)
qed

lemma password_run_eq: "changePassword sample_crypto sample_rt sample_profile password_request sample_session account_world =
    (fst password_run, snd password_run)"
  by (simp add: password_run_def)

theorem password_change_checked_witness:
  "\<exists>hash. um_hashes (w_users (snd password_run)) = gm_put ''alice'' hash (um_hashes (w_users account_world)) \<and>
    ends_sessions (ended_sessions account_world ''alice'' 3 1000) account_world (snd password_run) \<and>
    5 \<in> ended_sessions account_world ''alice'' 3 1000"
proof -
  have rt: "now sample_rt 3 = 1000" by (simp add: sample_rt_def sample_simps)
  from password_change_checked [OF password_run_eq password_run_ok account_good(2,3)] show ?thesis
    using other_ended by (auto simp: account_sessions rt)
qed

definition others_run :: "outcome \<times> world" where
  "others_run = profile_serve sample_crypto sample_rt sample_profile (Some sample_session)
     (json_request ''POST'' ''/api/profile/sessions/revoke-others'' []) account_world"

lemma others_run_ends: "session_changes account_world (snd others_run) = {5}" "status_of (fst others_run) = Some 200"
proof -
  let ?r = "json_request ''POST'' ''/api/profile/sessions/revoke-others'' []"
  have serve: "others_run = revokeOthers sample_rt sample_profile ?r sample_session account_world"
    by (simp add: others_run_def profile_serve_def profile_dep_def)
  have csrf: "profile_csrf sample_profile ?r" by (simp add: profile_csrf_def)
  obtain n ok w1 where run: "revokeOtherSessions sample_rt sample_profile sample_session account_world = ((n, ok), w1)"
    by (metis surj_pair)
  note ends = revoke_others_run [OF run account_good(3)]
  have "now sample_rt 3 = 1000" by (simp add: sample_rt_def sample_simps)
  moreover have "ended_sessions account_world ''alice'' 3 1000 = {5}"
    using other_ended by (auto simp: ended_sessions_def sample_simps split: if_splits)
  ultimately have "session_changes account_world w1 \<subseteq> {5}" "5 \<in> sessions_revoked w1"
    using ends(2) by (simp_all add: ends_sessions_def account_sessions)
  moreover from this(2) have "5 \<in> session_changes account_world w1"
    by (auto simp: session_changes_def sessions_revoked_def sample_simps)
  ultimately have "session_changes account_world w1 = {5}" by blast
  moreover have "w_sessions (snd others_run) = w_sessions w1" "status_of (fst others_run) = Some 200"
    using ends(1) by (simp_all add: serve revokeOthers_def csrf run)
  ultimately show "session_changes account_world (snd others_run) = {5}" "status_of (fst others_run) = Some 200"
    by (simp_all add: session_changes_def)
qed

theorem profile_changes_own_account_witness:
  "ends_sessions {5} account_world (snd others_run) \<and>
   {i. gm_get (um_hashes (w_users (snd others_run))) i \<noteq> gm_get (um_hashes (w_users account_world)) i} \<subseteq> {''alice''}"
proof -
  have "profile_serve sample_crypto sample_rt sample_profile (Some sample_session)
      (json_request ''POST'' ''/api/profile/sessions/revoke-others'' []) account_world = (fst others_run, snd others_run)"
    by (simp add: others_run_def)
  from profile_changes_own_account [OF this account_good(1,2,3)] obtain S where
    S: "S \<subseteq> {i. \<exists>s. gm_get (w_sessions account_world) i = Some s \<and> s_UserID s = s_UserID sample_session \<and> i \<noteq> s_ID sample_session}"
    and ends: "ends_sessions S account_world (snd others_run)"
      "{i. gm_get (um_hashes (w_users (snd others_run))) i \<noteq> gm_get (um_hashes (w_users account_world)) i} \<subseteq> {s_UserID sample_session}"
    by blast
  have "S \<subseteq> {5}" using S by (auto simp: sample_simps split: if_splits)
  moreover have "{5} \<subseteq> S" using ends(1) others_run_ends(1) by (simp add: ends_sessions_def)
  ultimately have "S = {5}" by blast
  with ends show ?thesis by (simp add: sample_simps)
qed

definition reset_dep :: reset_deployment where
  "reset_dep = \<lparr>rd_Cfg = \<lparr>rsc_LoginPath = ''/login'', rsc_RequireHTTPS = True\<rparr>, rd_ClientIP = None\<rparr>"

definition reset_post :: http_request where
  "reset_post = json_request ''POST'' ''/api/reset''
     [(''token'', JStr ''raw''), (''new_password'', JStr ''new-pass-1''), (''new_password_confirm'', JStr ''new-pass-1'')]"

abbreviation reset_sample :: "world reset_handler" where
  "reset_sample \<equiv> mem_reset sample_crypto reset_dep sample_rt"

definition reset_run :: "outcome \<times> world" where
  "reset_run = reset_serve sample_crypto sample_rt reset_sample reset_post account_world"

lemma reset_finds: "reset_lookup sample_crypto (now sample_rt k) reset_sample ''raw'' account_world = Some sample_reset"
  by (simp add: reset_lookup_def mem_resets_def reset_FindByHash_def sample_simps)
    (simp add: sample_reset_def sample_rt_def sample_simps time_defs)

lemma reset_reads: "reset_request sample_crypto sample_rt reset_sample reset_post account_world = Inr (''raw'', ''new-pass-1'')"
  using reset_finds [of 0]
  by (simp add: reset_request_def reset_post_def decodeJSON_def password_names body_str_def new_password_allowed Let_def)

lemma reset_run_ok: "status_of (fst reset_run) = Some 200"
proof -
  have tok: "pr_ID sample_reset = 60" "pr_UserID sample_reset = ''alice''" by (simp_all add: sample_reset_def)
  have "pr_ConsumedAt sample_reset = None" "time_before (now sample_rt 1) (pr_ExpiresAt sample_reset)"
    by (simp_all add: sample_reset_def sample_rt_def sample_simps time_defs)
  then obtain w1 where c: "prs_Consume mem_resets 60 (now sample_rt 1) account_world = (Inr True, w1)"
    by (simp add: mem_resets_def zoom_eq reset_Consume_def sample_simps)
  have "w_users w1 = w_users account_world" using c by (auto simp: mem_resets_def zoom_eq)
  then have "us_SetPassword (mem_users sample_crypto sample_rt) ''alice'' ''new-pass-1'' w1 =
      (None, snd (us_SetPassword (mem_users sample_crypto sample_rt) ''alice'' ''new-pass-1'' w1))"
    by (simp add: mem_users_def zoom_eq user_SetPassword_def sample_simps NewUserStore_def)
  then obtain w2 where p: "us_SetPassword (mem_users sample_crypto sample_rt) ''alice'' ''new-pass-1'' w1 = (None, w2)"
    by blast
  have post: "req_Method reset_post = ''POST''" by (simp add: reset_post_def)
  show ?thesis
    by (simp add: reset_run_def reset_serve_def reset_reads post reset_change_def reset_finds tok c [simplified] p
        reset_headers_def json_redirect_def case_prod_beta)
qed

theorem reset_ends_everything_witness:
  "\<exists>(tok :: password_reset_token) hash. pr_TokenHash tok = ''cmE'' \<and>
    um_hashes (w_users (snd reset_run)) = gm_put (pr_UserID tok) hash (um_hashes (w_users account_world)) \<and>
    ended_sessions (snd reset_run) (pr_UserID tok) uuid_nil (now sample_rt 1) = {} \<and>
    open_resets (snd reset_run) (pr_UserID tok) = {}"
proof -
  have run: "reset_serve sample_crypto sample_rt reset_sample reset_post account_world = (fst reset_run, snd reset_run)"
    by (simp add: reset_run_def)
  have post: "req_Method reset_post = ''POST''" by (simp add: reset_post_def)
  from reset_ends_everything [OF run post reset_run_ok account_good(3,4)] obtain raw new and tok :: password_reset_token and hash where
    q: "reset_request sample_crypto sample_rt reset_sample reset_post account_world = Inr (raw, new)"
    and t: "pr_TokenHash tok = HashToken sample_crypto raw"
      "um_hashes (w_users (snd reset_run)) = gm_put (pr_UserID tok) hash (um_hashes (w_users account_world))"
      "ended_sessions (snd reset_run) (pr_UserID tok) uuid_nil (now sample_rt 1) = {}"
      "open_resets (snd reset_run) (pr_UserID tok) = {}"
    by blast
  from q reset_reads have "raw = ''raw''" by simp
  with t show ?thesis by (intro exI [where x = tok] exI [where x = hash]) (simp only: sample_hashes(2) simp_thms)
qed

text \<open>UserInfo for an access token with the scopes \<open>openid email\<close>.\<close>

definition userinfo_crypto :: crypto where
  "userinfo_crypto = sample_crypto\<lparr>jwt_verify := \<lambda>ks iss t skew raw.
     Some [(''sub'', JStr ''alice''), (''scope'', JStr ''openid email'')]\<rparr>"

definition userinfo_sample :: "world userinfo_handler" where
  "userinfo_sample = \<lparr>ui_Issuer = mem_issuer ''https://as'', ui_Users = mem_users userinfo_crypto sample_rt\<rparr>"

definition userinfo_request :: http_request where
  "userinfo_request = (json_request ''GET'' ''/userinfo'' [])\<lparr>req_Header := [(''Authorization'', ''Bearer tok'')]\<rparr>"

lemma userinfo_reads: "extractBearer userinfo_request = Some ''tok''"
  by code_simp

lemma userinfo_scopes: "str_fields ''openid email'' = [''openid'', ''email'']"
  by code_simp

definition userinfo_run :: outcome where
  "userinfo_run = userinfo_serve userinfo_crypto sample_rt userinfo_sample userinfo_request account_world"

theorem userinfo_releases_granted_claims_witness:
  "body_field userinfo_run ''email'' = Some (JStr ''alice@mail'') \<and>
   body_field userinfo_run ''preferred_username'' = None"
proof -
  let ?tok = "[(''sub'', JStr ''alice''), (''scope'', JStr ''openid email'')]"
  obtain js where "PublicJWKSet userinfo_crypto mem_signing_keys account_world = Inr js"
    by (simp add: PublicJWKSet_def userinfo_crypto_def sample_crypto_def mem_signing_keys_def signing_GetAll_def
        sample_simps public_jwk_def sample_key_def)
  then have ver: "VerifyToken userinfo_crypto (mem_issuer ''https://as'') sample_rt 0 ''tok'' account_world = Inr ?tok"
    by (simp add: VerifyToken_def mem_issuer_def NewIssuer_def userinfo_crypto_def)
  have sub: "claim_string ?tok ''scope'' = ''openid email''" "claim_string ?tok ''sub'' = ''alice''"
    by (simp_all add: claim_string_def)
  define info where "info = (case user_FindByID ''alice'' (w_users account_world) of Inr i \<Rightarrow> i)"
  have info: "user_FindByID ''alice'' (w_users account_world) = Inr info"
    by (simp add: info_def user_FindByID_def sample_simps NewUserStore_def Let_def)
  have claims: "gm_get (ui_Claims info) ''email'' = Some (JStr ''alice@mail'')"
    using info by (auto simp: user_FindByID_def sample_simps NewUserStore_def sample_user_def Let_def)
  have sample: "ui_Issuer userinfo_sample = mem_issuer ''https://as''"
    "us_FindByID (ui_Users userinfo_sample) i w = user_FindByID i (w_users w)" for i w
    by (simp_all add: userinfo_sample_def mem_users_def)
  have ok: "status_of userinfo_run = Some 200"
    by (simp add: userinfo_run_def userinfo_serve_def userinfo_reads sample ver sub userinfo_scopes info Let_def)
  from userinfo_releases_granted_claims [OF _ ok, of userinfo_crypto sample_rt userinfo_sample userinfo_request account_world]
  show ?thesis
    using claims by (auto simp: userinfo_run_def userinfo_reads sample ver sub userinfo_scopes info scope_claims_def)
qed

end
