(* ===== verification/Domain_Properties.thy ===== *)
theory Domain_Properties
  imports Domain_Facts Mem_Stores Login_Attempts
begin

section \<open>Properties of the data model\<close>

text \<open>
  Clients (normal form, archetypes, lifetimes), pages and the lockout counter, with the places
  where 64-bit arithmetic leaves the range the code has in mind.
\<close>

subsection \<open>Clients\<close>

text \<open>
  \<open>Normalize\<close> reaches a normal form: doing it again changes nothing, its lists hold distinct
  trimmed non-empty entries, \<open>openid\<close> is always among the scopes, \<open>offline_access\<close> exactly when
  refresh tokens are allowed, and a public client has neither keys nor client credentials.
\<close>

theorem normalize_normal_form:
  "normalize (normalize c) = normalize c \<and>
   clean (c_RedirectURIs (normalize c)) \<and> clean (c_PostLogoutRedirectURIs (normalize c)) \<and>
   clean (c_AllowedScopes (normalize c)) \<and> contains_fold (c_AllowedScopes (normalize c)) ''openid'' \<and>
   contains_fold (c_AllowedScopes (normalize c)) ''offline_access'' = c_AllowRefreshTokens c \<and>
   (if c_TokenEndpointAuthMethod (normalize c) = AuthMethodNone
    then c_JWKSJSON (normalize c) = [] \<and> \<not> c_AllowClientCredentials (normalize c) else True)"
  by (simp only: normalize_idem_aux)
    (simp add: normalize_def normalize_auth_def Let_def normalize_scopes_facts)

text \<open>
  An archetype survives: a client set up as a single-page, web or machine client is still
  recognised as that after normalisation, whatever it was before.
\<close>

theorem archetype_round_trip:
  assumes "p \<noteq> ProfileCustom"
  shows "profile_of (apply_profile p c) = p \<and> profile_of (normalize (apply_profile p c)) = p"
  using assms
  by (cases p) (simp_all add: apply_profile_def profile_of_def normalize_def normalize_auth_def Let_def
      AuthMethodNone_def AuthMethodPrivateKeyJWT_def clean_string_list_def)

definition blank_client :: client where
  "blank_client = \<lparr>c_ClientID = ''app'', c_DisplayName = [], c_RedirectURIs = [''https://app/cb''],
     c_PostLogoutRedirectURIs = [], c_AllowedScopes = [], c_RequirePKCE = False, c_AllowRefreshTokens = True,
     c_AllowClientCredentials = True, c_TokenEndpointAuthMethod = [], c_JWKSJSON = [],
     c_AccessTokenLifetimeSeconds = 0, c_RefreshTokenLifetimeSeconds = 0,
     c_RefreshTokenAbsoluteLifetimeSeconds = 0, c_RefreshTokenExpiration = 0, c_Properties = []\<rparr>"

theorem archetype_round_trip_witness:
  "ProfileM2M \<noteq> ProfileCustom \<and> profile_of blank_client = ProfileSPA \<and>
    profile_of (normalize (apply_profile ProfileM2M blank_client)) = ProfileM2M"
  using archetype_round_trip [of ProfileM2M blank_client]
  by (simp add: profile_of_def blank_client_def AuthMethodPrivateKeyJWT_def)

text \<open>One second more than fits.\<close>

definition huge_client :: client where
  "huge_client = blank_client
    \<lparr>c_TokenEndpointAuthMethod := AuthMethodNone, c_AccessTokenLifetimeSeconds := 9223372037\<rparr>"

text \<open>
  C40. Lifetimes of up to 9223372036 seconds (292 years) give positive durations, the default
  where none is set. One second more wraps to a negative one, which \<open>Validate\<close> does not notice.
\<close>

theorem lifetime_bounds:
  assumes "lifetimes_fit c"
  shows "0 < sint (AccessTokenLifetime c) \<and> 0 < sint (RefreshTokenLifetime c) \<and>
    0 < sint (RefreshTokenAbsoluteLifetime c) \<and>
    validate huge_client = None \<and> sint (AccessTokenLifetime huge_client) < 0"
proof -
  have v: "validate_absolute_uri ''https://app/cb'' = None" by code_simp
  have "AccessTokenLifetime huge_client =
      seconds_to_duration (effective_lifetime 9223372037 DefaultAccessTokenLifetimeSeconds)"
    by (simp add: AccessTokenLifetime_def huge_client_def)
  moreover have "sint (seconds_to_duration (effective_lifetime 9223372037 DefaultAccessTokenLifetimeSeconds)) < 0"
    by code_simp
  moreover have "validate huge_client = None"
    by (simp add: validate_def huge_client_def blank_client_def auth_method_valid_def v TokenExpirationSliding_def)
  ultimately show ?thesis using lifetimes_positive [OF assms] by simp
qed

theorem lifetime_bounds_witness:
  "lifetimes_fit blank_client \<and> 0 < sint (AccessTokenLifetime blank_client)"
proof -
  have "lifetimes_fit blank_client" by (simp add: lifetimes_fit_def blank_client_def max_lifetime_seconds_def)
  with lifetime_bounds [OF this] show ?thesis by simp
qed

subsection \<open>Pages\<close>

definition page_request :: "nat \<Rightarrow> nat \<Rightarrow> paged_request" where
  "page_request p k = \<lparr>pq_Page = of_nat p, pq_PageSize = of_nat k\<rparr>"

lemma sint_small: "n < 2 ^ 62 \<Longrightarrow> sint (of_nat n :: goint) = int n"
  by (simp add: signed_of_nat signed_take_bit_int_eq_self)


lemma sint_prod_small:
  assumes "m < 2 ^ 53" "k \<le> 500"
  shows "sint ((of_nat m :: goint) * of_nat k) = int (m * k)"
proof -
  have "m * k \<le> (2 ^ 53 - 1) * 500" using assms by (intro mult_mono) simp_all
  then have "m * k < 2 ^ 62" by simp
  from sint_small [OF this] show ?thesis by simp
qed

lemma page_request_normalized:
  "0 < p \<Longrightarrow> p < 2 ^ 53 \<Longrightarrow> 0 < k \<Longrightarrow> k \<le> 500 \<Longrightarrow> normalized (page_request p k) = page_request p k"
  by (simp add: normalized_def page_request_def Let_def sint_small MaxPageSize_def)

lemma page_bounds_eq:
  assumes "sint ((pq_Page r - 1) * pq_PageSize r) = int s"
    and "sint (of_nat (min s n) + pq_PageSize r) = int (min s n + k)"
  shows "page_bounds r (int n) = (int (min s n), int (min (min s n + k) n))"
proof -
  have m: "(if int b < int a then int b else int a) = int (min a b)" for a b by simp
  show ?thesis unfolding page_bounds_def assms(1) Let_def m of_int_of_nat_eq assms(2) by (rule refl)
qed

text \<open>The slice of one page.\<close>

lemma get_paged_slice:
  assumes "0 < p" "p < 2 ^ 53" "0 < k" "k \<le> 500" "length items < 2 ^ 61"
  shows "get_paged items (page_request p k) =
    Some \<lparr>pg_Items = take k (drop ((p - 1) * k) items), pg_TotalCount = length items,
      pg_Page = of_nat p, pg_PageSize = of_nat k\<rparr>"
proof -
  let ?n = "length items" and ?s = "(p - 1) * k"
  obtain m where m: "p = Suc m" using assms(1) by (cases p) auto
  have start0: "sint ((pq_Page (page_request p k) - 1) * pq_PageSize (page_request p k)) = int ?s"
    using sint_prod_small [of m k] assms(2,4) by (simp add: page_request_def m)
  have "min ?s ?n + k < 2 ^ 62" using assms(4,5) by (simp add: min_def)
  from sint_small [OF this]
  have "sint (of_nat (min ?s ?n) + pq_PageSize (page_request p k)) = int (min ?s ?n + k)"
    by (simp add: page_request_def)
  then have bounds: "page_bounds (page_request p k) (int ?n) = (int (min ?s ?n), int (min (min ?s ?n + k) ?n))"
    by (rule page_bounds_eq [OF start0])
  have "go_slice items (int (min ?s ?n)) (int (min (min ?s ?n + k) ?n)) = Some (take k (drop ?s items))"
    by (auto simp: go_slice_def min_def nat_diff_distrib)
  then show ?thesis
    using page_request_normalized [OF assms(1-4)] bounds
    by (simp add: get_paged_def) (simp add: page_request_def)
qed

lemma take_drop_pages: "concat (map (\<lambda>p. take k (drop (p * k) xs)) [0..<n]) = take (n * k) xs"
  by (induction n) (simp_all add: add.commute [of k] take_add)

text \<open>
  Walking through the pages of a listing gives the listing: with any page size up to the
  maximum, the pages 1 to \<open>n\<close> of a list of at most \<open>n\<close> times that size are, one after the other,
  the whole list. A page number near the end of the 64-bit range instead makes the slice bounds
  negative, and the store panics.
\<close>

theorem pages_cover_listing:
  assumes "0 < k" "k \<le> 500" "n < 2 ^ 52" "length items \<le> n * k"
  shows "concat (map (\<lambda>p. pg_Items (the (get_paged items (page_request (p + 1) k)))) [0..<n]) = items \<and>
    get_paged items \<lparr>pq_Page = 0x4000000000000001, pq_PageSize = 3\<rparr> = None"
proof
  have "n * k \<le> (2 ^ 52 - 1) * 500" using assms(2,3) by (intro mult_mono) simp_all
  then have len: "length items < 2 ^ 61" using assms(4) by simp
  have "pg_Items (the (get_paged items (page_request (p + 1) k))) = take k (drop (p * k) items)" if "p < n" for p
    using get_paged_slice [of "p + 1" k items] that assms(1-3) len by simp
  then have "concat (map (\<lambda>p. pg_Items (the (get_paged items (page_request (p + 1) k)))) [0..<n]) =
      concat (map (\<lambda>p. take k (drop (p * k) items)) [0..<n])"
    by (intro arg_cong [where f = concat] map_cong) simp_all
  then show "concat (map (\<lambda>p. pg_Items (the (get_paged items (page_request (p + 1) k)))) [0..<n]) = items"
    using assms(4) by (simp add: take_drop_pages)
  have norm: "normalized \<lparr>pq_Page = 0x4000000000000001, pq_PageSize = 3\<rparr> =
      \<lparr>pq_Page = 0x4000000000000001, pq_PageSize = 3\<rparr>" by code_simp
  have "sint ((0x4000000000000001 - 1) * 3 :: goint) = - 0x4000000000000000" by code_simp
  then have "fst (page_bounds \<lparr>pq_Page = 0x4000000000000001, pq_PageSize = 3\<rparr> (int (length items))) < 0"
    by (simp add: page_bounds_def Let_def)
  then show "get_paged items \<lparr>pq_Page = 0x4000000000000001, pq_PageSize = 3\<rparr> = None"
    by (simp add: get_paged_def norm go_slice_def case_prod_beta)
qed

theorem pages_cover_listing_witness:
  "concat (map (\<lambda>p. pg_Items (the (get_paged [10, 20, 30, 40, 50 :: nat] (page_request (p + 1) 2)))) [0..<3]) =
    [10, 20, 30, 40, 50]"
  using pages_cover_listing [of 2 3 "[10, 20, 30, 40, 50 :: nat]"] by simp

subsection \<open>Lockout\<close>

text \<open>
  The lockout counter of a name: four failures leave the name open at any later time, the
  fifth within fifteen minutes of the first locks it for exactly the lockout duration from that
  failure, and a reset opens it at once. Failures under other names have no influence.
\<close>

theorem five_failures_lock:
  assumes "gm_get (lt_attempts s) k = None" "sint (lt_MaxFailures s) = 5"
    and "t0 \<le> t1" "t1 \<le> t2" "t2 \<le> t3" "t3 \<le> t4" "t4 - t0 \<le> sint (lt_ResetAfter s)"
    and "sane_time t0" "sane_time t4" "sane_time t" "t4 \<le> t" "j \<noteq> k"
  shows "\<not> fst (IsLockedOut t k (record_all k [t0, t1, t2, t3] s)) \<and>
    fst (IsLockedOut t k (record_all k [t0, t1, t2, t3, t4] s)) = (t - t4 < sint (lt_LockoutDuration s)) \<and>
    \<not> fst (IsLockedOut t k (ResetAttempts k (record_all k [t0, t1, t2, t3, t4] s))) \<and>
    fst (IsLockedOut t j (record_all k [t0, t1, t2, t3, t4] s)) = fst (IsLockedOut t j s)"
proof (intro conjI)
  have sane: "sane_time t1" "sane_time t2" "sane_time t3"
    using assms by (auto simp: sane_time_def)
  have win: "\<forall>u \<in> set ([t1, t2, t3] @ [t4]). time_sub u t0 \<le> sint (lt_ResetAfter s)"
    using assms sane by (auto simp: sane_time_sub)
  show "\<not> fst (IsLockedOut t k (record_all k [t0, t1, t2, t3] s))"
    using record_all_open [OF assms(1), of "[t1, t2, t3]" t0 t] assms(2) win by simp
  obtain a where a: "gm_get (lt_attempts (record_all k [t0, t1, t2, t3, t4] s)) k = Some a" "la_lockedAt a = t4"
    using record_all_locks [OF assms(1), of "[t1, t2, t3]" t4 t0] assms(2) win by auto
  then show "fst (IsLockedOut t k (record_all k [t0, t1, t2, t3, t4] s)) = (t - t4 < sint (lt_LockoutDuration s))"
    using assms(9,10) sane_not_zero [OF assms(9)]
    by (simp add: mem_tracker.is_locked_iff attempt_locked_def tracker_config_def sane_time_sub
        del: record_all.simps)
  show "\<not> fst (IsLockedOut t k (ResetAttempts k (record_all k [t0, t1, t2, t3, t4] s)))"
    by (rule mem_tracker.reset_opens)
  show "fst (IsLockedOut t j (record_all k [t0, t1, t2, t3, t4] s)) = fst (IsLockedOut t j s)"
    using assms(12) by (simp add: mem_tracker.other_key_independent)
qed

theorem five_failures_lock_witness:
  "fst (IsLockedOut 1000 ''alice'' (record_all ''alice'' [0, 10, 20, 30, 40] NewLoginAttemptTracker)) \<and>
    \<not> fst (IsLockedOut 1000 ''alice'' (record_all ''alice'' [0, 10, 20, 30] NewLoginAttemptTracker))"
  using five_failures_lock [of NewLoginAttemptTracker "''alice''" 0 10 20 30 40 1000 "''bob''"]
  by (simp add: NewLoginAttemptTracker_def sane_time_def max_duration_def minute_def second_def)

end
