(* ===== verification/GoJson.thy ===== *)
theory GoJson
  imports GoText "HOL-Library.List_Lexorder" "HOL-Library.Char_ord"
begin

section \<open>JSON text of string lists and string maps\<close>

text \<open>
  \<open>encoding/json\<close> as far as the SQL stores use it: \<open>Marshal\<close> of a \<open>[]string\<close> and of a
  \<open>map[string]string\<close>, and \<open>Unmarshal\<close> back into the same types. Strings are bytes; the
  encoder escapes control bytes, quotes, backslashes, the three characters that are special in
  HTML and the two line separators, and writes \<open>\ufffd\<close> for a byte that is not UTF-8. The decoder
  takes every JSON spelling of such a value: white space, all escapes, surrogate pairs, \<open>null\<close>
  for an element. Anything else is an error (\<open>None\<close>).
\<close>

subsection \<open>Hexadecimal digits and UTF-8\<close>

definition hex_digit :: "nat \<Rightarrow> char" where
  "hex_digit n = (if n < 10 then char_of (48 + n) else char_of (87 + n))"

definition hex_val :: "char \<Rightarrow> nat option" where
  "hex_val c =
    (let n = of_char c :: nat in
     if 48 \<le> n \<and> n \<le> 57 then Some (n - 48)
     else if 97 \<le> n \<and> n \<le> 102 then Some (n - 87)
     else if 65 \<le> n \<and> n \<le> 70 then Some (n - 55)
     else None)"

lemma hex_val_digit [simp]: "n < 16 \<Longrightarrow> hex_val (hex_digit n) = Some n"
  by (auto simp: hex_val_def hex_digit_def Let_def)

definition utf8_encode :: "nat \<Rightarrow> string" where
  "utf8_encode r =
    (if r < 0x80 then [char_of r]
     else if r < 0x800 then [char_of (0xC0 + r div 64), char_of (0x80 + r mod 64)]
     else if r < 0x10000 then
       [char_of (0xE0 + r div 4096), char_of (0x80 + r div 64 mod 64), char_of (0x80 + r mod 64)]
     else [char_of (0xF0 + r div 262144), char_of (0x80 + r div 4096 mod 64),
           char_of (0x80 + r div 64 mod 64), char_of (0x80 + r mod 64)])"

definition replacement :: string where
  "replacement = [CHR 0xEF, CHR 0xBF, CHR 0xBD]"

text \<open>The first rune of a string is a byte that is not UTF-8.\<close>

definition bad_byte :: "string \<Rightarrow> bool" where
  "bad_byte s \<longleftrightarrow> s \<noteq> [] \<and> 128 \<le> (of_char (hd s) :: nat) \<and> rune_len s = 1"

function valid_utf8 :: "string \<Rightarrow> bool" where
  "valid_utf8 s = (if s = [] then True else if bad_byte s then False else valid_utf8 (drop (rune_len s) s))"
  by pat_completeness auto
termination
proof (relation "measure length")
  fix s :: string
  assume "s \<noteq> []"
  then show "(drop (rune_len s) s, s) \<in> measure length"
    using rune_len_bounds [of s] by auto
qed simp

declare valid_utf8.simps [simp del]

lemma valid_utf8_Nil [simp]: "valid_utf8 []"
  by (simp add: valid_utf8.simps)

lemma valid_utf8_ascii:
  "\<forall>c \<in> set s. (of_char c :: nat) < 128 \<Longrightarrow> valid_utf8 s"
proof (induction s)
  case (Cons c s)
  then have "rune_len (c # s) = 1" by (simp add: rune_len_def byte_in_def)
  with Cons show ?case by (subst valid_utf8.simps) (simp add: bad_byte_def)
qed simp

subsection \<open>Writing a string\<close>

definition plain_byte :: "char \<Rightarrow> bool" where
  "plain_byte c \<longleftrightarrow> 32 \<le> (of_char c :: nat) \<and> (of_char c :: nat) < 128 \<and>
    c \<notin> {CHR 0x22, CHR 0x5C, CHR ''<'', CHR ''>'', CHR ''&''}"

definition escape_byte :: "char \<Rightarrow> string" where
  "escape_byte c =
    (if c = CHR 0x5C \<or> c = CHR 0x22 then [CHR 0x5C, c]
     else if c = CHR 0x08 then [CHR 0x5C, CHR ''b'']
     else if c = CHR 0x0C then [CHR 0x5C, CHR ''f'']
     else if c = CHR 0x0A then [CHR 0x5C, CHR ''n'']
     else if c = CHR 0x0D then [CHR 0x5C, CHR ''r'']
     else if c = CHR 0x09 then [CHR 0x5C, CHR ''t'']
     else [CHR 0x5C, CHR ''u'', CHR ''0'', CHR ''0'', hex_digit (of_char c div 16), hex_digit (of_char c mod 16)])"

function json_escape :: "string \<Rightarrow> string" where
  "json_escape s =
    (if s = [] then []
     else if (of_char (hd s) :: nat) < 128 then
       (if plain_byte (hd s) then [hd s] else escape_byte (hd s)) @ json_escape (tl s)
     else if bad_byte s then [CHR 0x5C, CHR ''u'', CHR ''f'', CHR ''f'', CHR ''f'', CHR ''d''] @ json_escape (tl s)
     else if take 3 s = [CHR 0xE2, CHR 0x80, CHR 0xA8] then
       [CHR 0x5C, CHR ''u'', CHR ''2'', CHR ''0'', CHR ''2'', CHR ''8''] @ json_escape (drop 3 s)
     else if take 3 s = [CHR 0xE2, CHR 0x80, CHR 0xA9] then
       [CHR 0x5C, CHR ''u'', CHR ''2'', CHR ''0'', CHR ''2'', CHR ''9''] @ json_escape (drop 3 s)
     else take (rune_len s) s @ json_escape (drop (rune_len s) s))"
  by pat_completeness auto
termination
proof (relation "measure length")
  fix s :: string
  assume "s \<noteq> []"
  then show "(tl s, s) \<in> measure length" "(tl s, s) \<in> measure length" by (simp_all add: neq_Nil_conv)
  show "(drop 3 s, s) \<in> measure length" "(drop 3 s, s) \<in> measure length"
    "(drop (rune_len s) s, s) \<in> measure length"
    using \<open>s \<noteq> []\<close> rune_len_bounds [of s] by auto
qed auto

declare json_escape.simps [simp del]

definition json_quote :: "string \<Rightarrow> string" where
  "json_quote s = CHR 0x22 # json_escape s @ [CHR 0x22]"

subsection \<open>Reading a string\<close>

text \<open>The value of a \<open>\uXXXX\<close> at the head of a text.\<close>

definition getu4 :: "string \<Rightarrow> nat option" where
  "getu4 s =
    (if length s < 6 \<or> s ! 0 \<noteq> CHR 0x5C \<or> s ! 1 \<noteq> CHR ''u'' then None
     else case (hex_val (s ! 2), hex_val (s ! 3), hex_val (s ! 4), hex_val (s ! 5)) of
       (Some a, Some b, Some c, Some d) \<Rightarrow> Some (((a * 16 + b) * 16 + c) * 16 + d)
     | _ \<Rightarrow> None)"

text \<open>The rune of an escape and the bytes it takes, a surrogate pair counted as one.\<close>

definition unescape_u :: "string \<Rightarrow> (string \<times> nat) option" where
  "unescape_u s =
    (case getu4 s of
       None \<Rightarrow> None
     | Some r \<Rightarrow>
         if 0xD800 \<le> r \<and> r < 0xE000 then
           (case getu4 (drop 6 s) of
              Some r2 \<Rightarrow>
                if r < 0xDC00 \<and> 0xDC00 \<le> r2 \<and> r2 < 0xE000
                then Some (utf8_encode ((r - 0xD800) * 1024 + (r2 - 0xDC00) + 0x10000), 12)
                else Some (replacement, 6)
            | None \<Rightarrow> Some (replacement, 6))
         else Some (utf8_encode r, 6))"

definition unescape_char :: "char \<Rightarrow> char option" where
  "unescape_char c =
    (if c \<in> {CHR 0x22, CHR 0x5C, CHR ''/''} then Some c
     else if c = CHR ''b'' then Some (CHR 0x08)
     else if c = CHR ''f'' then Some (CHR 0x0C)
     else if c = CHR ''n'' then Some (CHR 0x0A)
     else if c = CHR ''r'' then Some (CHR 0x0D)
     else if c = CHR ''t'' then Some (CHR 0x09)
     else None)"

text \<open>One step inside a string literal: the bytes it stands for and how many it takes.\<close>

definition decode_step :: "string \<Rightarrow> (string \<times> nat) option" where
  "decode_step s =
    (if hd s = CHR 0x5C then
       (if length s < 2 then None
        else if s ! 1 = CHR ''u'' then unescape_u s
        else map_option (\<lambda>c. ([c], 2)) (unescape_char (s ! 1)))
     else if (of_char (hd s) :: nat) < 32 then None
     else if bad_byte s then Some (replacement, 1)
     else Some (take (rune_len s) s, rune_len s))"

lemma decode_step_pos: "s \<noteq> [] \<Longrightarrow> decode_step s = Some (x, n) \<Longrightarrow> 0 < n"
  using rune_len_bounds [of s]
  by (auto simp: decode_step_def unescape_u_def split: if_splits option.splits)

text \<open>The contents of a literal up to the closing quote, and the text behind it.\<close>

function decode_str :: "string \<Rightarrow> (string \<times> string) option" where
  "decode_str s =
    (if s = [] then None
     else if hd s = CHR 0x22 then Some ([], tl s)
     else case decode_step s of
       None \<Rightarrow> None
     | Some (x, n) \<Rightarrow>
         (case decode_str (drop n s) of None \<Rightarrow> None | Some (y, rest) \<Rightarrow> Some (x @ y, rest)))"
  by pat_completeness auto
termination
proof (relation "measure length")
  fix s x and p :: "string \<times> nat" and y n
  assume "s \<noteq> []" "decode_step s = Some p" "(y, n) = p"
  then show "(drop n s, s) \<in> measure length" using decode_step_pos [of s y n] by auto
qed simp

declare decode_str.simps [simp del]

lemma decode_str_shorter: "decode_str s = Some (x, rest) \<Longrightarrow> length rest < length s"
proof (induction s arbitrary: x rest rule: decode_str.induct)
  case (1 s)
  show ?case
  proof (cases "s = [] \<or> hd s = CHR 0x22")
    case True
    with "1.prems" show ?thesis by (auto simp: decode_str.simps [of s] neq_Nil_conv split: if_splits)
  next
    case False
    with "1.prems" obtain y n z where d: "decode_step s = Some (y, n)" "decode_str (drop n s) = Some (z, rest)"
      by (subst (asm) decode_str.simps) (auto split: option.splits)
    with "1.IH" [OF _ _ d(1) refl d(2)] False decode_step_pos [of s y n] show ?thesis by auto
  qed
qed

subsection \<open>What is written reads back\<close>

text \<open>The three shapes of a rune of more than one byte.\<close>

definition rune2 :: "string \<Rightarrow> bool" where
  "rune2 s \<longleftrightarrow> byte_in 0xC2 0xDF s 0 \<and> byte_in 0x80 0xBF s 1"

definition rune3 :: "string \<Rightarrow> bool" where
  "rune3 s \<longleftrightarrow> (byte_in 0xE0 0xE0 s 0 \<and> byte_in 0xA0 0xBF s 1 \<or>
     byte_in 0xE1 0xEC s 0 \<and> byte_in 0x80 0xBF s 1 \<or>
     byte_in 0xED 0xED s 0 \<and> byte_in 0x80 0x9F s 1 \<or>
     byte_in 0xEE 0xEF s 0 \<and> byte_in 0x80 0xBF s 1) \<and> byte_in 0x80 0xBF s 2"

definition rune4 :: "string \<Rightarrow> bool" where
  "rune4 s \<longleftrightarrow> (byte_in 0xF0 0xF0 s 0 \<and> byte_in 0x90 0xBF s 1 \<or>
     byte_in 0xF1 0xF3 s 0 \<and> byte_in 0x80 0xBF s 1 \<or>
     byte_in 0xF4 0xF4 s 0 \<and> byte_in 0x80 0x8F s 1) \<and> byte_in 0x80 0xBF s 2 \<and> byte_in 0x80 0xBF s 3"

lemma rune_len_shapes:
  "s \<noteq> [] \<Longrightarrow> rune_len s = (if rune2 s then 2 else if rune3 s then 3 else if rune4 s then 4 else 1)"
  unfolding rune_len_def rune2_def rune3_def rune4_def by (simp only: if_False)

lemma byte_in_prefix: "k < n \<Longrightarrow> n \<le> length s \<Longrightarrow> byte_in lo hi (take n s @ t) k = byte_in lo hi s k"
  by (simp add: byte_in_def nth_append)

lemma rune_shapes_prefix:
  assumes "n \<le> length s"
  shows "2 \<le> n \<Longrightarrow> rune2 (take n s @ t) = rune2 s" "3 \<le> n \<Longrightarrow> rune3 (take n s @ t) = rune3 s"
    "4 \<le> n \<Longrightarrow> rune4 (take n s @ t) = rune4 s"
  using assms by (simp_all add: rune2_def rune3_def rune4_def byte_in_prefix)

lemma rune_len_prefix:
  assumes "rune_len s = n" "2 \<le> n"
  shows "rune_len (take n s @ t) = n"
proof -
  have s: "s \<noteq> []" using assms by (auto simp: rune_len_def)
  with assms have len: "n \<le> length s" "n \<le> 4" using rune_len_bounds [of s] by auto
  have ne: "take n s @ t \<noteq> []" using s assms(2) by simp
  note shape = rune_shapes_prefix [OF len(1), of t]
  from assms(2) len(2) consider "n = 2" | "n = 3" | "n = 4" by linarith
  then show ?thesis
    using assms(1) shape unfolding rune_len_shapes [OF s] rune_len_shapes [OF ne] by cases (auto split: if_splits)
qed

lemma rune_len_high: "2 \<le> rune_len s \<Longrightarrow> 128 \<le> (of_char (hd s) :: nat)"
proof -
  assume r: "2 \<le> rune_len s"
  then have s: "s \<noteq> []" by (auto simp: rune_len_def)
  with r have "rune2 s \<or> rune3 s \<or> rune4 s" by (auto simp: rune_len_shapes split: if_splits)
  with s show ?thesis by (auto simp: rune2_def rune3_def rune4_def byte_in_def hd_conv_nth)
qed

text \<open>Every piece the encoder writes is one step of the decoder.\<close>

lemma decode_str_step:
  assumes "s \<noteq> []" "hd s \<noteq> CHR 0x22" "decode_step s = Some (x, n)"
  shows "decode_str s = (case decode_str (drop n s) of None \<Rightarrow> None | Some (y, rest) \<Rightarrow> Some (x @ y, rest))"
  using assms by (subst decode_str.simps) simp

lemma getu4_digits:
  "hex_val a = Some i \<Longrightarrow> hex_val b = Some j \<Longrightarrow> hex_val c = Some k \<Longrightarrow> hex_val d = Some l \<Longrightarrow>
    getu4 (CHR 0x5C # CHR ''u'' # a # b # c # d # t) = Some (((i * 16 + j) * 16 + k) * 16 + l)"
  by (simp add: getu4_def)

lemma decode_step_u:
  "getu4 (CHR 0x5C # CHR ''u'' # s) = Some r \<Longrightarrow> r < 0xD800 \<Longrightarrow>
    decode_step (CHR 0x5C # CHR ''u'' # s) = Some (utf8_encode r, 6)"
  by (simp add: decode_step_def unescape_u_def)

lemma decode_u00:
  assumes "n < 128"
  shows "decode_step (CHR 0x5C # CHR ''u'' # CHR ''0'' # CHR ''0'' # hex_digit (n div 16) # hex_digit (n mod 16) # t)
    = Some ([char_of n], 6)"
proof -
  have z: "hex_val CHR ''0'' = Some 0" by code_simp
  have "getu4 (CHR 0x5C # CHR ''u'' # CHR ''0'' # CHR ''0'' # hex_digit (n div 16) # hex_digit (n mod 16) # t) =
      Some (((0 * 16 + 0) * 16 + n div 16) * 16 + n mod 16)"
    using assms by (intro getu4_digits z hex_val_digit) simp_all
  then have "getu4 (CHR 0x5C # CHR ''u'' # CHR ''0'' # CHR ''0'' # hex_digit (n div 16) # hex_digit (n mod 16) # t) = Some n"
    by simp
  from decode_step_u [OF this] assms show ?thesis by (simp add: utf8_encode_def)
qed

lemma decode_escape_byte:
  assumes "(of_char c :: nat) < 128" "\<not> plain_byte c"
  shows "\<exists>n. decode_step (escape_byte c @ t) = Some ([c], n) \<and> drop n (escape_byte c @ t) = t \<and>
    hd (escape_byte c) = CHR 0x5C"
proof (cases "c \<in> {CHR 0x5C, CHR 0x22, CHR 0x08, CHR 0x0C, CHR 0x0A, CHR 0x0D, CHR 0x09}")
  case True
  then show ?thesis
    by (intro exI [where x = 2]) (auto simp: escape_byte_def decode_step_def unescape_char_def)
next
  case False
  then have e: "escape_byte c = [CHR 0x5C, CHR ''u'', CHR ''0'', CHR ''0'', hex_digit (of_char c div 16), hex_digit (of_char c mod 16)]"
    by (simp add: escape_byte_def)
  show ?thesis
    using decode_u00 [OF assms(1), of t] by (intro exI [where x = 6]) (simp add: e)
qed

lemma decode_plain:
  assumes "plain_byte c"
  shows "decode_step (c # t) = Some ([c], 1)"
proof -
  from assms have c: "32 \<le> (of_char c :: nat)" "(of_char c :: nat) < 128" "c \<noteq> CHR 0x5C" by (auto simp: plain_byte_def)
  then have "rune_len (c # t) = 1" by (simp add: rune_len_def byte_in_def)
  with c show ?thesis by (simp add: decode_step_def bad_byte_def)
qed

lemma decode_separators:
  "decode_step (CHR 0x5C # CHR ''u'' # CHR ''2'' # CHR ''0'' # CHR ''2'' # CHR ''8'' # t) = Some ([CHR 0xE2, CHR 0x80, CHR 0xA8], 6)"
  "decode_step (CHR 0x5C # CHR ''u'' # CHR ''2'' # CHR ''0'' # CHR ''2'' # CHR ''9'' # t) = Some ([CHR 0xE2, CHR 0x80, CHR 0xA9], 6)"
proof -
  have v: "hex_val CHR ''0'' = Some 0" "hex_val CHR ''2'' = Some 2" "hex_val CHR ''8'' = Some 8" "hex_val CHR ''9'' = Some 9"
    by code_simp+
  have c: "char_of (226 :: nat) = CHR 0xE2" "char_of (128 :: nat) = CHR 0x80" "char_of (168 :: nat) = CHR 0xA8"
    "char_of (169 :: nat) = CHR 0xA9"
    by code_simp+
  have e: "utf8_encode 8232 = [CHR 0xE2, CHR 0x80, CHR 0xA8]" "utf8_encode 8233 = [CHR 0xE2, CHR 0x80, CHR 0xA9]"
    by (simp_all add: utf8_encode_def c)
  have g: "getu4 (CHR 0x5C # CHR ''u'' # CHR ''2'' # CHR ''0'' # CHR ''2'' # CHR ''8'' # t) = Some 8232"
    "getu4 (CHR 0x5C # CHR ''u'' # CHR ''2'' # CHR ''0'' # CHR ''2'' # CHR ''9'' # t) = Some 8233"
    using getu4_digits [OF v(2) v(1) v(2) v(3), of t] getu4_digits [OF v(2) v(1) v(2) v(4), of t] by simp_all
  show "decode_step (CHR 0x5C # CHR ''u'' # CHR ''2'' # CHR ''0'' # CHR ''2'' # CHR ''8'' # t) = Some ([CHR 0xE2, CHR 0x80, CHR 0xA8], 6)"
    by (rule decode_step_u [OF g(1), unfolded e]) simp
  show "decode_step (CHR 0x5C # CHR ''u'' # CHR ''2'' # CHR ''0'' # CHR ''2'' # CHR ''9'' # t) = Some ([CHR 0xE2, CHR 0x80, CHR 0xA9], 6)"
    by (rule decode_step_u [OF g(2), unfolded e]) simp
qed

lemma decode_rune:
  assumes "2 \<le> rune_len s"
  shows "decode_step (take (rune_len s) s @ t) = Some (take (rune_len s) s, rune_len s)"
    "hd (take (rune_len s) s @ t) = hd s" "length (take (rune_len s) s) = rune_len s"
proof -
  have s: "s \<noteq> []" using assms by (auto simp: rune_len_def)
  then have len: "rune_len s \<le> length s" using rune_len_bounds [of s] by simp
  then show l: "length (take (rune_len s) s) = rune_len s" by simp
  have hd: "hd (take (rune_len s) s @ t) = hd s" using assms s by (cases s) (auto simp: take_Cons')
  then show "hd (take (rune_len s) s @ t) = hd s" .
  have high: "128 \<le> (of_char (hd s) :: nat)" by (rule rune_len_high [OF assms])
  have r: "rune_len (take (rune_len s) s @ t) = rune_len s" by (rule rune_len_prefix [OF refl assms])
  have "hd s \<noteq> CHR 0x5C" using high by auto
  then show "decode_step (take (rune_len s) s @ t) = Some (take (rune_len s) s, rune_len s)"
    using high assms hd r l by (simp add: decode_step_def bad_byte_def)
qed

theorem decode_escape:
  "valid_utf8 s \<Longrightarrow> decode_str (json_escape s @ CHR 0x22 # t) = Some (s, t)"
proof (induction s rule: json_escape.induct)
  case (1 s)
  show ?case
  proof (cases "s = []")
    case True
    then show ?thesis by (simp add: json_escape.simps decode_str.simps)
  next
    case False
    have ok: "\<not> bad_byte s" "valid_utf8 (drop (rune_len s) s)"
      using "1.prems" False by (auto simp: valid_utf8.simps [of s] split: if_splits)
    show ?thesis
    proof (cases "(of_char (hd s) :: nat) < 128")
      case True
      have "rune_len s = 1"
        using rune_len_high [of s] rune_len_bounds [OF False] True by (metis One_nat_def Suc_leI le_antisym linorder_not_le nat_less_le numeral_2_eq_2)
      with ok have "valid_utf8 (tl s)" by (simp add: drop_Suc)
      with "1.IH"(1) False True have ih: "decode_str (json_escape (tl s) @ CHR 0x22 # t) = Some (tl s, t)" by simp
      let ?rest = "json_escape (tl s) @ CHR 0x22 # t"
      show ?thesis
      proof (cases "plain_byte (hd s)")
        case plain: True
        have "hd s \<noteq> CHR 0x22" using plain by (simp add: plain_byte_def)
        then have "decode_str (hd s # ?rest) = Some (hd s # tl s, t)"
          using decode_str_step [of "hd s # ?rest" "[hd s]" 1] decode_plain [OF plain, of ?rest] ih by simp
        then show ?thesis using False True plain by (simp add: json_escape.simps [of s])
      next
        case np: False
        obtain n where n: "decode_step (escape_byte (hd s) @ ?rest) = Some ([hd s], n)"
          "drop n (escape_byte (hd s) @ ?rest) = ?rest" "hd (escape_byte (hd s)) = CHR 0x5C"
          using decode_escape_byte [OF True np, of ?rest] by blast
        have "escape_byte (hd s) \<noteq> []" by (simp add: escape_byte_def)
        then have "decode_str (escape_byte (hd s) @ ?rest) = Some (hd s # tl s, t)"
          using decode_str_step [of "escape_byte (hd s) @ ?rest" "[hd s]" n] n ih by simp
        then show ?thesis using False True np by (simp add: json_escape.simps [of s])
      qed
    next
      case high: False
      then have two: "2 \<le> rune_len s"
        using ok(1) False rune_len_bounds [OF False] by (cases "rune_len s = 1") (auto simp: bad_byte_def)
      note rune = decode_rune [OF two]
      have nq: "hd s \<noteq> CHR 0x22" using high by auto
      show ?thesis
      proof (cases "take 3 s \<in> {[CHR 0xE2, CHR 0x80, CHR 0xA8], [CHR 0xE2, CHR 0x80, CHR 0xA9]}")
        case sep: True
        then obtain c where c: "take 3 s = [CHR 0xE2, CHR 0x80, c]" "c = CHR 0xA8 \<or> c = CHR 0xA9" by auto
        then have s: "CHR 0xE2 # CHR 0x80 # c # drop 3 s = s"
          by (metis append_Cons append_Nil append_take_drop_id)
        have "rune_len (CHR 0xE2 # CHR 0x80 # c # drop 3 s) = 3"
          using c(2) by (auto simp: rune_len_def byte_in_def)
        with s have "rune_len s = 3" by simp
        with ok "1.IH"(3,4) False high sep have
          ih: "decode_str (json_escape (drop 3 s) @ CHR 0x22 # t) = Some (drop 3 s, t)" by auto
        let ?rest = "json_escape (drop 3 s) @ CHR 0x22 # t"
        note sep8 = decode_str_step [OF _ _ decode_separators(1), of ?rest]
          and sep9 = decode_str_step [OF _ _ decode_separators(2), of ?rest]
        from c(2) show ?thesis
        proof
          assume c8: "c = CHR 0xA8"
          then have "json_escape s @ CHR 0x22 # t = CHR 0x5C # CHR ''u'' # CHR ''2'' # CHR ''0'' # CHR ''2'' # CHR ''8'' # ?rest"
            using False high ok(1) c(1) by (subst json_escape.simps) simp
          then show ?thesis using sep8 ih s c8 by simp
        next
          assume c9: "c = CHR 0xA9"
          then have "json_escape s @ CHR 0x22 # t = CHR 0x5C # CHR ''u'' # CHR ''2'' # CHR ''0'' # CHR ''2'' # CHR ''9'' # ?rest"
            using False high ok(1) c(1) by (subst json_escape.simps) simp
          then show ?thesis using sep9 ih s c9 by simp
        qed
      next
        case ns: False
        with ok "1.IH"(5) False high have
          ih: "decode_str (json_escape (drop (rune_len s) s) @ CHR 0x22 # t) = Some (drop (rune_len s) s, t)" by auto
        have "decode_str (take (rune_len s) s @ json_escape (drop (rune_len s) s) @ CHR 0x22 # t) = Some (s, t)"
          using decode_str_step [OF _ _ rune(1)] rune(2,3) nq ih two by (auto simp: )
        then show ?thesis using ns False high ok(1) by (simp add: json_escape.simps [of s])
      qed
    qed
  qed
qed

subsection \<open>Lists of strings\<close>

definition is_ws :: "char \<Rightarrow> bool" where
  "is_ws c \<longleftrightarrow> c \<in> {CHR '' '', CHR 0x09, CHR 0x0A, CHR 0x0D}"

definition skip_ws :: "string \<Rightarrow> string" where
  "skip_ws s = dropWhile is_ws s"

lemma skip_ws_length: "length (skip_ws s) \<le> length s"
  by (simp add: skip_ws_def length_dropWhile_le)

lemma skip_ws_Cons [simp]: "\<not> is_ws c \<Longrightarrow> skip_ws (c # s) = c # s"
  by (simp add: skip_ws_def)

lemma skip_ws_Nil [simp]: "skip_ws [] = []"
  by (simp add: skip_ws_def)

lemma punctuation_not_ws [simp]:
  "\<not> is_ws (CHR 0x22)" "\<not> is_ws (CHR '','')" "\<not> is_ws (CHR '']'')" "\<not> is_ws (CHR ''['')"
  "\<not> is_ws (CHR '':'')" "\<not> is_ws (CHR ''{'')" "\<not> is_ws (CHR ''}'')"
  by (simp_all add: is_ws_def)

text \<open>An element: a string, or \<open>null\<close>, which leaves the zero value.\<close>

definition decode_elem :: "string \<Rightarrow> (string \<times> string) option" where
  "decode_elem s =
    (if s = [] then None
     else if hd s = CHR 0x22 then decode_str (tl s)
     else if has_prefix s ''null'' then Some ([], drop 4 s)
     else None)"

lemma decode_elem_shorter: "decode_elem s = Some (x, rest) \<Longrightarrow> length rest < length s"
  using decode_str_shorter [of "tl s" x rest] by (auto simp: decode_elem_def split: if_splits)

lemma decode_elem_quote [simp]: "valid_utf8 x \<Longrightarrow> decode_elem (json_quote x @ t) = Some (x, t)"
  by (simp add: decode_elem_def json_quote_def decode_escape)

text \<open>Elements separated by commas, up to the closing bracket.\<close>

function decode_elems :: "string \<Rightarrow> (string list \<times> string) option" where
  "decode_elems s =
    (case decode_elem (skip_ws s) of
       None \<Rightarrow> None
     | Some (x, rest) \<Rightarrow>
         let r = skip_ws rest in
         if r = [] then None
         else if hd r = CHR '','' then map_option (\<lambda>(xs, t). (x # xs, t)) (decode_elems (tl r))
         else if hd r = CHR '']'' then Some ([x], tl r)
         else None)"
  by pat_completeness auto
termination
proof (relation "measure length")
  fix s :: string and p :: "string \<times> string" and x rest r
  assume "decode_elem (skip_ws s) = Some p" "(x, rest) = p" "r = skip_ws rest"
  then show "(tl r, s) \<in> measure length"
    using decode_elem_shorter [of "skip_ws s" x rest] skip_ws_length [of s] skip_ws_length [of rest] by simp
qed simp

declare decode_elems.simps [simp del]

definition encodeStringSlice :: "string list option \<Rightarrow> string" where
  "encodeStringSlice xs =
    (case xs of None \<Rightarrow> ''null'' | Some l \<Rightarrow> CHR ''['' # join (map json_quote l) '','' @ '']'')"

text \<open>Nothing but white space may follow the value.\<close>

definition at_end :: "('a \<times> string) option \<Rightarrow> 'a option" where
  "at_end p = (case p of None \<Rightarrow> None | Some (x, rest) \<Rightarrow> if skip_ws rest = [] then Some x else None)"

definition decodeStringSlice :: "string \<Rightarrow> string list option" where
  "decodeStringSlice s =
    (if s = [] \<or> s = ''null'' then Some []
     else let t = skip_ws s in
       if has_prefix t ''null'' then at_end (Some ([], drop 4 t))
       else if t = [] \<or> hd t \<noteq> CHR ''['' then None
       else let u = skip_ws (tl t) in
         if u \<noteq> [] \<and> hd u = CHR '']'' then at_end (Some ([], tl u))
         else at_end (decode_elems (tl t)))"

lemma json_quote_head: "\<exists>u. json_quote x @ t = CHR 0x22 # u"
  by (simp add: json_quote_def)

lemma decode_elems_list:
  "xs \<noteq> [] \<Longrightarrow> \<forall>x \<in> set xs. valid_utf8 x \<Longrightarrow>
    decode_elems (join (map json_quote xs) '','' @ CHR '']'' # t) = Some (xs, t)"
proof (induction xs)
  case (Cons x xs)
  have head: "skip_ws (json_quote x @ u) = json_quote x @ u" for u
    using json_quote_head [of x u] by auto
  show ?case
  proof (cases xs)
    case Nil
    then show ?thesis using Cons.prems head [of "CHR '']'' # t"]
      by (subst decode_elems.simps) simp
  next
    case (Cons y ys)
    let ?rest = "join (map json_quote xs) '','' @ CHR '']'' # t"
    have "join (map json_quote (x # xs)) '','' @ CHR '']'' # t = json_quote x @ CHR '','' # ?rest"
      using Cons by simp
    then show ?thesis using Cons.IH Cons.prems Cons head [of "CHR '','' # ?rest"]
      by (subst decode_elems.simps) simp
  qed
qed simp

theorem slice_round_trip:
  "\<forall>xs. l = Some xs \<longrightarrow> (\<forall>x \<in> set xs. valid_utf8 x) \<Longrightarrow>
    decodeStringSlice (encodeStringSlice l) = Some (case l of None \<Rightarrow> [] | Some xs \<Rightarrow> xs)"
proof (cases l)
  case None
  then show ?thesis by (simp add: encodeStringSlice_def decodeStringSlice_def)
next
  case (Some xs)
  assume "\<forall>xs. l = Some xs \<longrightarrow> (\<forall>x \<in> set xs. valid_utf8 x)"
  with Some have v: "\<forall>x \<in> set xs. valid_utf8 x" by simp
  show ?thesis
  proof (cases xs)
    case Nil
    then show ?thesis using Some by (simp add: encodeStringSlice_def decodeStringSlice_def at_end_def has_prefix_def)
  next
    case (Cons y ys)
    obtain u where u: "join (map json_quote xs) '','' @ '']'' = CHR 0x22 # u"
      using Cons by (cases ys) (auto simp: json_quote_def)
    then have e: "encodeStringSlice (Some xs) = CHR ''['' # CHR 0x22 # u" by (simp add: encodeStringSlice_def)
    have "decode_elems (CHR 0x22 # u) = Some (xs, [])"
      using decode_elems_list [of xs "[]"] v Cons u by simp
    then show ?thesis by (simp add: Some e decodeStringSlice_def at_end_def has_prefix_def)
  qed
qed

subsection \<open>Maps of strings\<close>

text \<open>Keys in the order of their bytes; a key that comes twice keeps its last value.\<close>

definition encode_member :: "string \<times> string \<Rightarrow> string" where
  "encode_member kv = json_quote (fst kv) @ CHR '':'' # json_quote (snd kv)"

definition encodeStringMap :: "(string, string) gomap option \<Rightarrow> string" where
  "encodeStringMap m =
    (case m of
       None \<Rightarrow> ''null''
     | Some kvs \<Rightarrow> CHR ''{'' # join (map encode_member (sort_key fst kvs)) '','' @ ''}'')"

definition decode_member :: "string \<Rightarrow> ((string \<times> string) \<times> string) option" where
  "decode_member s =
    (if s = [] \<or> hd s \<noteq> CHR 0x22 then None
     else case decode_str (tl s) of
       None \<Rightarrow> None
     | Some (k, rest) \<Rightarrow>
         let r = skip_ws rest in
         if r = [] \<or> hd r \<noteq> CHR '':'' then None
         else map_option (\<lambda>(v, t). ((k, v), t)) (decode_elem (skip_ws (tl r))))"

lemma decode_member_shorter: "decode_member s = Some (x, rest) \<Longrightarrow> length rest < length s"
proof -
  assume "decode_member s = Some (x, rest)"
  then obtain k r v where r: "s \<noteq> []" "decode_str (tl s) = Some (k, r)" "decode_elem (skip_ws (tl (skip_ws r))) = Some (v, rest)"
    by (auto simp: decode_member_def Let_def split: if_splits option.splits)
  have "length rest < length (skip_ws (tl (skip_ws r)))" using decode_elem_shorter [OF r(3)] .
  also have "\<dots> \<le> length (tl (skip_ws r))" by (rule skip_ws_length)
  also have "\<dots> \<le> length r" using skip_ws_length [of r] by simp
  also have "\<dots> < length s" using decode_str_shorter [OF r(2)] by simp
  finally show ?thesis .
qed

function decode_members :: "string \<Rightarrow> (string, string) gomap \<Rightarrow> ((string, string) gomap \<times> string) option" where
  "decode_members s acc =
    (case decode_member (skip_ws s) of
       None \<Rightarrow> None
     | Some ((k, v), rest) \<Rightarrow>
         let r = skip_ws rest in
         if r = [] then None
         else if hd r = CHR '','' then decode_members (tl r) (gm_put k v acc)
         else if hd r = CHR ''}'' then Some (gm_put k v acc, tl r)
         else None)"
  by pat_completeness auto
termination
proof (relation "measure (length \<circ> fst)")
  fix s :: string and acc :: "(string, string) gomap" and p :: "(string \<times> string) \<times> string" and q k v rest r
  assume "decode_member (skip_ws s) = Some p" "(q, rest) = p" "(k, v) = q" "r = skip_ws rest"
  then show "((tl r, gm_put k v acc), s, acc) \<in> measure (length \<circ> fst)"
    using decode_member_shorter [of "skip_ws s" q rest] skip_ws_length [of s] skip_ws_length [of rest] by simp
qed simp

declare decode_members.simps [simp del]

definition decodeStringMap :: "string \<Rightarrow> (string, string) gomap option" where
  "decodeStringMap s =
    (if s = [] \<or> s = ''null'' then Some []
     else let t = skip_ws s in
       if has_prefix t ''null'' then at_end (Some ([], drop 4 t))
       else if t = [] \<or> hd t \<noteq> CHR ''{'' then None
       else let u = skip_ws (tl t) in
         if u \<noteq> [] \<and> hd u = CHR ''}'' then at_end (Some ([], tl u))
         else at_end (decode_members (tl t) []))"

lemma decode_member_encode:
  "valid_utf8 (fst kv) \<Longrightarrow> valid_utf8 (snd kv) \<Longrightarrow> decode_member (encode_member kv @ t) = Some (kv, t)"
proof -
  assume v: "valid_utf8 (fst kv)" "valid_utf8 (snd kv)"
  obtain u where u: "json_quote (snd kv) @ t = CHR 0x22 # u" using json_quote_head by blast
  with v(2) have d: "decode_elem (CHR 0x22 # u) = Some (snd kv, t)" by (metis decode_elem_quote)
  have "encode_member kv @ t = CHR 0x22 # json_escape (fst kv) @ CHR 0x22 # CHR '':'' # CHR 0x22 # u"
    using u by (simp add: encode_member_def json_quote_def [of "fst kv"])
  then show ?thesis using v(1) d by (simp add: decode_member_def decode_escape)
qed

lemma decode_members_list:
  "kvs \<noteq> [] \<Longrightarrow> \<forall>(k, v) \<in> set kvs. valid_utf8 k \<and> valid_utf8 v \<Longrightarrow>
    decode_members (join (map encode_member kvs) '','' @ CHR ''}'' # t) acc =
      Some (fold (\<lambda>(k, v). gm_put k v) kvs acc, t)"
proof (induction kvs arbitrary: acc)
  case (Cons kv kvs)
  have head: "skip_ws (encode_member kv @ u) = encode_member kv @ u" for u
    by (simp add: encode_member_def json_quote_def)
  obtain k v where kv: "kv = (k, v)" by (cases kv)
  have m: "decode_member (encode_member kv @ u) = Some (kv, u)" for u
    using Cons.prems by (intro decode_member_encode) (auto simp: kv)
  show ?case
  proof (cases kvs)
    case Nil
    then show ?thesis using m [of "CHR ''}'' # t"] head [of "CHR ''}'' # t"]
      by (subst decode_members.simps) (simp add: kv)
  next
    case (Cons y ys)
    let ?rest = "join (map encode_member kvs) '','' @ CHR ''}'' # t"
    have "join (map encode_member (kv # kvs)) '','' @ CHR ''}'' # t = encode_member kv @ CHR '','' # ?rest"
      using Cons by simp
    then show ?thesis using Cons.IH Cons.prems Cons m [of "CHR '','' # ?rest"] head [of "CHR '','' # ?rest"]
      by (subst decode_members.simps) (simp add: kv)
  qed
qed simp

lemma fold_put_distinct:
  "distinct (map fst acc @ map fst kvs) \<Longrightarrow> fold (\<lambda>(k, v). gm_put k v) kvs acc = acc @ kvs"
proof (induction kvs arbitrary: acc)
  case (Cons kv kvs)
  obtain k v where kv: "kv = (k, v)" by (cases kv)
  have new: "k \<notin> fst ` set acc" using Cons.prems by (auto simp: kv)
  have "gm_put k v acc = acc @ [(k, v)]"
    using new by (induction acc) auto
  with Cons show ?case by (auto simp: kv)
qed simp

lemma gm_wf_sort [simp]: "gm_wf kvs \<Longrightarrow> gm_wf (sort_key fst kvs)"
  by (simp add: distinct_map)

theorem map_round_trip:
  assumes "gm_wf kvs" "\<forall>(k, v) \<in> set kvs. valid_utf8 k \<and> valid_utf8 v"
  shows "decodeStringMap (encodeStringMap (Some kvs)) = Some (sort_key fst kvs)"
proof (cases kvs)
  case Nil
  then show ?thesis by (simp add: encodeStringMap_def decodeStringMap_def at_end_def has_prefix_def)
next
  case (Cons y ys)
  let ?l = "sort_key fst kvs"
  have ne: "?l \<noteq> []" using Cons by (metis length_0_conv length_sort list.distinct(1))
  then obtain z zs where z: "?l = z # zs" by (cases ?l) auto
  obtain u where u: "join (map encode_member ?l) '','' @ ''}'' = CHR 0x22 # u"
    by (cases zs) (auto simp: z encode_member_def json_quote_def)
  have "distinct (map fst ?l)" using assms(1) by simp
  then have "fold (\<lambda>(k, v). gm_put k v) ?l [] = ?l" using fold_put_distinct [of "[]" ?l] by simp
  then show ?thesis
    using decode_members_list [of ?l "[]" "[]"] assms(2) ne u
    by (simp add: encodeStringMap_def decodeStringMap_def at_end_def has_prefix_def)
qed

lemma sort_key_get: "gm_wf kvs \<Longrightarrow> gm_get (sort_key fst kvs) = gm_get kvs"
  by (intro map_of_inject_set [THEN iffD2]) (simp_all)

end
