(* ===== verification/Sql_Tables.thy ===== *)
theory Sql_Tables
  imports GoJson Store_Interfaces "HOL-Library.Multiset"
begin

section \<open>Tables of the database\<close>

text \<open>
  The SQL stores reach the database through GORM, which is not part of this repository. What they
  use of it is a parameter: a \<open>sql_table\<close> has the statements the stores issue against one table,
  over the state \<open>'w\<close> of the database. A \<open>WHERE\<close> clause is a predicate on rows and an \<open>UPDATE\<close> a
  function on rows. \<open>NotFound\<close> is \<open>gorm.ErrRecordNotFound\<close>, \<open>Duplicate\<close> a violated unique index.

  The locale \<open>sql_table_laws\<close> states what the documentation of GORM and of SQL promises of these
  statements on a database that is up. It is interpreted on \<open>list_table\<close>, tables as lists of rows.
\<close>

record 'r query =
  qy_where :: "'r \<Rightarrow> bool"
  qy_order :: "('r \<Rightarrow> 'r \<Rightarrow> bool) option"
  qy_offset :: "goint option"
  qy_limit :: "goint option"

record ('r, 'w) sql_table =
  tb_First :: "('r \<Rightarrow> bool) \<Rightarrow> 'w \<Rightarrow> store_error + 'r"
  tb_Find :: "'r query \<Rightarrow> 'w \<Rightarrow> store_error + 'r list"
  tb_Count :: "('r \<Rightarrow> bool) \<Rightarrow> 'w \<Rightarrow> store_error + nat"
  tb_Create :: "'r \<Rightarrow> 'w \<Rightarrow> store_error option \<times> 'w"
  tb_Save :: "'r \<Rightarrow> 'w \<Rightarrow> store_error option \<times> 'w"
  tb_Update :: "('r \<Rightarrow> bool) \<Rightarrow> ('r \<Rightarrow> 'r) \<Rightarrow> 'w \<Rightarrow> (store_error + nat) \<times> 'w"
  tb_Delete :: "('r \<Rightarrow> bool) \<Rightarrow> 'w \<Rightarrow> (store_error + nat) \<times> 'w"

definition all_where :: "('r \<Rightarrow> bool) \<Rightarrow> 'r query" where
  "all_where P = \<lparr>qy_where = P, qy_order = None, qy_offset = None, qy_limit = None\<rparr>"

lemma all_where_simps [simp]:
  "qy_where (all_where P) = P" "qy_order (all_where P) = None" "qy_offset (all_where P) = None"
  "qy_limit (all_where P) = None"
  by (simp_all add: all_where_def)

text \<open>
  \<open>key\<close> is the primary key of a row and \<open>clash\<close> says that two rows of different keys violate a
  unique index. A statement that fails changes nothing.
\<close>

locale sql_table_laws =
  fixes tb :: "('r, 'w) sql_table"
    and rows :: "'w \<Rightarrow> 'r list"
    and key :: "'r \<Rightarrow> 'k"
    and clash :: "'r \<Rightarrow> 'r \<Rightarrow> bool"
  assumes first_row: "tb_First tb P w = Inr r \<Longrightarrow> r \<in> set (rows w) \<and> P r"
    and first_none: "tb_First tb P w = Inl e \<Longrightarrow> e = NotFound \<and> (\<forall>r \<in> set (rows w). \<not> P r)"
    and find_all: "\<exists>rs. tb_Find tb (all_where P) w = Inr rs \<and> mset rs = filter_mset P (mset (rows w))"
    and count: "tb_Count tb P w = Inr (length (filter P (rows w)))"
    and create_ok: "\<forall>x \<in> set (rows w). key x \<noteq> key r \<and> \<not> clash x r \<Longrightarrow>
      fst (tb_Create tb r w) = None \<and> mset (rows (snd (tb_Create tb r w))) = add_mset r (mset (rows w))"
    and create_dup: "x \<in> set (rows w) \<Longrightarrow> key x = key r \<or> clash x r \<Longrightarrow>
      fst (tb_Create tb r w) = Some Duplicate \<and> rows (snd (tb_Create tb r w)) = rows w"
    and save_ok: "\<forall>x \<in> set (rows w). key x = key r \<or> \<not> clash x r \<Longrightarrow>
      fst (tb_Save tb r w) = None \<and>
      mset (rows (snd (tb_Save tb r w))) = add_mset r {#x \<in># mset (rows w). key x \<noteq> key r#}"
    and save_dup: "x \<in> set (rows w) \<Longrightarrow> key x \<noteq> key r \<and> clash x r \<Longrightarrow>
      fst (tb_Save tb r w) = Some Duplicate \<and> rows (snd (tb_Save tb r w)) = rows w"
    and update: "fst (tb_Update tb P f w) = Inr (length (filter P (rows w))) \<and>
      rows (snd (tb_Update tb P f w)) = map (\<lambda>r. if P r then f r else r) (rows w)"
    and delete: "fst (tb_Delete tb P w) = Inr (length (filter P (rows w))) \<and>
      rows (snd (tb_Delete tb P w)) = filter (\<lambda>r. \<not> P r) (rows w)"
begin

lemma first_iff:
  "(\<exists>r. tb_First tb P w = Inr r) \<longleftrightarrow> (\<exists>r \<in> set (rows w). P r)"
  by (cases "tb_First tb P w") (use first_row first_none in blast)+

text \<open>Where at most one row qualifies, \<open>First\<close> finds it.\<close>

lemma first_unique:
  assumes "\<forall>x \<in> set (rows w). P x \<longrightarrow> x = r" "r \<in> set (rows w)" "P r"
  shows "tb_First tb P w = Inr r"
proof (cases "tb_First tb P w")
  case (Inl e)
  with first_none assms(2,3) show ?thesis by blast
next
  case (Inr r')
  with first_row assms(1) show ?thesis by blast
qed

lemma first_missing: "\<forall>r \<in> set (rows w). \<not> P r \<Longrightarrow> tb_First tb P w = Inl NotFound"
  using first_row first_none by (cases "tb_First tb P w") blast+

text \<open>The conditional \<open>UPDATE\<close> behind every compare-and-set.\<close>

lemma update_won:
  assumes "fst (tb_Update tb P f w) = Inr 1"
  shows "\<exists>r \<in> set (rows w). P r"
proof -
  have "length (filter P (rows w)) = 1" using assms update [of P f w] by simp
  then have "filter P (rows w) \<noteq> []" by force
  then show ?thesis by (simp add: filter_empty_conv)
qed

text \<open>After an upsert, a row is the new one or an old one of another key.\<close>

lemma save_row_mem:
  assumes "\<forall>x \<in> set (rows w). key x = key r \<or> \<not> clash x r"
  shows "x \<in> set (rows (snd (tb_Save tb r w))) \<longleftrightarrow> x = r \<or> x \<in> set (rows w) \<and> key x \<noteq> key r"
proof -
  have "mset (rows (snd (tb_Save tb r w))) = add_mset r {#x \<in># mset (rows w). key x \<noteq> key r#}"
    using save_ok [OF assms] by (rule conjunct2)
  then have "set_mset (mset (rows (snd (tb_Save tb r w)))) =
      set_mset (add_mset r {#x \<in># mset (rows w). key x \<noteq> key r#})" by simp
  then show ?thesis by auto
qed

lemma save_keys_distinct:
  assumes "\<forall>x \<in> set (rows w). key x = key r \<or> \<not> clash x r" "distinct (map key (rows w))"
  shows "distinct (map key (rows (snd (tb_Save tb r w))))"
proof -
  let ?new = "r # filter (\<lambda>x. key x \<noteq> key r) (rows w)"
  have "mset (rows (snd (tb_Save tb r w))) = mset ?new"
    using save_ok [OF assms(1)] by simp
  then have "mset (map key (rows (snd (tb_Save tb r w)))) = mset (map key ?new)"
    by (simp only: mset_map)
  moreover have "distinct (map key ?new)"
    using assms(2) by (auto simp: distinct_map inj_on_def)
  ultimately show ?thesis using mset_eq_imp_distinct_iff by blast
qed

lemma create_row:
  assumes "\<forall>x \<in> set (rows w). key x \<noteq> key r \<and> \<not> clash x r"
  shows "x \<in> set (rows (snd (tb_Create tb r w))) \<longleftrightarrow> x = r \<or> x \<in> set (rows w)"
    and "distinct (map key (rows w)) \<Longrightarrow> distinct (map key (rows (snd (tb_Create tb r w))))"
proof -
  have m: "mset (rows (snd (tb_Create tb r w))) = mset (r # rows w)"
    using create_ok [OF assms] by simp
  show "x \<in> set (rows (snd (tb_Create tb r w))) \<longleftrightarrow> x = r \<or> x \<in> set (rows w)"
    using mset_eq_setD [OF m] by auto
  assume "distinct (map key (rows w))"
  then have "distinct (map key (r # rows w))" using assms by auto
  moreover have "mset (map key (rows (snd (tb_Create tb r w)))) = mset (map key (r # rows w))"
    using m by (simp only: mset_map)
  ultimately show "distinct (map key (rows (snd (tb_Create tb r w))))"
    using mset_eq_imp_distinct_iff by blast
qed

text \<open>The row of a key, or the answer that there is none.\<close>

lemma first_of_key:
  "(\<exists>r \<in> set (rows w). key r = k \<and> tb_First tb (\<lambda>r. key r = k) w = Inr r) \<or>
    (\<forall>r \<in> set (rows w). key r \<noteq> k) \<and> tb_First tb (\<lambda>r. key r = k) w = Inl NotFound"
proof (cases "tb_First tb (\<lambda>r. key r = k) w")
  case (Inl e)
  then show ?thesis using first_none by blast
next
  case (Inr r)
  then show ?thesis using first_row by blast
qed

text \<open>Where the key is unique, a condition that fixes the key hits at most one row.\<close>

lemma update_one:
  assumes d: "distinct (map key (rows w))" and P: "\<And>x. P x \<Longrightarrow> key x = k"
  shows "fst (tb_Update tb P f w) = Inr (if \<exists>x \<in> set (rows w). P x then 1 else 0)"
proof -
  have "length (filter P xs) = (if \<exists>x \<in> set xs. P x then 1 else 0)" if "distinct (map key xs)" for xs
    using that
  proof (induction xs)
    case (Cons x xs)
    have "filter P xs = []" if "P x"
      using that P [of x] P Cons.prems by (force simp: filter_empty_conv)
    with Cons show ?case by auto
  qed simp
  from this [OF d] show ?thesis using update [of P f w] by simp
qed

lemma update_rows: "set (rows (snd (tb_Update tb P f w))) = (\<lambda>r. if P r then f r else r) ` set (rows w)"
  using update [of P f w] by simp

end

subsection \<open>Tables as lists\<close>

fun insert_by :: "('r \<Rightarrow> 'r \<Rightarrow> bool) \<Rightarrow> 'r \<Rightarrow> 'r list \<Rightarrow> 'r list" where
  "insert_by le x [] = [x]"
| "insert_by le x (y # ys) = (if le x y then x # y # ys else y # insert_by le x ys)"

definition sort_by :: "('r \<Rightarrow> 'r \<Rightarrow> bool) \<Rightarrow> 'r list \<Rightarrow> 'r list" where
  "sort_by le xs = foldr (insert_by le) xs []"

lemma mset_insert_by [simp]: "mset (insert_by le x ys) = add_mset x (mset ys)"
  by (induction ys) auto

lemma mset_sort_by [simp]: "mset (sort_by le xs) = mset xs"
  by (induction xs) (simp_all add: sort_by_def)

text \<open>A negative offset or limit is no offset or limit.\<close>

definition query_page :: "'r query \<Rightarrow> 'r list \<Rightarrow> 'r list" where
  "query_page q xs =
    (let off = (case qy_offset q of Some n \<Rightarrow> nat (sint n) | None \<Rightarrow> 0);
         skipped = drop off xs
     in case qy_limit q of
          Some n \<Rightarrow> if 0 \<le> sint n then take (nat (sint n)) skipped else skipped
        | None \<Rightarrow> skipped)"

definition run_query :: "'r query \<Rightarrow> 'r list \<Rightarrow> 'r list" where
  "run_query q rs =
    (let hits = filter (qy_where q) rs in
     query_page q (case qy_order q of None \<Rightarrow> hits | Some le \<Rightarrow> sort_by le hits))"

fun save_row :: "('r \<Rightarrow> 'k) \<Rightarrow> 'r \<Rightarrow> 'r list \<Rightarrow> 'r list" where
  "save_row key r [] = [r]"
| "save_row key r (x # xs) = (if key x = key r then r # filter (\<lambda>y. key y \<noteq> key r) xs else x # save_row key r xs)"

lemma mset_save_row: "mset (save_row key r xs) = add_mset r {#x \<in># mset xs. key x \<noteq> key r#}"
  by (induction xs) auto

definition list_table ::
  "('r \<Rightarrow> 'k) \<Rightarrow> ('r \<Rightarrow> 'r \<Rightarrow> bool) \<Rightarrow> ('w \<Rightarrow> 'r list) \<Rightarrow> ('r list \<Rightarrow> 'w \<Rightarrow> 'w) \<Rightarrow> ('r, 'w) sql_table" where
  "list_table key clash get put =
    \<lparr>tb_First = \<lambda>P w. (case find P (get w) of None \<Rightarrow> Inl NotFound | Some r \<Rightarrow> Inr r),
     tb_Find = \<lambda>q w. Inr (run_query q (get w)),
     tb_Count = \<lambda>P w. Inr (length (filter P (get w))),
     tb_Create = \<lambda>r. zoom get put (\<lambda>rs.
       if list_ex (\<lambda>x. key x = key r \<or> clash x r) rs then (Some Duplicate, rs) else (None, rs @ [r])),
     tb_Save = \<lambda>r. zoom get put (\<lambda>rs.
       if list_ex (\<lambda>x. key x \<noteq> key r \<and> clash x r) rs then (Some Duplicate, rs)
       else (None, save_row key r rs)),
     tb_Update = \<lambda>P f. zoom get put (\<lambda>rs.
       (Inr (length (filter P rs)), map (\<lambda>r. if P r then f r else r) rs)),
     tb_Delete = \<lambda>P. zoom get put (\<lambda>rs. (Inr (length (filter P rs)), filter (\<lambda>r. \<not> P r) rs))\<rparr>"

lemma list_table_laws:
  assumes "\<And>rs w. get (put rs w) = rs"
  shows "sql_table_laws (list_table key clash get put) get key clash"
proof
  fix P w r
  show "tb_First (list_table key clash get put) P w = Inr r \<Longrightarrow> r \<in> set (get w) \<and> P r"
    by (auto simp: list_table_def dest: find_Some_set split: option.splits)
next
  fix P w e
  show "tb_First (list_table key clash get put) P w = Inl e \<Longrightarrow> e = NotFound \<and> (\<forall>r \<in> set (get w). \<not> P r)"
    by (auto simp: list_table_def find_None_iff split: option.splits)
next
  fix P w
  show "\<exists>rs. tb_Find (list_table key clash get put) (all_where P) w = Inr rs \<and> mset rs = filter_mset P (mset (get w))"
    by (simp add: list_table_def run_query_def query_page_def)
next
  fix P w
  show "tb_Count (list_table key clash get put) P w = Inr (length (filter P (get w)))"
    by (simp add: list_table_def)
next
  fix w r
  show "\<forall>x \<in> set (get w). key x \<noteq> key r \<and> \<not> clash x r \<Longrightarrow>
      fst (tb_Create (list_table key clash get put) r w) = None \<and>
      mset (get (snd (tb_Create (list_table key clash get put) r w))) = add_mset r (mset (get w))"
    by (auto simp: list_table_def assms list_ex_iff)
next
  fix x w r
  show "x \<in> set (get w) \<Longrightarrow> key x = key r \<or> clash x r \<Longrightarrow>
      fst (tb_Create (list_table key clash get put) r w) = Some Duplicate \<and>
      get (snd (tb_Create (list_table key clash get put) r w)) = get w"
    by (auto simp: list_table_def assms list_ex_iff)
next
  fix w r
  show "\<forall>x \<in> set (get w). key x = key r \<or> \<not> clash x r \<Longrightarrow>
      fst (tb_Save (list_table key clash get put) r w) = None \<and>
      mset (get (snd (tb_Save (list_table key clash get put) r w))) = add_mset r {#x \<in># mset (get w). key x \<noteq> key r#}"
    by (auto simp: list_table_def assms list_ex_iff mset_save_row)
next
  fix x w r
  show "x \<in> set (get w) \<Longrightarrow> key x \<noteq> key r \<and> clash x r \<Longrightarrow>
      fst (tb_Save (list_table key clash get put) r w) = Some Duplicate \<and>
      get (snd (tb_Save (list_table key clash get put) r w)) = get w"
    by (auto simp: list_table_def assms list_ex_iff)
next
  fix P f w
  show "fst (tb_Update (list_table key clash get put) P f w) = Inr (length (filter P (get w))) \<and>
      get (snd (tb_Update (list_table key clash get put) P f w)) = map (\<lambda>r. if P r then f r else r) (get w)"
    by (simp add: list_table_def assms)
next
  fix P w
  show "fst (tb_Delete (list_table key clash get put) P w) = Inr (length (filter P (get w))) \<and>
      get (snd (tb_Delete (list_table key clash get put) P w)) = filter (\<lambda>r. \<not> P r) (get w)"
    by (simp add: list_table_def assms)
qed

end
