(* ===== verification/Sql_Entities.thy ===== *)
theory Sql_Entities
  imports Sql_Tables Key_Manager
begin

section \<open>Rows of the database (internal/store/gormstore/entities.go, json.go)\<close>

text \<open>
  One record per table and the two conversions between a row and its domain type. Ids are stored
  as text, lists and maps as JSON, and the upper-case spelling of a name or an email next to it.
  A conversion back fails on text that does not parse. An empty list or map of the model stands
  for the nil one of Go, which is stored as \<open>null\<close>; both spellings read back as an empty one.
\<close>

subsection \<open>Pieces\<close>

text \<open>\<open>strings.ToUpper\<close> on ASCII; other letters are left as they are.\<close>

definition ascii_upper :: "char \<Rightarrow> char" where
  "ascii_upper c =
    (if 97 \<le> (of_char c :: nat) \<and> (of_char c :: nat) \<le> 122 then char_of ((of_char c :: nat) - 32) else c)"

definition to_upper :: "string \<Rightarrow> string" where
  "to_upper s = map ascii_upper s"

definition nil_list :: "'a list \<Rightarrow> 'a list option" where
  "nil_list xs = (if xs = [] then None else Some xs)"

definition uuidPtrString :: "crypto \<Rightarrow> uuid option \<Rightarrow> string option" where
  "uuidPtrString cr p = map_option (uuid_string cr) p"

text \<open>A missing id is fine, an id that does not parse is not: \<open>Inl\<close> is the error.\<close>

definition parse_id :: "crypto \<Rightarrow> string \<Rightarrow> store_error + uuid" where
  "parse_id cr s = (case uuid_parse cr s of None \<Rightarrow> Inl (OtherError ''parse id'') | Some i \<Rightarrow> Inr i)"

definition parseUUIDPtr :: "crypto \<Rightarrow> string option \<Rightarrow> store_error + uuid option" where
  "parseUUIDPtr cr p =
    (case p of
       None \<Rightarrow> Inr None
     | Some s \<Rightarrow> (case uuid_parse cr s of None \<Rightarrow> Inl (OtherError ''parse id'') | Some i \<Rightarrow> Inr (Some i)))"

definition decode_list :: "string \<Rightarrow> store_error + string list" where
  "decode_list s = (case decodeStringSlice s of None \<Rightarrow> Inl (OtherError ''decode'') | Some l \<Rightarrow> Inr l)"

definition decode_props :: "string \<Rightarrow> store_error + (string, string) gomap" where
  "decode_props s = (case decodeStringMap s of None \<Rightarrow> Inl (OtherError ''decode'') | Some m \<Rightarrow> Inr m)"

text \<open>The uuid package prints ids that it parses back.\<close>

definition uuid_texts :: "crypto \<Rightarrow> bool" where
  "uuid_texts cr \<longleftrightarrow> (\<forall>i. uuid_parse cr (uuid_string cr i) = Some i)"

lemma uuid_texts_inject: "uuid_texts cr \<Longrightarrow> uuid_string cr i = uuid_string cr j \<longleftrightarrow> i = j"
  by (metis uuid_texts_def option.inject)

lemma parse_id_string [simp]: "uuid_texts cr \<Longrightarrow> parse_id cr (uuid_string cr i) = Inr i"
  by (simp add: parse_id_def uuid_texts_def)

lemma parseUUIDPtr_string [simp]: "uuid_texts cr \<Longrightarrow> parseUUIDPtr cr (uuidPtrString cr p) = Inr p"
  by (cases p) (simp_all add: parseUUIDPtr_def uuidPtrString_def uuid_texts_def)

subsection \<open>Clients\<close>

record client_row =
  cle_ClientID :: string
  cle_DisplayName :: string
  cle_RedirectURIs :: string
  cle_PostLogoutRedirectURIs :: string
  cle_AllowedScopes :: string
  cle_RequirePKCE :: bool
  cle_AllowRefreshTokens :: bool
  cle_AllowClientCredentials :: bool
  cle_TokenEndpointAuthMethod :: string
  cle_JWKSJSON :: string
  cle_AccessTokenLifetimeSeconds :: goint
  cle_RefreshTokenLifetimeSeconds :: goint
  cle_RefreshTokenAbsoluteLifetimeSeconds :: goint
  cle_RefreshTokenExpiration :: goint
  cle_Properties :: string

definition toClientEntity :: "client \<Rightarrow> client_row" where
  "toClientEntity c =
    \<lparr>cle_ClientID = c_ClientID c, cle_DisplayName = c_DisplayName c,
     cle_RedirectURIs = encodeStringSlice (nil_list (c_RedirectURIs c)),
     cle_PostLogoutRedirectURIs = encodeStringSlice (nil_list (c_PostLogoutRedirectURIs c)),
     cle_AllowedScopes = encodeStringSlice (nil_list (c_AllowedScopes c)),
     cle_RequirePKCE = c_RequirePKCE c, cle_AllowRefreshTokens = c_AllowRefreshTokens c,
     cle_AllowClientCredentials = c_AllowClientCredentials c,
     cle_TokenEndpointAuthMethod =
       (if c_TokenEndpointAuthMethod c = [] then AuthMethodNone else c_TokenEndpointAuthMethod c),
     cle_JWKSJSON = c_JWKSJSON c,
     cle_AccessTokenLifetimeSeconds = c_AccessTokenLifetimeSeconds c,
     cle_RefreshTokenLifetimeSeconds = c_RefreshTokenLifetimeSeconds c,
     cle_RefreshTokenAbsoluteLifetimeSeconds = c_RefreshTokenAbsoluteLifetimeSeconds c,
     cle_RefreshTokenExpiration = c_RefreshTokenExpiration c,
     cle_Properties = encodeStringMap (nil_list (c_Properties c))\<rparr>"

definition client_of_row :: "client_row \<Rightarrow> store_error + client" where
  "client_of_row e =
    (case decode_list (cle_RedirectURIs e) of
       Inl x \<Rightarrow> Inl x
     | Inr uris \<Rightarrow>
         (case decode_list (cle_PostLogoutRedirectURIs e) of
            Inl x \<Rightarrow> Inl x
          | Inr logout \<Rightarrow>
              (case decode_list (cle_AllowedScopes e) of
                 Inl x \<Rightarrow> Inl x
               | Inr scopes \<Rightarrow>
                   (case decode_props (cle_Properties e) of
                      Inl x \<Rightarrow> Inl x
                    | Inr props \<Rightarrow> Inr
                        \<lparr>c_ClientID = cle_ClientID e, c_DisplayName = cle_DisplayName e,
                         c_RedirectURIs = uris, c_PostLogoutRedirectURIs = logout, c_AllowedScopes = scopes,
                         c_RequirePKCE = cle_RequirePKCE e, c_AllowRefreshTokens = cle_AllowRefreshTokens e,
                         c_AllowClientCredentials = cle_AllowClientCredentials e,
                         c_TokenEndpointAuthMethod = cle_TokenEndpointAuthMethod e,
                         c_JWKSJSON = cle_JWKSJSON e,
                         c_AccessTokenLifetimeSeconds = cle_AccessTokenLifetimeSeconds e,
                         c_RefreshTokenLifetimeSeconds = cle_RefreshTokenLifetimeSeconds e,
                         c_RefreshTokenAbsoluteLifetimeSeconds = cle_RefreshTokenAbsoluteLifetimeSeconds e,
                         c_RefreshTokenExpiration = cle_RefreshTokenExpiration e,
                         c_Properties = props\<rparr>))))"

subsection \<open>Authorization codes and refresh tokens\<close>

record auth_code_row =
  ace_ID :: string
  ace_CodeHash :: string
  ace_ClientID :: string
  ace_UserID :: string
  ace_SessionID :: "string option"
  ace_RedirectURI :: string
  ace_CodeChallenge :: "string option"
  ace_CodeChallengeMethod :: "string option"
  ace_Scope :: string
  ace_Nonce :: "string option"
  ace_ExpiresAt :: time
  ace_ConsumedAt :: "time option"
  ace_CreatedAt :: time

definition toAuthCodeEntity :: "crypto \<Rightarrow> authorization_code \<Rightarrow> store_error + auth_code_row" where
  "toAuthCodeEntity cr x =
    (if ac_ID x = uuid_nil then Inl (OtherError ''auth code: zero id'')
     else Inr
       \<lparr>ace_ID = uuid_string cr (ac_ID x), ace_CodeHash = ac_CodeHash x,
        ace_ClientID = ac_ClientID x, ace_UserID = ac_UserID x,
        ace_SessionID = uuidPtrString cr (ac_SessionID x),
        ace_RedirectURI = ac_RedirectURI x, ace_CodeChallenge = ac_CodeChallenge x,
        ace_CodeChallengeMethod = ac_CodeChallengeMethod x, ace_Scope = ac_Scope x,
        ace_Nonce = ac_Nonce x, ace_ExpiresAt = ac_ExpiresAt x,
        ace_ConsumedAt = ac_ConsumedAt x, ace_CreatedAt = ac_CreatedAt x\<rparr>)"

definition auth_code_of_row :: "crypto \<Rightarrow> auth_code_row \<Rightarrow> store_error + authorization_code" where
  "auth_code_of_row cr e =
    (case parse_id cr (ace_ID e) of
       Inl x \<Rightarrow> Inl x
     | Inr vID \<Rightarrow>
      (case parseUUIDPtr cr (ace_SessionID e) of
         Inl x \<Rightarrow> Inl x
       | Inr vSessionID \<Rightarrow>
        Inr
            \<lparr>ac_ID = vID, ac_CodeHash = ace_CodeHash e, ac_ClientID = ace_ClientID e,
             ac_UserID = ace_UserID e, ac_SessionID = vSessionID,
             ac_RedirectURI = ace_RedirectURI e, ac_CodeChallenge = ace_CodeChallenge e,
             ac_CodeChallengeMethod = ace_CodeChallengeMethod e, ac_Scope = ace_Scope e,
             ac_Nonce = ace_Nonce e, ac_ExpiresAt = ace_ExpiresAt e,
             ac_ConsumedAt = ace_ConsumedAt e, ac_CreatedAt = ace_CreatedAt e\<rparr>))"

record refresh_row =
  rte_ID :: string
  rte_TokenHash :: string
  rte_ClientID :: string
  rte_UserID :: string
  rte_SessionID :: "string option"
  rte_ParentTokenID :: "string option"
  rte_Scope :: string
  rte_ExpiresAt :: time
  rte_AbsoluteExpiresAt :: time
  rte_ConsumedAt :: "time option"
  rte_RevokedAt :: "time option"
  rte_CreatedAt :: time

definition toRefreshTokenEntity :: "crypto \<Rightarrow> refresh_token \<Rightarrow> store_error + refresh_row" where
  "toRefreshTokenEntity cr x =
    (if rt_ID x = uuid_nil then Inl (OtherError ''refresh token: zero id'')
     else Inr
       \<lparr>rte_ID = uuid_string cr (rt_ID x), rte_TokenHash = rt_TokenHash x,
        rte_ClientID = rt_ClientID x, rte_UserID = rt_UserID x,
        rte_SessionID = uuidPtrString cr (rt_SessionID x),
        rte_ParentTokenID = uuidPtrString cr (rt_ParentTokenID x), rte_Scope = rt_Scope x,
        rte_ExpiresAt = rt_ExpiresAt x, rte_AbsoluteExpiresAt = rt_AbsoluteExpiresAt x,
        rte_ConsumedAt = rt_ConsumedAt x, rte_RevokedAt = rt_RevokedAt x,
        rte_CreatedAt = rt_CreatedAt x\<rparr>)"

definition refresh_of_row :: "crypto \<Rightarrow> refresh_row \<Rightarrow> store_error + refresh_token" where
  "refresh_of_row cr e =
    (case parse_id cr (rte_ID e) of
       Inl x \<Rightarrow> Inl x
     | Inr vID \<Rightarrow>
      (case parseUUIDPtr cr (rte_SessionID e) of
         Inl x \<Rightarrow> Inl x
       | Inr vSessionID \<Rightarrow>
        (case parseUUIDPtr cr (rte_ParentTokenID e) of
           Inl x \<Rightarrow> Inl x
         | Inr vParentTokenID \<Rightarrow>
          Inr
              \<lparr>rt_ID = vID, rt_TokenHash = rte_TokenHash e, rt_ClientID = rte_ClientID e,
               rt_UserID = rte_UserID e, rt_SessionID = vSessionID,
               rt_ParentTokenID = vParentTokenID, rt_Scope = rte_Scope e,
               rt_ExpiresAt = rte_ExpiresAt e,
               rt_AbsoluteExpiresAt = rte_AbsoluteExpiresAt e,
               rt_ConsumedAt = rte_ConsumedAt e, rt_RevokedAt = rte_RevokedAt e,
               rt_CreatedAt = rte_CreatedAt e\<rparr>)))"

subsection \<open>Sessions, keys and scopes\<close>

record session_row =
  sse_ID :: string
  sse_UserID :: string
  sse_CreatedAt :: time
  sse_ExpiresAt :: time
  sse_RevokedAt :: "time option"
  sse_Properties :: string

definition toSessionEntity :: "crypto \<Rightarrow> session \<Rightarrow> session_row" where
  "toSessionEntity cr x =
    \<lparr>sse_ID = uuid_string cr (s_ID x), sse_UserID = s_UserID x,
     sse_CreatedAt = s_CreatedAt x, sse_ExpiresAt = s_ExpiresAt x,
     sse_RevokedAt = s_RevokedAt x,
     sse_Properties = encodeStringMap (nil_list (s_Properties x))\<rparr>"

definition session_of_row :: "crypto \<Rightarrow> session_row \<Rightarrow> store_error + session" where
  "session_of_row cr e =
    (case parse_id cr (sse_ID e) of
       Inl x \<Rightarrow> Inl x
     | Inr vID \<Rightarrow>
      (case decode_props (sse_Properties e) of
         Inl x \<Rightarrow> Inl x
       | Inr vProperties \<Rightarrow>
        Inr
            \<lparr>s_ID = vID, s_UserID = sse_UserID e, s_CreatedAt = sse_CreatedAt e,
             s_ExpiresAt = sse_ExpiresAt e, s_RevokedAt = sse_RevokedAt e,
             s_Properties = vProperties\<rparr>))"

record signing_key_row =
  ske_KeyID :: string
  ske_Algorithm :: string
  ske_PrivateKeyPEM :: string
  ske_PublicKeyPEM :: string
  ske_CreatedAt :: time
  ske_RetiredAt :: "time option"
  ske_IsActive :: bool

definition toSigningKeyEntity :: "signing_key \<Rightarrow> signing_key_row" where
  "toSigningKeyEntity x =
    \<lparr>ske_KeyID = sk_KeyID x,
     ske_Algorithm = (if sk_Algorithm x = [] then DefaultAlgorithm else sk_Algorithm x),
     ske_PrivateKeyPEM = sk_PrivateKeyPEM x, ske_PublicKeyPEM = sk_PublicKeyPEM x,
     ske_CreatedAt = sk_CreatedAt x, ske_RetiredAt = sk_RetiredAt x,
     ske_IsActive = sk_IsActive x\<rparr>"

definition signing_key_of_row :: "signing_key_row \<Rightarrow> signing_key" where
  "signing_key_of_row e =
    \<lparr>sk_KeyID = ske_KeyID e, sk_Algorithm = ske_Algorithm e,
     sk_PrivateKeyPEM = ske_PrivateKeyPEM e, sk_PublicKeyPEM = ske_PublicKeyPEM e,
     sk_CreatedAt = ske_CreatedAt e, sk_RetiredAt = ske_RetiredAt e,
     sk_IsActive = ske_IsActive e\<rparr>"

record dp_key_row =
  dke_KeyID :: string
  dke_HashKey :: string
  dke_BlockKey :: string
  dke_CSRFKey :: string
  dke_CreatedAt :: time
  dke_RetiredAt :: "time option"
  dke_IsActive :: bool

definition toDataProtectionKeyEntity :: "data_protection_key \<Rightarrow> dp_key_row" where
  "toDataProtectionKeyEntity x =
    \<lparr>dke_KeyID = dk_KeyID x, dke_HashKey = dk_HashKey x, dke_BlockKey = dk_BlockKey x,
     dke_CSRFKey = dk_CSRFKey x, dke_CreatedAt = dk_CreatedAt x,
     dke_RetiredAt = dk_RetiredAt x, dke_IsActive = dk_IsActive x\<rparr>"

definition dp_key_of_row :: "dp_key_row \<Rightarrow> data_protection_key" where
  "dp_key_of_row e =
    \<lparr>dk_KeyID = dke_KeyID e, dk_HashKey = dke_HashKey e, dk_BlockKey = dke_BlockKey e,
     dk_CSRFKey = dke_CSRFKey e, dk_CreatedAt = dke_CreatedAt e,
     dk_RetiredAt = dke_RetiredAt e, dk_IsActive = dke_IsActive e\<rparr>"

record scope_row =
  sce_Name :: string
  sce_DisplayName :: string
  sce_Description :: string
  sce_Required :: bool
  sce_Emphasize :: bool
  sce_Properties :: string

definition toScopeEntity :: "scope \<Rightarrow> scope_row" where
  "toScopeEntity x =
    \<lparr>sce_Name = sc_Name x, sce_DisplayName = sc_DisplayName x,
     sce_Description = sc_Description x, sce_Required = sc_Required x,
     sce_Emphasize = sc_Emphasize x,
     sce_Properties = encodeStringMap (nil_list (sc_Properties x))\<rparr>"

definition scope_of_row :: "scope_row \<Rightarrow> store_error + scope" where
  "scope_of_row e =
    (case decode_props (sce_Properties e) of
       Inl x \<Rightarrow> Inl x
     | Inr vProperties \<Rightarrow>
      Inr
          \<lparr>sc_Name = sce_Name e, sc_DisplayName = sce_DisplayName e,
           sc_Description = sce_Description e, sc_Required = sce_Required e,
           sc_Emphasize = sce_Emphasize e, sc_Properties = vProperties\<rparr>)"

subsection \<open>Users and roles\<close>

record user_row =
  use_ID :: string
  use_Username :: string
  use_NormalizedUsername :: string
  use_Email :: string
  use_NormalizedEmail :: string
  use_EmailConfirmed :: bool
  use_PasswordHash :: string
  use_SecurityStamp :: string
  use_TwoFactorEnabled :: bool
  use_LockoutEnd :: "time option"
  use_LockoutEnabled :: bool
  use_AccessFailedCount :: goint
  use_CreatedAt :: time
  use_UpdatedAt :: time

definition toUserEntity :: "user \<Rightarrow> user_row" where
  "toUserEntity x =
    \<lparr>use_ID = u_ID x, use_Username = u_Username x,
     use_NormalizedUsername = to_upper (u_Username x), use_Email = u_Email x,
     use_NormalizedEmail = to_upper (u_Email x), use_EmailConfirmed = u_EmailConfirmed x,
     use_PasswordHash = u_PasswordHash x, use_SecurityStamp = u_SecurityStamp x,
     use_TwoFactorEnabled = u_TwoFactorEnabled x, use_LockoutEnd = u_LockoutEnd x,
     use_LockoutEnabled = u_LockoutEnabled x, use_AccessFailedCount = u_AccessFailedCount x,
     use_CreatedAt = u_CreatedAt x, use_UpdatedAt = u_UpdatedAt x\<rparr>"

definition user_of_row :: "user_row \<Rightarrow> user" where
  "user_of_row e =
    \<lparr>u_ID = use_ID e, u_Username = use_Username e, u_Email = use_Email e,
     u_EmailConfirmed = use_EmailConfirmed e, u_PasswordHash = use_PasswordHash e,
     u_SecurityStamp = use_SecurityStamp e, u_TwoFactorEnabled = use_TwoFactorEnabled e,
     u_LockoutEnd = use_LockoutEnd e, u_LockoutEnabled = use_LockoutEnabled e,
     u_AccessFailedCount = use_AccessFailedCount e, u_CreatedAt = use_CreatedAt e,
     u_UpdatedAt = use_UpdatedAt e\<rparr>"

text \<open>The database numbers the rows of claims itself; the number plays no part.\<close>

record user_claim_row =
  uce_UserID :: string
  uce_Type :: string
  uce_Value :: string

record role_row =
  roe_ID :: string
  roe_Name :: string
  roe_NormalizedName :: string

definition toRoleEntity :: "role \<Rightarrow> role_row" where
  "toRoleEntity x =
    \<lparr>roe_ID = r_ID x, roe_Name = r_Name x, roe_NormalizedName = to_upper (r_Name x)\<rparr>"

definition role_of_row :: "role_row \<Rightarrow> role" where
  "role_of_row e =
    \<lparr>r_ID = roe_ID e, r_Name = roe_Name e\<rparr>"

record user_role_row =
  ure_UserID :: string
  ure_RoleID :: string

record role_claim_row =
  rce_RoleID :: string
  rce_Type :: string
  rce_Value :: string

record user_login_row =
  ule_LoginProvider :: string
  ule_ProviderKey :: string
  ule_ProviderName :: string
  ule_UserID :: string

definition toUserLoginEntity :: "user_login \<Rightarrow> user_login_row" where
  "toUserLoginEntity x =
    \<lparr>ule_LoginProvider = ul_LoginProvider x, ule_ProviderKey = ul_ProviderKey x,
     ule_ProviderName = ul_ProviderName x, ule_UserID = ul_UserID x\<rparr>"

definition user_login_of_row :: "user_login_row \<Rightarrow> user_login" where
  "user_login_of_row e =
    \<lparr>ul_LoginProvider = ule_LoginProvider e, ul_ProviderKey = ule_ProviderKey e,
     ul_ProviderName = ule_ProviderName e, ul_UserID = ule_UserID e\<rparr>"

record user_token_row =
  ute_UserID :: string
  ute_LoginProvider :: string
  ute_Name :: string
  ute_Value :: string

definition toUserTokenEntity :: "user_token \<Rightarrow> user_token_row" where
  "toUserTokenEntity x =
    \<lparr>ute_UserID = ut_UserID x, ute_LoginProvider = ut_LoginProvider x, ute_Name = ut_Name x,
     ute_Value = ut_Value x\<rparr>"

definition user_token_of_row :: "user_token_row \<Rightarrow> user_token" where
  "user_token_of_row e =
    \<lparr>ut_UserID = ute_UserID e, ut_LoginProvider = ute_LoginProvider e, ut_Name = ute_Name e,
     ut_Value = ute_Value e\<rparr>"

subsection \<open>Audit entries, password resets, login attempts\<close>

record audit_row =
  ale_ID :: string
  ale_Action :: string
  ale_ActorUserID :: string
  ale_TargetType :: string
  ale_TargetID :: string
  ale_Timestamp :: time
  ale_IPAddress :: string
  ale_UserAgent :: string
  ale_Metadata :: string

definition toAuditLogEntity :: "crypto \<Rightarrow> audit_log \<Rightarrow> store_error + audit_row" where
  "toAuditLogEntity cr x =
    (if al_ID x = uuid_nil then Inl (OtherError ''audit log: zero id'')
     else Inr
       \<lparr>ale_ID = uuid_string cr (al_ID x), ale_Action = al_Action x,
        ale_ActorUserID = al_ActorUserID x, ale_TargetType = al_TargetType x,
        ale_TargetID = al_TargetID x, ale_Timestamp = al_Timestamp x,
        ale_IPAddress = al_IPAddress x, ale_UserAgent = al_UserAgent x,
        ale_Metadata = al_Metadata x\<rparr>)"

definition audit_of_row :: "crypto \<Rightarrow> audit_row \<Rightarrow> store_error + audit_log" where
  "audit_of_row cr e =
    (case parse_id cr (ale_ID e) of
       Inl x \<Rightarrow> Inl x
     | Inr vID \<Rightarrow>
      Inr
          \<lparr>al_ID = vID, al_Action = ale_Action e, al_ActorUserID = ale_ActorUserID e,
           al_TargetType = ale_TargetType e, al_TargetID = ale_TargetID e,
           al_Timestamp = ale_Timestamp e, al_IPAddress = ale_IPAddress e,
           al_UserAgent = ale_UserAgent e, al_Metadata = ale_Metadata e\<rparr>)"

record reset_row =
  pre_ID :: string
  pre_UserID :: string
  pre_TokenHash :: string
  pre_CreatedAt :: time
  pre_ExpiresAt :: time
  pre_ConsumedAt :: "time option"

definition toPasswordResetEntity :: "crypto \<Rightarrow> password_reset_token \<Rightarrow> reset_row" where
  "toPasswordResetEntity cr x =
    \<lparr>pre_ID = uuid_string cr (pr_ID x), pre_UserID = pr_UserID x,
     pre_TokenHash = pr_TokenHash x, pre_CreatedAt = pr_CreatedAt x,
     pre_ExpiresAt = pr_ExpiresAt x, pre_ConsumedAt = pr_ConsumedAt x\<rparr>"

definition reset_of_row :: "crypto \<Rightarrow> reset_row \<Rightarrow> store_error + password_reset_token" where
  "reset_of_row cr e =
    (case parse_id cr (pre_ID e) of
       Inl x \<Rightarrow> Inl x
     | Inr vID \<Rightarrow>
      Inr
          \<lparr>pr_ID = vID, pr_UserID = pre_UserID e, pr_TokenHash = pre_TokenHash e,
           pr_CreatedAt = pre_CreatedAt e, pr_ExpiresAt = pre_ExpiresAt e,
           pr_ConsumedAt = pre_ConsumedAt e\<rparr>)"

record attempt_row =
  lae_Principal :: string
  lae_Failures :: goint
  lae_FirstAt :: time
  lae_LockedAt :: "time option"

subsection \<open>What is stored reads back\<close>

lemmas entity_defs = toAuthCodeEntity_def auth_code_of_row_def toRefreshTokenEntity_def refresh_of_row_def
  toSessionEntity_def session_of_row_def toSigningKeyEntity_def signing_key_of_row_def
  toDataProtectionKeyEntity_def dp_key_of_row_def toScopeEntity_def scope_of_row_def
  toUserEntity_def user_of_row_def toRoleEntity_def role_of_row_def
  toUserLoginEntity_def user_login_of_row_def toUserTokenEntity_def user_token_of_row_def
  toAuditLogEntity_def audit_of_row_def toPasswordResetEntity_def reset_of_row_def

lemma id_rows_round_trip:
  assumes "uuid_texts cr"
  shows "toAuthCodeEntity cr c = Inr ce \<Longrightarrow> auth_code_of_row cr ce = Inr c"
    "toRefreshTokenEntity cr t = Inr te \<Longrightarrow> refresh_of_row cr te = Inr t"
    "toAuditLogEntity cr l = Inr le \<Longrightarrow> audit_of_row cr le = Inr l"
    "reset_of_row cr (toPasswordResetEntity cr p) = Inr p"
  using assms by (auto simp: entity_defs split: if_splits)

lemma plain_rows_round_trip:
  "dp_key_of_row (toDataProtectionKeyEntity d) = d" "user_of_row (toUserEntity u) = u"
  "role_of_row (toRoleEntity r) = r" "user_login_of_row (toUserLoginEntity l) = l"
  "user_token_of_row (toUserTokenEntity t) = t"
  "sk_Algorithm k \<noteq> [] \<Longrightarrow> signing_key_of_row (toSigningKeyEntity k) = k"
  by (simp_all add: entity_defs)

text \<open>Texts that JSON carries unchanged; maps with one entry per key.\<close>

definition json_list :: "string list \<Rightarrow> bool" where
  "json_list xs \<longleftrightarrow> (\<forall>x \<in> set xs. valid_utf8 x)"

definition json_map :: "(string, string) gomap \<Rightarrow> bool" where
  "json_map m \<longleftrightarrow> gm_wf m \<and> (\<forall>(k, v) \<in> set m. valid_utf8 k \<and> valid_utf8 v)"

lemma decode_list_encode [simp]: "json_list xs \<Longrightarrow> decode_list (encodeStringSlice (nil_list xs)) = Inr xs"
  by (simp add: decode_list_def json_list_def nil_list_def slice_round_trip)

lemma decode_props_encode [simp]:
  "json_map m \<Longrightarrow> decode_props (encodeStringMap (nil_list m)) = Inr (sort_key fst m)"
proof (cases "m = []")
  case True
  then show ?thesis by (simp add: decode_props_def nil_list_def encodeStringMap_def decodeStringMap_def)
next
  case False
  moreover assume "json_map m"
  ultimately show ?thesis
    using map_round_trip [of m] by (simp add: decode_props_def nil_list_def json_map_def)
qed

lemma session_row_round_trip:
  "uuid_texts cr \<Longrightarrow> json_map (s_Properties s) \<Longrightarrow>
    session_of_row cr (toSessionEntity cr s) = Inr (s\<lparr>s_Properties := sort_key fst (s_Properties s)\<rparr>)"
  "json_map (sc_Properties c) \<Longrightarrow>
    scope_of_row (toScopeEntity c) = Inr (c\<lparr>sc_Properties := sort_key fst (sc_Properties c)\<rparr>)"
  by (simp_all add: entity_defs)

lemma client_row_reads:
  assumes "json_list (c_RedirectURIs c)" "json_list (c_PostLogoutRedirectURIs c)"
    "json_list (c_AllowedScopes c)" "json_map (c_Properties c)"
  shows "client_of_row (toClientEntity c) =
    Inr (c\<lparr>c_TokenEndpointAuthMethod :=
           (if c_TokenEndpointAuthMethod c = [] then AuthMethodNone else c_TokenEndpointAuthMethod c),
         c_Properties := sort_key fst (c_Properties c)\<rparr>)"
  using assms by (simp add: client_of_row_def toClientEntity_def)

end
