(* ===== verification/Sql_Stores.thy ===== *)
theory Sql_Stores
  imports Sql_Entities
begin

section \<open>The SQL stores of the protocol (internal/store/gormstore)\<close>

text \<open>
  authcode.go, refreshtoken.go, session.go, password\_reset.go, client.go, scope.go, signingkey.go,
  dataprotection.go, auditlog.go and loginattempt.go over the tables of Sql_Tables. A write is one
  statement unless the code opens a transaction; a transaction that fails leaves the state as it
  was. The users and roles are in Sql_Users.
\<close>

subsection \<open>Shared pieces\<close>

text \<open>A found row as its domain type.\<close>

definition row_as :: "('r \<Rightarrow> store_error + 'a) \<Rightarrow> store_error + 'r \<Rightarrow> store_error + 'a" where
  "row_as conv res = (case res of Inl e \<Rightarrow> Inl e | Inr r \<Rightarrow> conv r)"

fun rows_as :: "('r \<Rightarrow> store_error + 'a) \<Rightarrow> 'r list \<Rightarrow> store_error + 'a list" where
  "rows_as conv [] = Inr []"
| "rows_as conv (r # rs) =
    (case conv r of
       Inl e \<Rightarrow> Inl e
     | Inr x \<Rightarrow> (case rows_as conv rs of Inl e \<Rightarrow> Inl e | Inr xs \<Rightarrow> Inr (x # xs)))"

definition found_as :: "('r \<Rightarrow> store_error + 'a) \<Rightarrow> store_error + 'r list \<Rightarrow> store_error + 'a list" where
  "found_as conv res = (case res of Inl e \<Rightarrow> Inl e | Inr rs \<Rightarrow> rows_as conv rs)"

text \<open>\<open>GetPaged\<close>: count, then one page in the given order.\<close>

definition sql_paged ::
  "('r, 'w) sql_table \<Rightarrow> ('r \<Rightarrow> 'r \<Rightarrow> bool) option \<Rightarrow> ('r \<Rightarrow> store_error + 'a) \<Rightarrow> paged_request \<Rightarrow> 'w
    \<Rightarrow> store_error + 'a paged_result" where
  "sql_paged tb order conv req w =
    (let r = normalized req in
     case tb_Count tb (\<lambda>_. True) w of
       Inl e \<Rightarrow> Inl e
     | Inr n \<Rightarrow>
         (case found_as conv (tb_Find tb \<lparr>qy_where = \<lambda>_. True, qy_order = order,
                 qy_offset = Some ((pq_Page r - 1) * pq_PageSize r), qy_limit = Some (pq_PageSize r)\<rparr> w) of
            Inl e \<Rightarrow> Inl e
          | Inr items \<Rightarrow> Inr \<lparr>pg_Items = items, pg_TotalCount = n, pg_Page = pq_Page r,
                            pg_PageSize = pq_PageSize r\<rparr>))"

text \<open>The error of an \<open>UPDATE\<close> or a \<open>DELETE\<close> that must hit a row.\<close>

definition hit_row :: "(store_error + nat) \<times> 'w \<Rightarrow> store_error option \<times> 'w" where
  "hit_row res = (case res of (Inl e, w) \<Rightarrow> (Some e, w) | (Inr n, w) \<Rightarrow> (if n = 0 then Some NotFound else None, w))"

definition any_row :: "(store_error + nat) \<times> 'w \<Rightarrow> store_error option \<times> 'w" where
  "any_row res = (case res of (Inl e, w) \<Rightarrow> (Some e, w) | (Inr n, w) \<Rightarrow> (None, w))"

text \<open>Won if exactly one row was changed.\<close>

definition one_row :: "(store_error + nat) \<times> 'w \<Rightarrow> (store_error + bool) \<times> 'w" where
  "one_row res = (case res of (Inl e, w) \<Rightarrow> (Inl e, w) | (Inr n, w) \<Rightarrow> (Inr (n = 1), w))"

subsection \<open>Authorization codes\<close>

definition sql_authcode_Store ::
  "crypto \<Rightarrow> (auth_code_row, 'w) sql_table \<Rightarrow> authorization_code \<Rightarrow> 'w \<Rightarrow> store_error option \<times> 'w" where
  "sql_authcode_Store cr tb c w =
    (case toAuthCodeEntity cr c of Inl e \<Rightarrow> (Some e, w) | Inr ent \<Rightarrow> tb_Save tb ent w)"

definition sql_authcode_FindByHash ::
  "crypto \<Rightarrow> (auth_code_row, 'w) sql_table \<Rightarrow> string \<Rightarrow> 'w \<Rightarrow> store_error + authorization_code" where
  "sql_authcode_FindByHash cr tb hash w =
    row_as (auth_code_of_row cr) (tb_First tb (\<lambda>r. ace_CodeHash r = hash) w)"

definition sql_authcode_MarkConsumed ::
  "crypto \<Rightarrow> (auth_code_row, 'w) sql_table \<Rightarrow> uuid \<Rightarrow> time \<Rightarrow> 'w \<Rightarrow> (store_error + bool) \<times> 'w" where
  "sql_authcode_MarkConsumed cr tb i t w =
    one_row (tb_Update tb (\<lambda>r. ace_ID r = uuid_string cr i \<and> ace_ConsumedAt r = None)
      (\<lambda>r. r\<lparr>ace_ConsumedAt := Some t\<rparr>) w)"

subsection \<open>Refresh tokens\<close>

definition sql_refresh_Store ::
  "crypto \<Rightarrow> (refresh_row, 'w) sql_table \<Rightarrow> refresh_token \<Rightarrow> 'w \<Rightarrow> store_error option \<times> 'w" where
  "sql_refresh_Store cr tb x w =
    (case toRefreshTokenEntity cr x of Inl e \<Rightarrow> (Some e, w) | Inr ent \<Rightarrow> tb_Save tb ent w)"

definition sql_refresh_FindByHash ::
  "crypto \<Rightarrow> (refresh_row, 'w) sql_table \<Rightarrow> string \<Rightarrow> 'w \<Rightarrow> store_error + refresh_token" where
  "sql_refresh_FindByHash cr tb hash w =
    row_as (refresh_of_row cr) (tb_First tb (\<lambda>r. rte_TokenHash r = hash) w)"

definition sql_refresh_FindByID ::
  "crypto \<Rightarrow> (refresh_row, 'w) sql_table \<Rightarrow> uuid \<Rightarrow> 'w \<Rightarrow> store_error + refresh_token" where
  "sql_refresh_FindByID cr tb i w =
    row_as (refresh_of_row cr) (tb_First tb (\<lambda>r. rte_ID r = uuid_string cr i) w)"

definition sql_refresh_GetPaged ::
  "crypto \<Rightarrow> (refresh_row, 'w) sql_table \<Rightarrow> paged_request \<Rightarrow> 'w \<Rightarrow> store_error + refresh_token paged_result" where
  "sql_refresh_GetPaged cr tb =
    sql_paged tb (Some (\<lambda>a b. rte_CreatedAt b \<le> rte_CreatedAt a)) (refresh_of_row cr)"

definition sql_refresh_MarkConsumed ::
  "crypto \<Rightarrow> (refresh_row, 'w) sql_table \<Rightarrow> uuid \<Rightarrow> time \<Rightarrow> 'w \<Rightarrow> (store_error + bool) \<times> 'w" where
  "sql_refresh_MarkConsumed cr tb i t w =
    one_row (tb_Update tb (\<lambda>r. rte_ID r = uuid_string cr i \<and> rte_ConsumedAt r = None)
      (\<lambda>r. r\<lparr>rte_ConsumedAt := Some t\<rparr>) w)"

text \<open>A token that is revoked already is no error; only an unknown id is.\<close>

definition sql_refresh_Revoke ::
  "crypto \<Rightarrow> (refresh_row, 'w) sql_table \<Rightarrow> uuid \<Rightarrow> time \<Rightarrow> 'w \<Rightarrow> store_error option \<times> 'w" where
  "sql_refresh_Revoke cr tb i t w =
    (case tb_Update tb (\<lambda>r. rte_ID r = uuid_string cr i \<and> rte_RevokedAt r = None)
            (\<lambda>r. r\<lparr>rte_RevokedAt := Some t\<rparr>) w of
       (Inl e, w1) \<Rightarrow> (Some e, w1)
     | (Inr n, w1) \<Rightarrow>
         if n = 0 then
           (case tb_Count tb (\<lambda>r. rte_ID r = uuid_string cr i) w1 of
              Inl e \<Rightarrow> (Some e, w1)
            | Inr m \<Rightarrow> (if m = 0 then Some NotFound else None, w1))
         else (None, w1))"

definition sql_refresh_RevokeBySessionID ::
  "crypto \<Rightarrow> (refresh_row, 'w) sql_table \<Rightarrow> uuid \<Rightarrow> time \<Rightarrow> 'w \<Rightarrow> store_error option \<times> 'w" where
  "sql_refresh_RevokeBySessionID cr tb sid t w =
    any_row (tb_Update tb (\<lambda>r. rte_SessionID r = Some (uuid_string cr sid) \<and> rte_RevokedAt r = None)
      (\<lambda>r. r\<lparr>rte_RevokedAt := Some t\<rparr>) w)"

subsection \<open>Sessions\<close>

definition sql_session_Find ::
  "crypto \<Rightarrow> (session_row, 'w) sql_table \<Rightarrow> uuid \<Rightarrow> 'w \<Rightarrow> store_error + session" where
  "sql_session_Find cr tb i w = row_as (session_of_row cr) (tb_First tb (\<lambda>r. sse_ID r = uuid_string cr i) w)"

definition sql_session_GetPaged ::
  "crypto \<Rightarrow> (session_row, 'w) sql_table \<Rightarrow> paged_request \<Rightarrow> 'w \<Rightarrow> store_error + session paged_result" where
  "sql_session_GetPaged cr tb =
    sql_paged tb (Some (\<lambda>a b. sse_CreatedAt b \<le> sse_CreatedAt a)) (session_of_row cr)"

definition sql_session_Store ::
  "crypto \<Rightarrow> (session_row, 'w) sql_table \<Rightarrow> session \<Rightarrow> 'w \<Rightarrow> store_error option \<times> 'w" where
  "sql_session_Store cr tb x w = tb_Save tb (toSessionEntity cr x) w"

text \<open>Unlike the memory store, revoking a second time is an error here.\<close>

definition sql_session_Revoke ::
  "crypto \<Rightarrow> (session_row, 'w) sql_table \<Rightarrow> uuid \<Rightarrow> time \<Rightarrow> 'w \<Rightarrow> store_error option \<times> 'w" where
  "sql_session_Revoke cr tb i t w =
    hit_row (tb_Update tb (\<lambda>r. sse_ID r = uuid_string cr i \<and> sse_RevokedAt r = None)
      (\<lambda>r. r\<lparr>sse_RevokedAt := Some t\<rparr>) w)"

definition live_row :: "string \<Rightarrow> time \<Rightarrow> session_row \<Rightarrow> bool" where
  "live_row uid t r \<longleftrightarrow> sse_UserID r = uid \<and> sse_RevokedAt r = None \<and> sse_ExpiresAt r > t"

definition sql_session_ListByUserID ::
  "crypto \<Rightarrow> (session_row, 'w) sql_table \<Rightarrow> string \<Rightarrow> time \<Rightarrow> 'w \<Rightarrow> store_error + session list" where
  "sql_session_ListByUserID cr tb uid t w =
    found_as (session_of_row cr) (tb_Find tb \<lparr>qy_where = live_row uid t,
      qy_order = Some (\<lambda>a b. sse_CreatedAt b \<le> sse_CreatedAt a), qy_offset = None, qy_limit = None\<rparr> w)"

text \<open>One transaction: when an id does not parse, the update is rolled back.\<close>

definition sql_session_RevokeByUserIDExcept ::
  "crypto \<Rightarrow> (session_row, 'w) sql_table \<Rightarrow> string \<Rightarrow> uuid \<Rightarrow> time \<Rightarrow> 'w \<Rightarrow> (store_error + uuid list) \<times> 'w" where
  "sql_session_RevokeByUserIDExcept cr tb uid keep t w =
    (case tb_Find tb (all_where (\<lambda>r. live_row uid t r \<and>
             (if keep \<noteq> uuid_nil then sse_ID r \<noteq> uuid_string cr keep else True))) w of
       Inl e \<Rightarrow> (Inl e, w)
     | Inr rs \<Rightarrow>
         let ids = map sse_ID rs in
         if ids = [] then (Inr [], w)
         else case tb_Update tb (\<lambda>r. sse_ID r \<in> set ids \<and> sse_RevokedAt r = None)
                     (\<lambda>r. r\<lparr>sse_RevokedAt := Some t\<rparr>) w of
           (Inl e, w1) \<Rightarrow> (Inl e, w)
         | (Inr n, w1) \<Rightarrow>
             (case rows_as (parse_id cr) ids of Inl e \<Rightarrow> (Inl e, w) | Inr us \<Rightarrow> (Inr us, w1)))"

subsection \<open>Password resets\<close>

definition sql_reset_Create ::
  "crypto \<Rightarrow> (reset_row, 'w) sql_table \<Rightarrow> password_reset_token option \<Rightarrow> 'w \<Rightarrow> store_error option \<times> 'w" where
  "sql_reset_Create cr tb x w =
    (case x of
       None \<Rightarrow> (Some NilEntity, w)
     | Some p \<Rightarrow>
         if pr_ID p = uuid_nil \<or> pr_TokenHash p = [] then (Some EmptyHash, w)
         else tb_Create tb (toPasswordResetEntity cr p) w)"

definition sql_reset_FindByHash ::
  "crypto \<Rightarrow> (reset_row, 'w) sql_table \<Rightarrow> string \<Rightarrow> 'w \<Rightarrow> store_error + password_reset_token" where
  "sql_reset_FindByHash cr tb hash w =
    row_as (reset_of_row cr) (tb_First tb (\<lambda>r. pre_TokenHash r = hash) w)"

definition sql_reset_Consume ::
  "crypto \<Rightarrow> (reset_row, 'w) sql_table \<Rightarrow> uuid \<Rightarrow> time \<Rightarrow> 'w \<Rightarrow> (store_error + bool) \<times> 'w" where
  "sql_reset_Consume cr tb i t w =
    one_row (tb_Update tb (\<lambda>r. pre_ID r = uuid_string cr i \<and> pre_ConsumedAt r = None \<and> pre_ExpiresAt r > t)
      (\<lambda>r. r\<lparr>pre_ConsumedAt := Some t\<rparr>) w)"

definition sql_reset_InvalidateForUser ::
  "(reset_row, 'w) sql_table \<Rightarrow> string \<Rightarrow> time \<Rightarrow> 'w \<Rightarrow> store_error option \<times> 'w" where
  "sql_reset_InvalidateForUser tb uid t w =
    any_row (tb_Update tb (\<lambda>r. pre_UserID r = uid \<and> pre_ConsumedAt r = None)
      (\<lambda>r. r\<lparr>pre_ConsumedAt := Some t\<rparr>) w)"

definition sql_reset_DeleteExpired ::
  "(reset_row, 'w) sql_table \<Rightarrow> time \<Rightarrow> 'w \<Rightarrow> (store_error + nat) \<times> 'w" where
  "sql_reset_DeleteExpired tb before w = tb_Delete tb (\<lambda>r. pre_ExpiresAt r < before) w"

subsection \<open>Clients and scopes\<close>

definition sql_client_FindByClientID ::
  "(client_row, 'w) sql_table \<Rightarrow> string \<Rightarrow> 'w \<Rightarrow> store_error + client" where
  "sql_client_FindByClientID tb i w = row_as client_of_row (tb_First tb (\<lambda>r. cle_ClientID r = i) w)"

definition sql_client_GetPaged ::
  "(client_row, 'w) sql_table \<Rightarrow> paged_request \<Rightarrow> 'w \<Rightarrow> store_error + client paged_result" where
  "sql_client_GetPaged tb = sql_paged tb (Some (\<lambda>a b. cle_ClientID a \<le> cle_ClientID b)) client_of_row"

definition sql_client_Store :: "(client_row, 'w) sql_table \<Rightarrow> client \<Rightarrow> 'w \<Rightarrow> store_error option \<times> 'w" where
  "sql_client_Store tb c w = tb_Save tb (toClientEntity c) w"

definition sql_client_Delete :: "(client_row, 'w) sql_table \<Rightarrow> string \<Rightarrow> 'w \<Rightarrow> store_error option \<times> 'w" where
  "sql_client_Delete tb i w = hit_row (tb_Delete tb (\<lambda>r. cle_ClientID r = i) w)"

definition sql_scope_FindByName :: "(scope_row, 'w) sql_table \<Rightarrow> string \<Rightarrow> 'w \<Rightarrow> store_error + scope" where
  "sql_scope_FindByName tb n w = row_as scope_of_row (tb_First tb (\<lambda>r. sce_Name r = n) w)"

definition sql_scope_GetAll :: "(scope_row, 'w) sql_table \<Rightarrow> 'w \<Rightarrow> store_error + scope list" where
  "sql_scope_GetAll tb w = found_as scope_of_row (tb_Find tb \<lparr>qy_where = \<lambda>_. True,
     qy_order = Some (\<lambda>a b. sce_Name a \<le> sce_Name b), qy_offset = None, qy_limit = None\<rparr> w)"

definition sql_scope_Store :: "(scope_row, 'w) sql_table \<Rightarrow> scope \<Rightarrow> 'w \<Rightarrow> store_error option \<times> 'w" where
  "sql_scope_Store tb x w = tb_Save tb (toScopeEntity x) w"

definition sql_scope_Delete :: "(scope_row, 'w) sql_table \<Rightarrow> string \<Rightarrow> 'w \<Rightarrow> store_error option \<times> 'w" where
  "sql_scope_Delete tb n w = hit_row (tb_Delete tb (\<lambda>r. sce_Name r = n) w)"

subsection \<open>Key rings\<close>

definition sql_signing_GetActive :: "(signing_key_row, 'w) sql_table \<Rightarrow> 'w \<Rightarrow> store_error + signing_key" where
  "sql_signing_GetActive tb w = row_as (\<lambda>r. Inr (signing_key_of_row r)) (tb_First tb ske_IsActive w)"

definition sql_signing_GetAll :: "(signing_key_row, 'w) sql_table \<Rightarrow> 'w \<Rightarrow> store_error + signing_key list" where
  "sql_signing_GetAll tb w = found_as (\<lambda>r. Inr (signing_key_of_row r)) (tb_Find tb \<lparr>qy_where = \<lambda>_. True,
     qy_order = Some (\<lambda>a b. ske_CreatedAt a \<le> ske_CreatedAt b), qy_offset = None, qy_limit = None\<rparr> w)"

definition sql_signing_Store :: "(signing_key_row, 'w) sql_table \<Rightarrow> signing_key \<Rightarrow> 'w \<Rightarrow> store_error option \<times> 'w" where
  "sql_signing_Store tb k w = tb_Save tb (toSigningKeyEntity k) w"

definition sql_dp_GetActive :: "(dp_key_row, 'w) sql_table \<Rightarrow> 'w \<Rightarrow> store_error + data_protection_key" where
  "sql_dp_GetActive tb w = row_as (\<lambda>r. Inr (dp_key_of_row r)) (tb_First tb dke_IsActive w)"

definition sql_dp_GetAll :: "(dp_key_row, 'w) sql_table \<Rightarrow> 'w \<Rightarrow> store_error + data_protection_key list" where
  "sql_dp_GetAll tb w = found_as (\<lambda>r. Inr (dp_key_of_row r)) (tb_Find tb \<lparr>qy_where = \<lambda>_. True,
     qy_order = Some (\<lambda>a b. dke_CreatedAt b \<le> dke_CreatedAt a), qy_offset = None, qy_limit = None\<rparr> w)"

definition sql_dp_Store :: "(dp_key_row, 'w) sql_table \<Rightarrow> data_protection_key \<Rightarrow> 'w \<Rightarrow> store_error option \<times> 'w" where
  "sql_dp_Store tb k w = tb_Save tb (toDataProtectionKeyEntity k) w"

subsection \<open>Audit log\<close>

definition sql_audit_Store ::
  "crypto \<Rightarrow> (audit_row, 'w) sql_table \<Rightarrow> audit_log \<Rightarrow> 'w \<Rightarrow> store_error option \<times> 'w" where
  "sql_audit_Store cr tb l w =
    (case toAuditLogEntity cr l of Inl e \<Rightarrow> (Some e, w) | Inr ent \<Rightarrow> tb_Create tb ent w)"

definition sql_audit_GetPaged ::
  "crypto \<Rightarrow> (audit_row, 'w) sql_table \<Rightarrow> paged_request \<Rightarrow> 'w \<Rightarrow> store_error + audit_log paged_result" where
  "sql_audit_GetPaged cr tb =
    sql_paged tb (Some (\<lambda>a b. ale_Timestamp b \<le> ale_Timestamp a)) (audit_of_row cr)"

definition sql_audit_ListByActor ::
  "crypto \<Rightarrow> (audit_row, 'w) sql_table \<Rightarrow> string \<Rightarrow> string \<Rightarrow> goint \<Rightarrow> 'w \<Rightarrow> store_error + audit_log list" where
  "sql_audit_ListByActor cr tb actor action limit w =
    (let lim = (if sint limit \<le> 0 then 10 else limit) in
     found_as (audit_of_row cr) (tb_Find tb
       \<lparr>qy_where = \<lambda>r. ale_ActorUserID r = actor \<and> ale_Action r = action,
        qy_order = Some (\<lambda>a b. ale_Timestamp b \<le> ale_Timestamp a),
        qy_offset = None, qy_limit = Some lim\<rparr> w))"

subsection \<open>Login attempts\<close>

record sql_tracker_config =
  st_MaxFailures :: goint
  st_LockoutDuration :: duration
  st_ResetAfter :: duration

definition sql_NewLoginAttemptTracker :: sql_tracker_config where
  "sql_NewLoginAttemptTracker =
    \<lparr>st_MaxFailures = 5, st_LockoutDuration = 15 * minute, st_ResetAfter = 15 * minute\<rparr>"

definition sql_IsLockedOut ::
  "sql_tracker_config \<Rightarrow> (attempt_row, 'w) sql_table \<Rightarrow> time \<Rightarrow> string \<Rightarrow> 'w \<Rightarrow> (store_error + bool) \<times> 'w" where
  "sql_IsLockedOut cfg tb t key w =
    (case tb_First tb (\<lambda>r. lae_Principal r = key) w of
       Inl e \<Rightarrow> (if e = NotFound then Inr False else Inl e, w)
     | Inr e \<Rightarrow>
         if (case lae_LockedAt e of
               None \<Rightarrow> False
             | Some l \<Rightarrow> time_sub t l < sint (st_LockoutDuration cfg)) then (Inr True, w)
         else if time_sub t (lae_FirstAt e) > sint (st_ResetAfter cfg) then
           (case tb_Delete tb (\<lambda>r. lae_Principal r = key) w of
              (Inl x, w1) \<Rightarrow> (Inl x, w1)
            | (Inr n, w1) \<Rightarrow> (Inr False, w1))
         else (Inr False, w))"

text \<open>The row after one more failure.\<close>

definition next_attempt :: "sql_tracker_config \<Rightarrow> time \<Rightarrow> attempt_row \<Rightarrow> attempt_row" where
  "next_attempt cfg t e =
    (if time_sub t (lae_FirstAt e) > sint (st_ResetAfter cfg) then
       e\<lparr>lae_Failures := 1, lae_FirstAt := t, lae_LockedAt := None\<rparr>
     else let e' = e\<lparr>lae_Failures := lae_Failures e + 1\<rparr> in
       if sint (lae_Failures e') \<ge> sint (st_MaxFailures cfg) \<and> lae_LockedAt e' = None
       then e'\<lparr>lae_LockedAt := Some t\<rparr> else e')"

text \<open>One transaction, with the row locked: the read and the write are one step.\<close>

definition sql_RecordFailure ::
  "sql_tracker_config \<Rightarrow> (attempt_row, 'w) sql_table \<Rightarrow> time \<Rightarrow> string \<Rightarrow> 'w \<Rightarrow> store_error option \<times> 'w" where
  "sql_RecordFailure cfg tb t key w =
    (case tb_First tb (\<lambda>r. lae_Principal r = key) w of
       Inl e \<Rightarrow>
         if e = NotFound then
           tb_Create tb \<lparr>lae_Principal = key, lae_Failures = 1, lae_FirstAt = t, lae_LockedAt = None\<rparr> w
         else (Some e, w)
     | Inr e \<Rightarrow> tb_Save tb (next_attempt cfg t e) w)"

definition sql_ResetAttempts :: "(attempt_row, 'w) sql_table \<Rightarrow> string \<Rightarrow> 'w \<Rightarrow> store_error option \<times> 'w" where
  "sql_ResetAttempts tb key w = any_row (tb_Delete tb (\<lambda>r. lae_Principal r = key) w)"

end
