(* ===== verification/Sql_Users.thy ===== *)
theory Sql_Users
  imports Sql_Stores
begin

section \<open>The SQL stores of users and roles (internal/store/gormstore/users.go, roles.go)\<close>

text \<open>
  A user's claims, roles, logins and tokens are rows of tables of their own. The methods issue one
  statement after the other without a transaction, so an error in the middle leaves what was done
  before. Names and emails are found by their upper-case spelling.
\<close>

record 'w user_tables =
  ut_users :: "(user_row, 'w) sql_table"
  ut_claims :: "(user_claim_row, 'w) sql_table"
  ut_roles :: "(role_row, 'w) sql_table"
  ut_userRoles :: "(user_role_row, 'w) sql_table"
  ut_roleClaims :: "(role_claim_row, 'w) sql_table"
  ut_logins :: "(user_login_row, 'w) sql_table"
  ut_tokens :: "(user_token_row, 'w) sql_table"

text \<open>A list of statements, up to the first error.\<close>

fun run_all :: "('w \<Rightarrow> store_error option \<times> 'w) list \<Rightarrow> 'w \<Rightarrow> store_error option \<times> 'w" where
  "run_all [] w = (None, w)"
| "run_all (s # ss) w = (case s w of (Some e, w') \<Rightarrow> (Some e, w') | (None, w') \<Rightarrow> run_all ss w')"

definition plain_row :: "('r \<Rightarrow> 'a) \<Rightarrow> store_error + 'r \<Rightarrow> store_error + 'a" where
  "plain_row f res = (case res of Inl e \<Rightarrow> Inl e | Inr r \<Rightarrow> Inr (f r))"

definition plain_rows :: "('r \<Rightarrow> 'a) \<Rightarrow> store_error + 'r list \<Rightarrow> store_error + 'a list" where
  "plain_rows f res = (case res of Inl e \<Rightarrow> Inl e | Inr rs \<Rightarrow> Inr (map f rs))"

subsection \<open>Users\<close>

definition sql_CreateUser ::
  "crypto \<Rightarrow> string \<Rightarrow> 'w user_tables \<Rightarrow> user \<Rightarrow> string \<Rightarrow> 'w \<Rightarrow> store_error option \<times> 'w" where
  "sql_CreateUser cr salt ts u password w =
    (if u_ID u = [] then (Some EmptyID, w)
     else case bcrypt_hash cr salt password of
       None \<Rightarrow> (Some (OtherError ''hash password''), w)
     | Some hash \<Rightarrow> tb_Create (ut_users ts) (toUserEntity (u\<lparr>u_PasswordHash := hash\<rparr>)) w)"

definition sql_UpdateUser :: "'w user_tables \<Rightarrow> user \<Rightarrow> 'w \<Rightarrow> store_error option \<times> 'w" where
  "sql_UpdateUser ts u w =
    (case tb_First (ut_users ts) (\<lambda>r. use_ID r = u_ID u) w of
       Inl e \<Rightarrow> (Some e, w)
     | Inr existing \<Rightarrow>
         tb_Save (ut_users ts) ((toUserEntity u)\<lparr>use_PasswordHash := use_PasswordHash existing\<rparr>) w)"

definition sql_DeleteUser :: "'w user_tables \<Rightarrow> string \<Rightarrow> 'w \<Rightarrow> store_error option \<times> 'w" where
  "sql_DeleteUser ts uid w =
    (case run_all
            [\<lambda>w. any_row (tb_Delete (ut_claims ts) (\<lambda>r. uce_UserID r = uid) w),
             \<lambda>w. any_row (tb_Delete (ut_userRoles ts) (\<lambda>r. ure_UserID r = uid) w),
             \<lambda>w. any_row (tb_Delete (ut_logins ts) (\<lambda>r. ule_UserID r = uid) w),
             \<lambda>w. any_row (tb_Delete (ut_tokens ts) (\<lambda>r. ute_UserID r = uid) w)] w of
       (Some e, w1) \<Rightarrow> (Some e, w1)
     | (None, w1) \<Rightarrow> hit_row (tb_Delete (ut_users ts) (\<lambda>r. use_ID r = uid) w1))"

definition sql_FindUserByID :: "'w user_tables \<Rightarrow> string \<Rightarrow> 'w \<Rightarrow> store_error + user" where
  "sql_FindUserByID ts uid w = plain_row user_of_row (tb_First (ut_users ts) (\<lambda>r. use_ID r = uid) w)"

definition sql_FindUserByUsername :: "'w user_tables \<Rightarrow> string \<Rightarrow> 'w \<Rightarrow> store_error + user" where
  "sql_FindUserByUsername ts name w =
    plain_row user_of_row (tb_First (ut_users ts) (\<lambda>r. use_NormalizedUsername r = to_upper name) w)"

definition sql_FindUserByEmail :: "'w user_tables \<Rightarrow> string \<Rightarrow> 'w \<Rightarrow> store_error + user" where
  "sql_FindUserByEmail ts email w =
    plain_row user_of_row (tb_First (ut_users ts) (\<lambda>r. use_NormalizedEmail r = to_upper email) w)"

definition sql_GetPagedUsers :: "'w user_tables \<Rightarrow> paged_request \<Rightarrow> 'w \<Rightarrow> store_error + user paged_result" where
  "sql_GetPagedUsers ts = sql_paged (ut_users ts) None (\<lambda>r. Inr (user_of_row r))"

definition sql_SetPassword ::
  "crypto \<Rightarrow> string \<Rightarrow> 'w user_tables \<Rightarrow> string \<Rightarrow> string \<Rightarrow> 'w \<Rightarrow> store_error option \<times> 'w" where
  "sql_SetPassword cr salt ts uid password w =
    (case bcrypt_hash cr salt password of
       None \<Rightarrow> (Some (OtherError ''hash password''), w)
     | Some hash \<Rightarrow>
         hit_row (tb_Update (ut_users ts) (\<lambda>r. use_ID r = uid) (\<lambda>r. r\<lparr>use_PasswordHash := hash\<rparr>) w))"

text \<open>The claims of a user as a map: of two rows of one type the later counts.\<close>

definition loadClaims :: "'w user_tables \<Rightarrow> string \<Rightarrow> 'w \<Rightarrow> store_error + claims" where
  "loadClaims ts uid w =
    (case tb_Find (ut_claims ts) (all_where (\<lambda>r. uce_UserID r = uid)) w of
       Inl e \<Rightarrow> Inl e
     | Inr rs \<Rightarrow> Inr (fold (\<lambda>r. gm_put (uce_Type r) (JStr (uce_Value r))) rs []))"

definition standard_claims :: "user_row \<Rightarrow> claims \<Rightarrow> claims" where
  "standard_claims r cs =
    (let c1 = gm_put ''preferred_username'' (JStr (use_Username r)) cs in
     if use_Email r \<noteq> []
     then gm_put ''email_verified'' (JBool (use_EmailConfirmed r)) (gm_put ''email'' (JStr (use_Email r)) c1)
     else c1)"

definition sql_ValidateCredentials ::
  "crypto \<Rightarrow> 'w user_tables \<Rightarrow> string \<Rightarrow> string \<Rightarrow> 'w \<Rightarrow> store_error + user_info option" where
  "sql_ValidateCredentials cr ts name password w =
    (case tb_First (ut_users ts) (\<lambda>r. use_ID r = name \<or> use_NormalizedUsername r = to_upper name \<or>
              use_NormalizedEmail r = to_upper name) w of
       Inl e \<Rightarrow> if e = NotFound then Inr None else Inl e
     | Inr r \<Rightarrow>
         if \<not> bcrypt_compare cr (use_PasswordHash r) password then Inr None
         else (case loadClaims ts (use_ID r) w of
                 Inl e \<Rightarrow> Inl e
               | Inr cs \<Rightarrow> Inr (Some \<lparr>ui_UserID = use_ID r, ui_Claims = standard_claims r cs\<rparr>)))"

definition sql_FindByID :: "'w user_tables \<Rightarrow> string \<Rightarrow> 'w \<Rightarrow> store_error + user_info" where
  "sql_FindByID ts uid w =
    (case tb_First (ut_users ts) (\<lambda>r. use_ID r = uid) w of
       Inl e \<Rightarrow> Inl e
     | Inr r \<Rightarrow>
         (case loadClaims ts (use_ID r) w of
            Inl e \<Rightarrow> Inl e
          | Inr cs \<Rightarrow> Inr \<lparr>ui_UserID = use_ID r, ui_Claims = standard_claims r cs\<rparr>))"

subsection \<open>Claims, roles, logins, tokens\<close>

definition sql_GetUserClaims :: "'w user_tables \<Rightarrow> string \<Rightarrow> 'w \<Rightarrow> store_error + user_claim list" where
  "sql_GetUserClaims ts uid w =
    plain_rows (\<lambda>r. \<lparr>uc_Type = uce_Type r, uc_Value = uce_Value r\<rparr>)
      (tb_Find (ut_claims ts) (all_where (\<lambda>r. uce_UserID r = uid)) w)"

definition sql_AddUserClaims ::
  "'w user_tables \<Rightarrow> string \<Rightarrow> user_claim list \<Rightarrow> 'w \<Rightarrow> store_error option \<times> 'w" where
  "sql_AddUserClaims ts uid cs =
    run_all (map (\<lambda>c. tb_Create (ut_claims ts)
      \<lparr>uce_UserID = uid, uce_Type = uc_Type c, uce_Value = uc_Value c\<rparr>) cs)"

definition sql_RemoveUserClaims ::
  "'w user_tables \<Rightarrow> string \<Rightarrow> user_claim list \<Rightarrow> 'w \<Rightarrow> store_error option \<times> 'w" where
  "sql_RemoveUserClaims ts uid cs =
    run_all (map (\<lambda>c w. any_row (tb_Delete (ut_claims ts)
      (\<lambda>r. uce_UserID r = uid \<and> uce_Type r = uc_Type c \<and> uce_Value r = uc_Value c) w)) cs)"

definition sql_ReplaceUserClaims ::
  "'w user_tables \<Rightarrow> string \<Rightarrow> user_claim list \<Rightarrow> 'w \<Rightarrow> store_error option \<times> 'w" where
  "sql_ReplaceUserClaims ts uid cs w =
    (case any_row (tb_Delete (ut_claims ts) (\<lambda>r. uce_UserID r = uid) w) of
       (Some e, w1) \<Rightarrow> (Some e, w1)
     | (None, w1) \<Rightarrow> sql_AddUserClaims ts uid cs w1)"

definition sql_GetUserRoles :: "'w user_tables \<Rightarrow> string \<Rightarrow> 'w \<Rightarrow> store_error + string list" where
  "sql_GetUserRoles ts uid w =
    (case tb_Find (ut_userRoles ts) (all_where (\<lambda>r. ure_UserID r = uid)) w of
       Inl e \<Rightarrow> Inl e
     | Inr [] \<Rightarrow> Inr []
     | Inr urs \<Rightarrow>
         plain_rows roe_Name
           (tb_Find (ut_roles ts) (all_where (\<lambda>r. roe_ID r \<in> set (map ure_RoleID urs))) w))"

definition role_named :: "'w user_tables \<Rightarrow> string \<Rightarrow> 'w \<Rightarrow> store_error + role_row" where
  "role_named ts name w = tb_First (ut_roles ts) (\<lambda>r. roe_NormalizedName r = to_upper name) w"

text \<open>A role the user has already is passed over.\<close>

definition add_to_role :: "'w user_tables \<Rightarrow> string \<Rightarrow> string \<Rightarrow> 'w \<Rightarrow> store_error option \<times> 'w" where
  "add_to_role ts uid name w =
    (case role_named ts name w of
       Inl e \<Rightarrow> (Some e, w)
     | Inr ro \<Rightarrow>
         (case tb_Create (ut_userRoles ts) \<lparr>ure_UserID = uid, ure_RoleID = roe_ID ro\<rparr> w of
            (Some Duplicate, w1) \<Rightarrow> (None, w1)
          | res \<Rightarrow> res))"

definition sql_AddToRoles :: "'w user_tables \<Rightarrow> string \<Rightarrow> string list \<Rightarrow> 'w \<Rightarrow> store_error option \<times> 'w" where
  "sql_AddToRoles ts uid names = run_all (map (add_to_role ts uid) names)"

definition remove_from_role :: "'w user_tables \<Rightarrow> string \<Rightarrow> string \<Rightarrow> 'w \<Rightarrow> store_error option \<times> 'w" where
  "remove_from_role ts uid name w =
    (case role_named ts name w of
       Inl e \<Rightarrow> (if e = NotFound then None else Some e, w)
     | Inr ro \<Rightarrow>
         any_row (tb_Delete (ut_userRoles ts) (\<lambda>r. ure_UserID r = uid \<and> ure_RoleID r = roe_ID ro) w))"

definition sql_RemoveFromRoles ::
  "'w user_tables \<Rightarrow> string \<Rightarrow> string list \<Rightarrow> 'w \<Rightarrow> store_error option \<times> 'w" where
  "sql_RemoveFromRoles ts uid names = run_all (map (remove_from_role ts uid) names)"

definition sql_GetUsersInRole :: "'w user_tables \<Rightarrow> string \<Rightarrow> 'w \<Rightarrow> store_error + string list" where
  "sql_GetUsersInRole ts name w =
    (case role_named ts name w of
       Inl e \<Rightarrow> if e = NotFound then Inr [] else Inl e
     | Inr ro \<Rightarrow>
         plain_rows ure_UserID (tb_Find (ut_userRoles ts) (all_where (\<lambda>r. ure_RoleID r = roe_ID ro)) w))"

definition sql_GetUserLogins :: "'w user_tables \<Rightarrow> string \<Rightarrow> 'w \<Rightarrow> store_error + user_login list" where
  "sql_GetUserLogins ts uid w =
    plain_rows user_login_of_row (tb_Find (ut_logins ts) (all_where (\<lambda>r. ule_UserID r = uid)) w)"

definition sql_AddLogin :: "'w user_tables \<Rightarrow> user_login \<Rightarrow> 'w \<Rightarrow> store_error option \<times> 'w" where
  "sql_AddLogin ts l w = tb_Create (ut_logins ts) (toUserLoginEntity l) w"

definition sql_RemoveLogin ::
  "'w user_tables \<Rightarrow> string \<Rightarrow> string \<Rightarrow> string \<Rightarrow> 'w \<Rightarrow> store_error option \<times> 'w" where
  "sql_RemoveLogin ts uid provider key w =
    hit_row (tb_Delete (ut_logins ts)
      (\<lambda>r. ule_UserID r = uid \<and> ule_LoginProvider r = provider \<and> ule_ProviderKey r = key) w)"

definition sql_FindByLogin :: "'w user_tables \<Rightarrow> string \<Rightarrow> string \<Rightarrow> 'w \<Rightarrow> store_error + user" where
  "sql_FindByLogin ts provider key w =
    (case tb_First (ut_logins ts) (\<lambda>r. ule_LoginProvider r = provider \<and> ule_ProviderKey r = key) w of
       Inl e \<Rightarrow> Inl e
     | Inr l \<Rightarrow> plain_row user_of_row (tb_First (ut_users ts) (\<lambda>r. use_ID r = ule_UserID l) w))"

definition sql_SetUserToken :: "'w user_tables \<Rightarrow> user_token \<Rightarrow> 'w \<Rightarrow> store_error option \<times> 'w" where
  "sql_SetUserToken ts t w = tb_Save (ut_tokens ts) (toUserTokenEntity t) w"

definition is_token_row :: "string \<Rightarrow> string \<Rightarrow> string \<Rightarrow> user_token_row \<Rightarrow> bool" where
  "is_token_row uid provider name r \<longleftrightarrow>
    ute_UserID r = uid \<and> ute_LoginProvider r = provider \<and> ute_Name r = name"

definition sql_GetUserToken ::
  "'w user_tables \<Rightarrow> string \<Rightarrow> string \<Rightarrow> string \<Rightarrow> 'w \<Rightarrow> store_error + user_token" where
  "sql_GetUserToken ts uid provider name w =
    plain_row user_token_of_row (tb_First (ut_tokens ts) (is_token_row uid provider name) w)"

definition sql_RemoveUserToken ::
  "'w user_tables \<Rightarrow> string \<Rightarrow> string \<Rightarrow> string \<Rightarrow> 'w \<Rightarrow> store_error option \<times> 'w" where
  "sql_RemoveUserToken ts uid provider name w =
    hit_row (tb_Delete (ut_tokens ts) (is_token_row uid provider name) w)"

subsection \<open>Roles\<close>

definition sql_CreateRole :: "'w user_tables \<Rightarrow> role \<Rightarrow> 'w \<Rightarrow> store_error option \<times> 'w" where
  "sql_CreateRole ts ro w =
    (if r_ID ro = [] then (Some EmptyID, w) else tb_Create (ut_roles ts) (toRoleEntity ro) w)"

definition sql_DeleteRole :: "'w user_tables \<Rightarrow> string \<Rightarrow> 'w \<Rightarrow> store_error option \<times> 'w" where
  "sql_DeleteRole ts rid w =
    (case run_all
            [\<lambda>w. any_row (tb_Delete (ut_userRoles ts) (\<lambda>r. ure_RoleID r = rid) w),
             \<lambda>w. any_row (tb_Delete (ut_roleClaims ts) (\<lambda>r. rce_RoleID r = rid) w)] w of
       (Some e, w1) \<Rightarrow> (Some e, w1)
     | (None, w1) \<Rightarrow> hit_row (tb_Delete (ut_roles ts) (\<lambda>r. roe_ID r = rid) w1))"

definition sql_FindRoleByID :: "'w user_tables \<Rightarrow> string \<Rightarrow> 'w \<Rightarrow> store_error + role" where
  "sql_FindRoleByID ts rid w = plain_row role_of_row (tb_First (ut_roles ts) (\<lambda>r. roe_ID r = rid) w)"

definition sql_FindRoleByName :: "'w user_tables \<Rightarrow> string \<Rightarrow> 'w \<Rightarrow> store_error + role" where
  "sql_FindRoleByName ts name w = plain_row role_of_row (role_named ts name w)"

definition sql_GetAllRoles :: "'w user_tables \<Rightarrow> 'w \<Rightarrow> store_error + role list" where
  "sql_GetAllRoles ts w = plain_rows role_of_row (tb_Find (ut_roles ts) (all_where (\<lambda>_. True)) w)"

definition sql_GetRoleClaims :: "'w user_tables \<Rightarrow> string \<Rightarrow> 'w \<Rightarrow> store_error + user_claim list" where
  "sql_GetRoleClaims ts rid w =
    plain_rows (\<lambda>r. \<lparr>uc_Type = rce_Type r, uc_Value = rce_Value r\<rparr>)
      (tb_Find (ut_roleClaims ts) (all_where (\<lambda>r. rce_RoleID r = rid)) w)"

definition sql_AddRoleClaims ::
  "'w user_tables \<Rightarrow> string \<Rightarrow> user_claim list \<Rightarrow> 'w \<Rightarrow> store_error option \<times> 'w" where
  "sql_AddRoleClaims ts rid cs =
    run_all (map (\<lambda>c. tb_Create (ut_roleClaims ts)
      \<lparr>rce_RoleID = rid, rce_Type = uc_Type c, rce_Value = uc_Value c\<rparr>) cs)"

definition sql_RemoveRoleClaims ::
  "'w user_tables \<Rightarrow> string \<Rightarrow> user_claim list \<Rightarrow> 'w \<Rightarrow> store_error option \<times> 'w" where
  "sql_RemoveRoleClaims ts rid cs =
    run_all (map (\<lambda>c w. any_row (tb_Delete (ut_roleClaims ts)
      (\<lambda>r. rce_RoleID r = rid \<and> rce_Type r = uc_Type c \<and> rce_Value r = uc_Value c) w)) cs)"

definition sql_ReplaceRoleClaims ::
  "'w user_tables \<Rightarrow> string \<Rightarrow> user_claim list \<Rightarrow> 'w \<Rightarrow> store_error option \<times> 'w" where
  "sql_ReplaceRoleClaims ts rid cs w =
    (case any_row (tb_Delete (ut_roleClaims ts) (\<lambda>r. rce_RoleID r = rid) w) of
       (Some e, w1) \<Rightarrow> (Some e, w1)
     | (None, w1) \<Rightarrow> sql_AddRoleClaims ts rid cs w1)"

definition sql_UpdateRole :: "'w user_tables \<Rightarrow> role \<Rightarrow> 'w \<Rightarrow> store_error option \<times> 'w" where
  "sql_UpdateRole ts ro w =
    (if r_ID ro = [] then (Some EmptyID, w) else tb_Save (ut_roles ts) (toRoleEntity ro) w)"

end
