(* ===== verification/Code_Book.thy ===== *)
theory Code_Book
  imports Mem_World
begin

section \<open>What a store of authorization codes promises\<close>

text \<open>
  The abstract store: which code a hash finds. An operation is a call of the interface of
  internal/store/authcode_store.go, an answer what its caller sees. A new code is issued under an id and a
  hash of its own. The locale \<open>code_book_store\<close> says that an implementation behaves like the
  book, one call at a time; its lemma \<open>run_refines\<close> extends that to every sequence of calls.
\<close>

type_synonym code_book = "string \<Rightarrow> authorization_code option"

datatype code_op = IssueCode authorization_code | FindCode string | SpendCode uuid time

datatype code_answer = Issued bool | FoundCode "authorization_code option" | SpentNow bool

definition spend_code :: "uuid \<Rightarrow> time \<Rightarrow> authorization_code \<Rightarrow> authorization_code" where
  "spend_code i t c = (if ac_ID c = i \<and> ac_ConsumedAt c = None then c\<lparr>ac_ConsumedAt := Some t\<rparr> else c)"

definition spendable :: "uuid \<Rightarrow> code_book \<Rightarrow> bool" where
  "spendable i b \<longleftrightarrow> (\<exists>h c. b h = Some c \<and> ac_ID c = i \<and> ac_ConsumedAt c = None)"

definition issuable :: "authorization_code \<Rightarrow> code_book \<Rightarrow> bool" where
  "issuable c b \<longleftrightarrow> ac_ID c \<noteq> uuid_nil \<and> ac_CodeHash c \<noteq> [] \<and> b (ac_CodeHash c) = None \<and>
    (\<forall>h d. b h = Some d \<longrightarrow> ac_ID d \<noteq> ac_ID c)"

fun book_step :: "code_op \<Rightarrow> code_book \<Rightarrow> code_answer \<times> code_book" where
  "book_step (IssueCode c) b = (Issued True, b(ac_CodeHash c \<mapsto> c))"
| "book_step (FindCode h) b = (FoundCode (b h), b)"
| "book_step (SpendCode i t) b = (SpentNow (spendable i b), \<lambda>h. map_option (spend_code i t) (b h))"

fun book_run :: "code_op list \<Rightarrow> code_book \<Rightarrow> code_answer list \<times> code_book" where
  "book_run [] b = ([], b)"
| "book_run (x # xs) b =
    (case book_step x b of (a, b1) \<Rightarrow> (case book_run xs b1 of (as, b2) \<Rightarrow> (a # as, b2)))"

text \<open>Every code issued along the run is new.\<close>

fun fresh_codes :: "code_op list \<Rightarrow> code_book \<Rightarrow> bool" where
  "fresh_codes [] b = True"
| "fresh_codes (x # xs) b =
    ((case x of IssueCode c \<Rightarrow> issuable c b | _ \<Rightarrow> True) \<and> fresh_codes xs (snd (book_step x b)))"

text \<open>The same calls on an implementation.\<close>

fun store_step :: "'w auth_code_store \<Rightarrow> code_op \<Rightarrow> 'w \<Rightarrow> code_answer \<times> 'w" where
  "store_step st (IssueCode c) w = (case acs_Store st (Some c) w of (e, w1) \<Rightarrow> (Issued (e = None), w1))"
| "store_step st (FindCode h) w =
    (FoundCode (case acs_FindByHash st h w of Inl _ \<Rightarrow> None | Inr c \<Rightarrow> Some c), w)"
| "store_step st (SpendCode i t) w =
    (case acs_MarkConsumed st i t w of (r, w1) \<Rightarrow> (SpentNow (r = Inr True), w1))"

fun store_run :: "'w auth_code_store \<Rightarrow> code_op list \<Rightarrow> 'w \<Rightarrow> code_answer list \<times> 'w" where
  "store_run st [] w = ([], w)"
| "store_run st (x # xs) w =
    (case store_step st x w of (a, w1) \<Rightarrow> (case store_run st xs w1 of (as, w2) \<Rightarrow> (a # as, w2)))"

locale code_book_store =
  fixes st :: "'w auth_code_store"
    and good :: "'w \<Rightarrow> bool"
    and book :: "'w \<Rightarrow> code_book"
  assumes find_book: "good w \<Longrightarrow>
      (case acs_FindByHash st h w of Inl _ \<Rightarrow> None | Inr c \<Rightarrow> Some c) = book w h"
    and issue_book: "good w \<Longrightarrow> issuable c (book w) \<Longrightarrow>
      fst (acs_Store st (Some c) w) = None \<and> good (snd (acs_Store st (Some c) w)) \<and>
      book (snd (acs_Store st (Some c) w)) = (book w)(ac_CodeHash c \<mapsto> c)"
    and spend_book: "good w \<Longrightarrow>
      (fst (acs_MarkConsumed st i t w) = Inr True \<longleftrightarrow> spendable i (book w)) \<and>
      good (snd (acs_MarkConsumed st i t w)) \<and>
      book (snd (acs_MarkConsumed st i t w)) = (\<lambda>h. map_option (spend_code i t) (book w h))"
begin

lemma step_refines:
  assumes "good w" "fresh_codes [x] (book w)"
  shows "fst (store_step st x w) = fst (book_step x (book w)) \<and> good (snd (store_step st x w)) \<and>
    book (snd (store_step st x w)) = snd (book_step x (book w))"
proof (cases x)
  case (IssueCode c)
  then show ?thesis using issue_book [of w c] assms by (simp add: split_beta)
next
  case (FindCode h)
  then show ?thesis using find_book [of w h] assms by simp
next
  case (SpendCode i t)
  then show ?thesis using spend_book [of w i t] assms by (simp add: split_beta)
qed

lemma run_refines:
  "good w \<Longrightarrow> fresh_codes xs (book w) \<Longrightarrow>
    fst (store_run st xs w) = fst (book_run xs (book w)) \<and> good (snd (store_run st xs w)) \<and>
    book (snd (store_run st xs w)) = snd (book_run xs (book w))"
proof (induction xs arbitrary: w)
  case (Cons x xs)
  have one: "fst (store_step st x w) = fst (book_step x (book w))" "good (snd (store_step st x w))"
    "book (snd (store_step st x w)) = snd (book_step x (book w))"
    using step_refines [of w x] Cons.prems by simp_all
  with Cons.IH [of "snd (store_step st x w)"] Cons.prems(2) show ?case by (simp add: split_beta)
qed simp

end

subsection \<open>The memory store\<close>

definition mem_codes_ok :: "auth_code_mem \<Rightarrow> bool" where
  "mem_codes_ok s \<longleftrightarrow>
    (\<forall>i c. gm_get (acm_codes s) i = Some c \<longrightarrow> ac_ID c = i \<and> gm_get (acm_byHash s) (ac_CodeHash c) = Some i) \<and>
    (\<forall>h i. gm_get (acm_byHash s) h = Some i \<longrightarrow>
      (\<exists>c. gm_get (acm_codes s) i = Some c \<and> ac_CodeHash c = h))"

definition mem_book :: "auth_code_mem \<Rightarrow> code_book" where
  "mem_book s h = (case gm_get (acm_byHash s) h of None \<Rightarrow> None | Some i \<Rightarrow> gm_get (acm_codes s) i)"

lemma mem_codes_okI:
  assumes "\<And>i c. gm_get (acm_codes s) i = Some c \<Longrightarrow> ac_ID c = i"
    and "\<And>i c. gm_get (acm_codes s) i = Some c \<Longrightarrow> gm_get (acm_byHash s) (ac_CodeHash c) = Some i"
    and "\<And>h i. gm_get (acm_byHash s) h = Some i \<Longrightarrow> \<exists>c. gm_get (acm_codes s) i = Some c \<and> ac_CodeHash c = h"
  shows "mem_codes_ok s"
  using assms unfolding mem_codes_ok_def by blast

lemma mem_codes_okD:
  assumes "mem_codes_ok s"
  shows "gm_get (acm_codes s) i = Some c \<Longrightarrow> ac_ID c = i"
    and "gm_get (acm_codes s) i = Some c \<Longrightarrow> gm_get (acm_byHash s) (ac_CodeHash c) = Some i"
    and "gm_get (acm_byHash s) h = Some i \<Longrightarrow> \<exists>c. gm_get (acm_codes s) i = Some c \<and> ac_CodeHash c = h"
  using assms unfolding mem_codes_ok_def by blast+

lemma mem_book_iff:
  assumes ok: "mem_codes_ok s"
  shows "mem_book s h = Some c \<longleftrightarrow> gm_get (acm_codes s) (ac_ID c) = Some c \<and> ac_CodeHash c = h"
proof
  assume "mem_book s h = Some c"
  then obtain i where i: "gm_get (acm_byHash s) h = Some i" "gm_get (acm_codes s) i = Some c"
    by (auto simp: mem_book_def split: option.splits)
  with mem_codes_okD(3) [OF ok i(1)] mem_codes_okD(1) [OF ok i(2)]
  show "gm_get (acm_codes s) (ac_ID c) = Some c \<and> ac_CodeHash c = h" by auto
next
  assume "gm_get (acm_codes s) (ac_ID c) = Some c \<and> ac_CodeHash c = h"
  then show "mem_book s h = Some c" using mem_codes_okD(2) [OF ok] by (auto simp: mem_book_def)
qed

lemma mem_codes_ok_spend:
  assumes ok: "mem_codes_ok s" and c: "gm_get (acm_codes s) i = Some c"
  shows "mem_codes_ok (s\<lparr>acm_codes := gm_put i (c\<lparr>ac_ConsumedAt := u\<rparr>) (acm_codes s)\<rparr>)"
proof (rule mem_codes_okI, goal_cases)
  case (1 j d)
  then show ?case using mem_codes_okD(1) [OF ok] c by (auto split: if_splits)
next
  case (2 j d)
  then show ?case using mem_codes_okD(2) [OF ok] c by (auto split: if_splits)
next
  case (3 h j)
  then show ?case using mem_codes_okD(3) [OF ok, of h j] c by (auto split: if_splits)
qed

lemma mem_book_spend:
  assumes ok: "mem_codes_ok s" and c: "gm_get (acm_codes s) i = Some c" "ac_ConsumedAt c = None"
  shows "mem_book (s\<lparr>acm_codes := gm_put i (c\<lparr>ac_ConsumedAt := Some t\<rparr>) (acm_codes s)\<rparr>) =
    (\<lambda>h. map_option (spend_code i t) (mem_book s h))"
proof
  fix h
  show "mem_book (s\<lparr>acm_codes := gm_put i (c\<lparr>ac_ConsumedAt := Some t\<rparr>) (acm_codes s)\<rparr>) h =
      map_option (spend_code i t) (mem_book s h)"
  proof (cases "gm_get (acm_byHash s) h")
    case (Some j)
    then obtain d where d: "gm_get (acm_codes s) j = Some d" using mem_codes_okD(3) [OF ok] by blast
    have id: "ac_ID d = j" by (rule mem_codes_okD(1) [OF ok d])
    show ?thesis
    proof (cases "j = i")
      case True
      with d c(1) have "d = c" by simp
      with True Some c id show ?thesis by (simp add: mem_book_def spend_code_def)
    next
      case False
      with Some d id show ?thesis by (simp add: mem_book_def spend_code_def)
    qed
  qed (simp add: mem_book_def)
qed

lemma mem_issue:
  assumes ok: "mem_codes_ok s" and new: "issuable c (mem_book s)"
  defines "s' \<equiv> s\<lparr>acm_codes := gm_put (ac_ID c) c (acm_codes s),
    acm_byHash := gm_put (ac_CodeHash c) (ac_ID c) (acm_byHash s)\<rparr>"
  shows "mem_codes_ok s'" "mem_book s' = (mem_book s)(ac_CodeHash c \<mapsto> c)"
proof -
  have hash: "gm_get (acm_byHash s) (ac_CodeHash c) = None"
    using new mem_codes_okD(3) [OF ok, of "ac_CodeHash c"]
    by (cases "gm_get (acm_byHash s) (ac_CodeHash c)") (auto simp: issuable_def mem_book_def)
  have id: "gm_get (acm_codes s) (ac_ID c) = None"
  proof (cases "gm_get (acm_codes s) (ac_ID c)")
    case (Some d)
    then have "ac_ID d = ac_ID c" "mem_book s (ac_CodeHash d) = Some d"
      using mem_codes_okD(1,2) [OF ok Some] Some by (auto simp: mem_book_def)
    with new show ?thesis by (auto simp: issuable_def)
  qed
  then have other: "gm_get (acm_byHash s) h \<noteq> Some (ac_ID c)" for h
    using mem_codes_okD(3) [OF ok, of h "ac_ID c"] by auto
  show "mem_codes_ok s'"
  proof (rule mem_codes_okI, goal_cases)
    case (1 j d)
    then show ?case using mem_codes_okD(1) [OF ok, of j d] by (auto simp: s'_def split: if_splits)
  next
    case (2 j d)
    then show ?case using mem_codes_okD(2) [OF ok, of j d] hash by (auto simp: s'_def split: if_splits)
  next
    case (3 h j)
    show ?case
    proof (cases "h = ac_CodeHash c")
      case False
      with 3 have h: "gm_get (acm_byHash s) h = Some j" by (simp add: s'_def)
      with other [of h] have "j \<noteq> ac_ID c" by auto
      with mem_codes_okD(3) [OF ok h] show ?thesis by (simp add: s'_def)
    qed (use 3 in \<open>simp add: s'_def\<close>)
  qed
  show "mem_book s' = (mem_book s)(ac_CodeHash c \<mapsto> c)"
  proof
    fix h
    show "mem_book s' h = ((mem_book s)(ac_CodeHash c \<mapsto> c)) h"
      using other [of h] by (cases "gm_get (acm_byHash s) h") (auto simp: s'_def mem_book_def)
  qed
qed

interpretation mem_codes_book: code_book_store mem_auth_codes "\<lambda>w. mem_codes_ok (w_codes w)"
  "\<lambda>w. mem_book (w_codes w)"
proof
  fix w :: world and h
  assume ok: "mem_codes_ok (w_codes w)"
  show "(case acs_FindByHash mem_auth_codes h w of Inl _ \<Rightarrow> None | Inr c \<Rightarrow> Some c) = mem_book (w_codes w) h"
    using mem_codes_okD(3) [OF ok, of h]
    by (cases "gm_get (acm_byHash (w_codes w)) h") (auto simp: mem_auth_codes_def authcode_FindByHash_def mem_book_def)
next
  fix w :: world and c
  assume ok: "mem_codes_ok (w_codes w)" and new: "issuable c (mem_book (w_codes w))"
  then have "ac_CodeHash c \<noteq> []" by (simp add: issuable_def)
  with mem_issue [OF ok new] show "fst (acs_Store mem_auth_codes (Some c) w) = None \<and>
      mem_codes_ok (w_codes (snd (acs_Store mem_auth_codes (Some c) w))) \<and>
      mem_book (w_codes (snd (acs_Store mem_auth_codes (Some c) w))) = (mem_book (w_codes w))(ac_CodeHash c \<mapsto> c)"
    by (simp add: mem_auth_codes_def authcode_Store_def)
next
  fix w :: world and i t
  assume ok: "mem_codes_ok (w_codes w)"
  let ?s = "w_codes w" and ?r = "acs_MarkConsumed mem_auth_codes i t w"
  have some: "spendable i (mem_book ?s) \<longleftrightarrow> (\<exists>c. gm_get (acm_codes ?s) i = Some c \<and> ac_ConsumedAt c = None)"
    unfolding spendable_def mem_book_iff [OF ok] using mem_codes_okD(1) [OF ok] by auto
  show "(fst ?r = Inr True \<longleftrightarrow> spendable i (mem_book ?s)) \<and> mem_codes_ok (w_codes (snd ?r)) \<and>
      mem_book (w_codes (snd ?r)) = (\<lambda>h. map_option (spend_code i t) (mem_book ?s h))"
  proof (cases "spendable i (mem_book ?s)")
    case True
    with some obtain c where c: "gm_get (acm_codes ?s) i = Some c" "ac_ConsumedAt c = None" by blast
    with True mem_codes_ok_spend [OF ok c(1)] mem_book_spend [OF ok c] show ?thesis
      by (simp add: mem_auth_codes_def authcode_MarkConsumed_def)
  next
    case False
    then have same: "map_option (spend_code i t) (mem_book ?s h) = mem_book ?s h" for h
      by (cases "mem_book ?s h") (auto simp: spendable_def spend_code_def)
    have "fst ?r \<noteq> Inr True \<and> w_codes (snd ?r) = ?s"
      using False some by (auto simp: mem_auth_codes_def authcode_MarkConsumed_def split: option.splits)
    with False ok same show ?thesis by auto
  qed
qed

end
