(* ===== verification/Sql_World.thy ===== *)
theory Sql_World
  imports Sql_Users Code_Book
begin

section \<open>The store interfaces on the database\<close>

text \<open>
  What buildStores in cmd/authserver hands to the handlers: the interface records of
  Store_Interfaces over tables of the database. The handlers pass a non-nil entity wherever the
  interface takes a pointer; the SQL stores would dereference a nil one, which the model answers
  with an error. \<open>database\<close> is one state with a list of rows per table.
\<close>

definition non_nil ::
  "('a \<Rightarrow> 'w \<Rightarrow> store_error option \<times> 'w) \<Rightarrow> 'a option \<Rightarrow> 'w \<Rightarrow> store_error option \<times> 'w" where
  "non_nil f x w = (case x of None \<Rightarrow> (Some (OtherError ''nil pointer''), w) | Some v \<Rightarrow> f v w)"

lemma non_nil_Some [simp]: "non_nil f (Some v) w = f v w"
  by (simp add: non_nil_def)

definition sql_auth_codes :: "crypto \<Rightarrow> (auth_code_row, 'w) sql_table \<Rightarrow> 'w auth_code_store" where
  "sql_auth_codes cr tb =
    \<lparr>acs_Store = non_nil (sql_authcode_Store cr tb), acs_FindByHash = sql_authcode_FindByHash cr tb,
     acs_MarkConsumed = sql_authcode_MarkConsumed cr tb\<rparr>"

definition sql_refresh_tokens :: "crypto \<Rightarrow> (refresh_row, 'w) sql_table \<Rightarrow> 'w refresh_token_store" where
  "sql_refresh_tokens cr tb =
    \<lparr>rts_Store = non_nil (sql_refresh_Store cr tb), rts_FindByHash = sql_refresh_FindByHash cr tb,
     rts_FindByID = sql_refresh_FindByID cr tb, rts_MarkConsumed = sql_refresh_MarkConsumed cr tb,
     rts_Revoke = sql_refresh_Revoke cr tb, rts_RevokeBySessionID = sql_refresh_RevokeBySessionID cr tb\<rparr>"

definition sql_sessions :: "crypto \<Rightarrow> (session_row, 'w) sql_table \<Rightarrow> 'w session_store" where
  "sql_sessions cr tb =
    \<lparr>ss_Find = sql_session_Find cr tb, ss_Store = non_nil (sql_session_Store cr tb),
     ss_Revoke = sql_session_Revoke cr tb, ss_ListByUserID = sql_session_ListByUserID cr tb,
     ss_RevokeByUserIDExcept = sql_session_RevokeByUserIDExcept cr tb\<rparr>"

definition sql_clients :: "(client_row, 'w) sql_table \<Rightarrow> 'w client_store" where
  "sql_clients tb =
    \<lparr>cs_FindByClientID = sql_client_FindByClientID tb, cs_Store = non_nil (sql_client_Store tb),
     cs_Delete = sql_client_Delete tb\<rparr>"

definition sql_signing_keys :: "(signing_key_row, 'w) sql_table \<Rightarrow> 'w signing_key_store" where
  "sql_signing_keys tb =
    \<lparr>sks_GetActive = sql_signing_GetActive tb, sks_GetAll = sql_signing_GetAll tb,
     sks_Store = non_nil (sql_signing_Store tb)\<rparr>"

definition sql_dp_keys :: "(dp_key_row, 'w) sql_table \<Rightarrow> 'w data_protection_store" where
  "sql_dp_keys tb =
    \<lparr>dps_GetActive = sql_dp_GetActive tb, dps_GetAll = sql_dp_GetAll tb, dps_Store = non_nil (sql_dp_Store tb)\<rparr>"

definition sql_scopes :: "(scope_row, 'w) sql_table \<Rightarrow> 'w scope_store" where
  "sql_scopes tb =
    \<lparr>scs_FindByName = sql_scope_FindByName tb, scs_GetAll = sql_scope_GetAll tb,
     scs_Store = non_nil (sql_scope_Store tb), scs_Delete = sql_scope_Delete tb\<rparr>"

definition sql_resets :: "crypto \<Rightarrow> (reset_row, 'w) sql_table \<Rightarrow> 'w password_reset_store" where
  "sql_resets cr tb =
    \<lparr>prs_Create = sql_reset_Create cr tb, prs_FindByHash = sql_reset_FindByHash cr tb,
     prs_Consume = sql_reset_Consume cr tb, prs_InvalidateForUser = sql_reset_InvalidateForUser tb,
     prs_DeleteExpired = sql_reset_DeleteExpired tb\<rparr>"

definition sql_audit_logs :: "crypto \<Rightarrow> (audit_row, 'w) sql_table \<Rightarrow> 'w audit_log_store" where
  "sql_audit_logs cr tb =
    \<lparr>als_Store = non_nil (sql_audit_Store cr tb), als_ListByActor = sql_audit_ListByActor cr tb\<rparr>"

definition sql_users :: "crypto \<Rightarrow> runtime \<Rightarrow> 'w user_tables \<Rightarrow> 'w user_store" where
  "sql_users cr rt ts =
    \<lparr>us_ValidateCredentials = sql_ValidateCredentials cr ts, us_FindByID = sql_FindByID ts,
     us_CreateUser = sql_CreateUser cr (bcrypt_salt rt) ts, us_UpdateUser = sql_UpdateUser ts,
     us_DeleteUser = sql_DeleteUser ts, us_FindUserByID = sql_FindUserByID ts,
     us_FindUserByUsername = sql_FindUserByUsername ts, us_FindUserByEmail = sql_FindUserByEmail ts,
     us_SetPassword = sql_SetPassword cr (bcrypt_salt rt) ts, us_GetUserRoles = sql_GetUserRoles ts\<rparr>"

text \<open>The tracker reads its clock at the places of the memory tracker.\<close>

definition sql_tracker_store ::
  "runtime \<Rightarrow> sql_tracker_config \<Rightarrow> (attempt_row, 'w) sql_table \<Rightarrow> 'w login_attempt_tracker" where
  "sql_tracker_store rt cfg tb =
    \<lparr>lat_IsLockedOut = sql_IsLockedOut cfg tb (now rt 200), lat_RecordFailure = sql_RecordFailure cfg tb (now rt 201),
     lat_Reset = sql_ResetAttempts tb\<rparr>"

subsection \<open>A database\<close>

record database =
  db_clients :: "client_row list"
  db_codes :: "auth_code_row list"
  db_refresh :: "refresh_row list"
  db_sessions :: "session_row list"
  db_signing :: "signing_key_row list"
  db_dpkeys :: "dp_key_row list"
  db_scopes :: "scope_row list"
  db_audit :: "audit_row list"
  db_resets :: "reset_row list"
  db_attempts :: "attempt_row list"
  db_users :: "user_row list"
  db_userClaims :: "user_claim_row list"
  db_roles :: "role_row list"
  db_userRoles :: "user_role_row list"
  db_roleClaims :: "role_claim_row list"
  db_logins :: "user_login_row list"
  db_tokens :: "user_token_row list"

definition empty_database :: database where
  "empty_database = \<lparr>db_clients = [], db_codes = [], db_refresh = [], db_sessions = [], db_signing = [],
     db_dpkeys = [], db_scopes = [], db_audit = [], db_resets = [], db_attempts = [],
     db_users = [], db_userClaims = [], db_roles = [], db_userRoles = [], db_roleClaims = [], db_logins = [],
     db_tokens = []\<rparr>"

text \<open>The unique indexes of the schema besides the primary keys (the tags of entities.go).\<close>

definition same_code_hash :: "auth_code_row \<Rightarrow> auth_code_row \<Rightarrow> bool" where
  "same_code_hash a b \<longleftrightarrow> ace_CodeHash a = ace_CodeHash b"

definition same_token_hash :: "refresh_row \<Rightarrow> refresh_row \<Rightarrow> bool" where
  "same_token_hash a b \<longleftrightarrow> rte_TokenHash a = rte_TokenHash b"

definition same_reset_hash :: "reset_row \<Rightarrow> reset_row \<Rightarrow> bool" where
  "same_reset_hash a b \<longleftrightarrow> pre_TokenHash a = pre_TokenHash b"

definition no_index :: "'r \<Rightarrow> 'r \<Rightarrow> bool" where
  "no_index a b = False"

definition same_username :: "user_row \<Rightarrow> user_row \<Rightarrow> bool" where
  "same_username a b \<longleftrightarrow> use_Username a = use_Username b \<or> use_NormalizedUsername a = use_NormalizedUsername b"

definition same_role_name :: "role_row \<Rightarrow> role_row \<Rightarrow> bool" where
  "same_role_name a b \<longleftrightarrow> roe_Name a = roe_Name b \<or> roe_NormalizedName a = roe_NormalizedName b"

text \<open>Rows numbered by the database: an insert never clashes.\<close>

definition numbered_table :: "('w \<Rightarrow> 'r list) \<Rightarrow> ('r list \<Rightarrow> 'w \<Rightarrow> 'w) \<Rightarrow> ('r, 'w) sql_table" where
  "numbered_table get put =
    (list_table (\<lambda>_. ()) no_index get put)\<lparr>tb_Create := \<lambda>r. zoom get put (\<lambda>rs. (None, rs @ [r]))\<rparr>"

definition code_table :: "(auth_code_row, database) sql_table" where
  "code_table = list_table ace_ID same_code_hash db_codes (\<lambda>rs. db_codes_update (\<lambda>_. rs))"

definition refresh_table :: "(refresh_row, database) sql_table" where
  "refresh_table = list_table rte_ID same_token_hash db_refresh (\<lambda>rs. db_refresh_update (\<lambda>_. rs))"

definition session_table :: "(session_row, database) sql_table" where
  "session_table = list_table sse_ID no_index db_sessions (\<lambda>rs. db_sessions_update (\<lambda>_. rs))"

definition client_table :: "(client_row, database) sql_table" where
  "client_table = list_table cle_ClientID no_index db_clients (\<lambda>rs. db_clients_update (\<lambda>_. rs))"

definition reset_table :: "(reset_row, database) sql_table" where
  "reset_table = list_table pre_ID same_reset_hash db_resets (\<lambda>rs. db_resets_update (\<lambda>_. rs))"

definition attempt_table :: "(attempt_row, database) sql_table" where
  "attempt_table = list_table lae_Principal no_index db_attempts (\<lambda>rs. db_attempts_update (\<lambda>_. rs))"

definition signing_table :: "(signing_key_row, database) sql_table" where
  "signing_table = list_table ske_KeyID no_index db_signing (\<lambda>rs. db_signing_update (\<lambda>_. rs))"

definition dp_table :: "(dp_key_row, database) sql_table" where
  "dp_table = list_table dke_KeyID no_index db_dpkeys (\<lambda>rs. db_dpkeys_update (\<lambda>_. rs))"

definition scope_table :: "(scope_row, database) sql_table" where
  "scope_table = list_table sce_Name no_index db_scopes (\<lambda>rs. db_scopes_update (\<lambda>_. rs))"

definition audit_table :: "(audit_row, database) sql_table" where
  "audit_table = list_table ale_ID no_index db_audit (\<lambda>rs. db_audit_update (\<lambda>_. rs))"

definition user_table :: "(user_row, database) sql_table" where
  "user_table = list_table use_ID same_username db_users (\<lambda>rs. db_users_update (\<lambda>_. rs))"

definition role_table :: "(role_row, database) sql_table" where
  "role_table = list_table roe_ID same_role_name db_roles (\<lambda>rs. db_roles_update (\<lambda>_. rs))"

definition user_role_table :: "(user_role_row, database) sql_table" where
  "user_role_table = list_table (\<lambda>r. (ure_UserID r, ure_RoleID r)) no_index db_userRoles (\<lambda>rs. db_userRoles_update (\<lambda>_. rs))"

definition login_table :: "(user_login_row, database) sql_table" where
  "login_table = list_table (\<lambda>r. (ule_LoginProvider r, ule_ProviderKey r)) no_index db_logins (\<lambda>rs. db_logins_update (\<lambda>_. rs))"

definition token_table :: "(user_token_row, database) sql_table" where
  "token_table = list_table (\<lambda>r. (ute_UserID r, ute_LoginProvider r, ute_Name r)) no_index db_tokens (\<lambda>rs. db_tokens_update (\<lambda>_. rs))"

definition claim_table :: "(user_claim_row, database) sql_table" where
  "claim_table = numbered_table db_userClaims (\<lambda>rs. db_userClaims_update (\<lambda>_. rs))"

definition role_claim_table :: "(role_claim_row, database) sql_table" where
  "role_claim_table = numbered_table db_roleClaims (\<lambda>rs. db_roleClaims_update (\<lambda>_. rs))"

definition user_tables_of_database :: "database user_tables" where
  "user_tables_of_database = \<lparr>ut_users = user_table, ut_claims = claim_table, ut_roles = role_table,
     ut_userRoles = user_role_table, ut_roleClaims = role_claim_table, ut_logins = login_table,
     ut_tokens = token_table\<rparr>"

interpretation code_rows: sql_table_laws code_table db_codes ace_ID same_code_hash
  unfolding code_table_def by (rule list_table_laws) simp

interpretation refresh_rows: sql_table_laws refresh_table db_refresh rte_ID same_token_hash
  unfolding refresh_table_def by (rule list_table_laws) simp

interpretation session_rows: sql_table_laws session_table db_sessions sse_ID no_index
  unfolding session_table_def by (rule list_table_laws) simp

interpretation client_rows: sql_table_laws client_table db_clients cle_ClientID no_index
  unfolding client_table_def by (rule list_table_laws) simp

interpretation reset_rows: sql_table_laws reset_table db_resets pre_ID same_reset_hash
  unfolding reset_table_def by (rule list_table_laws) simp

interpretation attempt_rows: sql_table_laws attempt_table db_attempts lae_Principal no_index
  unfolding attempt_table_def by (rule list_table_laws) simp

interpretation scope_rows: sql_table_laws scope_table db_scopes sce_Name no_index
  unfolding scope_table_def by (rule list_table_laws) simp

interpretation user_rows: sql_table_laws user_table db_users use_ID same_username
  unfolding user_table_def by (rule list_table_laws) simp

interpretation role_rows: sql_table_laws role_table db_roles roe_ID same_role_name
  unfolding role_table_def by (rule list_table_laws) simp

interpretation signing_rows: sql_table_laws signing_table db_signing ske_KeyID no_index
  unfolding signing_table_def by (rule list_table_laws) simp

interpretation dp_rows: sql_table_laws dp_table db_dpkeys dke_KeyID no_index
  unfolding dp_table_def by (rule list_table_laws) simp

end
