(* ===== verification/Sql_Codes.thy ===== *)
theory Sql_Codes
  imports Sql_World Sample
begin

section \<open>The code book in the database\<close>

text \<open>
  The store of authcode.go behaves like the book of Code_Book on every table that keeps the laws
  of \<open>sql_table_laws\<close>, so both implementations answer every sequence of calls alike.
\<close>

definition code_rows_ok :: "crypto \<Rightarrow> auth_code_row list \<Rightarrow> bool" where
  "code_rows_ok cr rs \<longleftrightarrow> distinct (map ace_ID rs) \<and>
    (\<forall>r \<in> set rs. \<forall>r' \<in> set rs. ace_CodeHash r = ace_CodeHash r' \<longrightarrow> r = r') \<and>
    (\<forall>r \<in> set rs. \<exists>c. toAuthCodeEntity cr c = Inr r)"

definition rows_book :: "crypto \<Rightarrow> auth_code_row list \<Rightarrow> code_book" where
  "rows_book cr rs h =
    (case find (\<lambda>r. ace_CodeHash r = h) rs of
       None \<Rightarrow> None
     | Some r \<Rightarrow> (case auth_code_of_row cr r of Inl _ \<Rightarrow> None | Inr c \<Rightarrow> Some c))"

lemma entity_fields:
  assumes "toAuthCodeEntity cr c = Inr r"
  shows "ace_ID r = uuid_string cr (ac_ID c)" "ace_CodeHash r = ac_CodeHash c"
    "ace_ConsumedAt r = ac_ConsumedAt c" "ac_ID c \<noteq> uuid_nil"
  using assms by (auto simp: toAuthCodeEntity_def split: if_splits)

lemma entity_spent:
  "toAuthCodeEntity cr c = Inr r \<Longrightarrow>
    toAuthCodeEntity cr (c\<lparr>ac_ConsumedAt := u\<rparr>) = Inr (r\<lparr>ace_ConsumedAt := u\<rparr>)"
  by (auto simp: toAuthCodeEntity_def split: if_splits)

lemma rows_book_iff:
  assumes ok: "code_rows_ok cr rs" and cr: "uuid_texts cr"
  shows "rows_book cr rs h = Some c \<longleftrightarrow> (\<exists>r \<in> set rs. toAuthCodeEntity cr c = Inr r \<and> ac_CodeHash c = h)"
proof
  assume "rows_book cr rs h = Some c"
  then obtain r where r: "r \<in> set rs" "ace_CodeHash r = h" "auth_code_of_row cr r = Inr c"
    by (auto simp: rows_book_def split: option.splits sum.splits dest: find_Some_set)
  then obtain d where d: "toAuthCodeEntity cr d = Inr r" using ok unfolding code_rows_ok_def by blast
  with r(3) cr have "c = d" using id_rows_round_trip(1) by fastforce
  with r d show "\<exists>r \<in> set rs. toAuthCodeEntity cr c = Inr r \<and> ac_CodeHash c = h"
    using entity_fields(2) by metis
next
  assume "\<exists>r \<in> set rs. toAuthCodeEntity cr c = Inr r \<and> ac_CodeHash c = h"
  then obtain r where r: "r \<in> set rs" "toAuthCodeEntity cr c = Inr r" "ac_CodeHash c = h" by blast
  then have hash: "ace_CodeHash r = h" using entity_fields(2) by metis
  then obtain r' where r': "find (\<lambda>r. ace_CodeHash r = h) rs = Some r'"
    using r(1) by (cases "find (\<lambda>r. ace_CodeHash r = h) rs") (auto simp: find_None_iff)
  then have "r' \<in> set rs" "ace_CodeHash r' = h" by (auto dest: find_Some_set)
  with ok r(1) hash have "r' = r" unfolding code_rows_ok_def by blast
  moreover have "auth_code_of_row cr r = Inr c" using id_rows_round_trip(1) [OF cr r(2)] .
  ultimately show "rows_book cr rs h = Some c" using r' by (simp add: rows_book_def)
qed

lemma book_eqI: "(\<And>h c. m h = Some c \<longleftrightarrow> m' h = Some c) \<Longrightarrow> m = (m' :: code_book)"
  by (rule ext) (metis option.exhaust)

text \<open>The rows after the conditional \<open>UPDATE\<close>.\<close>

definition hit_code :: "crypto \<Rightarrow> uuid \<Rightarrow> auth_code_row \<Rightarrow> bool" where
  "hit_code cr i r \<longleftrightarrow> ace_ID r = uuid_string cr i \<and> ace_ConsumedAt r = None"

definition spend_row :: "crypto \<Rightarrow> uuid \<Rightarrow> time \<Rightarrow> auth_code_row \<Rightarrow> auth_code_row" where
  "spend_row cr i t r = (if hit_code cr i r then r\<lparr>ace_ConsumedAt := Some t\<rparr> else r)"

lemma spend_row_same [simp]:
  "ace_ID (spend_row cr i t r) = ace_ID r" "ace_CodeHash (spend_row cr i t r) = ace_CodeHash r"
  by (simp_all add: spend_row_def)

lemma entity_spend_row:
  assumes cr: "uuid_texts cr" and r: "toAuthCodeEntity cr c = Inr r"
  shows "toAuthCodeEntity cr (spend_code i t c) = Inr (spend_row cr i t r)"
    and "hit_code cr i r \<longleftrightarrow> ac_ID c = i \<and> ac_ConsumedAt c = None"
  using r entity_spent [OF r, of "Some t"] entity_fields [OF r] uuid_texts_inject [OF cr]
  by (auto simp: spend_code_def spend_row_def hit_code_def)

lemma hit_code_iff:
  assumes ok: "code_rows_ok cr rs" and cr: "uuid_texts cr"
  shows "(\<exists>r \<in> set rs. hit_code cr i r) \<longleftrightarrow> spendable i (rows_book cr rs)"
proof
  assume "\<exists>r \<in> set rs. hit_code cr i r"
  then obtain r c where r: "r \<in> set rs" "hit_code cr i r" "toAuthCodeEntity cr c = Inr r"
    using ok unfolding code_rows_ok_def by blast
  then have "rows_book cr rs (ac_CodeHash c) = Some c" unfolding rows_book_iff [OF ok cr] by blast
  then show "spendable i (rows_book cr rs)"
    using entity_spend_row(2) [OF cr r(3)] r(2) unfolding spendable_def by blast
next
  assume "spendable i (rows_book cr rs)"
  then obtain h c where c: "rows_book cr rs h = Some c" "ac_ID c = i" "ac_ConsumedAt c = None"
    unfolding spendable_def by blast
  then obtain r where "r \<in> set rs" "toAuthCodeEntity cr c = Inr r" unfolding rows_book_iff [OF ok cr] by blast
  with c(2,3) entity_spend_row(2) [OF cr] show "\<exists>r \<in> set rs. hit_code cr i r" by blast
qed

lemma code_rows_spend:
  assumes ok: "code_rows_ok cr rs" and cr: "uuid_texts cr"
  shows "code_rows_ok cr (map (spend_row cr i t) rs)"
  unfolding code_rows_ok_def
proof (intro conjI ballI impI)
  show "distinct (map ace_ID (map (spend_row cr i t) rs))"
    using ok by (simp add: code_rows_ok_def o_def)
next
  fix r r'
  assume "r \<in> set (map (spend_row cr i t) rs)" "r' \<in> set (map (spend_row cr i t) rs)"
    "ace_CodeHash r = ace_CodeHash r'"
  then obtain x x' where x: "x \<in> set rs" "x' \<in> set rs" "r = spend_row cr i t x" "r' = spend_row cr i t x'"
    "ace_CodeHash x = ace_CodeHash x'" by auto
  with ok have "x = x'" unfolding code_rows_ok_def by blast
  with x show "r = r'" by simp
next
  fix r
  assume "r \<in> set (map (spend_row cr i t) rs)"
  then obtain x where x: "x \<in> set rs" "r = spend_row cr i t x" by auto
  then obtain c where "toAuthCodeEntity cr c = Inr x" using ok unfolding code_rows_ok_def by blast
  from entity_spend_row(1) [OF cr this] x(2) show "\<exists>c. toAuthCodeEntity cr c = Inr r" by blast
qed

lemma rows_book_spend:
  assumes ok: "code_rows_ok cr rs" and cr: "uuid_texts cr"
  shows "rows_book cr (map (spend_row cr i t) rs) = (\<lambda>h. map_option (spend_code i t) (rows_book cr rs h))"
proof
  fix h
  let ?rs = "map (spend_row cr i t) rs"
  note ok' = code_rows_spend [OF ok cr, of i t]
  show "rows_book cr ?rs h = map_option (spend_code i t) (rows_book cr rs h)"
  proof (cases "rows_book cr rs h")
    case (Some c)
    then obtain r where r: "r \<in> set rs" "toAuthCodeEntity cr c = Inr r" "ac_CodeHash c = h"
      unfolding rows_book_iff [OF ok cr] by blast
    have "spend_row cr i t r \<in> set ?rs" using r(1) by simp
    moreover have "ac_CodeHash (spend_code i t c) = h" using r(3) by (simp add: spend_code_def)
    ultimately have "rows_book cr ?rs h = Some (spend_code i t c)"
      unfolding rows_book_iff [OF ok' cr] using entity_spend_row(1) [OF cr r(2)] by blast
    with Some show ?thesis by simp
  next
    case None
    have "rows_book cr ?rs h \<noteq> Some d" for d
    proof
      assume "rows_book cr ?rs h = Some d"
      then obtain r where r: "r \<in> set rs" "toAuthCodeEntity cr d = Inr (spend_row cr i t r)" "ac_CodeHash d = h"
        unfolding rows_book_iff [OF ok' cr] by auto
      obtain c where c: "toAuthCodeEntity cr c = Inr r" using ok r(1) unfolding code_rows_ok_def by blast
      have "ac_CodeHash c = h" using entity_fields(2) [OF c] entity_fields(2) [OF r(2)] r(3) by simp
      with c r(1) have "rows_book cr rs h = Some c" unfolding rows_book_iff [OF ok cr] by blast
      with None show False by simp
    qed
    with None show ?thesis by (cases "rows_book cr ?rs h") auto
  qed
qed

text \<open>The rows after a new code was stored.\<close>

lemma code_rows_issue:
  assumes ok: "code_rows_ok cr rs" and cr: "uuid_texts cr" and new: "issuable c (rows_book cr rs)"
    and r: "toAuthCodeEntity cr c = Inr r" and x: "x \<in> set rs"
  shows "ace_ID x \<noteq> ace_ID r \<and> \<not> same_code_hash x r"
proof -
  obtain d where d: "toAuthCodeEntity cr d = Inr x" using ok x unfolding code_rows_ok_def by blast
  then have b: "rows_book cr rs (ac_CodeHash d) = Some d"
    unfolding rows_book_iff [OF ok cr] using x by blast
  with new have "ac_ID d \<noteq> ac_ID c" "ac_CodeHash d \<noteq> ac_CodeHash c" by (auto simp: issuable_def)
  then show ?thesis
    using entity_fields [OF r] entity_fields [OF d] uuid_texts_inject [OF cr] by (simp add: same_code_hash_def)
qed

lemma rows_book_issue:
  assumes ok: "code_rows_ok cr rs" "code_rows_ok cr rs'" and cr: "uuid_texts cr"
    and new: "issuable c (rows_book cr rs)" and r: "toAuthCodeEntity cr c = Inr r"
    and mem: "\<And>x. x \<in> set rs' \<longleftrightarrow> x = r \<or> x \<in> set rs"
  shows "rows_book cr rs' = (rows_book cr rs)(ac_CodeHash c \<mapsto> c)"
proof (rule book_eqI)
  fix h d
  have one: "toAuthCodeEntity cr d = Inr r \<longleftrightarrow> d = c"
    using r id_rows_round_trip(1) [OF cr] by (metis sum.inject(2))
  have "rows_book cr rs (ac_CodeHash c) = None" using new by (simp add: issuable_def)
  then show "rows_book cr rs' h = Some d \<longleftrightarrow> ((rows_book cr rs)(ac_CodeHash c \<mapsto> c)) h = Some d"
    using one r rows_book_iff [OF ok(1) cr, of h d] rows_book_iff [OF ok(2) cr, of h d] mem by auto
qed

lemma sql_code_book:
  assumes laws: "sql_table_laws tb rows ace_ID same_code_hash" and cr: "uuid_texts cr"
  shows "code_book_store (sql_auth_codes cr tb) (\<lambda>w. code_rows_ok cr (rows w)) (\<lambda>w. rows_book cr (rows w))"
proof
  fix w h
  assume ok: "code_rows_ok cr (rows w)"
  show "(case acs_FindByHash (sql_auth_codes cr tb) h w of Inl _ \<Rightarrow> None | Inr c \<Rightarrow> Some c) =
      rows_book cr (rows w) h"
  proof (cases "tb_First tb (\<lambda>r. ace_CodeHash r = h) w")
    case (Inl e)
    then have "find (\<lambda>r. ace_CodeHash r = h) (rows w) = None"
      using sql_table_laws.first_none [OF laws] by (auto simp: find_None_iff)
    with Inl show ?thesis
      by (simp add: sql_auth_codes_def sql_authcode_FindByHash_def row_as_def rows_book_def)
  next
    case (Inr r)
    then have r: "r \<in> set (rows w)" "ace_CodeHash r = h"
      using sql_table_laws.first_row [OF laws] by blast+
    then obtain r' where f: "find (\<lambda>r. ace_CodeHash r = h) (rows w) = Some r'"
      by (cases "find (\<lambda>r. ace_CodeHash r = h) (rows w)") (auto simp: find_None_iff)
    then have "r' \<in> set (rows w)" "ace_CodeHash r' = h" by (auto dest: find_Some_set)
    with ok r have "r' = r" unfolding code_rows_ok_def by blast
    with Inr f show ?thesis
      by (simp add: sql_auth_codes_def sql_authcode_FindByHash_def row_as_def rows_book_def)
  qed
next
  fix w c
  assume ok: "code_rows_ok cr (rows w)" and new: "issuable c (rows_book cr (rows w))"
  then obtain r where r: "toAuthCodeEntity cr c = Inr r"
    by (auto simp: issuable_def toAuthCodeEntity_def)
  have old: "ace_ID x \<noteq> ace_ID r \<and> \<not> same_code_hash x r" if "x \<in> set (rows w)" for x
    by (rule code_rows_issue [OF ok cr new r that])
  then have free: "\<forall>x \<in> set (rows w). ace_ID x = ace_ID r \<or> \<not> same_code_hash x r" by blast
  let ?w = "snd (tb_Save tb r w)"
  have mem: "x \<in> set (rows ?w) \<longleftrightarrow> x = r \<or> x \<in> set (rows w)" for x
    using sql_table_laws.save_row_mem [OF laws free] old by blast
  have ok': "code_rows_ok cr (rows ?w)"
    using ok old r sql_table_laws.save_keys_distinct [OF laws free]
    unfolding code_rows_ok_def mem same_code_hash_def Ball_def by metis
  from rows_book_issue [OF ok ok' cr new r mem] ok' r sql_table_laws.save_ok [OF laws free]
  show "fst (acs_Store (sql_auth_codes cr tb) (Some c) w) = None \<and>
      code_rows_ok cr (rows (snd (acs_Store (sql_auth_codes cr tb) (Some c) w))) \<and>
      rows_book cr (rows (snd (acs_Store (sql_auth_codes cr tb) (Some c) w))) =
        (rows_book cr (rows w))(ac_CodeHash c \<mapsto> c)"
    by (simp add: sql_auth_codes_def sql_authcode_Store_def)
next
  fix w i t
  assume ok: "code_rows_ok cr (rows w)"
  let ?u = "tb_Update tb (hit_code cr i) (\<lambda>r. r\<lparr>ace_ConsumedAt := Some t\<rparr>) w"
  have rows': "rows (snd ?u) = map (spend_row cr i t) (rows w)"
    using sql_table_laws.update [OF laws] by (simp add: spend_row_def)
  have "distinct (map ace_ID (rows w))" using ok by (simp add: code_rows_ok_def)
  from sql_table_laws.update_one [OF laws this, of "hit_code cr i" "uuid_string cr i"]
  have n: "fst ?u = Inr (if spendable i (rows_book cr (rows w)) then 1 else 0)"
    unfolding hit_code_iff [OF ok cr, symmetric] by (simp add: hit_code_def)
  have mark: "acs_MarkConsumed (sql_auth_codes cr tb) i t w = one_row ?u"
    by (simp add: sql_auth_codes_def sql_authcode_MarkConsumed_def hit_code_def [abs_def])
  show "(fst (acs_MarkConsumed (sql_auth_codes cr tb) i t w) = Inr True \<longleftrightarrow> spendable i (rows_book cr (rows w))) \<and>
      code_rows_ok cr (rows (snd (acs_MarkConsumed (sql_auth_codes cr tb) i t w))) \<and>
      rows_book cr (rows (snd (acs_MarkConsumed (sql_auth_codes cr tb) i t w))) =
        (\<lambda>h. map_option (spend_code i t) (rows_book cr (rows w) h))"
    unfolding mark using n code_rows_spend [OF ok cr, of i t] rows_book_spend [OF ok cr, of i t] rows'
    by (cases ?u) (auto simp: one_row_def split: if_splits)
qed

subsection \<open>Both stores follow the book\<close>

text \<open>Ids as text in a crypto that prints a number in unary.\<close>

definition unary_crypto :: crypto where
  "unary_crypto = sample_crypto
    \<lparr>uuid_string := (\<lambda>i. replicate (unat i) CHR ''x''), uuid_parse := (\<lambda>s. Some (of_nat (length s)))\<rparr>"

lemma unary_texts [simp]: "uuid_texts unary_crypto"
  by (simp add: uuid_texts_def unary_crypto_def)

interpretation sql_codes_book: code_book_store "sql_auth_codes unary_crypto code_table"
  "\<lambda>w. code_rows_ok unary_crypto (db_codes w)" "\<lambda>w. rows_book unary_crypto (db_codes w)"
  by (rule sql_code_book [OF code_rows.sql_table_laws_axioms unary_texts])

text \<open>
  C4. The memory store and the SQL store of authorization codes refine one abstract code book. On
  states that hold the same codes, every sequence of calls (issue a new code, look one up by its
  hash, spend one by its id) gets from both the answers of the book, and both end in states that
  again hold the codes of the book.
\<close>

theorem code_stores_refine_the_book:
  assumes "sql_table_laws tb rows ace_ID same_code_hash" "uuid_texts cr"
    and "mem_codes_ok (w_codes w)" "code_rows_ok cr (rows d)" "rows_book cr (rows d) = mem_book (w_codes w)"
    and "fresh_codes calls (mem_book (w_codes w))"
    and "store_run mem_auth_codes calls w = (as, w')"
    and "store_run (sql_auth_codes cr tb) calls d = (bs, d')"
  shows "as = fst (book_run calls (mem_book (w_codes w))) \<and> bs = as \<and>
    mem_book (w_codes w') = snd (book_run calls (mem_book (w_codes w))) \<and>
    rows_book cr (rows d') = mem_book (w_codes w')"
proof -
  note m = mem_codes_book.run_refines [OF assms(3) assms(6)]
  note q = code_book_store.run_refines [OF sql_code_book [OF assms(1,2)] assms(4), of calls]
  show ?thesis using m q assms(5-8) by simp
qed

definition book_calls :: "code_op list" where
  "book_calls = [IssueCode (sample_code\<lparr>ac_ID := 3, ac_CodeHash := ''h''\<rparr>), SpendCode 3 7, SpendCode 3 8,
     FindCode ''h'', SpendCode 4 8]"

lemma fresh_book_calls: "fresh_codes book_calls (mem_book NewAuthorizationCodeStore)"
  by (simp add: book_calls_def issuable_def mem_book_def NewAuthorizationCodeStore_def)

lemma code_stores_refine_the_book_witness:
  "fst (store_run (sql_auth_codes unary_crypto code_table) book_calls empty_database) =
      fst (store_run mem_auth_codes book_calls empty_world) \<and>
    fst (store_run mem_auth_codes book_calls empty_world) =
      fst (book_run book_calls (mem_book NewAuthorizationCodeStore))"
proof -
  have m: "mem_codes_ok (w_codes empty_world)" "mem_book (w_codes empty_world) = (\<lambda>_. None)"
    "w_codes empty_world = NewAuthorizationCodeStore"
    by (simp_all add: mem_codes_ok_def mem_book_def empty_world_def NewAuthorizationCodeStore_def fun_eq_iff)
  have q: "code_rows_ok unary_crypto (db_codes empty_database)"
    "rows_book unary_crypto (db_codes empty_database) = mem_book (w_codes empty_world)"
    unfolding m(2) by (simp_all add: code_rows_ok_def rows_book_def empty_database_def fun_eq_iff)
  note run = code_stores_refine_the_book [OF code_rows.sql_table_laws_axioms unary_texts m(1) q
    fresh_book_calls [folded m(3)] prod.collapse [symmetric] prod.collapse [symmetric]]
  show ?thesis unfolding m(3) [symmetric] using run by blast
qed

end
