(* ===== verification/Sql_Lockout.thy ===== *)
theory Sql_Lockout
  imports Sql_World Login_Attempts
begin

section \<open>The two login attempt trackers\<close>

text \<open>
  The tracker of gormstore/loginattempt.go promises the semantics of the memory tracker. The two
  are compared call by call, on states with the same counters: a row with no lock stands for
  an entry whose lock is the zero time.
\<close>

datatype tracker_call = AskLocked time string | NoteFailure time string | ClearKey string

datatype tracker_answer = Locked "store_error + bool" | Done "store_error option"

fun mem_tracker_step :: "tracker_call \<Rightarrow> attempt_tracker \<Rightarrow> tracker_answer \<times> attempt_tracker" where
  "mem_tracker_step (AskLocked t k) s = (case IsLockedOut t k s of (b, s1) \<Rightarrow> (Locked (Inr b), s1))"
| "mem_tracker_step (NoteFailure t k) s = (Done None, RecordFailure t k s)"
| "mem_tracker_step (ClearKey k) s = (Done None, ResetAttempts k s)"

fun sql_tracker_step ::
  "sql_tracker_config \<Rightarrow> (attempt_row, 'w) sql_table \<Rightarrow> tracker_call \<Rightarrow> 'w \<Rightarrow> tracker_answer \<times> 'w" where
  "sql_tracker_step cfg tb (AskLocked t k) w = (case sql_IsLockedOut cfg tb t k w of (r, w1) \<Rightarrow> (Locked r, w1))"
| "sql_tracker_step cfg tb (NoteFailure t k) w = (case sql_RecordFailure cfg tb t k w of (e, w1) \<Rightarrow> (Done e, w1))"
| "sql_tracker_step cfg tb (ClearKey k) w = (case sql_ResetAttempts tb k w of (e, w1) \<Rightarrow> (Done e, w1))"

fun tracker_run :: "(tracker_call \<Rightarrow> 's \<Rightarrow> tracker_answer \<times> 's) \<Rightarrow> tracker_call list \<Rightarrow> 's \<Rightarrow> tracker_answer list \<times> 's" where
  "tracker_run step [] s = ([], s)"
| "tracker_run step (c # cs) s =
    (case step c s of (a, s1) \<Rightarrow> (case tracker_run step cs s1 of (as, s2) \<Rightarrow> (a # as, s2)))"

fun call_time :: "tracker_call \<Rightarrow> time option" where
  "call_time (AskLocked t k) = Some t"
| "call_time (NoteFailure t k) = Some t"
| "call_time (ClearKey k) = None"

text \<open>A row as the entry of the memory tracker.\<close>

definition attempt_of_row :: "attempt_row \<Rightarrow> attempt" where
  "attempt_of_row r = \<lparr>la_failures = lae_Failures r, la_firstAt = lae_FirstAt r,
     la_lockedAt = (case lae_LockedAt r of None \<Rightarrow> zero_time | Some t \<Rightarrow> t)\<rparr>"

definition attempts_match :: "attempt_row list \<Rightarrow> (string, attempt) gomap \<Rightarrow> bool" where
  "attempts_match rs m \<longleftrightarrow> distinct (map lae_Principal rs) \<and>
    (\<forall>r \<in> set rs. gm_get m (lae_Principal r) = Some (attempt_of_row r) \<and> lae_LockedAt r \<noteq> Some zero_time) \<and>
    (\<forall>k a. gm_get m k = Some a \<longrightarrow> (\<exists>r \<in> set rs. lae_Principal r = k))"

definition same_config :: "sql_tracker_config \<Rightarrow> attempt_tracker \<Rightarrow> bool" where
  "same_config cfg s \<longleftrightarrow> st_MaxFailures cfg = lt_MaxFailures s \<and>
    st_LockoutDuration cfg = lt_LockoutDuration s \<and> st_ResetAfter cfg = lt_ResetAfter s"

lemma match_None: "attempts_match rs m \<Longrightarrow> gm_get m k = None \<longleftrightarrow> (\<forall>r \<in> set rs. lae_Principal r \<noteq> k)"
  unfolding attempts_match_def by fastforce

lemma match_put:
  assumes "attempts_match rs m" "lae_LockedAt r \<noteq> Some zero_time" "distinct (map lae_Principal rs')"
    and "\<And>x. x \<in> set rs' \<longleftrightarrow> x = r \<or> x \<in> set rs \<and> lae_Principal x \<noteq> lae_Principal r"
  shows "attempts_match rs' (gm_put (lae_Principal r) (attempt_of_row r) m)"
  using assms(1-3) unfolding attempts_match_def assms(4)
  by (auto split: if_splits) (metis assms(4))+

lemma match_del:
  assumes "attempts_match rs m"
  shows "attempts_match (filter (\<lambda>r. lae_Principal r \<noteq> k) rs) (gm_del k m)"
  using assms unfolding attempts_match_def by (auto simp: distinct_map_filter split: if_splits)

lemma attempt_locked_row:
  "lae_LockedAt r \<noteq> Some zero_time \<Longrightarrow>
    (\<not> is_zero_time (la_lockedAt (attempt_of_row r)) \<and> P (la_lockedAt (attempt_of_row r))) \<longleftrightarrow>
      (case lae_LockedAt r of None \<Rightarrow> False | Some t \<Rightarrow> P t)"
  by (cases "lae_LockedAt r") (auto simp: attempt_of_row_def is_zero_time_def)

lemma next_attempt_locked:
  "lae_LockedAt r \<noteq> Some zero_time \<Longrightarrow> t \<noteq> zero_time \<Longrightarrow> lae_LockedAt (next_attempt cfg t r) \<noteq> Some zero_time"
  by (simp add: next_attempt_def Let_def)

lemma next_attempt_key [simp]: "lae_Principal (next_attempt cfg t r) = lae_Principal r"
  by (simp add: next_attempt_def Let_def)

lemma record_next:
  assumes "same_config cfg s" "gm_get (lt_attempts s) k = Some (attempt_of_row r)" "lae_LockedAt r \<noteq> Some zero_time"
  shows "RecordFailure t k s = s\<lparr>lt_attempts := gm_put k (attempt_of_row (next_attempt cfg t r)) (lt_attempts s)\<rparr>"
  using assms
  by (cases "lae_LockedAt r")
    (simp_all add: RecordFailure_def next_attempt_def same_config_def attempt_of_row_def Let_def is_zero_time_def)

text \<open>One call, on tables that keep the laws.\<close>

lemma save_matches:
  assumes laws: "sql_table_laws tb rows lae_Principal no_index"
    and match: "attempts_match (rows w) m" and l: "lae_LockedAt r \<noteq> Some zero_time"
  shows "fst (tb_Save tb r w) = None"
    "attempts_match (rows (snd (tb_Save tb r w))) (gm_put (lae_Principal r) (attempt_of_row r) m)"
proof -
  have free: "\<forall>x \<in> set (rows w). lae_Principal x = lae_Principal r \<or> \<not> no_index x r"
    by (simp add: no_index_def)
  have d: "distinct (map lae_Principal (rows w))" using match by (simp add: attempts_match_def)
  show "fst (tb_Save tb r w) = None" using sql_table_laws.save_ok [OF laws free] by blast
  show "attempts_match (rows (snd (tb_Save tb r w))) (gm_put (lae_Principal r) (attempt_of_row r) m)"
    using match_put [OF match l sql_table_laws.save_keys_distinct [OF laws free d]
      sql_table_laws.save_row_mem [OF laws free]] .
qed

lemma create_matches:
  assumes laws: "sql_table_laws tb rows lae_Principal no_index"
    and match: "attempts_match (rows w) m" and l: "lae_LockedAt r \<noteq> Some zero_time"
    and new: "\<forall>x \<in> set (rows w). lae_Principal x \<noteq> lae_Principal r"
  shows "fst (tb_Create tb r w) = None"
    "attempts_match (rows (snd (tb_Create tb r w))) (gm_put (lae_Principal r) (attempt_of_row r) m)"
proof -
  have free: "\<forall>x \<in> set (rows w). lae_Principal x \<noteq> lae_Principal r \<and> \<not> no_index x r"
    using new by (simp add: no_index_def)
  have d: "distinct (map lae_Principal (rows w))" using match by (simp add: attempts_match_def)
  show "fst (tb_Create tb r w) = None" using sql_table_laws.create_ok [OF laws free] by blast
  show "attempts_match (rows (snd (tb_Create tb r w))) (gm_put (lae_Principal r) (attempt_of_row r) m)"
    using match_put [OF match l sql_table_laws.create_row(2) [OF laws free d]]
      sql_table_laws.create_row(1) [OF laws free] new by blast
qed

lemma match_row:
  assumes "attempts_match rs m" "r \<in> set rs"
  shows "gm_get m (lae_Principal r) = Some (attempt_of_row r)" "lae_LockedAt r \<noteq> Some zero_time"
  using assms unfolding attempts_match_def by auto

lemma delete_matches:
  assumes "sql_table_laws tb rows lae_Principal no_index" "attempts_match (rows w) m"
  obtains n w1 where "tb_Delete tb (\<lambda>r. lae_Principal r = k) w = (Inr n, w1)"
    "attempts_match (rows w1) (gm_del k m)"
  using that sql_table_laws.delete [OF assms(1), of "\<lambda>r. lae_Principal r = k" w] match_del [OF assms(2), of k]
  by (cases "tb_Delete tb (\<lambda>r. lae_Principal r = k) w") auto

text \<open>The two states after a call: counters that match, and the same limits.\<close>

definition trackers_agree :: "sql_tracker_config \<Rightarrow> attempt_row list \<Rightarrow> attempt_tracker \<Rightarrow> bool" where
  "trackers_agree cfg rs s \<longleftrightarrow> attempts_match rs (lt_attempts s) \<and> same_config cfg s"

lemma ask_agrees:
  assumes laws: "sql_table_laws tb rows lae_Principal no_index" and agree: "trackers_agree cfg (rows w) s"
  shows "fst (sql_IsLockedOut cfg tb t k w) = Inr (fst (IsLockedOut t k s)) \<and>
    trackers_agree cfg (rows (snd (sql_IsLockedOut cfg tb t k w))) (snd (IsLockedOut t k s))"
proof -
  have match: "attempts_match (rows w) (lt_attempts s)" and cfg: "same_config cfg s"
    using agree by (simp_all add: trackers_agree_def)
  consider r where "r \<in> set (rows w)" "lae_Principal r = k" "tb_First tb (\<lambda>r. lae_Principal r = k) w = Inr r"
    | "\<forall>r \<in> set (rows w). lae_Principal r \<noteq> k" "tb_First tb (\<lambda>r. lae_Principal r = k) w = Inl NotFound"
    using sql_table_laws.first_of_key [OF laws] by blast
  then show ?thesis
  proof cases
    case (1 r)
    note r = match_row [OF match 1(1), unfolded 1(2)]
    obtain n w1 where del: "tb_Delete tb (\<lambda>r. lae_Principal r = k) w = (Inr n, w1)"
      "attempts_match (rows w1) (gm_del k (lt_attempts s))"
      using delete_matches [OF laws match, where k = k] by blast
    have lock: "(\<not> is_zero_time (la_lockedAt (attempt_of_row r)) \<and>
        time_sub t (la_lockedAt (attempt_of_row r)) < sint (lt_LockoutDuration s)) \<longleftrightarrow>
      (case lae_LockedAt r of None \<Rightarrow> False | Some l \<Rightarrow> time_sub t l < sint (lt_LockoutDuration s))"
      by (rule attempt_locked_row [OF r(2)])
    have "la_firstAt (attempt_of_row r) = lae_FirstAt r" by (simp add: attempt_of_row_def)
    moreover have "st_ResetAfter cfg = lt_ResetAfter s" "st_LockoutDuration cfg = lt_LockoutDuration s"
      using cfg by (simp_all add: same_config_def)
    ultimately show ?thesis
      using agree del(2)
      by (cases "lae_LockedAt r")
        (simp_all add: sql_IsLockedOut_def IsLockedOut_def 1(3) r(1) lock del(1) trackers_agree_def same_config_def)
  next
    case 2
    then show ?thesis using agree match_None [OF match, of k]
      by (simp add: sql_IsLockedOut_def IsLockedOut_def)
  qed
qed

lemma fail_agrees:
  assumes laws: "sql_table_laws tb rows lae_Principal no_index" and agree: "trackers_agree cfg (rows w) s"
    and t: "t \<noteq> zero_time"
  shows "fst (sql_RecordFailure cfg tb t k w) = None \<and>
    trackers_agree cfg (rows (snd (sql_RecordFailure cfg tb t k w))) (RecordFailure t k s)"
proof -
  have match: "attempts_match (rows w) (lt_attempts s)" and cfg: "same_config cfg s"
    using agree by (simp_all add: trackers_agree_def)
  have cfg': "same_config cfg (s\<lparr>lt_attempts := m\<rparr>)" for m using cfg by (simp add: same_config_def)
  consider r where "r \<in> set (rows w)" "lae_Principal r = k" "tb_First tb (\<lambda>r. lae_Principal r = k) w = Inr r"
    | "\<forall>r \<in> set (rows w). lae_Principal r \<noteq> k" "tb_First tb (\<lambda>r. lae_Principal r = k) w = Inl NotFound"
    using sql_table_laws.first_of_key [OF laws] by blast
  then show ?thesis
  proof cases
    case (1 r)
    note r = match_row [OF match 1(1), unfolded 1(2)]
    note saved = save_matches [OF laws match next_attempt_locked [OF r(2) t, of cfg]]
    show ?thesis
      using saved 1(2) cfg'
      by (simp add: sql_RecordFailure_def 1(3) record_next [OF cfg r] trackers_agree_def)
  next
    case 2
    let ?r = "\<lparr>lae_Principal = k, lae_Failures = 1, lae_FirstAt = t, lae_LockedAt = None\<rparr>"
    have new: "\<forall>x \<in> set (rows w). lae_Principal x \<noteq> lae_Principal ?r" using 2(1) by simp
    have l: "lae_LockedAt ?r \<noteq> Some zero_time" by simp
    note made = create_matches [OF laws match l new]
    have "attempt_of_row ?r = \<lparr>la_failures = 1, la_firstAt = t, la_lockedAt = zero_time\<rparr>"
      by (simp add: attempt_of_row_def)
    then show ?thesis
      using made cfg' match_None [OF match, of k] 2
      by (simp add: sql_RecordFailure_def RecordFailure_def trackers_agree_def)
  qed
qed

lemma tracker_step_agrees:
  assumes laws: "sql_table_laws tb rows lae_Principal no_index" and agree: "trackers_agree cfg (rows w) s"
    and t: "call_time c \<noteq> Some zero_time"
  shows "fst (sql_tracker_step cfg tb c w) = fst (mem_tracker_step c s) \<and>
    trackers_agree cfg (rows (snd (sql_tracker_step cfg tb c w))) (snd (mem_tracker_step c s))"
proof (cases c)
  case (AskLocked t k)
  then show ?thesis using ask_agrees [OF laws agree, of t k] by (simp add: split_beta)
next
  case (NoteFailure t k)
  then show ?thesis using fail_agrees [OF laws agree, of t k] t by (simp add: split_beta)
next
  case (ClearKey k)
  have "attempts_match (rows w) (lt_attempts s)" using agree by (simp add: trackers_agree_def)
  then obtain n w1 where "tb_Delete tb (\<lambda>r. lae_Principal r = k) w = (Inr n, w1)"
    "attempts_match (rows w1) (gm_del k (lt_attempts s))"
    using delete_matches [OF laws, where k = k] by blast
  then show ?thesis using agree
    by (simp add: ClearKey sql_ResetAttempts_def any_row_def ResetAttempts_def trackers_agree_def same_config_def)
qed

text \<open>
  C14. The SQL lockout tracker behaves exactly as the memory one. Started on the same counters and
  limits, with clocks past the zero time, every sequence of questions, failures and resets gets the
  same answers from both, without an error, and leaves the same counters.
\<close>

theorem sql_lockout_is_memory_lockout:
  assumes "sql_table_laws tb rows lae_Principal no_index" "trackers_agree cfg (rows w) s"
    and "list_all (\<lambda>c. call_time c \<noteq> Some zero_time) calls"
  shows "fst (tracker_run (sql_tracker_step cfg tb) calls w) = fst (tracker_run mem_tracker_step calls s) \<and>
    trackers_agree cfg (rows (snd (tracker_run (sql_tracker_step cfg tb) calls w)))
      (snd (tracker_run mem_tracker_step calls s))"
  using assms(2,3)
proof (induction calls arbitrary: w s)
  case (Cons c cs)
  then have "call_time c \<noteq> Some zero_time" by simp
  from tracker_step_agrees [OF assms(1) Cons.prems(1) this] Cons.prems(2)
    Cons.IH [of "snd (sql_tracker_step cfg tb c w)" "snd (mem_tracker_step c s)"]
  show ?case by (simp add: split_beta)
qed simp

lemma sql_lockout_is_memory_lockout_witness:
  "fst (tracker_run (sql_tracker_step sql_NewLoginAttemptTracker attempt_table)
      [NoteFailure 5 ''k'', NoteFailure 6 ''k'', NoteFailure 7 ''k'', NoteFailure 8 ''k'', NoteFailure 9 ''k'',
       AskLocked 9 ''k'', ClearKey ''k'', AskLocked 9 ''k''] empty_database) =
    fst (tracker_run mem_tracker_step
      [NoteFailure 5 ''k'', NoteFailure 6 ''k'', NoteFailure 7 ''k'', NoteFailure 8 ''k'', NoteFailure 9 ''k'',
       AskLocked 9 ''k'', ClearKey ''k'', AskLocked 9 ''k''] NewLoginAttemptTracker)"
  by (rule conjunct1 [OF sql_lockout_is_memory_lockout [OF attempt_rows.sql_table_laws_axioms]])
    (simp_all add: trackers_agree_def attempts_match_def same_config_def sql_NewLoginAttemptTracker_def
      NewLoginAttemptTracker_def empty_database_def zero_time_def)

end
