(* ===== verification/Sql_Clients.thy ===== *)
theory Sql_Clients
  imports Sql_World Sample
begin

section \<open>A client written to the database and read back\<close>

text \<open>
  The lists and the map of a client go through JSON (json.go) and the row through the table. What
  is read back is the client written, except that a missing authentication method reads as
  \<open>none\<close> and the properties come back in the order of their keys, as encoding/json writes them.
\<close>

definition read_back :: "client \<Rightarrow> client" where
  "read_back c = c\<lparr>c_TokenEndpointAuthMethod :=
       (if c_TokenEndpointAuthMethod c = [] then AuthMethodNone else c_TokenEndpointAuthMethod c),
     c_Properties := sort_key fst (c_Properties c)\<rparr>"

definition json_client :: "client \<Rightarrow> bool" where
  "json_client c \<longleftrightarrow> json_list (c_RedirectURIs c) \<and> json_list (c_PostLogoutRedirectURIs c) \<and>
    json_list (c_AllowedScopes c) \<and> json_map (c_Properties c)"

lemma client_row_id: "cle_ClientID (toClientEntity c) = c_ClientID c"
  by (simp add: toClientEntity_def)

lemma find_client_row:
  assumes laws: "sql_table_laws tb rows cle_ClientID no_index" and d: "distinct (map cle_ClientID (rows w))"
    and r: "r \<in> set (rows w)"
  shows "sql_client_FindByClientID tb (cle_ClientID r) w = client_of_row r"
proof -
  have "x = r" if "x \<in> set (rows w)" "cle_ClientID x = cle_ClientID r" for x
    using d r that by (auto simp: distinct_map dest: inj_onD)
  then have "tb_First tb (\<lambda>x. cle_ClientID x = cle_ClientID r) w = Inr r"
    using sql_table_laws.first_unique [OF laws, of w "\<lambda>x. cle_ClientID x = cle_ClientID r" r] r by blast
  then show ?thesis by (simp add: sql_client_FindByClientID_def row_as_def)
qed

text \<open>
  C39. A client that the SQL store accepted is found again under its id, unchanged but for the
  defaults and the order of its properties, and every other client in the table is found as before.
\<close>

theorem stored_client_is_read_back:
  assumes "sql_table_laws tb rows cle_ClientID no_index" "distinct (map cle_ClientID (rows w))"
    and "json_client c" "sql_client_Store tb c w = (res, w')"
  shows "res = None \<and> sql_client_FindByClientID tb (c_ClientID c) w' = Inr (read_back c) \<and>
    (\<forall>i. i \<noteq> c_ClientID c \<longrightarrow> sql_client_FindByClientID tb i w' = sql_client_FindByClientID tb i w)"
proof -
  let ?r = "toClientEntity c"
  have free: "\<forall>x \<in> set (rows w). cle_ClientID x = cle_ClientID ?r \<or> \<not> no_index x ?r"
    by (simp add: no_index_def)
  have res: "res = None" "w' = snd (tb_Save tb ?r w)"
    using assms(4) sql_table_laws.save_ok [OF assms(1) free] by (auto simp: sql_client_Store_def prod_eq_iff)
  have mem: "x \<in> set (rows w') \<longleftrightarrow> x = ?r \<or> x \<in> set (rows w) \<and> cle_ClientID x \<noteq> c_ClientID c" for x
    using sql_table_laws.save_row_mem [OF assms(1) free, of x] by (simp add: res client_row_id)
  have d: "distinct (map cle_ClientID (rows w'))"
    using sql_table_laws.save_keys_distinct [OF assms(1) free assms(2)] by (simp add: res)
  have "client_of_row ?r = Inr (read_back c)"
    using assms(3) client_row_reads [of c] by (simp add: json_client_def read_back_def)
  then have own: "res = None \<and> sql_client_FindByClientID tb (c_ClientID c) w' = Inr (read_back c)"
    using find_client_row [OF assms(1) d, of ?r] mem res(1) by (simp add: client_row_id)
  have "sql_client_FindByClientID tb i w' = sql_client_FindByClientID tb i w" if i: "i \<noteq> c_ClientID c" for i
  proof (cases "\<exists>r \<in> set (rows w). cle_ClientID r = i")
    case True
    then obtain r where r: "r \<in> set (rows w)" "cle_ClientID r = i" by blast
    then have "r \<in> set (rows w')" using mem i by blast
    with r find_client_row [OF assms(1) d] find_client_row [OF assms(1,2)] show ?thesis by metis
  next
    case False
    then have "\<forall>r \<in> set (rows w'). cle_ClientID r \<noteq> i" using mem i client_row_id by metis
    with False sql_table_laws.first_missing [OF assms(1)] show ?thesis
      by (simp add: sql_client_FindByClientID_def row_as_def)
  qed
  with own show ?thesis by blast
qed

definition prop_client :: client where
  "prop_client = sample_client\<lparr>c_Properties := [(''b'', ''2''), (''a'', ''1'')]\<rparr>"

lemma json_prop_client: "json_client prop_client"
  by code_simp

lemma stored_client_is_read_back_witness:
  "\<exists>w'. sql_client_Store client_table prop_client empty_database = (None, w') \<and>
    sql_client_FindByClientID client_table ''app'' w' =
      Inr (sample_client\<lparr>c_Properties := [(''a'', ''1''), (''b'', ''2'')]\<rparr>) \<and>
    sql_client_FindByClientID client_table ''other'' w' = Inl NotFound"
proof -
  obtain res w' where run: "sql_client_Store client_table prop_client empty_database = (res, w')"
    by (rule prod.exhaust)
  have d: "distinct (map cle_ClientID (db_clients empty_database))" by (simp add: empty_database_def)
  note reads = stored_client_is_read_back [OF client_rows.sql_table_laws_axioms d json_prop_client run]
  have id: "c_ClientID prop_client = ''app''" by (simp add: prop_client_def sample_client_def)
  have "read_back prop_client = sample_client\<lparr>c_Properties := [(''a'', ''1''), (''b'', ''2'')]\<rparr>"
    by (simp add: read_back_def prop_client_def sample_client_def)
  moreover have "sql_client_FindByClientID client_table ''other'' empty_database = Inl NotFound"
    by (simp add: sql_client_FindByClientID_def row_as_def client_table_def list_table_def empty_database_def)
  ultimately show ?thesis using run reads id by auto
qed

end
