(* ===== verification/Rate_Limiter.thy ===== *)
theory Rate_Limiter
  imports Browser_Session
begin

section \<open>The limiter of the credential endpoints (internal/server/ratelimit.go)\<close>

text \<open>
  One token bucket per address. The buckets are those of golang.org/x/time/rate, a parameter:
  \<open>NewLimiter\<close> and \<open>AllowN\<close> for one event. What the sweep of idle buckets relies on is the
  hypothesis \<open>bucket_refills\<close>: after an idle time a bucket answers like a fresh one, as a token
  bucket that starts full does once it has had the time to fill up. Go iterates over a map in any
  order; dropping entries does not depend on it.
\<close>

record 'l rate_lib =
  rate_NewLimiter :: "goint \<Rightarrow> goint \<Rightarrow> 'l"
  rate_Allow :: "time \<Rightarrow> 'l \<Rightarrow> bool \<times> 'l"

record 'l ip_bucket =
  ib_lim :: 'l
  ib_lastSeen :: time

record 'l login_rate_limiter =
  lr_buckets :: "(string, 'l ip_bucket) gomap"
  lr_rate :: goint
  lr_burst :: goint
  lr_maxIdle :: duration
  lr_lastSweep :: time

definition NewLoginRateLimiter :: "goint \<Rightarrow> goint \<Rightarrow> 'l login_rate_limiter" where
  "NewLoginRateLimiter rps burst =
    \<lparr>lr_buckets = [], lr_rate = (if sint rps < 1 then 10 else rps), lr_burst = (if sint burst < 1 then 5 else burst),
     lr_maxIdle = 10 * minute, lr_lastSweep = zero_time\<rparr>"

definition sweep :: "time \<Rightarrow> 'l login_rate_limiter \<Rightarrow> 'l login_rate_limiter" where
  "sweep t l =
    (if time_sub t (lr_lastSweep l) < sint (lr_maxIdle l) then l
     else l\<lparr>lr_lastSweep := t,
            lr_buckets := gm_filter (\<lambda>ip b. \<not> time_sub t (ib_lastSeen b) \<ge> sint (lr_maxIdle l)) (lr_buckets l)\<rparr>)"

text \<open>\<open>allow\<close>, one step under the mutex. The code also lets everything through a nil limiter; it builds none.\<close>

definition allow :: "'l rate_lib \<Rightarrow> time \<Rightarrow> string \<Rightarrow> 'l login_rate_limiter \<Rightarrow> bool \<times> 'l login_rate_limiter" where
  "allow lib t ip l0 =
    (let l = sweep t l0;
         lim = (case gm_get (lr_buckets l) ip of
                  None \<Rightarrow> rate_NewLimiter lib (lr_rate l) (lr_burst l)
                | Some b \<Rightarrow> ib_lim b);
         (ok, lim') = rate_Allow lib t lim
     in (ok, l\<lparr>lr_buckets := gm_put ip \<lparr>ib_lim = lim', ib_lastSeen = t\<rparr> (lr_buckets l)\<rparr>))"

definition rateLimitCode :: string where
  "rateLimitCode = ''too_many_requests''"

definition rateLimitMessage :: string where
  "rateLimitMessage = ''rate limit exceeded''"

definition rate_limited :: outcome where
  "rate_limited = Response ((plain_response 429)
     \<lparr>resp_headers := [(''Retry-After'', ''60''), (''Content-Type'', ''application/json;charset=UTF-8'')],
      resp_body := Some (JObj [(''error'', JStr rateLimitCode), (''error_description'', JStr rateLimitMessage)])\<rparr>)"

subsection \<open>The address of a request\<close>

text \<open>\<open>net.SplitHostPort\<close>: the host, \<open>None\<close> for an error.\<close>

definition index_of :: "char \<Rightarrow> string \<Rightarrow> nat option" where
  "index_of c s = (if c \<in> set s then Some (length (takeWhile (\<lambda>x. x \<noteq> c) s)) else None)"

definition last_index_of :: "char \<Rightarrow> string \<Rightarrow> nat option" where
  "last_index_of c s = map_option (\<lambda>k. length s - 1 - k) (index_of c (rev s))"

definition split_host :: "string \<Rightarrow> string option" where
  "split_host s =
    (case last_index_of CHR '':'' s of
       None \<Rightarrow> None
     | Some i \<Rightarrow>
         if s \<noteq> [] \<and> hd s = CHR ''['' then
           (case index_of CHR '']'' s of
              None \<Rightarrow> None
            | Some e \<Rightarrow>
                if e + 1 \<noteq> i then None
                else if CHR ''['' \<in> set (drop 1 s) \<or> CHR '']'' \<in> set (drop (e + 1) s) then None
                else Some (take (e - 1) (drop 1 s)))
         else if CHR '':'' \<in> set (take i s) then None
         else if CHR ''['' \<in> set s \<or> CHR '']'' \<in> set s then None
         else Some (take i s))"

definition ClientIP :: "http_request \<Rightarrow> string" where
  "ClientIP r =
    (let xff = header_get r ''X-Forwarded-For'' in
     if xff \<noteq> [] then takeWhile (\<lambda>c. c \<noteq> CHR '','') xff
     else case split_host (req_RemoteAddr r) of None \<Rightarrow> req_RemoteAddr r | Some host \<Rightarrow> host)"

text \<open>The middleware: its state is the limiter's, next to that of the handlers.\<close>

definition limit_middleware ::
  "'l rate_lib \<Rightarrow> time \<Rightarrow> (http_request \<Rightarrow> 'w \<Rightarrow> outcome \<times> 'w) \<Rightarrow> http_request
    \<Rightarrow> 'l login_rate_limiter \<times> 'w \<Rightarrow> outcome \<times> 'l login_rate_limiter \<times> 'w" where
  "limit_middleware lib t nxt r lw =
    (case allow lib t (ClientIP r) (fst lw) of
       (False, l') \<Rightarrow> (rate_limited, l', snd lw)
     | (True, l') \<Rightarrow> (case nxt r (snd lw) of (out, w') \<Rightarrow> (out, l', w')))"

subsection \<open>Addresses do not influence each other\<close>

text \<open>The states a bucket comes to, with the time it was asked last.\<close>

inductive bucket_used :: "'l rate_lib \<Rightarrow> goint \<Rightarrow> goint \<Rightarrow> 'l \<Rightarrow> time \<Rightarrow> bool"
  for lib r b where
  first_use: "bucket_used lib r b (snd (rate_Allow lib t (rate_NewLimiter lib r b))) t"
| next_use: "bucket_used lib r b l t \<Longrightarrow> t \<le> u \<Longrightarrow> bucket_used lib r b (snd (rate_Allow lib u l)) u"

definition bucket_refills :: "'l rate_lib \<Rightarrow> goint \<Rightarrow> goint \<Rightarrow> int \<Rightarrow> bool" where
  "bucket_refills lib r b idle \<longleftrightarrow>
    (\<forall>l t u. bucket_used lib r b l t \<longrightarrow> t + idle \<le> u \<longrightarrow> rate_Allow lib u l = rate_Allow lib u (rate_NewLimiter lib r b))"

text \<open>A run of the limiter over requests, and one bucket asked at some times.\<close>

fun allow_run :: "'l rate_lib \<Rightarrow> (time \<times> string) list \<Rightarrow> 'l login_rate_limiter \<Rightarrow> bool list" where
  "allow_run lib [] l = []"
| "allow_run lib ((t, ip) # qs) l = (case allow lib t ip l of (ok, l') \<Rightarrow> ok # allow_run lib qs l')"

fun bucket_run :: "'l rate_lib \<Rightarrow> time list \<Rightarrow> 'l \<Rightarrow> bool list" where
  "bucket_run lib [] l = []"
| "bucket_run lib (t # ts) l = (case rate_Allow lib t l of (ok, l') \<Rightarrow> ok # bucket_run lib ts l')"

definition answers_for :: "string \<Rightarrow> (time \<times> string) list \<Rightarrow> bool list \<Rightarrow> bool list" where
  "answers_for ip qs oks = map snd (filter (\<lambda>(q, ok). snd q = ip) (zip qs oks))"

definition times_for :: "string \<Rightarrow> (time \<times> string) list \<Rightarrow> time list" where
  "times_for ip qs = map fst (filter (\<lambda>q. snd q = ip) qs)"

lemma for_simps [simp]:
  "answers_for ip [] oks = []" "times_for ip [] = []"
  "answers_for ip ((t, x) # qs) (ok # oks) = (if x = ip then ok # answers_for ip qs oks else answers_for ip qs oks)"
  "times_for ip ((t, x) # qs) = (if x = ip then t # times_for ip qs else times_for ip qs)"
  by (simp_all add: answers_for_def times_for_def)

text \<open>
  The bucket \<open>l\<close> that an address would have without the sweep: the one in the map, or, where there
  is none, one that answers like a fresh one from now on.
\<close>

definition stands_for ::
  "'l rate_lib \<Rightarrow> string \<Rightarrow> time \<Rightarrow> 'l login_rate_limiter \<Rightarrow> 'l \<Rightarrow> bool" where
  "stands_for lib ip t l x \<longleftrightarrow>
    (case gm_get (lr_buckets l) ip of
       Some b \<Rightarrow> ib_lim b = x \<and> bucket_used lib (lr_rate l) (lr_burst l) x (ib_lastSeen b) \<and> ib_lastSeen b \<le> t
     | None \<Rightarrow> \<forall>u \<ge> t. rate_Allow lib u x = rate_Allow lib u (rate_NewLimiter lib (lr_rate l) (lr_burst l)))"

lemma sweep_fields [simp]:
  "lr_rate (sweep t l) = lr_rate l" "lr_burst (sweep t l) = lr_burst l" "lr_maxIdle (sweep t l) = lr_maxIdle l"
  by (simp_all add: sweep_def)

lemma sweep_wf: "gm_wf (lr_buckets l) \<Longrightarrow> gm_wf (lr_buckets (sweep t l))"
  by (simp add: sweep_def)

lemma sweep_get:
  assumes "gm_wf (lr_buckets l)"
  shows "gm_get (lr_buckets (sweep t l)) ip = gm_get (lr_buckets l) ip \<or>
    (\<exists>b. gm_get (lr_buckets l) ip = Some b \<and> gm_get (lr_buckets (sweep t l)) ip = None \<and>
      time_sub t (ib_lastSeen b) \<ge> sint (lr_maxIdle l))"
proof (cases "time_sub t (lr_lastSweep l) < sint (lr_maxIdle l)")
  case False
  then have "gm_get (lr_buckets (sweep t l)) ip = (case gm_get (lr_buckets l) ip of None \<Rightarrow> None
      | Some b \<Rightarrow> if \<not> time_sub t (ib_lastSeen b) \<ge> sint (lr_maxIdle l) then Some b else None)"
    using assms by (simp add: sweep_def gm_get_filter)
  then show ?thesis by (cases "gm_get (lr_buckets l) ip") (auto split: if_splits)
qed (simp add: sweep_def)

lemma idle_long_enough: "sint d \<le> time_sub u t \<Longrightarrow> 0 < sint d \<Longrightarrow> t + sint d \<le> u"
  by (auto simp: time_sub_def max_def min_def min_duration_def split: if_splits)

text \<open>One request, and what it does to the bucket of an address.\<close>

lemma allow_step:
  assumes st: "stands_for lib ip t l x" and wf: "gm_wf (lr_buckets l)" and u: "t \<le> u"
    and refills: "bucket_refills lib (lr_rate l) (lr_burst l) (sint (lr_maxIdle l))" and idle: "0 < sint (lr_maxIdle l)"
    and run: "allow lib u jp l = (ok, l')"
  shows "gm_wf (lr_buckets l')" "lr_rate l' = lr_rate l" "lr_burst l' = lr_burst l" "lr_maxIdle l' = lr_maxIdle l"
    "jp = ip \<Longrightarrow> ok = fst (rate_Allow lib u x) \<and> stands_for lib ip u l' (snd (rate_Allow lib u x))"
    "jp \<noteq> ip \<Longrightarrow> stands_for lib ip u l' x"
proof -
  let ?new = "rate_NewLimiter lib (lr_rate l) (lr_burst l)"
  define lim where "lim = (case gm_get (lr_buckets (sweep u l)) jp of None \<Rightarrow> ?new | Some b \<Rightarrow> ib_lim b)"
  have l': "l' = (sweep u l)\<lparr>lr_buckets := gm_put jp \<lparr>ib_lim = snd (rate_Allow lib u lim), ib_lastSeen = u\<rparr> (lr_buckets (sweep u l))\<rparr>"
    and ok: "ok = fst (rate_Allow lib u lim)"
    using run unfolding allow_def Let_def sweep_fields lim_def [symmetric] by (auto simp: case_prod_beta)
  show "gm_wf (lr_buckets l')" "lr_rate l' = lr_rate l" "lr_burst l' = lr_burst l" "lr_maxIdle l' = lr_maxIdle l"
    using sweep_wf [OF wf] by (simp_all add: l')
  have fresh: "rate_Allow lib v x = rate_Allow lib v ?new"
    if "gm_get (lr_buckets (sweep u l)) ip = None" "u \<le> v" for v
  proof (cases "gm_get (lr_buckets l) ip")
    case None
    then show ?thesis using st u that(2) by (simp add: stands_for_def)
  next
    case (Some b)
    have gone: "time_sub u (ib_lastSeen b) \<ge> sint (lr_maxIdle l)"
      using sweep_get [OF wf, of u ip] that(1) Some by auto
    from idle_long_enough [OF this idle] that(2) have "ib_lastSeen b + sint (lr_maxIdle l) \<le> v" by simp
    then show ?thesis using refills st Some by (auto simp: bucket_refills_def stands_for_def)
  qed
  have kept: "ib_lim b = x \<and> bucket_used lib (lr_rate l) (lr_burst l) x (ib_lastSeen b) \<and> ib_lastSeen b \<le> u"
    if "gm_get (lr_buckets (sweep u l)) ip = Some b" for b
  proof -
    have "gm_get (lr_buckets l) ip = Some b" using sweep_get [OF wf, of u ip] that by auto
    with st u show ?thesis by (auto simp: stands_for_def)
  qed
  show "jp \<noteq> ip \<Longrightarrow> stands_for lib ip u l' x"
    using fresh kept by (auto simp: stands_for_def l' split: option.split)
  assume "jp = ip"
  then have same: "rate_Allow lib u lim = rate_Allow lib u x"
    using fresh kept by (auto simp: lim_def split: option.split)
  have "bucket_used lib (lr_rate l) (lr_burst l) (snd (rate_Allow lib u x)) u"
  proof (cases "gm_get (lr_buckets (sweep u l)) ip")
    case None
    then show ?thesis using fresh [OF None order_refl] by (simp add: first_use)
  next
    case (Some b)
    from kept [OF this] show ?thesis by (blast intro: next_use)
  qed
  with \<open>jp = ip\<close> same ok show "ok = fst (rate_Allow lib u x) \<and> stands_for lib ip u l' (snd (rate_Allow lib u x))"
    by (simp add: stands_for_def l')
qed

lemma allow_run_bucket:
  assumes "stands_for lib ip t l x" "gm_wf (lr_buckets l)" "sorted (map fst qs)" "\<forall>q \<in> set qs. t \<le> fst q"
    "bucket_refills lib (lr_rate l) (lr_burst l) (sint (lr_maxIdle l))" "0 < sint (lr_maxIdle l)"
  shows "answers_for ip qs (allow_run lib qs l) = bucket_run lib (times_for ip qs) x"
  using assms
proof (induction qs arbitrary: t l x)
  case (Cons q qs)
  obtain u jp where q: "q = (u, jp)" by fastforce
  obtain ok l' where run: "allow lib u jp l = (ok, l')" by fastforce
  have "t \<le> u" using Cons.prems(4) q by simp
  note step = allow_step [OF Cons.prems(1,2) this Cons.prems(5,6) run]
  have rest: "sorted (map fst qs)" "\<forall>q \<in> set qs. u \<le> fst q" using Cons.prems(3) q by auto
  show ?case
  proof (cases "jp = ip")
    case True
    obtain k y where k: "rate_Allow lib u x = (k, y)" by fastforce
    have "answers_for ip qs (allow_run lib qs l') = bucket_run lib (times_for ip qs) y"
      using Cons.IH [of u l' y] step(1-5) True k rest Cons.prems(5,6) by simp
    with step(5) True k q run show ?thesis by simp
  next
    case False
    have "answers_for ip qs (allow_run lib qs l') = bucket_run lib (times_for ip qs) x"
      using Cons.IH [of u l' x] step False rest Cons.prems(5,6) by simp
    with False q run show ?thesis by simp
  qed
qed simp

text \<open>
  C31. Where buckets refill within the ten minutes of the sweep, the limiter answers each address
  as a bucket of its own, asked only by that address and never dropped, would: other addresses
  and the sweep make no difference.
\<close>

theorem limiter_per_address:
  fixes rps :: goint and burst :: goint
  defines "l0 \<equiv> NewLoginRateLimiter rps burst"
  assumes "bucket_refills lib (lr_rate l0) (lr_burst l0) 600000000000" "sorted (map fst qs)"
  shows "answers_for ip qs (allow_run lib qs l0) =
    bucket_run lib (times_for ip qs) (rate_NewLimiter lib (lr_rate l0) (lr_burst l0))"
proof (cases qs)
  case Nil
  then show ?thesis by simp
next
  case (Cons q qs')
  have idle: "sint (lr_maxIdle l0) = 600000000000" by (simp add: l0_def NewLoginRateLimiter_def minute_def second_def)
  have "stands_for lib ip (fst q) l0 (rate_NewLimiter lib (lr_rate l0) (lr_burst l0))" "gm_wf (lr_buckets l0)"
    by (simp_all add: stands_for_def l0_def NewLoginRateLimiter_def)
  moreover have "\<forall>p \<in> set qs. fst q \<le> fst p" using assms(3) Cons by auto
  ultimately show ?thesis using allow_run_bucket assms(2,3) idle by (metis zero_less_numeral)
qed

subsection \<open>A bucket with whole numbers\<close>

text \<open>
  A token bucket counted in billionths of a token, so that a nanosecond adds the rate. It refills
  within \<open>idle\<close> nanoseconds exactly when the burst is at most the rate times that.
\<close>

record nano_bucket =
  nb_rate :: goint
  nb_burst :: goint
  nb_tokens :: int
  nb_last :: time

definition full :: "goint \<Rightarrow> int" where
  "full b = sint b * 1000000000"

definition nano_tokens :: "time \<Rightarrow> nano_bucket \<Rightarrow> int" where
  "nano_tokens t l = min (full (nb_burst l)) (nb_tokens l + max 0 (t - nb_last l) * sint (nb_rate l))"

definition nano_lib :: "nano_bucket rate_lib" where
  "nano_lib =
    \<lparr>rate_NewLimiter = \<lambda>r b. \<lparr>nb_rate = r, nb_burst = b, nb_tokens = full b, nb_last = 0\<rparr>,
     rate_Allow = \<lambda>t l. let n = nano_tokens t l; ok = (n \<ge> 1000000000)
       in (ok, l\<lparr>nb_tokens := (if ok then n - 1000000000 else n), nb_last := t\<rparr>)\<rparr>"

lemma nano_used:
  assumes "bucket_used nano_lib r b l t" "0 < sint r" "0 < sint b"
  shows "nb_rate l = r \<and> nb_burst l = b \<and> 0 \<le> nb_tokens l \<and> nb_tokens l \<le> full b \<and> nb_last l = t"
  using assms
proof (induction rule: bucket_used.induct)
  case (first_use t)
  then show ?case by (auto simp: nano_lib_def nano_tokens_def full_def Let_def)
next
  case (next_use l t u)
  then have "0 \<le> max 0 (u - nb_last l) * sint (nb_rate l)" by simp
  with next_use show ?case by (auto simp: nano_lib_def nano_tokens_def full_def Let_def)
qed

lemma nano_refills:
  assumes "0 < sint r" "0 < sint b" "sint b * 1000000000 \<le> idle * sint r"
  shows "bucket_refills nano_lib r b idle"
  unfolding bucket_refills_def
proof (intro allI impI)
  fix l t u
  assume l: "bucket_used nano_lib r b l t" "t + idle \<le> u"
  note used = nano_used [OF l(1) assms(1,2)]
  have "idle * sint r \<le> (u - t) * sint r" using l(2) assms(1) by (intro mult_right_mono) auto
  also have "\<dots> \<le> max 0 (u - t) * sint r" using assms(1) by (intro mult_right_mono) auto
  finally have "full b \<le> nb_tokens l + max 0 (u - t) * sint r" using assms(3) used by (simp add: full_def)
  then have old: "nano_tokens u l = full b" using used by (simp add: nano_tokens_def)
  have "0 \<le> max 0 u * sint r" using assms(1) by simp
  then have new: "nano_tokens u (rate_NewLimiter nano_lib r b) = full b"
    by (simp add: nano_tokens_def nano_lib_def)
  show "rate_Allow nano_lib u l = rate_Allow nano_lib u (rate_NewLimiter nano_lib r b)"
    using old new used by (simp add: nano_lib_def Let_def)
qed

text \<open>Two a second with a burst of two: the third request of one address at once is refused, the other address is not.\<close>

theorem limiter_per_address_witness:
  "answers_for ''a'' [(5, ''a''), (5, ''a''), (5, ''a''), (6, ''b''), (700000000000, ''a'')]
     (allow_run nano_lib [(5, ''a''), (5, ''a''), (5, ''a''), (6, ''b''), (700000000000, ''a'')] (NewLoginRateLimiter 2 2)) =
   [True, True, False, True]"
proof -
  let ?l = "NewLoginRateLimiter 2 2 :: nano_bucket login_rate_limiter"
  have "bucket_refills nano_lib (lr_rate ?l) (lr_burst ?l) 600000000000"
    by (rule nano_refills) (simp_all add: NewLoginRateLimiter_def)
  from limiter_per_address [OF this, of "[(5, ''a''), (5, ''a''), (5, ''a''), (6, ''b''), (700000000000, ''a'')]" "''a''"]
  show ?thesis
    by (simp add: NewLoginRateLimiter_def nano_lib_def nano_tokens_def full_def Let_def)
qed

text \<open>A burst beyond ten minutes of the rate comes back with the sweep, so then dropping is not lossless.\<close>

lemma nano_drain:
  "k \<le> 1200 \<Longrightarrow> \<exists>l. bucket_used nano_lib 1 1201 l 0 \<and> nb_tokens l = 1200000000000 - int k * 1000000000"
proof (induction k)
  case 0
  have "nb_tokens (snd (rate_Allow nano_lib 0 (rate_NewLimiter nano_lib 1 1201))) = 1200000000000"
    by (simp add: nano_lib_def nano_tokens_def full_def Let_def)
  then show ?case using first_use [of nano_lib 1 1201 0] by auto
next
  case (Suc k)
  then obtain l where l: "bucket_used nano_lib 1 1201 l 0" "nb_tokens l = 1200000000000 - int k * 1000000000" by auto
  have "nb_rate l = 1 \<and> nb_burst l = 1201 \<and> nb_last l = 0" using nano_used [OF l(1)] by simp
  then have "nb_tokens (snd (rate_Allow nano_lib 0 l)) = 1200000000000 - int (Suc k) * 1000000000"
    using l(2) Suc.prems by (simp add: nano_lib_def nano_tokens_def full_def Let_def)
  then show ?case using next_use [OF l(1), of 0] by auto
qed

lemma sweep_can_refill_early: "\<not> bucket_refills nano_lib 1 1201 600000000000"
proof
  assume refills: "bucket_refills nano_lib 1 1201 600000000000"
  obtain l where l: "bucket_used nano_lib 1 1201 l 0" "nb_tokens l = 0" using nano_drain [of 1200] by auto
  have "nb_rate l = 1 \<and> nb_burst l = 1201 \<and> nb_last l = 0" using nano_used [OF l(1)] by simp
  moreover have "rate_Allow nano_lib 600000000000 l = rate_Allow nano_lib 600000000000 (rate_NewLimiter nano_lib 1 1201)"
    using refills l(1) by (auto simp: bucket_refills_def)
  ultimately show False using l(2) by (cases l) (simp add: nano_lib_def nano_tokens_def full_def Let_def)
qed

end
