(* ===== verification/Router.thy ===== *)
theory Router
  imports Rate_Limiter
begin

section \<open>The router (internal/server/router.go)\<close>

text \<open>
  \<open>NewRouter\<close>: the route table and the middlewares around it. A handler is a step on the state it
  is given; the server's state is that of the handlers next to the five limiters the router makes.
  The \<open>RealIP\<close> middleware of chi and the path of a \<open>ServeMux\<close> are not under src/: \<open>real_ip\<close> is a
  parameter. A path is matched as chi does for patterns without wildcards, and the mounted admin
  API takes what is under its prefix.
\<close>

type_synonym 'w http_handler = "http_request \<Rightarrow> 'w \<Rightarrow> outcome \<times> 'w"

record router_config =
  rcf_RequireHTTPS :: bool
  rcf_AuthorizePath :: string
  rcf_TokenPath :: string
  rcf_UserInfoPath :: string
  rcf_RevokePath :: string
  rcf_JWKSPath :: string
  rcf_DiscoveryPath :: string
  rcf_HealthPath :: string
  rcf_LoginRateLimitRPS :: goint
  rcf_LoginRateBurst :: goint

record 'w handlers =
  hd_CSRF :: "'w http_handler option"
  hd_Session :: "'w http_handler option"
  hd_Login :: "'w http_handler option"
  hd_Register :: "'w http_handler option"
  hd_ForgotPassword :: "'w http_handler option"
  hd_ResetPassword :: "'w http_handler option"
  hd_Home :: "'w http_handler option"
  hd_Profile :: "'w http_handler option"
  hd_Logout :: "'w http_handler option"
  hd_Authorize :: "'w http_handler option"
  hd_Token :: "'w http_handler option"
  hd_UserInfo :: "'w http_handler option"
  hd_Revoke :: "'w http_handler option"
  hd_Discovery :: "'w http_handler option"
  hd_JWKS :: "'w http_handler option"
  hd_Health :: "'w http_handler option"
  hd_Admin :: "'w http_handler option"

datatype limited_route = LimitLogin | LimitRegister | LimitForgot | LimitReset | LimitPassword

type_synonym 'l limiters = "limited_route \<Rightarrow> 'l login_rate_limiter"

type_synonym ('l, 'w) server_state = "'l limiters \<times> 'w"

definition new_limiters :: "router_config \<Rightarrow> 'l limiters" where
  "new_limiters cfg = (\<lambda>_. NewLoginRateLimiter (rcf_LoginRateLimitRPS cfg) (rcf_LoginRateBurst cfg))"

text \<open>A handler as it is, and behind one of the limiters.\<close>

definition direct :: "'w http_handler \<Rightarrow> ('l, 'w) server_state http_handler" where
  "direct h r s = (case h r (snd s) of (out, w') \<Rightarrow> (out, fst s, w'))"

definition limited ::
  "'l rate_lib \<Rightarrow> time \<Rightarrow> limited_route \<Rightarrow> 'w http_handler \<Rightarrow> ('l, 'w) server_state http_handler" where
  "limited lib t k h r s =
    (case limit_middleware lib t h r (fst s k, snd s) of (out, l', w') \<Rightarrow> (out, (fst s)(k := l'), w'))"

subsection \<open>The route table\<close>

datatype route_method = AnyMethod | OnlyMethod string
datatype route_path = Exactly string | Below string

type_synonym ('l, 'w) chi_route = "route_method \<times> route_path \<times> ('l, 'w) server_state http_handler"

definition mount ::
  "'w http_handler option \<Rightarrow> route_method \<Rightarrow> route_path
    \<Rightarrow> ('w http_handler \<Rightarrow> ('l, 'w) server_state http_handler) \<Rightarrow> ('l, 'w) chi_route list" where
  "mount oh m p wrap = (case oh of None \<Rightarrow> [] | Some h \<Rightarrow> [(m, p, wrap h)])"

text \<open>A protocol route needs a path too.\<close>

definition mount_at ::
  "'w http_handler option \<Rightarrow> string \<Rightarrow> string \<Rightarrow> ('l, 'w) chi_route list" where
  "mount_at oh m p = (if p = [] then [] else mount oh (OnlyMethod m) (Exactly p) direct)"

definition api_routes :: "'l rate_lib \<Rightarrow> time \<Rightarrow> 'w handlers \<Rightarrow> ('l, 'w) chi_route list" where
  "api_routes lib t h =
    mount (hd_CSRF h) (OnlyMethod ''GET'') (Exactly ''/api/csrf'') direct @
    mount (hd_Session h) (OnlyMethod ''GET'') (Exactly ''/api/auth/session'') direct @
    mount (hd_Login h) (OnlyMethod ''POST'') (Exactly ''/api/auth/login'') (limited lib t LimitLogin) @
    mount (hd_Register h) (OnlyMethod ''POST'') (Exactly ''/api/auth/register'') (limited lib t LimitRegister) @
    mount (hd_ForgotPassword h) (OnlyMethod ''POST'') (Exactly ''/api/auth/forgot-password'') (limited lib t LimitForgot) @
    mount (hd_ResetPassword h) AnyMethod (Exactly ''/api/auth/reset-password'') (limited lib t LimitReset) @
    mount (hd_Home h) (OnlyMethod ''GET'') (Exactly ''/api/account/home'') direct @
    mount (hd_Profile h) AnyMethod (Exactly ''/api/account/profile'') direct @
    mount (hd_Profile h) AnyMethod (Exactly ''/api/account/profile/sessions/revoke'') direct @
    mount (hd_Profile h) AnyMethod (Exactly ''/api/account/profile/sessions/revoke-others'') direct @
    mount (hd_Profile h) AnyMethod (Exactly ''/api/account/profile/password'') (limited lib t LimitPassword)"

definition protocol_routes :: "router_config \<Rightarrow> 'w handlers \<Rightarrow> ('l, 'w) chi_route list" where
  "protocol_routes cfg h =
    mount (hd_Logout h) AnyMethod (Exactly ''/connect/logout'') direct @
    mount_at (hd_Authorize h) ''GET'' (rcf_AuthorizePath cfg) @
    mount_at (hd_Token h) ''POST'' (rcf_TokenPath cfg) @
    mount_at (hd_UserInfo h) ''GET'' (rcf_UserInfoPath cfg) @
    mount_at (hd_UserInfo h) ''POST'' (rcf_UserInfoPath cfg) @
    mount_at (hd_Revoke h) ''POST'' (rcf_RevokePath cfg) @
    mount_at (hd_Discovery h) ''GET'' (rcf_DiscoveryPath cfg) @
    mount_at (hd_JWKS h) ''GET'' (rcf_JWKSPath cfg) @
    mount_at (hd_Health h) ''GET'' (rcf_HealthPath cfg) @
    mount (hd_Admin h) AnyMethod (Below ''/admin/api/'') direct"

definition server_routes :: "'l rate_lib \<Rightarrow> time \<Rightarrow> router_config \<Rightarrow> 'w handlers \<Rightarrow> ('l, 'w) chi_route list" where
  "server_routes lib t cfg h = api_routes lib t h @ protocol_routes cfg h"

definition path_matches :: "route_path \<Rightarrow> string \<Rightarrow> bool" where
  "path_matches p path = (case p of Exactly q \<Rightarrow> path = q | Below q \<Rightarrow> has_prefix path q)"

definition method_matches :: "route_method \<Rightarrow> string \<Rightarrow> bool" where
  "method_matches rm m = (case rm of AnyMethod \<Rightarrow> True | OnlyMethod n \<Rightarrow> m = n)"

definition chi_methods :: "string list" where
  "chi_methods = [''CONNECT'', ''DELETE'', ''GET'', ''HEAD'', ''OPTIONS'', ''PATCH'', ''POST'', ''PUT'', ''TRACE'']"

text \<open>An exact path comes before a prefix; 405 where only the method is wrong, or is one chi does not know.\<close>

definition dispatch :: "('l, 'w) chi_route list \<Rightarrow> ('l, 'w) server_state http_handler" where
  "dispatch routes r s =
    (if req_Method r \<notin> set chi_methods then (Response (plain_response 405), s)
     else case find (\<lambda>(m, p, h). method_matches m (req_Method r) \<and> path_matches p (req_Path r)) routes of
       Some (m, p, h) \<Rightarrow> h r s
     | None \<Rightarrow>
         (Response (plain_response
            (if list_ex (\<lambda>(m, p, h). path_matches p (req_Path r)) routes then 405 else 404)), s))"

subsection \<open>The middlewares\<close>

definition security_headers :: "bool \<Rightarrow> (string \<times> string) list" where
  "security_headers requireHTTPS =
    [(''X-Content-Type-Options'', ''nosniff''), (''X-Frame-Options'', ''DENY''),
     (''Referrer-Policy'', ''no-referrer''), (''Cross-Origin-Opener-Policy'', ''same-origin''),
     (''Cross-Origin-Resource-Policy'', ''same-origin''),
     (''Permissions-Policy'', ''geolocation=(), microphone=(), camera=()'')] @
    (if requireHTTPS then [(''Strict-Transport-Security'', ''max-age=31536000; includeSubDomains'')] else [])"

text \<open>
  The headers are set before the handler runs, so a handler that sets one of them wins: of two
  entries the first counts.
\<close>

definition with_headers :: "(string \<times> string) list \<Rightarrow> outcome \<Rightarrow> outcome" where
  "with_headers hs out =
    (case out of Response x \<Rightarrow> Response (x\<lparr>resp_headers := resp_headers x @ hs\<rparr>) | Panicked \<Rightarrow> Panicked)"

text \<open>
  \<open>diagnosticsMiddleware\<close>: a panic before anything was written becomes a plain 500, on which the
  headers set so far stay; those are the ones of the middlewares. What is logged is in Error_Log.
  \<open>http.ErrAbortHandler\<close>, which the middleware passes on, has no branch: a panic has no value in the
  model, and no code of the repository panics with that one.
\<close>

definition internal_error :: "(string \<times> string) list \<Rightarrow> http_response" where
  "internal_error hs = (plain_response 500)
     \<lparr>resp_headers := [(''Content-Type'', ''text/plain; charset=utf-8''), (''X-Content-Type-Options'', ''nosniff'')] @ hs\<rparr>"

definition recovered :: "(string \<times> string) list \<Rightarrow> outcome \<Rightarrow> outcome" where
  "recovered hs out = (case out of Response x \<Rightarrow> Response x | Panicked \<Rightarrow> Response (internal_error hs))"

definition router_serve ::
  "'l rate_lib \<Rightarrow> (http_request \<Rightarrow> http_request) \<Rightarrow> string \<Rightarrow> time \<Rightarrow> router_config \<Rightarrow> 'w handlers
    \<Rightarrow> ('l, 'w) server_state http_handler" where
  "router_serve lib real_ip reqid t cfg h r s =
    (let hs = security_headers (rcf_RequireHTTPS cfg) @ [(''X-Request-Id'', reqid)];
         (out, s') = dispatch (server_routes lib t cfg h) (real_ip r) s
     in (recovered hs (with_headers hs out), s'))"

definition health_serve :: "'w http_handler" where
  "health_serve r w =
    (Response ((plain_response 200)\<lparr>resp_headers := [(''Content-Type'', ''text/plain; charset=utf-8'')]\<rparr>), w)"

end
