(* ===== verification/Admin_Gate.thy ===== *)
theory Admin_Gate
  imports Browser_Session
begin

section \<open>Who may use the admin API (internal/admin/auth.go, csrf.go)\<close>

text \<open>
  The two middlewares around the admin handlers. What the code keeps in the context of a request,
  the way it was authorized and the user acting, is an argument of the next handler.
\<close>

datatype auth_method = AuthAnonymous | AuthToken | AuthSession

record admin_context =
  ax_Method :: auth_method
  ax_Actor :: string

record 'w auth_config =
  aa_Token :: string
  aa_AllowAnonymous :: bool
  aa_AdminRole :: string
  aa_Sessions :: "'w session_resolver option"
  aa_Users :: "'w user_store option"

type_synonym 'w admin_next = "admin_context \<Rightarrow> http_request \<Rightarrow> 'w \<Rightarrow> outcome \<times> 'w"

definition isNoSessionError :: "session_error \<Rightarrow> bool" where
  "isNoSessionError e \<longleftrightarrow> e = ErrNoSession \<or> e = ErrInvalidCookie \<or> e = SessionStoreError NotFound"

definition admin_headers :: "(string \<times> string) list" where
  "admin_headers = [(''Content-Type'', ''application/json;charset=UTF-8''), (''Cache-Control'', ''no-store'')]"

definition admin_json :: "nat \<Rightarrow> json \<Rightarrow> outcome" where
  "admin_json s b = Response ((plain_response s)\<lparr>resp_headers := admin_headers, resp_body := Some b\<rparr>)"

definition writeAuthError :: "nat \<Rightarrow> string \<Rightarrow> outcome" where
  "writeAuthError s msg = admin_json s (JObj [(''error'', JStr msg)])"

definition add_header :: "string \<times> string \<Rightarrow> outcome \<Rightarrow> outcome" where
  "add_header h out =
    (case out of
       Response r \<Rightarrow> Response (r\<lparr>resp_headers := h # resp_headers r\<rparr>)
     | Panicked \<Rightarrow> Panicked)"

definition extractAdminToken :: "http_request \<Rightarrow> string" where
  "extractAdminToken r =
    (let a = header_get r ''Authorization'' in
     if has_prefix a ''Bearer '' then trim_space (drop 7 a) else header_get r ''X-Admin-Token'')"

text \<open>\<open>strings.EqualFold\<close> against every element.\<close>

definition containsString :: "string list \<Rightarrow> string \<Rightarrow> bool" where
  "containsString xs s \<longleftrightarrow> list_ex (\<lambda>x. equal_fold x s) xs"

definition admin_role :: "'w auth_config \<Rightarrow> string" where
  "admin_role cfg = (if aa_AdminRole cfg = [] then ''admin'' else aa_AdminRole cfg)"

text \<open>The constructor refuses a configuration under which nobody could be let in.\<close>

definition auth_configured :: "'w auth_config \<Rightarrow> bool" where
  "auth_configured cfg \<longleftrightarrow>
    \<not> (\<not> aa_AllowAnonymous cfg \<and> trim_space (aa_Token cfg) = [] \<and> aa_Sessions cfg = None)"

definition unauthorized :: outcome where
  "unauthorized = add_header (''WWW-Authenticate'', ''Bearer realm=\"auth-server-admin\"'')
     (writeAuthError 401 ''unauthorized'')"

text \<open>The part of the middleware for a browser session.\<close>

definition session_gate ::
  "crypto \<Rightarrow> cookie_lib \<Rightarrow> time \<Rightarrow> 'w auth_config \<Rightarrow> 'w session_resolver \<Rightarrow> 'w user_store
    \<Rightarrow> 'w admin_next \<Rightarrow> http_request \<Rightarrow> 'w \<Rightarrow> outcome \<times> 'w" where
  "session_gate cr lib t cfg sr us nxt r w =
    (case Resolve cr lib t sr r w of
       Inl e \<Rightarrow> (if \<not> isNoSessionError e then writeAuthError 500 ''server_error'' else unauthorized, w)
     | Inr None \<Rightarrow> (unauthorized, w)
     | Inr (Some s) \<Rightarrow>
         (case us_GetUserRoles us (s_UserID s) w of
            Inl e \<Rightarrow> (writeAuthError 500 ''server_error'', w)
          | Inr roles \<Rightarrow>
              if containsString roles (admin_role cfg) then
                (let (out, w') = nxt \<lparr>ax_Method = AuthSession, ax_Actor = s_UserID s\<rparr> r w
                 in (add_header (''X-Admin-Auth'', ''session'') out, w'))
              else (writeAuthError 403 ''admin role required'', w)))"

definition AuthMiddleware ::
  "crypto \<Rightarrow> cookie_lib \<Rightarrow> time \<Rightarrow> 'w auth_config \<Rightarrow> 'w admin_next \<Rightarrow> http_request \<Rightarrow> 'w \<Rightarrow> outcome \<times> 'w" where
  "AuthMiddleware cr lib t cfg nxt r w =
    (if aa_AllowAnonymous cfg then
       (let (out, w') = nxt \<lparr>ax_Method = AuthAnonymous, ax_Actor = []\<rparr> r w
        in (add_header (''X-Admin-Auth'', ''anonymous'') out, w'))
     else let provided = extractAdminToken r in
       if provided \<noteq> [] \<and> aa_Token cfg \<noteq> [] \<and> provided = aa_Token cfg then
         (let (out, w') = nxt \<lparr>ax_Method = AuthToken, ax_Actor = []\<rparr> r w
          in (add_header (''X-Admin-Auth'', ''token'') out, w'))
       else case (aa_Sessions cfg, aa_Users cfg) of
         (Some sr, Some us) \<Rightarrow> session_gate cr lib t cfg sr us nxt r w
       | _ \<Rightarrow> (unauthorized, w))"

definition safe_method :: "string \<Rightarrow> bool" where
  "safe_method m \<longleftrightarrow> m = ''GET'' \<or> m = ''HEAD'' \<or> m = ''OPTIONS''"

definition double_submit :: "http_request \<Rightarrow> bool" where
  "double_submit r \<longleftrightarrow>
    (case cookie_get r csrfCookieName of
       None \<Rightarrow> False
     | Some c \<Rightarrow> c \<noteq> [] \<and> header_get r csrfHeaderName \<noteq> [] \<and> c = header_get r csrfHeaderName)"

definition CSRFMiddleware :: "'w admin_next \<Rightarrow> 'w admin_next" where
  "CSRFMiddleware nxt ctx r w =
    (if safe_method (req_Method r) then nxt ctx r w
     else if ax_Method ctx = AuthToken then nxt ctx r w
     else if \<not> double_submit r then (writeAuthError 403 ''antiforgery_failed'', w)
     else nxt ctx r w)"

subsection \<open>Facts\<close>

lemma admin_json_simps [simp]:
  "status_of (admin_json s b) = Some s" "body_field (admin_json s b) k = json_field b k"
  "cookies_of (admin_json s b) = []" "location_of (admin_json s b) = None"
  by (simp_all add: admin_json_def body_field_def plain_response_def)

lemma add_header_simps [simp]:
  "status_of (add_header h out) = status_of out" "body_field (add_header h out) k = body_field out k"
  by (cases out; simp add: add_header_def body_field_def)+

lemma auth_error_status [simp]:
  "status_of (writeAuthError s m) = Some s" "status_of unauthorized = Some 401"
  by (simp_all add: writeAuthError_def unauthorized_def)

lemma containsString_iff: "containsString xs s \<longleftrightarrow> (\<exists>x \<in> set xs. equal_fold x s)"
  by (simp add: containsString_def list_ex_iff)

text \<open>What let a request through.\<close>

definition admitted ::
  "crypto \<Rightarrow> cookie_lib \<Rightarrow> time \<Rightarrow> 'w auth_config \<Rightarrow> http_request \<Rightarrow> 'w \<Rightarrow> admin_context \<Rightarrow> bool" where
  "admitted cr lib t cfg r w ctx \<longleftrightarrow>
    (case ax_Method ctx of
       AuthAnonymous \<Rightarrow> aa_AllowAnonymous cfg
     | AuthToken \<Rightarrow> aa_Token cfg \<noteq> [] \<and> extractAdminToken r = aa_Token cfg
     | AuthSession \<Rightarrow>
         (\<exists>sr us s roles. aa_Sessions cfg = Some sr \<and> aa_Users cfg = Some us \<and>
           Resolve cr lib t sr r w = Inr (Some s) \<and> us_GetUserRoles us (s_UserID s) w = Inr roles \<and>
           containsString roles (admin_role cfg) \<and> ax_Actor ctx = s_UserID s))"

text \<open>Either the next handler ran on the same request and state, or nothing changed.\<close>

lemma AuthMiddleware_cases:
  assumes "AuthMiddleware cr lib t cfg nxt r w = (out, w')"
  shows "(\<exists>ctx out0 h. admitted cr lib t cfg r w ctx \<and> nxt ctx r w = (out0, w') \<and> out = add_header h out0) \<or>
    (w' = w \<and> status_of out \<in> {Some 401, Some 403, Some 500})"
proof -
  have one: "(\<exists>ctx out0 h. admitted cr lib t cfg r w ctx \<and> nxt ctx r w = (out0, w') \<and> out = add_header h out0)"
    if "admitted cr lib t cfg r w ctx" "(case nxt ctx r w of (o1, w1) \<Rightarrow> (add_header h o1, w1)) = (out, w')" for ctx h
  proof -
    have "nxt ctx r w = (fst (nxt ctx r w), w')" "out = add_header h (fst (nxt ctx r w))"
      using that(2) by (cases "nxt ctx r w"; simp)+
    with that(1) show ?thesis by blast
  qed
  have session: ?thesis if "aa_Sessions cfg = Some sr" "aa_Users cfg = Some us"
    "session_gate cr lib t cfg sr us nxt r w = (out, w')" for sr us
  proof (cases "Resolve cr lib t sr r w")
    case (Inr os)
    show ?thesis
    proof (cases os)
      case (Some s)
      show ?thesis
      proof (cases "us_GetUserRoles us (s_UserID s) w")
        case (Inr roles)
        let ?ctx = "\<lparr>ax_Method = AuthSession, ax_Actor = s_UserID s\<rparr>"
        show ?thesis
        proof (cases "containsString roles (admin_role cfg)")
          case True
          with that Some Inr \<open>Resolve cr lib t sr r w = Inr os\<close> one [of ?ctx "(''X-Admin-Auth'', ''session'')"]
          show ?thesis by (simp add: session_gate_def admitted_def)
        qed (use that Some Inr \<open>Resolve cr lib t sr r w = Inr os\<close> in \<open>auto simp: session_gate_def\<close>)
      qed (use that Some \<open>Resolve cr lib t sr r w = Inr os\<close> in \<open>auto simp: session_gate_def\<close>)
    qed (use that Inr in \<open>auto simp: session_gate_def\<close>)
  qed (use that in \<open>auto simp: session_gate_def split: if_splits\<close>)
  consider "aa_AllowAnonymous cfg" | "\<not> aa_AllowAnonymous cfg" "aa_Token cfg \<noteq> []" "extractAdminToken r = aa_Token cfg"
    | "\<not> aa_AllowAnonymous cfg" "\<not> (aa_Token cfg \<noteq> [] \<and> extractAdminToken r = aa_Token cfg)" by blast
  then show ?thesis
  proof cases
    case 1
    with assms one [of "\<lparr>ax_Method = AuthAnonymous, ax_Actor = []\<rparr>" "(''X-Admin-Auth'', ''anonymous'')"]
    show ?thesis by (simp add: AuthMiddleware_def admitted_def)
  next
    case 2
    with assms one [of "\<lparr>ax_Method = AuthToken, ax_Actor = []\<rparr>" "(''X-Admin-Auth'', ''token'')"]
    show ?thesis by (simp add: AuthMiddleware_def admitted_def)
  next
    case 3
    then have no: "\<not> (extractAdminToken r \<noteq> [] \<and> aa_Token cfg \<noteq> [] \<and> extractAdminToken r = aa_Token cfg)" by auto
    show ?thesis
    proof (cases "\<exists>sr us. aa_Sessions cfg = Some sr \<and> aa_Users cfg = Some us")
      case True
      then obtain sr us where "aa_Sessions cfg = Some sr" "aa_Users cfg = Some us" by blast
      then show ?thesis using session assms 3(1) no by (simp add: AuthMiddleware_def Let_def)
    next
      case False
      then have "out = unauthorized \<and> w' = w"
        using assms 3(1) no by (auto simp: AuthMiddleware_def Let_def split: option.splits)
      then show ?thesis by simp
    qed
  qed
qed

lemma CSRFMiddleware_cases:
  assumes "CSRFMiddleware nxt ctx r w = (out, w')"
  shows "(nxt ctx r w = (out, w') \<and>
      (safe_method (req_Method r) \<or> ax_Method ctx = AuthToken \<or> double_submit r)) \<or>
    (w' = w \<and> status_of out = Some 403)"
  using assms by (auto simp: CSRFMiddleware_def split: if_splits)

text \<open>The check is the one of the guard of internal/oidc.\<close>

lemma double_submit_guard: "double_submit r \<longleftrightarrow> csrf_VerifyHeader (APICSRFGuard https) r"
  by (auto simp: double_submit_def csrf_VerifyHeader_def APICSRFGuard_def Let_def split: option.splits)

end
