(* ===== verification/Admin_Views.thy ===== *)
theory Admin_Views
  imports Admin_Gate Account GoJson
begin

section \<open>Bodies and answers of the admin API (internal/admin/api.go)\<close>

text \<open>
  The JSON views of the stored entities, the request bodies with the rules of encoding/json, and
  the helpers of the file. In a body \<open>JTime\<close> is a string that reads as an instant. An error
  answer also has a field \<open>detail\<close> with the text of the Go error, which is not spelled out; of a
  message that quotes a value the part before it is kept. A nil list of Go prints
  \<open>null\<close>, an empty one \<open>[]\<close>; the model does not tell them apart and prints \<open>[]\<close>.
\<close>

subsection \<open>Reading a body\<close>

text \<open>
  A struct is read field by field: a name matches up to case, a later field overwrites, an unknown
  one is skipped. A setter answers \<open>None\<close> to a value of another type.
\<close>

type_synonym 'b setter = "json \<Rightarrow> 'b \<Rightarrow> 'b option"

fun read_fields :: "(string \<times> 'b setter) list \<Rightarrow> (string \<times> json) list \<Rightarrow> 'b \<Rightarrow> 'b option" where
  "read_fields fs [] b = Some b"
| "read_fields fs ((k, v) # kvs) b =
    (case find (\<lambda>(n, _). equal_fold k n) fs of
       None \<Rightarrow> read_fields fs kvs b
     | Some (_, st) \<Rightarrow> (case st v b of None \<Rightarrow> None | Some b' \<Rightarrow> read_fields fs kvs b'))"

definition read_struct :: "(string \<times> 'b setter) list \<Rightarrow> 'b setter" where
  "read_struct fs v b =
    (case v of JObj kvs \<Rightarrow> read_fields fs kvs b | JNull \<Rightarrow> Some b | _ \<Rightarrow> None)"

definition set_str :: "(string \<Rightarrow> 'b \<Rightarrow> 'b) \<Rightarrow> 'b setter" where
  "set_str upd v b = (case v of JStr s \<Rightarrow> Some (upd s b) | JNull \<Rightarrow> Some b | _ \<Rightarrow> None)"

definition set_bool :: "(bool \<Rightarrow> 'b \<Rightarrow> 'b) \<Rightarrow> 'b setter" where
  "set_bool upd v b = (case v of JBool x \<Rightarrow> Some (upd x b) | JNull \<Rightarrow> Some b | _ \<Rightarrow> None)"

definition set_int :: "(goint \<Rightarrow> 'b \<Rightarrow> 'b) \<Rightarrow> 'b setter" where
  "set_int upd v b =
    (case v of
       JNum n \<Rightarrow> if - (2 ^ 63) \<le> n \<and> n < 2 ^ 63 then Some (upd (word_of_int n) b) else None
     | JNull \<Rightarrow> Some b
     | _ \<Rightarrow> None)"

definition set_time :: "(time option \<Rightarrow> 'b \<Rightarrow> 'b) \<Rightarrow> 'b setter" where
  "set_time upd v b = (case v of JTime t \<Rightarrow> Some (upd (Some t) b) | JNull \<Rightarrow> Some (upd None b) | _ \<Rightarrow> None)"

text \<open>The elements of an array, each read over the element that was there before.\<close>

fun read_items :: "'a setter \<Rightarrow> 'a \<Rightarrow> json list \<Rightarrow> 'a list \<Rightarrow> 'a list option" where
  "read_items st zero [] old = Some []"
| "read_items st zero (v # vs) old =
    (case st v (case old of [] \<Rightarrow> zero | x # _ \<Rightarrow> x) of
       None \<Rightarrow> None
     | Some x \<Rightarrow> map_option ((#) x) (read_items st zero vs (tl old)))"

definition set_list :: "'a setter \<Rightarrow> 'a \<Rightarrow> ('b \<Rightarrow> 'a list) \<Rightarrow> ('a list \<Rightarrow> 'b \<Rightarrow> 'b) \<Rightarrow> 'b setter" where
  "set_list st zero get upd v b =
    (case v of
       JArr vs \<Rightarrow> map_option (\<lambda>xs. upd xs b) (read_items st zero vs (get b))
     | JNull \<Rightarrow> Some (upd [] b)
     | _ \<Rightarrow> None)"

definition set_strs :: "('b \<Rightarrow> string list) \<Rightarrow> (string list \<Rightarrow> 'b \<Rightarrow> 'b) \<Rightarrow> 'b setter" where
  "set_strs = set_list (set_str (\<lambda>s _. s)) []"

fun read_entries :: "(string \<times> json) list \<Rightarrow> (string, string) gomap \<Rightarrow> (string, string) gomap option" where
  "read_entries [] m = Some m"
| "read_entries ((k, v) # kvs) m =
    (case v of
       JStr s \<Rightarrow> read_entries kvs (gm_put k s m)
     | JNull \<Rightarrow> read_entries kvs (gm_put k [] m)
     | _ \<Rightarrow> None)"

definition set_strmap ::
  "('b \<Rightarrow> (string, string) gomap) \<Rightarrow> ((string, string) gomap \<Rightarrow> 'b \<Rightarrow> 'b) \<Rightarrow> 'b setter" where
  "set_strmap get upd v b =
    (case v of
       JObj kvs \<Rightarrow> map_option (\<lambda>m. upd m b) (read_entries kvs (get b))
     | JNull \<Rightarrow> Some (upd [] b)
     | _ \<Rightarrow> None)"

definition read_body :: "(string \<times> 'b setter) list \<Rightarrow> 'b \<Rightarrow> http_request \<Rightarrow> 'b option" where
  "read_body fs zero r = (case req_Body r of None \<Rightarrow> None | Some v \<Rightarrow> read_struct fs v zero)"

subsection \<open>Answers\<close>

definition admin_error :: "nat \<Rightarrow> string \<Rightarrow> outcome" where
  "admin_error s msg = admin_json s (JObj [(''error'', JStr msg)])"

definition no_content :: outcome where
  "no_content = Response (plain_response 204)"

text \<open>A lookup that failed: 404 for a missing entity, 500 for anything else.\<close>

definition lookup_error :: "string \<Rightarrow> store_error \<Rightarrow> outcome" where
  "lookup_error msg e = (if e = NotFound then admin_error 404 ''not found'' else admin_error 500 msg)"

definition strs_json :: "string list \<Rightarrow> json" where
  "strs_json xs = JArr (map JStr xs)"

definition props_json :: "(string, string) gomap \<Rightarrow> (string \<times> json) list" where
  "props_json m = (if m = [] then [] else [(''properties'', JObj (map (\<lambda>(k, v). (k, JStr v)) m))])"

definition when_json :: "string \<Rightarrow> time option \<Rightarrow> (string \<times> json) list" where
  "when_json k p = (case p of None \<Rightarrow> [] | Some t \<Rightarrow> [(k, JTime t)])"

definition text_json :: "string \<Rightarrow> string \<Rightarrow> (string \<times> json) list" where
  "text_json k s = (if s = [] then [] else [(k, JStr s)])"

definition listing :: "json list \<Rightarrow> nat \<Rightarrow> outcome" where
  "listing items n = admin_json 200 (JObj [(''items'', JArr items), (''total_count'', JNum (int n))])"

text \<open>A page: \<open>None\<close> is the panic of a store that slices out of range.\<close>

definition paged_answer :: "('a \<Rightarrow> json) \<Rightarrow> (store_error + 'a paged_result) option \<Rightarrow> outcome" where
  "paged_answer view res =
    (case res of
       None \<Rightarrow> Panicked
     | Some (Inl e) \<Rightarrow> admin_error 500 ''list failed''
     | Some (Inr p) \<Rightarrow> listing (map view (pg_Items p)) (pg_TotalCount p))"

subsection \<open>Views\<close>

definition profile_text :: "client_profile \<Rightarrow> string" where
  "profile_text p = (case p of ProfileSPA \<Rightarrow> ''spa'' | ProfileWeb \<Rightarrow> ''web'' | ProfileM2M \<Rightarrow> ''m2m''
     | ProfileCustom \<Rightarrow> ''custom'')"

definition profile_named :: "string \<Rightarrow> client_profile" where
  "profile_named s = (if s = ''spa'' then ProfileSPA else if s = ''web'' then ProfileWeb
     else if s = ''m2m'' then ProfileM2M else ProfileCustom)"

definition toClientView :: "client \<Rightarrow> (string \<times> json) list" where
  "toClientView c =
    [(''client_id'', JStr (c_ClientID c)), (''display_name'', JStr (c_DisplayName c)),
     (''profile'', JStr (profile_text (profile_of c))),
     (''redirect_uris'', strs_json (c_RedirectURIs c)),
     (''post_logout_redirect_uris'', strs_json (c_PostLogoutRedirectURIs c)),
     (''allowed_scopes'', strs_json (c_AllowedScopes c)),
     (''require_pkce'', JBool (c_RequirePKCE c)),
     (''allow_refresh_tokens'', JBool (c_AllowRefreshTokens c)),
     (''allow_client_credentials'', JBool (c_AllowClientCredentials c)),
     (''token_endpoint_auth_method'', JStr (c_TokenEndpointAuthMethod c)),
     (''has_jwks'', JBool (c_JWKSJSON c \<noteq> [])),
     (''access_token_lifetime_seconds'', JNum (sint (c_AccessTokenLifetimeSeconds c))),
     (''refresh_token_lifetime_seconds'', JNum (sint (c_RefreshTokenLifetimeSeconds c))),
     (''refresh_token_absolute_lifetime_seconds'', JNum (sint (c_RefreshTokenAbsoluteLifetimeSeconds c))),
     (''refresh_token_expiration'', JNum (sint (c_RefreshTokenExpiration c)))] @ props_json (c_Properties c)"

definition toScopeView :: "scope \<Rightarrow> json" where
  "toScopeView s = JObj
    ([(''name'', JStr (sc_Name s)), (''display_name'', JStr (sc_DisplayName s)),
      (''description'', JStr (sc_Description s)), (''required'', JBool (sc_Required s)),
      (''emphasize'', JBool (sc_Emphasize s))] @ props_json (sc_Properties s))"

definition toSessionView :: "crypto \<Rightarrow> session \<Rightarrow> json" where
  "toSessionView cr s = JObj
    ([(''id'', JStr (uuid_string cr (s_ID s))), (''user_id'', JStr (s_UserID s)),
      (''created_at'', JTime (s_CreatedAt s)), (''expires_at'', JTime (s_ExpiresAt s))] @
     when_json ''revoked_at'' (s_RevokedAt s))"

definition id_json :: "crypto \<Rightarrow> string \<Rightarrow> uuid option \<Rightarrow> (string \<times> json) list" where
  "id_json cr k p = (case p of None \<Rightarrow> [] | Some i \<Rightarrow> [(k, JStr (uuid_string cr i))])"

definition toRefreshTokenView :: "crypto \<Rightarrow> refresh_token \<Rightarrow> json" where
  "toRefreshTokenView cr t = JObj
    ([(''id'', JStr (uuid_string cr (rt_ID t))), (''client_id'', JStr (rt_ClientID t)),
      (''user_id'', JStr (rt_UserID t))] @
     id_json cr ''session_id'' (rt_SessionID t) @ id_json cr ''parent_token_id'' (rt_ParentTokenID t) @
     [(''scope'', JStr (rt_Scope t)), (''expires_at'', JTime (rt_ExpiresAt t)),
      (''absolute_expires_at'', JTime (rt_AbsoluteExpiresAt t))] @
     when_json ''consumed_at'' (rt_ConsumedAt t) @ when_json ''revoked_at'' (rt_RevokedAt t) @
     [(''created_at'', JTime (rt_CreatedAt t))])"

definition toKeyView :: "signing_key \<Rightarrow> json" where
  "toKeyView k = JObj
    ([(''kid'', JStr (sk_KeyID k)), (''alg'', JStr (sk_Algorithm k)), (''public_pem'', JStr (sk_PublicKeyPEM k)),
      (''created_at'', JTime (sk_CreatedAt k))] @ when_json ''retired_at'' (sk_RetiredAt k) @
     [(''is_active'', JBool (sk_IsActive k))])"

definition toAuditView :: "crypto \<Rightarrow> audit_log \<Rightarrow> json" where
  "toAuditView cr l = JObj
    ([(''id'', JStr (uuid_string cr (al_ID l))), (''action'', JStr (al_Action l)),
      (''actor_user_id'', JStr (al_ActorUserID l)), (''target_type'', JStr (al_TargetType l)),
      (''target_id'', JStr (al_TargetID l)), (''timestamp'', JTime (al_Timestamp l))] @
     text_json ''ip_address'' (al_IPAddress l) @ text_json ''user_agent'' (al_UserAgent l) @
     text_json ''metadata'' (al_Metadata l))"

definition toUserView :: "user \<Rightarrow> json" where
  "toUserView u = JObj
    ([(''id'', JStr (u_ID u)), (''username'', JStr (u_Username u)), (''email'', JStr (u_Email u)),
      (''email_confirmed'', JBool (u_EmailConfirmed u)), (''two_factor_enabled'', JBool (u_TwoFactorEnabled u))] @
     when_json ''lockout_end'' (u_LockoutEnd u) @
     [(''lockout_enabled'', JBool (u_LockoutEnabled u)),
      (''access_failed_count'', JNum (sint (u_AccessFailedCount u))),
      (''created_at'', JTime (u_CreatedAt u)), (''updated_at'', JTime (u_UpdatedAt u))])"

definition roleView :: "role \<Rightarrow> json" where
  "roleView ro = JObj [(''id'', JStr (r_ID ro)), (''name'', JStr (r_Name ro))]"

text \<open>The domain types without tags print their Go field names.\<close>

definition claim_json :: "user_claim \<Rightarrow> json" where
  "claim_json c = JObj [(''Type'', JStr (uc_Type c)), (''Value'', JStr (uc_Value c))]"

definition login_json :: "user_login \<Rightarrow> json" where
  "login_json l = JObj [(''LoginProvider'', JStr (ul_LoginProvider l)), (''ProviderKey'', JStr (ul_ProviderKey l)),
     (''ProviderName'', JStr (ul_ProviderName l)), (''UserID'', JStr (ul_UserID l))]"

subsection \<open>Page parameters\<close>

text \<open>
  \<open>fmt.Sscanf\<close> with \<open>%d\<close>: blanks, a sign, decimal digits, and what follows is ignored. A line
  break among the blanks, no digit, or a value that does not fit 64 bits is an error.
\<close>

function skip_blanks :: "string \<Rightarrow> string option" where
  "skip_blanks s =
    (if s = [] then None
     else if hd s = CHR 0x0A then None
     else if space_len s = 0 then Some s
     else skip_blanks (drop (space_len s) s))"
  by pat_completeness auto
termination by (relation "measure length") auto

declare skip_blanks.simps [simp del]

definition is_digit :: "char \<Rightarrow> bool" where
  "is_digit c \<longleftrightarrow> 48 \<le> (of_char c :: nat) \<and> (of_char c :: nat) \<le> 57"

definition digits_value :: "string \<Rightarrow> int" where
  "digits_value ds = foldl (\<lambda>n c. 10 * n + (of_char c - 48)) 0 ds"

definition sscanf_d :: "string \<Rightarrow> goint option" where
  "sscanf_d s =
    (case skip_blanks s of
       None \<Rightarrow> None
     | Some u \<Rightarrow>
         let neg = (hd u = CHR ''-'');
             ds = takeWhile is_digit (if hd u = CHR ''-'' \<or> hd u = CHR ''+'' then tl u else u);
             n = (if neg then - digits_value ds else digits_value ds)
         in if ds = [] \<or> n < - (2 ^ 63) \<or> n \<ge> 2 ^ 63 then None else Some (word_of_int n))"

definition page_param :: "http_request \<Rightarrow> string \<Rightarrow> goint \<Rightarrow> goint" where
  "page_param r k dflt =
    (let p = values_get (req_Query r) k in
     if p = [] then dflt else case sscanf_d p of None \<Rightarrow> dflt | Some n \<Rightarrow> n)"

definition parsePage :: "http_request \<Rightarrow> paged_request" where
  "parsePage r = \<lparr>pq_Page = page_param r ''page'' 1, pq_PageSize = page_param r ''page_size'' 50\<rparr>"

subsection \<open>The keys of a JWKS\<close>

text \<open>
  \<open>validateJWKS\<close> reads the text as any JSON object and counts the elements of its field \<open>keys\<close>.
  \<open>skip_value\<close> passes over one JSON value and answers what follows it; the nesting of a value is
  limited to 10000 as in encoding/json. A byte is passed over at least every second step, so twice the
  length of the text is enough fuel.
\<close>

definition max_nesting :: int where
  "max_nesting = 10000"

definition after_word :: "string \<Rightarrow> string \<Rightarrow> string option" where
  "after_word w s = (if has_prefix s w then Some (drop (length w) s) else None)"

definition skip_digits :: "string \<Rightarrow> string option" where
  "skip_digits s = (if s \<noteq> [] \<and> is_digit (hd s) then Some (dropWhile is_digit s) else None)"

definition skip_fraction :: "string \<Rightarrow> string option" where
  "skip_fraction s = (if s \<noteq> [] \<and> hd s = CHR ''.'' then skip_digits (tl s) else Some s)"

definition skip_exponent :: "string \<Rightarrow> string option" where
  "skip_exponent s =
    (if s \<noteq> [] \<and> (hd s = CHR ''e'' \<or> hd s = CHR ''E'') then
       (let u = tl s in skip_digits (if u \<noteq> [] \<and> (hd u = CHR ''+'' \<or> hd u = CHR ''-'') then tl u else u))
     else Some s)"

definition skip_number :: "string \<Rightarrow> string option" where
  "skip_number s =
    (let u = (if s \<noteq> [] \<and> hd s = CHR ''-'' then tl s else s);
         int_part = (if u \<noteq> [] \<and> hd u = CHR ''0'' then Some (tl u) else skip_digits u)
     in case int_part of
          None \<Rightarrow> None
        | Some v \<Rightarrow> (case skip_fraction v of None \<Rightarrow> None | Some x \<Rightarrow> skip_exponent x))"

fun skip_value :: "nat \<Rightarrow> int \<Rightarrow> string \<Rightarrow> string option"
  and skip_items :: "nat \<Rightarrow> int \<Rightarrow> string \<Rightarrow> (nat \<times> string) option"
  and skip_members :: "nat \<Rightarrow> int \<Rightarrow> string \<Rightarrow> string option" where
  "skip_value 0 d s = None"
| "skip_value (Suc n) d s =
    (case skip_ws s of
       [] \<Rightarrow> None
     | c # u \<Rightarrow>
         if c = CHR 0x22 then map_option snd (decode_str u)
         else if c = CHR ''['' then
           (if d \<ge> max_nesting then None
            else if skip_ws u \<noteq> [] \<and> hd (skip_ws u) = CHR '']'' then Some (tl (skip_ws u))
            else map_option snd (skip_items n (d + 1) u))
         else if c = CHR ''{'' then
           (if d \<ge> max_nesting then None
            else if skip_ws u \<noteq> [] \<and> hd (skip_ws u) = CHR ''}'' then Some (tl (skip_ws u))
            else skip_members n (d + 1) u)
         else if c = CHR ''t'' then after_word ''true'' (c # u)
         else if c = CHR ''f'' then after_word ''false'' (c # u)
         else if c = CHR ''n'' then after_word ''null'' (c # u)
         else skip_number (c # u))"
| "skip_items 0 d s = None"
| "skip_items (Suc n) d s =
    (case skip_value n d s of
       None \<Rightarrow> None
     | Some u \<Rightarrow>
         (case skip_ws u of
            [] \<Rightarrow> None
          | c # v \<Rightarrow>
              if c = CHR '']'' then Some (1, v)
              else if c = CHR '','' then map_option (\<lambda>(k, x). (k + 1, x)) (skip_items n d v)
              else None))"
| "skip_members 0 d s = None"
| "skip_members (Suc n) d s =
    (case skip_ws s of
       [] \<Rightarrow> None
     | q # s1 \<Rightarrow>
         if q \<noteq> CHR 0x22 then None
         else (case decode_str s1 of
             None \<Rightarrow> None
           | Some (_, s2) \<Rightarrow>
               (case skip_ws s2 of
                  [] \<Rightarrow> None
                | c # s3 \<Rightarrow>
                    if c \<noteq> CHR '':'' then None
                    else (case skip_value n d s3 of
                        None \<Rightarrow> None
                      | Some s4 \<Rightarrow>
                          (case skip_ws s4 of
                             [] \<Rightarrow> None
                           | e # s5 \<Rightarrow>
                               if e = CHR ''}'' then Some s5
                               else if e = CHR '','' then skip_members n d s5
                               else None)))))"

text \<open>The number of elements of the last field \<open>keys\<close>, \<open>None\<close> where it is no list.\<close>

definition count_value :: "nat \<Rightarrow> string \<Rightarrow> nat option" where
  "count_value n s =
    (case skip_ws s of
       [] \<Rightarrow> None
     | c # u \<Rightarrow>
         if c = CHR ''['' then
           (if skip_ws u \<noteq> [] \<and> hd (skip_ws u) = CHR '']'' then Some 0
            else map_option fst (skip_items n 2 u))
         else if c = CHR ''n'' then Some 0
         else None)"

fun count_keys :: "nat \<Rightarrow> string \<Rightarrow> nat option \<Rightarrow> nat option" where
  "count_keys 0 s acc = None"
| "count_keys (Suc n) s acc =
    (case skip_ws s of
       [] \<Rightarrow> None
     | q # s1 \<Rightarrow>
         (case decode_str s1 of
            None \<Rightarrow> None
          | Some (k, s2) \<Rightarrow>
              (case skip_ws s2 of
                 [] \<Rightarrow> None
               | c # s3 \<Rightarrow>
                   (let acc' = (if equal_fold k ''keys'' then (if acc = None then None else count_value n s3) else acc) in
                    case skip_value n 1 s3 of
                      None \<Rightarrow> None
                    | Some s4 \<Rightarrow>
                        (case skip_ws s4 of
                           [] \<Rightarrow> None
                         | e # s5 \<Rightarrow> if e = CHR '','' then count_keys n s5 acc' else acc')))))"

datatype jwks_error = JWKSRequired | JWKSNotJSON | JWKSEmpty

definition validateJWKS :: "string \<Rightarrow> jwks_error option" where
  "validateJWKS raw =
    (if trim_space raw = [] then Some JWKSRequired
     else let n = 2 * length raw + 2 in
       case skip_value n 0 raw of
         None \<Rightarrow> Some JWKSNotJSON
       | Some rest \<Rightarrow>
           if skip_ws rest \<noteq> [] then Some JWKSNotJSON
           else (case skip_ws raw of
               [] \<Rightarrow> Some JWKSNotJSON
             | c # u \<Rightarrow>
                 if c = CHR ''n'' then Some JWKSEmpty
                 else if c \<noteq> CHR ''{'' then Some JWKSNotJSON
                 else if skip_ws u \<noteq> [] \<and> hd (skip_ws u) = CHR ''}'' then Some JWKSEmpty
                 else (case count_keys n u (Some 0) of
                     None \<Rightarrow> Some JWKSNotJSON
                   | Some k \<Rightarrow> if k = 0 then Some JWKSEmpty else None)))"

lemma validateJWKS_examples:
  "validateJWKS ''{\"keys\": [{\"kty\": \"RSA\", \"n\": [1, -2.5e3, true]}]}'' = None"
  "validateJWKS ''{\"keys\": []}'' = Some JWKSEmpty"
  "validateJWKS ''{\"keys\": [1,]}'' = Some JWKSNotJSON"
  "validateJWKS ''{\"a\": {}, \"Keys\": [null , \"x\"] } '' = None"
  "validateJWKS '' '' = Some JWKSRequired"
  by code_simp+

lemma parsePage_examples:
  "sscanf_d ''12abc'' = Some 12" "sscanf_d '' -7'' = Some (- 7)" "sscanf_d ''x'' = None"
  "sscanf_d ''9223372036854775808'' = None" "sscanf_d ''-9223372036854775808'' = Some 0x8000000000000000"
  by code_simp+

end
