(* ===== verification/Admin_Resources.thy ===== *)
theory Admin_Resources
  imports Admin_Views Mem_World Password_Reset
begin

section \<open>The admin API: clients, scopes, sessions, tokens, keys, audit log\<close>

text \<open>
  The handlers of internal/admin/api.go up to the users. A path value is an argument. The places
  of the clock, of new ids and of key material are numbered within each handler.
\<close>

subsection \<open>The stores of the API\<close>

text \<open>
  The API uses every store. The \<open>GetPaged\<close> methods of the interfaces are gathered in one record;
  a page is \<open>None\<close> where the store panics. The methods of \<open>UserStore\<close> and \<open>RoleStore\<close> that only
  this API calls are in records of their own.
\<close>

record 'w paged_stores =
  pg_Clients :: "paged_request \<Rightarrow> 'w \<Rightarrow> (store_error + client paged_result) option"
  pg_Sessions :: "paged_request \<Rightarrow> 'w \<Rightarrow> (store_error + session paged_result) option"
  pg_RefreshTokens :: "paged_request \<Rightarrow> 'w \<Rightarrow> (store_error + refresh_token paged_result) option"
  pg_AuditLogs :: "paged_request \<Rightarrow> 'w \<Rightarrow> (store_error + audit_log paged_result) option"
  pg_Users :: "paged_request \<Rightarrow> 'w \<Rightarrow> (store_error + user paged_result) option"

record 'w user_directory =
  ud_GetUserClaims :: "string \<Rightarrow> 'w \<Rightarrow> store_error + user_claim list"
  ud_ReplaceUserClaims :: "string \<Rightarrow> user_claim list \<Rightarrow> 'w \<Rightarrow> store_error option \<times> 'w"
  ud_AddToRoles :: "string \<Rightarrow> string list \<Rightarrow> 'w \<Rightarrow> store_error option \<times> 'w"
  ud_RemoveFromRoles :: "string \<Rightarrow> string list \<Rightarrow> 'w \<Rightarrow> store_error option \<times> 'w"
  ud_GetUserLogins :: "string \<Rightarrow> 'w \<Rightarrow> store_error + user_login list"
  ud_RemoveLogin :: "string \<Rightarrow> string \<Rightarrow> string \<Rightarrow> 'w \<Rightarrow> store_error option \<times> 'w"

record 'w role_store =
  ros_CreateRole :: "role \<Rightarrow> 'w \<Rightarrow> store_error option \<times> 'w"
  ros_DeleteRole :: "string \<Rightarrow> 'w \<Rightarrow> store_error option \<times> 'w"
  ros_FindRoleByID :: "string \<Rightarrow> 'w \<Rightarrow> store_error + role"
  ros_GetAllRoles :: "'w \<Rightarrow> store_error + role list"
  ros_UpdateRole :: "role \<Rightarrow> 'w \<Rightarrow> store_error option \<times> 'w"
  ros_GetRoleClaims :: "string \<Rightarrow> 'w \<Rightarrow> store_error + user_claim list"
  ros_ReplaceRoleClaims :: "string \<Rightarrow> user_claim list \<Rightarrow> 'w \<Rightarrow> store_error option \<times> 'w"

record 'w admin_api =
  ap_Clients :: "'w client_store"
  ap_Scopes :: "'w scope_store"
  ap_Sessions :: "'w session_store"
  ap_RefreshTokens :: "'w refresh_token_store"
  ap_SigningKeys :: "'w signing_key_store"
  ap_AuditLogs :: "'w audit_log_store option"
  ap_Users :: "'w user_store"
  ap_Directory :: "'w user_directory"
  ap_Roles :: "'w role_store"
  ap_Pages :: "'w paged_stores"
  ap_PasswordResets :: "'w password_reset_store option"
  ap_ClientIP :: "(http_request \<Rightarrow> string) option"

subsection \<open>Clients\<close>

record client_body =
  cb_ClientID :: string
  cb_DisplayName :: string
  cb_Profile :: string
  cb_RedirectURIs :: "string list"
  cb_PostLogoutRedirectURIs :: "string list"
  cb_AllowedScopes :: "string list"
  cb_RequirePKCE :: bool
  cb_AllowRefreshTokens :: bool
  cb_AllowClientCredentials :: bool
  cb_TokenEndpointAuthMethod :: string
  cb_HasJWKS :: bool
  cb_JWKSJSON :: string
  cb_AccessTokenLifetimeSeconds :: goint
  cb_RefreshTokenLifetimeSeconds :: goint
  cb_RefreshTokenAbsoluteLifetimeSeconds :: goint
  cb_RefreshTokenExpiration :: goint
  cb_Properties :: "(string, string) gomap"

definition empty_client_body :: client_body where
  "empty_client_body = \<lparr>cb_ClientID = [], cb_DisplayName = [], cb_Profile = [], cb_RedirectURIs = [],
     cb_PostLogoutRedirectURIs = [], cb_AllowedScopes = [], cb_RequirePKCE = False,
     cb_AllowRefreshTokens = False, cb_AllowClientCredentials = False, cb_TokenEndpointAuthMethod = [],
     cb_HasJWKS = False, cb_JWKSJSON = [], cb_AccessTokenLifetimeSeconds = 0,
     cb_RefreshTokenLifetimeSeconds = 0, cb_RefreshTokenAbsoluteLifetimeSeconds = 0,
     cb_RefreshTokenExpiration = 0, cb_Properties = []\<rparr>"

definition client_fields :: "(string \<times> client_body setter) list" where
  "client_fields =
    [(''client_id'', set_str (\<lambda>x. cb_ClientID_update (\<lambda>_. x))),
     (''display_name'', set_str (\<lambda>x. cb_DisplayName_update (\<lambda>_. x))),
     (''profile'', set_str (\<lambda>x. cb_Profile_update (\<lambda>_. x))),
     (''redirect_uris'', set_strs cb_RedirectURIs (\<lambda>x. cb_RedirectURIs_update (\<lambda>_. x))),
     (''post_logout_redirect_uris'',
        set_strs cb_PostLogoutRedirectURIs (\<lambda>x. cb_PostLogoutRedirectURIs_update (\<lambda>_. x))),
     (''allowed_scopes'', set_strs cb_AllowedScopes (\<lambda>x. cb_AllowedScopes_update (\<lambda>_. x))),
     (''require_pkce'', set_bool (\<lambda>x. cb_RequirePKCE_update (\<lambda>_. x))),
     (''allow_refresh_tokens'', set_bool (\<lambda>x. cb_AllowRefreshTokens_update (\<lambda>_. x))),
     (''allow_client_credentials'', set_bool (\<lambda>x. cb_AllowClientCredentials_update (\<lambda>_. x))),
     (''token_endpoint_auth_method'', set_str (\<lambda>x. cb_TokenEndpointAuthMethod_update (\<lambda>_. x))),
     (''has_jwks'', set_bool (\<lambda>x. cb_HasJWKS_update (\<lambda>_. x))),
     (''jwks_json'', set_str (\<lambda>x. cb_JWKSJSON_update (\<lambda>_. x))),
     (''access_token_lifetime_seconds'', set_int (\<lambda>x. cb_AccessTokenLifetimeSeconds_update (\<lambda>_. x))),
     (''refresh_token_lifetime_seconds'', set_int (\<lambda>x. cb_RefreshTokenLifetimeSeconds_update (\<lambda>_. x))),
     (''refresh_token_absolute_lifetime_seconds'',
        set_int (\<lambda>x. cb_RefreshTokenAbsoluteLifetimeSeconds_update (\<lambda>_. x))),
     (''refresh_token_expiration'', set_int (\<lambda>x. cb_RefreshTokenExpiration_update (\<lambda>_. x))),
     (''properties'', set_strmap cb_Properties (\<lambda>x. cb_Properties_update (\<lambda>_. x)))]"

text \<open>The client with the fields of a body, and its archetype applied where one is named.\<close>

definition client_of_body :: "string \<Rightarrow> client_body \<Rightarrow> client" where
  "client_of_body i b =
    (let c = \<lparr>c_ClientID = i, c_DisplayName = cb_DisplayName b, c_RedirectURIs = cb_RedirectURIs b,
        c_PostLogoutRedirectURIs = cb_PostLogoutRedirectURIs b, c_AllowedScopes = cb_AllowedScopes b,
        c_RequirePKCE = cb_RequirePKCE b, c_AllowRefreshTokens = cb_AllowRefreshTokens b,
        c_AllowClientCredentials = cb_AllowClientCredentials b,
        c_TokenEndpointAuthMethod = cb_TokenEndpointAuthMethod b, c_JWKSJSON = cb_JWKSJSON b,
        c_AccessTokenLifetimeSeconds = cb_AccessTokenLifetimeSeconds b,
        c_RefreshTokenLifetimeSeconds = cb_RefreshTokenLifetimeSeconds b,
        c_RefreshTokenAbsoluteLifetimeSeconds = cb_RefreshTokenAbsoluteLifetimeSeconds b,
        c_RefreshTokenExpiration = cb_RefreshTokenExpiration b, c_Properties = cb_Properties b\<rparr>
     in if cb_Profile b \<noteq> [] then apply_profile (profile_named (cb_Profile b)) c else c)"

definition client_error_text :: "client_error \<Rightarrow> string" where
  "client_error_text e =
    (case e of
       ClientIDRequired \<Rightarrow> ''client_id is required''
     | UnknownAuthMethod m \<Rightarrow> ''unknown token_endpoint_auth_method''
     | InvalidRedirectURI u x \<Rightarrow> ''invalid redirect_uri''
     | InvalidPostLogoutURI u x \<Rightarrow> ''invalid post_logout_redirect_uri''
     | NegativeLifetime \<Rightarrow> ''token lifetimes cannot be negative''
     | InvalidExpiration \<Rightarrow> ''invalid refresh_token_expiration'')"

text \<open>The checks on a client before it is stored.\<close>

definition client_refused :: "client \<Rightarrow> outcome option" where
  "client_refused c =
    (case validate c of
       Some e \<Rightarrow> Some (admin_error 400 (client_error_text e))
     | None \<Rightarrow>
         if c_TokenEndpointAuthMethod c = AuthMethodPrivateKeyJWT \<and> validateJWKS (c_JWKSJSON c) \<noteq> None
         then Some (admin_error 400 ''jwks_json'') else None)"

definition store_client :: "'w admin_api \<Rightarrow> nat \<Rightarrow> client \<Rightarrow> 'w \<Rightarrow> outcome \<times> 'w" where
  "store_client a status c0 w =
    (let c = normalize c0 in
     case client_refused c of
       Some out \<Rightarrow> (out, w)
     | None \<Rightarrow>
         (case cs_Store (ap_Clients a) (Some c) w of
            (Some e, w1) \<Rightarrow> (admin_error 400 ''store failed'', w1)
          | (None, w1) \<Rightarrow> (admin_json status (JObj (toClientView c)), w1)))"

definition createClient :: "'w admin_api \<Rightarrow> http_request \<Rightarrow> 'w \<Rightarrow> outcome \<times> 'w" where
  "createClient a r w =
    (case read_body client_fields empty_client_body r of
       None \<Rightarrow> (admin_error 400 ''invalid json'', w)
     | Some b \<Rightarrow> store_client a 201 (client_of_body (cb_ClientID b) b) w)"

definition updateClient :: "'w admin_api \<Rightarrow> string \<Rightarrow> http_request \<Rightarrow> 'w \<Rightarrow> outcome \<times> 'w" where
  "updateClient a i r w =
    (case read_body client_fields empty_client_body r of
       None \<Rightarrow> (admin_error 400 ''invalid json'', w)
     | Some b \<Rightarrow>
         (case cs_FindByClientID (ap_Clients a) i w of
            Inl e \<Rightarrow> (lookup_error ''lookup failed'' e, w)
          | Inr existing \<Rightarrow> store_client a 200 (client_of_body (c_ClientID existing) b) w))"

definition getClient :: "'w admin_api \<Rightarrow> string \<Rightarrow> 'w \<Rightarrow> outcome" where
  "getClient a i w =
    (case cs_FindByClientID (ap_Clients a) i w of
       Inl e \<Rightarrow> lookup_error ''lookup failed'' e
     | Inr c \<Rightarrow> admin_json 200 (JObj (toClientView c @ text_json ''jwks_json'' (c_JWKSJSON c))))"

definition deleted :: "store_error option \<times> 'w \<Rightarrow> outcome \<times> 'w" where
  "deleted res =
    (case res of (Some e, w) \<Rightarrow> (lookup_error ''delete failed'' e, w) | (None, w) \<Rightarrow> (no_content, w))"

definition deleteClient :: "'w admin_api \<Rightarrow> string \<Rightarrow> 'w \<Rightarrow> outcome \<times> 'w" where
  "deleteClient a i w = deleted (cs_Delete (ap_Clients a) i w)"

definition listClients :: "'w admin_api \<Rightarrow> http_request \<Rightarrow> 'w \<Rightarrow> outcome" where
  "listClients a r w = paged_answer (\<lambda>c. JObj (toClientView c)) (pg_Clients (ap_Pages a) (parsePage r) w)"

text \<open>
  \<open>token.GenerateClientKeyPair\<close>: \<open>marshal\<close> is the text of a set of public keys (the jwk library).
\<close>

definition GenerateClientKeyPair ::
  "crypto \<Rightarrow> (jwk list \<Rightarrow> string option) \<Rightarrow> runtime \<Rightarrow> nat \<Rightarrow> (string \<times> string \<times> string) option" where
  "GenerateClientKeyPair cr marshal rt site =
    (case GenerateRSAKey rt site RSAKeyBits of
       None \<Rightarrow> None
     | Some priv \<Rightarrow>
         (case private_to_pem cr priv of
            None \<Rightarrow> None
          | Some pem \<Rightarrow>
              let kid = uuid_string cr (new_uuid rt site) in
              (case marshal [\<lparr>jwk_raw = rsa_public cr priv, jwk_kid = kid, jwk_alg = DefaultAlgorithm,
                              jwk_use = ''sig''\<rparr>] of
                 None \<Rightarrow> None
               | Some js \<Rightarrow> Some (kid, js, pem))))"

definition generateClientJWKS ::
  "crypto \<Rightarrow> (jwk list \<Rightarrow> string option) \<Rightarrow> runtime \<Rightarrow> outcome" where
  "generateClientJWKS cr marshal rt =
    (case GenerateClientKeyPair cr marshal rt 0 of
       None \<Rightarrow> admin_error 500 ''keygen failed''
     | Some (kid, js, pem) \<Rightarrow>
         admin_json 200 (JObj [(''kid'', JStr kid), (''jwks_json'', JStr js), (''private_key_pem'', JStr pem)]))"

subsection \<open>Scopes\<close>

definition empty_scope :: scope where
  "empty_scope = \<lparr>sc_Name = [], sc_DisplayName = [], sc_Description = [], sc_Required = False,
     sc_Emphasize = False, sc_Properties = []\<rparr>"

definition scope_fields :: "(string \<times> scope setter) list" where
  "scope_fields =
    [(''name'', set_str (\<lambda>x. sc_Name_update (\<lambda>_. x))),
     (''display_name'', set_str (\<lambda>x. sc_DisplayName_update (\<lambda>_. x))),
     (''description'', set_str (\<lambda>x. sc_Description_update (\<lambda>_. x))),
     (''required'', set_bool (\<lambda>x. sc_Required_update (\<lambda>_. x))),
     (''emphasize'', set_bool (\<lambda>x. sc_Emphasize_update (\<lambda>_. x))),
     (''properties'', set_strmap sc_Properties (\<lambda>x. sc_Properties_update (\<lambda>_. x)))]"

definition listScopes :: "'w admin_api \<Rightarrow> 'w \<Rightarrow> outcome" where
  "listScopes a w =
    (case scs_GetAll (ap_Scopes a) w of
       Inl e \<Rightarrow> admin_error 500 ''list failed''
     | Inr all_scopes \<Rightarrow> listing (map toScopeView all_scopes) (length all_scopes))"

definition store_scope :: "'w admin_api \<Rightarrow> nat \<Rightarrow> scope \<Rightarrow> 'w \<Rightarrow> outcome \<times> 'w" where
  "store_scope a status s w =
    (case scs_Store (ap_Scopes a) (Some s) w of
       (Some e, w1) \<Rightarrow> (admin_error 400 ''store failed'', w1)
     | (None, w1) \<Rightarrow> (admin_json status (toScopeView s), w1))"

definition createScope :: "'w admin_api \<Rightarrow> http_request \<Rightarrow> 'w \<Rightarrow> outcome \<times> 'w" where
  "createScope a r w =
    (case read_body scope_fields empty_scope r of
       None \<Rightarrow> (admin_error 400 ''invalid json'', w)
     | Some b \<Rightarrow>
         if sc_Name b = [] then (admin_error 400 ''name is required'', w) else store_scope a 201 b w)"

definition updateScope :: "'w admin_api \<Rightarrow> string \<Rightarrow> http_request \<Rightarrow> 'w \<Rightarrow> outcome \<times> 'w" where
  "updateScope a n r w =
    (case read_body scope_fields empty_scope r of
       None \<Rightarrow> (admin_error 400 ''invalid json'', w)
     | Some b \<Rightarrow>
         (case scs_FindByName (ap_Scopes a) n w of
            Inl e \<Rightarrow> (lookup_error ''lookup failed'' e, w)
          | Inr existing \<Rightarrow> store_scope a 200 (b\<lparr>sc_Name := sc_Name existing\<rparr>) w))"

definition deleteScope :: "'w admin_api \<Rightarrow> string \<Rightarrow> 'w \<Rightarrow> outcome \<times> 'w" where
  "deleteScope a n w = deleted (scs_Delete (ap_Scopes a) n w)"

subsection \<open>Sessions and refresh tokens\<close>

definition listSessions :: "crypto \<Rightarrow> 'w admin_api \<Rightarrow> http_request \<Rightarrow> 'w \<Rightarrow> outcome" where
  "listSessions cr a r w = paged_answer (toSessionView cr) (pg_Sessions (ap_Pages a) (parsePage r) w)"

text \<open>An error of the second revocation is logged and no more.\<close>

definition admin_revokeSession ::
  "crypto \<Rightarrow> runtime \<Rightarrow> 'w admin_api \<Rightarrow> string \<Rightarrow> 'w \<Rightarrow> outcome \<times> 'w" where
  "admin_revokeSession cr rt a i w =
    (case uuid_parse cr i of
       None \<Rightarrow> (admin_error 400 ''invalid id'', w)
     | Some sid \<Rightarrow>
         (case ss_Revoke (ap_Sessions a) sid (now rt 0) w of
            (Some e, w1) \<Rightarrow> (lookup_error ''revoke failed'' e, w1)
          | (None, w1) \<Rightarrow>
              (no_content, snd (rts_RevokeBySessionID (ap_RefreshTokens a) sid (now rt 0) w1))))"

definition listRefreshTokens :: "crypto \<Rightarrow> 'w admin_api \<Rightarrow> http_request \<Rightarrow> 'w \<Rightarrow> outcome" where
  "listRefreshTokens cr a r w =
    paged_answer (toRefreshTokenView cr) (pg_RefreshTokens (ap_Pages a) (parsePage r) w)"

definition revokeRefreshToken ::
  "crypto \<Rightarrow> runtime \<Rightarrow> 'w admin_api \<Rightarrow> string \<Rightarrow> 'w \<Rightarrow> outcome \<times> 'w" where
  "revokeRefreshToken cr rt a i w =
    (case uuid_parse cr i of
       None \<Rightarrow> (admin_error 400 ''invalid id'', w)
     | Some tid \<Rightarrow>
         (case rts_Revoke (ap_RefreshTokens a) tid (now rt 0) w of
            (Some e, w1) \<Rightarrow> (lookup_error ''revoke failed'' e, w1)
          | (None, w1) \<Rightarrow> (no_content, w1)))"

subsection \<open>Signing keys and the audit log\<close>

definition listSigningKeys :: "'w admin_api \<Rightarrow> 'w \<Rightarrow> outcome" where
  "listSigningKeys a w =
    (case sks_GetAll (ap_SigningKeys a) w of
       Inl e \<Rightarrow> admin_error 500 ''list failed''
     | Inr ks \<Rightarrow> listing (map toKeyView ks) (length ks))"

text \<open>The mutex of the handler makes the rotation one step.\<close>

definition rotateSigningKey :: "crypto \<Rightarrow> runtime \<Rightarrow> 'w admin_api \<Rightarrow> 'w \<Rightarrow> outcome \<times> 'w" where
  "rotateSigningKey cr rt a w =
    (case Rotate cr (ap_SigningKeys a) rt 0 w of
       (Inl e, w1) \<Rightarrow> (admin_error 500 ''rotate failed'', w1)
     | (Inr k, w1) \<Rightarrow> (admin_json 201 (toKeyView k), w1))"

definition listAuditLogs :: "crypto \<Rightarrow> 'w admin_api \<Rightarrow> http_request \<Rightarrow> 'w \<Rightarrow> outcome" where
  "listAuditLogs cr a r w =
    (if ap_AuditLogs a = None then Panicked
     else paged_answer (toAuditView cr) (pg_AuditLogs (ap_Pages a) (parsePage r) w))"

end
