(* ===== verification/Admin_Users.thy ===== *)
theory Admin_Users
  imports Admin_Resources
begin

section \<open>The admin API: users and roles (internal/admin/api.go)\<close>

subsection \<open>Users\<close>

definition listUsers :: "'w admin_api \<Rightarrow> http_request \<Rightarrow> 'w \<Rightarrow> outcome" where
  "listUsers a r w = paged_answer toUserView (pg_Users (ap_Pages a) (parsePage r) w)"

definition password_error_text :: "password_error \<Rightarrow> string" where
  "password_error_text e =
    (case e of
       PasswordTooShort \<Rightarrow> ''password must be at least 8 characters''
     | PasswordTooLong \<Rightarrow> ''password must be at most 72 bytes''
     | PasswordWhitespace \<Rightarrow> ''password must not be blank or start/end with whitespace'')"

record create_user_request =
  cu_ID :: string
  cu_Username :: string
  cu_Email :: string
  cu_Password :: string

definition create_user_fields :: "(string \<times> create_user_request setter) list" where
  "create_user_fields =
    [(''id'', set_str (\<lambda>x. cu_ID_update (\<lambda>_. x))), (''username'', set_str (\<lambda>x. cu_Username_update (\<lambda>_. x))),
     (''email'', set_str (\<lambda>x. cu_Email_update (\<lambda>_. x))), (''password'', set_str (\<lambda>x. cu_Password_update (\<lambda>_. x)))]"

definition new_user :: "string \<Rightarrow> string \<Rightarrow> string \<Rightarrow> time \<Rightarrow> user" where
  "new_user i username email t =
    \<lparr>u_ID = i, u_Username = username, u_Email = email, u_EmailConfirmed = False, u_PasswordHash = [],
     u_SecurityStamp = [], u_TwoFactorEnabled = False, u_LockoutEnd = None, u_LockoutEnabled = False,
     u_AccessFailedCount = 0, u_CreatedAt = t, u_UpdatedAt = t\<rparr>"

definition admin_createUser ::
  "crypto \<Rightarrow> runtime \<Rightarrow> 'w admin_api \<Rightarrow> http_request \<Rightarrow> 'w \<Rightarrow> outcome \<times> 'w" where
  "admin_createUser cr rt a r w =
    (case read_body create_user_fields \<lparr>cu_ID = [], cu_Username = [], cu_Email = [], cu_Password = []\<rparr> r of
       None \<Rightarrow> (admin_error 400 ''invalid json'', w)
     | Some b \<Rightarrow>
         (let i = trim_space (cu_ID b); username = trim_space (cu_Username b); email = trim_space (cu_Email b) in
          if username = [] \<or> cu_Password b = [] then (admin_error 400 ''username and password are required'', w)
          else case ValidatePassword (cu_Password b) of
            Some e \<Rightarrow> (admin_error 400 (password_error_text e), w)
          | None \<Rightarrow>
              (let u = new_user (if i = [] then uuid_string cr (new_uuid rt 0) else i) username email (now rt 0) in
               case us_CreateUser (ap_Users a) u (cu_Password b) w of
                 (Some e, w1) \<Rightarrow> (admin_error 400 ''create failed'', w1)
               | (None, w1) \<Rightarrow> (admin_json 201 (toUserView u), w1))))"

definition getUser :: "'w admin_api \<Rightarrow> string \<Rightarrow> 'w \<Rightarrow> outcome" where
  "getUser a i w =
    (case us_FindUserByID (ap_Users a) i w of
       Inl e \<Rightarrow> lookup_error ''lookup failed'' e
     | Inr u \<Rightarrow> admin_json 200 (toUserView u))"

record update_user_request =
  uu_Username :: string
  uu_Email :: string
  uu_EmailConfirmed :: bool
  uu_TwoFactorEnabled :: bool
  uu_LockoutEnd :: "time option"
  uu_LockoutEnabled :: bool
  uu_AccessFailedCount :: goint

definition update_user_fields :: "(string \<times> update_user_request setter) list" where
  "update_user_fields =
    [(''username'', set_str (\<lambda>x. uu_Username_update (\<lambda>_. x))),
     (''email'', set_str (\<lambda>x. uu_Email_update (\<lambda>_. x))),
     (''email_confirmed'', set_bool (\<lambda>x. uu_EmailConfirmed_update (\<lambda>_. x))),
     (''two_factor_enabled'', set_bool (\<lambda>x. uu_TwoFactorEnabled_update (\<lambda>_. x))),
     (''lockout_end'', set_time (\<lambda>x. uu_LockoutEnd_update (\<lambda>_. x))),
     (''lockout_enabled'', set_bool (\<lambda>x. uu_LockoutEnabled_update (\<lambda>_. x))),
     (''access_failed_count'', set_int (\<lambda>x. uu_AccessFailedCount_update (\<lambda>_. x)))]"

definition empty_update_user :: update_user_request where
  "empty_update_user = \<lparr>uu_Username = [], uu_Email = [], uu_EmailConfirmed = False,
     uu_TwoFactorEnabled = False, uu_LockoutEnd = None, uu_LockoutEnabled = False, uu_AccessFailedCount = 0\<rparr>"

definition save_user :: "'w admin_api \<Rightarrow> string \<Rightarrow> user \<Rightarrow> 'w \<Rightarrow> outcome \<times> 'w" where
  "save_user a msg u w =
    (case us_UpdateUser (ap_Users a) u w of
       (Some e, w1) \<Rightarrow> (admin_error 400 msg, w1)
     | (None, w1) \<Rightarrow> (admin_json 200 (toUserView u), w1))"

definition admin_updateUser ::
  "runtime \<Rightarrow> 'w admin_api \<Rightarrow> string \<Rightarrow> http_request \<Rightarrow> 'w \<Rightarrow> outcome \<times> 'w" where
  "admin_updateUser rt a i r w =
    (case read_body update_user_fields empty_update_user r of
       None \<Rightarrow> (admin_error 400 ''invalid json'', w)
     | Some b \<Rightarrow>
         (case us_FindUserByID (ap_Users a) i w of
            Inl e \<Rightarrow> (lookup_error ''lookup failed'' e, w)
          | Inr u \<Rightarrow> save_user a ''update failed''
              (u\<lparr>u_Username := uu_Username b, u_Email := uu_Email b,
                 u_EmailConfirmed := uu_EmailConfirmed b, u_TwoFactorEnabled := uu_TwoFactorEnabled b,
                 u_LockoutEnd := uu_LockoutEnd b, u_LockoutEnabled := uu_LockoutEnabled b,
                 u_AccessFailedCount := uu_AccessFailedCount b, u_UpdatedAt := now rt 0\<rparr>) w))"

definition unlockUser :: "runtime \<Rightarrow> 'w admin_api \<Rightarrow> string \<Rightarrow> 'w \<Rightarrow> outcome \<times> 'w" where
  "unlockUser rt a i w =
    (case us_FindUserByID (ap_Users a) i w of
       Inl e \<Rightarrow> (lookup_error ''lookup failed'' e, w)
     | Inr u \<Rightarrow> save_user a ''unlock failed''
         (u\<lparr>u_LockoutEnd := None, u_AccessFailedCount := 0, u_UpdatedAt := now rt 0\<rparr>) w)"

text \<open>Sessions, tokens and reset links go first; any error stops before the account goes.\<close>

definition admin_deleteUser :: "runtime \<Rightarrow> 'w admin_api \<Rightarrow> string \<Rightarrow> 'w \<Rightarrow> outcome \<times> 'w" where
  "admin_deleteUser rt a i w =
    (case ss_RevokeByUserIDExcept (ap_Sessions a) i uuid_nil (now rt 0) w of
       (Inl e, w1) \<Rightarrow> (admin_error 500 ''revoking sessions failed'', w1)
     | (Inr sids, w1) \<Rightarrow>
         (case revoke_tokens (ap_RefreshTokens a) (now rt 0) sids w1 of
            (False, w2) \<Rightarrow> (admin_error 500 ''revoking refresh tokens failed'', w2)
          | (True, w2) \<Rightarrow>
              (case (case ap_PasswordResets a of None \<Rightarrow> (None, w2)
                     | Some st \<Rightarrow> prs_InvalidateForUser st i (now rt 0) w2) of
                 (Some e, w3) \<Rightarrow> (admin_error 500 ''invalidating reset tokens failed'', w3)
               | (None, w3) \<Rightarrow> deleted (us_DeleteUser (ap_Users a) i w3))))"

subsection \<open>Claims, roles and logins of a user\<close>

definition getUserClaims :: "'w admin_api \<Rightarrow> string \<Rightarrow> 'w \<Rightarrow> outcome" where
  "getUserClaims a i w =
    (case ud_GetUserClaims (ap_Directory a) i w of
       Inl e \<Rightarrow> lookup_error ''lookup failed'' e
     | Inr cs \<Rightarrow> admin_json 200 (JObj [(''claims'', JArr (map claim_json cs))]))"

definition claim_fields :: "(string \<times> user_claim setter) list" where
  "claim_fields = [(''Type'', set_str (\<lambda>x. uc_Type_update (\<lambda>_. x))),
     (''Value'', set_str (\<lambda>x. uc_Value_update (\<lambda>_. x)))]"

definition claims_fields :: "(string \<times> user_claim list setter) list" where
  "claims_fields = [(''claims'', set_list (read_struct claim_fields) \<lparr>uc_Type = [], uc_Value = []\<rparr>
     (\<lambda>cs. cs) (\<lambda>cs _. cs))]"

definition updated :: "store_error option \<times> 'w \<Rightarrow> outcome \<times> 'w" where
  "updated res =
    (case res of (Some e, w) \<Rightarrow> (lookup_error ''update failed'' e, w) | (None, w) \<Rightarrow> (no_content, w))"

definition setUserClaims :: "'w admin_api \<Rightarrow> string \<Rightarrow> http_request \<Rightarrow> 'w \<Rightarrow> outcome \<times> 'w" where
  "setUserClaims a i r w =
    (case read_body claims_fields [] r of
       None \<Rightarrow> (admin_error 400 ''invalid json'', w)
     | Some cs \<Rightarrow> updated (ud_ReplaceUserClaims (ap_Directory a) i cs w))"

definition getUserRoles :: "'w admin_api \<Rightarrow> string \<Rightarrow> 'w \<Rightarrow> outcome" where
  "getUserRoles a i w =
    (case us_GetUserRoles (ap_Users a) i w of
       Inl e \<Rightarrow> lookup_error ''lookup failed'' e
     | Inr rs \<Rightarrow> admin_json 200 (JObj [(''roles'', strs_json rs)]))"

definition roles_fields :: "(string \<times> string list setter) list" where
  "roles_fields = [(''roles'', set_strs (\<lambda>rs. rs) (\<lambda>rs _. rs))]"

definition remove_roles ::
  "'w admin_api \<Rightarrow> string \<Rightarrow> string list \<Rightarrow> 'w \<Rightarrow> store_error option \<times> 'w" where
  "remove_roles a i names w = (if names = [] then (None, w) else ud_RemoveFromRoles (ap_Directory a) i names w)"

definition add_roles_to ::
  "'w admin_api \<Rightarrow> string \<Rightarrow> string list \<Rightarrow> 'w \<Rightarrow> store_error option \<times> 'w" where
  "add_roles_to a i names w = (if names = [] then (None, w) else ud_AddToRoles (ap_Directory a) i names w)"

definition setUserRoles :: "'w admin_api \<Rightarrow> string \<Rightarrow> http_request \<Rightarrow> 'w \<Rightarrow> outcome \<times> 'w" where
  "setUserRoles a i r w =
    (case read_body roles_fields [] r of
       None \<Rightarrow> (admin_error 400 ''invalid json'', w)
     | Some wanted \<Rightarrow>
         (case us_GetUserRoles (ap_Users a) i w of
            Inl e \<Rightarrow> (lookup_error ''lookup failed'' e, w)
          | Inr existing \<Rightarrow>
              (case remove_roles a i (filter (\<lambda>x. \<not> containsString wanted x) existing) w of
                 (Some e, w1) \<Rightarrow> (admin_error 500 ''remove roles failed'', w1)
               | (None, w1) \<Rightarrow>
                   (case add_roles_to a i (filter (\<lambda>x. \<not> containsString existing x) wanted) w1 of
                      (Some e, w2) \<Rightarrow> (admin_error 500 ''add roles failed'', w2)
                    | (None, w2) \<Rightarrow> (no_content, w2)))))"

definition getUserLogins :: "'w admin_api \<Rightarrow> string \<Rightarrow> 'w \<Rightarrow> outcome" where
  "getUserLogins a i w =
    (case ud_GetUserLogins (ap_Directory a) i w of
       Inl e \<Rightarrow> lookup_error ''lookup failed'' e
     | Inr ls \<Rightarrow> admin_json 200 (JObj [(''logins'', JArr (map login_json ls))]))"

definition removeUserLogin ::
  "'w admin_api \<Rightarrow> string \<Rightarrow> string \<Rightarrow> string \<Rightarrow> 'w \<Rightarrow> outcome \<times> 'w" where
  "removeUserLogin a i provider key w = deleted (ud_RemoveLogin (ap_Directory a) i provider key w)"

subsection \<open>Setting a password\<close>

text \<open>Cleanup after a password change: every step runs, and whether one failed is remembered.\<close>

fun revoke_noting :: "'w refresh_token_store \<Rightarrow> time \<Rightarrow> uuid list \<Rightarrow> 'w \<Rightarrow> bool \<times> 'w" where
  "revoke_noting st t [] w = (False, w)"
| "revoke_noting st t (i # is) w =
    (case rts_RevokeBySessionID st i t w of
       (e, w1) \<Rightarrow> (case revoke_noting st t is w1 of (f, w2) \<Rightarrow> (e \<noteq> None \<or> f, w2)))"

definition stamp_user ::
  "crypto \<Rightarrow> runtime \<Rightarrow> 'w admin_api \<Rightarrow> string \<Rightarrow> 'w \<Rightarrow> bool \<times> 'w" where
  "stamp_user cr rt a i w =
    (case us_FindUserByID (ap_Users a) i w of
       Inl e \<Rightarrow> (True, w)
     | Inr u \<Rightarrow>
         (case us_UpdateUser (ap_Users a)
             (u\<lparr>u_SecurityStamp := uuid_string cr (new_uuid rt 0), u_UpdatedAt := now rt 0\<rparr>) w of
            (e, w1) \<Rightarrow> (e \<noteq> None, w1)))"

definition password_cleanup ::
  "crypto \<Rightarrow> runtime \<Rightarrow> 'w admin_api \<Rightarrow> string \<Rightarrow> 'w \<Rightarrow> (bool \<times> nat) \<times> 'w" where
  "password_cleanup cr rt a i w =
    (let (f1, w1) = stamp_user cr rt a i w;
         (e2, w2) = (case ap_PasswordResets a of None \<Rightarrow> (None, w1)
                     | Some st \<Rightarrow> prs_InvalidateForUser st i (now rt 0) w1);
         (res, w3) = ss_RevokeByUserIDExcept (ap_Sessions a) i uuid_nil (now rt 0) w2;
         (f3, revoked) = (case res of Inl e \<Rightarrow> (True, []) | Inr ids \<Rightarrow> (False, ids));
         (f4, w4) = revoke_noting (ap_RefreshTokens a) (now rt 0) revoked w3
     in ((f1 \<or> e2 \<noteq> None \<or> f3 \<or> f4, length revoked), w4))"

definition auditPasswordSet ::
  "runtime \<Rightarrow> 'w admin_api \<Rightarrow> admin_context \<Rightarrow> http_request \<Rightarrow> string \<Rightarrow> nat \<Rightarrow> 'w \<Rightarrow> 'w" where
  "auditPasswordSet rt a ctx r i revoked w =
    write_audit (ap_AuditLogs a)
      (audit_entry (new_uuid rt 1) (now rt 1) ''admin_password_set'' (ax_Actor ctx) ''User'' i
         (''{\"sessions_revoked\":'' @ itoa revoked @ ''}'') (source_ip (ap_ClientIP a) r) r) w"

definition setUserPassword ::
  "crypto \<Rightarrow> runtime \<Rightarrow> 'w admin_api \<Rightarrow> string \<Rightarrow> admin_context \<Rightarrow> http_request \<Rightarrow> 'w \<Rightarrow> outcome \<times> 'w" where
  "setUserPassword cr rt a i ctx r w =
    (case read_body [(''password'', set_str (\<lambda>x _. x))] [] r of
       None \<Rightarrow> (admin_error 400 ''invalid json'', w)
     | Some password \<Rightarrow>
         if password = [] then (admin_error 400 ''password is required'', w)
         else (case ValidatePassword password of
             Some e \<Rightarrow> (admin_error 400 (password_error_text e), w)
           | None \<Rightarrow>
               (case us_SetPassword (ap_Users a) i password w of
                  (Some e, w1) \<Rightarrow> (lookup_error ''update failed'' e, w1)
                | (None, w1) \<Rightarrow>
                    (let ((failed, revoked), w2) = password_cleanup cr rt a i w1;
                         w3 = auditPasswordSet rt a ctx r i revoked w2
                     in if failed then (admin_error 500
                          ''password changed, but revoking existing sessions failed; revoke them manually'', w3)
                        else (admin_json 200 (JObj [(''sessions_revoked'', JNum (int revoked))]), w3)))))"

subsection \<open>Roles\<close>

definition listRoles :: "'w admin_api \<Rightarrow> 'w \<Rightarrow> outcome" where
  "listRoles a w =
    (case ros_GetAllRoles (ap_Roles a) w of
       Inl e \<Rightarrow> admin_error 500 ''list failed''
     | Inr rs \<Rightarrow> listing (map roleView rs) (length rs))"

definition role_fields :: "(string \<times> role setter) list" where
  "role_fields = [(''id'', set_str (\<lambda>x. r_ID_update (\<lambda>_. x))), (''name'', set_str (\<lambda>x. r_Name_update (\<lambda>_. x)))]"

definition createRole :: "crypto \<Rightarrow> runtime \<Rightarrow> 'w admin_api \<Rightarrow> http_request \<Rightarrow> 'w \<Rightarrow> outcome \<times> 'w" where
  "createRole cr rt a r w =
    (case read_body role_fields \<lparr>r_ID = [], r_Name = []\<rparr> r of
       None \<Rightarrow> (admin_error 400 ''invalid json'', w)
     | Some b \<Rightarrow>
         (let i = trim_space (r_ID b); name = trim_space (r_Name b) in
          if name = [] then (admin_error 400 ''name is required'', w)
          else let ro = \<lparr>r_ID = (if i = [] then uuid_string cr (new_uuid rt 0) else i), r_Name = name\<rparr> in
            case ros_CreateRole (ap_Roles a) ro w of
              (Some e, w1) \<Rightarrow> (admin_error 400 ''create failed'', w1)
            | (None, w1) \<Rightarrow> (admin_json 201 (roleView ro), w1)))"

definition updateRole :: "'w admin_api \<Rightarrow> string \<Rightarrow> http_request \<Rightarrow> 'w \<Rightarrow> outcome \<times> 'w" where
  "updateRole a i r w =
    (case read_body role_fields \<lparr>r_ID = [], r_Name = []\<rparr> r of
       None \<Rightarrow> (admin_error 400 ''invalid json'', w)
     | Some b \<Rightarrow>
         (case ros_FindRoleByID (ap_Roles a) i w of
            Inl e \<Rightarrow> (lookup_error ''lookup failed'' e, w)
          | Inr existing \<Rightarrow>
              (let ro = existing\<lparr>r_Name := r_Name b\<rparr> in
               case ros_UpdateRole (ap_Roles a) ro w of
                 (Some e, w1) \<Rightarrow> (admin_error 400 ''update failed'', w1)
               | (None, w1) \<Rightarrow> (admin_json 200 (roleView ro), w1))))"

definition deleteRole :: "'w admin_api \<Rightarrow> string \<Rightarrow> 'w \<Rightarrow> outcome \<times> 'w" where
  "deleteRole a i w = deleted (ros_DeleteRole (ap_Roles a) i w)"

definition getRoleClaims :: "'w admin_api \<Rightarrow> string \<Rightarrow> 'w \<Rightarrow> outcome" where
  "getRoleClaims a i w =
    (case ros_GetRoleClaims (ap_Roles a) i w of
       Inl e \<Rightarrow> lookup_error ''lookup failed'' e
     | Inr cs \<Rightarrow> admin_json 200 (JObj [(''claims'', JArr (map claim_json cs))]))"

definition setRoleClaims :: "'w admin_api \<Rightarrow> string \<Rightarrow> http_request \<Rightarrow> 'w \<Rightarrow> outcome \<times> 'w" where
  "setRoleClaims a i r w =
    (case read_body claims_fields [] r of
       None \<Rightarrow> (admin_error 400 ''invalid json'', w)
     | Some cs \<Rightarrow> updated (ros_ReplaceRoleClaims (ap_Roles a) i cs w))"

end
