(* ===== verification/Admin_Api.thy ===== *)
theory Admin_Api
  imports Admin_Users
begin

section \<open>The admin API: routes and instances\<close>

text \<open>
  \<open>API.Mount\<close> as a table of routes, the standard library's \<open>ServeMux\<close> over it, and the chain that
  cmd/authserver builds: authorization, then the CSRF check, then the routes. The path is the list
  of its decoded segments after \<open>/admin\<close>, without the redirects that \<open>ServeMux\<close> sends for a path
  that is not clean. A \<open>GET\<close> route also serves \<open>HEAD\<close>.
\<close>

datatype segment = Lit string | Wild

text \<open>The values of the wildcards, \<open>None\<close> where the path does not match. A wildcard takes a segment that is not empty.\<close>

fun match_path :: "segment list \<Rightarrow> string list \<Rightarrow> string list option" where
  "match_path [] [] = Some []"
| "match_path (Lit s # ps) (x # xs) = (if s = x then match_path ps xs else None)"
| "match_path (Wild # ps) (x # xs) = (if x = [] then None else map_option ((#) x) (match_path ps xs))"
| "match_path [] (x # xs) = None"
| "match_path (p # ps) [] = None"

record 'w route =
  ro_Method :: string
  ro_Pattern :: "segment list"
  ro_Handler :: "string list \<Rightarrow> 'w admin_next"

definition api_route :: "string \<Rightarrow> segment list \<Rightarrow> (string list \<Rightarrow> 'w admin_next) \<Rightarrow> 'w route" where
  "api_route m ps h = \<lparr>ro_Method = m, ro_Pattern = Lit ''api'' # ps, ro_Handler = h\<rparr>"

text \<open>Handlers that only read, and the wildcards by position.\<close>

definition reads :: "(string list \<Rightarrow> http_request \<Rightarrow> 'w \<Rightarrow> outcome) \<Rightarrow> string list \<Rightarrow> 'w admin_next" where
  "reads h vs ctx r w = (h vs r w, w)"

definition arg :: "string list \<Rightarrow> nat \<Rightarrow> string" where
  "arg vs n = (if n < length vs then vs ! n else [])"

definition client_routes :: "crypto \<Rightarrow> (jwk list \<Rightarrow> string option) \<Rightarrow> runtime \<Rightarrow> 'w admin_api \<Rightarrow> 'w route list" where
  "client_routes cr marshal rt a =
    [api_route ''GET'' [Lit ''clients''] (reads (\<lambda>vs r. listClients a r)),
     api_route ''POST'' [Lit ''clients''] (\<lambda>vs ctx r. createClient a r),
     api_route ''POST'' [Lit ''clients'', Lit ''generate-jwks''] (reads (\<lambda>vs r w. generateClientJWKS cr marshal rt)),
     api_route ''GET'' [Lit ''clients'', Wild] (reads (\<lambda>vs r. getClient a (arg vs 0))),
     api_route ''PUT'' [Lit ''clients'', Wild] (\<lambda>vs ctx r. updateClient a (arg vs 0) r),
     api_route ''DELETE'' [Lit ''clients'', Wild] (\<lambda>vs ctx r. deleteClient a (arg vs 0)),
     api_route ''GET'' [Lit ''scopes''] (reads (\<lambda>vs r. listScopes a)),
     api_route ''POST'' [Lit ''scopes''] (\<lambda>vs ctx r. createScope a r),
     api_route ''PUT'' [Lit ''scopes'', Wild] (\<lambda>vs ctx r. updateScope a (arg vs 0) r),
     api_route ''DELETE'' [Lit ''scopes'', Wild] (\<lambda>vs ctx r. deleteScope a (arg vs 0))]"

definition token_routes :: "crypto \<Rightarrow> runtime \<Rightarrow> 'w admin_api \<Rightarrow> 'w route list" where
  "token_routes cr rt a =
    [api_route ''GET'' [Lit ''sessions''] (reads (\<lambda>vs r. listSessions cr a r)),
     api_route ''POST'' [Lit ''sessions'', Wild, Lit ''revoke''] (\<lambda>vs ctx r. admin_revokeSession cr rt a (arg vs 0)),
     api_route ''GET'' [Lit ''refresh-tokens''] (reads (\<lambda>vs r. listRefreshTokens cr a r)),
     api_route ''POST'' [Lit ''refresh-tokens'', Wild, Lit ''revoke''] (\<lambda>vs ctx r. revokeRefreshToken cr rt a (arg vs 0)),
     api_route ''GET'' [Lit ''keys''] (reads (\<lambda>vs r. listSigningKeys a)),
     api_route ''POST'' [Lit ''keys'', Lit ''rotate''] (\<lambda>vs ctx r. rotateSigningKey cr rt a),
     api_route ''GET'' [Lit ''audit''] (reads (\<lambda>vs r. listAuditLogs cr a r))]"

definition user_routes :: "crypto \<Rightarrow> runtime \<Rightarrow> 'w admin_api \<Rightarrow> 'w route list" where
  "user_routes cr rt a =
    [api_route ''GET'' [Lit ''users''] (reads (\<lambda>vs r. listUsers a r)),
     api_route ''POST'' [Lit ''users''] (\<lambda>vs ctx r. admin_createUser cr rt a r),
     api_route ''GET'' [Lit ''users'', Wild] (reads (\<lambda>vs r. getUser a (arg vs 0))),
     api_route ''PUT'' [Lit ''users'', Wild] (\<lambda>vs ctx r. admin_updateUser rt a (arg vs 0) r),
     api_route ''DELETE'' [Lit ''users'', Wild] (\<lambda>vs ctx r. admin_deleteUser rt a (arg vs 0)),
     api_route ''POST'' [Lit ''users'', Wild, Lit ''unlock''] (\<lambda>vs ctx r. unlockUser rt a (arg vs 0)),
     api_route ''GET'' [Lit ''users'', Wild, Lit ''claims''] (reads (\<lambda>vs r. getUserClaims a (arg vs 0))),
     api_route ''PUT'' [Lit ''users'', Wild, Lit ''claims''] (\<lambda>vs ctx r. setUserClaims a (arg vs 0) r),
     api_route ''GET'' [Lit ''users'', Wild, Lit ''roles''] (reads (\<lambda>vs r. getUserRoles a (arg vs 0))),
     api_route ''PUT'' [Lit ''users'', Wild, Lit ''roles''] (\<lambda>vs ctx r. setUserRoles a (arg vs 0) r),
     api_route ''GET'' [Lit ''users'', Wild, Lit ''logins''] (reads (\<lambda>vs r. getUserLogins a (arg vs 0))),
     api_route ''DELETE'' [Lit ''users'', Wild, Lit ''logins'', Wild, Wild]
       (\<lambda>vs ctx r. removeUserLogin a (arg vs 0) (arg vs 1) (arg vs 2)),
     api_route ''POST'' [Lit ''users'', Wild, Lit ''password''] (\<lambda>vs ctx r. setUserPassword cr rt a (arg vs 0) ctx r),
     api_route ''GET'' [Lit ''roles''] (reads (\<lambda>vs r. listRoles a)),
     api_route ''POST'' [Lit ''roles''] (\<lambda>vs ctx r. createRole cr rt a r),
     api_route ''PUT'' [Lit ''roles'', Wild] (\<lambda>vs ctx r. updateRole a (arg vs 0) r),
     api_route ''DELETE'' [Lit ''roles'', Wild] (\<lambda>vs ctx r. deleteRole a (arg vs 0)),
     api_route ''GET'' [Lit ''roles'', Wild, Lit ''claims''] (reads (\<lambda>vs r. getRoleClaims a (arg vs 0))),
     api_route ''PUT'' [Lit ''roles'', Wild, Lit ''claims''] (\<lambda>vs ctx r. setRoleClaims a (arg vs 0) r)]"

definition admin_routes :: "crypto \<Rightarrow> (jwk list \<Rightarrow> string option) \<Rightarrow> runtime \<Rightarrow> 'w admin_api \<Rightarrow> 'w route list" where
  "admin_routes cr marshal rt a = client_routes cr marshal rt a @ token_routes cr rt a @ user_routes cr rt a"

definition route_serves :: "string \<Rightarrow> string list \<Rightarrow> 'w route \<Rightarrow> bool" where
  "route_serves m path ro \<longleftrightarrow>
    (ro_Method ro = m \<or> ro_Method ro = ''GET'' \<and> m = ''HEAD'') \<and> match_path (ro_Pattern ro) path \<noteq> None"

definition serve_mux :: "'w route list \<Rightarrow> string list \<Rightarrow> 'w admin_next" where
  "serve_mux routes path ctx r w =
    (case find (route_serves (req_Method r) path) routes of
       Some ro \<Rightarrow> ro_Handler ro (the (match_path (ro_Pattern ro) path)) ctx r w
     | None \<Rightarrow>
         (Response (plain_response
            (if list_ex (\<lambda>ro. match_path (ro_Pattern ro) path \<noteq> None) routes then 405 else 404)), w))"

definition admin_serve ::
  "crypto \<Rightarrow> cookie_lib \<Rightarrow> (jwk list \<Rightarrow> string option) \<Rightarrow> runtime \<Rightarrow> time \<Rightarrow> 'w auth_config \<Rightarrow> 'w admin_api
    \<Rightarrow> string list \<Rightarrow> http_request \<Rightarrow> 'w \<Rightarrow> outcome \<times> 'w" where
  "admin_serve cr lib marshal rt t cfg a path r w =
    AuthMiddleware cr lib t cfg (CSRFMiddleware (serve_mux (admin_routes cr marshal rt a) path)) r w"

subsection \<open>The order of the routes does not matter\<close>

text \<open>No two routes serve the same request, so the first that does is the only one.\<close>

fun overlap :: "segment list \<Rightarrow> segment list \<Rightarrow> bool" where
  "overlap [] [] = True"
| "overlap (Lit s # ps) (Lit t # qs) = (s = t \<and> overlap ps qs)"
| "overlap (Lit s # ps) (Wild # qs) = overlap ps qs"
| "overlap (Wild # ps) (Lit s # qs) = overlap ps qs"
| "overlap (Wild # ps) (Wild # qs) = overlap ps qs"
| "overlap [] (q # qs) = False"
| "overlap (p # ps) [] = False"

lemma match_overlap: "match_path ps xs \<noteq> None \<Longrightarrow> match_path qs xs \<noteq> None \<Longrightarrow> overlap ps qs"
proof (induction ps qs arbitrary: xs rule: overlap.induct)
  case (2 s ps t qs)
  then show ?case by (cases xs) (auto split: if_splits)
next
  case (3 s ps qs)
  then show ?case by (cases xs) (auto split: if_splits)
next
  case (4 ps s qs)
  then show ?case by (cases xs) (auto split: if_splits)
next
  case (5 ps qs)
  then show ?case by (cases xs) (auto split: if_splits)
next
  case (6 q qs)
  then show ?case by (cases xs; cases q) auto
next
  case (7 p ps)
  then show ?case by (cases xs; cases p) auto
qed simp

definition route_keys :: "'w route list \<Rightarrow> (string \<times> segment list) list" where
  "route_keys routes = map (\<lambda>ro. (ro_Method ro, ro_Pattern ro)) routes"

fun no_overlap :: "(string \<times> segment list) list \<Rightarrow> bool" where
  "no_overlap [] = True"
| "no_overlap ((m, ps) # rs) =
    (list_all (\<lambda>(n, qs). n \<noteq> m \<or> \<not> overlap ps qs) rs \<and> no_overlap rs)"

lemma admin_routes_disjoint: "no_overlap (route_keys (admin_routes cr marshal rt a))"
  by (simp add: route_keys_def admin_routes_def client_routes_def token_routes_def user_routes_def api_route_def)

lemma admin_methods: "ro \<in> set (admin_routes cr marshal rt a) \<Longrightarrow>
    ro_Method ro \<in> {''GET'', ''POST'', ''PUT'', ''DELETE''}"
  by (auto simp: admin_routes_def client_routes_def token_routes_def user_routes_def api_route_def)

text \<open>The routes of unsafe methods are the only ones that change anything.\<close>

definition read_only :: "'w route \<Rightarrow> bool" where
  "read_only ro \<longleftrightarrow> (\<forall>vs ctx r w. snd (ro_Handler ro vs ctx r w) = w)"

lemma get_routes_read: "ro \<in> set (admin_routes cr marshal rt a) \<Longrightarrow> ro_Method ro = ''GET'' \<Longrightarrow> read_only ro"
  by (auto simp: admin_routes_def client_routes_def token_routes_def user_routes_def api_route_def read_only_def
      reads_def)

lemma serve_mux_reads:
  assumes "safe_method (req_Method r)"
  shows "snd (serve_mux (admin_routes cr marshal rt a) path ctx r w) = w"
proof (cases "find (route_serves (req_Method r) path) (admin_routes cr marshal rt a)")
  case (Some ro)
  then have ro: "ro \<in> set (admin_routes cr marshal rt a)" "route_serves (req_Method r) path ro"
    by (auto dest: find_Some_set)
  then have "ro_Method ro = ''GET''"
    using assms admin_methods [OF ro(1)] by (auto simp: safe_method_def route_serves_def)
  with get_routes_read [OF ro(1)] Some show ?thesis by (simp add: serve_mux_def read_only_def)
qed (simp add: serve_mux_def)

subsection \<open>The API on the memory stores\<close>

abbreviation on_roles where "on_roles \<equiv> zoom w_roles (\<lambda>s. w_roles_update (\<lambda>_. s))"

definition mem_pages :: "world paged_stores" where
  "mem_pages =
    \<lparr>pg_Clients = \<lambda>p w. map_option Inr (client_GetPaged p (w_clients w)),
     pg_Sessions = \<lambda>p w. map_option Inr (session_GetPaged p (w_sessions w)),
     pg_RefreshTokens = \<lambda>p w. map_option Inr (refresh_GetPaged p (w_refresh w)),
     pg_AuditLogs = \<lambda>p w. map_option Inr (audit_GetPaged p (w_audit w)),
     pg_Users = \<lambda>p w. map_option Inr (user_GetPagedUsers p (w_users w))\<rparr>"

definition mem_directory :: "world user_directory" where
  "mem_directory =
    \<lparr>ud_GetUserClaims = \<lambda>i w. user_GetUserClaims i (w_users w),
     ud_ReplaceUserClaims = \<lambda>i cs. on_users (user_ReplaceUserClaims i cs),
     ud_AddToRoles = \<lambda>i ns. on_users (user_AddToRoles i ns),
     ud_RemoveFromRoles = \<lambda>i ns. on_users (user_RemoveFromRoles i ns),
     ud_GetUserLogins = \<lambda>i w. user_GetUserLogins i (w_users w),
     ud_RemoveLogin = \<lambda>i p k. on_users (user_RemoveLogin i p k)\<rparr>"

definition mem_roles :: "world role_store" where
  "mem_roles =
    \<lparr>ros_CreateRole = \<lambda>ro. on_roles (role_CreateRole ro),
     ros_DeleteRole = \<lambda>i. on_roles (role_DeleteRole i),
     ros_FindRoleByID = \<lambda>i w. role_FindRoleByID i (w_roles w),
     ros_GetAllRoles = \<lambda>w. role_GetAllRoles (w_roles w),
     ros_UpdateRole = \<lambda>ro. on_roles (role_UpdateRole ro),
     ros_GetRoleClaims = \<lambda>i w. role_GetRoleClaims i (w_roles w),
     ros_ReplaceRoleClaims = \<lambda>i cs. on_roles (role_ReplaceRoleClaims i cs)\<rparr>"

definition mem_admin_api :: "crypto \<Rightarrow> runtime \<Rightarrow> (http_request \<Rightarrow> string) option \<Rightarrow> world admin_api" where
  "mem_admin_api cr rt ip =
    \<lparr>ap_Clients = mem_clients, ap_Scopes = mem_scopes, ap_Sessions = mem_sessions,
     ap_RefreshTokens = mem_refresh_tokens, ap_SigningKeys = mem_signing_keys,
     ap_AuditLogs = Some mem_audit_logs, ap_Users = mem_users cr rt, ap_Directory = mem_directory,
     ap_Roles = mem_roles, ap_Pages = mem_pages, ap_PasswordResets = Some mem_resets, ap_ClientIP = ip\<rparr>"

lemma mem_admin_api_simps [simp]:
  "ap_Clients (mem_admin_api cr rt ip) = mem_clients" "ap_Scopes (mem_admin_api cr rt ip) = mem_scopes"
  "ap_Sessions (mem_admin_api cr rt ip) = mem_sessions"
  "ap_RefreshTokens (mem_admin_api cr rt ip) = mem_refresh_tokens"
  "ap_SigningKeys (mem_admin_api cr rt ip) = mem_signing_keys"
  "ap_AuditLogs (mem_admin_api cr rt ip) = Some mem_audit_logs"
  "ap_Users (mem_admin_api cr rt ip) = mem_users cr rt" "ap_Directory (mem_admin_api cr rt ip) = mem_directory"
  "ap_Roles (mem_admin_api cr rt ip) = mem_roles" "ap_Pages (mem_admin_api cr rt ip) = mem_pages"
  "ap_PasswordResets (mem_admin_api cr rt ip) = Some mem_resets" "ap_ClientIP (mem_admin_api cr rt ip) = ip"
  by (simp_all add: mem_admin_api_def)

end
