(* ===== verification/Server.thy ===== *)
theory Server
  imports Router Config Admin_Api Token_Endpoint Login Logout Account
begin

section \<open>The server as it is put together (cmd/authserver/main.go)\<close>

text \<open>
  \<open>run\<close> builds every handler from a configuration and the bundle of stores, and the router from
  the handlers. The bundle is one record of the interfaces; which stores fill it is left open, so
  that the server runs on the memory stores and on the database alike. A request brings its own
  \<open>runtime\<close>, which is why the bundle depends on one: the user store salts the password it hashes
  and the tracker reads its clock. The mailer is a parameter: what handing over a message does.
\<close>

record 'w store_bundle =
  sb_Clients :: "'w client_store"
  sb_AuthCodes :: "'w auth_code_store"
  sb_RefreshTokens :: "'w refresh_token_store"
  sb_Sessions :: "'w session_store"
  sb_SigningKeys :: "'w signing_key_store"
  sb_DataProtection :: "'w data_protection_store"
  sb_Scopes :: "'w scope_store"
  sb_AuditLogs :: "'w audit_log_store"
  sb_Users :: "'w user_store"
  sb_Directory :: "'w user_directory"
  sb_Roles :: "'w role_store"
  sb_Pages :: "'w paged_stores"
  sb_Tracker :: "'w login_attempt_tracker"
  sb_PasswordResets :: "'w password_reset_store"
  sb_Assertions :: "'w assertion_cache"

text \<open>What comes from outside the repository, and the keys read at the start.\<close>

record ('l, 'w) environment_of_server =
  ev_crypto :: crypto
  ev_cookies :: cookie_lib
  ev_marshal :: "jwk list \<Rightarrow> string option"
  ev_rate :: "'l rate_lib"
  ev_real_ip :: "http_request \<Rightarrow> http_request"
  ev_mailer :: "mail_message \<Rightarrow> 'w \<Rightarrow> 'w"
  ev_keys :: "dp_pair list"

subsection \<open>Shared parts\<close>

definition wire_issuer :: "config \<Rightarrow> 'w store_bundle \<Rightarrow> 'w issuer" where
  "wire_issuer cfg b = (NewIssuer (cf_Issuer cfg) (sb_SigningKeys b))
     \<lparr>iss_DefaultAccessTokenLifetime := cf_AccessTokenLifetime cfg, iss_DefaultIDTokenLifetime := cf_IDTokenLifetime cfg\<rparr>"

definition wire_cookies :: "config \<Rightarrow> dp_pair list \<Rightarrow> cookie_manager" where
  "wire_cookies cfg keys =
    \<lparr>cm_codecs = keys, cm_Name = EffectiveCookieName cfg, cm_RequireHTTPS = cf_RequireHTTPS cfg, cm_Path = ''/'',
     cm_MaxAge = 8 * hour\<rparr>"

definition wire_resolver :: "config \<Rightarrow> dp_pair list \<Rightarrow> 'w store_bundle \<Rightarrow> 'w session_resolver" where
  "wire_resolver cfg keys b = \<lparr>sr_Cookies = wire_cookies cfg keys, sr_Sessions = sb_Sessions b\<rparr>"

definition wire_client_auth :: "config \<Rightarrow> 'w store_bundle \<Rightarrow> 'w client_auth_config" where
  "wire_client_auth cfg b =
    \<lparr>cac_IssuerURL = cf_Issuer cfg, cac_TokenEndpointURL = cf_Issuer cfg @ ''/connect/token'',
     cac_AssertionCache = Some (sb_Assertions b), cac_AssertionSkew = cf_ClientAssertionClockSkew cfg, cac_HasClock = True\<rparr>"

subsection \<open>Browser endpoints\<close>

definition wire_profile :: "config \<Rightarrow> 'w store_bundle \<Rightarrow> 'w profile_handler" where
  "wire_profile cfg b =
    \<lparr>pf_Cfg = \<lparr>pfc_BasePath = ''/api/account/profile'', pfc_RequireHTTPS = cf_RequireHTTPS cfg\<rparr>,
     pf_Users = sb_Users b, pf_Sessions = sb_Sessions b, pf_RefreshTokens = sb_RefreshTokens b,
     pf_AuditLogs = Some (sb_AuditLogs b), pf_Tracker = Some (sb_Tracker b), pf_ClientIP = Some ClientIP\<rparr>"

definition wire_forgot :: "config \<Rightarrow> 'w store_bundle \<Rightarrow> 'w forgot_handler" where
  "wire_forgot cfg b =
    \<lparr>fg_Cfg = \<lparr>fgc_ResetPath = cf_ResetPasswordPath cfg, fgc_PublicURL = cf_PublicURL cfg,
       fgc_TokenLifetime = cf_PasswordResetLifetime cfg, fgc_RequireHTTPS = cf_RequireHTTPS cfg\<rparr>,
     fg_Users = sb_Users b, fg_Resets = sb_PasswordResets b, fg_Tracker = Some (sb_Tracker b),
     fg_AuditLogs = Some (sb_AuditLogs b), fg_ClientIP = Some ClientIP\<rparr>"

definition wire_reset :: "config \<Rightarrow> 'w store_bundle \<Rightarrow> 'w reset_handler" where
  "wire_reset cfg b =
    \<lparr>rs_Cfg = \<lparr>rsc_LoginPath = cf_LoginPath cfg, rsc_RequireHTTPS = cf_RequireHTTPS cfg\<rparr>,
     rs_Users = sb_Users b, rs_Resets = sb_PasswordResets b, rs_Sessions = sb_Sessions b,
     rs_RefreshTokens = sb_RefreshTokens b, rs_AuditLogs = Some (sb_AuditLogs b), rs_ClientIP = Some ClientIP\<rparr>"

definition wire_login :: "config \<Rightarrow> dp_pair list \<Rightarrow> 'w store_bundle \<Rightarrow> 'w login_handler" where
  "wire_login cfg keys b =
    \<lparr>lg_Cfg = \<lparr>lgc_IssuerURL = cf_Issuer cfg, lgc_AuthorizePath = ''/connect/authorize'', lgc_ProfilePath = cf_ProfilePath cfg,
       lgc_RequireHTTPS = cf_RequireHTTPS cfg, lgc_SessionLifetime = 8 * hour\<rparr>,
     lg_Users = sb_Users b, lg_Sessions = sb_Sessions b, lg_Cookies = wire_cookies cfg keys, lg_Tracker = sb_Tracker b,
     lg_ClientIP = Some ClientIP, lg_AuditLogs = Some (sb_AuditLogs b)\<rparr>"

definition wire_register :: "config \<Rightarrow> 'w store_bundle \<Rightarrow> 'w register_handler" where
  "wire_register cfg b =
    \<lparr>rgh_Cfg = \<lparr>rgc_LoginPath = cf_LoginPath cfg, rgc_RequireHTTPS = cf_RequireHTTPS cfg\<rparr>, rgh_Users = sb_Users b\<rparr>"

definition wire_logout :: "config \<Rightarrow> dp_pair list \<Rightarrow> 'w store_bundle \<Rightarrow> 'w logout_handler" where
  "wire_logout cfg keys b =
    \<lparr>lo_Cfg = \<lparr>loc_IssuerURL = cf_Issuer cfg, loc_LogoutPath = cf_LogoutPath cfg,
       loc_PostLogoutRedirectURI = cf_PostLogoutRedirectURI cfg\<rparr>,
     lo_Cookies = wire_cookies cfg keys, lo_Sessions = sb_Sessions b, lo_RefreshTokens = sb_RefreshTokens b,
     lo_Clients = sb_Clients b, lo_Issuer = wire_issuer cfg b\<rparr>"

subsection \<open>Protocol endpoints\<close>

definition wire_authorize :: "config \<Rightarrow> dp_pair list \<Rightarrow> 'w store_bundle \<Rightarrow> 'w authorize_handler" where
  "wire_authorize cfg keys b =
    \<lparr>az_Cfg = \<lparr>azc_LoginPath = cf_LoginPath cfg, azc_AuthCodeLifetime = cf_AuthCodeLifetime cfg,
       azc_RequirePKCE = cf_RequirePKCE cfg\<rparr>,
     az_Clients = sb_Clients b, az_AuthCodes = sb_AuthCodes b, az_Sessions = sb_Sessions b, az_Users = sb_Users b,
     az_Cookies = wire_cookies cfg keys\<rparr>"

definition wire_authcode_grant :: "config \<Rightarrow> 'w store_bundle \<Rightarrow> 'w auth_code_grant" where
  "wire_authcode_grant cfg b =
    \<lparr>acg_AuthCodes = sb_AuthCodes b, acg_RefreshTokens = sb_RefreshTokens b, acg_Users = sb_Users b,
     acg_Issuer = wire_issuer cfg b,
     acg_Cfg = \<lparr>acc_AccessTokenLifetime = cf_AccessTokenLifetime cfg, acc_IDTokenLifetime = cf_IDTokenLifetime cfg,
       acc_RefreshTokenLifetime = cf_RefreshTokenLifetime cfg,
       acc_RefreshTokenAbsoluteLifetime = cf_RefreshTokenAbsoluteLifetime cfg\<rparr>\<rparr>"

definition wire_refresh_grant :: "config \<Rightarrow> 'w store_bundle \<Rightarrow> 'w refresh_grant" where
  "wire_refresh_grant cfg b =
    \<lparr>rg_RefreshTokens = sb_RefreshTokens b, rg_Users = sb_Users b, rg_AuditLogs = Some (sb_AuditLogs b),
     rg_Issuer = wire_issuer cfg b,
     rg_Cfg = \<lparr>rc_AccessTokenLifetime = cf_AccessTokenLifetime cfg, rc_IDTokenLifetime = cf_IDTokenLifetime cfg,
       rc_RefreshTokenLifetime = cf_RefreshTokenLifetime cfg,
       rc_RefreshTokenAbsoluteLifetime = cf_RefreshTokenAbsoluteLifetime cfg,
       rc_DetectReuse = cf_DetectRefreshTokenReuse cfg\<rparr>\<rparr>"

definition wire_token :: "config \<Rightarrow> 'w store_bundle \<Rightarrow> 'w token_handler" where
  "wire_token cfg b =
    \<lparr>th_AuthCode = Some (wire_authcode_grant cfg b), th_Refresh = Some (wire_refresh_grant cfg b),
     th_ClientCredentials = Some \<lparr>ccg_Issuer = wire_issuer cfg b, ccg_AccessTokenLifetime = cf_AccessTokenLifetime cfg\<rparr>,
     th_ClientAuth = wire_client_auth cfg b, th_Clients = sb_Clients b\<rparr>"

definition wire_userinfo :: "config \<Rightarrow> 'w store_bundle \<Rightarrow> 'w userinfo_handler" where
  "wire_userinfo cfg b = \<lparr>ui_Issuer = wire_issuer cfg b, ui_Users = sb_Users b\<rparr>"

definition wire_revoke :: "config \<Rightarrow> 'w store_bundle \<Rightarrow> 'w revoke_handler" where
  "wire_revoke cfg b =
    \<lparr>rh_RefreshTokens = sb_RefreshTokens b, rh_Clients = sb_Clients b, rh_ClientAuth = wire_client_auth cfg b\<rparr>"

subsection \<open>The admin API\<close>

definition wire_admin_auth :: "config \<Rightarrow> dp_pair list \<Rightarrow> 'w store_bundle \<Rightarrow> 'w auth_config" where
  "wire_admin_auth cfg keys b =
    \<lparr>aa_Token = cf_AdminToken cfg, aa_AllowAnonymous = cf_AdminAllowAnonymous cfg, aa_AdminRole = cf_AdminRole cfg,
     aa_Sessions = Some (wire_resolver cfg keys b), aa_Users = Some (sb_Users b)\<rparr>"

definition wire_admin_api :: "'w store_bundle \<Rightarrow> 'w admin_api" where
  "wire_admin_api b =
    \<lparr>ap_Clients = sb_Clients b, ap_Scopes = sb_Scopes b, ap_Sessions = sb_Sessions b, ap_RefreshTokens = sb_RefreshTokens b,
     ap_SigningKeys = sb_SigningKeys b, ap_AuditLogs = Some (sb_AuditLogs b), ap_Users = sb_Users b,
     ap_Directory = sb_Directory b, ap_Roles = sb_Roles b, ap_Pages = sb_Pages b,
     ap_PasswordResets = Some (sb_PasswordResets b), ap_ClientIP = Some ClientIP\<rparr>"

text \<open>The segments of a path below \<open>/admin\<close>, as \<open>StripPrefix\<close> leaves it and \<open>ServeMux\<close> cuts it.\<close>

fun cut_segments :: "string \<Rightarrow> string \<Rightarrow> string list" where
  "cut_segments cur [] = [cur]"
| "cut_segments cur (c # s) = (if c = CHR ''/'' then cur # cut_segments [] s else cut_segments (cur @ [c]) s)"

definition admin_segments :: "string \<Rightarrow> string list" where
  "admin_segments path = cut_segments [] (drop (length ''/admin/'') path)"

subsection \<open>The router and its handlers\<close>

text \<open>An endpoint that only answers, and one behind the session guard.\<close>

definition answers :: "(http_request \<Rightarrow> 'w \<Rightarrow> outcome) \<Rightarrow> 'w http_handler" where
  "answers f r w = (f r w, w)"

definition mailing :: "(mail_message \<Rightarrow> 'w \<Rightarrow> 'w) \<Rightarrow> (outcome \<times> mail_message option) \<times> 'w \<Rightarrow> outcome \<times> 'w" where
  "mailing mailer res =
    (case res of ((out, m), w) \<Rightarrow> (out, case m of None \<Rightarrow> w | Some msg \<Rightarrow> mailer msg w))"

definition wire_admin ::
  "('l, 'w) environment_of_server \<Rightarrow> config \<Rightarrow> 'w store_bundle \<Rightarrow> runtime \<Rightarrow> 'w http_handler" where
  "wire_admin ev cfg b rt r w =
    admin_serve (ev_crypto ev) (ev_cookies ev) (ev_marshal ev) rt (now rt 300) (wire_admin_auth cfg (ev_keys ev) b)
      (wire_admin_api b) (admin_segments (req_Path r)) r w"

definition wire_handlers ::
  "('l, 'w) environment_of_server \<Rightarrow> config \<Rightarrow> 'w store_bundle \<Rightarrow> runtime \<Rightarrow> 'w handlers" where
  "wire_handlers ev cfg b rt =
    (let cr = ev_crypto ev; lib = ev_cookies ev; keys = ev_keys ev;
         guard = (\<lambda>h. RequireSession cr lib (now rt 301) (wire_resolver cfg keys b) (\<lambda>sess. h (Some sess)))
     in \<lparr>hd_CSRF = Some (answers (\<lambda>r w. csrf_serve rt (cf_RequireHTTPS cfg) r)),
         hd_Session = Some (answers (whoami_serve cr lib rt (wire_resolver cfg keys b) (sb_Users b) (cf_AdminRole cfg))),
         hd_Login = Some (login_serve cr lib rt (wire_login cfg keys b)),
         hd_Register = Some (register_serve cr rt (wire_register cfg b)),
         hd_ForgotPassword = Some (\<lambda>r w. mailing (ev_mailer ev) (forgot_serve cr rt (wire_forgot cfg b) r w)),
         hd_ResetPassword = Some (reset_serve cr rt (wire_reset cfg b)),
         hd_Home = Some (guard (\<lambda>ctx. answers (home_serve (sb_Users b) (Some (sb_AuditLogs b)) ctx))),
         hd_Profile = Some (guard (profile_serve cr rt (wire_profile cfg b))),
         hd_Logout = Some (logout_serve cr lib rt (wire_logout cfg keys b)),
         hd_Authorize = Some (authorize_serve cr lib rt (wire_authorize cfg keys b)),
         hd_Token = Some (token_serve cr (wire_token cfg b) rt),
         hd_UserInfo = Some (answers (userinfo_serve cr rt (wire_userinfo cfg b))),
         hd_Revoke = Some (revoke_serve cr (wire_revoke cfg b) rt),
         hd_Discovery = Some (answers (\<lambda>r. discovery_serve (cf_Issuer cfg) (sb_Scopes b))),
         hd_JWKS = Some (\<lambda>r. jwks_serve cr rt (wire_issuer cfg b)),
         hd_Health = Some health_serve,
         hd_Admin = Some (wire_admin ev cfg b rt)\<rparr>)"

definition wire_router :: "config \<Rightarrow> router_config" where
  "wire_router cfg =
    \<lparr>rcf_RequireHTTPS = cf_RequireHTTPS cfg, rcf_AuthorizePath = ''/connect/authorize'', rcf_TokenPath = ''/connect/token'',
     rcf_UserInfoPath = ''/connect/userinfo'', rcf_RevokePath = ''/connect/revoke'',
     rcf_JWKSPath = ''/.well-known/jwks.json'', rcf_DiscoveryPath = ''/.well-known/openid-configuration'',
     rcf_HealthPath = ''/healthz'', rcf_LoginRateLimitRPS = cf_LoginRateLimit cfg, rcf_LoginRateBurst = cf_LoginRateLimit cfg\<rparr>"

text \<open>One request to the running server. The limiter reads the clock at the place 302; the id of the request is 303.\<close>

definition server_serve ::
  "('l, 'w) environment_of_server \<Rightarrow> config \<Rightarrow> (runtime \<Rightarrow> 'w store_bundle) \<Rightarrow> runtime
    \<Rightarrow> ('l, 'w) server_state http_handler" where
  "server_serve ev cfg bundle rt =
    router_serve (ev_rate ev) (ev_real_ip ev) (uuid_string (ev_crypto ev) (new_uuid rt 303)) (now rt 302)
      (wire_router cfg) (wire_handlers ev cfg (bundle rt) rt)"

subsection \<open>The memory stores as a bundle\<close>

text \<open>As the tests of the repository run the handlers. The database bundle is in Sql_Bundle.\<close>

definition mem_bundle :: "crypto \<Rightarrow> runtime \<Rightarrow> world store_bundle" where
  "mem_bundle cr rt =
    \<lparr>sb_Clients = mem_clients, sb_AuthCodes = mem_auth_codes, sb_RefreshTokens = mem_refresh_tokens,
     sb_Sessions = mem_sessions, sb_SigningKeys = mem_signing_keys, sb_DataProtection = mem_dp_keys,
     sb_Scopes = mem_scopes, sb_AuditLogs = mem_audit_logs, sb_Users = mem_users cr rt, sb_Directory = mem_directory,
     sb_Roles = mem_roles, sb_Pages = mem_pages, sb_Tracker = mem_tracker_store rt, sb_PasswordResets = mem_resets,
     sb_Assertions = mem_assertions rt\<rparr>"

end
