(* ===== verification/Admin_Accounts.thy ===== *)
theory Admin_Accounts
  imports Admin_Api Account_Properties
begin

section \<open>What the admin API does to an account\<close>

text \<open>
  On the memory stores: setting a password and deleting a user sign the user out everywhere and
  void the open reset links, and setting the roles leaves exactly the roles asked for, up to case.
\<close>

subsection \<open>Shared steps\<close>

lemma invalidated_resets:
  assumes "w_resets w' = snd (reset_InvalidateForUser uid t (w_resets w))"
  shows "open_resets w' uid = {}"
proof (rule equals0I)
  fix i
  assume "i \<in> open_resets w' uid"
  then obtain x where "gm_get (w_resets w') i = Some x" "pr_UserID x = uid" "pr_ConsumedAt x = None"
    by (auto simp: open_resets_def)
  then show False
    by (cases "gm_get (w_resets w) i") (auto simp: assms reset_InvalidateForUser_def split: if_splits)
qed

lemma mem_reset_ops [simp]:
  "fst (prs_InvalidateForUser mem_resets uid t w) = None"
  "w_resets (snd (prs_InvalidateForUser mem_resets uid t w)) = snd (reset_InvalidateForUser uid t (w_resets w))"
  "w_sessions (snd (prs_InvalidateForUser mem_resets uid t w)) = w_sessions w"
  "w_refresh (snd (prs_InvalidateForUser mem_resets uid t w)) = w_refresh w"
  "w_users (snd (prs_InvalidateForUser mem_resets uid t w)) = w_users w"
  "w_audit (snd (prs_InvalidateForUser mem_resets uid t w)) = w_audit w"
  by (simp_all add: mem_resets_def reset_InvalidateForUser_def)

lemma mem_revoke_user:
  "ss_RevokeByUserIDExcept mem_sessions uid keep t w =
    (Inr (map fst (filter (\<lambda>(i, x). revoke_hits uid keep t i x) (w_sessions w))),
     snd (ss_RevokeByUserIDExcept mem_sessions uid keep t w))"
  by (simp add: mem_sessions_def zoom_eq session_RevokeByUserIDExcept_def)

lemma mem_revoke_user_frame [simp]:
  "w_resets (snd (ss_RevokeByUserIDExcept mem_sessions uid keep t w)) = w_resets w"
  "w_users (snd (ss_RevokeByUserIDExcept mem_sessions uid keep t w)) = w_users w"
  "w_refresh (snd (ss_RevokeByUserIDExcept mem_sessions uid keep t w)) = w_refresh w"
  "w_audit (snd (ss_RevokeByUserIDExcept mem_sessions uid keep t w)) = w_audit w"
  by (simp_all add: mem_sessions_def)

text \<open>The loops over the revoked sessions have no errors on this store.\<close>

lemma revoke_noting_each:
  "revoke_noting mem_refresh_tokens t ids w = (False, revoke_each mem_refresh_tokens t ids w)"
proof (induction ids arbitrary: w)
  case (Cons i ids)
  obtain w1 where "rts_RevokeBySessionID mem_refresh_tokens i t w = (None, w1)"
    using mem_session_ops(5) [of i t w] by (metis prod.collapse)
  with Cons show ?case by simp
qed simp

lemma revoke_each_audit [simp]: "w_audit (revoke_each mem_refresh_tokens t ids w) = w_audit w"
  by (induction ids arbitrary: w) (simp_all add: mem_refresh_tokens_def)

text \<open>The sessions of a user at a time, counted.\<close>

lemma ended_count:
  assumes "gm_wf (w_sessions w)"
  shows "length (map fst (filter (\<lambda>(i, x). revoke_hits uid keep t i x) (w_sessions w))) =
    card (ended_sessions w uid keep t)"
proof -
  have "distinct (map fst (filter (\<lambda>(i, x). revoke_hits uid keep t i x) (w_sessions w)))"
    using assms by (simp add: distinct_map_filter)
  from distinct_card [OF this] show ?thesis using ended_ids [OF assms] by simp
qed

subsection \<open>Setting a password\<close>

lemma stamp_user_frame [simp]:
  "w_sessions (snd (stamp_user cr rt (mem_admin_api cr rt' ip) i w)) = w_sessions w"
  "w_refresh (snd (stamp_user cr rt (mem_admin_api cr rt' ip) i w)) = w_refresh w"
  "w_resets (snd (stamp_user cr rt (mem_admin_api cr rt' ip) i w)) = w_resets w"
  "um_hashes (w_users (snd (stamp_user cr rt (mem_admin_api cr rt' ip) i w))) = um_hashes (w_users w)"
  "w_audit (snd (stamp_user cr rt (mem_admin_api cr rt' ip) i w)) = w_audit w"
  by (simp_all add: stamp_user_def case_prod_beta mem_users_def zoom_eq user_UpdateUser_def split: sum.split option.split)

lemma password_cleanup_run:
  assumes "password_cleanup cr rt (mem_admin_api cr rt' ip) i w = ((failed, n), w')" "gm_wf (w_sessions w)"
  shows "ends_sessions (ended_sessions w i uuid_nil (now rt 0)) w w'"
    "ended_sessions w' i uuid_nil (now rt 0) = {}" "open_resets w' i = {}"
    "um_hashes (w_users w') = um_hashes (w_users w)"
    "n = card (ended_sessions w i uuid_nil (now rt 0))" "w_audit w' = w_audit w"
proof -
  define w1 where "w1 = snd (stamp_user cr rt (mem_admin_api cr rt' ip) i w)"
  define w2 where "w2 = snd (prs_InvalidateForUser mem_resets i (now rt 0) w1)"
  let ?ids = "map fst (filter (\<lambda>(i', x). revoke_hits i uuid_nil (now rt 0) i' x) (w_sessions w2))"
  define w3 where "w3 = snd (ss_RevokeByUserIDExcept mem_sessions i uuid_nil (now rt 0) w2)"
  have same: "w_sessions w2 = w_sessions w" "w_refresh w2 = w_refresh w" "w_users w2 = w_users w1"
    "w_resets w2 = snd (reset_InvalidateForUser i (now rt 0) (w_resets w))" "w_audit w2 = w_audit w"
    by (simp_all add: w2_def w1_def)
  have step: "ss_RevokeByUserIDExcept mem_sessions i uuid_nil (now rt 0) w2 = (Inr ?ids, w3)"
    unfolding w3_def by (rule mem_revoke_user)
  have w': "w' = revoke_each mem_refresh_tokens (now rt 0) ?ids w3" and n: "n = length ?ids"
    using assms(1)
    by (simp_all add: password_cleanup_def case_prod_beta w1_def [symmetric] w2_def [symmetric] step revoke_noting_each)
  have wf: "gm_wf (w_sessions w2)" using assms(2) same by simp
  note ends = revoke_user_sessions [OF wf, where uid = i and keep = uuid_nil and t = "now rt 0",
      folded w3_def]
  show "ends_sessions (ended_sessions w i uuid_nil (now rt 0)) w w'"
    unfolding w' using ends(1) ended_cong [OF same(1)] ends_sessions_cong(1) [OF same(1,2)] by simp
  show "ended_sessions w' i uuid_nil (now rt 0) = {}" unfolding w' by (rule ends(2))
  have "w_resets w' = snd (reset_InvalidateForUser i (now rt 0) (w_resets w))"
    by (simp add: w' w3_def same)
  then show "open_resets w' i = {}" by (rule invalidated_resets)
  show "um_hashes (w_users w') = um_hashes (w_users w)" by (simp add: w' w3_def same w1_def)
  show "n = card (ended_sessions w i uuid_nil (now rt 0))"
    using n ended_count [OF wf] ended_cong [OF same(1)] by simp
  show "w_audit w' = w_audit w" by (simp add: w' w3_def same)
qed

lemma password_cleanup_ok:
  assumes "gm_get (um_users (w_users w)) i \<noteq> None" "users_good w"
  shows "\<exists>n w'. password_cleanup cr rt (mem_admin_api cr rt' ip) i w = ((False, n), w')"
proof -
  obtain u where u: "gm_get (um_users (w_users w)) i = Some u" using assms(1) by blast
  with assms(2) have i: "u_ID u = i" by (auto simp: users_good_def)
  from u i have "fst (stamp_user cr rt (mem_admin_api cr rt' ip) i w) = False"
    by (simp add: stamp_user_def mem_users_def user_FindUserByID_def zoom_eq user_UpdateUser_def)
  moreover obtain w1 where "stamp_user cr rt (mem_admin_api cr rt' ip) i w = (fst (stamp_user cr rt (mem_admin_api cr rt' ip) i w), w1)"
    by (metis surj_pair fst_conv)
  ultimately have stamp: "stamp_user cr rt (mem_admin_api cr rt' ip) i w = (False, w1)" by simp
  obtain w2 where inv: "prs_InvalidateForUser mem_resets i (now rt 0) w1 = (None, w2)"
    using mem_reset_ops(1) [of i "now rt 0" w1] by (metis surj_pair fst_conv)
  obtain ids w3 where ses: "ss_RevokeByUserIDExcept mem_sessions i uuid_nil (now rt 0) w2 = (Inr ids, w3)"
    using mem_revoke_user [of i uuid_nil "now rt 0" w2] by blast
  show ?thesis by (simp add: password_cleanup_def stamp inv ses revoke_noting_each)
qed

lemma audit_password_run:
  "\<exists>e. auditPasswordSet rt (mem_admin_api cr rt' ip) ctx r i n w = w\<lparr>w_audit := w_audit w @ [e]\<rparr> \<and>
    al_Action e = ''admin_password_set'' \<and> al_ActorUserID e = ax_Actor ctx \<and> al_TargetID e = i"
  by (rule exI [where x = "audit_entry (new_uuid rt 1) (now rt 1) ''admin_password_set'' (ax_Actor ctx) ''User'' i
       (''{\"sessions_revoked\":'' @ itoa n @ ''}'') (source_ip ip r) r"])
    (simp add: auditPasswordSet_def write_audit_def mem_audit_logs_def zoom_def audit_Store_def audit_entry_def)

lemma set_password_audit:
  assumes "us_SetPassword (mem_users cr rt) uid new w = (res, w1)"
  shows "w_audit w1 = w_audit w"
  using assms by (auto simp: mem_users_def zoom_eq)

lemma password_set_200:
  assumes "setUserPassword cr rt (mem_admin_api cr rt' ip) i ctx r w = (out, w')" "status_of out = Some 200"
  obtains password w1 n w2 where "read_body [(''password'', set_str (\<lambda>x _. x))] [] r = Some password"
    "ValidatePassword password = None" "us_SetPassword (mem_users cr rt') i password w = (None, w1)"
    "password_cleanup cr rt (mem_admin_api cr rt' ip) i w1 = ((False, n), w2)"
    "w' = auditPasswordSet rt (mem_admin_api cr rt' ip) ctx r i n w2"
    "body_field out ''sessions_revoked'' = Some (JNum (int n))"
proof -
  let ?read = "read_body [(''password'', set_str (\<lambda>x _. x))] [] r"
  obtain password where p: "?read = Some password" "password \<noteq> []" "ValidatePassword password = None"
    using assms by (auto simp: setUserPassword_def admin_error_def split: option.splits if_splits)
  obtain res w1 where s: "us_SetPassword (mem_users cr rt') i password w = (res, w1)" by fastforce
  obtain failed n w2 where c: "password_cleanup cr rt (mem_admin_api cr rt' ip) i w1 = ((failed, n), w2)"
    by (metis surj_pair)
  note run = assms(1) [unfolded setUserPassword_def p(1) option.case p(3) mem_admin_api_simps s prod.case]
  have "res = None" using run p(2) assms(2) by (auto simp: lookup_error_def admin_error_def split: option.splits if_splits)
  with run p(2) assms(2) c have "\<not> failed" "w' = auditPasswordSet rt (mem_admin_api cr rt' ip) ctx r i n w2"
    "body_field out ''sessions_revoked'' = Some (JNum (int n))"
    by (auto simp: Let_def admin_error_def json_field_def split: if_splits)
  with p s c \<open>res = None\<close> that show ?thesis by simp
qed

text \<open>
  A password set through the API is an allowed one and replaces the hash of that user only.
  The user is signed out everywhere: every session ends with its refresh tokens, nobody else's
  does, no reset link stays open, the answer counts the sessions, and the audit log gains one
  entry with the acting user and the target.
\<close>

theorem admin_password_ends_everything:
  assumes "setUserPassword cr rt (mem_admin_api cr rt' ip) i ctx r w = (out, w')"
    and "status_of out = Some 200" "gm_wf (w_sessions w)"
  shows "\<exists>password hash e. ValidatePassword password = None \<and> bcrypt_hash cr (bcrypt_salt rt') password = Some hash \<and>
    um_hashes (w_users w') = gm_put i hash (um_hashes (w_users w)) \<and>
    ends_sessions (ended_sessions w i uuid_nil (now rt 0)) w w' \<and>
    ended_sessions w' i uuid_nil (now rt 0) = {} \<and> open_resets w' i = {} \<and>
    body_field out ''sessions_revoked'' = Some (JNum (int (card (ended_sessions w i uuid_nil (now rt 0))))) \<and>
    w_audit w' = w_audit w @ [e] \<and> al_ActorUserID e = ax_Actor ctx \<and> al_TargetID e = i"
proof -
  obtain password w1 n w2 where read: "read_body [(''password'', set_str (\<lambda>x _. x))] [] r = Some password"
    and p: "ValidatePassword password = None" "us_SetPassword (mem_users cr rt') i password w = (None, w1)"
    and c: "password_cleanup cr rt (mem_admin_api cr rt' ip) i w1 = ((False, n), w2)"
    and w': "w' = auditPasswordSet rt (mem_admin_api cr rt' ip) ctx r i n w2"
    and n: "body_field out ''sessions_revoked'' = Some (JNum (int n))"
    by (rule password_set_200 [OF assms(1,2)])
  note set = set_password_run [OF p(2)]
  obtain hash where hash: "bcrypt_hash cr (bcrypt_salt rt') password = Some hash"
    "um_hashes (w_users w1) = gm_put i hash (um_hashes (w_users w))" using set(4) by auto
  have audit: "w_audit w1 = w_audit w" using set_password_audit [OF p(2)] .
  from assms(3) set(1) have "gm_wf (w_sessions w1)" by simp
  note over = password_cleanup_run [OF c this]
  obtain e where e: "w' = w2\<lparr>w_audit := w_audit w2 @ [e]\<rparr>" "al_ActorUserID e = ax_Actor ctx" "al_TargetID e = i"
    using audit_password_run [of rt cr rt' ip ctx r i n w2] w' by auto
  have same: "w_sessions w' = w_sessions w2" "w_refresh w' = w_refresh w2" "w_users w' = w_users w2"
    "w_resets w' = w_resets w2" "w_audit w' = w_audit w @ [e]"
    using e(1) over(6) audit by simp_all
  have resets: "open_resets w' i = {}" using over(3) same(4) by (simp add: open_resets_def)
  have ends: "ends_sessions (ended_sessions w i uuid_nil (now rt 0)) w w'"
    using over(1) ended_cong [OF set(1)] ends_sessions_cong(1) [OF set(1,2)] ends_sessions_cong(2) [OF same(1,2)]
    by simp
  have none: "ended_sessions w' i uuid_nil (now rt 0) = {}" using over(2) ended_cong [OF same(1)] by simp
  have count: "n = card (ended_sessions w i uuid_nil (now rt 0))" using over(5) ended_cong [OF set(1)] by simp
  have hashes: "um_hashes (w_users w') = gm_put i hash (um_hashes (w_users w))"
    using hash(2) over(4) same(3) by simp
  show ?thesis
    by (intro exI conjI) (rule p(1) hash(1) hashes ends none resets n [unfolded count] same(5) e(2,3))+
qed

subsection \<open>Deleting a user\<close>

lemma delete_user_run:
  assumes "admin_deleteUser rt (mem_admin_api cr rt' ip) i w = (out, w')" "gm_wf (w_sessions w)"
  shows "ends_sessions (ended_sessions w i uuid_nil (now rt 0)) w w'"
    "ended_sessions w' i uuid_nil (now rt 0) = {}" "open_resets w' i = {}"
    "(out = no_content \<and> w_users w' = snd (user_DeleteUser i (w_users w)) \<and> gm_get (um_users (w_users w)) i \<noteq> None) \<or>
     (status_of out = Some 404 \<and> w_users w' = w_users w \<and> gm_get (um_users (w_users w)) i = None)"
proof -
  let ?ids = "map fst (filter (\<lambda>(i', x). revoke_hits i uuid_nil (now rt 0) i' x) (w_sessions w))"
  define w1 where "w1 = snd (ss_RevokeByUserIDExcept mem_sessions i uuid_nil (now rt 0) w)"
  define w2 where "w2 = revoke_each mem_refresh_tokens (now rt 0) ?ids w1"
  define w3 where "w3 = snd (prs_InvalidateForUser mem_resets i (now rt 0) w2)"
  have step: "ss_RevokeByUserIDExcept mem_sessions i uuid_nil (now rt 0) w = (Inr ?ids, w1)"
    unfolding w1_def by (rule mem_revoke_user)
  have inv: "prs_InvalidateForUser mem_resets i (now rt 0) w2 = (None, w3)"
    unfolding w3_def by (simp add: prod_eq_iff)
  have del: "(out, w') = deleted (us_DeleteUser (mem_users cr rt') i w3)"
    using assms(1) unfolding admin_deleteUser_def mem_admin_api_simps step prod.case sum.case revoke_tokens_each
      w2_def [symmetric] bool.case option.case inv by simp
  have users: "w_users w3 = w_users w" by (simp add: w3_def w2_def w1_def)
  from del show "(out = no_content \<and> w_users w' = snd (user_DeleteUser i (w_users w)) \<and> gm_get (um_users (w_users w)) i \<noteq> None) \<or>
     (status_of out = Some 404 \<and> w_users w' = w_users w \<and> gm_get (um_users (w_users w)) i = None)"
    by (auto simp: deleted_def lookup_error_def admin_error_def mem_users_def zoom_eq user_DeleteUser_def users
        split: option.splits prod.splits)
  have frame: "w_sessions w' = w_sessions w2" "w_refresh w' = w_refresh w2" "w_resets w' = w_resets w3"
    using del by (auto simp: deleted_def mem_users_def zoom_eq w3_def split: option.splits prod.splits)
  note ends = revoke_user_sessions [OF assms(2), where uid = i and keep = uuid_nil and t = "now rt 0",
      folded w1_def, folded w2_def]
  show "ends_sessions (ended_sessions w i uuid_nil (now rt 0)) w w'"
    using ends(1) ends_sessions_cong(2) [OF frame(1,2)] by simp
  show "ended_sessions w' i uuid_nil (now rt 0) = {}" using ends(2) ended_cong [OF frame(1)] by simp
  have "w_resets w' = snd (reset_InvalidateForUser i (now rt 0) (w_resets w))"
    unfolding frame(3) by (simp add: w3_def w2_def w1_def)
  then show "open_resets w' i = {}" by (rule invalidated_resets)
qed

text \<open>
  Deleting a user first ends everything of the user, sessions, refresh tokens and reset links,
  and nothing of anybody else, whether or not there is such an account; then either the account
  and its password are gone, or there was none and the users are as they were.
\<close>

theorem user_deletion_is_complete:
  assumes "admin_deleteUser rt (mem_admin_api cr rt' ip) i w = (out, w')" "gm_wf (w_sessions w)"
  shows "ends_sessions (ended_sessions w i uuid_nil (now rt 0)) w w' \<and>
    ended_sessions w' i uuid_nil (now rt 0) = {} \<and> open_resets w' i = {} \<and>
    (if status_of out = Some 204
     then user_FindUserByID i (w_users w') = Inl NotFound \<and> gm_get (um_hashes (w_users w')) i = None
     else status_of out = Some 404 \<and> w_users w' = w_users w)"
proof -
  note run = delete_user_run [OF assms]
  have gone: "user_FindUserByID i (w_users w') = Inl NotFound \<and> gm_get (um_hashes (w_users w')) i = None"
    if "w_users w' = snd (user_DeleteUser i (w_users w))" "gm_get (um_users (w_users w)) i \<noteq> None"
    using that by (auto simp: user_DeleteUser_def user_FindUserByID_def)
  have "status_of no_content = Some 204" by (simp add: no_content_def)
  with run gone show ?thesis by auto
qed

subsection \<open>Witnesses\<close>

definition admin_sample :: "world admin_api" where
  "admin_sample = mem_admin_api sample_crypto sample_rt None"

definition admin_ctx :: admin_context where
  "admin_ctx = \<lparr>ax_Method = AuthToken, ax_Actor = ''root''\<rparr>"

definition set_password_request :: http_request where
  "set_password_request = json_request ''POST'' ''/admin/api/users/alice/password'' [(''password'', JStr ''correct horse'')]"

definition set_password_state :: "outcome \<times> world" where
  "set_password_state = setUserPassword sample_crypto sample_rt admin_sample ''alice'' admin_ctx set_password_request account_world"

lemma set_password_reads:
  "read_body [(''password'', set_str (\<lambda>x _. x))] [] set_password_request = Some ''correct horse''"
  "ValidatePassword ''correct horse'' = None"
  by (code_simp, code_simp)

lemma sample_alice: "gm_get (um_users (w_users account_world)) ''alice'' \<noteq> None"
  by (simp add: sample_simps)

lemma set_password_ok: "status_of (fst set_password_state) = Some 200"
proof -
  obtain w1 where s: "us_SetPassword (mem_users sample_crypto sample_rt) ''alice'' ''correct horse'' account_world = (None, w1)"
    "um_users (w_users w1) = um_users (w_users account_world)"
    using sample_alice by (auto simp: mem_users_def zoom_eq user_SetPassword_def sample_crypto_def)
  from s(2) sample_alice account_good(2) have "gm_get (um_users (w_users w1)) ''alice'' \<noteq> None" "users_good w1"
    by (simp_all add: users_good_def)
  from password_cleanup_ok [OF this] obtain n w2 where
    "password_cleanup sample_crypto sample_rt (mem_admin_api sample_crypto sample_rt None) ''alice'' w1 = ((False, n), w2)"
    by blast
  then show ?thesis
    using s(1) by (simp add: set_password_state_def setUserPassword_def set_password_reads admin_sample_def Let_def)
qed

theorem admin_password_ends_everything_witness:
  "ended_sessions (snd set_password_state) ''alice'' uuid_nil (now sample_rt 0) = {} \<and>
   open_resets (snd set_password_state) ''alice'' = {}"
proof -
  have "setUserPassword sample_crypto sample_rt (mem_admin_api sample_crypto sample_rt None) ''alice'' admin_ctx
      set_password_request account_world = (fst set_password_state, snd set_password_state)"
    by (simp add: set_password_state_def admin_sample_def)
  from admin_password_ends_everything [OF this set_password_ok account_good(3)] show ?thesis by blast
qed

theorem user_deletion_is_complete_witness:
  "status_of (fst (admin_deleteUser sample_rt admin_sample ''alice'' account_world)) = Some 204 \<and>
   user_FindUserByID ''alice'' (w_users (snd (admin_deleteUser sample_rt admin_sample ''alice'' account_world))) = Inl NotFound \<and>
   ended_sessions (snd (admin_deleteUser sample_rt admin_sample ''alice'' account_world)) ''alice'' uuid_nil (now sample_rt 0) = {}"
proof -
  let ?run = "admin_deleteUser sample_rt (mem_admin_api sample_crypto sample_rt None) ''alice'' account_world"
  have run: "?run = (fst ?run, snd ?run)" by simp
  have "status_of (fst ?run) = Some 204"
    using sample_alice delete_user_run(4) [OF run account_good(3)] by (auto simp: no_content_def)
  with user_deletion_is_complete [OF run account_good(3)] show ?thesis by (simp add: admin_sample_def)
qed

end
