(* ===== verification/Admin_Roles.thy ===== *)
theory Admin_Roles
  imports Admin_Api Domain_Facts
begin

section \<open>What the admin API does to the roles of a user\<close>

subsection \<open>Counting roles up to case\<close>

definition fold_count :: "string \<Rightarrow> string list \<Rightarrow> nat" where
  "fold_count k xs = length (filter (\<lambda>x. fold_key x = k) xs)"

lemma fold_count_simps [simp]:
  "fold_count k [] = 0" "fold_count k (x # xs) = (if fold_key x = k then Suc (fold_count k xs) else fold_count k xs)"
  "fold_count k (xs @ ys) = fold_count k xs + fold_count k ys"
  by (simp_all add: fold_count_def)

lemma containsString_count: "containsString xs x \<longleftrightarrow> fold_count (fold_key x) xs > 0"
  by (induction xs) (auto simp: containsString_def equal_fold_def)

lemma remove_last_split:
  obtains "\<And>x. x \<in> set xs \<Longrightarrow> \<not> P x" "remove_last P xs = xs"
  | us y vs where "P y" "xs = us @ y # vs" "remove_last P xs = us @ vs"
proof (cases "dropWhile (\<lambda>x. \<not> P x) (rev xs)")
  case Nil
  have "remove_last P xs = xs" unfolding remove_last_def Nil by simp
  moreover have "\<not> P x" if "x \<in> set xs" for x using Nil that by (auto simp: dropWhile_eq_Nil_conv)
  ultimately show thesis using that(1) by blast
next
  case (Cons y ys)
  let ?t = "takeWhile (\<lambda>x. \<not> P x) (rev xs)"
  have y: "P y" using Cons hd_dropWhile [of "\<lambda>x. \<not> P x" "rev xs"] by auto
  have "rev xs = ?t @ y # ys" using Cons by (metis takeWhile_dropWhile_id)
  then have "xs = rev (?t @ y # ys)" by (simp add: rev_swap)
  with y Cons that(2) [of y "rev ys" "rev ?t"] show thesis by (simp add: remove_last_def)
qed

lemma remove_last_count:
  "fold_count k (remove_last (\<lambda>x. equal_fold x r) xs) = fold_count k xs - (if fold_key r = k then 1 else 0)"
proof (rule remove_last_split [of xs "\<lambda>x. equal_fold x r"])
  assume no: "\<And>x. x \<in> set xs \<Longrightarrow> \<not> equal_fold x r" and same: "remove_last (\<lambda>x. equal_fold x r) xs = xs"
  have "fold_count (fold_key r) xs = 0" using no by (auto simp: fold_count_def filter_empty_conv equal_fold_def)
  then show ?thesis by (auto simp: same)
next
  fix us y vs
  assume "equal_fold y r" "xs = us @ y # vs" "remove_last (\<lambda>x. equal_fold x r) xs = us @ vs"
  then show ?thesis by (simp add: equal_fold_def)
qed

lemma fold_remove_count:
  "fold_count k (fold (\<lambda>r ys. remove_last (\<lambda>x. equal_fold x r) ys) rs xs) = fold_count k xs - fold_count k rs"
  by (induction rs arbitrary: xs) (simp_all add: remove_last_count)

lemma fold_count_filter:
  "fold_count (fold_key x) (filter (\<lambda>y. \<not> containsString ws y) xs) =
    (if containsString ws x then 0 else fold_count (fold_key x) xs)"
  by (induction xs) (auto simp: containsString_count)

lemma removed_roles:
  "containsString (fold (\<lambda>r ys. remove_last (\<lambda>x. equal_fold x r) ys) (filter (\<lambda>y. \<not> containsString ws y) xs) xs) x \<longleftrightarrow>
    containsString xs x \<and> containsString ws x"
proof -
  have "fold_count (fold_key x) (fold (\<lambda>r ys. remove_last (\<lambda>x. equal_fold x r) ys) (filter (\<lambda>y. \<not> containsString ws y) xs) xs) =
      (if containsString ws x then fold_count (fold_key x) xs else 0)"
    by (simp only: fold_remove_count fold_count_filter) simp
  then show ?thesis by (simp add: containsString_count [of _ x] split: if_splits)
qed

lemma missing_roles: "containsString (filter (\<lambda>y. \<not> containsString ws y) xs) x \<longleftrightarrow> containsString xs x \<and> \<not> containsString ws x"
  by (simp only: containsString_count [of _ x] fold_count_filter) (simp add: containsString_count [of _ x])

lemma added_roles: "containsString (add_roles xs rs) x \<longleftrightarrow> containsString xs x \<or> containsString rs x"
proof (induction rs arbitrary: xs)
  case (Cons r rs)
  have "containsString xs x" if "contains_fold xs r" "equal_fold r x"
    using that by (auto simp: containsString_def contains_fold_def list_ex_iff intro: equal_fold_trans)
  with Cons show ?case by (auto simp: containsString_def)
qed (simp add: containsString_def)

subsection \<open>Setting the roles\<close>

lemma mem_roles_ops:
  "us_GetUserRoles (mem_users cr rt) i w = user_GetUserRoles i (w_users w)"
  "ud_RemoveFromRoles mem_directory i ns = on_users (user_RemoveFromRoles i ns)"
  "ud_AddToRoles mem_directory i ns = on_users (user_AddToRoles i ns)"
  by (simp_all add: mem_users_def mem_directory_def)

lemma remove_roles_run:
  assumes "remove_roles (mem_admin_api cr rt ip) i names w = (e, w1)" "gm_get (um_users (w_users w)) i \<noteq> None"
  shows "e = None" "um_users (w_users w1) = um_users (w_users w)"
    "get_list (um_roles (w_users w1)) j = (if j = i then fold (\<lambda>r ys. remove_last (\<lambda>x. equal_fold x r) ys) names
       (get_list (um_roles (w_users w)) i) else get_list (um_roles (w_users w)) j)"
  using assms by (auto simp: remove_roles_def mem_roles_ops zoom_eq user_RemoveFromRoles_def for_user_def
      get_list_def split: if_splits)

lemma add_roles_run:
  assumes "add_roles_to (mem_admin_api cr rt ip) i names w = (e, w1)" "gm_get (um_users (w_users w)) i \<noteq> None"
  shows "e = None" "um_users (w_users w1) = um_users (w_users w)"
    "get_list (um_roles (w_users w1)) j = (if j = i then add_roles (get_list (um_roles (w_users w)) i) names
       else get_list (um_roles (w_users w)) j)"
  using assms by (auto simp: add_roles_to_def mem_roles_ops zoom_eq user_AddToRoles_def for_user_def
      get_list_def split: if_splits)

text \<open>
  After setting the roles of a user, the user has exactly the roles asked for, up to case,
  and nobody else's roles have changed.
\<close>

theorem roles_set_exactly:
  assumes "setUserRoles (mem_admin_api cr rt ip) i r w = (out, w')" "status_of out = Some 204"
  shows "\<exists>wanted roles. read_body roles_fields [] r = Some wanted \<and>
    user_GetUserRoles i (w_users w') = Inr roles \<and> (\<forall>x. containsString roles x = containsString wanted x) \<and>
    (\<forall>j. j = i \<or> get_list (um_roles (w_users w')) j = get_list (um_roles (w_users w)) j)"
proof -
  let ?a = "mem_admin_api cr rt ip"
  obtain wanted where read: "read_body roles_fields [] r = Some wanted"
    using assms by (auto simp: setUserRoles_def admin_error_def split: option.splits)
  let ?old = "get_list (um_roles (w_users w)) i"
  have user: "gm_get (um_users (w_users w)) i \<noteq> None"
    using assms read by (auto simp: setUserRoles_def admin_error_def lookup_error_def mem_roles_ops user_GetUserRoles_def
        of_user_def split: if_splits)
  then have old: "us_GetUserRoles (mem_users cr rt) i w = Inr ?old"
    by (simp add: mem_roles_ops user_GetUserRoles_def of_user_def)
  obtain e1 w1 where rem: "remove_roles ?a i (filter (\<lambda>x. \<not> containsString wanted x) ?old) w = (e1, w1)"
    by fastforce
  note rem1 = remove_roles_run [OF rem user]
  obtain e2 w2 where add: "add_roles_to ?a i (filter (\<lambda>x. \<not> containsString ?old x) wanted) w1 = (e2, w2)"
    by fastforce
  have user1: "gm_get (um_users (w_users w1)) i \<noteq> None" using user rem1(2) by simp
  note add1 = add_roles_run [OF add user1]
  have w': "w' = w2" using assms(1) read old rem rem1(1) add add1(1) by (simp add: setUserRoles_def)
  let ?new = "get_list (um_roles (w_users w')) i"
  have "containsString ?new x = containsString wanted x" for x
    using add1(3) [of i] rem1(3) [of i]
    by (auto simp: w' added_roles removed_roles missing_roles)
  moreover have "j = i \<or> get_list (um_roles (w_users w')) j = get_list (um_roles (w_users w)) j" for j
    using add1(3) [of j] rem1(3) [of j] w' by simp
  moreover have "user_GetUserRoles i (w_users w') = Inr ?new"
    using user add1(2) rem1(2) by (simp add: w' user_GetUserRoles_def of_user_def)
  ultimately show ?thesis using read by blast
qed

end
