(* ===== verification/Admin_Secrets.thy ===== *)
theory Admin_Secrets
  imports Admin_Api
begin

section \<open>What the admin API does not tell\<close>

text \<open>
  Two states that differ only in secrets, the private signing keys, the hashes of tokens and
  passwords, security stamps, codes, reset links, cookie keys and the tokens of external logins,
  get the same answer to every request of a safe method, the authorization included.
\<close>

subsection \<open>The public part of a state\<close>

definition scrub_key :: "signing_key \<Rightarrow> signing_key" where
  "scrub_key k = k\<lparr>sk_PrivateKeyPEM := []\<rparr>"

definition scrub_token :: "refresh_token \<Rightarrow> refresh_token" where
  "scrub_token t = t\<lparr>rt_TokenHash := []\<rparr>"

definition scrub_user :: "user \<Rightarrow> user" where
  "scrub_user u = u\<lparr>u_PasswordHash := [], u_SecurityStamp := []\<rparr>"

definition scrub :: "world \<Rightarrow> world" where
  "scrub w = w\<lparr>w_codes := NewAuthorizationCodeStore, w_dpkeys := [], w_resets := [],
     w_signing := gm_map (\<lambda>_. scrub_key) (w_signing w),
     w_refresh := \<lparr>rtm_tokens = gm_map (\<lambda>_. scrub_token) (rtm_tokens (w_refresh w)), rtm_byHash = []\<rparr>,
     w_users := (w_users w)\<lparr>um_users := gm_map (\<lambda>_. scrub_user) (um_users (w_users w)), um_hashes := [], um_tokens := []\<rparr>\<rparr>"

lemma scrub_simps [simp]:
  "w_clients (scrub w) = w_clients w" "w_scopes (scrub w) = w_scopes w" "w_sessions (scrub w) = w_sessions w"
  "w_audit (scrub w) = w_audit w" "w_roles (scrub w) = w_roles w"
  "w_signing (scrub w) = gm_map (\<lambda>_. scrub_key) (w_signing w)"
  "rtm_tokens (w_refresh (scrub w)) = gm_map (\<lambda>_. scrub_token) (rtm_tokens (w_refresh w))"
  "um_users (w_users (scrub w)) = gm_map (\<lambda>_. scrub_user) (um_users (w_users w))"
  "um_roles (w_users (scrub w)) = um_roles (w_users w)" "um_claims (w_users (scrub w)) = um_claims (w_users w)"
  "um_logins (w_users (scrub w)) = um_logins (w_users w)"
  by (simp_all add: scrub_def)

lemma views_scrub [simp]:
  "toKeyView (scrub_key k) = toKeyView k" "toRefreshTokenView cr (scrub_token t) = toRefreshTokenView cr t"
  "toUserView (scrub_user u) = toUserView u"
  by (simp_all add: toKeyView_def scrub_key_def toRefreshTokenView_def scrub_token_def toUserView_def scrub_user_def)

lemma views_map_scrub:
  "map toKeyView (map scrub_key ks) = map toKeyView ks"
  "map (toRefreshTokenView cr) (map scrub_token ts) = map (toRefreshTokenView cr) ts"
  "map toUserView (map scrub_user us) = map toUserView us"
  by simp_all

lemma map_snd_gm_map: "map snd (gm_map (\<lambda>_. f) m) = map f (map snd m)"
  by (induction m) (auto simp: gm_map_def)

subsection \<open>Pages\<close>

lemma go_slice_map: "go_slice (map f xs) a b = map_option (map f) (go_slice xs a b)"
  by (simp add: go_slice_def drop_map take_map)

lemma get_paged_map:
  assumes "\<And>x. view (f x) = view x"
  shows "paged_answer view (map_option Inr (get_paged (map f xs) p)) = paged_answer view (map_option Inr (get_paged xs p))"
proof -
  have m: "map view (map f ys) = map view ys" for ys using assms by simp
  show ?thesis
    by (simp add: get_paged_def go_slice_map Let_def case_prod_beta del: map_map)
      (simp add: paged_answer_def m del: map_map split: option.split)
qed

lemma user_pages_scrub:
  "paged_answer toUserView (map_option Inr (user_GetPagedUsers p (w_users (scrub w)))) =
    paged_answer toUserView (map_option Inr (user_GetPagedUsers p (w_users w)))"
  by (simp add: user_GetPagedUsers_def go_slice_map Let_def map_snd_gm_map del: map_map)
    (auto simp: paged_answer_def views_map_scrub simp del: map_map split: option.split)

subsection \<open>Every route that reads\<close>

lemma of_user_scrub:
  "of_user i f (w_users (scrub w)) = of_user i (\<lambda>_. f (w_users (scrub w))) (w_users w)"
  by (simp add: of_user_def)

lemma user_reads_scrub [simp]:
  "user_GetUserClaims i (w_users (scrub w)) = user_GetUserClaims i (w_users w)"
  "user_GetUserRoles i (w_users (scrub w)) = user_GetUserRoles i (w_users w)"
  "user_GetUserLogins i (w_users (scrub w)) = user_GetUserLogins i (w_users w)"
  by (simp_all add: user_GetUserClaims_def user_GetUserRoles_def user_GetUserLogins_def of_user_def get_list_def)

lemma reads_scrub:
  fixes cr :: crypto and rt :: runtime and ip
  defines "a \<equiv> mem_admin_api cr rt ip"
  shows "listClients a r (scrub w) = listClients a r w" "getClient a i (scrub w) = getClient a i w"
    "listScopes a (scrub w) = listScopes a w" "listSessions cr' a r (scrub w) = listSessions cr' a r w"
    "listRefreshTokens cr' a r (scrub w) = listRefreshTokens cr' a r w"
    "listSigningKeys a (scrub w) = listSigningKeys a w" "listAuditLogs cr' a r (scrub w) = listAuditLogs cr' a r w"
    "listUsers a r (scrub w) = listUsers a r w" "getUser a i (scrub w) = getUser a i w"
    "getUserClaims a i (scrub w) = getUserClaims a i w" "getUserRoles a i (scrub w) = getUserRoles a i w"
    "getUserLogins a i (scrub w) = getUserLogins a i w" "listRoles a (scrub w) = listRoles a w"
    "getRoleClaims a i (scrub w) = getRoleClaims a i w"
  unfolding a_def
  by (simp_all add: listClients_def getClient_def listScopes_def listSessions_def listRefreshTokens_def
      listSigningKeys_def listAuditLogs_def listUsers_def getUser_def getUserClaims_def getUserRoles_def getUserLogins_def
      listRoles_def getRoleClaims_def mem_pages_def mem_clients_def mem_scopes_def mem_signing_keys_def mem_users_def
      mem_directory_def mem_roles_def signing_GetAll_def refresh_GetPaged_def get_paged_map user_pages_scrub
      user_FindUserByID_def map_snd_gm_map views_map_scrub split: option.split del: map_map)

lemma get_routes_scrub:
  assumes "ro \<in> set (admin_routes cr marshal rt (mem_admin_api cr rt' ip))" "ro_Method ro = ''GET''"
  shows "fst (ro_Handler ro vs ctx r (scrub w)) = fst (ro_Handler ro vs ctx r w)"
  using assms
  by (auto simp: admin_routes_def client_routes_def token_routes_def user_routes_def api_route_def reads_def reads_scrub)

end
