(* ===== verification/Admin_Properties.thy ===== *)
theory Admin_Properties
  imports Admin_Accounts Admin_Roles Admin_Secrets
begin

section \<open>Properties of the admin API\<close>

subsection \<open>The gate\<close>

text \<open>
  A request to the admin API gets past the middlewares only when it is admitted, by the
  configured token, by a live session of a user with the admin role, or where anonymous use is
  switched on. Then the routes answer it; with an unsafe method it also carries the token or
  echoes its CSRF cookie, with a safe one nothing changes. Every other request is answered 401,
  403 or 500 and changes nothing.
\<close>

theorem admin_gate:
  assumes "admin_serve cr lib marshal rt t cfg a path r w = (out, w')"
  shows "(\<exists>ctx out0 h. admitted cr lib t cfg r w ctx \<and>
      serve_mux (admin_routes cr marshal rt a) path ctx r w = (out0, w') \<and> out = add_header h out0 \<and>
      (if safe_method (req_Method r) then w' = w else ax_Method ctx = AuthToken \<or> double_submit r)) \<or>
    (w' = w \<and> status_of out \<in> {Some 401, Some 403, Some 500})"
proof -
  let ?mux = "serve_mux (admin_routes cr marshal rt a) path"
  from AuthMiddleware_cases [OF assms [unfolded admin_serve_def]] show ?thesis
  proof
    assume "\<exists>ctx out0 h. admitted cr lib t cfg r w ctx \<and> CSRFMiddleware ?mux ctx r w = (out0, w') \<and> out = add_header h out0"
    then obtain ctx out0 h where adm: "admitted cr lib t cfg r w ctx" and run: "CSRFMiddleware ?mux ctx r w = (out0, w')"
      and out: "out = add_header h out0" by blast
    from CSRFMiddleware_cases [OF run] show ?thesis
    proof
      assume ran: "?mux ctx r w = (out0, w') \<and> (safe_method (req_Method r) \<or> ax_Method ctx = AuthToken \<or> double_submit r)"
      then have "if safe_method (req_Method r) then w' = w else ax_Method ctx = AuthToken \<or> double_submit r"
        using serve_mux_reads [of r cr marshal rt a path ctx w] by auto
      with ran adm out show ?thesis by blast
    qed (simp add: out)
  qed simp
qed

subsection \<open>Secrets\<close>

definition mem_admin_auth ::
  "crypto \<Rightarrow> runtime \<Rightarrow> string \<Rightarrow> bool \<Rightarrow> string \<Rightarrow> cookie_manager \<Rightarrow> world auth_config" where
  "mem_admin_auth cr rt tok anon role cm =
    \<lparr>aa_Token = tok, aa_AllowAnonymous = anon, aa_AdminRole = role,
     aa_Sessions = Some \<lparr>sr_Cookies = cm, sr_Sessions = mem_sessions\<rparr>, aa_Users = Some (mem_users cr rt)\<rparr>"

lemma mem_admin_auth_simps [simp]:
  "aa_Token (mem_admin_auth cr rt tok anon role cm) = tok"
  "aa_AllowAnonymous (mem_admin_auth cr rt tok anon role cm) = anon"
  "aa_Sessions (mem_admin_auth cr rt tok anon role cm) = Some \<lparr>sr_Cookies = cm, sr_Sessions = mem_sessions\<rparr>"
  "aa_Users (mem_admin_auth cr rt tok anon role cm) = Some (mem_users cr rt)"
  "admin_role (mem_admin_auth cr rt tok anon role cm) = (if role = [] then ''admin'' else role)"
  by (simp_all add: mem_admin_auth_def admin_role_def)

lemma gate_scrub:
  assumes "\<And>ctx. fst (nxt ctx r (scrub w)) = fst (nxt ctx r w)"
  shows "fst (AuthMiddleware cr lib t (mem_admin_auth cr rt tok anon role cm) nxt r (scrub w)) =
    fst (AuthMiddleware cr lib t (mem_admin_auth cr rt tok anon role cm) nxt r w)"
proof -
  let ?sr = "\<lparr>sr_Cookies = cm, sr_Sessions = mem_sessions\<rparr>"
  have "Resolve cr lib t ?sr r (scrub w) = Resolve cr lib t ?sr r w"
    by (simp add: Resolve_def mem_sessions_def split: sum.split)
  moreover have "us_GetUserRoles (mem_users cr rt) i (scrub w) = us_GetUserRoles (mem_users cr rt) i w" for i
    by (simp add: mem_users_def)
  ultimately have "fst (session_gate cr lib t (mem_admin_auth cr rt tk an role cm) ?sr (mem_users cr rt) nxt r (scrub w)) =
      fst (session_gate cr lib t (mem_admin_auth cr rt tk an role cm) ?sr (mem_users cr rt) nxt r w)" for tk an
    using assms by (simp add: session_gate_def case_prod_beta split: sum.split option.split)
  then show ?thesis
    using assms by (simp add: AuthMiddleware_def case_prod_beta Let_def)
qed

lemma serve_mux_scrub:
  assumes "safe_method (req_Method r)"
  shows "fst (serve_mux (admin_routes cr marshal rt (mem_admin_api cr rt' ip)) path ctx r (scrub w)) =
    fst (serve_mux (admin_routes cr marshal rt (mem_admin_api cr rt' ip)) path ctx r w)"
proof (cases "find (route_serves (req_Method r) path) (admin_routes cr marshal rt (mem_admin_api cr rt' ip))")
  case (Some ro)
  then have ro: "ro \<in> set (admin_routes cr marshal rt (mem_admin_api cr rt' ip))" "route_serves (req_Method r) path ro"
    by (auto dest: find_Some_set)
  then have "ro_Method ro = ''GET''"
    using assms admin_methods [OF ro(1)] by (auto simp: safe_method_def route_serves_def)
  with get_routes_scrub [OF ro(1)] Some show ?thesis by (simp add: serve_mux_def)
qed (simp add: serve_mux_def)

text \<open>
  C33. What the admin API answers to a request of a safe method does not depend on the private
  signing keys, the hashes of tokens and passwords, security stamps, codes, reset links or cookie
  keys in the stores: two states that agree on the rest get the same answer.
\<close>

theorem admin_reads_no_secrets:
  assumes "safe_method (req_Method r)" "scrub v = scrub w"
  shows "fst (admin_serve cr lib marshal rt t (mem_admin_auth cr rt' tok anon role cm) (mem_admin_api cr rt' ip) path r v) =
    fst (admin_serve cr lib marshal rt t (mem_admin_auth cr rt' tok anon role cm) (mem_admin_api cr rt' ip) path r w)"
proof -
  let ?run = "\<lambda>w. fst (admin_serve cr lib marshal rt t (mem_admin_auth cr rt' tok anon role cm) (mem_admin_api cr rt' ip) path r w)"
  have "?run (scrub x) = ?run x" for x
    unfolding admin_serve_def
    by (rule gate_scrub) (simp add: CSRFMiddleware_def assms(1) serve_mux_scrub)
  from this [of v] this [of w] assms(2) show ?thesis by simp
qed

subsection \<open>Registered clients\<close>

text \<open>Every handler but those of the clients leaves the clients alone.\<close>

lemma mem_client_frames [simp]:
  "w_clients (snd (us_CreateUser (mem_users cr rt) u p w)) = w_clients w"
  "w_clients (snd (us_UpdateUser (mem_users cr rt) u w)) = w_clients w"
  "w_clients (snd (us_DeleteUser (mem_users cr rt) i w)) = w_clients w"
  "w_clients (snd (us_SetPassword (mem_users cr rt) i p w)) = w_clients w"
  "w_clients (snd (ss_Revoke mem_sessions sid t w)) = w_clients w"
  "w_clients (snd (ss_RevokeByUserIDExcept mem_sessions i keep t w)) = w_clients w"
  "w_clients (snd (rts_Revoke mem_refresh_tokens sid t w)) = w_clients w"
  "w_clients (snd (rts_RevokeBySessionID mem_refresh_tokens sid t w)) = w_clients w"
  "w_clients (snd (prs_InvalidateForUser mem_resets i t w)) = w_clients w"
  "w_clients (snd (sks_Store mem_signing_keys k w)) = w_clients w"
  "w_clients (snd (scs_Store mem_scopes sc w)) = w_clients w"
  "w_clients (snd (scs_Delete mem_scopes i w)) = w_clients w"
  "w_clients (snd (ud_ReplaceUserClaims mem_directory i cs w)) = w_clients w"
  "w_clients (snd (ud_AddToRoles mem_directory i ns w)) = w_clients w"
  "w_clients (snd (ud_RemoveFromRoles mem_directory i ns w)) = w_clients w"
  "w_clients (snd (ud_RemoveLogin mem_directory i ln pk w)) = w_clients w"
  "w_clients (snd (ros_CreateRole mem_roles ro w)) = w_clients w"
  "w_clients (snd (ros_UpdateRole mem_roles ro w)) = w_clients w"
  "w_clients (snd (ros_DeleteRole mem_roles i w)) = w_clients w"
  "w_clients (snd (ros_ReplaceRoleClaims mem_roles i cs w)) = w_clients w"
  "w_clients (write_audit (Some mem_audit_logs) e w) = w_clients w"
  by (simp_all add: mem_users_def mem_sessions_def mem_refresh_tokens_def mem_resets_def mem_signing_keys_def
      mem_scopes_def mem_directory_def mem_roles_def write_audit_def mem_audit_logs_def)

lemma keeps_clients: "op w = (res, w1) \<Longrightarrow> (\<And>w. w_clients (snd (op w)) = w_clients w) \<Longrightarrow> w_clients w1 = w_clients w"
  by (metis snd_conv)

lemma loops_clients [simp]:
  "w_clients (snd (revoke_tokens mem_refresh_tokens t ids w)) = w_clients w"
  "w_clients (snd (revoke_noting mem_refresh_tokens t ids w)) = w_clients w"
  "w_clients (revoke_each mem_refresh_tokens t ids w) = w_clients w"
proof -
  show each: "w_clients (revoke_each mem_refresh_tokens t ids w) = w_clients w" for w
    by (induction ids arbitrary: w) simp_all
  show "w_clients (snd (revoke_tokens mem_refresh_tokens t ids w)) = w_clients w"
    "w_clients (snd (revoke_noting mem_refresh_tokens t ids w)) = w_clients w"
    by (simp_all add: revoke_tokens_each revoke_noting_each each)
qed

lemma Rotate_clients [simp]: "w_clients (snd (Rotate cr mem_signing_keys rt site w)) = w_clients w"
proof -
  have gen: "w_clients (snd (generateActive cr mem_signing_keys rt site w)) = w_clients w" for w
    by (auto simp: generateActive_def case_prod_beta Let_def split: option.split)
  show ?thesis
    by (auto simp: Rotate_def case_prod_beta gen split: sum.split option.split)
qed

lemma cleanup_clients [simp]:
  "w_clients (snd (stamp_user cr rt (mem_admin_api cr' rt' ip) i w)) = w_clients w"
  "w_clients (snd (password_cleanup cr rt (mem_admin_api cr' rt' ip) i w)) = w_clients w"
  "w_clients (auditPasswordSet rt (mem_admin_api cr' rt' ip) ctx r i n w) = w_clients w"
proof -
  show s: "w_clients (snd (stamp_user cr rt (mem_admin_api cr' rt' ip) i w)) = w_clients w" for w
    by (auto simp: stamp_user_def case_prod_beta split: sum.split)
  show "w_clients (snd (password_cleanup cr rt (mem_admin_api cr' rt' ip) i w)) = w_clients w"
    by (simp add: password_cleanup_def case_prod_beta s)
  show "w_clients (auditPasswordSet rt (mem_admin_api cr' rt' ip) ctx r i n w) = w_clients w"
    by (simp add: auditPasswordSet_def)
qed

lemma snd_deleted [simp]: "snd (deleted res) = snd res"
  by (simp add: deleted_def split: prod.split option.split)

lemma snd_updated [simp]: "snd (updated res) = snd res"
  by (simp add: updated_def split: prod.split option.split)

lemma other_handlers_clients:
  fixes cr :: crypto and rt :: runtime and ip
  defines "a \<equiv> mem_admin_api cr rt ip"
  shows "w_clients (snd (createScope a r w)) = w_clients w" "w_clients (snd (updateScope a i r w)) = w_clients w"
    "w_clients (snd (deleteScope a i w)) = w_clients w"
    "w_clients (snd (admin_revokeSession cr' rt' a i w)) = w_clients w"
    "w_clients (snd (revokeRefreshToken cr' rt' a i w)) = w_clients w"
    "w_clients (snd (rotateSigningKey cr' rt' a w)) = w_clients w"
    "w_clients (snd (admin_createUser cr' rt' a r w)) = w_clients w"
    "w_clients (snd (admin_updateUser rt' a i r w)) = w_clients w"
    "w_clients (snd (admin_deleteUser rt' a i w)) = w_clients w"
    "w_clients (snd (unlockUser rt' a i w)) = w_clients w"
    "w_clients (snd (setUserClaims a i r w)) = w_clients w" "w_clients (snd (setUserRoles a i r w)) = w_clients w"
    "w_clients (snd (removeUserLogin a i ln pk w)) = w_clients w"
    "w_clients (snd (setUserPassword cr' rt' a i ctx r w)) = w_clients w"
    "w_clients (snd (createRole cr' rt' a r w)) = w_clients w" "w_clients (snd (updateRole a i r w)) = w_clients w"
    "w_clients (snd (deleteRole a i w)) = w_clients w" "w_clients (snd (setRoleClaims a i r w)) = w_clients w"
  unfolding a_def
  by (simp_all add: createScope_def updateScope_def deleteScope_def store_scope_def admin_revokeSession_def
      revokeRefreshToken_def rotateSigningKey_def admin_createUser_def admin_updateUser_def save_user_def
      admin_deleteUser_def unlockUser_def setUserClaims_def setUserRoles_def remove_roles_def add_roles_to_def
      removeUserLogin_def setUserPassword_def createRole_def updateRole_def deleteRole_def setRoleClaims_def
      case_prod_beta Let_def split: option.split sum.split bool.split)

text \<open>What the API lets into the store of clients: normalised and valid, keys included.\<close>

definition registered_well :: "client \<Rightarrow> bool" where
  "registered_well c \<longleftrightarrow> normalize c = c \<and> client_refused c = None"

definition clients_registered :: "world \<Rightarrow> bool" where
  "clients_registered w \<longleftrightarrow>
    (\<forall>i c. gm_get (w_clients w) i = Some c \<longrightarrow> c_ClientID c = i \<and> registered_well c)"

lemma clients_registered_cong: "w_clients v = w_clients w \<Longrightarrow> clients_registered v = clients_registered w"
  by (simp add: clients_registered_def)

lemma store_client_registered:
  assumes "clients_registered w"
  shows "clients_registered (snd (store_client (mem_admin_api cr rt ip) s c w))"
proof (cases "client_refused (normalize c)")
  case None
  then have "registered_well (normalize c)" by (simp add: registered_well_def normalize_idem_aux)
  with assms None show ?thesis
    by (auto simp: store_client_def Let_def mem_clients_def zoom_eq client_Store_def clients_registered_def
        split: option.split)
qed (use assms in \<open>simp add: store_client_def Let_def\<close>)

lemma client_handlers_registered:
  assumes "clients_registered w"
  shows "clients_registered (snd (createClient (mem_admin_api cr rt ip) r w))"
    "clients_registered (snd (updateClient (mem_admin_api cr rt ip) i r w))"
    "clients_registered (snd (deleteClient (mem_admin_api cr rt ip) i w))"
proof -
  show "clients_registered (snd (createClient (mem_admin_api cr rt ip) r w))"
    using assms store_client_registered by (simp add: createClient_def split: option.split)
  show "clients_registered (snd (updateClient (mem_admin_api cr rt ip) i r w))"
    using assms store_client_registered by (simp add: updateClient_def split: option.split sum.split)
  show "clients_registered (snd (deleteClient (mem_admin_api cr rt ip) i w))"
    using assms by (auto simp: deleteClient_def mem_clients_def zoom_eq client_Delete_def clients_registered_def
        split: option.split if_splits)
qed

lemma routes_registered:
  assumes "ro \<in> set (admin_routes cr marshal rt (mem_admin_api cr rt' ip))" "clients_registered w"
  shows "clients_registered (snd (ro_Handler ro vs ctx r w))"
  using assms client_handlers_registered [OF assms(2)]
  by (auto simp: admin_routes_def client_routes_def token_routes_def user_routes_def api_route_def reads_def
      other_handlers_clients [THEN clients_registered_cong])

lemma serve_mux_registered:
  assumes "clients_registered w"
  shows "clients_registered (snd (serve_mux (admin_routes cr marshal rt (mem_admin_api cr rt' ip)) path ctx r w))"
proof (cases "find (route_serves (req_Method r) path) (admin_routes cr marshal rt (mem_admin_api cr rt' ip))")
  case (Some ro)
  then have "ro \<in> set (admin_routes cr marshal rt (mem_admin_api cr rt' ip))" by (auto dest: find_Some_set)
  from routes_registered [OF this assms] Some show ?thesis by (simp add: serve_mux_def)
qed (use assms in \<open>simp add: serve_mux_def\<close>)

lemma admin_serve_registered:
  assumes "clients_registered w"
  shows "clients_registered (snd (admin_serve cr lib marshal rt t cfg (mem_admin_api cr rt' ip) path r w))"
proof -
  let ?mux = "serve_mux (admin_routes cr marshal rt (mem_admin_api cr rt' ip)) path"
  obtain out w' where run: "AuthMiddleware cr lib t cfg (CSRFMiddleware ?mux) r w = (out, w')" by fastforce
  from AuthMiddleware_cases [OF run] have "clients_registered w'"
  proof
    assume "\<exists>ctx out0 h. admitted cr lib t cfg r w ctx \<and> CSRFMiddleware ?mux ctx r w = (out0, w') \<and> out = add_header h out0"
    then obtain ctx out0 where csrf: "CSRFMiddleware ?mux ctx r w = (out0, w')" by blast
    from CSRFMiddleware_cases [OF csrf] serve_mux_registered [OF assms, of cr marshal rt rt' ip path ctx r] assms
    show ?thesis by auto
  qed (simp add: assms)
  with run show ?thesis by (simp add: admin_serve_def)
qed

text \<open>Any sequence of requests, each with its clock and randomness.\<close>

record admin_request =
  aq_Runtime :: runtime
  aq_Time :: time
  aq_Path :: "string list"
  aq_Request :: http_request

definition admin_step ::
  "crypto \<Rightarrow> cookie_lib \<Rightarrow> (jwk list \<Rightarrow> string option) \<Rightarrow> world auth_config \<Rightarrow> (http_request \<Rightarrow> string) option
    \<Rightarrow> admin_request \<Rightarrow> world \<Rightarrow> world" where
  "admin_step cr lib marshal cfg ip q w =
    snd (admin_serve cr lib marshal (aq_Runtime q) (aq_Time q) cfg (mem_admin_api cr (aq_Runtime q) ip)
      (aq_Path q) (aq_Request q) w)"

text \<open>
  C34. Starting from a store where it holds, such as the empty one, every sequence of admin
  requests leaves a store of clients in which each client is filed under its own id, is in normal
  form, passes validation and, if it signs its assertions, has a JWKS with a key.
\<close>

theorem admin_keeps_clients_registered:
  assumes "clients_registered w"
  shows "clients_registered (fold (admin_step cr lib marshal cfg ip) qs w)"
  using assms
  by (induction qs arbitrary: w) (simp_all add: admin_step_def admin_serve_registered)

subsection \<open>Witnesses\<close>

text \<open>The operator deletes a client with the configured token.\<close>

definition token_cfg :: "world auth_config" where
  "token_cfg = mem_admin_auth sample_crypto sample_rt ''secret'' False [] plain_manager"

definition token_request :: "string \<Rightarrow> http_request" where
  "token_request m = (json_request m [] [])\<lparr>req_Header := [(''X-Admin-Token'', ''secret'')]\<rparr>"

definition delete_client_run :: "outcome \<times> world" where
  "delete_client_run = admin_serve sample_crypto plain_lib (\<lambda>_. None) sample_rt 1000 token_cfg admin_sample
     [''api'', ''clients'', ''app''] (token_request ''DELETE'') account_world"

lemma token_request_reads:
  "extractAdminToken (token_request m) = ''secret''" "req_Method (token_request m) = m"
  by (simp_all add: token_request_def extractAdminToken_def header_get_def json_request_def Let_def has_prefix_def)

lemma delete_client_ok: "status_of (fst delete_client_run) = Some 204"
proof -
  have route: "serve_mux (admin_routes sample_crypto (\<lambda>_. None) sample_rt admin_sample) [''api'', ''clients'', ''app''] ctx
      (token_request ''DELETE'') w = deleteClient admin_sample ''app'' w" for ctx w
    by (simp add: serve_mux_def admin_routes_def client_routes_def token_routes_def user_routes_def api_route_def
        route_serves_def token_request_reads arg_def)
  have "status_of (fst (deleteClient admin_sample ''app'' account_world)) = Some 204"
    by (simp add: deleteClient_def admin_sample_def mem_clients_def zoom_eq client_Delete_def sample_simps deleted_def
        no_content_def)
  then show ?thesis
    by (simp add: delete_client_run_def admin_serve_def AuthMiddleware_def token_cfg_def token_request_reads Let_def
        case_prod_beta CSRFMiddleware_def route)
qed

theorem admin_gate_witness:
  "\<exists>ctx. admitted sample_crypto plain_lib 1000 token_cfg (token_request ''DELETE'') account_world ctx \<and>
    (ax_Method ctx = AuthToken \<or> double_submit (token_request ''DELETE''))"
proof -
  have "admin_serve sample_crypto plain_lib (\<lambda>_. None) sample_rt 1000 token_cfg admin_sample
     [''api'', ''clients'', ''app''] (token_request ''DELETE'') account_world = (fst delete_client_run, snd delete_client_run)"
    by (simp add: delete_client_run_def)
  from admin_gate [OF this] show ?thesis
    using delete_client_ok by (auto simp: safe_method_def token_request_reads)
qed

text \<open>Another private key behind the same public one.\<close>

definition rekeyed_world :: world where
  "rekeyed_world = account_world\<lparr>w_signing := [(''k1'', sample_key\<lparr>sk_PrivateKeyPEM := ''other''\<rparr>)]\<rparr>"

theorem admin_reads_no_secrets_witness:
  "rekeyed_world \<noteq> account_world \<and>
   fst (admin_serve sample_crypto plain_lib (\<lambda>_. None) sample_rt 1000 token_cfg admin_sample
     [''api'', ''keys''] (token_request ''GET'') rekeyed_world) =
   fst (admin_serve sample_crypto plain_lib (\<lambda>_. None) sample_rt 1000 token_cfg admin_sample
     [''api'', ''keys''] (token_request ''GET'') account_world)"
proof
  have "w_signing rekeyed_world \<noteq> w_signing account_world"
    by (simp add: rekeyed_world_def sample_simps) (simp add: sample_key_def)
  then show "rekeyed_world \<noteq> account_world" by auto
  have safe: "safe_method (req_Method (token_request ''GET''))" by (simp add: token_request_reads safe_method_def)
  have same: "scrub rekeyed_world = scrub account_world"
    by (simp add: scrub_def rekeyed_world_def sample_simps gm_map_def scrub_key_def)
  show "fst (admin_serve sample_crypto plain_lib (\<lambda>_. None) sample_rt 1000 token_cfg admin_sample
     [''api'', ''keys''] (token_request ''GET'') rekeyed_world) =
   fst (admin_serve sample_crypto plain_lib (\<lambda>_. None) sample_rt 1000 token_cfg admin_sample
     [''api'', ''keys''] (token_request ''GET'') account_world)"
    using admin_reads_no_secrets [OF safe same] by (simp add: token_cfg_def admin_sample_def)
qed

text \<open>A registration and a deletion on an empty store.\<close>

theorem admin_keeps_clients_registered_witness:
  "clients_registered (fold (admin_step sample_crypto plain_lib (\<lambda>_. None) token_cfg None)
     [\<lparr>aq_Runtime = sample_rt, aq_Time = 1000, aq_Path = [''api'', ''clients''],
       aq_Request = (token_request ''POST'')\<lparr>req_Body := Some (JObj [(''client_id'', JStr ''spa'')])\<rparr>\<rparr>,
      \<lparr>aq_Runtime = sample_rt, aq_Time = 1001, aq_Path = [''api'', ''clients'', ''app''],
       aq_Request = token_request ''DELETE''\<rparr>] empty_world)"
proof -
  have "clients_registered empty_world" by (simp add: clients_registered_def empty_world_def)
  then show ?thesis by (rule admin_keeps_clients_registered)
qed

text \<open>Alice becomes an administrator.\<close>

definition roles_request :: http_request where
  "roles_request = json_request ''PUT'' [] [(''roles'', JArr [JStr ''Admin''])]"

theorem roles_set_exactly_witness:
  "\<exists>roles. user_GetUserRoles ''alice'' (w_users (snd (setUserRoles admin_sample ''alice'' roles_request account_world))) = Inr roles \<and>
    containsString roles ''admin''"
proof -
  let ?run = "setUserRoles (mem_admin_api sample_crypto sample_rt None) ''alice'' roles_request account_world"
  have read: "read_body roles_fields [] roles_request = Some [''Admin'']" by code_simp
  have fold: "containsString [''Admin''] ''admin''" by code_simp
  have "status_of (fst ?run) = Some 204"
    using read by (simp add: setUserRoles_def mem_users_def user_GetUserRoles_def of_user_def sample_simps get_list_def
        remove_roles_def add_roles_to_def containsString_def mem_directory_def zoom_eq user_AddToRoles_def for_user_def no_content_def
        NewUserStore_def)
  from roles_set_exactly [of sample_crypto sample_rt None "''alice''" roles_request account_world "fst ?run" "snd ?run", OF _ this]
  obtain wanted roles where r: "read_body roles_fields [] roles_request = Some wanted"
    "user_GetUserRoles ''alice'' (w_users (snd ?run)) = Inr roles" "containsString roles ''admin'' = containsString wanted ''admin''"
    by auto
  with read fold show ?thesis by (auto simp: admin_sample_def)
qed

end
