(* ===== verification/Server_Properties.thy ===== *)
theory Server_Properties
  imports Server Admin_Properties
begin

section \<open>Properties of the server as a whole\<close>

subsection \<open>The route table of the server\<close>

lemma wire_handlers_simps [simp]:
  "hd_Login (wire_handlers ev cfg b rt) = Some (login_serve (ev_crypto ev) (ev_cookies ev) rt (wire_login cfg (ev_keys ev) b))"
  "hd_Admin (wire_handlers ev cfg b rt) = Some (wire_admin ev cfg b rt)"
  by (simp_all add: wire_handlers_def Let_def)

text \<open>Below \<open>/admin/api/\<close> only the admin handler answers.\<close>

lemma admin_dispatch:
  assumes "has_prefix (req_Path r) ''/admin/api/''"
  shows "dispatch (server_routes lib t (wire_router cfg) (wire_handlers ev cfg b rt)) r s =
    (if req_Method r \<in> set chi_methods then direct (wire_admin ev cfg b rt) r s else (Response (plain_response 405), s))"
proof -
  have other: "req_Path r \<noteq> p" if "\<not> has_prefix p ''/admin/api/''" for p using assms that by auto
  have "find (\<lambda>(m, p, h). method_matches m (req_Method r) \<and> path_matches p (req_Path r))
      (server_routes lib t (wire_router cfg) (wire_handlers ev cfg b rt)) =
      Some (AnyMethod, Below ''/admin/api/'', direct (wire_admin ev cfg b rt))"
    using assms
    by (simp add: server_routes_def api_routes_def protocol_routes_def mount_at_def mount_def wire_handlers_def Let_def
        wire_router_def path_matches_def method_matches_def other has_prefix_def)
  then show ?thesis by (simp add: dispatch_def)
qed

text \<open>Behind the limiters.\<close>

fun limited_path :: "limited_route \<Rightarrow> string" where
  "limited_path LimitLogin = ''/api/auth/login''"
| "limited_path LimitRegister = ''/api/auth/register''"
| "limited_path LimitForgot = ''/api/auth/forgot-password''"
| "limited_path LimitReset = ''/api/auth/reset-password''"
| "limited_path LimitPassword = ''/api/account/profile/password''"

lemma limited_dispatch:
  assumes "req_Path r = limited_path k"
  shows "(\<exists>h. dispatch (server_routes lib t (wire_router cfg) (wire_handlers ev cfg b rt)) r s = limited lib t k h r s) \<or>
    dispatch (server_routes lib t (wire_router cfg) (wire_handlers ev cfg b rt)) r s = (Response (plain_response 405), s)"
proof -
  let ?routes = "server_routes lib t (wire_router cfg) (wire_handlers ev cfg b rt)"
  let ?hit = "\<lambda>(m, p, h). method_matches m (req_Method r) \<and> path_matches p (req_Path r)"
  have "(\<exists>m p h. find ?hit ?routes = Some (m, p, limited lib t k h)) \<or>
      (find ?hit ?routes = None \<and> list_ex (\<lambda>(m, p, h). path_matches p (req_Path r)) ?routes)"
    using assms
    by (cases k) (auto simp: server_routes_def api_routes_def protocol_routes_def mount_at_def mount_def wire_handlers_def Let_def
        wire_router_def path_matches_def method_matches_def has_prefix_def)
  then show ?thesis by (auto simp: dispatch_def)
qed

subsection \<open>The headers a handler sets\<close>

text \<open>
  The middlewares set their headers before the handler runs, and what a handler sets itself wins. A handler
  leaves them alone, or sets one of two to the value it has: the reset page its referrer policy, and
  \<open>http.Error\<close> the content type options.
\<close>

definition own_header :: "string \<times> string \<Rightarrow> bool" where
  "own_header h \<longleftrightarrow>
    fst h \<notin> {''X-Content-Type-Options'', ''X-Frame-Options'', ''Referrer-Policy'', ''Cross-Origin-Opener-Policy'',
      ''Cross-Origin-Resource-Policy'', ''Permissions-Policy'', ''Strict-Transport-Security'', ''X-Request-Id''} \<or>
    h = (''X-Content-Type-Options'', ''nosniff'') \<or> h = (''Referrer-Policy'', ''no-referrer'')"

fun own_out :: "outcome \<Rightarrow> bool" where
  "own_out (Response x) = list_all own_header (resp_headers x)"
| "own_out Panicked = True"

definition own_run :: "outcome \<times> 'w \<Rightarrow> bool" where "own_run p \<longleftrightarrow> own_out (fst p)"
definition own_check :: "outcome + 'a \<Rightarrow> bool" where "own_check s \<longleftrightarrow> (case s of Inl out \<Rightarrow> own_out out | Inr _ \<Rightarrow> True)"
definition own_step :: "(outcome + 'a) \<times> 'w \<Rightarrow> bool" where "own_step p \<longleftrightarrow> own_check (fst p)"

lemma own_simps [simp]:
  "own_run (out, w) = own_out out" "own_check (Inl out) = own_out out" "own_check (Inr v)" "own_step (s, w) = own_check s"
  by (simp_all add: own_run_def own_check_def own_step_def)

declare own_out.simps(1) [simp del]

text \<open>One rule for each construct a handler is made of.\<close>

lemma branches:
  fixes P :: "'a \<Rightarrow> bool"
  shows "(b \<Longrightarrow> P x) \<Longrightarrow> (\<not> b \<Longrightarrow> P y) \<Longrightarrow> P (if b then x else y)"
    "P (f v) \<Longrightarrow> P (Let v f)"
    "(\<And>a c. p = (a, c) \<Longrightarrow> P (g a c)) \<Longrightarrow> P (case p of (a, c) \<Rightarrow> g a c)"
    "(opt = None \<Longrightarrow> P x) \<Longrightarrow> (\<And>v. opt = Some v \<Longrightarrow> P (h v)) \<Longrightarrow> P (case opt of None \<Rightarrow> x | Some v \<Rightarrow> h v)"
    "(\<And>e. s = Inl e \<Longrightarrow> P (l e)) \<Longrightarrow> (\<And>v. s = Inr v \<Longrightarrow> P (k v)) \<Longrightarrow> P (case s of Inl e \<Rightarrow> l e | Inr v \<Rightarrow> k v)"
    "(b \<Longrightarrow> P x) \<Longrightarrow> (\<not> b \<Longrightarrow> P y) \<Longrightarrow> P (case b of True \<Rightarrow> x | False \<Rightarrow> y)"
    "(\<And>a c. p = (a, c) \<Longrightarrow> P (m a c z)) \<Longrightarrow> P ((case p of (a, c) \<Rightarrow> m a c) z)"
  by (simp_all split: prod.split option.split sum.split bool.split)

lemmas own_rules = branches [where P = own_out] branches [where P = own_run] branches [where P = own_check]
  branches [where P = own_step]

lemma own_from:
  "s = Inl out \<Longrightarrow> own_check s \<Longrightarrow> own_out out"
  "p = (Inl out, w) \<Longrightarrow> own_step p \<Longrightarrow> own_out out"
  "q = (out, w) \<Longrightarrow> own_run q \<Longrightarrow> own_out out"
  by auto

lemma own_sets [simp]:
  "own_out (Response (x\<lparr>resp_headers := hs\<rparr>)) = list_all own_header hs"
  "own_out (Response (x\<lparr>resp_cookies := cs\<rparr>)) = own_out (Response x)"
  "own_out (Response (x\<lparr>resp_body := b\<rparr>)) = own_out (Response x)"
  "list_all own_header json_headers" "list_all own_header public_cache_headers"
  "own_header (''Allow'', v)" "own_header (''Content-Type'', v)" "own_header (''WWW-Authenticate'', v)"
  by (simp_all add: own_out.simps own_header_def json_headers_def no_store_headers_def public_cache_headers_def)

lemma own_answers [simp]:
  "own_out (Response (plain_response n))" "own_out (Response (json_response n b))" "own_out (Response (error_response n c d))"
  "own_out (Response (server_error m))" "own_out (Response (invalid_client_response d))" "own_out (Response (redirect_to n loc))"
  "own_out (Response (json_redirect n loc))" "own_out (writeJSON n b)"
  "own_out (token_ok t)" "own_out (writeClientAuthError e)" "own_out (method_not_allowed a)" "own_out post_only"
  "own_out (login_error n c)" "own_out (register_error n c)" "own_out (profile_error n c)" "own_out (forgot_error n c)"
  "own_out (reset_error n c)" "own_out (bearer_error n c d h)"
  "own_out (invalidToken d)" "own_out (forbidden d)" "own_out rate_limited" "own_out (admin_json n b)"
  "own_out (writeAuthError n m)" "own_out unauthorized" "own_out (admin_error n m)" "own_out (lookup_error m se)"
  "own_out (listing js n)" "own_out get_only" "own_out no_content" "own_out session_not_found"
  by (simp_all add: own_out.simps own_header_def plain_response_def json_response_def json_headers_def no_store_headers_def
      error_response_def
      server_error_def invalid_client_response_def redirect_to_def json_redirect_def add_cookies_def writeJSON_def token_ok_def
      writeClientAuthError_def method_not_allowed_def login_error_def register_error_def profile_error_def forgot_error_def
      reset_error_def reset_headers_def bearer_error_def invalidToken_def forbidden_def rate_limited_def admin_json_def
      admin_headers_def writeAuthError_def unauthorized_def add_header_def admin_error_def lookup_error_def listing_def
      post_only_def get_only_def no_content_def session_not_found_def public_cache_headers_def Let_def)

lemma own_wraps [simp]: "own_out (add_cookies cs out) = own_out out" "own_out (reset_headers out) = own_out out"
  by (cases out; simp add: add_cookies_def reset_headers_def own_header_def own_out.simps)+

lemma own_steps [simp, intro!]:
  "own_check (authcode_check cr acg rt clo form w)" "own_run (authcode_refresh cr acg rt cl ac ui tr w)"
    "own_check (refresh_check cr rg rt clo form w)" "own_run (handleReuse cr rg rt rte w)"
    "own_run (refresh_rotate cr rg rt cl rte st sl tr w)" "own_run (client_creds_handle cr ccg rt clo form w)"
    "own_run (revoke_serve cr rh rt rq w)" "own_out (csrf_serve rt b rq)" "own_out (authorize_redirect_err rq st st2)"
    "own_out (authorize_login acb rq)" "own_check (login_request lh rq)" "own_step (login_check rt lh rq st st2 w)"
    "own_run (login_session cr lib rt lh rq ui st w)" "own_run (register_serve cr rt rhb rq w)"
    "own_out (handleEntry cr rt lhd rq w)" "own_run (handleConfirm cr lib rt lhd rq w)"
    "own_out (getProfile cr rt ph se w)" "own_run (revokeSession cr rt ph rq se w)"
    "own_run (revokeOthers rt ph rq se w)" "own_check (change_request ph rq)" "own_step (change_verify ph rq se st w)"
    "own_run (change_apply cr rt ph rq se u st w)" "own_out (home_serve us als so rq w)"
    "own_out (whoami_serve cr lib rt sr us st rq w)" "own_check (reset_request cr rt rhc rq w)"
    "own_run (reset_change cr rt rhc rq st st2 w)" "own_out (userinfo_serve cr rt uh rq w)"
    "own_out (discovery_serve st ss w)" "own_run (jwks_serve cr rt i w)" "own_run (health_serve hh w)"
  unfolding authcode_check_def authcode_refresh_def refresh_check_def handleReuse_def refresh_rotate_def
    client_creds_handle_def revoke_serve_def csrf_serve_def authorize_redirect_err_def authorize_login_def
    login_request_def login_check_def login_session_def register_serve_def handleEntry_def handleConfirm_def
    getProfile_def revokeSession_def revokeOthers_def change_request_def change_verify_def change_apply_def
    home_serve_def whoami_serve_def reset_request_def reset_change_def userinfo_serve_def discovery_serve_def
    jwks_serve_def health_serve_def
  by ((intro own_rules)?; (simp (no_asm); fail)?; auto intro: own_from)+

lemma own_client_refused: "client_refused c = Some out \<Longrightarrow> own_out out"
  by (auto simp: client_refused_def split: if_splits option.splits)

lemma own_admin_steps [simp, intro!]:
  "own_out (paged_answer ij sep)" "own_run (store_client aa n cl w)" "own_out (getClient aa st w)"
    "own_run (deleted seo)" "own_out (generateClientJWKS cr jli rt)" "own_out (listScopes aa w)"
    "own_run (store_scope aa n s w)" "own_run (admin_revokeSession cr rt aa st w)"
    "own_run (revokeRefreshToken cr rt aa st w)" "own_out (listSigningKeys aa w)"
    "own_run (rotateSigningKey cr rt aa w)" "own_run (admin_createUser cr rt aa rq w)" "own_out (getUser aa st w)"
    "own_run (save_user aa st u w)" "own_out (getUserClaims aa st w)" "own_run (updated seo)"
    "own_out (getUserRoles aa st w)" "own_run (setUserRoles aa st rq w)" "own_out (getUserLogins aa st w)"
    "own_run (setUserPassword cr rt aa st acc rq w)" "own_out (listRoles aa w)" "own_run (createRole cr rt aa rq w)"
    "own_run (updateRole aa st rq w)" "own_out (getRoleClaims aa st w)"
  unfolding paged_answer_def store_client_def getClient_def deleted_def generateClientJWKS_def listScopes_def
    store_scope_def admin_revokeSession_def revokeRefreshToken_def listSigningKeys_def rotateSigningKey_def
    admin_createUser_def getUser_def save_user_def getUserClaims_def updated_def getUserRoles_def setUserRoles_def
    getUserLogins_def setUserPassword_def listRoles_def createRole_def updateRole_def getRoleClaims_def
  by ((intro own_rules)?; (simp (no_asm); fail)?; auto intro: own_from own_client_refused)+

lemma own_parts [simp, intro!]:
  "own_run (authcode_issue cr acg rt cl ac w)" "own_run (refresh_issue cr rg rt cl form rte w)"
    "own_check (authorize_max_age rq)" "own_check (authorize_gate rt rq d so)"
    "own_run (authorize_issue cr rt ah cl se rq w)" "own_run (login_serve cr lib rt lh rq w)"
    "own_run (logout_serve cr lib rt lhd rq w)" "own_run (changePassword cr rt ph rq se w)"
    "own_run (reset_serve cr rt rhc rq w)"
  unfolding authcode_issue_def refresh_issue_def authorize_max_age_def authorize_gate_def authorize_issue_def
    login_serve_def logout_serve_def changePassword_def reset_serve_def
  by ((intro own_rules)?; (simp (no_asm); fail)?; auto intro: own_from)+

lemma own_admin_parts [simp, intro!]:
  "own_run (createClient aa rq w)" "own_run (updateClient aa st rq w)" "own_run (deleteClient aa st w)"
    "own_out (listClients aa rq w)" "own_run (createScope aa rq w)" "own_run (updateScope aa st rq w)"
    "own_run (deleteScope aa st w)" "own_out (listSessions cr aa rq w)" "own_out (listRefreshTokens cr aa rq w)"
    "own_out (listAuditLogs cr aa rq w)" "own_out (listUsers aa rq w)" "own_run (admin_updateUser rt aa st rq w)"
    "own_run (unlockUser rt aa st w)" "own_run (admin_deleteUser rt aa st w)" "own_run (setUserClaims aa st rq w)"
    "own_run (removeUserLogin aa st st2 st3 w)" "own_run (deleteRole aa st w)" "own_run (setRoleClaims aa st rq w)"
  unfolding createClient_def updateClient_def deleteClient_def listClients_def createScope_def updateScope_def
    deleteScope_def listSessions_def listRefreshTokens_def listAuditLogs_def listUsers_def admin_updateUser_def
    unlockUser_def admin_deleteUser_def setUserClaims_def removeUserLogin_def deleteRole_def setRoleClaims_def
  by ((intro own_rules)?; (simp (no_asm); fail)?; auto intro: own_from)+

lemma own_phases [simp, intro!]:
  "own_run (authcode_handle cr acg rt clo form w)" "own_run (refresh_handle cr rg rt clo form w)"
    "own_check (authorize_validate ah rq w)" "own_run (profile_serve cr rt ph so rq w)"
  unfolding authcode_handle_def refresh_handle_def authorize_validate_def profile_serve_def
  by ((intro own_rules)?; (simp (no_asm); fail)?; auto intro: own_from)+

lemma own_grants [simp, intro!]:
  "own_run (token_dispatch cr th rt cl form w)" "own_run (authorize_serve cr lib rt ah rq w)"
  unfolding token_dispatch_def authorize_serve_def
  by ((intro own_rules)?; (simp (no_asm); fail)?; auto intro: own_from)+

lemma own_dispatch [simp, intro!]:
  "own_run (token_serve cr th rt rq w)"
  unfolding token_serve_def
  by ((intro own_rules)?; (simp (no_asm); fail)?; auto intro: own_from)+

text \<open>What wraps a handler: the session guard, the admin middlewares and its routes, the limiters.\<close>

lemma own_guard: "(\<And>s r w. own_run (nxt s r w)) \<Longrightarrow> own_run (RequireSession cr lib t sr nxt rq w)"
  unfolding RequireSession_def by ((intro own_rules)?; auto)

lemma own_add_header [simp]: "own_out (add_header (''X-Admin-Auth'', v) out) = own_out out"
  by (cases out) (simp_all add: add_header_def own_out.simps own_header_def)

lemma own_admin_gate:
  assumes "\<And>ctx r w. own_run (nxt ctx r w)"
  shows "own_run (CSRFMiddleware nxt ctx rq w)" "own_run (session_gate cr lib t cfg sr us nxt rq w)"
    "own_run (AuthMiddleware cr lib t cfg nxt rq w)"
proof -
  have passes: "nxt ctx r w = (out, w') \<Longrightarrow> own_out out" for ctx r w out w'
    using assms [of ctx r w] by simp
  show "own_run (CSRFMiddleware nxt ctx rq w)"
    unfolding CSRFMiddleware_def by ((intro own_rules)?; simp add: assms)
  show gate: "own_run (session_gate cr lib t cfg sr us nxt rq w)" for sr us
    unfolding session_gate_def by ((intro own_rules)?; auto dest: passes)
  show "own_run (AuthMiddleware cr lib t cfg nxt rq w)"
    unfolding AuthMiddleware_def by ((intro own_rules)?; auto dest: passes simp: gate)
qed

lemma own_api [simp]: "own_run (serve_mux (admin_routes cr marshal rt a) path ctx rq w)"
proof -
  have "own_run (ro_Handler ro vs ctx rq w)" if "ro \<in> set (admin_routes cr marshal rt a)" for ro vs
    using that
    by (auto simp: admin_routes_def client_routes_def token_routes_def user_routes_def api_route_def reads_def)
  then show ?thesis unfolding serve_mux_def by ((intro own_rules)?; auto dest: find_Some_set)
qed

lemma own_mailing [simp]: "own_run (mailing mailer (forgot_serve cr rt h rq w))"
proof -
  have "own_out (fst (fst (forgot_serve cr rt h rq w)))"
    unfolding forgot_serve_def by (simp add: Let_def split: option.split prod.split)
  then show ?thesis by (auto simp: mailing_def own_run_def split: prod.split)
qed

lemma own_wrapped:
  assumes "\<And>r w. own_run (h r w)"
  shows "own_run (direct h rq s)" "own_run (limited lib t k h rq s)"
proof -
  have "own_out (fst (h r w))" for r w using assms [of r w] by (simp add: own_run_def)
  then show "own_run (direct h rq s)" "own_run (limited lib t k h rq s)"
    by (auto simp: direct_def limited_def limit_middleware_def own_run_def split: prod.split bool.split) (metis fst_conv)+
qed

text \<open>Every route of the server.\<close>

lemma own_dispatched:
  assumes "\<forall>x \<in> set routes. \<forall>r s. own_run (snd (snd x) r s)"
  shows "own_run (dispatch routes rq s)"
  using assms unfolding dispatch_def
  by (auto split: option.split dest!: find_Some_set [THEN conjunct1] simp del: split_paired_All)

lemma own_served: "own_run (dispatch (server_routes lib t (wire_router cfg) (wire_handlers ev cfg b rt)) rq s)"
  by (rule own_dispatched)
    (simp add: server_routes_def api_routes_def protocol_routes_def mount_at_def mount_def wire_router_def wire_handlers_def
      Let_def answers_def wire_admin_def admin_serve_def own_wrapped own_guard own_admin_gate)

subsection \<open>Every request is answered\<close>

text \<open>The value of a header as it is sent: of two entries the first counts.\<close>

definition header_value :: "http_response \<Rightarrow> string \<Rightarrow> string option" where
  "header_value x k = map_of (resp_headers x) k"

lemma own_value:
  assumes "list_all own_header hs" "\<not> own_header (k, [])"
  shows "map_of hs k = None \<or> k = ''X-Content-Type-Options'' \<and> map_of hs k = Some ''nosniff'' \<or>
    k = ''Referrer-Policy'' \<and> map_of hs k = Some ''no-referrer''"
proof (cases "map_of hs k")
  case (Some v)
  then have "own_header (k, v)" using assms(1) by (auto simp: list_all_iff dest: map_of_SomeD)
  with assms(2) Some show ?thesis by (auto simp: own_header_def)
qed simp

lemma value_kept:
  assumes "list_all own_header hs" "\<not> own_header (k, [])"
    and "k = ''X-Content-Type-Options'' \<Longrightarrow> map_of base k = Some ''nosniff''" "k = ''Referrer-Policy'' \<Longrightarrow> map_of base k = Some ''no-referrer''"
  shows "map_of (hs @ base) k = map_of base k"
  using own_value [OF assms(1,2)] assms(3,4) by (auto simp: map_add_def)

text \<open>
  C30. Every request gets an answer, and it has the security headers with the values of the middleware,
  whatever the handler behind the route sets, and the id of the request. A handler that panics is
  answered 500; otherwise the status is the handler's. (No code of the repository panics with
  \<open>http.ErrAbortHandler\<close>, the one value the middleware passes on.)
\<close>

theorem server_always_answers:
  "\<exists>x. fst (server_serve ev cfg bundle rt r s) = Response x \<and>
    header_value x ''X-Content-Type-Options'' = Some ''nosniff'' \<and>
    header_value x ''X-Frame-Options'' = Some ''DENY'' \<and>
    header_value x ''Referrer-Policy'' = Some ''no-referrer'' \<and>
    header_value x ''Cross-Origin-Opener-Policy'' = Some ''same-origin'' \<and>
    header_value x ''Cross-Origin-Resource-Policy'' = Some ''same-origin'' \<and>
    header_value x ''Permissions-Policy'' = Some ''geolocation=(), microphone=(), camera=()'' \<and>
    header_value x ''Strict-Transport-Security'' =
      (if cf_RequireHTTPS cfg then Some ''max-age=31536000; includeSubDomains'' else None) \<and>
    header_value x ''X-Request-Id'' = Some (uuid_string (ev_crypto ev) (new_uuid rt 303)) \<and>
    resp_status x =
      (case fst (dispatch (server_routes (ev_rate ev) (now rt 302) (wire_router cfg) (wire_handlers ev cfg (bundle rt) rt))
          (ev_real_ip ev r) s) of
         Panicked \<Rightarrow> 500 | Response y \<Rightarrow> resp_status y)"
proof -
  let ?hs = "security_headers (cf_RequireHTTPS cfg) @ [(''X-Request-Id'', uuid_string (ev_crypto ev) (new_uuid rt 303))]"
  let ?out = "fst (dispatch (server_routes (ev_rate ev) (now rt 302) (wire_router cfg) (wire_handlers ev cfg (bundle rt) rt))
      (ev_real_ip ev r) s)"
  have "own_out ?out" using own_served by (simp add: own_run_def)
  then obtain x hs where x: "recovered ?hs (with_headers ?hs ?out) = Response x" "resp_headers x = hs @ ?hs" "list_all own_header hs"
    "resp_status x = (case ?out of Panicked \<Rightarrow> 500 | Response y \<Rightarrow> resp_status y)"
    by (cases ?out) (auto simp: recovered_def with_headers_def internal_error_def own_out.simps own_header_def plain_response_def)
  have keep: "header_value x k = map_of ?hs k" if "\<not> own_header (k, [])" for k
    unfolding header_value_def x(2) by (rule value_kept [OF x(3) that]) (simp_all add: security_headers_def)
  have "fst (server_serve ev cfg bundle rt r s) = Response x"
    using x(1) by (simp add: server_serve_def router_serve_def Let_def case_prod_beta wire_router_def)
  with x(4) show ?thesis
    by (intro exI [of _ x]) (simp add: keep own_header_def security_headers_def)
qed

lemma server_serve_run:
  assumes "server_serve ev cfg bundle rt r s = (out, s')"
  obtains o1 where "dispatch (server_routes (ev_rate ev) (now rt 302) (wire_router cfg) (wire_handlers ev cfg (bundle rt) rt))
      (ev_real_ip ev r) s = (o1, s')" "o1 \<noteq> Panicked \<Longrightarrow> status_of out = status_of o1"
proof -
  let ?d = "dispatch (server_routes (ev_rate ev) (now rt 302) (wire_router cfg) (wire_handlers ev cfg (bundle rt) rt))
      (ev_real_ip ev r) s"
  have "?d = (fst ?d, s')" using assms by (auto simp: server_serve_def router_serve_def Let_def case_prod_beta)
  moreover have "status_of out = status_of (fst ?d)" if "fst ?d \<noteq> Panicked"
    using assms that by (cases "fst ?d") (auto simp: server_serve_def router_serve_def Let_def case_prod_beta
        recovered_def with_headers_def)
  ultimately show thesis by (rule that)
qed

subsection \<open>Guessing is slowed down\<close>

text \<open>
  C29. A request to a credential endpoint, login, registration, both steps of a password reset and
  the password change, either takes a token from the bucket of its address at that endpoint, or it
  is answered 429, or 405 for a wrong method, and changes nothing but the buckets. A bucket that
  the sweep drops had refilled: the limiters of a loaded configuration have as much burst as rate.
\<close>

theorem credentials_are_limited:
  assumes "server_serve ev cfg bundle rt r s = (out, s')" "req_Path (ev_real_ip ev r) = limited_path k"
  shows "(fst (allow (ev_rate ev) (now rt 302) (ClientIP (ev_real_ip ev r)) (fst s k)) \<and>
      fst s' = (fst s)(k := snd (allow (ev_rate ev) (now rt 302) (ClientIP (ev_real_ip ev r)) (fst s k)))) \<or>
    (snd s' = snd s \<and> status_of out \<in> {Some 429, Some 405})"
proof -
  let ?r = "ev_real_ip ev r" and ?b = "bundle rt"
  let ?routes = "server_routes (ev_rate ev) (now rt 302) (wire_router cfg) (wire_handlers ev cfg ?b rt)"
  obtain o1 where d: "dispatch ?routes ?r s = (o1, s')" and status: "o1 \<noteq> Panicked \<Longrightarrow> status_of out = status_of o1"
    by (rule server_serve_run [OF assms(1)]) blast
  from limited_dispatch [OF assms(2), of "ev_rate ev" "now rt 302" cfg ev ?b rt s] show ?thesis
  proof
    assume "\<exists>h. dispatch ?routes ?r s = limited (ev_rate ev) (now rt 302) k h ?r s"
    then obtain h where "limited (ev_rate ev) (now rt 302) k h ?r s = (o1, s')" using d(1) by auto
    then show ?thesis
      using status by (auto simp: limited_def limit_middleware_def rate_limited_def case_prod_beta split: prod.splits bool.splits)
  qed (use d status in auto)
qed

subsection \<open>Administration\<close>

text \<open>
  On the whole server a request below \<open>/admin/api/\<close> changes something only if it is admitted,
  and, where anonymous use is off, then by the configured token or by a live session of a user
  with the admin role; it has an unsafe method and carries the token or echoes the CSRF cookie.
\<close>

theorem server_admin_changes:
  assumes "server_serve ev cfg bundle rt r (ls, w) = (out, (ls', w'))"
    and "has_prefix (req_Path (ev_real_ip ev r)) ''/admin/api/''" "\<not> cf_AdminAllowAnonymous cfg" "w' \<noteq> w"
  shows "\<exists>ctx. admitted (ev_crypto ev) (ev_cookies ev) (now rt 300) (wire_admin_auth cfg (ev_keys ev) (bundle rt))
      (ev_real_ip ev r) w ctx \<and> ax_Method ctx \<noteq> AuthAnonymous \<and>
    \<not> safe_method (req_Method (ev_real_ip ev r)) \<and> (ax_Method ctx = AuthToken \<or> double_submit (ev_real_ip ev r))"
proof -
  let ?r = "ev_real_ip ev r" and ?b = "bundle rt"
  obtain o1 where d: "dispatch (server_routes (ev_rate ev) (now rt 302) (wire_router cfg) (wire_handlers ev cfg ?b rt)) ?r (ls, w)
      = (o1, (ls', w'))" by (rule server_serve_run [OF assms(1)])
  then have run: "wire_admin ev cfg ?b rt ?r w = (o1, w')"
    using admin_dispatch [OF assms(2), of "ev_rate ev" "now rt 302" cfg ev ?b rt "(ls, w)"] assms(4)
    by (auto simp: direct_def split: if_splits prod.splits)
  from admin_gate [OF run [unfolded wire_admin_def]] assms(4) obtain ctx where
    adm: "admitted (ev_crypto ev) (ev_cookies ev) (now rt 300) (wire_admin_auth cfg (ev_keys ev) ?b) ?r w ctx"
    and safe: "if safe_method (req_Method ?r) then w' = w else ax_Method ctx = AuthToken \<or> double_submit ?r"
    by blast
  have "ax_Method ctx \<noteq> AuthAnonymous" using adm assms(3) by (auto simp: admitted_def wire_admin_auth_def)
  with adm safe assms(4) show ?thesis by (auto split: if_splits)
qed

text \<open>
  The limiters of a loaded configuration have as much burst as rate, at least one a second, so a
  bucket is full again long before the sweep may drop it.
\<close>

lemma loaded_limits_refill:
  assumes "Load address env = Inr cfg"
  shows "bucket_refills nano_lib (rcf_LoginRateLimitRPS (wire_router cfg)) (rcf_LoginRateBurst (wire_router cfg)) 600000000000"
  using Load_sound [OF assms]
  by (intro nano_refills) (auto simp: wire_router_def sound_config_def)

subsection \<open>Witnesses\<close>

text \<open>A configuration loaded from three variables, the memory stores, and one login a second.\<close>

definition sample_environment :: environment where
  "sample_environment = [''AUTH_ISSUER'' \<mapsto> ''https://as'', ''AUTH_ADMIN_TOKEN'' \<mapsto> ''secret'', ''AUTH_LOGIN_RATE_LIMIT'' \<mapsto> ''1'']"

definition sample_config :: config where
  "sample_config = read_config sample_environment"

lemma sample_variables:
  "sample_environment k = (if k = ''AUTH_LOGIN_RATE_LIMIT'' then Some ''1'' else if k = ''AUTH_ADMIN_TOKEN'' then Some ''secret''
     else if k = ''AUTH_ISSUER'' then Some ''https://as'' else None)"
  by (simp add: sample_environment_def)

lemma one_reads: "atoi ''1'' = Some 1"
  by code_simp

lemma sample_config_fields:
  "cf_Issuer sample_config = ''https://as''" "cf_RequireHTTPS sample_config" "cf_DBDriver sample_config = ''postgres''"
  "cf_AdminToken sample_config = ''secret''" "\<not> cf_AdminAllowAnonymous sample_config"
  "cf_LoginRateLimit sample_config = 1" "cf_AdminRole sample_config = ''admin''"
  by (simp_all add: sample_config_def read_config_def Let_def getenv_def getbool_def getint_def get_parsed_def sample_variables one_reads)

definition sample_env :: "(nano_bucket, world) environment_of_server" where
  "sample_env = \<lparr>ev_crypto = sample_crypto, ev_cookies = plain_lib, ev_marshal = \<lambda>_. None, ev_rate = nano_lib,
     ev_real_ip = (\<lambda>r. r), ev_mailer = (\<lambda>_ w. w), ev_keys = []\<rparr>"

definition serve_sample :: "http_request \<Rightarrow> (nano_bucket, world) server_state \<Rightarrow> outcome \<times> (nano_bucket, world) server_state" where
  "serve_sample = server_serve sample_env sample_config (mem_bundle sample_crypto) sample_rt"

text \<open>The bucket of the address has just been emptied.\<close>

definition spent_limiters :: "nano_bucket limiters" where
  "spent_limiters = (\<lambda>k. snd (allow nano_lib 1000 ''1.2.3.4'' (NewLoginRateLimiter 1 1)))"

definition login_flood :: http_request where
  "login_flood = json_request ''POST'' ''/api/auth/login'' []"

lemma flood_address: "ClientIP login_flood = ''1.2.3.4''"
  by code_simp

lemma flood_refused: "\<not> fst (allow nano_lib 1000 ''1.2.3.4'' (spent_limiters k))"
proof -
  let ?l = "NewLoginRateLimiter 1 1 :: nano_bucket login_rate_limiter"
  let ?b = "\<lparr>nb_rate = 1, nb_burst = 1, nb_tokens = 0, nb_last = 1000\<rparr>"
  have first: "spent_limiters k = ?l\<lparr>lr_lastSweep := 1000, lr_buckets := [(''1.2.3.4'', \<lparr>ib_lim = ?b, ib_lastSeen = 1000\<rparr>)]\<rparr>"
    by (simp add: spent_limiters_def allow_def sweep_def NewLoginRateLimiter_def nano_lib_def nano_tokens_def full_def Let_def
      time_sub_def zero_time_def max_duration_def min_duration_def minute_def second_def gm_filter_def)
  have "sweep 1000 (spent_limiters k) = spent_limiters k"
    by (simp add: first sweep_def time_sub_def min_duration_def max_duration_def NewLoginRateLimiter_def minute_def second_def)
  then show ?thesis by (simp add: allow_def Let_def first nano_lib_def nano_tokens_def full_def)
qed

theorem credentials_are_limited_witness:
  "snd (snd (serve_sample login_flood (spent_limiters, account_world))) = account_world \<and>
   status_of (fst (serve_sample login_flood (spent_limiters, account_world))) \<in> {Some 429, Some 405}"
proof -
  let ?run = "serve_sample login_flood (spent_limiters, account_world)"
  have run: "server_serve sample_env sample_config (mem_bundle sample_crypto) sample_rt login_flood (spent_limiters, account_world)
      = (fst ?run, snd ?run)" by (simp add: serve_sample_def)
  have path: "req_Path (ev_real_ip sample_env login_flood) = limited_path LimitLogin"
    by (simp add: sample_env_def login_flood_def)
  have "\<not> fst (allow (ev_rate sample_env) (now sample_rt 302) (ClientIP (ev_real_ip sample_env login_flood)) (spent_limiters LimitLogin))"
    using flood_refused by (simp add: sample_env_def flood_address sample_rt_def sample_simps)
  with credentials_are_limited [OF run path] show ?thesis by simp
qed

text \<open>The operator deletes a client.\<close>

definition admin_delete :: http_request where
  "admin_delete = (json_request ''DELETE'' ''/admin/api/clients/app'' [])\<lparr>req_Header := [(''X-Admin-Token'', ''secret'')]\<rparr>"

lemma admin_delete_reads:
  "extractAdminToken admin_delete = ''secret''" "req_Method admin_delete = ''DELETE''"
  "has_prefix (req_Path admin_delete) ''/admin/api/''" "admin_segments (req_Path admin_delete) = [''api'', ''clients'', ''app'']"
  by (code_simp, code_simp, code_simp, code_simp)

lemma admin_delete_deletes:
  "w_clients (snd (snd (serve_sample admin_delete (ls, account_world)))) = [(''svc'', sample_service)]"
proof -
  let ?api = "wire_admin_api (mem_bundle sample_crypto sample_rt)"
  have "serve_mux (admin_routes sample_crypto m sample_rt ?api) [''api'', ''clients'', ''app''] ctx admin_delete w
      = deleteClient ?api ''app'' w" for m ctx w
    by (simp add: serve_mux_def admin_routes_def client_routes_def token_routes_def user_routes_def api_route_def
        route_serves_def admin_delete_reads arg_def)
  moreover have "w_clients (snd (deleteClient ?api ''app'' account_world)) = [(''svc'', sample_service)]"
    by (simp add: deleteClient_def wire_admin_api_def mem_bundle_def mem_clients_def zoom_eq client_Delete_def sample_simps)
  ultimately have "w_clients (snd (wire_admin sample_env sample_config (mem_bundle sample_crypto sample_rt) sample_rt admin_delete account_world))
      = [(''svc'', sample_service)]"
    by (simp add: wire_admin_def admin_serve_def AuthMiddleware_def wire_admin_auth_def sample_config_fields admin_delete_reads
        Let_def case_prod_beta CSRFMiddleware_def sample_env_def)
  moreover have "ev_real_ip sample_env admin_delete = admin_delete" by (simp add: sample_env_def)
  ultimately show ?thesis
    by (simp add: serve_sample_def server_serve_def router_serve_def Let_def case_prod_beta direct_def admin_delete_reads
        chi_methods_def admin_dispatch [OF admin_delete_reads(3)])
qed

theorem server_admin_changes_witness:
  "\<exists>ctx. admitted sample_crypto plain_lib 1000 (wire_admin_auth sample_config [] (mem_bundle sample_crypto sample_rt))
     admin_delete account_world ctx \<and> ax_Method ctx \<noteq> AuthAnonymous"
proof -
  let ?ls = "new_limiters (wire_router sample_config) :: nano_bucket limiters"
  obtain out ls' w' where run: "serve_sample admin_delete (?ls, account_world) = (out, (ls', w'))" by (metis surj_pair)
  have changed: "w' \<noteq> account_world"
    using admin_delete_deletes [of ?ls] run by (auto simp: sample_simps)
  have path: "has_prefix (req_Path (ev_real_ip sample_env admin_delete)) ''/admin/api/''"
    using admin_delete_reads(3) by (simp add: sample_env_def)
  from server_admin_changes [OF run [unfolded serve_sample_def] path sample_config_fields(5) changed]
  show ?thesis by (auto simp: sample_env_def sample_rt_def sample_simps)
qed

end
