(* ===== verification/Sql_Bundle.thy ===== *)
theory Sql_Bundle
  imports Sql_World Server
begin

section \<open>The stores of the running server (cmd/authserver/main.go, gormstore/db.go)\<close>

text \<open>
  The server runs on PostgreSQL only. \<open>Open\<close> says which database a driver and a DSN name;
  opening it is a parameter. \<open>newGormBundle\<close> fills the bundle with the SQL stores over the tables
  of one database, the lockout tracker included. The cache of used assertions is made in
  \<open>run\<close> and lives in the memory of the process.
\<close>

subsection \<open>Opening\<close>

datatype open_error = EmptyDSN | UnsupportedDriver string | ConnectError string

definition sqlite_pragmas :: "string list" where
  "sqlite_pragmas = [''_pragma=busy_timeout(5000)'', ''_pragma=journal_mode(WAL)'',
     ''_pragma=synchronous(NORMAL)'', ''_pragma=foreign_keys(ON)'']"

definition add_pragma :: "string \<Rightarrow> string \<Rightarrow> string" where
  "add_pragma p dsn =
    (if contains_str dsn p then dsn
     else dsn @ (if contains_str dsn ''?'' then ''&'' else ''?'') @ p)"

definition addSQLitePragmas :: "string \<Rightarrow> string" where
  "addSQLitePragmas dsn = fold add_pragma sqlite_pragmas dsn"

text \<open>
  \<open>connect\<close> opens the dialect's database: the error it answers, or none. Drivers are spelled in ASCII;
  other letters are not folded.
\<close>

definition Open :: "(string \<Rightarrow> string \<Rightarrow> string option) \<Rightarrow> string \<Rightarrow> string \<Rightarrow> open_error option" where
  "Open connect driver dsn =
    (if dsn = [] then Some EmptyDSN
     else let drv = (let d = map ascii_lower (trim_space driver) in if d = [] then ''sqlite'' else d) in
       if drv = ''sqlite'' then map_option ConnectError (connect drv (addSQLitePragmas dsn))
       else if drv = ''postgres'' then map_option ConnectError (connect drv dsn)
       else Some (UnsupportedDriver driver))"

definition buildStores :: "(string \<Rightarrow> string \<Rightarrow> string option) \<Rightarrow> string \<Rightarrow> string \<Rightarrow> open_error option" where
  "buildStores connect driver dsn =
    (let drv = (if driver = [] then ''postgres'' else driver) in
     if drv \<noteq> ''postgres'' then Some (UnsupportedDriver drv) else Open connect drv dsn)"

subsection \<open>The bundle\<close>

record 'w gorm_db =
  gd_clients :: "(client_row, 'w) sql_table"
  gd_codes :: "(auth_code_row, 'w) sql_table"
  gd_refresh :: "(refresh_row, 'w) sql_table"
  gd_sessions :: "(session_row, 'w) sql_table"
  gd_signing :: "(signing_key_row, 'w) sql_table"
  gd_dpkeys :: "(dp_key_row, 'w) sql_table"
  gd_scopes :: "(scope_row, 'w) sql_table"
  gd_audit :: "(audit_row, 'w) sql_table"
  gd_users :: "'w user_tables"
  gd_attempts :: "(attempt_row, 'w) sql_table"
  gd_resets :: "(reset_row, 'w) sql_table"

definition sql_directory :: "'w user_tables \<Rightarrow> 'w user_directory" where
  "sql_directory ts =
    \<lparr>ud_GetUserClaims = sql_GetUserClaims ts, ud_ReplaceUserClaims = sql_ReplaceUserClaims ts,
     ud_AddToRoles = sql_AddToRoles ts, ud_RemoveFromRoles = sql_RemoveFromRoles ts,
     ud_GetUserLogins = sql_GetUserLogins ts, ud_RemoveLogin = sql_RemoveLogin ts\<rparr>"

definition sql_roles :: "'w user_tables \<Rightarrow> 'w role_store" where
  "sql_roles ts =
    \<lparr>ros_CreateRole = sql_CreateRole ts, ros_DeleteRole = sql_DeleteRole ts, ros_FindRoleByID = sql_FindRoleByID ts,
     ros_GetAllRoles = sql_GetAllRoles ts, ros_UpdateRole = sql_UpdateRole ts,
     ros_GetRoleClaims = sql_GetRoleClaims ts, ros_ReplaceRoleClaims = sql_ReplaceRoleClaims ts\<rparr>"

definition sql_pages :: "crypto \<Rightarrow> 'w gorm_db \<Rightarrow> 'w paged_stores" where
  "sql_pages cr db =
    \<lparr>pg_Clients = \<lambda>p w. Some (sql_client_GetPaged (gd_clients db) p w),
     pg_Sessions = \<lambda>p w. Some (sql_session_GetPaged cr (gd_sessions db) p w),
     pg_RefreshTokens = \<lambda>p w. Some (sql_refresh_GetPaged cr (gd_refresh db) p w),
     pg_AuditLogs = \<lambda>p w. Some (sql_audit_GetPaged cr (gd_audit db) p w),
     pg_Users = \<lambda>p w. Some (sql_GetPagedUsers (gd_users db) p w)\<rparr>"

definition newGormBundle ::
  "crypto \<Rightarrow> (runtime \<Rightarrow> 'w assertion_cache) \<Rightarrow> 'w gorm_db \<Rightarrow> runtime \<Rightarrow> 'w store_bundle" where
  "newGormBundle cr cache db rt =
    \<lparr>sb_Clients = sql_clients (gd_clients db), sb_AuthCodes = sql_auth_codes cr (gd_codes db),
     sb_RefreshTokens = sql_refresh_tokens cr (gd_refresh db), sb_Sessions = sql_sessions cr (gd_sessions db),
     sb_SigningKeys = sql_signing_keys (gd_signing db), sb_DataProtection = sql_dp_keys (gd_dpkeys db),
     sb_Scopes = sql_scopes (gd_scopes db), sb_AuditLogs = sql_audit_logs cr (gd_audit db),
     sb_Users = sql_users cr rt (gd_users db), sb_Directory = sql_directory (gd_users db),
     sb_Roles = sql_roles (gd_users db), sb_Pages = sql_pages cr db,
     sb_Tracker = sql_tracker_store rt sql_NewLoginAttemptTracker (gd_attempts db),
     sb_PasswordResets = sql_resets cr (gd_resets db), sb_Assertions = cache rt\<rparr>"

subsection \<open>A machine: the database and the memory of the process\<close>

record machine =
  m_database :: database
  m_assertions :: mem_assertion_cache

definition lift_table :: "('w \<Rightarrow> 'd) \<Rightarrow> ('d \<Rightarrow> 'w \<Rightarrow> 'w) \<Rightarrow> ('r, 'd) sql_table \<Rightarrow> ('r, 'w) sql_table" where
  "lift_table get put tb =
    \<lparr>tb_First = \<lambda>P w. tb_First tb P (get w), tb_Find = \<lambda>q w. tb_Find tb q (get w),
     tb_Count = \<lambda>P w. tb_Count tb P (get w), tb_Create = \<lambda>r. zoom get put (tb_Create tb r),
     tb_Save = \<lambda>r. zoom get put (tb_Save tb r), tb_Update = \<lambda>P f. zoom get put (tb_Update tb P f),
     tb_Delete = \<lambda>P. zoom get put (tb_Delete tb P)\<rparr>"

abbreviation on_machine :: "('r, database) sql_table \<Rightarrow> ('r, machine) sql_table" where
  "on_machine \<equiv> lift_table m_database (\<lambda>d. m_database_update (\<lambda>_. d))"

definition machine_user_tables :: "machine user_tables" where
  "machine_user_tables = \<lparr>ut_users = on_machine user_table, ut_claims = on_machine claim_table,
     ut_roles = on_machine role_table, ut_userRoles = on_machine user_role_table,
     ut_roleClaims = on_machine role_claim_table, ut_logins = on_machine login_table,
     ut_tokens = on_machine token_table\<rparr>"

definition machine_db :: "machine gorm_db" where
  "machine_db = \<lparr>gd_clients = on_machine client_table, gd_codes = on_machine code_table,
     gd_refresh = on_machine refresh_table, gd_sessions = on_machine session_table,
     gd_signing = on_machine signing_table, gd_dpkeys = on_machine dp_table, gd_scopes = on_machine scope_table,
     gd_audit = on_machine audit_table, gd_users = machine_user_tables, gd_attempts = on_machine attempt_table,
     gd_resets = on_machine reset_table\<rparr>"

definition machine_cache :: "runtime \<Rightarrow> machine assertion_cache" where
  "machine_cache rt =
    \<lparr>cac_CheckAndStore = \<lambda>cid jti e. zoom m_assertions (\<lambda>s. m_assertions_update (\<lambda>_. s))
       (\<lambda>s. case CheckAndStore (now rt 101) cid jti e s of (b, s') \<Rightarrow> (Inr b, s'))\<rparr>"

definition machine_bundle :: "crypto \<Rightarrow> runtime \<Rightarrow> machine store_bundle" where
  "machine_bundle cr = newGormBundle cr machine_cache machine_db"

definition new_machine :: machine where
  "new_machine = \<lparr>m_database = empty_database, m_assertions = NewMemAssertionCache\<rparr>"

context sql_table_laws
begin

text \<open>A table of a part of the state keeps its laws.\<close>

lemma lifted:
  assumes g: "\<And>d w. get (put d w) = d"
  shows "sql_table_laws (lift_table get put tb) (\<lambda>w. rows (get w)) key clash"
  by (unfold_locales; simp add: lift_table_def g find_all count create_ok save_ok update delete;
      ((rule create_dup save_dup; assumption) | blast dest: first_row first_none)?)

end

interpretation scopes_m: sql_table_laws "on_machine scope_table" "\<lambda>m. db_scopes (m_database m)" sce_Name no_index
  by (rule scope_rows.lifted) simp

interpretation clients_m: sql_table_laws "on_machine client_table" "\<lambda>m. db_clients (m_database m)" cle_ClientID no_index
  by (rule client_rows.lifted) simp

interpretation users_m: sql_table_laws "on_machine user_table" "\<lambda>m. db_users (m_database m)" use_ID same_username
  by (rule user_rows.lifted) simp

interpretation roles_m: sql_table_laws "on_machine role_table" "\<lambda>m. db_roles (m_database m)" roe_ID same_role_name
  by (rule role_rows.lifted) simp

interpretation signing_m: sql_table_laws "on_machine signing_table" "\<lambda>m. db_signing (m_database m)" ske_KeyID no_index
  by (rule signing_rows.lifted) simp

interpretation dp_m: sql_table_laws "on_machine dp_table" "\<lambda>m. db_dpkeys (m_database m)" dke_KeyID no_index
  by (rule dp_rows.lifted) simp

end
