(* ===== verification/Seed.thy ===== *)
theory Seed
  imports Sql_Bundle Sql_Clients
begin

section \<open>Migration and demo data (gormstore/entities.go, cmd/authserver/main.go)\<close>

text \<open>
  \<open>Migrate\<close> brings the schema up to date and deletes personal data that is no longer kept.
  \<open>seedBundle\<close> writes the demo fixtures, on an empty database only. It issues its statements one
  after the other without a transaction. The clock is read at the place 311, the RSA key of the
  confidential client drawn at 310.
\<close>

subsection \<open>Migration\<close>

text \<open>GORM's migrator: \<open>AutoMigrate\<close>, \<open>HasColumn\<close> and \<open>DROP COLUMN\<close> on the table of users.\<close>

record 'w migrator =
  mg_AutoMigrate :: "'w \<Rightarrow> store_error option \<times> 'w"
  mg_HasColumn :: "string \<Rightarrow> 'w \<Rightarrow> bool"
  mg_DropColumn :: "string \<Rightarrow> 'w \<Rightarrow> store_error option \<times> 'w"

definition removedUserColumns :: "string list" where
  "removedUserColumns = [''phone_number'', ''phone_number_confirmed'']"

definition removedClaimTypes :: "string list" where
  "removedClaimTypes = [''name'', ''given_name'', ''family_name'', ''middle_name'', ''nickname'']"

definition drop_if_there :: "'w migrator \<Rightarrow> string \<Rightarrow> 'w \<Rightarrow> store_error option \<times> 'w" where
  "drop_if_there mg col w = (if mg_HasColumn mg col w then mg_DropColumn mg col w else (None, w))"

definition purgeRemovedPersonalData ::
  "'w migrator \<Rightarrow> (user_claim_row, 'w) sql_table \<Rightarrow> 'w \<Rightarrow> store_error option \<times> 'w" where
  "purgeRemovedPersonalData mg claims =
    run_all (map (drop_if_there mg) removedUserColumns @
      [\<lambda>w. any_row (tb_Delete claims (\<lambda>r. uce_Type r \<in> set removedClaimTypes) w)])"

definition Migrate :: "'w migrator \<Rightarrow> (user_claim_row, 'w) sql_table \<Rightarrow> 'w \<Rightarrow> store_error option \<times> 'w" where
  "Migrate mg claims w =
    (case mg_AutoMigrate mg w of
       (Some e, w1) \<Rightarrow> (Some e, w1)
     | (None, w1) \<Rightarrow> purgeRemovedPersonalData mg claims w1)"

subsection \<open>The fixtures\<close>

definition plain_scope :: "string \<Rightarrow> string \<Rightarrow> string \<Rightarrow> scope" where
  "plain_scope n d t = \<lparr>sc_Name = n, sc_DisplayName = d, sc_Description = t, sc_Required = False,
     sc_Emphasize = False, sc_Properties = []\<rparr>"

definition seed_scopes :: "scope list" where
  "seed_scopes =
    [(plain_scope ''openid'' ''OpenID'' ''Verify your identity'')\<lparr>sc_Required := True, sc_Emphasize := True\<rparr>,
     plain_scope ''profile'' ''Profile'' ''Your basic profile information'',
     plain_scope ''email'' ''Email'' ''Your email address'',
     plain_scope ''offline_access'' ''Offline access'' ''Refresh tokens for long-lived access'']"

definition zero_client :: client where
  "zero_client =
    \<lparr>c_ClientID = [], c_DisplayName = [], c_RedirectURIs = [], c_PostLogoutRedirectURIs = [], c_AllowedScopes = [],
     c_RequirePKCE = False, c_AllowRefreshTokens = False, c_AllowClientCredentials = False,
     c_TokenEndpointAuthMethod = [], c_JWKSJSON = [], c_AccessTokenLifetimeSeconds = 0,
     c_RefreshTokenLifetimeSeconds = 0, c_RefreshTokenAbsoluteLifetimeSeconds = 0, c_RefreshTokenExpiration = 0,
     c_Properties = []\<rparr>"

definition demo_public :: client where
  "demo_public = zero_client
    \<lparr>c_ClientID := ''demo-public'', c_DisplayName := ''Demo Public Client'',
     c_RedirectURIs := [''http://localhost:8090/callback'', ''https://demo.example/callback''],
     c_PostLogoutRedirectURIs := [''http://localhost:8090/'', ''http://localhost:8090/logout-callback'',
       ''https://demo.example/''],
     c_AllowedScopes := [''openid'', ''profile'', ''email'', ''offline_access''],
     c_RequirePKCE := True, c_AllowRefreshTokens := True, c_TokenEndpointAuthMethod := AuthMethodNone\<rparr>"

text \<open>\<open>marshal\<close> is \<open>json.Marshal\<close> of a key set. The private key is dropped when the function returns.\<close>

definition newSeededConfidentialClient ::
  "crypto \<Rightarrow> (jwk list \<Rightarrow> string option) \<Rightarrow> runtime \<Rightarrow> client option" where
  "newSeededConfidentialClient cr marshal rt =
    (case GenerateRSAKey rt 310 RSAKeyBits of
       None \<Rightarrow> None
     | Some priv \<Rightarrow>
         (case marshal [\<lparr>jwk_raw = rsa_public cr priv, jwk_kid = ''demo-confidential-kid'', jwk_alg = ''RS256'',
                         jwk_use = ''sig''\<rparr>] of
            None \<Rightarrow> None
          | Some raw \<Rightarrow> Some (zero_client
              \<lparr>c_ClientID := ''demo-confidential'', c_DisplayName := ''Demo Confidential Client'',
               c_AllowedScopes := [''read'', ''write'', ''openid''],
               c_TokenEndpointAuthMethod := AuthMethodPrivateKeyJWT, c_AllowClientCredentials := True,
               c_JWKSJSON := raw\<rparr>)))"

definition demo_user :: "time \<Rightarrow> user" where
  "demo_user t =
    \<lparr>u_ID = ''u-demo'', u_Username = ''demo'', u_Email = ''demo@example.com'', u_EmailConfirmed = True,
     u_PasswordHash = [], u_SecurityStamp = [], u_TwoFactorEnabled = False, u_LockoutEnd = None,
     u_LockoutEnabled = False, u_AccessFailedCount = 0, u_CreatedAt = t, u_UpdatedAt = t\<rparr>"

subsection \<open>Seeding\<close>

datatype seed_error = SeedStore store_error | SeedProbe store_error | SeedConfidential | SeedPanic

text \<open>The probes of \<open>bundleHasData\<close>: users, clients, scopes, roles.\<close>

definition probe_count :: "(store_error + 'a paged_result) option \<Rightarrow> seed_error + bool" where
  "probe_count res =
    (case res of None \<Rightarrow> Inl SeedPanic | Some (Inl e) \<Rightarrow> Inl (SeedProbe e) | Some (Inr p) \<Rightarrow> Inr (pg_TotalCount p > 0))"

definition probe_list :: "store_error + 'a list \<Rightarrow> seed_error + bool" where
  "probe_list res = (case res of Inl e \<Rightarrow> Inl (SeedProbe e) | Inr xs \<Rightarrow> Inr (xs \<noteq> []))"

fun first_hit :: "(seed_error + bool) list \<Rightarrow> seed_error + bool" where
  "first_hit [] = Inr False"
| "first_hit (p # ps) = (case p of Inl e \<Rightarrow> Inl e | Inr b \<Rightarrow> if b then Inr True else first_hit ps)"

definition one_entry :: paged_request where
  "one_entry = \<lparr>pq_Page = 1, pq_PageSize = 1\<rparr>"

definition bundleHasData :: "'w store_bundle \<Rightarrow> 'w \<Rightarrow> seed_error + bool" where
  "bundleHasData b w = first_hit
    [probe_count (pg_Users (sb_Pages b) one_entry w), probe_count (pg_Clients (sb_Pages b) one_entry w),
     probe_list (scs_GetAll (sb_Scopes b) w), probe_list (ros_GetAllRoles (sb_Roles b) w)]"

definition duplicate_is_fine :: "store_error option \<times> 'w \<Rightarrow> store_error option \<times> 'w" where
  "duplicate_is_fine res = (case res of (Some Duplicate, w) \<Rightarrow> (None, w) | _ \<Rightarrow> res)"

definition seed_first :: "'w store_bundle \<Rightarrow> 'w \<Rightarrow> store_error option \<times> 'w" where
  "seed_first b = run_all
    (map (\<lambda>s. scs_Store (sb_Scopes b) (Some s)) seed_scopes @ [cs_Store (sb_Clients b) (Some demo_public)])"

definition seed_second :: "runtime \<Rightarrow> 'w store_bundle \<Rightarrow> client \<Rightarrow> 'w \<Rightarrow> store_error option \<times> 'w" where
  "seed_second rt b c = run_all
    [cs_Store (sb_Clients b) (Some c),
     \<lambda>w. duplicate_is_fine (ros_CreateRole (sb_Roles b) \<lparr>r_ID = ''role-admin'', r_Name = ''admin''\<rparr> w),
     \<lambda>w. duplicate_is_fine (us_CreateUser (sb_Users b) (demo_user (now rt 311)) ''demo'' w),
     ud_AddToRoles (sb_Directory b) ''u-demo'' [''admin'']]"

definition seedBundle ::
  "crypto \<Rightarrow> (jwk list \<Rightarrow> string option) \<Rightarrow> runtime \<Rightarrow> bool \<Rightarrow> 'w store_bundle \<Rightarrow> 'w \<Rightarrow> seed_error option \<times> 'w" where
  "seedBundle cr marshal rt enabled b w =
    (if \<not> enabled then (None, w)
     else case bundleHasData b w of
       Inl e \<Rightarrow> (Some e, w)
     | Inr True \<Rightarrow> (None, w)
     | Inr False \<Rightarrow>
         (case seed_first b w of
            (Some e, w1) \<Rightarrow> (Some (SeedStore e), w1)
          | (None, w1) \<Rightarrow>
              (case newSeededConfidentialClient cr marshal rt of
                 None \<Rightarrow> (Some SeedConfidential, w1)
               | Some c \<Rightarrow>
                   (case seed_second rt b c w1 of
                      (Some e, w2) \<Rightarrow> (Some (SeedStore e), w2)
                    | (None, w2) \<Rightarrow> (None, w2)))))"

end
