(* ===== verification/Start.thy ===== *)
theory Start
  imports Seed Password_Reset
begin

section \<open>Starting the server (cmd/authserver/main.go)\<close>

text \<open>
  \<open>run\<close> loads the configuration, opens the database, migrates and seeds it as configured, reads the
  data-protection keys, makes the mailer and sees to an active signing key, in this order, and
  stops at the first error. What it then serves is \<open>server_serve\<close>. The other commands share the
  first steps. What is not in the repository is gathered in \<open>outside\<close>. The places of the runtime are
  310 and 311 for the seed, 330 for a data-protection key and 340 for a signing key.
\<close>

record 'w outside =
  ou_crypto :: crypto
  ou_marshal :: "jwk list \<Rightarrow> string option"
  ou_mail :: mail_lib
  ou_connect :: "string \<Rightarrow> string \<Rightarrow> string option"
  ou_migrator :: "'w migrator"

datatype start_error =
    ConfigError config_error | OpenError open_error | MigrateError store_error | SeedError seed_error
  | DPError dp_error | MailError smtp_error | AdminAuthError | SigningError key_error

datatype mailer = LogMailer bool | SMTPMailer smtp_config

definition buildMailer :: "mail_lib \<Rightarrow> config \<Rightarrow> smtp_error + mailer" where
  "buildMailer lib cfg =
    (if cf_SMTPHost cfg = [] then Inr (LogMailer (cf_DevLogEmails cfg))
     else case NewSMTPMailer lib \<lparr>smc_Host = cf_SMTPHost cfg, smc_Port = cf_SMTPPort cfg,
                 smc_Username = cf_SMTPUsername cfg, smc_Password = cf_SMTPPassword cfg,
                 smc_From = cf_SMTPFrom cfg, smc_Timeout = 0\<rparr> of
       Inl e \<Rightarrow> Inl e
     | Inr c \<Rightarrow> Inr (SMTPMailer c))"

definition load_config :: "'w outside \<Rightarrow> environment \<Rightarrow> config_error + config" where
  "load_config ou env = Load (\<lambda>s. ml_ParseAddress (ou_mail ou) s \<noteq> None) env"

text \<open>The schema and the demo data of \<open>run\<close>.\<close>

definition prepare ::
  "'w outside \<Rightarrow> 'w gorm_db \<Rightarrow> 'w store_bundle \<Rightarrow> runtime \<Rightarrow> bool \<Rightarrow> config \<Rightarrow> 'w \<Rightarrow> start_error option \<times> 'w" where
  "prepare ou db b rt migrate cfg w =
    (case (if migrate then Migrate (ou_migrator ou) (ut_claims (gd_users db)) w else (None, w)) of
       (Some e, w1) \<Rightarrow> (Some (MigrateError e), w1)
     | (None, w1) \<Rightarrow>
         (case seedBundle (ou_crypto ou) (ou_marshal ou) rt (cf_Seed cfg) b w1 of
            (Some e, w2) \<Rightarrow> (Some (SeedError e), w2)
          | (None, w2) \<Rightarrow> (None, w2)))"

definition start_keys ::
  "'w outside \<Rightarrow> 'w store_bundle \<Rightarrow> runtime \<Rightarrow> config \<Rightarrow> 'w \<Rightarrow> (start_error + dp_pair list \<times> mailer) \<times> 'w" where
  "start_keys ou b rt cfg w =
    (case Keyset (ou_crypto ou) (sb_DataProtection b) rt 330 w of
       (Inl e, w1) \<Rightarrow> (Inl (DPError e), w1)
     | (Inr (keys, active), w1) \<Rightarrow>
         (case buildMailer (ou_mail ou) cfg of
            Inl e \<Rightarrow> (Inl (MailError e), w1)
          | Inr m \<Rightarrow>
              if \<not> auth_configured (wire_admin_auth cfg keys b) then (Inl AdminAuthError, w1)
              else (case EnsureActiveKey (ou_crypto ou) (sb_SigningKeys b) rt 340 w1 of
                      (Inl e, w2) \<Rightarrow> (Inl (SigningError e), w2)
                    | (Inr k, w2) \<Rightarrow> (Inr (keys, m), w2))))"

definition run ::
  "'w outside \<Rightarrow> 'w gorm_db \<Rightarrow> 'w store_bundle \<Rightarrow> environment \<Rightarrow> runtime \<Rightarrow> 'w
    \<Rightarrow> (start_error + config \<times> dp_pair list \<times> mailer) \<times> 'w" where
  "run ou db b env rt w =
    (case load_config ou env of
       Inl e \<Rightarrow> (Inl (ConfigError e), w)
     | Inr cfg \<Rightarrow>
         (case buildStores (ou_connect ou) (cf_DBDriver cfg) (cf_DBDSN cfg) of
            Some e \<Rightarrow> (Inl (OpenError e), w)
          | None \<Rightarrow>
              (case prepare ou db b rt (cf_AutoMigrate cfg) cfg w of
                 (Some e, w1) \<Rightarrow> (Inl e, w1)
               | (None, w1) \<Rightarrow>
                   (case start_keys ou b rt cfg w1 of
                      (Inl e, w2) \<Rightarrow> (Inl e, w2)
                    | (Inr (keys, m), w2) \<Rightarrow> (Inr (cfg, keys, m), w2)))))"

subsection \<open>The one-shot commands\<close>

definition with_database ::
  "'w outside \<Rightarrow> environment \<Rightarrow> (config \<Rightarrow> 'w \<Rightarrow> start_error option \<times> 'w) \<Rightarrow> 'w \<Rightarrow> start_error option \<times> 'w" where
  "with_database ou env f w =
    (case load_config ou env of
       Inl e \<Rightarrow> (Some (ConfigError e), w)
     | Inr cfg \<Rightarrow>
         (case Open (ou_connect ou) (cf_DBDriver cfg) (cf_DBDSN cfg) of
            Some e \<Rightarrow> (Some (OpenError e), w)
          | None \<Rightarrow> f cfg w))"

definition failed_with :: "('e \<Rightarrow> start_error) \<Rightarrow> ('e + 'k) \<times> 'w \<Rightarrow> start_error option \<times> 'w" where
  "failed_with err res = (case res of (Inl e, w) \<Rightarrow> (Some (err e), w) | (Inr k, w) \<Rightarrow> (None, w))"

definition runMigrate ::
  "'w outside \<Rightarrow> 'w gorm_db \<Rightarrow> 'w store_bundle \<Rightarrow> environment \<Rightarrow> runtime \<Rightarrow> 'w \<Rightarrow> start_error option \<times> 'w" where
  "runMigrate ou db b env rt = with_database ou env (\<lambda>cfg w.
     case prepare ou db b rt True cfg w of
       (Some e, w1) \<Rightarrow> (Some e, w1)
     | (None, w1) \<Rightarrow>
         (case failed_with SigningError (EnsureActiveKey (ou_crypto ou) (sb_SigningKeys b) rt 340 w1) of
            (Some e, w2) \<Rightarrow> (Some e, w2)
          | (None, w2) \<Rightarrow> failed_with DPError (dp_EnsureActiveKey (ou_crypto ou) (sb_DataProtection b) rt 330 w2)))"

definition runRotateKeys ::
  "'w outside \<Rightarrow> 'w store_bundle \<Rightarrow> environment \<Rightarrow> runtime \<Rightarrow> 'w \<Rightarrow> start_error option \<times> 'w" where
  "runRotateKeys ou b env rt = with_database ou env
     (\<lambda>cfg w. failed_with SigningError (Rotate (ou_crypto ou) (sb_SigningKeys b) rt 340 w))"

definition runRotateDPKeys ::
  "'w outside \<Rightarrow> 'w store_bundle \<Rightarrow> environment \<Rightarrow> runtime \<Rightarrow> 'w \<Rightarrow> start_error option \<times> 'w" where
  "runRotateDPKeys ou b env rt = with_database ou env
     (\<lambda>cfg w. failed_with DPError (dp_Rotate (ou_crypto ou) (sb_DataProtection b) rt 330 w))"

text \<open>
  The exit status of the process. \<open>serve\<close> is what happens from the start of the listener to the
  end of the process: whether it failed, and the state it leaves.
\<close>

definition exit_status :: "start_error option \<times> 'w \<Rightarrow> nat \<times> 'w" where
  "exit_status res = (case res of (None, w) \<Rightarrow> (0, w) | (Some e, w) \<Rightarrow> (1, w))"

definition runCommand ::
  "'w outside \<Rightarrow> 'w gorm_db \<Rightarrow> 'w store_bundle \<Rightarrow> environment \<Rightarrow> runtime
    \<Rightarrow> (config \<Rightarrow> dp_pair list \<Rightarrow> mailer \<Rightarrow> 'w \<Rightarrow> bool \<times> 'w) \<Rightarrow> string list \<Rightarrow> 'w \<Rightarrow> nat \<times> 'w" where
  "runCommand ou db b env rt serve args w =
    (let cmd = (if length args > 1 then args ! 1 else ''serve'') in
     if cmd = ''serve'' then
       (case run ou db b env rt w of
          (Inl e, w1) \<Rightarrow> (1, w1)
        | (Inr (cfg, keys, m), w1) \<Rightarrow> (case serve cfg keys m w1 of (ok, w2) \<Rightarrow> (if ok then 0 else 1, w2)))
     else if cmd = ''migrate'' then exit_status (runMigrate ou db b env rt w)
     else if cmd = ''rotate-keys'' then exit_status (runRotateKeys ou b env rt w)
     else if cmd = ''rotate-dp-keys'' then exit_status (runRotateDPKeys ou b env rt w)
     else (2, w))"

text \<open>
  What handing over a message does: the log mailer writes lines, the SMTP mailer talks to the
  server \<open>srv\<close>. An error is only logged.
\<close>

definition deliver_mail ::
  "mail_lib \<Rightarrow> mailer \<Rightarrow> smtp_server \<Rightarrow> time \<Rightarrow> string \<Rightarrow> mail_message \<Rightarrow> string list \<times> smtp_trace" where
  "deliver_mail lib m srv t mid msg =
    (case m of
       LogMailer bodies \<Rightarrow> (log_Send bodies (email_of msg), [])
     | SMTPMailer c \<Rightarrow> ([], snd (smtp_Send lib c srv t mid (email_of msg))))"

end
