(* ===== verification/Start_Properties.thy ===== *)
theory Start_Properties
  imports Start Server_Properties
begin

section \<open>What a start leaves behind\<close>

text \<open>
  On a machine: a database of lists and the memory of the process. The demo data is written into an
  empty database and never again, a start that succeeds leaves an active key of each kind, and a
  restart changes nothing.
\<close>

subsection \<open>The bundle on a machine\<close>

lemma machine_bundle_parts [simp]:
  "sb_Clients (machine_bundle cr rt) = sql_clients (on_machine client_table)"
  "sb_Scopes (machine_bundle cr rt) = sql_scopes (on_machine scope_table)"
  "sb_SigningKeys (machine_bundle cr rt) = sql_signing_keys (on_machine signing_table)"
  "sb_DataProtection (machine_bundle cr rt) = sql_dp_keys (on_machine dp_table)"
  "sb_Users (machine_bundle cr rt) = sql_users cr rt machine_user_tables"
  "sb_Roles (machine_bundle cr rt) = sql_roles machine_user_tables"
  "sb_Directory (machine_bundle cr rt) = sql_directory machine_user_tables"
  "sb_Pages (machine_bundle cr rt) = sql_pages cr machine_db"
  by (simp_all add: machine_bundle_def newGormBundle_def machine_db_def)

lemma machine_user_tables_parts [simp]:
  "ut_users machine_user_tables = on_machine user_table" "ut_claims machine_user_tables = on_machine claim_table"
  "ut_roles machine_user_tables = on_machine role_table"
  "ut_userRoles machine_user_tables = on_machine user_role_table"
  by (simp_all add: machine_user_tables_def)

lemma machine_db_parts [simp]:
  "gd_clients machine_db = on_machine client_table" "gd_users machine_db = machine_user_tables"
  by (simp_all add: machine_db_def)

lemmas table_defs = lift_table_def list_table_def scope_table_def client_table_def user_table_def role_table_def
  user_role_table_def signing_table_def dp_table_def zoom_eq

definition has_fixtures :: "machine \<Rightarrow> bool" where
  "has_fixtures m \<longleftrightarrow> db_users (m_database m) \<noteq> [] \<or> db_clients (m_database m) \<noteq> [] \<or>
     db_scopes (m_database m) \<noteq> [] \<or> db_roles (m_database m) \<noteq> []"

text \<open>The probes see the four tables and nothing else.\<close>

definition fixture_tables :: "machine \<Rightarrow> user_row list \<times> client_row list \<times> scope_row list \<times> role_row list" where
  "fixture_tables m = (db_users (m_database m), db_clients (m_database m), db_scopes (m_database m), db_roles (m_database m))"

lemma paged_of_rows:
  "sql_paged (on_machine (list_table key clash get put)) ord conv req m =
    sql_paged (list_table key clash (\<lambda>x. x) (\<lambda>x _. x)) ord conv req (get (m_database m))"
  by (simp add: sql_paged_def table_defs)

lemma probes_of_tables:
  assumes "fixture_tables m = fixture_tables m'"
  shows "bundleHasData (machine_bundle cr rt) m = bundleHasData (machine_bundle cr' rt') m'"
proof -
  have t: "db_users (m_database m) = db_users (m_database m')" "db_clients (m_database m) = db_clients (m_database m')"
    "db_scopes (m_database m) = db_scopes (m_database m')" "db_roles (m_database m) = db_roles (m_database m')"
    using assms by (simp_all add: fixture_tables_def)
  have "pg_Users (sql_pages cr machine_db) one_entry m = pg_Users (sql_pages cr' machine_db) one_entry m'"
    by (simp add: sql_pages_def sql_GetPagedUsers_def user_table_def paged_of_rows t(1))
  moreover have "pg_Clients (sql_pages cr machine_db) one_entry m = pg_Clients (sql_pages cr' machine_db) one_entry m'"
    by (simp add: sql_pages_def sql_client_GetPaged_def client_table_def paged_of_rows t(2))
  moreover have "scs_GetAll (sql_scopes (on_machine scope_table)) m = scs_GetAll (sql_scopes (on_machine scope_table)) m'"
    by (simp add: sql_scopes_def sql_scope_GetAll_def table_defs t(3))
  moreover have "ros_GetAllRoles (sql_roles machine_user_tables) m = ros_GetAllRoles (sql_roles machine_user_tables) m'"
    by (simp add: sql_roles_def sql_GetAllRoles_def table_defs t(4))
  ultimately show ?thesis by (simp add: bundleHasData_def)
qed

lemma rows_as_length: "rows_as f xs = Inr ys \<Longrightarrow> length ys = length xs"
  by (induction xs arbitrary: ys) (auto split: sum.splits)

lemma rows_as_readable: "\<forall>r \<in> set rs. \<exists>x. f r = Inr x \<Longrightarrow> \<exists>xs. rows_as f rs = Inr xs"
  by (induction rs) auto

lemma rows_as_total: "rows_as (\<lambda>r. Inr (f r)) rs = Inr (map f rs)"
  by (induction rs) simp_all

lemma sort_by_Nil_iff [simp]: "sort_by le xs = [] \<longleftrightarrow> xs = []"
  using mset_sort_by [of le xs] by (metis mset_zero_iff)

lemma set_sort_by [simp]: "set (sort_by le xs) = set xs"
  using mset_sort_by [of le xs] by (metis set_mset_mset)

lemma run_query_set: "set (run_query q rs) \<subseteq> set rs"
  by (auto simp: run_query_def query_page_def Let_def dest!: in_set_takeD in_set_dropD split: option.splits if_splits)

lemma rows_as_Nil: "rows_as f xs = Inr [] \<Longrightarrow> xs = []"
  using rows_as_length by fastforce

lemma probe_empty:
  assumes "\<not> has_fixtures m"
  shows "bundleHasData (machine_bundle cr rt) m = Inr False"
  using assms
  by (simp add: has_fixtures_def bundleHasData_def sql_pages_def sql_GetPagedUsers_def sql_client_GetPaged_def sql_paged_def
      sql_scopes_def sql_scope_GetAll_def sql_roles_def sql_GetAllRoles_def table_defs probe_count_def probe_list_def
      found_as_def plain_rows_def run_query_def query_page_def sort_by_def Let_def)

lemma probe_false:
  assumes "bundleHasData (machine_bundle cr rt) m = Inr False"
  shows "\<not> has_fixtures m"
  using assms
  by (auto simp: has_fixtures_def bundleHasData_def sql_pages_def sql_GetPagedUsers_def sql_client_GetPaged_def sql_paged_def
      sql_scopes_def sql_scope_GetAll_def sql_roles_def sql_GetAllRoles_def table_defs probe_count_def probe_list_def
      found_as_def plain_rows_def run_query_def query_page_def Let_def
      split: sum.splits if_splits option.splits dest!: rows_as_Nil)

lemma paged_readable:
  assumes "\<forall>r \<in> set (get (m_database m)). \<exists>x. conv r = Inr x"
  shows "\<exists>p. sql_paged (on_machine (list_table key clash get put)) ord conv req m = Inr p \<and>
    pg_TotalCount p = length (get (m_database m))"
proof -
  let ?q = "\<lparr>qy_where = \<lambda>_. True, qy_order = ord,
    qy_offset = Some ((pq_Page (normalized req) - 1) * pq_PageSize (normalized req)),
    qy_limit = Some (pq_PageSize (normalized req))\<rparr>"
  have "\<forall>r \<in> set (run_query ?q (get (m_database m))). \<exists>x. conv r = Inr x"
    using assms run_query_set [of ?q "get (m_database m)"] by blast
  from rows_as_readable [OF this]
  obtain xs where "rows_as conv (run_query ?q (get (m_database m))) = Inr xs" by blast
  then show ?thesis by (simp add: sql_paged_def found_as_def table_defs Let_def)
qed

lemma probe_clients:
  assumes "db_clients (m_database m) \<noteq> []" "\<forall>r \<in> set (db_clients (m_database m)). \<exists>c. client_of_row r = Inr c"
  shows "bundleHasData (machine_bundle cr rt) m = Inr True"
proof -
  obtain p where p: "pg_Users (sql_pages cr machine_db) one_entry m = Some (Inr p)"
    using paged_readable [of db_users m "\<lambda>r. Inr (user_of_row r)"]
    by (fastforce simp: sql_pages_def sql_GetPagedUsers_def user_table_def)
  obtain p' where p': "pg_Clients (sql_pages cr machine_db) one_entry m = Some (Inr p')"
    "pg_TotalCount p' = length (db_clients (m_database m))"
    using paged_readable [of db_clients m client_of_row] assms(2)
    by (fastforce simp: sql_pages_def sql_client_GetPaged_def client_table_def)
  show ?thesis using assms(1) p p' by (simp add: bundleHasData_def probe_count_def)
qed

subsection \<open>Seeding\<close>

abbreviation with_db :: "(database \<Rightarrow> database) \<Rightarrow> machine \<Rightarrow> machine" where
  "with_db f m \<equiv> m\<lparr>m_database := f (m_database m)\<rparr>"

lemma seed_first_empty:
  assumes "\<not> has_fixtures m"
  shows "seed_first (machine_bundle cr rt) m =
    (None, with_db (\<lambda>d. d\<lparr>db_scopes := map toScopeEntity seed_scopes, db_clients := [toClientEntity demo_public]\<rparr>) m)"
proof -
  have e: "db_scopes (m_database m) = []" "db_clients (m_database m) = []"
    using assms by (simp_all add: has_fixtures_def)
  show ?thesis
    by (simp add: seed_first_def seed_scopes_def plain_scope_def sql_scopes_def sql_clients_def sql_scope_Store_def
        sql_client_Store_def table_defs toScopeEntity_def no_index_def e)
qed

definition admin_row :: role_row where
  "admin_row = \<lparr>roe_ID = ''role-admin'', roe_Name = ''admin'', roe_NormalizedName = ''ADMIN''\<rparr>"

definition admin_member :: user_role_row where
  "admin_member = \<lparr>ure_UserID = ''u-demo'', ure_RoleID = ''role-admin''\<rparr>"

definition insert_row :: "'r \<Rightarrow> 'r list \<Rightarrow> 'r list" where
  "insert_row r rs = (if r \<in> set rs then rs else rs @ [r])"

lemma seed_second_empty:
  assumes "db_users (m_database m) = []" "db_roles (m_database m) = []"
    "db_clients (m_database m) = [toClientEntity demo_public]" "c_ClientID c \<noteq> ''demo-public''"
  shows "seed_second rt (machine_bundle cr rt) c m =
    (case bcrypt_hash cr (bcrypt_salt rt) ''demo'' of
       None \<Rightarrow> (Some (OtherError ''hash password''),
         with_db (\<lambda>d. d\<lparr>db_clients := [toClientEntity demo_public, toClientEntity c], db_roles := [admin_row]\<rparr>) m)
     | Some h \<Rightarrow> (None,
         with_db (\<lambda>d. d\<lparr>db_clients := [toClientEntity demo_public, toClientEntity c], db_roles := [admin_row],
           db_users := [toUserEntity ((demo_user (now rt 311))\<lparr>u_PasswordHash := h\<rparr>)],
           db_userRoles := insert_row admin_member (db_userRoles d)\<rparr>) m))"
proof -
  have id: "cle_ClientID (toClientEntity demo_public) = ''demo-public''" "cle_ClientID (toClientEntity c) = c_ClientID c"
    by (simp_all add: toClientEntity_def demo_public_def)
  have up: "to_upper ''admin'' = ''ADMIN''" by code_simp
  have ne: "cle_ClientID (toClientEntity demo_public) \<noteq> cle_ClientID (toClientEntity c)" using assms(4) id by simp
  have mem: "list_ex (\<lambda>x. ure_UserID x = ure_UserID admin_member \<and> ure_RoleID x = ure_RoleID admin_member) rs \<longleftrightarrow> admin_member \<in> set rs" for rs
    by (induction rs) (auto simp: admin_member_def)
  show ?thesis
    using ne
    by (simp add: seed_second_def sql_clients_def sql_client_Store_def sql_roles_def sql_CreateRole_def sql_users_def
        sql_CreateUser_def sql_directory_def sql_AddToRoles_def add_to_role_def role_named_def table_defs no_index_def
        assms(1-3) duplicate_is_fine_def toRoleEntity_def up admin_row_def insert_row_def mem demo_user_def
        admin_member_def [symmetric] split: option.splits)
qed

lemma confidential_client:
  assumes "newSeededConfidentialClient cr marshal rt = Some c"
  shows "c_ClientID c = ''demo-confidential'' \<and> json_client c"
proof -
  have "json_client (zero_client\<lparr>c_AllowedScopes := [''read'', ''write'', ''openid'']\<rparr>)" by code_simp
  then show ?thesis
    using assms by (auto simp: newSeededConfidentialClient_def json_client_def zero_client_def split: option.splits)
qed

lemma json_demo_public: "json_client demo_public"
  by code_simp

lemma json_client_reads: "json_client c \<Longrightarrow> \<exists>x. client_of_row (toClientEntity c) = Inr x"
  using client_row_reads [of c] by (simp add: json_client_def)

text \<open>What a seed can do: nothing, or leave a database that no later seed writes to.\<close>

lemma seed_cases:
  assumes "seedBundle cr marshal rt on (machine_bundle cr rt) m = (res, m')"
  obtains (nothing) "m' = m" "\<not> on \<or> (\<exists>e. res = Some e \<and> bundleHasData (machine_bundle cr rt) m = Inl e) \<or>
      res = None \<and> bundleHasData (machine_bundle cr rt) m = Inr True"
  | (no_key) "on" "\<not> has_fixtures m" "res = Some SeedConfidential" "newSeededConfidentialClient cr marshal rt = None"
      "m' = with_db (\<lambda>d. d\<lparr>db_scopes := map toScopeEntity seed_scopes, db_clients := [toClientEntity demo_public]\<rparr>) m"
  | (no_hash) c where "on" "\<not> has_fixtures m" "res = Some (SeedStore (OtherError ''hash password''))"
      "newSeededConfidentialClient cr marshal rt = Some c"
      "m' = with_db (\<lambda>d. d\<lparr>db_scopes := map toScopeEntity seed_scopes,
         db_clients := [toClientEntity demo_public, toClientEntity c], db_roles := [admin_row]\<rparr>) m"
  | (seeded) c h where "on" "\<not> has_fixtures m" "res = None" "newSeededConfidentialClient cr marshal rt = Some c"
      "bcrypt_hash cr (bcrypt_salt rt) ''demo'' = Some h"
      "m' = with_db (\<lambda>d. d\<lparr>db_scopes := map toScopeEntity seed_scopes,
         db_clients := [toClientEntity demo_public, toClientEntity c], db_roles := [admin_row],
         db_users := [toUserEntity ((demo_user (now rt 311))\<lparr>u_PasswordHash := h\<rparr>)],
         db_userRoles := insert_row admin_member (db_userRoles d)\<rparr>) m"
proof (cases "on \<and> bundleHasData (machine_bundle cr rt) m = Inr False")
  case False
  show ?thesis
    by (rule nothing; use False assms in
      \<open>auto simp: seedBundle_def split: sum.splits bool.splits if_splits\<close>)
next
  case True
  then have e: "on" "\<not> has_fixtures m" using probe_false by blast+
  then have d: "db_users (m_database m) = []" "db_roles (m_database m) = []" by (simp_all add: has_fixtures_def)
  show ?thesis
  proof (cases "newSeededConfidentialClient cr marshal rt")
    case None
    show ?thesis by (rule no_key; use assms True None seed_first_empty [OF e(2)] e in \<open>simp add: seedBundle_def\<close>)
  next
    case (Some c)
    then have "c_ClientID c \<noteq> ''demo-public''" using confidential_client by fastforce
    note second = seed_second_empty [of "with_db (\<lambda>d. d\<lparr>db_scopes := map toScopeEntity seed_scopes,
        db_clients := [toClientEntity demo_public]\<rparr>) m" c rt cr]
    show ?thesis
    proof (cases "bcrypt_hash cr (bcrypt_salt rt) ''demo''")
      case None
      show ?thesis
        by (rule no_hash [OF e _ Some]; use assms True Some None seed_first_empty [OF e(2)] second d \<open>c_ClientID c \<noteq> _\<close> in
          \<open>simp add: seedBundle_def\<close>)
    next
      case (Some h)
      show ?thesis
        by (rule seeded [OF e _ \<open>newSeededConfidentialClient cr marshal rt = Some c\<close> Some]; use assms True Some seed_first_empty [OF e(2)]
          \<open>newSeededConfidentialClient cr marshal rt = Some c\<close> second d \<open>c_ClientID c \<noteq> _\<close> in \<open>simp add: seedBundle_def\<close>)
    qed
  qed
qed

lemma demo_admin_roles:
  assumes "db_roles (m_database m) = [admin_row]" "admin_member \<in> set (db_userRoles (m_database m))"
  shows "sql_GetUserRoles machine_user_tables ''u-demo'' m = Inr [''admin'']"
proof -
  have hit: "admin_member \<in> set (filter (\<lambda>r. ure_UserID r = ''u-demo'') (db_userRoles (m_database m)))"
    using assms(2) by (simp add: admin_member_def)
  then obtain u us where f: "filter (\<lambda>r. ure_UserID r = ''u-demo'') (db_userRoles (m_database m)) = u # us"
    by (cases "filter (\<lambda>r. ure_UserID r = ''u-demo'') (db_userRoles (m_database m))") auto
  with hit have "ure_RoleID admin_member \<in> set (map ure_RoleID (u # us))" by fastforce
  then have "''role-admin'' \<in> set (map ure_RoleID (u # us))" by (simp add: admin_member_def)
  then show ?thesis
    using f by (simp add: sql_GetUserRoles_def table_defs run_query_def query_page_def plain_rows_def assms(1) admin_row_def)
qed

text \<open>
  The demo data is written only into a database without users, clients, scopes and roles. Whenever
  a seed wrote anything, even if it then failed, every later seed finds data and writes nothing. A seed
  of an empty database that succeeds leaves a demo user that holds the role admin.
\<close>

theorem demo_data_written_once:
  assumes "seedBundle cr marshal rt on (machine_bundle cr rt) m = (res, m')"
  shows "(m' = m \<or> on \<and> \<not> has_fixtures m) \<and>
    (m' \<noteq> m \<longrightarrow> seedBundle cr' marshal' rt' on' (machine_bundle cr' rt') m' = (None, m')) \<and>
    (on \<and> res = None \<and> \<not> has_fixtures m \<longrightarrow>
       sql_GetUserRoles machine_user_tables ''u-demo'' m' = Inr [''admin''] \<and> length (db_users (m_database m')) = 1)"
proof -
  have later: "seedBundle cr' marshal' rt' on' (machine_bundle cr' rt') x = (None, x)"
    if "db_clients (m_database x) \<noteq> []" "\<forall>r \<in> set (db_clients (m_database x)). \<exists>c. client_of_row r = Inr c" for x
    using probe_clients [of x cr' rt'] that by (simp add: seedBundle_def)
  note pub = json_client_reads [OF json_demo_public]
  from assms show ?thesis
  proof (cases rule: seed_cases)
    case nothing
    then show ?thesis using probe_empty [of m cr rt] by auto
  next
    case no_key
    then show ?thesis using later [of m'] pub by auto
  next
    case (no_hash c)
    then have "\<exists>x. client_of_row (toClientEntity c) = Inr x" using confidential_client json_client_reads by blast
    with no_hash show ?thesis using later [of m'] pub by auto
  next
    case (seeded c h)
    then have "sql_GetUserRoles machine_user_tables ''u-demo'' m' = Inr [''admin'']"
      by (intro demo_admin_roles) (simp_all add: insert_row_def)
    moreover have "\<exists>x. client_of_row (toClientEntity c) = Inr x"
      using seeded(4) confidential_client json_client_reads by blast
    ultimately show ?thesis using seeded later [of m'] pub by auto
  qed
qed

text \<open>A seed that could not make the key of the confidential client leaves no user, and no later seed makes one.\<close>

lemma half_seeded_stays:
  assumes "seedBundle cr marshal rt on (machine_bundle cr rt) m = (Some SeedConfidential, m')" "\<not> has_fixtures m"
  shows "has_fixtures m' \<and> db_users (m_database m') = [] \<and>
    seedBundle cr' marshal' rt' on' (machine_bundle cr' rt') m' = (None, m')"
  using assms(1)
proof (cases rule: seed_cases)
  case nothing
  then show ?thesis using assms probe_empty [of m cr rt] by (auto simp: seedBundle_def)
next
  case no_key
  have "bundleHasData (machine_bundle cr' rt') m' = Inr True"
    using no_key json_client_reads [OF json_demo_public] by (intro probe_clients) auto
  with no_key show ?thesis by (simp add: seedBundle_def has_fixtures_def)
qed auto

subsection \<open>Keys\<close>

lemma dp_row_back [simp]: "dp_key_of_row (toDataProtectionKeyEntity k) = k"
  by (simp add: dp_key_of_row_def toDataProtectionKeyEntity_def)

lemma machine_dp_store:
  "dps_Store (sql_dp_keys (on_machine dp_table)) (Some k) m = (None, with_db (\<lambda>d. d\<lparr>db_dpkeys :=
     save_row dke_KeyID (toDataProtectionKeyEntity k) (db_dpkeys d)\<rparr>) m)"
  by (simp add: sql_dp_keys_def sql_dp_Store_def table_defs no_index_def list_ex_iff)

lemma machine_signing_store:
  "sks_Store (sql_signing_keys (on_machine signing_table)) (Some k) m = (None, with_db (\<lambda>d. d\<lparr>db_signing :=
     save_row ske_KeyID (toSigningKeyEntity k) (db_signing d)\<rparr>) m)"
  by (simp add: sql_signing_keys_def sql_signing_Store_def table_defs no_index_def list_ex_iff)

lemma machine_dp_all: "\<exists>ks. dps_GetAll (sql_dp_keys (on_machine dp_table)) m = Inr ks"
  by (simp add: sql_dp_keys_def sql_dp_GetAll_def found_as_def rows_as_total table_defs)

lemma find_saved:
  assumes "\<forall>x \<in> set rs. \<not> P x" "P r"
  shows "find P (save_row key r rs) = Some r"
  using assms by (induction rs) auto

lemma start_dp_first: "dps_GetActive (sql_dp_keys (on_machine dp_table)) m =
    (case find dke_IsActive (db_dpkeys (m_database m)) of None \<Rightarrow> Inl NotFound | Some r \<Rightarrow> Inr (dp_key_of_row r))"
  by (simp add: sql_dp_keys_def sql_dp_GetActive_def row_as_def table_defs split: option.splits)

lemma signing_first: "sks_GetActive (sql_signing_keys (on_machine signing_table)) m =
    (case find ske_IsActive (db_signing (m_database m)) of None \<Rightarrow> Inl NotFound | Some r \<Rightarrow> Inr (signing_key_of_row r))"
  by (simp add: sql_signing_keys_def sql_signing_GetActive_def row_as_def table_defs split: option.splits)

text \<open>A start writes at most one key, and then that key is the active one.\<close>

lemma dp_ensured:
  assumes "dp_EnsureActiveKey cr (sql_dp_keys (on_machine dp_table)) rt site m = (Inr k, m')"
  shows "dps_GetActive (sql_dp_keys (on_machine dp_table)) m' = Inr k \<and>
    m' = with_db (\<lambda>d. d\<lparr>db_dpkeys := db_dpkeys (m_database m')\<rparr>) m"
proof (cases "find dke_IsActive (db_dpkeys (m_database m))")
  case (Some r)
  then have "m' = m" "dps_GetActive (sql_dp_keys (on_machine dp_table)) m = Inr k"
    using assms by (auto simp: dp_EnsureActiveKey_def start_dp_first)
  then show ?thesis by simp
next
  case None
  then have "dp_generateActive cr (sql_dp_keys (on_machine dp_table)) rt site m = (Inr k, m')"
    using assms by (simp add: dp_EnsureActiveKey_def start_dp_first)
  note g = dp_generateActive_key [OF this]
  have "find dke_IsActive (save_row dke_KeyID (toDataProtectionKeyEntity k) (db_dpkeys (m_database m))) =
      Some (toDataProtectionKeyEntity k)"
    using None g(1) by (intro find_saved) (auto simp: find_None_iff toDataProtectionKeyEntity_def)
  then show ?thesis using g(4) by (auto simp: machine_dp_store start_dp_first)
qed

lemma signing_ensured:
  assumes "EnsureActiveKey cr (sql_signing_keys (on_machine signing_table)) rt site m = (Inr k, m')"
  shows "(\<exists>k'. sks_GetActive (sql_signing_keys (on_machine signing_table)) m' = Inr k') \<and>
    m' = with_db (\<lambda>d. d\<lparr>db_signing := db_signing (m_database m')\<rparr>) m"
proof (cases "find ske_IsActive (db_signing (m_database m))")
  case (Some r)
  then have "m' = m"
    using assms by (auto simp: EnsureActiveKey_def signing_first)
  then show ?thesis using Some by (simp add: signing_first)
next
  case None
  then have "generateActive cr (sql_signing_keys (on_machine signing_table)) rt site m = (Inr k, m')"
    using assms by (simp add: EnsureActiveKey_def signing_first)
  note g = generateActive_key [OF this]
  have "find ske_IsActive (save_row ske_KeyID (toSigningKeyEntity k) (db_signing (m_database m))) =
      Some (toSigningKeyEntity k)"
    using None g by (intro find_saved) (auto simp: find_None_iff toSigningKeyEntity_def)
  then show ?thesis using g by (auto simp: machine_signing_store signing_first)
qed

lemma keyset_again:
  assumes "Keyset cr (sql_dp_keys (on_machine dp_table)) rt site m = (Inr (keys, a), m')"
    and x: "db_dpkeys (m_database x) = db_dpkeys (m_database m')"
  shows "Keyset cr' (sql_dp_keys (on_machine dp_table)) rt' site' x = (Inr (keys, a), x)"
    and "m' = with_db (\<lambda>d. d\<lparr>db_dpkeys := db_dpkeys (m_database m')\<rparr>) m"
proof -
  let ?st = "sql_dp_keys (on_machine dp_table)"
  obtain all where e: "dp_EnsureActiveKey cr ?st rt site m = (Inr a, m')" "dps_GetAll ?st m' = Inr all"
    "keys = pair_of a # map pair_of (filter (\<lambda>k. dk_KeyID k \<noteq> dk_KeyID a) all)"
    using assms(1) by (auto simp: Keyset_def split: prod.splits sum.splits)
  have "dps_GetActive ?st x = Inr a" using dp_ensured [OF e(1)] x by (simp add: start_dp_first)
  moreover have "dps_GetAll ?st x = dps_GetAll ?st m'"
    using x by (simp add: sql_dp_keys_def sql_dp_GetAll_def table_defs)
  ultimately show "Keyset cr' ?st rt' site' x = (Inr (keys, a), x)"
    using e by (simp add: Keyset_def dp_EnsureActiveKey_def)
  show "m' = with_db (\<lambda>d. d\<lparr>db_dpkeys := db_dpkeys (m_database m')\<rparr>) m"
    using dp_ensured [OF e(1)] by blast
qed

lemma start_keys_again:
  assumes "start_keys ou (machine_bundle (ou_crypto ou) rt) rt cfg m = (Inr (keys, ml), m')"
  shows "start_keys ou (machine_bundle (ou_crypto ou) rt') rt' cfg m' = (Inr (keys, ml), m')"
    and "fixture_tables m' = fixture_tables m"
    and "\<exists>k. sks_GetActive (sql_signing_keys (on_machine signing_table)) m' = Inr k"
    and "buildMailer (ou_mail ou) cfg = Inr ml"
proof -
  let ?dp = "sql_dp_keys (on_machine dp_table)" and ?sk = "sql_signing_keys (on_machine signing_table)"
  obtain a m1 k where s: "Keyset (ou_crypto ou) ?dp rt 330 m = (Inr (keys, a), m1)" "buildMailer (ou_mail ou) cfg = Inr ml"
    "EnsureActiveKey (ou_crypto ou) ?sk rt 340 m1 = (Inr k, m')"
    using assms by (auto simp: start_keys_def split: prod.splits sum.splits if_splits)
  note e = signing_ensured [OF s(3)]
  have dp: "db_dpkeys (m_database m') = db_dpkeys (m_database m1)" 
    using arg_cong [OF conjunct2 [OF e], of "\<lambda>x. db_dpkeys (m_database x)"] by simp
  note again = keyset_again [OF s(1) dp]
  obtain k' where k': "sks_GetActive ?sk m' = Inr k'" using e by blast
  have "auth_configured (wire_admin_auth cfg keys (machine_bundle (ou_crypto ou) rt'))"
    by (simp add: auth_configured_def wire_admin_auth_def)
  then show "start_keys ou (machine_bundle (ou_crypto ou) rt') rt' cfg m' = (Inr (keys, ml), m')"
    using again(1) s(2) k' by (simp add: start_keys_def EnsureActiveKey_def)
  have "fixture_tables m' = fixture_tables m1" using arg_cong [OF conjunct2 [OF e], of fixture_tables]
    by (simp add: fixture_tables_def)
  also have "\<dots> = fixture_tables m" using arg_cong [OF again(2), of fixture_tables] by (simp add: fixture_tables_def)
  finally show "fixture_tables m' = fixture_tables m" .
  show "\<exists>k. sks_GetActive ?sk m' = Inr k" using k' by blast
  show "buildMailer (ou_mail ou) cfg = Inr ml" by (rule s(2))
qed

lemma seed_again:
  assumes "seedBundle cr marshal rt on (machine_bundle cr rt) m = (None, m1)" "fixture_tables m' = fixture_tables m1"
  shows "seedBundle cr' marshal' rt' on (machine_bundle cr' rt') m' = (None, m')"
proof (cases "on")
  case True
  have "bundleHasData (machine_bundle cr' rt') m1 = Inr True"
    using assms(1)
  proof (cases rule: seed_cases)
    case nothing
    then show ?thesis using True probes_of_tables [of m1 m1 cr' rt' cr rt] by auto
  next
    case (seeded c h)
    then have "\<exists>x. client_of_row (toClientEntity c) = Inr x" using confidential_client json_client_reads by blast
    then show ?thesis using seeded(6) json_client_reads [OF json_demo_public] by (intro probe_clients) auto
  qed auto
  then have "bundleHasData (machine_bundle cr' rt') m' = Inr True"
    by (rule trans [OF probes_of_tables [OF assms(2)]])
  then show ?thesis by (simp add: seedBundle_def)
qed (simp add: seedBundle_def)

text \<open>
  C35. A start that succeeds runs with a sound configuration and leaves an active signing key. Starting
  again on what it left, where the migration has nothing more to do, draws no key and writes nothing, and
  the server runs with the same configuration, the same cookie keys in the same order and the same mailer.
\<close>

theorem restart_changes_nothing:
  assumes "run ou machine_db (machine_bundle (ou_crypto ou) rt) env rt m = (Inr (cfg, keys, ml), m')"
    and "\<not> cf_AutoMigrate cfg \<or> Migrate (ou_migrator ou) (on_machine claim_table) m' = (None, m')"
  shows "run ou machine_db (machine_bundle (ou_crypto ou) rt') env rt' m' = (Inr (cfg, keys, ml), m') \<and>
    (\<exists>k. sks_GetActive (sb_SigningKeys (machine_bundle (ou_crypto ou) rt')) m' = Inr k) \<and>
    sound_config cfg \<and> (ml = LogMailer (cf_DevLogEmails cfg) \<longleftrightarrow> cf_SMTPHost cfg = [])"
proof -
  obtain m1 m2 where r: "load_config ou env = Inr cfg" "buildStores (ou_connect ou) (cf_DBDriver cfg) (cf_DBDSN cfg) = None"
    "seedBundle (ou_crypto ou) (ou_marshal ou) rt (cf_Seed cfg) (machine_bundle (ou_crypto ou) rt) m1 = (None, m2)"
    "start_keys ou (machine_bundle (ou_crypto ou) rt) rt cfg m2 = (Inr (keys, ml), m')"
    using assms(1) by (auto simp: run_def prepare_def split: prod.splits sum.splits option.splits)
  note k = start_keys_again [OF r(4)]
  have "seedBundle (ou_crypto ou) (ou_marshal ou) rt' (cf_Seed cfg) (machine_bundle (ou_crypto ou) rt') m' = (None, m')"
    using r(3) k(2) by (rule seed_again)
  then have "prepare ou machine_db (machine_bundle (ou_crypto ou) rt') rt' (cf_AutoMigrate cfg) cfg m' = (None, m')"
    using assms(2) by (auto simp: prepare_def)
  then have "run ou machine_db (machine_bundle (ou_crypto ou) rt') env rt' m' = (Inr (cfg, keys, ml), m')"
    using r(1,2) k(1) [of rt'] by (simp add: run_def)
  moreover have "sound_config cfg" using r(1) Load_sound unfolding load_config_def by blast
  moreover have "ml = LogMailer (cf_DevLogEmails cfg) \<longleftrightarrow> cf_SMTPHost cfg = []"
    using k(4) by (auto simp: buildMailer_def split: if_splits sum.splits)
  ultimately show ?thesis using k(3) by simp
qed

subsection \<open>Witnesses\<close>

definition sample_outside :: "machine outside" where
  "sample_outside = \<lparr>ou_crypto = sample_crypto, ou_marshal = \<lambda>_. Some ''{}'', ou_mail = sample_mail_lib,
     ou_connect = \<lambda>_ _. None, ou_migrator = \<lparr>mg_AutoMigrate = \<lambda>w. (None, w), mg_HasColumn = \<lambda>_ _. False,
       mg_DropColumn = \<lambda>_ w. (None, w)\<rparr>\<rparr>"

lemma sample_outside_parts [simp]:
  "ou_crypto sample_outside = sample_crypto" "ou_marshal sample_outside ks = Some ''{}''"
  "ou_mail sample_outside = sample_mail_lib" "ou_connect sample_outside d s = None"
  by (simp_all add: sample_outside_def)

lemma seed_sample:
  "\<exists>m'. seedBundle sample_crypto (\<lambda>_. Some ''{}'') sample_rt True (machine_bundle sample_crypto sample_rt) new_machine = (None, m') \<and>
    db_userClaims (m_database m') = [] \<and> db_dpkeys (m_database m') = [] \<and> db_signing (m_database m') = []"
proof -
  have e: "\<not> has_fixtures new_machine" by (simp add: has_fixtures_def new_machine_def empty_database_def)
  obtain c where c: "newSeededConfidentialClient sample_crypto (\<lambda>_. Some ''{}'') sample_rt = Some c"
    by (simp add: newSeededConfidentialClient_def GenerateRSAKey_def RSAKeyBits_def sample_rt_def sample_runtime_def)
  have h: "bcrypt_hash sample_crypto (bcrypt_salt sample_rt) ''demo'' = Some ''h:demo''"
    by (simp add: sample_crypto_def)
  have "c_ClientID c \<noteq> ''demo-public''" using confidential_client [OF c] by simp
  then show ?thesis
    using probe_empty [OF e, of sample_crypto sample_rt] seed_first_empty [OF e, of sample_crypto sample_rt] c
      seed_second_empty [of "with_db (\<lambda>d. d\<lparr>db_scopes := map toScopeEntity seed_scopes,
        db_clients := [toClientEntity demo_public]\<rparr>) new_machine" c sample_rt sample_crypto]
    by (simp add: seedBundle_def h new_machine_def empty_database_def)
qed

lemma demo_data_written_once_witness:
  "\<exists>m'. seedBundle sample_crypto (\<lambda>_. Some ''{}'') sample_rt True (machine_bundle sample_crypto sample_rt) new_machine = (None, m') \<and>
    sql_GetUserRoles machine_user_tables ''u-demo'' m' = Inr [''admin''] \<and>
    seedBundle sample_crypto (\<lambda>_. Some ''{}'') sample_rt True (machine_bundle sample_crypto sample_rt) m' = (None, m')"
proof -
  obtain m' where m': "seedBundle sample_crypto (\<lambda>_. Some ''{}'') sample_rt True (machine_bundle sample_crypto sample_rt) new_machine
      = (None, m')" using seed_sample by blast
  have e: "\<not> has_fixtures new_machine" by (simp add: has_fixtures_def new_machine_def empty_database_def)
  have "db_users (m_database new_machine) = []" by (simp add: new_machine_def empty_database_def)
  then have "m' \<noteq> new_machine \<and> sql_GetUserRoles machine_user_tables ''u-demo'' m' = Inr [''admin'']"
    using demo_data_written_once [OF m'] e by auto
  then show ?thesis using m' demo_data_written_once [OF m'] by blast
qed

lemma sample_loads: "load_config sample_outside sample_environment = Inr sample_config"
proof -
  have "(case load_config sample_outside sample_environment of Inl e \<Rightarrow> False | Inr c \<Rightarrow> True)" by code_simp
  then obtain c where "load_config sample_outside sample_environment = Inr c" by (auto split: sum.splits)
  moreover then have "c = sample_config" using Load_sound unfolding load_config_def sample_config_def by blast
  ultimately show ?thesis by simp
qed

lemma sample_start_fields:
  "cf_AutoMigrate sample_config" "cf_Seed sample_config" "cf_SMTPHost sample_config = []" "cf_DBDSN sample_config \<noteq> []"
  by (simp_all add: sample_config_def read_config_def Let_def getenv_def getbool_def getint_def get_parsed_def sample_variables one_reads)

lemma sample_migrates:
  assumes "db_userClaims (m_database m) = []"
  shows "Migrate (ou_migrator sample_outside) (on_machine claim_table) m = (None, m)"
proof -
  have "(m_database m)\<lparr>db_userClaims := []\<rparr> = m_database m" using assms by (cases "m_database m") simp
  then have "m\<lparr>m_database := m_database m\<lparr>db_userClaims := []\<rparr>\<rparr> = m" by (cases m) simp
  then show ?thesis
    by (simp add: Migrate_def sample_outside_def purgeRemovedPersonalData_def removedUserColumns_def drop_if_there_def
        claim_table_def numbered_table_def lift_table_def list_table_def zoom_eq any_row_def assms)
qed

lemma sample_run:
  "\<exists>keys m'. run sample_outside machine_db (machine_bundle sample_crypto sample_rt) sample_environment sample_rt new_machine =
    (Inr (sample_config, keys, LogMailer (cf_DevLogEmails sample_config)), m') \<and> db_userClaims (m_database m') = []"
proof -
  obtain m1 where m1: "seedBundle sample_crypto (\<lambda>_. Some ''{}'') sample_rt True (machine_bundle sample_crypto sample_rt) new_machine
      = (None, m1)" "db_userClaims (m_database m1) = []" "db_dpkeys (m_database m1) = []" "db_signing (m_database m1) = []"
    using seed_sample by blast
  have "ou_marshal sample_outside = (\<lambda>_. Some ''{}'')" by (simp add: sample_outside_def)
  moreover have "Migrate (ou_migrator sample_outside) (on_machine claim_table) new_machine = (None, new_machine)"
    by (rule sample_migrates) (simp add: new_machine_def empty_database_def)
  ultimately have p: "prepare sample_outside machine_db (machine_bundle sample_crypto sample_rt) sample_rt True sample_config new_machine
      = (None, m1)" using m1(1) by (simp add: prepare_def sample_start_fields)
  let ?dp = "sql_dp_keys (on_machine dp_table)" and ?sk = "sql_signing_keys (on_machine signing_table)"
  obtain a m2 where a: "dp_EnsureActiveKey sample_crypto ?dp sample_rt 330 m1 = (Inr a, m2)"
    by (simp add: dp_EnsureActiveKey_def start_dp_first m1 dp_generateActive_def sample_rt_def sample_runtime_def Let_def machine_dp_store)
  obtain ks where "dps_GetAll ?dp m2 = Inr ks" using machine_dp_all by blast
  with a obtain keys where k: "Keyset sample_crypto ?dp sample_rt 330 m1 = (Inr (keys, a), m2)"
    by (simp add: Keyset_def)
  note m2 = dp_ensured [OF a, THEN conjunct2]
  have s: "db_signing (m_database m2) = []" "db_userClaims (m_database m2) = []"
    using arg_cong [OF m2, of "\<lambda>x. db_signing (m_database x)"] arg_cong [OF m2, of "\<lambda>x. db_userClaims (m_database x)"] m1
    by simp_all
  obtain k m3 where k3: "EnsureActiveKey sample_crypto ?sk sample_rt 340 m2 = (Inr k, m3)"
    by (simp add: EnsureActiveKey_def signing_first s generateActive_def GenerateRSAKey_def RSAKeyBits_def sample_rt_def
        sample_runtime_def sample_crypto_def Let_def machine_signing_store)
  have "db_userClaims (m_database m3) = []"
    using arg_cong [OF signing_ensured [OF k3, THEN conjunct2], of "\<lambda>x. db_userClaims (m_database x)"] s(2) by simp
  moreover have "auth_configured (wire_admin_auth sample_config keys (machine_bundle sample_crypto sample_rt))"
    by (simp add: auth_configured_def wire_admin_auth_def)
  then have "start_keys sample_outside (machine_bundle sample_crypto sample_rt) sample_rt sample_config m1 =
      (Inr (keys, LogMailer (cf_DevLogEmails sample_config)), m3)"
    using k k3 by (simp add: start_keys_def buildMailer_def sample_start_fields)
  moreover have "buildStores (ou_connect sample_outside) (cf_DBDriver sample_config) (cf_DBDSN sample_config) = None"
  proof -
    have "Open (\<lambda>_ _. None) ''postgres'' dsn = None" if "dsn \<noteq> []" for dsn
    proof -
      have "map ascii_lower (trim_space ''postgres'') = ''postgres''" by code_simp
      with that show ?thesis by (simp add: Open_def)
    qed
    then show ?thesis by (simp add: buildStores_def sample_config_fields sample_start_fields sample_outside_def)
  qed
  ultimately show ?thesis using p by (simp add: run_def sample_loads sample_start_fields)
qed

lemma restart_changes_nothing_witness:
  "\<exists>keys m'. run sample_outside machine_db (machine_bundle sample_crypto sample_rt) sample_environment sample_rt new_machine =
      (Inr (sample_config, keys, LogMailer (cf_DevLogEmails sample_config)), m') \<and>
    run sample_outside machine_db (machine_bundle sample_crypto sample_rt) sample_environment sample_rt m' =
      (Inr (sample_config, keys, LogMailer (cf_DevLogEmails sample_config)), m')"
proof -
  obtain keys m' where r: "run sample_outside machine_db (machine_bundle sample_crypto sample_rt) sample_environment sample_rt new_machine =
      (Inr (sample_config, keys, LogMailer (cf_DevLogEmails sample_config)), m')" "db_userClaims (m_database m') = []"
    using sample_run by blast
  have r': "run sample_outside machine_db (machine_bundle (ou_crypto sample_outside) sample_rt) sample_environment sample_rt new_machine =
      (Inr (sample_config, keys, LogMailer (cf_DevLogEmails sample_config)), m')" using r(1) by simp
  have "\<not> cf_AutoMigrate sample_config \<or> Migrate (ou_migrator sample_outside) (on_machine claim_table) m' = (None, m')"
    using sample_migrates [OF r(2)] by blast
  from restart_changes_nothing [OF r' this, of sample_rt] r(1) show ?thesis by auto
qed

end
