(* ===== verification/Frames.thy ===== *)
theory Frames
  imports Server
begin

section \<open>What a request can do to the stores\<close>

text \<open>
  A handler reaches the state only through the operations of its stores. So a relation between
  states that every operation keeps, and that is reflexive and transitive, holds between the
  states before and after a request. \<open>store_frame\<close> states what the operations have to keep, and
  its lemmas carry it through every handler of the browser and the protocol and through the
  router, on any stores; \<open>admin_frame\<close> adds the admin API. \<open>drawn\<close> is the set of the ids
  the request draws at random: a new code or token comes under one of them.
\<close>

locale store_frame =
  fixes b :: "'w store_bundle" and P :: "'w \<Rightarrow> 'w \<Rightarrow> bool" and drawn :: "uuid set"
  assumes refl: "P w w"
    and trans: "P w1 w2 \<Longrightarrow> P w2 w3 \<Longrightarrow> P w1 w3"
    and acs_Store: "ac_ID c \<in> drawn \<Longrightarrow> P w (snd (acs_Store (sb_AuthCodes b) (Some c) w))"
    and acs_MarkConsumed: "P w (snd (acs_MarkConsumed (sb_AuthCodes b) i t w))"
    and rts_Store: "rt_ID k \<in> drawn \<Longrightarrow> P w (snd (rts_Store (sb_RefreshTokens b) (Some k) w))"
    and rts_MarkConsumed: "P w (snd (rts_MarkConsumed (sb_RefreshTokens b) i t w))"
    and rts_Revoke: "P w (snd (rts_Revoke (sb_RefreshTokens b) i t w))"
    and rts_RevokeBySessionID: "P w (snd (rts_RevokeBySessionID (sb_RefreshTokens b) i t w))"
    and ss_Store: "s_ID s \<in> drawn \<Longrightarrow> P w (snd (ss_Store (sb_Sessions b) (Some s) w))"
    and ss_Revoke: "P w (snd (ss_Revoke (sb_Sessions b) i t w))"
    and ss_RevokeByUserIDExcept: "P w (snd (ss_RevokeByUserIDExcept (sb_Sessions b) u i t w))"
    and us_CreateUser: "P w (snd (us_CreateUser (sb_Users b) v pw w))"
    and us_UpdateUser: "P w (snd (us_UpdateUser (sb_Users b) v w))"
    and us_SetPassword: "P w (snd (us_SetPassword (sb_Users b) u pw w))"
    and als_Store: "P w (snd (als_Store (sb_AuditLogs b) (Some l) w))"
    and sks_Store: "P w (snd (sks_Store (sb_SigningKeys b) (Some sk) w))"
    and prs_Create: "pr_ID pr \<in> drawn \<Longrightarrow> P w (snd (prs_Create (sb_PasswordResets b) (Some pr) w))"
    and prs_Consume: "P w (snd (prs_Consume (sb_PasswordResets b) i t w))"
    and prs_InvalidateForUser: "P w (snd (prs_InvalidateForUser (sb_PasswordResets b) u t w))"
    and prs_DeleteExpired: "P w (snd (prs_DeleteExpired (sb_PasswordResets b) t w))"
    and lat_IsLockedOut: "P w (snd (lat_IsLockedOut (sb_Tracker b) key w))"
    and lat_RecordFailure: "P w (snd (lat_RecordFailure (sb_Tracker b) key w))"
    and lat_Reset: "P w (snd (lat_Reset (sb_Tracker b) key w))"
    and cac_CheckAndStore: "P w (snd (cac_CheckAndStore (sb_Assertions b) cid jti t w))"
begin

subsection \<open>Rules\<close>

text \<open>
  The current state is \<open>P\<close>-related to the first one, \<open>w0\<close>, all the way through a handler. A store
  that occurs in a handler is one of the bundle, which the first premise of its rule asks for.
\<close>

lemma frame_ops:
  "ca = sb_AuthCodes b \<Longrightarrow> ac_ID c \<in> drawn \<Longrightarrow> P w0 w \<Longrightarrow> P w0 (snd (acs_Store ca (Some c) w))"
  "ca = sb_AuthCodes b \<Longrightarrow> P w0 w \<Longrightarrow> P w0 (snd (acs_MarkConsumed ca i t w))"
  "rs = sb_RefreshTokens b \<Longrightarrow> rt_ID k \<in> drawn \<Longrightarrow> P w0 w \<Longrightarrow> P w0 (snd (rts_Store rs (Some k) w))"
  "rs = sb_RefreshTokens b \<Longrightarrow> P w0 w \<Longrightarrow> P w0 (snd (rts_MarkConsumed rs i t w))"
  "rs = sb_RefreshTokens b \<Longrightarrow> P w0 w \<Longrightarrow> P w0 (snd (rts_Revoke rs i t w))"
  "rs = sb_RefreshTokens b \<Longrightarrow> P w0 w \<Longrightarrow> P w0 (snd (rts_RevokeBySessionID rs i t w))"
  "ss = sb_Sessions b \<Longrightarrow> s_ID s \<in> drawn \<Longrightarrow> P w0 w \<Longrightarrow> P w0 (snd (ss_Store ss (Some s) w))"
  "ss = sb_Sessions b \<Longrightarrow> P w0 w \<Longrightarrow> P w0 (snd (ss_Revoke ss i t w))"
  "ss = sb_Sessions b \<Longrightarrow> P w0 w \<Longrightarrow> P w0 (snd (ss_RevokeByUserIDExcept ss u i t w))"
  "us = sb_Users b \<Longrightarrow> P w0 w \<Longrightarrow> P w0 (snd (us_CreateUser us v pw w))"
  "us = sb_Users b \<Longrightarrow> P w0 w \<Longrightarrow> P w0 (snd (us_UpdateUser us v w))"
  "us = sb_Users b \<Longrightarrow> P w0 w \<Longrightarrow> P w0 (snd (us_SetPassword us u pw w))"
  "al = sb_AuditLogs b \<Longrightarrow> P w0 w \<Longrightarrow> P w0 (snd (als_Store al (Some l) w))"
  "sks = sb_SigningKeys b \<Longrightarrow> P w0 w \<Longrightarrow> P w0 (snd (sks_Store sks (Some sk) w))"
  "ps = sb_PasswordResets b \<Longrightarrow> pr_ID pr \<in> drawn \<Longrightarrow> P w0 w \<Longrightarrow> P w0 (snd (prs_Create ps (Some pr) w))"
  "ps = sb_PasswordResets b \<Longrightarrow> P w0 w \<Longrightarrow> P w0 (snd (prs_Consume ps i t w))"
  "ps = sb_PasswordResets b \<Longrightarrow> P w0 w \<Longrightarrow> P w0 (snd (prs_InvalidateForUser ps u t w))"
  "ps = sb_PasswordResets b \<Longrightarrow> P w0 w \<Longrightarrow> P w0 (snd (prs_DeleteExpired ps t w))"
  "la = sb_Tracker b \<Longrightarrow> P w0 w \<Longrightarrow> P w0 (snd (lat_IsLockedOut la key w))"
  "la = sb_Tracker b \<Longrightarrow> P w0 w \<Longrightarrow> P w0 (snd (lat_RecordFailure la key w))"
  "la = sb_Tracker b \<Longrightarrow> P w0 w \<Longrightarrow> P w0 (snd (lat_Reset la key w))"
  "ch = sb_Assertions b \<Longrightarrow> P w0 w \<Longrightarrow> P w0 (snd (cac_CheckAndStore ch cid jti t w))"
  by (blast intro: trans acs_Store acs_MarkConsumed rts_Store rts_MarkConsumed rts_Revoke rts_RevokeBySessionID
      ss_Store ss_Revoke ss_RevokeByUserIDExcept us_CreateUser us_UpdateUser us_SetPassword als_Store sks_Store
      prs_Create prs_Consume prs_InvalidateForUser prs_DeleteExpired lat_IsLockedOut lat_RecordFailure lat_Reset
      cac_CheckAndStore)+

text \<open>The shapes of the handlers, on a result and on a state.\<close>

lemma frame_shapes:
  "P w0 w \<Longrightarrow> P w0 (snd (x, w))"
  "(c \<Longrightarrow> P w0 (snd r1)) \<Longrightarrow> (\<not> c \<Longrightarrow> P w0 (snd r2)) \<Longrightarrow> P w0 (snd (if c then r1 else r2))"
  "(c \<Longrightarrow> P w0 w1) \<Longrightarrow> (\<not> c \<Longrightarrow> P w0 w2) \<Longrightarrow> P w0 (if c then w1 else w2)"
  "P w0 (snd (f1 y)) \<Longrightarrow> P w0 (snd (Let y f1))"
  "P w0 (g1 y) \<Longrightarrow> P w0 (Let y g1)"
  "(o1 = None \<Longrightarrow> P w0 (snd r1)) \<Longrightarrow> (\<And>z. o1 = Some z \<Longrightarrow> P w0 (snd (f2 z))) \<Longrightarrow> P w0 (snd (case_option r1 f2 o1))"
  "(o1 = None \<Longrightarrow> P w0 w1) \<Longrightarrow> (\<And>z. o1 = Some z \<Longrightarrow> P w0 (g2 z)) \<Longrightarrow> P w0 (case_option w1 g2 o1)"
  "(\<And>l. P w0 (snd (f3 l))) \<Longrightarrow> (\<And>r. P w0 (snd (f4 r))) \<Longrightarrow> P w0 (snd (case_sum f3 f4 s1))"
  "(\<And>l. P w0 (g3 l)) \<Longrightarrow> (\<And>r. P w0 (g4 r)) \<Longrightarrow> P w0 (case_sum g3 g4 s1)"
  "P w0 (snd r1) \<Longrightarrow> P w0 (snd r2) \<Longrightarrow> P w0 (snd (case_bool r1 r2 x1))"
  by (auto split: option.split sum.split bool.split)

text \<open>A step that changes the state, and a pair that is none.\<close>

lemma frame_bind:
  fixes m :: "'a \<times> 'w"
  assumes "P w0 (snd m)"
  shows "(\<And>x w1. P w0 w1 \<Longrightarrow> P w0 (snd (f x w1))) \<Longrightarrow> P w0 (snd (case_prod f m))"
    and "(\<And>x w1. P w0 w1 \<Longrightarrow> P w0 (g x w1)) \<Longrightarrow> P w0 (case_prod g m)"
  using assms by (auto split: prod.split)

lemma frame_pairs:
  "(\<And>x y. P w0 (snd (f x y))) \<Longrightarrow> P w0 (snd (case_prod f q))"
  "(\<And>x y. P w0 (g x y)) \<Longrightarrow> P w0 (case_prod g q)"
  "(\<And>x y. P w0 (snd (f' x y w))) \<Longrightarrow> P w0 (snd (case_prod f' q w))"
  "(\<And>x y. P w0 (g' x y w)) \<Longrightarrow> P w0 (case_prod g' q w)"
  "(\<And>l. P w0 (snd (f3 l w))) \<Longrightarrow> (\<And>r. P w0 (snd (f4 r w))) \<Longrightarrow> P w0 (snd (case_sum f3 f4 s1 w))"
  "(o1 = None \<Longrightarrow> P w0 (snd (r1 w))) \<Longrightarrow> (\<And>z. o1 = Some z \<Longrightarrow> P w0 (snd (f2 z w))) \<Longrightarrow>
    P w0 (snd (case_option r1 f2 o1 w))"
  by (auto split: prod.split sum.split option.split)

lemmas frame = frame_shapes(1) frame_ops frame_bind frame_shapes(2-) frame_pairs

subsection \<open>Shared steps\<close>

lemma write_audit_frame: "al = Some (sb_AuditLogs b) \<Longrightarrow> P w0 w \<Longrightarrow> P w0 (write_audit al e w)"
  unfolding write_audit_def by (assumption | rule frame | (simp; fail))+

lemma revoke_tokens_frame:
  "rs = sb_RefreshTokens b \<Longrightarrow> P w0 w \<Longrightarrow> P w0 (snd (revoke_tokens rs t ids w))"
proof (induction ids arbitrary: w)
  case (Cons i ids)
  have "P w0 (snd (rts_RevokeBySessionID rs i t w))" by (rule frame_ops) (use Cons.prems in auto)
  with Cons show ?case by (auto split: prod.split option.split)
qed simp

lemma revoke_all_frame: "rs = sb_RefreshTokens b \<Longrightarrow> P w0 w \<Longrightarrow> P w0 (revoke_each rs t ids w)"
  by (induction ids arbitrary: w) (simp_all add: frame_ops)

lemma active_key_frame:
  "sks = sb_SigningKeys b \<Longrightarrow> P w0 w \<Longrightarrow> P w0 (snd (EnsureActiveKey cr sks rt site w))"
  unfolding EnsureActiveKey_def generateActive_def by (assumption | rule frame | (simp; fail))+

lemma sign_frame:
  "iss_Keys i = sb_SigningKeys b \<Longrightarrow> P w0 w \<Longrightarrow> P w0 (snd (sign_with_active cr i rt site cl w))"
  unfolding sign_with_active_def PrivateJWK_def
  by (assumption | rule active_key_frame frame | (simp; fail))+

lemma issue_frames:
  "iss_Keys i = sb_SigningKeys b \<Longrightarrow> P w0 w \<Longrightarrow> P w0 (snd (IssueAccessToken cr i rt site c w))"
  "iss_Keys i = sb_SigningKeys b \<Longrightarrow> P w0 w \<Longrightarrow> P w0 (snd (IssueIDToken cr i rt site d w))"
  unfolding IssueAccessToken_def IssueIDToken_def
  by (assumption | rule sign_frame frame | (simp; fail))+

lemma client_auth_frame:
  "cac_AssertionCache cfg = Some (sb_Assertions b) \<Longrightarrow> P w0 w \<Longrightarrow>
    P w0 (snd (AuthenticateClient cr rt site cfg clients form w))"
  unfolding AuthenticateClient_def authenticateWithPrivateKeyJWT_def VerifyClientAssertion_def
  by (assumption | rule frame | (simp add: assertion_params_def; fail))+

subsection \<open>Browser endpoints\<close>

lemma login_frame:
  "range (new_uuid rt) \<subseteq> drawn \<Longrightarrow> P w0 w \<Longrightarrow> P w0 (snd (login_serve cr lib rt (wire_login cfg keys b) r w))"
  unfolding login_serve_def login_check_def login_session_def recordFailedLogin_def recordAuth_def
  by (assumption | rule write_audit_frame frame | (simp add: wire_login_def; fail)
      | (simp add: login_session_of_def image_subset_iff; fail))+

lemma register_frame: "P w0 w \<Longrightarrow> P w0 (snd (register_serve cr rt (wire_register cfg b) r w))"
  unfolding register_serve_def by (assumption | rule frame | (simp add: wire_register_def; fail))+

lemma forgot_frame:
  "range (new_uuid rt) \<subseteq> drawn \<Longrightarrow> P w0 w \<Longrightarrow> P w0 (snd (forgot_serve cr rt (wire_forgot cfg b) r w))"
  unfolding forgot_serve_def forgot_process_def forgot_issue_def forgot_throttle_def
  by (assumption | rule write_audit_frame frame | (simp add: wire_forgot_def; fail)
      | (simp add: reset_token_of_def image_subset_iff; fail))+

lemma reset_frame: "P w0 w \<Longrightarrow> P w0 (snd (reset_serve cr rt (wire_reset cfg b) r w))"
  unfolding reset_serve_def reset_change_def reset_cleanup_def
  by (assumption | rule write_audit_frame revoke_all_frame frame | (simp add: wire_reset_def; fail))+

lemma profile_frame: "P w0 w \<Longrightarrow> P w0 (snd (profile_serve cr rt (wire_profile cfg b) ctx r w))"
  unfolding profile_serve_def revokeSession_def revokeOthers_def revokeOtherSessions_def changePassword_def
    change_verify_def change_apply_def profile_audit_def
  by (assumption | rule write_audit_frame revoke_tokens_frame frame | (simp add: wire_profile_def; fail))+

lemma logout_frame: "P w0 w \<Longrightarrow> P w0 (snd (logout_serve cr lib rt (wire_logout cfg keys b) r w))"
  unfolding logout_serve_def handleConfirm_def terminateSession_def
  by (assumption | rule frame | (simp add: wire_logout_def; fail))+

lemma guard_frame:
  assumes "P w0 w" "\<And>s. P w0 (snd (nxt s r w))"
  shows "P w0 (snd (RequireSession cr lib t sr nxt r w))"
  unfolding RequireSession_def by (rule assms | rule frame)+

subsection \<open>Protocol endpoints\<close>

lemma authorize_frame:
  "range (new_uuid rt) \<subseteq> drawn \<Longrightarrow> P w0 w \<Longrightarrow> P w0 (snd (authorize_serve cr lib rt (wire_authorize cfg keys b) r w))"
  unfolding authorize_serve_def authorize_issue_def mintCode_def
  by (assumption | rule frame | (simp add: wire_authorize_def; fail) | (simp add: minted_code_def Let_def image_subset_iff; fail))+

lemma authcode_frame:
  "range (new_uuid rt) \<subseteq> drawn \<Longrightarrow> P w0 w \<Longrightarrow>
    P w0 (snd (authcode_handle cr (wire_authcode_grant cfg b) rt client form w))"
  unfolding authcode_handle_def authcode_issue_def authcode_refresh_def
  by (assumption | rule issue_frames frame | (simp add: wire_authcode_grant_def wire_issuer_def NewIssuer_def; fail)
      | (simp add: initial_refresh_token_def Let_def image_subset_iff; fail))+

lemma refresh_frame:
  "range (new_uuid rt) \<subseteq> drawn \<Longrightarrow> P w0 w \<Longrightarrow>
    P w0 (snd (refresh_handle cr (wire_refresh_grant cfg b) rt client form w))"
  unfolding refresh_handle_def refresh_issue_def refresh_rotate_def refresh_id_token_def handleReuse_def
  by (assumption | rule issue_frames frame | (simp add: wire_refresh_grant_def wire_issuer_def NewIssuer_def; fail)
      | (simp add: rotated_token_def Let_def image_subset_iff; fail))+

lemma wired_grants:
  "th_AuthCode (wire_token cfg b) = Some g \<Longrightarrow> range (new_uuid rt) \<subseteq> drawn \<Longrightarrow> P w0 w \<Longrightarrow>
    P w0 (snd (authcode_handle cr g rt client form w))"
  "th_Refresh (wire_token cfg b) = Some g' \<Longrightarrow> range (new_uuid rt) \<subseteq> drawn \<Longrightarrow> P w0 w \<Longrightarrow>
    P w0 (snd (refresh_handle cr g' rt client form w))"
  "th_ClientCredentials (wire_token cfg b) = Some g'' \<Longrightarrow> iss_Keys (ccg_Issuer g'') = sb_SigningKeys b"
  by (auto simp: wire_token_def wire_issuer_def NewIssuer_def authcode_frame refresh_frame)

lemma token_frame:
  "range (new_uuid rt) \<subseteq> drawn \<Longrightarrow> P w0 w \<Longrightarrow> P w0 (snd (token_serve cr (wire_token cfg b) rt r w))"
  unfolding token_serve_def token_dispatch_def client_creds_handle_def
  by (assumption | rule client_auth_frame wired_grants(1,2) issue_frames frame
      | (simp add: wired_grants(3); fail) | (simp add: wire_token_def wire_client_auth_def; fail))+

lemma revoke_frame: "P w0 w \<Longrightarrow> P w0 (snd (revoke_serve cr (wire_revoke cfg b) rt r w))"
  unfolding revoke_serve_def
  by (assumption | rule client_auth_frame frame | (simp add: wire_revoke_def wire_client_auth_def; fail))+

lemma jwks_frame: "P w0 w \<Longrightarrow> P w0 (snd (jwks_serve cr rt (wire_issuer cfg b) w))"
  unfolding jwks_serve_def JWKSForEndpoint_def
  by (assumption | rule active_key_frame frame | (simp add: wire_issuer_def NewIssuer_def; fail))+

subsection \<open>The whole server\<close>

lemma answers_frame: "P w0 w \<Longrightarrow> P w0 (snd (answers f r w))"
  by (simp add: answers_def)

lemma mailing_frame:
  assumes "\<And>msg w. P w (mailer msg w)" "P w0 (snd res)"
  shows "P w0 (snd (mailing mailer res))"
  using assms by (auto simp: mailing_def intro: trans split: prod.split option.split)

text \<open>A route whose handler keeps \<open>P\<close> keeps it behind the limiter too.\<close>

definition keeps :: "http_request \<Rightarrow> ('l, 'w) chi_route \<Rightarrow> bool" where
  "keeps r ro \<longleftrightarrow> (\<forall>s. path_matches (fst (snd ro)) (req_Path r) \<longrightarrow> P (snd s) (snd (snd (snd (snd ro) r s))))"

lemma keeps_mount:
  assumes "\<And>h w. oh = Some h \<Longrightarrow> path_matches p (req_Path r) \<Longrightarrow> P w (snd (h r w))"
  shows "list_all (keeps r) (mount oh m p direct)" "list_all (keeps r) (mount oh m p (limited lib t k))"
proof -
  have "P w (snd (h r w))" "h r w = (out, w') \<Longrightarrow> P w w'" if "oh = Some h" "path_matches p (req_Path r)" for h w out w'
    using assms [OF that, of w] by auto
  then show "list_all (keeps r) (mount oh m p direct)" "list_all (keeps r) (mount oh m p (limited lib t k))"
    by (auto simp: mount_def keeps_def direct_def limited_def limit_middleware_def case_prod_beta refl
        split: option.split prod.split bool.split)
qed

lemma keeps_mount_at:
  assumes "\<And>h w. oh = Some h \<Longrightarrow> P w (snd (h r w))"
  shows "list_all (keeps r) (mount_at oh m p)"
  using assms by (auto simp: mount_at_def intro!: keeps_mount)

lemma dispatch_frame:
  assumes "list_all (keeps r) routes"
  shows "P (snd s) (snd (snd (dispatch routes r s)))"
proof (cases "find (\<lambda>(m, p, h). method_matches m (req_Method r) \<and> path_matches p (req_Path r)) routes")
  case (Some ro)
  then have "keeps r ro" "path_matches (fst (snd ro)) (req_Path r)"
    using assms by (auto simp: list_all_iff dest: find_Some_set)
  with Some show ?thesis by (cases s) (auto simp: dispatch_def keeps_def refl split: prod.split)
qed (simp add: dispatch_def refl)

lemma handlers_frame:
  fixes ev :: "('l, 'w) environment_of_server" and cfg :: config
  assumes "range (new_uuid rt) \<subseteq> drawn" "\<And>msg w. P w (ev_mailer ev msg w)"
  defines "hs \<equiv> wire_handlers ev cfg b rt"
  shows "hd_CSRF hs = Some h \<Longrightarrow> P w (snd (h r w))" "hd_Session hs = Some h \<Longrightarrow> P w (snd (h r w))"
    "hd_Login hs = Some h \<Longrightarrow> P w (snd (h r w))" "hd_Register hs = Some h \<Longrightarrow> P w (snd (h r w))"
    "hd_ForgotPassword hs = Some h \<Longrightarrow> P w (snd (h r w))" "hd_ResetPassword hs = Some h \<Longrightarrow> P w (snd (h r w))"
    "hd_Home hs = Some h \<Longrightarrow> P w (snd (h r w))" "hd_Profile hs = Some h \<Longrightarrow> P w (snd (h r w))"
    "hd_Logout hs = Some h \<Longrightarrow> P w (snd (h r w))" "hd_Authorize hs = Some h \<Longrightarrow> P w (snd (h r w))"
    "hd_Token hs = Some h \<Longrightarrow> P w (snd (h r w))" "hd_UserInfo hs = Some h \<Longrightarrow> P w (snd (h r w))"
    "hd_Revoke hs = Some h \<Longrightarrow> P w (snd (h r w))" "hd_Discovery hs = Some h \<Longrightarrow> P w (snd (h r w))"
    "hd_JWKS hs = Some h \<Longrightarrow> P w (snd (h r w))" "hd_Health hs = Some h \<Longrightarrow> P w (snd (h r w))"
  by (auto simp: hs_def wire_handlers_def Let_def health_serve_def refl answers_def mailing_frame [OF assms(2) forgot_frame [OF assms(1) refl]]
      profile_frame [OF refl]
      login_frame [OF assms(1) refl] register_frame [OF refl] reset_frame [OF refl] logout_frame [OF refl]
      authorize_frame [OF assms(1) refl] token_frame [OF assms(1) refl] revoke_frame [OF refl] jwks_frame [OF refl]
      intro!: guard_frame)

lemma server_frame:
  assumes "range (new_uuid rt) \<subseteq> drawn" "\<And>msg w. P w (ev_mailer ev msg w)" "bundle rt = b"
    and "\<And>w. has_prefix (req_Path (ev_real_ip ev r)) ''/admin/api/'' \<Longrightarrow> P w (snd (wire_admin ev cfg b rt (ev_real_ip ev r) w))"
  shows "P (snd s) (snd (snd (server_serve ev cfg bundle rt r s)))"
proof -
  note hs = handlers_frame [OF assms(1), of ev, OF assms(2), of cfg]
  have admin: "P w (snd (h (ev_real_ip ev r) w))" if "hd_Admin (wire_handlers ev cfg b rt) = Some h"
    "path_matches (Below ''/admin/api/'') (req_Path (ev_real_ip ev r))" for h w
    using that assms(4) by (simp add: wire_handlers_def Let_def path_matches_def)
  have "list_all (keeps (ev_real_ip ev r))
      (server_routes (ev_rate ev) (now rt 302) (wire_router cfg) (wire_handlers ev cfg b rt))"
    unfolding server_routes_def api_routes_def protocol_routes_def list_all_append
    by (intro conjI keeps_mount keeps_mount_at; (rule hs admin; assumption))
  from dispatch_frame [OF this] show ?thesis
    by (simp add: server_serve_def router_serve_def Let_def case_prod_beta assms(3))
qed

end

section \<open>With the admin API\<close>

locale admin_frame = store_frame b P drawn
  for b :: "'w store_bundle" and P :: "'w \<Rightarrow> 'w \<Rightarrow> bool" and drawn :: "uuid set" +
  assumes us_DeleteUser: "P w (snd (us_DeleteUser (sb_Users b) u w))"
    and cs_Store: "P w (snd (cs_Store (sb_Clients b) (Some c) w))"
    and cs_Delete: "P w (snd (cs_Delete (sb_Clients b) i w))"
    and scs_Store: "P w (snd (scs_Store (sb_Scopes b) (Some sc) w))"
    and scs_Delete: "P w (snd (scs_Delete (sb_Scopes b) i w))"
    and ud_ReplaceUserClaims: "P w (snd (ud_ReplaceUserClaims (sb_Directory b) i cs w))"
    and ud_AddToRoles: "P w (snd (ud_AddToRoles (sb_Directory b) i ns w))"
    and ud_RemoveFromRoles: "P w (snd (ud_RemoveFromRoles (sb_Directory b) i ns w))"
    and ud_RemoveLogin: "P w (snd (ud_RemoveLogin (sb_Directory b) i p k w))"
    and ros_CreateRole: "P w (snd (ros_CreateRole (sb_Roles b) ro w))"
    and ros_DeleteRole: "P w (snd (ros_DeleteRole (sb_Roles b) i w))"
    and ros_UpdateRole: "P w (snd (ros_UpdateRole (sb_Roles b) ro w))"
    and ros_ReplaceRoleClaims: "P w (snd (ros_ReplaceRoleClaims (sb_Roles b) i cs w))"
begin

lemma api_ops:
  defines "a \<equiv> wire_admin_api b"
  shows "P w0 w \<Longrightarrow> P w0 (snd (us_DeleteUser (ap_Users a) u w))"
    "P w0 w \<Longrightarrow> P w0 (snd (cs_Store (ap_Clients a) (Some c) w))"
    "P w0 w \<Longrightarrow> P w0 (snd (cs_Delete (ap_Clients a) i w))"
    "P w0 w \<Longrightarrow> P w0 (snd (scs_Store (ap_Scopes a) (Some sc) w))"
    "P w0 w \<Longrightarrow> P w0 (snd (scs_Delete (ap_Scopes a) i w))"
    "P w0 w \<Longrightarrow> P w0 (snd (ud_ReplaceUserClaims (ap_Directory a) i cs w))"
    "P w0 w \<Longrightarrow> P w0 (snd (ud_AddToRoles (ap_Directory a) i ns w))"
    "P w0 w \<Longrightarrow> P w0 (snd (ud_RemoveFromRoles (ap_Directory a) i ns w))"
    "P w0 w \<Longrightarrow> P w0 (snd (ud_RemoveLogin (ap_Directory a) i p k w))"
    "P w0 w \<Longrightarrow> P w0 (snd (ros_CreateRole (ap_Roles a) ro w))"
    "P w0 w \<Longrightarrow> P w0 (snd (ros_DeleteRole (ap_Roles a) i w))"
    "P w0 w \<Longrightarrow> P w0 (snd (ros_UpdateRole (ap_Roles a) ro w))"
    "P w0 w \<Longrightarrow> P w0 (snd (ros_ReplaceRoleClaims (ap_Roles a) i cs w))"
  unfolding a_def wire_admin_api_def admin_api.select_convs
  by (blast intro: trans us_DeleteUser cs_Store cs_Delete scs_Store scs_Delete ud_ReplaceUserClaims ud_AddToRoles
      ud_RemoveFromRoles ud_RemoveLogin ros_CreateRole ros_DeleteRole ros_UpdateRole ros_ReplaceRoleClaims)+

lemma answer_frames:
  "P w0 (snd res) \<Longrightarrow> P w0 (snd (deleted res))" "P w0 (snd res) \<Longrightarrow> P w0 (snd (updated res))"
  by (auto simp: deleted_def updated_def split: prod.split option.split)

lemma api_stores:
  "ap_Sessions (wire_admin_api b) = sb_Sessions b" "ap_RefreshTokens (wire_admin_api b) = sb_RefreshTokens b"
  "ap_SigningKeys (wire_admin_api b) = sb_SigningKeys b" "ap_Users (wire_admin_api b) = sb_Users b"
  "ap_AuditLogs (wire_admin_api b) = Some (sb_AuditLogs b)"
  "ap_PasswordResets (wire_admin_api b) = Some st \<Longrightarrow> st = sb_PasswordResets b"
  by (simp_all add: wire_admin_api_def)

lemma resource_frames:
  fixes cr :: crypto and rt :: runtime
  defines "a \<equiv> wire_admin_api b"
  shows "P w0 w \<Longrightarrow> P w0 (snd (createClient a r w))" "P w0 w \<Longrightarrow> P w0 (snd (updateClient a i r w))"
    "P w0 w \<Longrightarrow> P w0 (snd (deleteClient a i w))" "P w0 w \<Longrightarrow> P w0 (snd (createScope a r w))"
    "P w0 w \<Longrightarrow> P w0 (snd (updateScope a i r w))" "P w0 w \<Longrightarrow> P w0 (snd (deleteScope a i w))"
    "P w0 w \<Longrightarrow> P w0 (snd (admin_revokeSession cr rt a i w))"
    "P w0 w \<Longrightarrow> P w0 (snd (revokeRefreshToken cr rt a i w))" "P w0 w \<Longrightarrow> P w0 (snd (rotateSigningKey cr rt a w))"
  unfolding a_def createClient_def updateClient_def store_client_def deleteClient_def createScope_def updateScope_def
    store_scope_def deleteScope_def admin_revokeSession_def revokeRefreshToken_def rotateSigningKey_def Rotate_def generateActive_def
  by (assumption | rule api_ops answer_frames api_stores frame)+

lemma revoke_noting_frame:
  "rs = sb_RefreshTokens b \<Longrightarrow> P w0 w \<Longrightarrow> P w0 (snd (revoke_noting rs t ids w))"
proof (induction ids arbitrary: w)
  case (Cons i ids)
  have "P w0 (snd (rts_RevokeBySessionID rs i t w))" by (rule frame_ops) (use Cons.prems in auto)
  with Cons show ?case by (simp add: case_prod_beta)
qed simp

lemma user_frames:
  fixes cr :: crypto and rt :: runtime
  defines "a \<equiv> wire_admin_api b"
  shows "P w0 w \<Longrightarrow> P w0 (snd (admin_createUser cr rt a r w))" "P w0 w \<Longrightarrow> P w0 (snd (admin_updateUser rt a i r w))"
    "P w0 w \<Longrightarrow> P w0 (snd (unlockUser rt a i w))" "P w0 w \<Longrightarrow> P w0 (snd (admin_deleteUser rt a i w))"
    "P w0 w \<Longrightarrow> P w0 (snd (setUserClaims a i r w))" "P w0 w \<Longrightarrow> P w0 (snd (setUserRoles a i r w))"
    "P w0 w \<Longrightarrow> P w0 (snd (removeUserLogin a i p k w))" "P w0 w \<Longrightarrow> P w0 (snd (setUserPassword cr rt a i ctx r w))"
  unfolding a_def admin_createUser_def admin_updateUser_def save_user_def unlockUser_def admin_deleteUser_def setUserClaims_def
    setUserRoles_def remove_roles_def add_roles_to_def removeUserLogin_def setUserPassword_def password_cleanup_def
    stamp_user_def auditPasswordSet_def
  by (assumption | rule api_ops answer_frames api_stores revoke_tokens_frame revoke_noting_frame write_audit_frame frame)+

lemma role_frames:
  fixes cr :: crypto and rt :: runtime
  defines "a \<equiv> wire_admin_api b"
  shows "P w0 w \<Longrightarrow> P w0 (snd (createRole cr rt a r w))" "P w0 w \<Longrightarrow> P w0 (snd (updateRole a i r w))"
    "P w0 w \<Longrightarrow> P w0 (snd (deleteRole a i w))" "P w0 w \<Longrightarrow> P w0 (snd (setRoleClaims a i r w))"
  unfolding a_def createRole_def updateRole_def deleteRole_def setRoleClaims_def
  by (assumption | rule api_ops answer_frames api_stores frame)+

lemma routes_frame:
  "ro \<in> set (admin_routes cr marshal rt (wire_admin_api b)) \<Longrightarrow> P w (snd (ro_Handler ro vs ctx r w))"
  by (auto simp: admin_routes_def client_routes_def token_routes_def user_routes_def api_route_def reads_def refl
      resource_frames [OF refl] user_frames [OF refl] role_frames [OF refl])

lemma admin_routes_frame: "P w (snd (wire_admin ev cfg b rt r w))"
proof -
  let ?mux = "serve_mux (admin_routes (ev_crypto ev) (ev_marshal ev) rt (wire_admin_api b)) (admin_segments (req_Path r))"
  have mux: "P w (snd (?mux ctx r w))" for ctx
    by (auto simp: serve_mux_def refl routes_frame dest!: find_Some_set split: option.split)
  have gated: "P w w'" if "CSRFMiddleware ?mux ctx r w = (out0, w')" for ctx out0 w'
    using that mux [of ctx] refl [of w] by (auto simp: CSRFMiddleware_def split: if_splits)
  obtain out w' where run: "wire_admin ev cfg b rt r w = (out, w')" by fastforce
  from AuthMiddleware_cases [OF run [unfolded wire_admin_def admin_serve_def]] gated refl [of w] have "P w w'" by blast
  with run show ?thesis by simp
qed

text \<open>Every operation keeps \<open>P\<close>, so every request does.\<close>

lemma request_frame:
  assumes "range (new_uuid rt) \<subseteq> drawn" "\<And>msg w. P w (ev_mailer ev msg w)" "bundle rt = b"
  shows "P (snd s) (snd (snd (server_serve ev cfg bundle rt r s)))"
proof (rule server_frame)
  show "P w (snd (wire_admin ev cfg b rt (ev_real_ip ev r) w))" for w by (rule admin_routes_frame)
qed (use assms in auto)

end

end
