(* ===== verification/Server_Frames.thy ===== *)
theory Server_Frames
  imports Frames Server_Properties Sql_Bundle
begin

section \<open>What no sequence of requests undoes\<close>

text \<open>
  The frames of Frames for two relations: what has ended stays ended, and what a user may do stays
  the same. They give the two invariants of the whole server, over any requests to any endpoint, on
  the memory stores and then on the running server with its database.
\<close>

subsection \<open>What has ended stays ended\<close>

datatype ended_thing =
  SpentCode uuid | SpentToken uuid | RevokedToken uuid | RevokedSession uuid | SpentReset uuid

fun ended_id :: "ended_thing \<Rightarrow> uuid" where
  "ended_id (SpentCode i) = i"
| "ended_id (SpentToken i) = i"
| "ended_id (RevokedToken i) = i"
| "ended_id (RevokedSession i) = i"
| "ended_id (SpentReset i) = i"

text \<open>A reset token that is gone, as its sweep leaves it, cannot be used either.\<close>

fun ended :: "ended_thing \<Rightarrow> world \<Rightarrow> bool" where
  "ended (SpentCode i) w = (case gm_get (acm_codes (w_codes w)) i of None \<Rightarrow> False | Some c \<Rightarrow> ac_ConsumedAt c \<noteq> None)"
| "ended (SpentToken i) w = (case gm_get (rtm_tokens (w_refresh w)) i of None \<Rightarrow> False | Some t \<Rightarrow> rt_ConsumedAt t \<noteq> None)"
| "ended (RevokedToken i) w = (case gm_get (rtm_tokens (w_refresh w)) i of None \<Rightarrow> False | Some t \<Rightarrow> rt_RevokedAt t \<noteq> None)"
| "ended (RevokedSession i) w = (case gm_get (w_sessions w) i of None \<Rightarrow> False | Some s \<Rightarrow> s_RevokedAt s \<noteq> None)"
| "ended (SpentReset i) w = (case gm_get (w_resets w) i of None \<Rightarrow> True | Some p \<Rightarrow> pr_ConsumedAt p \<noteq> None)"

definition keeps_ended :: "uuid set \<Rightarrow> world \<Rightarrow> world \<Rightarrow> bool" where
  "keeps_ended drawn w w' \<longleftrightarrow> (gm_wf (w_resets w) \<longrightarrow>
    gm_wf (w_resets w') \<and> (\<forall>x. ended x w \<and> ended_id x \<notin> drawn \<longrightarrow> ended x w'))"

lemma keeps_ended_same [simp]:
  "w_codes w' = w_codes w \<Longrightarrow> w_refresh w' = w_refresh w \<Longrightarrow> w_sessions w' = w_sessions w \<Longrightarrow> w_resets w' = w_resets w
    \<Longrightarrow> keeps_ended drawn w w'"
  by (auto simp: keeps_ended_def elim!: ended.elims)

lemma keeps_endedI:
  assumes "gm_wf (w_resets w) \<Longrightarrow> gm_wf (w_resets w')"
    and "\<And>i. i \<notin> drawn \<Longrightarrow> ended (SpentCode i) w \<Longrightarrow> ended (SpentCode i) w'"
    and "\<And>i. i \<notin> drawn \<Longrightarrow> ended (SpentToken i) w \<Longrightarrow> ended (SpentToken i) w'"
    and "\<And>i. i \<notin> drawn \<Longrightarrow> ended (RevokedToken i) w \<Longrightarrow> ended (RevokedToken i) w'"
    and "\<And>i. i \<notin> drawn \<Longrightarrow> ended (RevokedSession i) w \<Longrightarrow> ended (RevokedSession i) w'"
    and "\<And>i. i \<notin> drawn \<Longrightarrow> ended (SpentReset i) w \<Longrightarrow> ended (SpentReset i) w'"
  shows "keeps_ended drawn w w'"
  unfolding keeps_ended_def
proof (intro impI conjI allI)
  fix x
  assume "gm_wf (w_resets w)" "ended x w \<and> ended_id x \<notin> drawn"
  with assms(2-) show "ended x w'" by (cases x) simp_all
qed (rule assms(1))

lemmas mem_bundle_stores = mem_bundle_def mem_instances mem_directory_def mem_roles_def

lemma ended_writes:
  "ac_ID c \<in> drawn \<Longrightarrow> keeps_ended drawn w (snd (acs_Store mem_auth_codes (Some c) w))"
  "keeps_ended drawn w (snd (acs_MarkConsumed mem_auth_codes i t w))"
  "rt_ID k \<in> drawn \<Longrightarrow> keeps_ended drawn w (snd (rts_Store mem_refresh_tokens (Some k) w))"
  "keeps_ended drawn w (snd (rts_MarkConsumed mem_refresh_tokens i t w))"
  "keeps_ended drawn w (snd (rts_Revoke mem_refresh_tokens i t w))"
  "keeps_ended drawn w (snd (rts_RevokeBySessionID mem_refresh_tokens i t w))"
  "s_ID s \<in> drawn \<Longrightarrow> keeps_ended drawn w (snd (ss_Store mem_sessions (Some s) w))"
  "keeps_ended drawn w (snd (ss_Revoke mem_sessions i t w))"
  "keeps_ended drawn w (snd (ss_RevokeByUserIDExcept mem_sessions u i t w))"
  "pr_ID p \<in> drawn \<Longrightarrow> keeps_ended drawn w (snd (prs_Create mem_resets (Some p) w))"
  "keeps_ended drawn w (snd (prs_Consume mem_resets i t w))"
  "keeps_ended drawn w (snd (prs_InvalidateForUser mem_resets u t w))"
  by (rule keeps_endedI; auto simp: mem_instances zoom_eq authcode_defs refresh_mem_defs session_mem_defs reset_Create_def revoke_if_keeps
      reset_Consume_def reset_InvalidateForUser_def revoke_hits_def split: option.splits if_splits)+

lemma ended_sweep: "keeps_ended drawn w (snd (prs_DeleteExpired mem_resets t w))"
  unfolding keeps_ended_def
proof (intro impI conjI allI)
  fix x
  assume "gm_wf (w_resets w)" "ended x w \<and> ended_id x \<notin> drawn"
  then show "ended x (snd (prs_DeleteExpired mem_resets t w))"
    by (cases x) (simp_all add: mem_resets_def zoom_eq reset_DeleteExpired_def gm_get_filter del: map_of_eq_Some_iff
        split: option.splits)
qed (simp add: mem_resets_def zoom_eq reset_DeleteExpired_def)

interpretation ends: admin_frame "mem_bundle cr rt" "keeps_ended drawn" drawn for cr rt drawn
proof unfold_locales
  show "keeps_ended drawn w1 w3" if "keeps_ended drawn w1 w2" "keeps_ended drawn w2 w3" for w1 w2 w3
    using that by (auto simp: keeps_ended_def)
qed (simp_all add: mem_bundle_def ended_writes ended_sweep, simp_all add: mem_bundle_stores zoom_eq)

text \<open>The requests of a server's life, each with the clock and the ids it draws.\<close>

fun serve_all ::
  "('l, 'w) environment_of_server \<Rightarrow> config \<Rightarrow> (runtime \<Rightarrow> 'w store_bundle) \<Rightarrow> (runtime \<times> http_request) list
    \<Rightarrow> ('l, 'w) server_state \<Rightarrow> outcome list \<times> ('l, 'w) server_state" where
  "serve_all ev cfg bundle [] s = ([], s)"
| "serve_all ev cfg bundle ((rt, r) # reqs) s =
    (let (out, s1) = server_serve ev cfg bundle rt r s;
         (outs, s2) = serve_all ev cfg bundle reqs s1
     in (out # outs, s2))"

text \<open>
  Whatever requests a server answers, to any of its endpoints, the admin API included: a spent
  code or refresh token stays spent, a revoked token or session stays revoked, and a reset token
  that was used or swept stays unusable, unless its id is drawn a second time.
  The map of the reset tokens has one entry per id, as a Go map does.
\<close>

theorem nothing_comes_back:
  assumes "ended x (snd s)" "gm_wf (w_resets (snd s))" "\<forall>(rt, r) \<in> set reqs. ended_id x \<notin> range (new_uuid rt)" "\<And>msg w. ev_mailer ev msg w = w"
  shows "ended x (snd (snd (serve_all ev cfg (mem_bundle cr) reqs s)))"
  using assms(1-3)
proof (induction reqs arbitrary: s)
  case (Cons q reqs)
  obtain rt r where q: "q = (rt, r)" by (cases q)
  have "keeps_ended (range (new_uuid rt)) (snd s) (snd (snd (server_serve ev cfg (mem_bundle cr) rt r s)))"
    by (rule ends.request_frame) (simp_all add: assms(4))
  then have "gm_wf (w_resets (snd (snd (server_serve ev cfg (mem_bundle cr) rt r s))))"
    "ended x (snd (snd (server_serve ev cfg (mem_bundle cr) rt r s)))"
    using Cons.prems by (auto simp: keeps_ended_def q)
  with Cons show ?case by (simp add: q case_prod_beta Let_def)
qed simp

subsection \<open>What a user may do\<close>

text \<open>Registered clients, scopes, roles, and the roles, claims and external logins of the users.\<close>

definition powers :: "world \<Rightarrow> client_mem \<times> scope_mem \<times> role_mem \<times> (string, string list) gomap \<times>
    (string, user_claim list) gomap \<times> (string, user_login list) gomap" where
  "powers w = (w_clients w, w_scopes w, w_roles w, um_roles (w_users w), um_claims (w_users w), um_logins (w_users w))"

lemma powers_users:
  "powers (snd (us_CreateUser (mem_users cr rt) u pw w)) = powers w"
  "powers (snd (us_UpdateUser (mem_users cr rt) u w)) = powers w"
  "powers (snd (us_SetPassword (mem_users cr rt) i pw w)) = powers w"
  by (auto simp: powers_def mem_users_def zoom_eq user_CreateUser_def user_UpdateUser_def user_SetPassword_def split: option.split)

interpretation powers: store_frame "mem_bundle cr rt" "\<lambda>w w'. powers w' = powers w" UNIV for cr rt
  by unfold_locales (simp_all add: mem_bundle_def powers_users, simp_all add: powers_def mem_instances zoom_eq)

text \<open>
  On the whole server the registered clients and scopes, the roles, and the roles, claims and
  external logins of a user change only by a request to the admin API that is admitted: without
  anonymous use by the configured token or by the live session of a user with the admin role, and
  then with the CSRF cookie echoed. Registration, login and the account pages change none of it.
\<close>

theorem powers_change_by_admins_only:
  assumes "server_serve ev cfg (mem_bundle cr) rt r (ls, w) = (out, (ls', w'))"
    and "powers w' \<noteq> powers w" "\<not> cf_AdminAllowAnonymous cfg" "\<And>msg w. ev_mailer ev msg w = w"
  shows "\<exists>ctx. admitted (ev_crypto ev) (ev_cookies ev) (now rt 300) (wire_admin_auth cfg (ev_keys ev) (mem_bundle cr rt))
      (ev_real_ip ev r) w ctx \<and> has_prefix (req_Path (ev_real_ip ev r)) ''/admin/api/'' \<and>
    (ax_Method ctx = AuthToken \<or> ax_Method ctx = AuthSession \<and> double_submit (ev_real_ip ev r))"
proof -
  have path: "has_prefix (req_Path (ev_real_ip ev r)) ''/admin/api/''"
  proof (rule ccontr)
    assume "\<not> ?thesis"
    then have "powers (snd (snd (server_serve ev cfg (mem_bundle cr) rt r (ls, w)))) = powers (snd (ls, w))"
      by (intro powers.server_frame) (simp_all add: assms(4))
    with assms(1,2) show False by simp
  qed
  have "w' \<noteq> w" using assms(2) by auto
  from server_admin_changes [OF assms(1) path assms(3) this] path show ?thesis
    by (metis auth_method.exhaust)
qed

section \<open>The running server on its database\<close>

text \<open>
  The two invariants on a machine: the SQL stores over the tables of one database
  and the cache of assertions. Every method of a SQL store is made of the four statements that
  write, so a relation each statement of a table keeps is kept by the methods over it
  (\<open>table_frame\<close>); what is left are the tables the relation looks at.
\<close>

subsection \<open>Methods made of statements\<close>

definition table_keeps :: "('w \<Rightarrow> 'w \<Rightarrow> bool) \<Rightarrow> ('r, 'w) sql_table \<Rightarrow> bool" where
  "table_keeps P tb \<longleftrightarrow>
    (\<forall>r w. P w (snd (tb_Create tb r w)) \<and> P w (snd (tb_Save tb r w))) \<and>
    (\<forall>Q f w. P w (snd (tb_Update tb Q f w)) \<and> P w (snd (tb_Delete tb Q w)))"

locale table_frame =
  fixes P :: "'w \<Rightarrow> 'w \<Rightarrow> bool"
  assumes same: "P w w"
    and step: "P w1 w2 \<Longrightarrow> P w2 w3 \<Longrightarrow> P w1 w3"
begin

lemma statement:
  assumes "table_keeps P tb" "P w0 w"
  shows "P w0 (snd (tb_Create tb r w))" "P w0 (snd (tb_Save tb r w))" "P w0 (snd (tb_Update tb Q f w))"
    "P w0 (snd (tb_Delete tb Q w))"
  using assms unfolding table_keeps_def by (meson step)+

lemma statement_result:
  "tb_Create tb r w = (e, w1) \<Longrightarrow> table_keeps P tb \<Longrightarrow> P w0 w \<Longrightarrow> P w0 w1"
  "tb_Update tb Q f w = (n, w1) \<Longrightarrow> table_keeps P tb \<Longrightarrow> P w0 w \<Longrightarrow> P w0 w1"
  "tb_Delete tb Q w = (n, w1) \<Longrightarrow> table_keeps P tb \<Longrightarrow> P w0 w \<Longrightarrow> P w0 w1"
  using statement(1) [of tb w0 w r] statement(3) [of tb w0 w Q f] statement(4) [of tb w0 w Q] by simp_all

lemma row_results:
  "P w0 (snd res) \<Longrightarrow> P w0 (snd (any_row res))" "P w0 (snd res) \<Longrightarrow> P w0 (snd (hit_row res))"
  "P w0 (snd res) \<Longrightarrow> P w0 (snd (one_row res))"
  by (auto simp: any_row_def hit_row_def one_row_def split: prod.split sum.split)

lemma statement_then:
  "P w0 (snd res) \<Longrightarrow> (\<And>w. P w0 w \<Longrightarrow> P w0 (snd (g w))) \<Longrightarrow>
    P w0 (snd (case res of (Some e, w1) \<Rightarrow> (Some (e :: store_error), w1) | (None, w1) \<Rightarrow> g w1))"
  by (auto split: prod.split option.split)

lemma statements:
  "(\<And>s w. s \<in> set ss \<Longrightarrow> P w0 w \<Longrightarrow> P w0 (snd (s w))) \<Longrightarrow> P w0 w \<Longrightarrow> P w0 (snd (run_all ss w))"
  by (induction ss arbitrary: w) (auto intro!: statement_then)

lemma stored_rows:
  assumes "P w0 w"
  shows "table_keeps P t1 \<Longrightarrow> P w0 (snd (sql_client_Store t1 c w))" "table_keeps P t1 \<Longrightarrow> P w0 (snd (sql_client_Delete t1 i w))"
    "table_keeps P t2 \<Longrightarrow> P w0 (snd (sql_scope_Store t2 sc w))" "table_keeps P t2 \<Longrightarrow> P w0 (snd (sql_scope_Delete t2 n w))"
    "table_keeps P t3 \<Longrightarrow> P w0 (snd (sql_signing_Store t3 k w))"
    "table_keeps P t4 \<Longrightarrow> P w0 (snd (sql_audit_Store cr t4 l w))"
    "table_keeps P t5 \<Longrightarrow> P w0 (snd (sql_IsLockedOut cfg t5 t key w))"
    "table_keeps P t5 \<Longrightarrow> P w0 (snd (sql_RecordFailure cfg t5 t key w))"
    "table_keeps P t5 \<Longrightarrow> P w0 (snd (sql_ResetAttempts t5 key w))"
  using assms
  by (auto simp: sql_client_Store_def sql_client_Delete_def sql_scope_Store_def sql_scope_Delete_def sql_signing_Store_def
      sql_audit_Store_def sql_IsLockedOut_def sql_RecordFailure_def sql_ResetAttempts_def
      intro: statement_result intro!: statement row_results split: sum.split prod.split option.split)

lemma token_rows:
  assumes "P w0 w"
  shows "table_keeps P t1 \<Longrightarrow> P w0 (snd (sql_authcode_Store cr t1 c w))"
    "table_keeps P t1 \<Longrightarrow> P w0 (snd (sql_authcode_MarkConsumed cr t1 i t w))"
    "table_keeps P t2 \<Longrightarrow> P w0 (snd (sql_refresh_Store cr t2 k w))"
    "table_keeps P t2 \<Longrightarrow> P w0 (snd (sql_refresh_MarkConsumed cr t2 i t w))"
    "table_keeps P t2 \<Longrightarrow> P w0 (snd (sql_refresh_Revoke cr t2 i t w))"
    "table_keeps P t2 \<Longrightarrow> P w0 (snd (sql_refresh_RevokeBySessionID cr t2 i t w))"
    "table_keeps P t3 \<Longrightarrow> P w0 (snd (sql_session_Store cr t3 s w))"
    "table_keeps P t3 \<Longrightarrow> P w0 (snd (sql_session_Revoke cr t3 i t w))"
    "table_keeps P t3 \<Longrightarrow> P w0 (snd (sql_session_RevokeByUserIDExcept cr t3 u i t w))"
    "table_keeps P t4 \<Longrightarrow> P w0 (snd (sql_reset_Create cr t4 x w))"
    "table_keeps P t4 \<Longrightarrow> P w0 (snd (sql_reset_Consume cr t4 i t w))"
    "table_keeps P t4 \<Longrightarrow> P w0 (snd (sql_reset_InvalidateForUser t4 u t w))"
    "table_keeps P t4 \<Longrightarrow> P w0 (snd (sql_reset_DeleteExpired t4 t w))"
  using assms
  by (auto simp: sql_authcode_Store_def sql_refresh_Revoke_def sql_session_RevokeByUserIDExcept_def Let_def sql_authcode_MarkConsumed_def sql_refresh_Store_def sql_refresh_MarkConsumed_def
    sql_refresh_RevokeBySessionID_def sql_session_Store_def sql_session_Revoke_def sql_reset_Create_def sql_reset_Consume_def
    sql_reset_InvalidateForUser_def sql_reset_DeleteExpired_def intro: statement_result
      intro!: statement row_results split: sum.split option.split prod.split)

lemma account_rows:
  assumes "table_keeps P (ut_users ts)" "P w0 w"
  shows "P w0 (snd (sql_CreateUser cr salt ts u pw w))" "P w0 (snd (sql_UpdateUser ts u w))"
    "P w0 (snd (sql_SetPassword cr salt ts i pw w))"
  using assms by (auto simp: sql_CreateUser_def sql_UpdateUser_def sql_SetPassword_def intro!: statement row_results
      split: sum.split option.split)

lemma directory_rows:
  assumes "table_keeps P (ut_users ts)" "table_keeps P (ut_claims ts)" "table_keeps P (ut_roles ts)"
    "table_keeps P (ut_userRoles ts)" "table_keeps P (ut_roleClaims ts)" "table_keeps P (ut_logins ts)"
    "table_keeps P (ut_tokens ts)" "P w0 w"
  shows "P w0 (snd (sql_DeleteUser ts i w))" "P w0 (snd (sql_ReplaceUserClaims ts i cs w))"
    "P w0 (snd (sql_AddToRoles ts i ns w))" "P w0 (snd (sql_RemoveFromRoles ts i ns w))"
    "P w0 (snd (sql_RemoveLogin ts i p k w))" "P w0 (snd (sql_CreateRole ts ro w))"
    "P w0 (snd (sql_DeleteRole ts i w))" "P w0 (snd (sql_UpdateRole ts ro w))"
    "P w0 (snd (sql_ReplaceRoleClaims ts i cs w))"
proof -
  have add: "P w0 (snd (add_to_role ts i n w1))" if "P w0 w1" for n w1
    using that assms(4) by (auto simp: add_to_role_def intro: statement_result split: sum.split prod.split option.split store_error.split)
  have remove: "P w0 (snd (remove_from_role ts i n w1))" if "P w0 w1" for n w1
    using that assms(4) by (auto simp: remove_from_role_def intro!: statement row_results split: sum.split)
  show "P w0 (snd (sql_AddToRoles ts i ns w))" "P w0 (snd (sql_RemoveFromRoles ts i ns w))"
    using assms(8) by (auto simp: sql_AddToRoles_def sql_RemoveFromRoles_def intro!: statements add remove)
qed (use assms in \<open>auto simp: sql_DeleteUser_def sql_ReplaceUserClaims_def sql_AddUserClaims_def sql_RemoveLogin_def
    sql_CreateRole_def sql_DeleteRole_def sql_UpdateRole_def sql_ReplaceRoleClaims_def sql_AddRoleClaims_def
    intro!: statement_then statements statement row_results\<close>)

end

subsection \<open>The tables of a machine\<close>

text \<open>A table is kept as soon as replacing its rows is.\<close>

lemma machine_table_keeps:
  assumes "\<And>rs m. P m (m\<lparr>m_database := put rs (m_database m)\<rparr>)"
  shows "table_keeps P (on_machine (list_table key clash get put))" "table_keeps P (on_machine (numbered_table get put))"
  using assms by (auto simp: table_keeps_def lift_table_def numbered_table_def list_table_def zoom_eq)

lemmas machine_tables = code_table_def refresh_table_def session_table_def client_table_def reset_table_def
  attempt_table_def signing_table_def scope_table_def audit_table_def user_table_def role_table_def
  user_role_table_def login_table_def token_table_def claim_table_def role_claim_table_def

lemmas machine_stores = machine_bundle_def newGormBundle_def machine_db_def sql_auth_codes_def sql_refresh_tokens_def
  sql_sessions_def sql_clients_def sql_signing_keys_def sql_scopes_def sql_resets_def sql_audit_logs_def sql_users_def
  sql_directory_def sql_roles_def sql_tracker_store_def

lemma machine_user_tables_simps [simp]:
  "ut_users machine_user_tables = on_machine user_table" "ut_claims machine_user_tables = on_machine claim_table"
  "ut_roles machine_user_tables = on_machine role_table" "ut_userRoles machine_user_tables = on_machine user_role_table"
  "ut_roleClaims machine_user_tables = on_machine role_claim_table" "ut_logins machine_user_tables = on_machine login_table"
  "ut_tokens machine_user_tables = on_machine token_table"
  by (simp_all add: machine_user_tables_def)

subsection \<open>What has ended stays ended\<close>

text \<open>No row of the id can be used any more.\<close>

definition no_live_row :: "('r \<Rightarrow> string) \<Rightarrow> ('r \<Rightarrow> time option) \<Rightarrow> string \<Rightarrow> 'r list \<Rightarrow> bool" where
  "no_live_row key mark k rows \<longleftrightarrow> (\<forall>r \<in> set rows. key r = k \<longrightarrow> mark r \<noteq> None)"

fun db_ended :: "crypto \<Rightarrow> ended_thing \<Rightarrow> machine \<Rightarrow> bool" where
  "db_ended cr (SpentCode i) m = no_live_row ace_ID ace_ConsumedAt (uuid_string cr i) (db_codes (m_database m))"
| "db_ended cr (SpentToken i) m = no_live_row rte_ID rte_ConsumedAt (uuid_string cr i) (db_refresh (m_database m))"
| "db_ended cr (RevokedToken i) m = no_live_row rte_ID rte_RevokedAt (uuid_string cr i) (db_refresh (m_database m))"
| "db_ended cr (RevokedSession i) m = no_live_row sse_ID sse_RevokedAt (uuid_string cr i) (db_sessions (m_database m))"
| "db_ended cr (SpentReset i) m = no_live_row pre_ID pre_ConsumedAt (uuid_string cr i) (db_resets (m_database m))"

definition db_keeps_ended :: "crypto \<Rightarrow> uuid set \<Rightarrow> machine \<Rightarrow> machine \<Rightarrow> bool" where
  "db_keeps_ended cr drawn m m' \<longleftrightarrow>
    (\<forall>x. db_ended cr x m \<and> uuid_string cr (ended_id x) \<notin> uuid_string cr ` drawn \<longrightarrow> db_ended cr x m')"

interpretation db_ends: table_frame "db_keeps_ended cr drawn" for cr drawn
  by unfold_locales (auto simp: db_keeps_ended_def)

lemma no_live_row_writes:
  "no_live_row key mark k rows \<Longrightarrow> key r \<noteq> k \<Longrightarrow> no_live_row key mark k (rows @ [r])"
  "no_live_row key mark k rows \<Longrightarrow> key r \<noteq> k \<Longrightarrow> no_live_row key mark k (save_row key2 r rows)"
  "no_live_row key mark k rows \<Longrightarrow> no_live_row key mark k (filter Q rows)"
  "no_live_row key mark k rows \<Longrightarrow> (\<And>r. key (f r) = key r) \<Longrightarrow> (\<And>r. mark r \<noteq> None \<Longrightarrow> mark (f r) \<noteq> None) \<Longrightarrow>
    no_live_row key mark k (map (\<lambda>r. if Q r then f r else r) rows)"
proof -
  have "set (save_row key2 r rows) \<subseteq> insert r (set rows)" by (induction rows) auto
  then show "no_live_row key mark k rows \<Longrightarrow> key r \<noteq> k \<Longrightarrow> no_live_row key mark k (save_row key2 r rows)"
    by (auto simp: no_live_row_def)
qed (auto simp: no_live_row_def)

lemma db_keeps_endedI:
  assumes "\<And>k. k \<notin> uuid_string cr ` drawn \<Longrightarrow>
      (no_live_row ace_ID ace_ConsumedAt k (db_codes (m_database m)) \<longrightarrow> no_live_row ace_ID ace_ConsumedAt k (db_codes (m_database m'))) \<and>
      (no_live_row rte_ID rte_ConsumedAt k (db_refresh (m_database m)) \<longrightarrow> no_live_row rte_ID rte_ConsumedAt k (db_refresh (m_database m'))) \<and>
      (no_live_row rte_ID rte_RevokedAt k (db_refresh (m_database m)) \<longrightarrow> no_live_row rte_ID rte_RevokedAt k (db_refresh (m_database m'))) \<and>
      (no_live_row sse_ID sse_RevokedAt k (db_sessions (m_database m)) \<longrightarrow> no_live_row sse_ID sse_RevokedAt k (db_sessions (m_database m'))) \<and>
      (no_live_row pre_ID pre_ConsumedAt k (db_resets (m_database m)) \<longrightarrow> no_live_row pre_ID pre_ConsumedAt k (db_resets (m_database m')))"
  shows "db_keeps_ended cr drawn m m'"
  unfolding db_keeps_ended_def
proof (intro allI impI)
  fix x
  assume "db_ended cr x m \<and> uuid_string cr (ended_id x) \<notin> uuid_string cr ` drawn"
  with assms [of "uuid_string cr (ended_id x)"] show "db_ended cr x m'" by (cases x) auto
qed

lemma db_keeps_same:
  "db_codes (m_database m') = db_codes (m_database m) \<Longrightarrow> db_refresh (m_database m') = db_refresh (m_database m) \<Longrightarrow>
    db_sessions (m_database m') = db_sessions (m_database m) \<Longrightarrow> db_resets (m_database m') = db_resets (m_database m) \<Longrightarrow>
    db_keeps_ended cr drawn m m'"
  by (rule db_keeps_endedI) simp

text \<open>The statements on the four tables.\<close>

lemma db_token_writes:
  fixes cr :: crypto and drawn :: "uuid set"
  defines "P \<equiv> db_keeps_ended cr drawn"
  shows "ac_ID c \<in> drawn \<Longrightarrow> P m (snd (sql_authcode_Store cr (on_machine code_table) c m))"
    "P m (snd (sql_authcode_MarkConsumed cr (on_machine code_table) i t m))"
    "rt_ID k \<in> drawn \<Longrightarrow> P m (snd (sql_refresh_Store cr (on_machine refresh_table) k m))"
    "P m (snd (sql_refresh_MarkConsumed cr (on_machine refresh_table) i t m))"
    "P m (snd (sql_refresh_Revoke cr (on_machine refresh_table) i t m))"
    "P m (snd (sql_refresh_RevokeBySessionID cr (on_machine refresh_table) i t m))"
    "s_ID s \<in> drawn \<Longrightarrow> P m (snd (sql_session_Store cr (on_machine session_table) s m))"
    "P m (snd (sql_session_Revoke cr (on_machine session_table) i t m))"
    "P m (snd (sql_session_RevokeByUserIDExcept cr (on_machine session_table) u i t m))"
    "pr_ID p \<in> drawn \<Longrightarrow> P m (snd (sql_reset_Create cr (on_machine reset_table) (Some p) m))"
    "P m (snd (sql_reset_Consume cr (on_machine reset_table) i t m))"
    "P m (snd (sql_reset_InvalidateForUser (on_machine reset_table) u t m))"
    "P m (snd (sql_reset_DeleteExpired (on_machine reset_table) t m))"
  unfolding P_def
  by (rule db_keeps_endedI; auto simp: sql_authcode_Store_def sql_authcode_MarkConsumed_def sql_refresh_Store_def
      sql_refresh_MarkConsumed_def sql_refresh_Revoke_def sql_refresh_RevokeBySessionID_def sql_session_Store_def
      sql_session_Revoke_def sql_session_RevokeByUserIDExcept_def sql_reset_Create_def sql_reset_Consume_def
      sql_reset_InvalidateForUser_def sql_reset_DeleteExpired_def toAuthCodeEntity_def toRefreshTokenEntity_def
      toSessionEntity_def toPasswordResetEntity_def one_row_def any_row_def hit_row_def lift_table_def list_table_def
      code_table_def refresh_table_def session_table_def reset_table_def zoom_eq Let_def
      intro!: no_live_row_writes split: sum.split)+

lemma other_tables_keep_ended:
  fixes cr :: crypto and drawn :: "uuid set"
  defines "P \<equiv> db_keeps_ended cr drawn"
  shows "table_keeps P (on_machine client_table)" "table_keeps P (on_machine scope_table)"
    "table_keeps P (on_machine signing_table)" "table_keeps P (on_machine audit_table)"
    "table_keeps P (on_machine attempt_table)" "table_keeps P (on_machine user_table)"
    "table_keeps P (on_machine claim_table)" "table_keeps P (on_machine role_table)"
    "table_keeps P (on_machine user_role_table)" "table_keeps P (on_machine role_claim_table)"
    "table_keeps P (on_machine login_table)" "table_keeps P (on_machine token_table)"
  unfolding P_def machine_tables by (rule machine_table_keeps; rule db_keeps_same; simp)+

interpretation db_ends: admin_frame "machine_bundle cr rt" "db_keeps_ended cr drawn" drawn for cr rt drawn
proof unfold_locales
  show "db_keeps_ended cr drawn w w3" if "db_keeps_ended cr drawn w w2" "db_keeps_ended cr drawn w2 w3" for w w2 w3
    using that by (rule db_ends.step)
qed (simp_all add: machine_stores db_token_writes db_ends.same db_ends.stored_rows db_ends.account_rows db_ends.directory_rows
    other_tables_keep_ended machine_cache_def db_keeps_same)

text \<open>
  C3. Whatever requests the running server answers, to any of its endpoints, the admin API included:
  in its database a spent code or refresh token stays spent, a revoked token or session stays
  revoked, and a reset token that was used or swept stays unusable, unless the text of its id is
  drawn a second time.
\<close>

theorem database_revives_nothing:
  assumes "db_ended cr x (snd s)" "\<And>msg m. ev_mailer ev msg m = m"
    and "\<forall>(rt, r) \<in> set reqs. uuid_string cr (ended_id x) \<notin> uuid_string cr ` range (new_uuid rt)"
  shows "db_ended cr x (snd (snd (serve_all ev cfg (machine_bundle cr) reqs s)))"
  using assms(1,3)
proof (induction reqs arbitrary: s)
  case (Cons q reqs)
  obtain rt r where q: "q = (rt, r)" by (cases q)
  have "db_keeps_ended cr (range (new_uuid rt)) (snd s) (snd (snd (server_serve ev cfg (machine_bundle cr) rt r s)))"
    by (rule db_ends.request_frame) (simp_all add: assms(2) db_ends.same)
  then have "db_ended cr x (snd (snd (server_serve ev cfg (machine_bundle cr) rt r s)))"
    using Cons.prems by (auto simp: db_keeps_ended_def q)
  with Cons show ?case by (simp add: q case_prod_beta Let_def)
qed simp

subsection \<open>What a user may do\<close>

definition db_powers :: "machine \<Rightarrow> client_row list \<times> scope_row list \<times> role_row list \<times> user_role_row list \<times>
    role_claim_row list \<times> user_claim_row list \<times> user_login_row list" where
  "db_powers m = (let d = m_database m in
     (db_clients d, db_scopes d, db_roles d, db_userRoles d, db_roleClaims d, db_userClaims d, db_logins d))"

abbreviation same_powers :: "machine \<Rightarrow> machine \<Rightarrow> bool" where
  "same_powers m m' \<equiv> db_powers m' = db_powers m"

interpretation db_powers: table_frame same_powers
  by unfold_locales simp_all

lemma tables_keep_powers:
  "table_keeps same_powers (on_machine code_table)" "table_keeps same_powers (on_machine refresh_table)"
  "table_keeps same_powers (on_machine session_table)" "table_keeps same_powers (on_machine signing_table)"
  "table_keeps same_powers (on_machine audit_table)" "table_keeps same_powers (on_machine attempt_table)"
  "table_keeps same_powers (on_machine reset_table)" "table_keeps same_powers (on_machine user_table)"
  unfolding machine_tables by (rule machine_table_keeps; simp add: db_powers_def Let_def)+

interpretation db_powers: store_frame "machine_bundle cr rt" same_powers UNIV for cr rt
proof unfold_locales
qed (simp_all add: machine_stores db_powers.stored_rows db_powers.token_rows db_powers.account_rows tables_keep_powers
    machine_cache_def, simp_all add: db_powers_def Let_def)

text \<open>
  C28. In the database of the running server the registered clients and scopes, the roles with their
  claims, and the roles, claims and external logins of the users change only by a request to the
  admin API that is admitted: without anonymous use by the configured token, or by the live session
  of a user with the admin role and then with the CSRF cookie echoed. Registration, login, the
  account pages and the protocol endpoints change none of it.
\<close>

theorem database_powers_by_admins_only:
  assumes "server_serve ev cfg (machine_bundle cr) rt r (ls, m) = (out, (ls', m'))"
    and "db_powers m' \<noteq> db_powers m" "\<not> cf_AdminAllowAnonymous cfg" "\<And>msg m. ev_mailer ev msg m = m"
  shows "\<exists>ctx. admitted (ev_crypto ev) (ev_cookies ev) (now rt 300) (wire_admin_auth cfg (ev_keys ev) (machine_bundle cr rt))
      (ev_real_ip ev r) m ctx \<and> has_prefix (req_Path (ev_real_ip ev r)) ''/admin/api/'' \<and>
    (ax_Method ctx = AuthToken \<or> ax_Method ctx = AuthSession \<and> double_submit (ev_real_ip ev r))"
proof -
  have path: "has_prefix (req_Path (ev_real_ip ev r)) ''/admin/api/''"
  proof (rule ccontr)
    assume "\<not> ?thesis"
    then have "db_powers (snd (snd (server_serve ev cfg (machine_bundle cr) rt r (ls, m)))) = db_powers (snd (ls, m))"
      by (intro db_powers.server_frame) (simp_all add: assms(4))
    with assms(1,2) show False by simp
  qed
  have "m' \<noteq> m" using assms(2) by auto
  from server_admin_changes [OF assms(1) path assms(3) this] path show ?thesis
    by (metis auth_method.exhaust)
qed

subsection \<open>Witnesses\<close>

text \<open>A database with one client, one revoked session and nothing else.\<close>

definition small_machine :: machine where
  "small_machine = new_machine\<lparr>m_database := empty_database\<lparr>db_clients := [toClientEntity sample_client],
     db_sessions := [toSessionEntity sample_crypto (sample_session\<lparr>s_RevokedAt := Some 500\<rparr>)]\<rparr>\<rparr>"

definition machine_env :: "(nano_bucket, machine) environment_of_server" where
  "machine_env = \<lparr>ev_crypto = sample_crypto, ev_cookies = plain_lib, ev_marshal = \<lambda>_. None, ev_rate = nano_lib,
     ev_real_ip = (\<lambda>r. r), ev_mailer = (\<lambda>_ m. m), ev_keys = []\<rparr>"

definition small_rt :: runtime where
  "small_rt = sample_rt\<lparr>new_uuid := \<lambda>site. word_of_nat (100 + site mod 100)\<rparr>"

lemma small_ids: "uuid_string sample_crypto (new_uuid small_rt n) \<noteq> uuid_string sample_crypto 3"
proof
  have small: "100 + n mod 100 < 200" using mod_less_divisor [of 100 n] by simp
  have fits: "unat (word_of_nat m :: uuid) = m" if "m < 200" for m
    using that by (simp add: unat_of_nat take_bit_nat_eq_self)
  have "new_uuid small_rt n = word_of_nat (100 + n mod 100)" by (simp add: small_rt_def)
  then have u: "unat (new_uuid small_rt n) = 100 + n mod 100" by (simp only: fits [OF small])
  assume "uuid_string sample_crypto (new_uuid small_rt n) = uuid_string sample_crypto 3"
  then have "(char_of (100 + n mod 100) :: char) = char_of (3 :: nat)" by (simp add: sample_simps u)
  then have "(of_char (char_of (100 + n mod 100) :: char) :: nat) = of_char (char_of (3 :: nat) :: char)" by simp
  then show False using small by (simp add: of_char_of)
qed

theorem database_revives_nothing_witness:
  "db_ended sample_crypto (RevokedSession 3) (snd (snd (serve_all machine_env sample_config (machine_bundle sample_crypto)
     [(small_rt, admin_delete), (small_rt, login_flood)] (spent_limiters, small_machine))))"
proof (rule database_revives_nothing)
  show "db_ended sample_crypto (RevokedSession 3) (snd (spent_limiters, small_machine))"
    by (simp add: small_machine_def new_machine_def empty_database_def no_live_row_def toSessionEntity_def)
  show "\<forall>(rt, r) \<in> set [(small_rt, admin_delete), (small_rt, login_flood)].
      uuid_string sample_crypto (ended_id (RevokedSession 3)) \<notin> uuid_string sample_crypto ` range (new_uuid rt)"
    using small_ids [symmetric] by auto
qed (simp add: machine_env_def)

lemma small_delete_deletes:
  "db_clients (m_database (snd (snd (server_serve machine_env sample_config (machine_bundle sample_crypto) sample_rt admin_delete
     (ls, small_machine))))) = []"
proof -
  let ?api = "wire_admin_api (machine_bundle sample_crypto sample_rt)"
  have "serve_mux (admin_routes sample_crypto mr sample_rt ?api) [''api'', ''clients'', ''app''] ctx admin_delete w
      = deleteClient ?api ''app'' w" for mr ctx w
    by (simp add: serve_mux_def admin_routes_def client_routes_def token_routes_def user_routes_def api_route_def
        route_serves_def admin_delete_reads arg_def)
  moreover have "db_clients (m_database (snd (deleteClient ?api ''app'' small_machine))) = []"
    by (simp add: deleteClient_def deleted_def wire_admin_api_def machine_stores sql_client_Delete_def hit_row_def lift_table_def
        client_table_def list_table_def zoom_eq small_machine_def new_machine_def empty_database_def toClientEntity_def
        sample_client_def split: prod.split)
  ultimately have "db_clients (m_database (snd (wire_admin machine_env sample_config (machine_bundle sample_crypto sample_rt) sample_rt
      admin_delete small_machine))) = []"
    by (simp add: wire_admin_def admin_serve_def AuthMiddleware_def wire_admin_auth_def sample_config_fields admin_delete_reads
        Let_def case_prod_beta CSRFMiddleware_def machine_env_def)
  moreover have "ev_real_ip machine_env admin_delete = admin_delete" by (simp add: machine_env_def)
  ultimately show ?thesis
    by (simp add: server_serve_def router_serve_def Let_def case_prod_beta direct_def admin_delete_reads
        chi_methods_def admin_dispatch [OF admin_delete_reads(3)])
qed

theorem database_powers_by_admins_only_witness:
  "\<exists>ctx. admitted sample_crypto plain_lib 1000 (wire_admin_auth sample_config [] (machine_bundle sample_crypto sample_rt))
     admin_delete small_machine ctx \<and> (ax_Method ctx = AuthToken \<or> ax_Method ctx = AuthSession \<and> double_submit admin_delete)"
proof -
  let ?ls = "new_limiters (wire_router sample_config) :: nano_bucket limiters"
  obtain out ls' m' where run: "server_serve machine_env sample_config (machine_bundle sample_crypto) sample_rt admin_delete
      (?ls, small_machine) = (out, (ls', m'))" by (metis surj_pair)
  have "db_powers m' \<noteq> db_powers small_machine"
    using small_delete_deletes [of ?ls] run
    by (auto simp: db_powers_def Let_def small_machine_def new_machine_def empty_database_def)
  from database_powers_by_admins_only [OF run this sample_config_fields(5)]
  show ?thesis by (auto simp: machine_env_def sample_rt_def sample_simps)
qed

end
