(* ===== verification/Error_Log.thy ===== *)
theory Error_Log
  imports Router GoJson "HOL-Library.Sublist"
begin

section \<open>Diagnostics for the log (internal/errlog)\<close>

text \<open>
  \<open>handler\<close> projects a log record onto the shared schema: it keeps a fixed set of attributes and of
  an error only its type and a code, and leaves every other record to the local log. The sink
  hands the events to a collector from a bounded queue, in the order they came.

  The values of log/slog, the chains of errors and the HTTP answers of the collector are data here.
  \<open>Any\<close> of an attribute is an error or a string where the type switch asks for one.
\<close>

subsection \<open>Errors\<close>

datatype error_sentinel =
  ContextCanceled | DeadlineExceeded | StoreNotFound | StoreDuplicate | ConnectionRefused | ConnectionReset

text \<open>What the chain of an error shows at each link: its type, text, and the methods that are asked for.\<close>

record error_node =
  en_Type :: string
  en_Text :: string
  en_Is :: "error_sentinel option"
  en_SQLState :: "string option"
  en_SMTPCode :: "goint option"
  en_Timeout :: "bool option"

datatype go_error =
  PlainError error_node
| WrapError error_node go_error
| JoinError error_node "go_error list"

text \<open>The links in the order of \<open>errors.Is\<close> and \<open>errors.As\<close>, and the end of the \<open>errors.Unwrap\<close> chain.\<close>

fun error_nodes :: "go_error \<Rightarrow> error_node list" where
  "error_nodes (PlainError n) = [n]"
| "error_nodes (WrapError n e) = n # error_nodes e"
| "error_nodes (JoinError n es) = n # concat (map error_nodes es)"

fun root_cause :: "go_error \<Rightarrow> error_node" where
  "root_cause (PlainError n) = n"
| "root_cause (WrapError n e) = root_cause e"
| "root_cause (JoinError n es) = n"

fun error_text :: "go_error \<Rightarrow> string" where
  "error_text (PlainError n) = en_Text n"
| "error_text (WrapError n e) = en_Text n"
| "error_text (JoinError n es) = en_Text n"

definition error_is :: "go_error \<Rightarrow> error_sentinel \<Rightarrow> bool" where
  "error_is e k = list_ex (\<lambda>n. en_Is n = Some k) (error_nodes e)"

fun first_some :: "('a \<Rightarrow> 'b option) \<Rightarrow> 'a list \<Rightarrow> 'b option" where
  "first_some f [] = None"
| "first_some f (x # xs) = (case f x of Some y \<Rightarrow> Some y | None \<Rightarrow> first_some f xs)"

definition error_as :: "(error_node \<Rightarrow> 'a option) \<Rightarrow> go_error \<Rightarrow> 'a option" where
  "error_as f e = first_some f (error_nodes e)"

definition sqlState :: "string \<Rightarrow> bool" where
  "sqlState s \<longleftrightarrow> length s = 5 \<and> list_all (\<lambda>c. is_digit c \<or> is_upper c) s"

definition diagnostic_code :: "go_error \<Rightarrow> string" where
  "diagnostic_code e =
    (let sql = error_as en_SQLState e; smtp = error_as en_SMTPCode e in
     if error_is e ContextCanceled then ''context_canceled''
     else if error_is e DeadlineExceeded then ''deadline_exceeded''
     else if error_is e StoreNotFound then ''not_found''
     else if error_is e StoreDuplicate then ''duplicate''
     else if (case sql of None \<Rightarrow> False | Some s \<Rightarrow> sqlState s) then ''sqlstate_'' @ the sql
     else if (case smtp of None \<Rightarrow> False | Some c \<Rightarrow> sint c \<ge> 400 \<and> sint c \<le> 599)
       then ''smtp_'' @ itoa (nat (sint (the smtp)))
     else if error_is e ConnectionRefused then ''connection_refused''
     else if error_is e ConnectionReset then ''connection_reset''
     else if error_as en_Timeout e = Some True then ''network_timeout''
     else [])"

subsection \<open>Records and events\<close>

text \<open>The values an attribute can hold, as far as they are told apart: \<open>LogOther\<close> has the printed form.\<close>

datatype log_value = LogString string | LogInt goint | LogError go_error | LogOther string

definition value_text :: "log_value \<Rightarrow> string" where
  "value_text v =
    (case v of LogString s \<Rightarrow> s | LogInt n \<Rightarrow> int_text (sint n) | LogError e \<Rightarrow> error_text e | LogOther s \<Rightarrow> s)"

definition errorMetadata :: "log_value \<Rightarrow> string \<times> string" where
  "errorMetadata v = (case v of LogError e \<Rightarrow> (en_Type (root_cause e), diagnostic_code e) | _ \<Rightarrow> ([], []))"

text \<open>\<open>lr_Source\<close> is function and line of the call, where the record has a program counter.\<close>

record log_record =
  lr_Time :: time
  lr_Level :: goint
  lr_Message :: string
  lr_Attrs :: "(string \<times> log_value) list"
  lr_Source :: "string option"

record event =
  evt_Timestamp :: int
  evt_Service :: string
  evt_Environment :: string
  evt_Level :: string
  evt_Event :: string
  evt_Message :: string
  evt_RequestID :: string
  evt_HTTPMethod :: string
  evt_HTTPRoute :: string
  evt_HTTPStatus :: goint
  evt_ResponseCode :: string
  evt_ResponseMessage :: string
  evt_ErrorType :: string
  evt_ErrorCode :: string
  evt_Source :: string
  evt_Stack :: string

text \<open>The request a record belongs to. The route template is asked of the router, whose state is \<open>'r\<close>.\<close>

record 'r request_info =
  ri_ID :: string
  ri_Method :: string
  ri_Route :: "'r \<Rightarrow> string"

definition WithRequest :: "string \<Rightarrow> string \<Rightarrow> ('r \<Rightarrow> string) \<Rightarrow> 'r request_info option" where
  "WithRequest i m route = Some \<lparr>ri_ID = i, ri_Method = m, ri_Route = route\<rparr>"

text \<open>For work that outlives the request: the route is asked once, at \<open>r\<close>.\<close>

definition DetachRequest :: "'r \<Rightarrow> 'r request_info option \<Rightarrow> 'r request_info option" where
  "DetachRequest r ctx =
    (case ctx of None \<Rightarrow> None | Some q \<Rightarrow> WithRequest (ri_ID q) (ri_Method q) (\<lambda>_. ri_Route q r))"

definition logMethod :: "string \<Rightarrow> string" where
  "logMethod m =
    (if m \<in> set [''GET'', ''HEAD'', ''POST'', ''PUT'', ''PATCH'', ''DELETE'', ''OPTIONS'', ''CONNECT'', ''TRACE'']
     then m else ''OTHER'')"

definition LevelInfo :: goint where "LevelInfo = 0"
definition LevelWarn :: goint where "LevelWarn = 4"
definition LevelError :: goint where "LevelError = 8"
definition LevelCritical :: goint where "LevelCritical = 12"

definition level_name :: "goint \<Rightarrow> string" where
  "level_name l =
    (if sint l \<ge> sint LevelCritical then ''critical''
     else if sint l \<ge> sint LevelError then ''error''
     else if sint l \<ge> sint LevelWarn then ''warning''
     else ''info'')"

definition note_attr :: "string \<times> log_value \<Rightarrow> event \<Rightarrow> event" where
  "note_attr kv e =
    (let (k, v) = kv in
     if k = ''event'' then e\<lparr>evt_Event := value_text v\<rparr>
     else if k = ''status'' then (case v of LogInt n \<Rightarrow> e\<lparr>evt_HTTPStatus := n\<rparr> | _ \<Rightarrow> e)
     else if k = ''route'' then e\<lparr>evt_HTTPRoute := value_text v\<rparr>
     else if k = ''response_message'' then e\<lparr>evt_ResponseMessage := value_text v\<rparr>
     else if k = ''response_code'' then e\<lparr>evt_ResponseCode := value_text v\<rparr>
     else if k = ''error_code'' then e\<lparr>evt_ErrorCode := value_text v\<rparr>
     else if k = ''err'' then
       (let (kind, code) = errorMetadata v; e1 = e\<lparr>evt_ErrorType := kind\<rparr>
        in if evt_ErrorCode e = [] then e1\<lparr>evt_ErrorCode := code\<rparr> else e1)
     else if k = ''stack'' then e\<lparr>evt_Stack := (case v of LogString s \<Rightarrow> s | _ \<Rightarrow> [])\<rparr>
     else e)"

text \<open>The event of a record; \<open>None\<close> leaves the record to the local log.\<close>

definition shared_event :: "string \<Rightarrow> 'r request_info option \<Rightarrow> 'r \<Rightarrow> log_record \<Rightarrow> event option" where
  "shared_event env ctx r rec =
    (let e0 = \<lparr>evt_Timestamp = lr_Time rec div 1000000, evt_Service = ''authserver-go'', evt_Environment = env,
           evt_Level = level_name (lr_Level rec), evt_Event = [], evt_Message = lr_Message rec, evt_RequestID = [],
           evt_HTTPMethod = [], evt_HTTPRoute = [], evt_HTTPStatus = 0, evt_ResponseCode = [], evt_ResponseMessage = [],
           evt_ErrorType = [], evt_ErrorCode = [], evt_Source = [], evt_Stack = []\<rparr>;
         e1 = fold note_attr (lr_Attrs rec) e0
     in if evt_Event e1 = [] \<and> sint (lr_Level rec) < sint LevelWarn then None
     else
       let e2 = (if evt_Event e1 \<noteq> [] then e1
             else e1\<lparr>evt_Event := if sint (lr_Level rec) < sint LevelError then ''application_warning'' else ''application_error''\<rparr>);
           e3 = (case ctx of
                   None \<Rightarrow> e2
                 | Some q \<Rightarrow> e2\<lparr>evt_RequestID := ri_ID q, evt_HTTPMethod := ri_Method q,
                     evt_HTTPRoute := if evt_HTTPRoute e2 = [] then ri_Route q r else evt_HTTPRoute e2\<rparr>)
       in Some (case lr_Source rec of None \<Rightarrow> e3 | Some src \<Rightarrow> e3\<lparr>evt_Source := src\<rparr>))"

text \<open>The JSON object of an event; the fields that may be missing are left out when empty.\<close>

definition event_json :: "event \<Rightarrow> (string \<times> json) list" where
  "event_json e =
    (let opt = (\<lambda>k s. if s = [] then [] else [(k, JStr s)]) in
     [(''timestamp'', JNum (evt_Timestamp e)), (''service'', JStr (evt_Service e)), (''environment'', JStr (evt_Environment e)),
      (''level'', JStr (evt_Level e)), (''event'', JStr (evt_Event e)), (''message'', JStr (evt_Message e))] @
     opt ''request_id'' (evt_RequestID e) @ opt ''http_method'' (evt_HTTPMethod e) @ opt ''http_route'' (evt_HTTPRoute e) @
     (if evt_HTTPStatus e = 0 then [] else [(''http_status'', JNum (sint (evt_HTTPStatus e)))]) @
     opt ''response_code'' (evt_ResponseCode e) @ opt ''response_message'' (evt_ResponseMessage e) @
     opt ''error_type'' (evt_ErrorType e) @ opt ''error_code'' (evt_ErrorCode e) @ opt ''source'' (evt_Source e) @
     opt ''stack'' (evt_Stack e))"

definition member_text :: "string \<times> json \<Rightarrow> string" where
  "member_text kv = json_quote (fst kv) @ '':'' @
    (case snd kv of JNum n \<Rightarrow> int_text n | JStr s \<Rightarrow> json_quote s | _ \<Rightarrow> [])"

definition event_text :: "event \<Rightarrow> string" where
  "event_text e = ''{'' @ join (map member_text (event_json e)) '','' @ ''}''"

subsection \<open>Failed requests (diagnosticsMiddleware)\<close>

text \<open>
  What the middleware logs once the handler is done: \<open>t\<close>, \<open>stack\<close> and \<open>src\<close> are the time, the code
  locations and the place of the call. A handler that panics has written nothing, so its status is 500.
\<close>

definition diagnostics_record :: "time \<Rightarrow> string \<Rightarrow> string \<Rightarrow> outcome \<Rightarrow> log_record option" where
  "diagnostics_record t stack src out =
    (case out of
       Panicked \<Rightarrow> Some \<lparr>lr_Time = t, lr_Level = LevelError, lr_Message = ''panic in HTTP handler'',
         lr_Attrs = [(''event'', LogString ''http_panic''), (''status'', LogInt 500), (''stack'', LogString stack)],
         lr_Source = Some src\<rparr>
     | Response x \<Rightarrow>
         if resp_status x \<ge> 500 then
           Some \<lparr>lr_Time = t, lr_Level = LevelError, lr_Message = ''HTTP request failed'',
             lr_Attrs = [(''event'', LogString ''http_error''), (''status'', LogInt (of_nat (resp_status x)))],
             lr_Source = Some src\<rparr>
         else None)"

text \<open>
  A request is logged as failed exactly when it is answered 500 or more, as an error event with the
  id of the answer, a known method name, the route template and the status, and no error text.
\<close>

lemma failures_are_logged:
  assumes "recovered hs out = Response x"
  shows "diagnostics_record t stack src out \<noteq> None \<longleftrightarrow> resp_status x \<ge> 500"
    and "diagnostics_record t stack src out = Some rec \<Longrightarrow>
      map_option (\<lambda>e. (evt_Level e, evt_RequestID e, evt_HTTPMethod e, evt_HTTPRoute e, evt_HTTPStatus e, evt_ErrorType e))
        (shared_event env (WithRequest i (logMethod m) route) r rec) =
      Some (''error'', i, logMethod m, route r, of_nat (resp_status x), [])"
proof -
  have err: "level_name LevelError = ''error''" "\<not> sint LevelError < sint LevelWarn"
    by (simp_all add: level_name_def LevelError_def LevelWarn_def LevelCritical_def)
  show "diagnostics_record t stack src out \<noteq> None \<longleftrightarrow> resp_status x \<ge> 500"
    using assms by (cases out) (auto simp: recovered_def diagnostics_record_def internal_error_def plain_response_def)
  show "map_option (\<lambda>e. (evt_Level e, evt_RequestID e, evt_HTTPMethod e, evt_HTTPRoute e, evt_HTTPStatus e, evt_ErrorType e))
        (shared_event env (WithRequest i (logMethod m) route) r rec) =
      Some (''error'', i, logMethod m, route r, of_nat (resp_status x), [])"
    if "diagnostics_record t stack src out = Some rec"
    using assms that
    by (cases out) (auto simp: recovered_def diagnostics_record_def internal_error_def plain_response_def shared_event_def
        WithRequest_def note_attr_def value_text_def err split: if_splits)
qed

subsection \<open>What the shared log can tell\<close>

text \<open>The attributes the handler looks at.\<close>

definition shared_keys :: "string set" where
  "shared_keys = {''event'', ''status'', ''route'', ''response_message'', ''response_code'', ''error_code'', ''err'', ''stack''}"

text \<open>An error with other texts in every link, and a record with those errors and other private attributes.\<close>

fun retext :: "(string \<Rightarrow> string) \<Rightarrow> go_error \<Rightarrow> go_error" where
  "retext f (PlainError n) = PlainError (n\<lparr>en_Text := f (en_Text n)\<rparr>)"
| "retext f (WrapError n e) = WrapError (n\<lparr>en_Text := f (en_Text n)\<rparr>) (retext f e)"
| "retext f (JoinError n es) = JoinError (n\<lparr>en_Text := f (en_Text n)\<rparr>) (map (retext f) es)"

definition reword :: "(string \<Rightarrow> string) \<Rightarrow> string \<times> log_value \<Rightarrow> string \<times> log_value" where
  "reword f kv = (if fst kv = ''err'' then (fst kv, case snd kv of LogError e \<Rightarrow> LogError (retext f e) | v \<Rightarrow> v) else kv)"

lemma error_nodes_retext: "error_nodes (retext f e) = map (\<lambda>n. n\<lparr>en_Text := f (en_Text n)\<rparr>) (error_nodes e)"
proof (induction e)
  case (JoinError n es)
  then show ?case by (simp add: map_concat comp_def cong: list.map_cong)
qed simp_all

lemma root_type_retext: "en_Type (root_cause (retext f e)) = en_Type (root_cause e)"
  by (induction e) simp_all

lemma first_some_map: "first_some g (map h xs) = first_some (\<lambda>x. g (h x)) xs"
  by (induction xs) (simp_all split: option.split)

lemma diagnostic_code_retext: "diagnostic_code (retext f e) = diagnostic_code e"
  by (simp add: diagnostic_code_def error_is_def error_as_def error_nodes_retext first_some_map list_ex_iff Let_def)

lemma note_attr_reword: "note_attr (reword f kv) e = note_attr kv e"
  by (cases kv; cases "snd kv")
    (simp_all add: note_attr_def reword_def errorMetadata_def diagnostic_code_retext root_type_retext)

lemma note_attr_private: "fst kv \<notin> shared_keys \<Longrightarrow> note_attr kv e = e"
  by (cases kv) (simp add: note_attr_def shared_keys_def Let_def)

lemma fold_note_attr:
  assumes "filter (\<lambda>kv. fst kv \<in> shared_keys) ys = map (reword f) (filter (\<lambda>kv. fst kv \<in> shared_keys) xs)"
  shows "fold note_attr ys e = fold note_attr xs e"
proof -
  have drop: "fold note_attr (filter (\<lambda>kv. fst kv \<in> shared_keys) zs) e = fold note_attr zs e" for zs e
    by (induction zs arbitrary: e) (simp_all add: note_attr_private)
  have "fold note_attr (map (reword f) zs) e = fold note_attr zs e" for zs e
    by (induction zs arbitrary: e) (simp_all add: note_attr_reword)
  then show ?thesis using drop [of ys e] drop [of xs e] assms by simp
qed

text \<open>
  C32. The shared log tells nothing of the text of an error, nor of an attribute it does not name:
  two records that agree on level, time, message, source and the named attributes, with errors of
  the same types and codes but any texts, come to the same event, byte by byte.
\<close>

theorem shared_log_keeps_texts_private:
  assumes "filter (\<lambda>kv. fst kv \<in> shared_keys) (lr_Attrs rec2) =
      map (reword f) (filter (\<lambda>kv. fst kv \<in> shared_keys) (lr_Attrs rec1))"
    and "lr_Time rec2 = lr_Time rec1" "lr_Level rec2 = lr_Level rec1" "lr_Message rec2 = lr_Message rec1"
    "lr_Source rec2 = lr_Source rec1"
  shows "map_option event_text (shared_event env ctx r rec2) = map_option event_text (shared_event env ctx r rec1)"
  unfolding shared_event_def Let_def assms(2-) fold_note_attr [OF assms(1)] by (rule refl)

text \<open>A failed insert, once with the text of the database and a password next to it, once without.\<close>

definition unique_violation :: "string \<Rightarrow> error_node" where
  "unique_violation t = \<lparr>en_Type = ''*pgconn.PgError'', en_Text = t, en_Is = None, en_SQLState = Some ''23505'',
     en_SMTPCode = None, en_Timeout = None\<rparr>"

definition insert_failed :: "string \<Rightarrow> (string \<times> log_value) list \<Rightarrow> log_record" where
  "insert_failed t others = \<lparr>lr_Time = 1700000000123000000, lr_Level = LevelError, lr_Message = ''create user'',
     lr_Attrs = [(''status'', LogInt 500), (''err'', LogError (PlainError (unique_violation t)))] @ others, lr_Source = None\<rparr>"

theorem shared_log_keeps_texts_private_witness:
  "map_option event_text (shared_event ''test'' None () (insert_failed ''alice@example'' [(''password'', LogString ''pw'')])) =
   map_option event_text (shared_event ''test'' None () (insert_failed [] []))"
  by (rule shared_log_keeps_texts_private [where f = "\<lambda>_. ''alice@example''"])
    (simp_all add: insert_failed_def shared_keys_def reword_def unique_violation_def)

lemma insert_failed_event:
  "map_option (\<lambda>e. (evt_Level e, evt_Event e, evt_ErrorCode e, evt_ErrorType e))
     (shared_event ''test'' None () (insert_failed ''alice@example'' [])) =
   Some (''error'', ''application_error'', ''sqlstate_23505'', ''*pgconn.PgError'')"
  by code_simp

section \<open>Handing the log to a collector (internal/errlog/typesense.go)\<close>

text \<open>
  \<open>TypesenseSink\<close>: requests append to a bounded queue without waiting, one goroutine posts what is
  queued. A step of either is one atomic action here, as the mutex and the channel make it; their
  interleaving is a list of actions. The collector is a parameter that answers each post from a
  state of its own. An endpoint stays structured, and the contexts are left out but for their
  effect: \<open>Close\<close> may see its deadline at any time, a sink it has cancelled posts nothing more, and a
  post that is cut off is one that could not reach the collector.
\<close>

subsection \<open>Configuration\<close>

definition url_authority :: "string \<Rightarrow> string" where
  "url_authority raw =
    (case get_scheme (fst (cut CHR ''#'' raw)) of
       None \<Rightarrow> []
     | Some (sc, rest) \<Rightarrow>
         let p = fst (cut CHR ''?'' rest) in
         if has_prefix p ''//'' then takeWhile (\<lambda>c. c \<noteq> CHR ''/'') (drop 2 p) else [])"

text \<open>\<open>u.User != nil\<close>, \<open>u.ForceQuery\<close> and \<open>u.Hostname()\<close>.\<close>

definition url_has_user :: "string \<Rightarrow> bool" where
  "url_has_user raw \<longleftrightarrow> CHR ''@'' \<in> set (url_authority raw)"

definition url_force_query :: "string \<Rightarrow> bool" where
  "url_force_query raw \<longleftrightarrow> has_suffix (fst (cut CHR ''#'' raw)) ''?'' \<and>
    length (filter (\<lambda>c. c = CHR ''?'') (fst (cut CHR ''#'' raw))) = 1"

definition url_hostname :: "url \<Rightarrow> string" where
  "url_hostname u =
    (let h = (if CHR '':'' \<in> set (url_host u) \<and> valid_optional_port (CHR '':'' # after_last CHR '':'' (url_host u))
              then before_last CHR '':'' (url_host u) else url_host u)
     in if has_prefix h ''['' \<and> has_suffix h '']'' then butlast (tl h) else h)"

datatype sink_error = LogKeyRequired | LogURLInvalid

datatype log_endpoint = Collections string | Documents string

record sink_config =
  sk_collections :: log_endpoint
  sk_documents :: log_endpoint
  sk_key :: string

definition NewTypesenseSink :: "string \<Rightarrow> string \<Rightarrow> sink_error + sink_config option" where
  "NewTypesenseSink baseURL key =
    (if baseURL = [] \<and> key = [] then Inr None
     else if key = [] then Inl LogKeyRequired
     else case url_parse baseURL of
       None \<Rightarrow> Inl LogURLInvalid
     | Some u \<Rightarrow>
         if url_scheme u \<noteq> ''http'' \<and> url_scheme u \<noteq> ''https'' \<or> url_hostname u = [] \<or> url_has_user baseURL \<or>
            url_force_query baseURL \<or> url_raw_query u \<noteq> [] \<or> url_fragment u \<noteq> []
         then Inl LogURLInvalid
         else Inr (Some \<lparr>sk_collections = Collections baseURL, sk_documents = Documents baseURL, sk_key = key\<rparr>))"

subsection \<open>Posting\<close>

text \<open>What a post comes to: no request, no answer, or an answer whose body could be read or not.\<close>

datatype post_result = Unbuildable | Unreachable | Answered int bool

type_synonym 'h collector = "log_endpoint \<Rightarrow> string \<Rightarrow> string \<Rightarrow> 'h \<Rightarrow> post_result \<times> 'h"

datatype delivery_error =
  BuildFailed | ReachFailed | ReadFailed | CreatePost delivery_error | CreateForbidden int | CreateStatus int | PostStatus int

definition sink_post :: "'h collector \<Rightarrow> sink_config \<Rightarrow> log_endpoint \<Rightarrow> string \<Rightarrow> 'h \<Rightarrow> (delivery_error + int) \<times> 'h" where
  "sink_post net cfg ep data h =
    (case net ep (sk_key cfg) data h of
       (Unbuildable, h1) \<Rightarrow> (Inl BuildFailed, h1)
     | (Unreachable, h1) \<Rightarrow> (Inl ReachFailed, h1)
     | (Answered s readable, h1) \<Rightarrow>
         (if s < 200 \<or> s \<ge> 300 then Inr s else if \<not> readable then Inl ReadFailed else Inr s, h1))"

definition createCollection :: "'h collector \<Rightarrow> sink_config \<Rightarrow> string \<Rightarrow> 'h \<Rightarrow> delivery_error option \<times> 'h" where
  "createCollection net cfg schema h =
    (case sink_post net cfg (sk_collections cfg) schema h of
       (Inl e, h1) \<Rightarrow> (Some (CreatePost e), h1)
     | (Inr s, h1) \<Rightarrow>
         (if s \<ge> 200 \<and> s < 300 \<or> s = 409 then None
          else if s = 401 \<or> s = 403 then Some (CreateForbidden s)
          else Some (CreateStatus s), h1))"

definition final_status :: "(delivery_error + int) \<times> 'h \<Rightarrow> delivery_error option \<times> 'h" where
  "final_status res =
    (case res of
       (Inl e, h) \<Rightarrow> (Some e, h)
     | (Inr s, h) \<Rightarrow> (if s < 200 \<or> s \<ge> 300 then Some (PostStatus s) else None, h))"

definition sink_send :: "'h collector \<Rightarrow> sink_config \<Rightarrow> string \<Rightarrow> string \<Rightarrow> 'h \<Rightarrow> delivery_error option \<times> 'h" where
  "sink_send net cfg schema data h =
    (case sink_post net cfg (sk_documents cfg) data h of
       (Inl e, h1) \<Rightarrow> (Some e, h1)
     | (Inr s, h1) \<Rightarrow>
         if s = 404 then
           (case createCollection net cfg schema h1 of
              (Some e, h2) \<Rightarrow> (Some e, h2)
            | (None, h2) \<Rightarrow> final_status (sink_post net cfg (sk_documents cfg) data h2))
         else final_status (Inr s, h1))"

subsection \<open>The queue\<close>

datatype sink_note = QueueFull | DeliveryFailed delivery_error | DeliveryResumed | FlushInterrupted

record typesense_sink =
  tk_queue :: "string list"
  tk_closed :: bool
  tk_overflow :: bool
  tk_failed :: bool
  tk_cancelled :: bool
  tk_notes :: "sink_note list"

definition queue_capacity :: nat where
  "queue_capacity = 256"

definition new_sink :: typesense_sink where
  "new_sink = \<lparr>tk_queue = [], tk_closed = False, tk_overflow = False, tk_failed = False, tk_cancelled = False, tk_notes = []\<rparr>"

definition note_sink :: "sink_note \<Rightarrow> typesense_sink \<Rightarrow> typesense_sink" where
  "note_sink n s = s\<lparr>tk_notes := tk_notes s @ [n]\<rparr>"

definition enqueue :: "string \<Rightarrow> typesense_sink \<Rightarrow> typesense_sink" where
  "enqueue data s =
    (if tk_closed s then s
     else if length (tk_queue s) < queue_capacity then s\<lparr>tk_queue := tk_queue s @ [data]\<rparr>
     else if \<not> tk_overflow s then note_sink QueueFull (s\<lparr>tk_overflow := True\<rparr>)
     else s)"

text \<open>One round of \<open>run\<close>: a state of delivery that lasts is noted once.\<close>

definition noted_delivery :: "delivery_error option \<Rightarrow> typesense_sink \<Rightarrow> typesense_sink" where
  "noted_delivery res s =
    (case res of
       Some e \<Rightarrow> (if tk_failed s then s else note_sink (DeliveryFailed e) s)\<lparr>tk_failed := True\<rparr>
     | None \<Rightarrow> if tk_failed s then (note_sink DeliveryResumed s)\<lparr>tk_failed := False\<rparr> else s)"

definition run_round :: "'h collector \<Rightarrow> sink_config \<Rightarrow> string \<Rightarrow> typesense_sink \<times> 'h \<Rightarrow> typesense_sink \<times> 'h" where
  "run_round net cfg schema sh =
    (case tk_queue (fst sh) of
       [] \<Rightarrow> sh
     | data # rest \<Rightarrow>
         if tk_cancelled (fst sh) then sh
         else (case sink_send net cfg schema data (snd sh) of
            (res, h1) \<Rightarrow> (noted_delivery res ((fst sh)\<lparr>tk_queue := rest\<rparr>), h1)))"

text \<open>
  \<open>Close\<close> is two steps with rounds between them: it closes the queue, then waits for \<open>run\<close> to return
  or for its deadline, whichever it sees, and cancels what is left. A wait that sees neither goes on.
\<close>

definition sink_shut :: "typesense_sink \<Rightarrow> typesense_sink" where
  "sink_shut s = s\<lparr>tk_closed := True\<rparr>"

definition sink_wait :: "bool \<Rightarrow> typesense_sink \<Rightarrow> typesense_sink" where
  "sink_wait expired s =
    (if expired then (note_sink FlushInterrupted s)\<lparr>tk_cancelled := True\<rparr>
     else if tk_closed s \<and> (tk_queue s = [] \<or> tk_cancelled s) then s\<lparr>tk_cancelled := True\<rparr>
     else s)"

text \<open>
  \<open>handler.Handle\<close>: a record that is no event goes to the local log as it is, with its attributes;
  an event goes to the sink, where there is one, and as a line to the output.
\<close>

datatype log_line = LocalLine log_record | SharedLine string

definition Handle ::
  "string \<Rightarrow> 'r request_info option \<Rightarrow> 'r \<Rightarrow> log_record \<Rightarrow> typesense_sink option \<Rightarrow> typesense_sink option \<times> log_line" where
  "Handle env ctx r rec sink =
    (case shared_event env ctx r rec of
       None \<Rightarrow> (sink, LocalLine rec)
     | Some e \<Rightarrow> (map_option (enqueue (event_text e)) sink, SharedLine (event_text e @ [CHR 0x0A])))"

subsection \<open>Any interleaving\<close>

datatype sink_action = Enqueue string | Round | Shut | Wait bool

definition sink_act ::
  "'h collector \<Rightarrow> sink_config \<Rightarrow> string \<Rightarrow> sink_action \<Rightarrow> typesense_sink \<times> 'h \<Rightarrow> typesense_sink \<times> 'h" where
  "sink_act net cfg schema a sh =
    (case a of
       Enqueue d \<Rightarrow> (enqueue d (fst sh), snd sh)
     | Round \<Rightarrow> run_round net cfg schema sh
     | Shut \<Rightarrow> (sink_shut (fst sh), snd sh)
     | Wait expired \<Rightarrow> (sink_wait expired (fst sh), snd sh))"

definition sink_run ::
  "'h collector \<Rightarrow> sink_config \<Rightarrow> string \<Rightarrow> sink_action list \<Rightarrow> typesense_sink \<times> 'h \<Rightarrow> typesense_sink \<times> 'h" where
  "sink_run net cfg schema as = fold (sink_act net cfg schema) as"

text \<open>The events logged before the sink is closed; later ones are dropped.\<close>

fun logged :: "sink_action list \<Rightarrow> string list" where
  "logged [] = []"
| "logged (Enqueue d # as) = d # logged as"
| "logged (Shut # as) = []"
| "logged (Round # as) = logged as"
| "logged (Wait e # as) = logged as"

text \<open>A collector that notes every attempt to post, with what came of it.\<close>

type_synonym post_log = "(log_endpoint \<times> string \<times> post_result) list"

definition recorded :: "'h collector \<Rightarrow> ('h \<times> post_log) collector" where
  "recorded net ep key data hl =
    (case net ep key data (fst hl) of (res, h1) \<Rightarrow> (res, h1, snd hl @ [(ep, data, res)]))"

text \<open>
  The attempts for one event: the document, after a 404 the schema of the collection, and once that
  was accepted the document again. The event is acknowledged when the last of them is the document
  and was answered with success.
\<close>

fun post_missing :: "post_result \<Rightarrow> bool" where
  "post_missing (Answered st b) = (st = 404)"
| "post_missing _ = False"

fun post_stored :: "post_result \<Rightarrow> bool" where
  "post_stored (Answered st b) = (200 \<le> st \<and> st < 300 \<and> b)"
| "post_stored _ = False"

fun post_created :: "post_result \<Rightarrow> bool" where
  "post_created (Answered st b) = (200 \<le> st \<and> st < 300 \<and> b \<or> st = 409)"
| "post_created _ = False"

definition exchange :: "sink_config \<Rightarrow> string \<Rightarrow> string \<Rightarrow> post_log \<Rightarrow> bool" where
  "exchange cfg schema d ps \<longleftrightarrow>
    (let doc = (\<lambda>r. (sk_documents cfg, d, r)); col = (\<lambda>r. (sk_collections cfg, schema, r))
     in \<exists>r1 r2 r3. ps = [doc r1] \<and> \<not> post_missing r1 \<or>
       ps = [doc r1, col r2] \<and> post_missing r1 \<and> \<not> post_created r2 \<or>
       ps = [doc r1, col r2, doc r3] \<and> post_missing r1 \<and> post_created r2)"

definition acknowledged :: "sink_config \<Rightarrow> string \<Rightarrow> post_log \<Rightarrow> bool" where
  "acknowledged cfg d ps \<longleftrightarrow> (\<exists>r. last ps = (sk_documents cfg, d, r) \<and> post_stored r)"

definition failure_noted :: "typesense_sink \<Rightarrow> bool" where
  "failure_noted s \<longleftrightarrow> (\<exists>e. DeliveryFailed e \<in> set (tk_notes s))"

subsection \<open>What one round posts\<close>

text \<open>What \<open>post\<close> returns for each result.\<close>

fun post_value :: "post_result \<Rightarrow> delivery_error + int" where
  "post_value Unbuildable = Inl BuildFailed"
| "post_value Unreachable = Inl ReachFailed"
| "post_value (Answered st b) = (if 200 \<le> st \<and> st < 300 \<and> \<not> b then Inl ReadFailed else Inr st)"

lemma sink_post_recorded:
  obtains r h1 where "sink_post (recorded net) cfg ep data (h, log) = (post_value r, h1, log @ [(ep, data, r)])"
proof -
  obtain r h1 where "net ep (sk_key cfg) data h = (r, h1)" by (metis surj_pair)
  then show ?thesis by (intro that [of r h1]) (cases r; auto simp: sink_post_def recorded_def)
qed

lemma final_status_value: "fst (final_status (post_value r, x)) = None \<longleftrightarrow> post_stored r"
  "snd (final_status (post_value r, x)) = x"
  by (cases r; simp add: final_status_def)+

lemma createCollection_recorded:
  obtains r h1 err where
    "createCollection (recorded net) cfg schema (h, log) = (err, h1, log @ [(sk_collections cfg, schema, r)])"
    "err = None \<longleftrightarrow> post_created r"
proof -
  obtain r h1 where post: "sink_post (recorded net) cfg (sk_collections cfg) schema (h, log) =
      (post_value r, h1, log @ [(sk_collections cfg, schema, r)])" by (rule sink_post_recorded)
  show ?thesis
    by (rule that [of "fst (createCollection (recorded net) cfg schema (h, log))" h1 r];
        cases r; auto simp: createCollection_def post)
qed

lemma sink_send_recorded:
  obtains ps err h1 where "sink_send (recorded net) cfg schema d (h, log) = (err, h1, log @ ps)"
    "exchange cfg schema d ps" "err = None \<longleftrightarrow> acknowledged cfg d ps"
proof -
  let ?doc = "\<lambda>r. (sk_documents cfg, d, r)"
  obtain r1 h1 where first: "sink_post (recorded net) cfg (sk_documents cfg) d (h, log) = (post_value r1, h1, log @ [?doc r1])"
    by (rule sink_post_recorded)
  show ?thesis
  proof (cases "post_missing r1")
    case False
    then have "sink_send (recorded net) cfg schema d (h, log) = final_status (post_value r1, h1, log @ [?doc r1])"
      by (cases r1) (auto simp: sink_send_def first final_status_def)
    then show ?thesis
      using False final_status_value [of r1 "(h1, log @ [?doc r1])"]
      by (intro that [of "fst (final_status (post_value r1, h1, log @ [?doc r1]))" h1 "[?doc r1]"])
        (auto simp: exchange_def acknowledged_def prod_eq_iff)
  next
    case True
    then have v: "post_value r1 = Inr 404" by (cases r1) auto
    obtain r2 h2 err where second: "createCollection (recorded net) cfg schema (h1, log @ [?doc r1]) =
        (err, h2, (log @ [?doc r1]) @ [(sk_collections cfg, schema, r2)])" and made: "err = None \<longleftrightarrow> post_created r2"
      by (rule createCollection_recorded)
    show ?thesis
    proof (cases err)
      case (Some e)
      then have "\<not> post_stored r2" using made by (cases r2) auto
      with Some True made second show ?thesis
        by (intro that [of "Some e" h2 "[?doc r1, (sk_collections cfg, schema, r2)]"])
          (auto simp: sink_send_def first v exchange_def acknowledged_def)
    next
      case None
      let ?log2 = "log @ [?doc r1, (sk_collections cfg, schema, r2)]"
      obtain r3 h3 where third: "sink_post (recorded net) cfg (sk_documents cfg) d (h2, ?log2) =
          (post_value r3, h3, ?log2 @ [?doc r3])" by (rule sink_post_recorded)
      have "sink_send (recorded net) cfg schema d (h, log) = final_status (post_value r3, h3, ?log2 @ [?doc r3])"
        using third by (simp add: sink_send_def first v second None)
      then show ?thesis
        using True None made final_status_value [of r3 "(h3, ?log2 @ [?doc r3])"]
        by (intro that [of "fst (final_status (post_value r3, h3, ?log2 @ [?doc r3]))" h3
              "[?doc r1, (sk_collections cfg, schema, r2), ?doc r3]"])
          (auto simp: exchange_def acknowledged_def prod_eq_iff)
    qed
  qed
qed

subsection \<open>The order of the events, and what is lost\<close>

text \<open>
  \<open>ds\<close> are the events that were posted, each with its block of attempts. Together with the queue they
  are what was logged, in order, or the sink has noted that it was full; each is acknowledged, or a
  failed delivery was noted.
\<close>

definition posted_all :: "sink_config \<Rightarrow> string \<Rightarrow> string list \<Rightarrow> post_log \<Rightarrow> typesense_sink \<Rightarrow> string list \<Rightarrow> post_log list \<Rightarrow> bool" where
  "posted_all cfg schema lgd log s ds blocks \<longleftrightarrow>
    log = concat blocks \<and> list_all2 (exchange cfg schema) ds blocks \<and>
    subseq (ds @ tk_queue s) lgd \<and> length (tk_queue s) \<le> queue_capacity \<and>
    (QueueFull \<in> set (tk_notes s) \<or> ds @ tk_queue s = lgd) \<and>
    (failure_noted s \<or> list_all2 (acknowledged cfg) ds blocks)"

text \<open>What the flags of a sink say about its notes.\<close>

definition sink_flags :: "typesense_sink \<Rightarrow> bool" where
  "sink_flags s \<longleftrightarrow> (tk_overflow s \<longrightarrow> QueueFull \<in> set (tk_notes s)) \<and> (tk_failed s \<longrightarrow> failure_noted s) \<and>
    (tk_cancelled s \<longrightarrow> tk_closed s \<and> tk_queue s = [] \<or> FlushInterrupted \<in> set (tk_notes s))"

lemma note_sink_simps [simp]:
  "tk_queue (note_sink n s) = tk_queue s" "tk_closed (note_sink n s) = tk_closed s"
  "tk_overflow (note_sink n s) = tk_overflow s" "tk_failed (note_sink n s) = tk_failed s"
  "tk_cancelled (note_sink n s) = tk_cancelled s" "tk_notes (note_sink n s) = tk_notes s @ [n]"
  by (simp_all add: note_sink_def)

lemma noted_delivery_simps [simp]:
  "tk_queue (noted_delivery res s) = tk_queue s" "tk_closed (noted_delivery res s) = tk_closed s"
  "tk_overflow (noted_delivery res s) = tk_overflow s" "tk_cancelled (noted_delivery res s) = tk_cancelled s"
  by (simp_all add: noted_delivery_def split: option.split)

lemma noted_delivery_notes:
  "set (tk_notes s) \<subseteq> set (tk_notes (noted_delivery res s))"
  "failure_noted s \<Longrightarrow> failure_noted (noted_delivery res s)"
  "(tk_failed s \<Longrightarrow> failure_noted s) \<Longrightarrow> res \<noteq> None \<Longrightarrow> failure_noted (noted_delivery res s)"
  "tk_failed (noted_delivery res s) \<longleftrightarrow> res \<noteq> None"
  by (auto simp: noted_delivery_def failure_noted_def split: option.split)

lemma posted_enqueue:
  assumes "posted_all cfg schema lgd log s ds blocks" "sink_flags s" "\<not> tk_closed s"
  shows "posted_all cfg schema (lgd @ [d]) log (enqueue d s) ds blocks"
proof -
  have q: "subseq (ds @ tk_queue s) lgd" using assms(1) by (simp add: posted_all_def)
  have "subseq ((ds @ tk_queue s) @ [d]) (lgd @ [d])" by (rule list_emb_append_mono) (use q in simp_all)
  moreover have "subseq (ds @ tk_queue s) (lgd @ [d])" using q by (rule subseq_rev_drop_many)
  ultimately show ?thesis
    using assms by (auto simp: posted_all_def enqueue_def sink_flags_def failure_noted_def)
qed

lemma enqueue_flags: "sink_flags s \<Longrightarrow> sink_flags (enqueue d s)" "tk_closed (enqueue d s) = tk_closed s"
  by (auto simp: sink_flags_def enqueue_def failure_noted_def)

lemma posted_round:
  assumes "posted_all cfg schema lgd log s ds blocks" "sink_flags s"
  obtains s' h' log' ds' blocks' where "run_round (recorded net) cfg schema (s, h, log) = (s', h', log')"
    "posted_all cfg schema lgd log' s' ds' blocks'" "sink_flags s'" "tk_closed s' = tk_closed s"
proof (cases "tk_queue s = [] \<or> tk_cancelled s")
  case True
  then have "run_round (recorded net) cfg schema (s, h, log) = (s, h, log)" by (auto simp: run_round_def split: list.split)
  with that assms show ?thesis by blast
next
  case False
  then obtain d rest where q: "tk_queue s = d # rest" "\<not> tk_cancelled s" by (auto simp: neq_Nil_conv)
  obtain ps err h1 where sent: "sink_send (recorded net) cfg schema d (h, log) = (err, h1, log @ ps)"
    "exchange cfg schema d ps" "err = None \<longleftrightarrow> acknowledged cfg d ps" by (rule sink_send_recorded)
  let ?s = "noted_delivery err (s\<lparr>tk_queue := rest\<rparr>)"
  have run: "run_round (recorded net) cfg schema (s, h, log) = (?s, h1, log @ ps)"
    by (simp add: run_round_def q sent(1))
  have more: "set (tk_notes s) \<subseteq> set (tk_notes ?s)" using noted_delivery_notes(1) [of "s\<lparr>tk_queue := rest\<rparr>" err] by simp
  have keeps: "failure_noted s \<Longrightarrow> failure_noted ?s" using more by (auto simp: failure_noted_def)
  have fails: "err \<noteq> None \<Longrightarrow> failure_noted ?s"
    using assms(2) by (intro noted_delivery_notes(3)) (auto simp: sink_flags_def failure_noted_def)
  have "posted_all cfg schema lgd (log @ ps) ?s (ds @ [d]) (blocks @ [ps])"
    using assms(1) sent more keeps fails q by (auto simp: posted_all_def list_all2_appendI)
  moreover have "sink_flags ?s"
    using assms(2) more fails q by (auto simp: sink_flags_def noted_delivery_notes(4))
  ultimately show ?thesis using that [OF run] by simp
qed

lemma posted_run:
  assumes "posted_all cfg schema lgd log s ds blocks" "sink_flags s"
    and "sink_run (recorded net) cfg schema as (s, h, log) = (s', h', log')"
  shows "(\<exists>ds' blocks'. posted_all cfg schema (lgd @ (if tk_closed s then [] else logged as)) log' s' ds' blocks') \<and> sink_flags s'"
  using assms
proof (induction as arbitrary: lgd log s ds blocks h)
  case Nil
  then show ?case by (auto simp: sink_run_def)
next
  case (Cons a as)
  have rest: "sink_run (recorded net) cfg schema as (sink_act (recorded net) cfg schema a (s, h, log)) = (s', h', log')"
    using Cons.prems(3) by (simp add: sink_run_def)
  show ?case
  proof (cases a)
    case (Enqueue d)
    have "posted_all cfg schema (lgd @ (if tk_closed s then [] else [d])) log (enqueue d s) ds blocks"
      using Cons.prems(1,2) posted_enqueue by (auto simp: enqueue_def)
    from Cons.IH [OF this enqueue_flags(1) [OF Cons.prems(2)]] rest show ?thesis
      by (cases "tk_closed s") (simp_all add: Enqueue sink_act_def enqueue_flags(2))
  next
    case Round
    obtain s1 h1 log1 ds1 blocks1 where "run_round (recorded net) cfg schema (s, h, log) = (s1, h1, log1)"
      "posted_all cfg schema lgd log1 s1 ds1 blocks1" "sink_flags s1" "tk_closed s1 = tk_closed s"
      using Cons.prems(1,2) by (rule posted_round)
    with Cons.IH [OF this(2,3)] rest show ?thesis by (cases "tk_closed s") (simp_all add: Round sink_act_def)
  next
    case Shut
    have "posted_all cfg schema lgd log (sink_shut s) ds blocks" "sink_flags (sink_shut s)"
      using Cons.prems(1,2) by (auto simp: posted_all_def sink_flags_def sink_shut_def failure_noted_def)
    from Cons.IH [OF this] rest show ?thesis by (simp add: Shut sink_act_def sink_shut_def)
  next
    case (Wait e)
    have kept: "posted_all cfg schema lgd log (sink_wait e s) ds blocks" "sink_flags (sink_wait e s)"
      using Cons.prems(1,2) by (auto simp: posted_all_def sink_flags_def sink_wait_def failure_noted_def)
    have "tk_closed (sink_wait e s) = tk_closed s" by (simp add: sink_wait_def)
    with Cons.IH [OF kept] rest show ?thesis by (cases "tk_closed s") (simp_all add: Wait sink_act_def)
  qed
qed

text \<open>
  C36. However requests, deliveries and the closing of the sink interleave and whatever comes of the
  posts: the events logged before the sink is closed are posted in their order, each in one exchange
  of attempts, and later ones are not posted. None is left out, but for those still in the queue, unless
  the sink noted that its queue of 256 was full; each was acknowledged by the collector unless a
  failed delivery was noted; and the closing leaves nothing in the queue unless it noted that it was
  cut short. So a sink that was closed with nothing of this noted has brought every event to the
  collector.
\<close>

theorem log_reaches_collector_in_order:
  fixes net :: "'h collector"
  assumes "sink_run (recorded net) cfg schema as (new_sink, h, []) = (s, h', posts)"
  shows "\<exists>ds blocks. posts = concat blocks \<and> list_all2 (exchange cfg schema) ds blocks \<and>
    subseq (ds @ tk_queue s) (logged as) \<and> length (tk_queue s) \<le> 256 \<and>
    (ds @ tk_queue s = logged as \<or> QueueFull \<in> set (tk_notes s)) \<and>
    (list_all2 (acknowledged cfg) ds blocks \<or> failure_noted s) \<and>
    (tk_cancelled s \<longrightarrow> tk_queue s = [] \<or> FlushInterrupted \<in> set (tk_notes s))"
proof -
  have "posted_all cfg schema [] [] new_sink [] []" "sink_flags new_sink" "\<not> tk_closed new_sink"
    by (simp_all add: posted_all_def sink_flags_def new_sink_def)
  with posted_run [OF this(1,2) assms] obtain ds blocks where
    "posted_all cfg schema (logged as) posts s ds blocks" "sink_flags s" by auto
  then show ?thesis
    by (intro exI [of _ ds] exI [of _ blocks]) (auto simp: posted_all_def sink_flags_def queue_capacity_def)
qed

text \<open>A collector that has no collection yet; one event is logged after the sink was closed.\<close>

definition young_collector :: "bool collector" where
  "young_collector ep key data h =
    (case ep of Collections _ \<Rightarrow> (Answered 201 True, True) | Documents _ \<Rightarrow> (Answered (if h then 201 else 404) True, h))"

definition sample_sink :: sink_config where
  "sample_sink = \<lparr>sk_collections = Collections ''http://log'', sk_documents = Documents ''http://log'', sk_key = ''k''\<rparr>"

definition sink_sample_run :: "typesense_sink \<times> bool \<times> post_log" where
  "sink_sample_run = sink_run (recorded young_collector) sample_sink ''s''
     [Enqueue ''a'', Round, Enqueue ''b'', Shut, Enqueue ''c'', Round, Wait False] (new_sink, False, [])"

theorem log_reaches_collector_in_order_witness:
  "\<exists>blocks. snd (snd sink_sample_run) = concat blocks \<and> list_all2 (exchange sample_sink ''s'') [''a'', ''b''] blocks \<and>
    list_all2 (acknowledged sample_sink) [''a'', ''b''] blocks \<and> tk_cancelled (fst sink_sample_run)"
proof -
  have run: "sink_run (recorded young_collector) sample_sink ''s''
      [Enqueue ''a'', Round, Enqueue ''b'', Shut, Enqueue ''c'', Round, Wait False] (new_sink, False, []) =
    (fst sink_sample_run, fst (snd sink_sample_run), snd (snd sink_sample_run))" by (simp add: sink_sample_run_def)
  have quiet: "tk_notes (fst sink_sample_run) = []" "tk_cancelled (fst sink_sample_run)" "tk_queue (fst sink_sample_run) = []"
    by code_simp+
  from log_reaches_collector_in_order [OF run] quiet show ?thesis
    by (auto simp: failure_noted_def)
qed

end
