(* ===== verification/Spec2Isabelle.thy ===== *)
theory Spec2Isabelle
  imports Grant_Properties Refresh_Race Token_Properties Key_Properties Cookie_Properties Assertion_Properties
    Authorize_Properties Login_Properties Account_Properties Domain_Properties Mem_Stores
    Sql_Codes Sql_Lockout Sql_Clients Server_Properties Start_Properties Server_Frames Error_Log
begin

text \<open>
  A verification library of go-authserver, an OAuth 2.0 / OpenID Connect authorization server in Go
  (cmd/authserver, internal/).

  \<^bold>\<open>The program.\<close> A browser signs in at the JSON endpoints of internal/oidc and gets a sealed session
  cookie; a client application sends it through the authorization endpoint, redeems the code at the
  token endpoint, rotates its refresh tokens and reads UserInfo; an operator works through the admin
  API. All handlers reach their state through the interfaces of internal/store, which the memory
  stores (tests) and the GORM stores (PostgreSQL, the running server) implement. cmd/authserver reads
  the configuration, opens and seeds the database, makes the keys and wires the handlers behind the
  router, its limiters and its middlewares.

  \<^bold>\<open>How the code is modelled.\<close> A struct is a record, an enumeration a datatype, a Go map an association
  list with one entry per key (Prelude), \<open>int\<close>, \<open>int64\<close> and durations 64-bit words (GoStd), an instant
  the number of nanoseconds since 1970. A pair of a value and an error is a sum, an error alone an
  option. A method that writes takes the state and returns it; a method that reads returns a value.
  An interface is a record of its methods over any state \<open>'w\<close>, so a handler is one function for every
  implementation, and what a handler relies on is a locale (\<open>cas_store\<close>, \<open>kv_store\<close>, \<open>kv_store_del\<close>,
  \<open>key_ring\<close>, \<open>signing_ring\<close>, \<open>cookie_ring\<close>, \<open>replay_cache\<close>, \<open>lockout_tracker\<close>, \<open>single_use\<close>,
  \<open>code_book_store\<close>, \<open>sql_table_laws\<close>, \<open>table_frame\<close>, \<open>store_frame\<close>, \<open>admin_frame\<close>) that is interpreted on
  the code's own definitions. A nil dereference or any other panic of a handler is \<open>Panicked\<close>, which the
  router turns into a 500. The critical section of a store method spans all it does to the state, so a
  method is one atomic step; concurrency is the interleaving of such steps (Redemption, Refresh_Race,
  Error_Log).

  What a run draws from outside, the clock, new ids, random bytes, salts and keys, is a field of
  \<open>runtime\<close>, asked at numbered places. A handler uses the low places of its own theory; 100 and 101 are
  the assertion check and its cache, 200 to 202 the lockout tracker, 300 the admin gate, 301 the
  session guard, 302 the limiters, 303 the id of a request, 310 and 311 the seed, 330 the
  data-protection key and 340 the signing key of a start.

  \<^bold>\<open>Libraries.\<close> Go's standard library is modelled where its behaviour matters: strings and Unicode
  white space (GoStd, GoText), net/url (GoUrl), encoding/json (GoJson, Admin_Views), base64 (Base64Url),
  forms, cookies and the answer (Http), ServeMux (Admin_Api). Third-party packages are parameters:
  \<open>crypto\<close> holds hashing, bcrypt, PEM, JWS and the text of ids, \<open>cookie_lib\<close> securecookie, \<open>rate_lib\<close> the
  token bucket, \<open>mail_lib\<close> the address parser and encodings, \<open>sql_table\<close> the statements GORM issues against
  one table, \<open>migrator\<close> the schema migration, \<open>collector\<close> the log service. What a theorem needs of them is
  a hypothesis with a name (\<open>pem_laws\<close>, \<open>jws_laws\<close>, \<open>sealing\<close>, \<open>uuid_text\<close>, \<open>bucket_refills\<close> and others) which
  restates their documentation, and the witnesses instantiate it.

  \<^bold>\<open>Theories and sources.\<close>

  \<^item> Domain, Domain_Facts, Domain_Properties: internal/domain; normal forms, validation, lifetimes,
    paging, the password policy.
  \<^item> Prelude, GoStd, GoText, GoUrl, GoJson, Base64Url, Http: the library parts named above. Runtime:
    the environment of a run, internal/token/hasher.go and pkce.go, internal/clock.
  \<^item> Store_Interfaces: internal/store, with the contracts; Mem_Codes, Mem_Stores, Mem_Users,
    Login_Attempts, Mem_World: internal/store/memory and the state of a server on it.
  \<^item> Sql_Tables, Sql_Entities, Sql_Stores, Sql_Users, Sql_World: internal/store/gormstore over tables;
    Code_Book and Sql_Codes (both code stores refine one abstract book), Sql_Lockout (the SQL tracker
    answers as the memory tracker), Sql_Clients (what is written is read back).
  \<^item> Key_Manager, Issuer, Client_Assertion: internal/token; Key_Properties, Assertion_Properties.
  \<^item> Grant_AuthCode, Grant_Refresh, Grant_ClientCreds: internal/oidc/grants; Client_Auth and
    Token_Endpoint: clientauth.go, token.go, revoke.go. Redemption is the shape the two redeeming
    grants share, a compare-and-set between read-only checks and the issuance, and the locale proves
    once that no interleaving redeems twice; Grant_Properties, Refresh_Properties, Refresh_Race,
    Lineage (the invariant along chains of refresh tokens), Token_Properties.
  \<^item> DP_Keys, Browser_Session: internal/session, session_resolver.go, csrf_guard.go, api.go; Authorize,
    Login, Logout, Account, Password_Reset, Protocol_Endpoints: the other handlers of internal/oidc;
    Session_Effects, Cookie_Properties, Authorize_Properties, Login_Properties, Account_Properties.
  \<^item> Admin_Gate, Admin_Views, Admin_Resources, Admin_Users, Admin_Api: internal/admin; Admin_Properties,
    Admin_Secrets, Admin_Accounts, Admin_Roles.
  \<^item> Rate_Limiter, Router: internal/server; Config: internal/config; Mail: internal/mail; Error_Log:
    internal/errlog, the projection of a record, what is logged of a failed request, and the sink.
  \<^item> Server (the wiring), Sql_Bundle (the stores of the running server), Seed, Start: cmd/authserver;
    Server_Properties, Start_Properties. Frames proves, from the stores' operations as assumptions, that
    a relation kept by every operation is kept by every request; Server_Frames applies it to the server
    on the memory stores and to the running server with its database.
  \<^item> Sample and Sample_Browser hold the small deployment on which the witnesses evaluate the handlers.

  \<^bold>\<open>What is shown.\<close> A code or refresh token is redeemed once under any interleaving, replay is refused
  and reuse ends the family (C1 to C8); codes go only to live sessions and registered redirect URIs
  and can be redeemed (C9 to C11); signing in needs valid credentials and guessing is locked out
  (C12 to C14, and C38 on where the browser goes next); keys rotate without breaking published tokens or
  set cookies (C15 to C17); assertions, client authentication, revocation and the bounded walk along a
  chain (C18 to C22); password reset, logout, profile, UserInfo and the forgotten-password answer
  (C23 to C27); over any requests to the running server nothing that ended comes back (C3) and
  powers change by administrators only (C28); limiters and an answer to every request (C29 to C31); the
  admin API tells no secrets and keeps the clients in form (C33, C34); start, mail and the log (C35, C37,
  C32, C36); what the database gives back and the lifetimes at the ends of their range (C39, C40). The
  text before each property states it.

  \<^bold>\<open>Bounds.\<close> The walk from a refresh token to the root of its chain stops after \<open>maxDepth\<close>, 1000
  ancestors, as the code does, so it ends on cyclic stores too. Loops of the parsers consume their
  input, and each has its termination proof; \<open>skip_value\<close> in Admin_Views, which passes over a JSON value, has twice the length of the
  text as fuel, enough because a byte goes at least every second step, and a nesting limit of 10000 as
  encoding/json has. The queue of the log has room for
  256 events, as in the code. Nothing else is bounded.

  \<^bold>\<open>Not modelled.\<close> The listener, signals and the graceful stop (input and output of the process); the
  local JSON log of slog and the walk over the call stack, which change no answer and no store; the \<open>detail\<close> text of admin errors; the
  connection between GORM and a database server, whose statements are the parameter \<open>sql_table\<close>: under
  its laws a statement fails only where no row is found or a key or a unique value is taken, and the
  column sizes in the tags of entities.go bound nothing; a panic with \<open>http.ErrAbortHandler\<close>, which the router
  would pass on and no code of the repository raises; \<open>strings.EqualFold\<close> on letters outside ASCII (GoText);
  examples/loginflow, a demonstration client outside the server. A nil slice and an empty one are the
  same list. The handlers are atomic over the stores except where a property says that they interleave.
\<close>

end
